(* ===== verification/Prelude.thy ===== *)
theory Prelude
  imports Main "HOL-Library.Char_ord" "HOL-Library.List_Lexorder"
begin

text \<open>
  Shared vocabulary of the development: Python exceptions as values, the two computation types
  (a pure result that may raise, and a stateful operation that may raise after it has already
  changed the state), invariants of stateful operations, and keyed tables that stand for the
  SQLite tables behind the repositories. Strings are compared as Python compares them
  (lexicographically on code points), which is the order of \<open>List_Lexorder\<close>.
\<close>

section \<open>Collections of rules\<close>

named_theorems op_simps \<open>computation rules of the stateful operations\<close>
named_theorems keeps_intros \<open>an operation keeps an invariant\<close>
named_theorems fails_intros \<open>an operation that raises leaves an invariant true\<close>
named_theorems wp_simps \<open>weakest preconditions of operations\<close>
named_theorems json_simps \<open>encoders and decoders, for round trips\<close>

section \<open>Python exceptions\<close>

datatype pyerr =
    ValueError string
  | KeyError string
  | TypeError string
  | PermissionError string
  | RuntimeError string
  | OverflowError string
  | ZeroDivisionError
  | IntegrityError string
  | OtherError string string

text \<open>The name that \<open>exc.__class__.__name__\<close> yields.\<close>

fun err_class :: "pyerr \<Rightarrow> string" where
  "err_class (ValueError _) = ''ValueError''"
| "err_class (KeyError _) = ''KeyError''"
| "err_class (TypeError _) = ''TypeError''"
| "err_class (PermissionError _) = ''PermissionError''"
| "err_class (RuntimeError _) = ''RuntimeError''"
| "err_class (OverflowError _) = ''OverflowError''"
| "err_class ZeroDivisionError = ''ZeroDivisionError''"
| "err_class (IntegrityError _) = ''IntegrityError''"
| "err_class (OtherError c _) = c"

section \<open>Pure computations that may raise\<close>

type_synonym 'a res = "pyerr + 'a"

definition bindR :: "'a res \<Rightarrow> ('a \<Rightarrow> 'b res) \<Rightarrow> 'b res" where
  "bindR m f = (case m of Inl e \<Rightarrow> Inl e | Inr x \<Rightarrow> f x)"

definition guardR :: "bool \<Rightarrow> pyerr \<Rightarrow> unit res" where
  "guardR b e = (if b then Inr () else Inl e)"

definition ofOption :: "pyerr \<Rightarrow> 'a option \<Rightarrow> 'a res" where
  "ofOption e x = (case x of None \<Rightarrow> Inl e | Some y \<Rightarrow> Inr y)"

fun mapR :: "('a \<Rightarrow> 'b res) \<Rightarrow> 'a list \<Rightarrow> 'b list res" where
  "mapR f [] = Inr []"
| "mapR f (x # xs) = bindR (f x) (\<lambda>y. bindR (mapR f xs) (\<lambda>ys. Inr (y # ys)))"

fun foldR :: "('a \<Rightarrow> 'b \<Rightarrow> 'b res) \<Rightarrow> 'a list \<Rightarrow> 'b \<Rightarrow> 'b res" where
  "foldR f [] b = Inr b"
| "foldR f (x # xs) b = bindR (f x b) (\<lambda>b'. foldR f xs b')"

fun checkR :: "('a \<Rightarrow> unit res) \<Rightarrow> 'a list \<Rightarrow> unit res" where
  "checkR f [] = Inr ()"
| "checkR f (x # xs) = bindR (f x) (\<lambda>_. checkR f xs)"

lemma bindR_simps [simp]:
  "bindR (Inr x) f = f x"
  "bindR (Inl e) f = Inl e"
  by (simp_all add: bindR_def)

lemma bindR_Inr_iff: "bindR m f = Inr y \<longleftrightarrow> (\<exists>x. m = Inr x \<and> f x = Inr y)"
  by (cases m) auto

lemma bindR_Inl_iff: "bindR m f = Inl e \<longleftrightarrow> m = Inl e \<or> (\<exists>x. m = Inr x \<and> f x = Inl e)"
  by (cases m) auto

lemma guardR_simps [simp]:
  "guardR True e = Inr ()"
  "guardR False e = Inl e"
  "guardR b e = Inr u \<longleftrightarrow> b"
  by (simp_all add: guardR_def)

lemma guardR_Inl_iff [simp]: "guardR b e = Inl e' \<longleftrightarrow> \<not> b \<and> e' = e"
  by (auto simp: guardR_def)

lemma ofOption_simps [simp]:
  "ofOption e (Some x) = Inr x"
  "ofOption e None = Inl e"
  "ofOption e y = Inr x \<longleftrightarrow> y = Some x"
  by (auto simp: ofOption_def split: option.splits)

lemma mapR_map:
  assumes "\<And>x. x \<in> set xs \<Longrightarrow> f (g x) = Inr (h x)"
  shows "mapR f (map g xs) = Inr (map h xs)"
  using assms by (induction xs) auto

lemma mapR_map_id:
  assumes "\<And>x. x \<in> set xs \<Longrightarrow> f (g x) = Inr x"
  shows "mapR f (map g xs) = Inr xs"
  using assms by (induction xs) auto

lemma mapR_Inr_iff: "mapR f xs = Inr ys \<longleftrightarrow> list_all2 (\<lambda>x y. f x = Inr y) xs ys"
  by (induction xs arbitrary: ys) (auto simp: bindR_Inr_iff list_all2_Cons1)

lemma mapR_Inr_in:
  assumes "mapR f xs = Inr ys" and "x \<in> set xs"
  obtains y where "f x = Inr y" "y \<in> set ys"
  using assms by (induction xs arbitrary: ys) (auto simp: bindR_Inr_iff)

lemma mapR_length: "mapR f xs = Inr ys \<Longrightarrow> length ys = length xs"
  by (auto simp: mapR_Inr_iff dest: list_all2_lengthD)

lemma checkR_Inr_iff [simp]: "checkR f xs = Inr u \<longleftrightarrow> (\<forall>x \<in> set xs. f x = Inr ())"
  by (induction xs) (auto simp: bindR_Inr_iff)

section \<open>Stateful operations that may raise\<close>

text \<open>
  A Python method that mutates its objects and then raises leaves its mutations in place, so
  an operation returns the new state on both branches. The exceptions are \<open>pyerr\<close> except where a
  component tells its own private exception classes apart.
\<close>

type_synonym ('e, 's, 'a) eopr = "'s \<Rightarrow> ('e + 'a) \<times> 's"

type_synonym ('s, 'a) opr = "(pyerr, 's, 'a) eopr"

definition retO :: "'a \<Rightarrow> ('e, 's, 'a) eopr" where
  "retO x = (\<lambda>s. (Inr x, s))"

definition raiseO :: "'e \<Rightarrow> ('e, 's, 'a) eopr" where
  "raiseO e = (\<lambda>s. (Inl e, s))"

definition bindO :: "('e, 's, 'a) eopr \<Rightarrow> ('a \<Rightarrow> ('e, 's, 'b) eopr) \<Rightarrow> ('e, 's, 'b) eopr" where
  "bindO m f = (\<lambda>s. case m s of (Inl e, s') \<Rightarrow> (Inl e, s') | (Inr x, s') \<Rightarrow> f x s')"

definition thenO :: "('e, 's, 'a) eopr \<Rightarrow> ('e, 's, 'b) eopr \<Rightarrow> ('e, 's, 'b) eopr" where
  "thenO m n = bindO m (\<lambda>_. n)"

definition getO :: "('s \<Rightarrow> 'a) \<Rightarrow> ('e, 's, 'a) eopr" where
  "getO f = (\<lambda>s. (Inr (f s), s))"

definition modO :: "('s \<Rightarrow> 's) \<Rightarrow> ('e, 's, unit) eopr" where
  "modO f = (\<lambda>s. (Inr (), f s))"

definition liftO :: "'e + 'a \<Rightarrow> ('e, 's, 'a) eopr" where
  "liftO r = (\<lambda>s. (r, s))"

definition whenO :: "bool \<Rightarrow> ('e, 's, unit) eopr \<Rightarrow> ('e, 's, unit) eopr" where
  "whenO b m = (if b then m else retO ())"

text \<open>\<open>try: m except: h\<close>; the handler decides which exceptions it re-raises.\<close>

definition catchO :: "('e, 's, 'a) eopr \<Rightarrow> ('e \<Rightarrow> ('f, 's, 'a) eopr) \<Rightarrow> ('f, 's, 'a) eopr" where
  "catchO m h = (\<lambda>s. case m s of (Inl e, s') \<Rightarrow> h e s' | (Inr x, s') \<Rightarrow> (Inr x, s'))"

fun seqO :: "('e, 's, unit) eopr list \<Rightarrow> ('e, 's, unit) eopr" where
  "seqO [] = retO ()"
| "seqO (m # ms) = thenO m (seqO ms)"

fun forO :: "('a \<Rightarrow> ('e, 's, unit) eopr) \<Rightarrow> 'a list \<Rightarrow> ('e, 's, unit) eopr" where
  "forO f [] = retO ()"
| "forO f (x # xs) = thenO (f x) (forO f xs)"

lemma opr_apply [simp, op_simps]:
  "retO x s = (Inr x, s)"
  "raiseO e s = (Inl e, s)"
  "getO f s = (Inr (f s), s)"
  "modO g s = (Inr (), g s)"
  "liftO r s = (r, s)"
  "whenO True m' = m'"
  "whenO False m' = retO ()"
  by (simp_all add: retO_def raiseO_def getO_def modO_def liftO_def whenO_def)

lemma bindO_apply [op_simps]:
  "bindO m f s = (case m s of (Inl e, s') \<Rightarrow> (Inl e, s') | (Inr x, s') \<Rightarrow> f x s')"
  by (simp add: bindO_def)

lemma thenO_apply [op_simps]:
  "thenO m n s = (case m s of (Inl e, s') \<Rightarrow> (Inl e, s') | (Inr x, s') \<Rightarrow> n s')"
  by (simp add: thenO_def bindO_def)

lemma catchO_apply [op_simps]:
  "catchO m h s = (case m s of (Inl e, s') \<Rightarrow> h e s' | (Inr x, s') \<Rightarrow> (Inr x, s'))"
  by (simp add: catchO_def)

lemma bindO_step [simp]:
  "bindO (retO x) f s = f x s"
  "bindO (raiseO e) f s = (Inl e, s)"
  "bindO (getO g) f s = f (g s) s"
  "bindO (modO u) k s = k () (u s)"
  "bindO (liftO (Inr x)) f s = f x s"
  "bindO (liftO (Inl e)) f s = (Inl e, s)"
  "thenO (modO u) n s = n (u s)"
  "thenO (retO x) n s = n s"
  "thenO (raiseO e) n s = (Inl e, s)"
  by (simp_all add: bindO_apply thenO_apply)

lemma bindO_Inr_iff:
  "bindO m f s = (Inr y, t) \<longleftrightarrow> (\<exists>x s'. m s = (Inr x, s') \<and> f x s' = (Inr y, t))"
  by (auto simp: bindO_apply split: prod.splits sum.splits)

lemma thenO_Inr_iff:
  "thenO m n s = (Inr y, t) \<longleftrightarrow> (\<exists>x s'. m s = (Inr x, s') \<and> n s' = (Inr y, t))"
  by (auto simp: thenO_def bindO_Inr_iff)

lemma liftO_Inr_iff: "liftO r s = (Inr x, t) \<longleftrightarrow> r = Inr x \<and> t = s"
  by auto

section \<open>Weakest preconditions\<close>

text \<open>
  \<open>wp m Q E s\<close>: run from \<open>s\<close>, the operation ends in \<open>Q\<close> when it returns and in \<open>E\<close> when it
  raises. Every operation terminates (it is a function), so this is total correctness. The
  equations push \<open>wp\<close> through an operation from left to right, without nesting case distinctions.
\<close>

definition wp :: "('e, 's, 'a) eopr \<Rightarrow> ('a \<Rightarrow> 's \<Rightarrow> bool) \<Rightarrow> ('e \<Rightarrow> 's \<Rightarrow> bool) \<Rightarrow> 's \<Rightarrow> bool" where
  "wp m Q E s \<longleftrightarrow> (case m s of (Inl e, t) \<Rightarrow> E e t | (Inr x, t) \<Rightarrow> Q x t)"

lemma wp_Inr: "wp m Q E s \<Longrightarrow> m s = (Inr x, t) \<Longrightarrow> Q x t"
  by (simp add: wp_def)

lemma wp_Inl: "wp m Q E s \<Longrightarrow> m s = (Inl e, t) \<Longrightarrow> E e t"
  by (simp add: wp_def)

lemma wp_mono: "wp m Q E s \<Longrightarrow> (\<And>x t. Q x t \<Longrightarrow> Q' x t) \<Longrightarrow> (\<And>e t. E e t \<Longrightarrow> E' e t) \<Longrightarrow> wp m Q' E' s"
  by (auto simp: wp_def split: prod.splits sum.splits)

lemma wp_basic [wp_simps]:
  "wp (retO x) Q E s = Q x s"
  "wp (raiseO e) Q0 E s = E e s"
  "wp (getO f) Q1 E s = Q1 (f s) s"
  "wp (modO g) Q2 E s = Q2 () (g s)"
  "wp (liftO (Inr y)) Q3 E s = Q3 y s"
  "wp (liftO (Inl e)) Q4 E s = E e s"
  by (simp_all add: wp_def)

lemma wp_bind [wp_simps]: "wp (bindO m f) Q E s = wp m (\<lambda>x t. wp (f x) Q E t) E s"
  by (auto simp: wp_def bindO_apply split: prod.splits sum.splits)

lemma wp_then [wp_simps]: "wp (thenO m n) Q E s = wp m (\<lambda>x t. wp n Q E t) E s"
  by (simp add: thenO_def wp_bind)

lemma wp_catch [wp_simps]: "wp (catchO m h) Q E s = wp m Q (\<lambda>e t. wp (h e) Q E t) s"
  by (auto simp: wp_def catchO_apply split: prod.splits sum.splits)

lemma wp_when [wp_simps]: "wp (whenO b m) Q E s \<longleftrightarrow> (b \<longrightarrow> wp m Q E s) \<and> (\<not> b \<longrightarrow> Q () s)"
  by (simp add: whenO_def wp_basic)

lemma wp_if [wp_simps]: "wp (if b then m else n) Q E s \<longleftrightarrow> (b \<longrightarrow> wp m Q E s) \<and> (\<not> b \<longrightarrow> wp n Q E s)"
  by simp

lemma wp_seq [wp_simps]:
  "wp (seqO []) Q E s = Q () s"
  "wp (seqO (m # ms)) Q E s = wp m (\<lambda>x t. wp (seqO ms) Q E t) E s"
  by (simp_all add: wp_basic wp_then)

lemma wp_lift: "wp (liftO r) Q E s = (case r of Inl e \<Rightarrow> E e s | Inr x \<Rightarrow> Q x s)"
  by (simp add: wp_def)

section \<open>Invariants of operations\<close>

text \<open>
  \<open>keeps I m\<close>: whatever branch \<open>m\<close> takes, it leaves \<open>I\<close> true. The rules below follow the
  structure of an operation, so an invariant proof reduces to the state updates.
\<close>

definition keeps :: "('s \<Rightarrow> bool) \<Rightarrow> ('e, 's, 'a) eopr \<Rightarrow> bool" where
  "keeps I m \<longleftrightarrow> (\<forall>s. I s \<longrightarrow> I (snd (m s)))"

lemma keepsI: "(\<And>s. I s \<Longrightarrow> I (snd (m s))) \<Longrightarrow> keeps I m"
  by (simp add: keeps_def)

lemma keepsD: "keeps I m \<Longrightarrow> I s \<Longrightarrow> m s = (r, t) \<Longrightarrow> I t"
  by (metis keeps_def snd_conv)

lemma keeps_ret [keeps_intros]: "keeps I (retO x)"
  by (simp add: keeps_def)

lemma keeps_raise [keeps_intros]: "keeps I (raiseO e)"
  by (simp add: keeps_def)

lemma keeps_get [keeps_intros]: "keeps I (getO f)"
  by (simp add: keeps_def)

lemma keeps_lift [keeps_intros]: "keeps I (liftO r)"
  by (simp add: keeps_def)

lemma keeps_mod: "(\<And>s. I s \<Longrightarrow> I (g s)) \<Longrightarrow> keeps I (modO g)"
  by (simp add: keeps_def)

lemma keeps_bind [keeps_intros]:
  assumes "keeps I m" and "\<And>x. keeps I (f x)"
  shows "keeps I (bindO m f)"
proof (rule keepsI)
  fix s assume s: "I s"
  obtain r t where m: "m s = (r, t)" by fastforce
  have t: "I t" using keepsD [OF assms(1) s m] .
  show "I (snd (bindO m f s))"
  proof (cases r)
    case (Inl e) then show ?thesis using m t by (simp add: bindO_apply)
  next
    case (Inr x) then show ?thesis using m t assms(2) by (simp add: bindO_apply keeps_def)
  qed
qed

lemma keeps_then [keeps_intros]: "keeps I m \<Longrightarrow> keeps I n \<Longrightarrow> keeps I (thenO m n)"
  unfolding thenO_def by (rule keeps_bind)

lemma keeps_when [keeps_intros]: "(b \<Longrightarrow> keeps I m) \<Longrightarrow> keeps I (whenO b m)"
  by (simp add: whenO_def keeps_ret)

lemma keeps_if [keeps_intros]:
  "(b \<Longrightarrow> keeps I m) \<Longrightarrow> (\<not> b \<Longrightarrow> keeps I n) \<Longrightarrow> keeps I (if b then m else n)"
  by simp

lemma keeps_case_option [keeps_intros]:
  "(x = None \<Longrightarrow> keeps I m) \<Longrightarrow> (\<And>y. x = Some y \<Longrightarrow> keeps I (f y)) \<Longrightarrow>
   keeps I (case x of None \<Rightarrow> m | Some y \<Rightarrow> f y)"
  by (cases x) auto

lemma keeps_case_prod [keeps_intros]:
  "(\<And>a b. x = (a, b) \<Longrightarrow> keeps I (f a b)) \<Longrightarrow> keeps I (case x of (a, b) \<Rightarrow> f a b)"
  by (cases x) auto

lemma keeps_let [keeps_intros]: "keeps I (f x) \<Longrightarrow> keeps I (let y = x in f y)"
  by simp

lemma keeps_catch [keeps_intros]:
  assumes "keeps I m" and "\<And>e. keeps I (h e)"
  shows "keeps I (catchO m h)"
proof (rule keepsI)
  fix s assume s: "I s"
  obtain r t where m: "m s = (r, t)" by fastforce
  have t: "I t" using keepsD [OF assms(1) s m] .
  show "I (snd (catchO m h s))"
    using m t assms(2) by (cases r) (auto simp: catchO_apply keeps_def)
qed

lemma keeps_seq [keeps_intros]: "(\<And>m. m \<in> set ms \<Longrightarrow> keeps I m) \<Longrightarrow> keeps I (seqO ms)"
  by (induction ms) (auto intro: keeps_intros)

lemma keeps_for [keeps_intros]: "(\<And>x. x \<in> set xs \<Longrightarrow> keeps I (f x)) \<Longrightarrow> keeps I (forO f xs)"
  by (induction xs) (auto intro: keeps_intros)

lemma keeps_conj: "keeps I m \<Longrightarrow> keeps J m \<Longrightarrow> keeps (\<lambda>s. I s \<and> J s) m"
  by (simp add: keeps_def)

text \<open>An operation that never writes a part of the state keeps every fact about that part.\<close>

definition frames :: "('s \<Rightarrow> 'b) \<Rightarrow> ('e, 's, 'a) eopr \<Rightarrow> bool" where
  "frames p m \<longleftrightarrow> (\<forall>s. p (snd (m s)) = p s)"

lemma frames_keeps: "frames p m \<longleftrightarrow> (\<forall>v. keeps (\<lambda>s. p s = v) m)"
  by (auto simp: frames_def keeps_def)

lemma framesI: "(\<And>v. keeps (\<lambda>s. p s = v) m) \<Longrightarrow> frames p m"
  by (simp add: frames_keeps)

lemma framesD: "frames p m \<Longrightarrow> m s = (r, t) \<Longrightarrow> p t = p s"
  by (metis frames_def snd_conv)

lemma frames_keepsD: "frames p m \<Longrightarrow> keeps (\<lambda>s. Q (p s)) m"
  by (simp add: frames_def keeps_def)

lemma frames_bind [keeps_intros]: "frames p m \<Longrightarrow> (\<And>x. frames p (f x)) \<Longrightarrow> frames p (bindO m f)"
  unfolding frames_keeps by (auto intro: keeps_intros)

lemma frames_then [keeps_intros]: "frames p m \<Longrightarrow> frames p n \<Longrightarrow> frames p (thenO m n)"
  unfolding frames_keeps by (auto intro: keeps_intros)

lemma frames_basic [keeps_intros]:
  "frames p (retO x)" "frames p (raiseO e)" "frames p (getO f)" "frames p (liftO r)"
  by (auto simp: frames_def)

lemma frames_if [keeps_intros]: "frames p m \<Longrightarrow> frames p n \<Longrightarrow> frames p (if b then m else n)"
  by simp

lemma frames_const: "frames p m \<Longrightarrow> keeps (\<lambda>s. p s = v) m"
  by (simp add: frames_keeps)

section \<open>What an operation that raises leaves behind\<close>

definition fails_in :: "('s \<Rightarrow> bool) \<Rightarrow> ('e, 's, 'a) eopr \<Rightarrow> bool" where
  "fails_in I m \<longleftrightarrow> (\<forall>s e t. I s \<longrightarrow> m s = (Inl e, t) \<longrightarrow> I t)"

lemma fails_inD: "fails_in I m \<Longrightarrow> I s \<Longrightarrow> m s = (Inl e, t) \<Longrightarrow> I t"
  by (auto simp: fails_in_def)

lemma fails_in_keeps: "keeps I m \<Longrightarrow> fails_in I m"
  by (auto simp: fails_in_def dest: keepsD)

lemma fails_in_mod [fails_intros]: "fails_in I (modO g)"
  by (simp add: fails_in_def)

lemma fails_in_ret [fails_intros]: "fails_in I (retO x)"
  by (simp add: fails_in_def)

lemma fails_in_bind [fails_intros]:
  assumes "keeps I m" and "\<And>x. fails_in I (f x)"
  shows "fails_in I (bindO m f)"
  unfolding fails_in_def
proof (intro allI impI)
  fix s e t assume s: "I s" and r: "bindO m f s = (Inl e, t)"
  obtain r' s' where m: "m s = (r', s')" by fastforce
  have "I s'" using keepsD [OF assms(1) s m] .
  then show "I t"
    using r m assms(2) by (cases r') (auto simp: bindO_apply fails_in_def)
qed

lemma fails_in_then [fails_intros]: "keeps I m \<Longrightarrow> fails_in I n \<Longrightarrow> fails_in I (thenO m n)"
  unfolding thenO_def by (rule fails_in_bind)

lemma fails_in_seq [fails_intros]:
  "(\<And>m. m \<in> set (butlast ms) \<Longrightarrow> keeps I m) \<Longrightarrow> (ms \<noteq> [] \<Longrightarrow> fails_in I (last ms)) \<Longrightarrow> fails_in I (seqO ms)"
proof (induction ms)
  case (Cons m ms)
  show ?case
  proof (cases "ms = []")
    case True
    then have "fails_in I m" using Cons.prems(2) by simp
    then show ?thesis
      unfolding True
      by (auto simp: fails_in_def thenO_apply split: prod.splits sum.splits)
  next
    case False
    then show ?thesis
      using Cons by (auto intro!: fails_in_then)
  qed
qed (simp add: fails_in_ret)

lemma seqO_Inr_Cons: "seqO (m # ms) s = (Inr u, t) \<longleftrightarrow> (\<exists>s'. m s = (Inr (), s') \<and> seqO ms s' = (Inr u, t))"
  by (auto simp: thenO_Inr_iff)

lemma seqO_append_Inr:
  "seqO (xs @ ys) s = (Inr u, t) \<longleftrightarrow> (\<exists>s'. seqO xs s = (Inr (), s') \<and> seqO ys s' = (Inr u, t))"
  by (induction xs arbitrary: s) (auto simp: seqO_Inr_Cons simp del: seqO.simps(2))

section \<open>Where a part of the state ends up\<close>

text \<open>
  \<open>settles p a R m\<close>: started with \<open>a\<close> in the part \<open>p\<close> of the state, the operation leaves a value
  satisfying \<open>R\<close> there, on every branch. Steps that frame the part can be skipped.
\<close>

definition settles :: "('s \<Rightarrow> 'b) \<Rightarrow> 'b \<Rightarrow> ('b \<Rightarrow> bool) \<Rightarrow> ('e, 's, 'a) eopr \<Rightarrow> bool" where
  "settles p a R m \<longleftrightarrow> (\<forall>s. p s = a \<longrightarrow> R (p (snd (m s))))"

lemma settlesD: "settles p a R m \<Longrightarrow> p s = a \<Longrightarrow> R (p (snd (m s)))"
  by (simp add: settles_def)

lemma settles_frames: "frames p m \<Longrightarrow> R a \<Longrightarrow> settles p a R m"
  by (simp add: frames_def settles_def)

lemma settles_skip:
  assumes "frames p m" and "R a" and "\<And>x. settles p a R (f x)"
  shows "settles p a R (bindO m f)"
  unfolding settles_def
proof (intro allI impI)
  fix s assume s: "p s = a"
  obtain r t where m: "m s = (r, t)" by fastforce
  have t: "p t = a" using framesD [OF assms(1) m] s by simp
  show "R (p (snd (bindO m f s)))"
    using m t assms(2,3) by (cases r) (auto simp: bindO_apply settles_def)
qed

lemma settles_skip_then: "frames p m \<Longrightarrow> R a \<Longrightarrow> settles p a R n \<Longrightarrow> settles p a R (thenO m n)"
  unfolding thenO_def by (rule settles_skip)

lemma settles_end:
  assumes "settles p a R m" and "\<And>x. frames p (f x)"
  shows "settles p a R (bindO m f)"
  unfolding settles_def
proof (intro allI impI)
  fix s assume s: "p s = a"
  obtain r t where m: "m s = (r, t)" by fastforce
  have t: "R (p t)" using settlesD [OF assms(1) s] m by simp
  show "R (p (snd (bindO m f s)))"
    using m t assms(2) by (cases r) (auto simp: bindO_apply frames_def)
qed

lemma settles_read:
  assumes "\<And>s. p s = a \<Longrightarrow> m s = (Inr x, s)" and "settles p a R (f x)"
  shows "settles p a R (bindO m f)"
  using assms by (auto simp: settles_def bindO_apply)

lemma settles_catch:
  assumes "settles p a R m" and "\<And>e. frames p (h e)"
  shows "settles p a R (catchO m h)"
  unfolding settles_def
proof (intro allI impI)
  fix s assume s: "p s = a"
  obtain r t where m: "m s = (r, t)" by fastforce
  have t: "R (p t)" using settlesD [OF assms(1) s] m by simp
  show "R (p (snd (catchO m h s)))"
    using m t assms(2) by (cases r) (auto simp: catchO_apply frames_def)
qed

lemma settles_if: "(b \<Longrightarrow> settles p a R m) \<Longrightarrow> (\<not> b \<Longrightarrow> settles p a R n) \<Longrightarrow> settles p a R (if b then m else n)"
  by simp

lemma keeps_frames_eq: "frames p m \<Longrightarrow> keeps (\<lambda>s. p s = v) m"
  by (rule frames_const)

end
