(* ===== verification/PyFloat.thy ===== *)
theory PyFloat
  imports Prelude Complex_Main
begin

text \<open>
  Python's \<open>float\<close>: IEEE 754 binary64 with round-half-to-even, over exact rationals. A finite
  value is the rational it denotes; \<open>fl\<close> is the correctly rounded conversion of an exact result,
  so every operation below is the exact operation followed by one rounding, as the standard
  requires. The sign of zero is the one thing not kept: \<open>-0.0 == 0.0\<close> in every comparison and
  only its printed form differs. Comparisons with NaN are false and Python's \<open>max\<close>/\<open>min\<close> keep
  their first argument unless the second one wins the comparison.
\<close>

datatype pyfloat = Fin rat | PInf | NInf | NaN

section \<open>Rounding\<close>

function ilog2 :: "int \<Rightarrow> int" where
  "ilog2 n = (if n < 2 then 0 else 1 + ilog2 (n div 2))"
  by pat_completeness auto
termination
  by (relation "measure nat") auto

declare ilog2.simps [simp del]

definition rne :: "rat \<Rightarrow> int" where
  "rne q = (let f = \<lfloor>q\<rfloor>; d = q - of_int f in
     if d < 1 / 2 then f else if 1 / 2 < d then f + 1 else if even f then f else f + 1)"

text \<open>\<open>pow2 e\<close> is \<open>2\<^sup>e\<close> for any integer exponent; \<open>expo q\<close> is the binary exponent of \<open>q\<close>.\<close>

definition pow2 :: "int \<Rightarrow> rat" where
  "pow2 e = (if 0 \<le> e then 2 ^ nat e else 1 / 2 ^ nat (- e))"

definition expo :: "rat \<Rightarrow> int" where
  "expo q = (let (n, d) = quotient_of q;
                 e = ilog2 n - ilog2 d
             in if pow2 e \<le> q then e else e - 1)"

definition ulp_exp :: "rat \<Rightarrow> int" where
  "ulp_exp q = (if q = 0 then -1074 else max (- 1074) (expo \<bar>q\<bar> - 52))"

definition round53 :: "rat \<Rightarrow> rat" where
  "round53 q = of_int (rne (q / pow2 (ulp_exp q))) * pow2 (ulp_exp q)"

definition fl :: "rat \<Rightarrow> pyfloat" where
  "fl q = (let r = round53 q in
     if 2 ^ 1024 \<le> r then PInf else if r \<le> - (2 ^ 1024) then NInf else Fin r)"

text \<open>The values a \<open>float\<close> can hold.\<close>

definition is_double :: "pyfloat \<Rightarrow> bool" where
  "is_double x \<longleftrightarrow> (case x of Fin q \<Rightarrow> fl q = Fin q | _ \<Rightarrow> True)"

section \<open>Comparisons\<close>

fun flt :: "pyfloat \<Rightarrow> pyfloat \<Rightarrow> bool" where
  "flt (Fin a) (Fin b) = (a < b)"
| "flt (Fin a) PInf = True"
| "flt NInf (Fin b) = True"
| "flt NInf PInf = True"
| "flt _ _ = False"

fun feq :: "pyfloat \<Rightarrow> pyfloat \<Rightarrow> bool" where
  "feq NaN _ = False"
| "feq _ NaN = False"
| "feq x y = (x = y)"

definition fle :: "pyfloat \<Rightarrow> pyfloat \<Rightarrow> bool" where
  "fle x y \<longleftrightarrow> flt x y \<or> feq x y"

text \<open>\<open>x > y\<close> and \<open>x >= y\<close> are the mirrored comparisons.\<close>

abbreviation fgt :: "pyfloat \<Rightarrow> pyfloat \<Rightarrow> bool" where "fgt x y \<equiv> flt y x"
abbreviation fge :: "pyfloat \<Rightarrow> pyfloat \<Rightarrow> bool" where "fge x y \<equiv> fle y x"

text \<open>Truth value: \<open>0.0\<close> is false, NaN is true.\<close>

definition ftrue :: "pyfloat \<Rightarrow> bool" where
  "ftrue x \<longleftrightarrow> x \<noteq> Fin 0"

definition fmax :: "pyfloat \<Rightarrow> pyfloat \<Rightarrow> pyfloat" where
  "fmax x y = (if fgt y x then y else x)"

definition fmin :: "pyfloat \<Rightarrow> pyfloat \<Rightarrow> pyfloat" where
  "fmin x y = (if flt y x then y else x)"

section \<open>Arithmetic\<close>

fun fneg :: "pyfloat \<Rightarrow> pyfloat" where
  "fneg (Fin a) = Fin (- a)"
| "fneg PInf = NInf"
| "fneg NInf = PInf"
| "fneg NaN = NaN"

fun fabs :: "pyfloat \<Rightarrow> pyfloat" where
  "fabs (Fin a) = Fin \<bar>a\<bar>"
| "fabs NaN = NaN"
| "fabs _ = PInf"

fun fadd :: "pyfloat \<Rightarrow> pyfloat \<Rightarrow> pyfloat" where
  "fadd (Fin a) (Fin b) = fl (a + b)"
| "fadd NaN _ = NaN"
| "fadd _ NaN = NaN"
| "fadd PInf NInf = NaN"
| "fadd NInf PInf = NaN"
| "fadd (Fin a) y = y"
| "fadd x _ = x"

definition fsub :: "pyfloat \<Rightarrow> pyfloat \<Rightarrow> pyfloat" where
  "fsub x y = fadd x (fneg y)"

definition inf_sign :: "rat \<Rightarrow> pyfloat" where
  "inf_sign a = (if a = 0 then NaN else if 0 < a then PInf else NInf)"

fun fmul :: "pyfloat \<Rightarrow> pyfloat \<Rightarrow> pyfloat" where
  "fmul (Fin a) (Fin b) = fl (a * b)"
| "fmul NaN _ = NaN"
| "fmul _ NaN = NaN"
| "fmul (Fin a) PInf = inf_sign a"
| "fmul (Fin a) NInf = inf_sign (- a)"
| "fmul PInf (Fin b) = inf_sign b"
| "fmul NInf (Fin b) = inf_sign (- b)"
| "fmul PInf y = y"
| "fmul NInf PInf = NInf"
| "fmul NInf NInf = PInf"

text \<open>Division raises on a zero divisor, whatever the dividend.\<close>

fun fdiv :: "pyfloat \<Rightarrow> pyfloat \<Rightarrow> pyfloat res" where
  "fdiv (Fin a) (Fin b) = (if b = 0 then Inl ZeroDivisionError else Inr (fl (a / b)))"
| "fdiv NaN (Fin b) = (if b = 0 then Inl ZeroDivisionError else Inr NaN)"
| "fdiv PInf (Fin b) = (if b = 0 then Inl ZeroDivisionError else Inr (if 0 < b then PInf else NInf))"
| "fdiv NInf (Fin b) = (if b = 0 then Inl ZeroDivisionError else Inr (if 0 < b then NInf else PInf))"
| "fdiv (Fin a) PInf = Inr (Fin 0)"
| "fdiv (Fin a) NInf = Inr (Fin 0)"
| "fdiv _ _ = Inr NaN"

text \<open>An \<open>int\<close> operand of float arithmetic is converted first; a huge one raises.\<close>

definition float_of_int :: "int \<Rightarrow> pyfloat res" where
  "float_of_int n = (case fl (of_int n) of Fin q \<Rightarrow> Inr (Fin q)
     | _ \<Rightarrow> Inl (OverflowError ''int too large to convert to float''))"

text \<open>\<open>int(x)\<close> truncates; \<open>round(x)\<close> and \<open>round(x, n)\<close> round the exact value half to even.\<close>

fun int_of_float :: "pyfloat \<Rightarrow> int res" where
  "int_of_float (Fin q) = Inr (if 0 \<le> q then \<lfloor>q\<rfloor> else \<lceil>q\<rceil>)"
| "int_of_float NaN = Inl (ValueError ''cannot convert float NaN to integer'')"
| "int_of_float _ = Inl (OverflowError ''cannot convert float infinity to integer'')"

fun round0 :: "pyfloat \<Rightarrow> int res" where
  "round0 (Fin q) = Inr (rne q)"
| "round0 NaN = Inl (ValueError ''cannot convert float NaN to integer'')"
| "round0 _ = Inl (OverflowError ''cannot convert float infinity to integer'')"

fun round_n :: "nat \<Rightarrow> pyfloat \<Rightarrow> pyfloat" where
  "round_n n (Fin q) = fl (of_int (rne (q * 10 ^ n)) / 10 ^ n)"
| "round_n n x = x"

text \<open>
  \<open>x // y\<close> as CPython computes it: the remainder is exact, the quotient is rounded, and the
  result is the integer next to the rounded quotient.
\<close>

definition trunc_rat :: "rat \<Rightarrow> int" where
  "trunc_rat q = (if 0 \<le> q then \<lfloor>q\<rfloor> else \<lceil>q\<rceil>)"

definition floor_near :: "pyfloat \<Rightarrow> pyfloat" where
  "floor_near d = (case d of
      Fin q \<Rightarrow> (if q = 0 then Fin 0
               else let f = \<lfloor>q\<rfloor> in if 1 / 2 < q - of_int f then fl (of_int (f + 1)) else fl (of_int f))
    | x \<Rightarrow> x)"

definition ffloordiv :: "pyfloat \<Rightarrow> pyfloat \<Rightarrow> pyfloat res" where
  "ffloordiv x y = (case (x, y) of
      (Fin a, Fin b) \<Rightarrow>
        if b = 0 then Inl ZeroDivisionError
        else let m = a - of_int (trunc_rat (a / b)) * b;
                 q = bindR (fdiv (fsub x (Fin m)) y) (\<lambda>d. Inr d)
             in bindR q (\<lambda>d. Inr (floor_near (if m \<noteq> 0 \<and> (b < 0) \<noteq> (m < 0) then fsub d (Fin 1) else d)))
    | (_, Fin b) \<Rightarrow> if b = 0 then Inl ZeroDivisionError else Inr NaN
    | (Fin a, PInf) \<Rightarrow> Inr (if a < 0 then Fin (- 1) else Fin 0)
    | (Fin a, NInf) \<Rightarrow> Inr (if 0 < a then Fin (- 1) else Fin 0)
    | _ \<Rightarrow> Inr NaN)"

text \<open>\<open>sum\<close> of floats: left to right from the integer 0.\<close>

definition fsum :: "pyfloat list \<Rightarrow> pyfloat" where
  "fsum xs = foldl fadd (Fin 0) xs"

section \<open>The rounding is correct\<close>

text \<open>\<open>rne\<close> is a nearest integer, keeps the order, and is exact on integers.\<close>

lemma rne_of_int [simp]: "rne (of_int n) = n"
  by (simp add: rne_def)

lemma rne_mono:
  assumes "x \<le> y"
  shows "rne x \<le> rne y"
proof -
  have fl_le: "\<lfloor>x\<rfloor> \<le> \<lfloor>y\<rfloor>" using assms by (rule floor_mono)
  have up: "rne z \<le> \<lfloor>z\<rfloor> + 1" and lo: "\<lfloor>z\<rfloor> \<le> rne z" for z
    by (auto simp: rne_def Let_def)
  show ?thesis
  proof (cases "\<lfloor>x\<rfloor> = \<lfloor>y\<rfloor>")
    case True
    then show ?thesis using assms by (auto simp: rne_def Let_def)
  next
    case False
    then have "\<lfloor>x\<rfloor> + 1 \<le> \<lfloor>y\<rfloor>" using fl_le by simp
    then show ?thesis using up [of x] lo [of y] by linarith
  qed
qed

lemma rne_le_int: "x \<le> of_int n \<Longrightarrow> rne x \<le> n"
  using rne_mono [of x "of_int n"] by simp

lemma rne_ge_int: "of_int n \<le> x \<Longrightarrow> n \<le> rne x"
  using rne_mono [of "of_int n" x] by simp

lemma rne_near: "\<bar>of_int (rne x) - x\<bar> \<le> 1 / 2"
proof -
  have "of_int \<lfloor>x\<rfloor> \<le> x" "x < of_int \<lfloor>x\<rfloor> + 1" by linarith+
  then show ?thesis by (auto simp: rne_def Let_def abs_le_iff)
qed

lemma rne_minus: "rne (- x) = - rne x"
proof (cases "x \<in> \<int>")
  case True
  then obtain n where "x = of_int n" by (auto elim: Ints_cases)
  then show ?thesis using rne_of_int [of "- n"] by simp
next
  case False
  then have f: "\<lfloor>- x\<rfloor> = - \<lfloor>x\<rfloor> - 1"
    by (metis Ints_of_int ceiling_altdef ceiling_def diff_minus_eq_add minus_add minus_minus uminus_add_conv_diff add.commute)
  show ?thesis
    unfolding rne_def Let_def f by (auto simp: field_simps)
qed

lemma pow2_pos [simp]: "0 < pow2 e"
  by (simp add: pow2_def)

lemma pow2_nonzero [simp]: "pow2 e \<noteq> 0"
  using pow2_pos [of e] by linarith

lemma pow2_powi: "pow2 e = 2 powi e"
  by (simp add: pow2_def power_int_def field_simps)

lemma pow2_add: "pow2 (a + b) = pow2 a * pow2 b"
  by (simp add: pow2_powi power_int_add)

lemma pow2_diff: "pow2 (a - b) = pow2 a / pow2 b"
  by (simp add: pow2_powi power_int_diff)

lemma pow2_mono: "a \<le> b \<Longrightarrow> pow2 a \<le> pow2 b"
  by (simp add: pow2_powi power_int_increasing)

lemma pow2_strict: "a < b \<Longrightarrow> pow2 a < pow2 b"
  by (simp add: pow2_powi power_int_strict_increasing)

lemma pow2_less_iff: "pow2 a < pow2 b \<longleftrightarrow> a < b"
  using pow2_strict [of a b] pow2_mono [of b a] by force

lemma pow2_le_iff: "pow2 a \<le> pow2 b \<longleftrightarrow> a \<le> b"
  using pow2_less_iff [of b a] by force

lemma pow2_nat: "0 \<le> e \<Longrightarrow> pow2 e = of_int (2 ^ nat e)"
  by (simp add: pow2_def)

text \<open>The binary exponent: \<open>2\<^sup>e \<le> q < 2\<^sup>e\<^sup>+\<^sup>1\<close>.\<close>

lemma ilog2_spec: "1 \<le> n \<Longrightarrow> 0 \<le> ilog2 n \<and> pow2 (ilog2 n) \<le> of_int n \<and> of_int n < pow2 (ilog2 n + 1)"
proof (induction n rule: ilog2.induct)
  case (1 n)
  show ?case
  proof (cases "n < 2")
    case True
    then have "n = 1" using 1 by simp
    then show ?thesis by (simp add: ilog2.simps pow2_def)
  next
    case False
    let ?k = "ilog2 (n div 2)"
    have IH: "0 \<le> ?k" "pow2 ?k \<le> of_int (n div 2)" "of_int (n div 2) < pow2 (?k + 1)"
      using 1 False by auto
    have e: "ilog2 n = ?k + 1" using False by (subst ilog2.simps) simp
    have p1: "pow2 (?k + 1) = 2 * pow2 ?k" and p2: "pow2 (?k + 1 + 1) = 2 * pow2 (?k + 1)"
      by (simp_all only: pow2_add) (simp_all add: pow2_def)
    have lo: "2 * (n div 2) \<le> n" and hi: "n \<le> 2 * (n div 2) + 1" by auto
    have pk: "pow2 (?k + 1) = of_int (2 ^ nat (?k + 1))"
      using IH(1) by (intro pow2_nat) simp
    have "n div 2 < 2 ^ nat (?k + 1)"
      using IH(3) unfolding pk by (simp only: of_int_less_iff)
    then have "n div 2 + 1 \<le> 2 ^ nat (?k + 1)" by simp
    then have "(of_int (n div 2 + 1) :: rat) \<le> pow2 (?k + 1)"
      unfolding pk by (simp only: of_int_le_iff)
    then have h: "(of_int (2 * (n div 2) + 1) :: rat) < pow2 (?k + 1 + 1)"
      using p2 by simp
    have "(of_int n :: rat) \<le> of_int (2 * (n div 2) + 1)"
      using hi by (simp only: of_int_le_iff)
    then have 1: "of_int n < pow2 (?k + 1 + 1)"
      using h by (rule order_le_less_trans)
    have "(of_int (2 * (n div 2)) :: rat) \<le> of_int n"
      using lo by (simp only: of_int_le_iff)
    then have "pow2 (?k + 1) \<le> of_int n"
      using IH(2) p1 by simp
    then show ?thesis using IH(1) 1 unfolding e by simp
  qed
qed

lemma expo_spec:
  assumes "0 < q"
  shows "pow2 (expo q) \<le> q \<and> q < pow2 (expo q + 1)"
proof -
  obtain n d where nd: "quotient_of q = (n, d)" by fastforce
  have q: "q = of_int n / of_int d" using quotient_of_div [OF nd] .
  have d: "1 \<le> d" using quotient_of_denom_pos [OF nd] by simp
  have "0 < n" using assms q d by (simp add: zero_less_divide_iff)
  then have n: "1 \<le> n" by simp
  let ?e = "ilog2 n - ilog2 d"
  have nn: "pow2 (ilog2 n) \<le> of_int n" "of_int n < pow2 (ilog2 n + 1)" using ilog2_spec [OF n] by auto
  have dd: "pow2 (ilog2 d) \<le> of_int d" "of_int d < pow2 (ilog2 d + 1)" using ilog2_spec [OF d] by auto
  have d0: "(0 :: rat) < of_int d" using d by simp
  have n0: "(0 :: rat) \<le> of_int n" using n by simp
  have "q < pow2 (ilog2 n + 1) / pow2 (ilog2 d)"
    unfolding q by (rule frac_less [OF n0 nn(2) pow2_pos dd(1)])
  then have hi: "q < pow2 (?e + 1)" by (simp add: pow2_diff pow2_add)
  have "pow2 (ilog2 n) / pow2 (ilog2 d + 1) < q"
    unfolding q by (rule frac_less2 [OF pow2_pos nn(1) d0 dd(2)])
  then have lo: "pow2 (?e - 1) < q" by (simp add: pow2_diff pow2_add field_simps)
  have "expo q = (if pow2 ?e \<le> q then ?e else ?e - 1)"
    by (simp add: expo_def nd Let_def)
  then show ?thesis using hi lo by auto
qed

lemma expo_unique: "0 < q \<Longrightarrow> pow2 e \<le> q \<Longrightarrow> q < pow2 (e + 1) \<Longrightarrow> expo q = e"
  using expo_spec [of q] pow2_less_iff [of e "expo q + 1"] pow2_less_iff [of "expo q" "e + 1"] by linarith

lemma expo_less_iff: "0 < q \<Longrightarrow> expo q < e \<longleftrightarrow> q < pow2 e"
  using expo_spec [of q] pow2_le_iff [of "expo q + 1" e] pow2_le_iff [of e "expo q"] by force

lemma expo_mono: "0 < p \<Longrightarrow> p \<le> q \<Longrightarrow> expo p \<le> expo q"
  using expo_less_iff [of p "expo q + 1"] expo_spec [of q] by force

text \<open>Values \<open>n\<sqdot>2\<^sup>e\<close> with at most 53 bits and \<open>e \<ge> -1074\<close> are exact.\<close>

lemma round53_exact:
  assumes "\<bar>n\<bar> \<le> 2 ^ 53" and "- 1074 \<le> e"
  shows "round53 (of_int n * pow2 e) = of_int n * pow2 e"
proof (cases "n = 0")
  case True
  then show ?thesis by (simp add: round53_def ulp_exp_def rne_def)
next
  case False
  let ?r = "of_int n * pow2 e"
  have r0: "?r \<noteq> 0" using False by simp
  have "\<bar>pow2 e\<bar> = pow2 e" using pow2_pos [of e] by linarith
  then have ab: "\<bar>?r\<bar> = of_int \<bar>n\<bar> * pow2 e" by (simp add: abs_mult)
  have pos: "0 < \<bar>?r\<bar>" using r0 by simp
  have "\<exists>m. ?r / pow2 (ulp_exp ?r) = of_int m"
  proof (cases "\<bar>n\<bar> = 2 ^ 53")
    case True
    have "\<bar>?r\<bar> = pow2 (53 + e)" unfolding ab True by (simp add: pow2_add) (simp add: pow2_def)
    then have "expo \<bar>?r\<bar> = 53 + e" by (intro expo_unique) (auto simp: pow2_less_iff)
    then have u: "ulp_exp ?r = e + 1" using r0 assms(2) by (simp add: ulp_exp_def)
    have "\<exists>k. n = 2 * k" using True by (cases "n \<ge> 0") (auto intro: exI [of _ "2 ^ 52"] exI [of _ "- (2 ^ 52)"])
    then obtain k where "n = 2 * k" by blast
    then show ?thesis unfolding u by (simp add: pow2_add) (simp add: pow2_def)
  next
    case False
    then have "\<bar>n\<bar> < 2 ^ 53" using assms(1) by simp
    then have "of_int \<bar>n\<bar> < (2 ^ 53 :: rat)" by (metis of_int_less_iff of_int_numeral of_int_power)
    then have "\<bar>?r\<bar> < pow2 (53 + e)" unfolding ab by (simp add: pow2_add) (simp add: pow2_def)
    then have "expo \<bar>?r\<bar> < 53 + e" using expo_less_iff [OF pos] by simp
    then have u: "ulp_exp ?r \<le> e" using r0 assms(2) by (simp add: ulp_exp_def)
    have "?r / pow2 (ulp_exp ?r) = of_int n * pow2 (e - ulp_exp ?r)" by (simp add: pow2_diff)
    also have "\<dots> = of_int (n * 2 ^ nat (e - ulp_exp ?r))" using u by (simp add: pow2_nat)
    finally show ?thesis by blast
  qed
  then obtain m where m: "?r / pow2 (ulp_exp ?r) = of_int m" by blast
  have "of_int m * pow2 (ulp_exp ?r) = ?r" by (simp add: m [symmetric])
  then show ?thesis unfolding round53_def m by (simp only: rne_of_int)
qed

lemma round53_form:
  obtains n where "round53 q = of_int n * pow2 (ulp_exp q)" "\<bar>n\<bar> \<le> 2 ^ 53" "- 1074 \<le> ulp_exp q"
proof -
  let ?n = "rne (q / pow2 (ulp_exp q))"
  have "\<bar>q\<bar> < pow2 (ulp_exp q + 53)"
  proof (cases "q = 0")
    case False
    then have "\<bar>q\<bar> < pow2 (expo \<bar>q\<bar> + 1)" using expo_spec [of "\<bar>q\<bar>"] by simp
    also have "\<dots> \<le> pow2 (ulp_exp q + 53)" using False by (intro pow2_mono) (simp add: ulp_exp_def)
    finally show ?thesis .
  qed simp
  then have "\<bar>q\<bar> / pow2 (ulp_exp q) < 2 ^ 53"
    by (simp add: pow2_add divide_less_eq mult.commute) (simp add: pow2_def)
  then have "q / pow2 (ulp_exp q) \<le> of_int (2 ^ 53)" "of_int (- (2 ^ 53)) \<le> q / pow2 (ulp_exp q)"
    by (auto simp: abs_if field_simps split: if_splits)
  then have "?n \<le> 2 ^ 53" and "- (2 ^ 53) \<le> ?n"
    using rne_le_int rne_ge_int by blast+
  then have "\<bar>?n\<bar> \<le> 2 ^ 53"
    by (simp add: abs_le_iff)
  then show thesis
    by (intro that [of ?n]) (auto simp: round53_def ulp_exp_def)
qed

lemma round53_idem [simp]: "round53 (round53 q) = round53 q"
  by (metis round53_form round53_exact)

text \<open>Rounding keeps the order and the sign.\<close>

lemma ulp_exp_minus [simp]: "ulp_exp (- q) = ulp_exp q"
  by (simp add: ulp_exp_def)

lemma round53_minus: "round53 (- q) = - round53 q"
  by (simp add: round53_def rne_minus)

lemma round53_0 [simp]: "round53 0 = 0"
  by (simp add: round53_def rne_def)

lemma round53_nonneg: "0 \<le> q \<Longrightarrow> 0 \<le> round53 q"
proof -
  assume "0 \<le> q"
  then have "of_int 0 \<le> q / pow2 (ulp_exp q)"
    using pow2_pos [of "ulp_exp q"] by (simp add: zero_le_divide_iff less_imp_le)
  then have "0 \<le> rne (q / pow2 (ulp_exp q))" by (rule rne_ge_int)
  then show ?thesis
    using pow2_pos [of "ulp_exp q"] by (simp add: round53_def less_imp_le)
qed

lemma round53_mono_pos:
  assumes "0 < p" and "p \<le> q"
  shows "round53 p \<le> round53 q"
proof -
  have q: "0 < q" using assms by simp
  let ?e = "ulp_exp p" and ?f = "ulp_exp q"
  have ef: "?e \<le> ?f"
    using assms q expo_mono [of p q] by (simp add: ulp_exp_def)
  show ?thesis
  proof (cases "?e = ?f")
    case True
    have "p / pow2 ?f \<le> q / pow2 ?f" using assms(2) by (simp add: divide_right_mono less_imp_le)
    then show ?thesis
      using rne_mono [of "p / pow2 ?f" "q / pow2 ?f"] True by (simp add: round53_def)
  next
    case False
    then have lt: "?e < ?f" using ef by simp
    then have f: "?f = expo q - 52" and x: "expo p < expo q" and e0: "?e \<le> expo q"
      using assms q by (auto simp: ulp_exp_def split: if_splits)
    let ?M = "pow2 (expo q)"
    have "p < ?M" using expo_less_iff [OF assms(1)] x by simp
    then have "p / pow2 ?e \<le> ?M / pow2 ?e" by (simp add: divide_right_mono less_imp_le)
    also have "?M / pow2 ?e = of_int (2 ^ nat (expo q - ?e))"
      using pow2_nat [of "expo q - ?e"] e0 by (simp add: pow2_diff)
    finally have "rne (p / pow2 ?e) \<le> 2 ^ nat (expo q - ?e)" by (rule rne_le_int)
    then have "(of_int (rne (p / pow2 ?e)) :: rat) \<le> of_int (2 ^ nat (expo q - ?e))" by (simp only: of_int_le_iff)
    also have "\<dots> = ?M / pow2 ?e" using pow2_nat [of "expo q - ?e"] e0 by (simp add: pow2_diff)
    finally have up: "round53 p \<le> ?M" by (simp add: round53_def pos_le_divide_eq)
    have "of_int (2 ^ 52) = ?M / pow2 ?f" unfolding f by (simp add: pow2_diff) (simp add: pow2_def)
    also have "\<dots> \<le> q / pow2 ?f" using expo_spec [OF q] by (simp add: divide_right_mono less_imp_le)
    finally have "2 ^ 52 \<le> rne (q / pow2 ?f)" by (rule rne_ge_int)
    then have "(of_int (2 ^ 52) :: rat) \<le> of_int (rne (q / pow2 ?f))" by (simp only: of_int_le_iff)
    then have "?M / pow2 ?f \<le> of_int (rne (q / pow2 ?f))"
      using \<open>of_int (2 ^ 52) = ?M / pow2 ?f\<close> by simp
    then have "?M \<le> round53 q" by (simp add: round53_def pos_divide_le_eq)
    with up show ?thesis by simp
  qed
qed

lemma round53_mono: "p \<le> q \<Longrightarrow> round53 p \<le> round53 q"
proof -
  assume pq: "p \<le> q"
  consider "0 < p" | "p \<le> 0" "0 \<le> q" | "q < 0" using pq by linarith
  then show ?thesis
  proof cases
    case 1
    then show ?thesis using pq round53_mono_pos by simp
  next
    case 2
    have "round53 p \<le> 0" using round53_nonneg [of "- p"] 2(1) by (simp add: round53_minus)
    also have "0 \<le> round53 q" using round53_nonneg 2(2) .
    finally show ?thesis .
  next
    case 3
    then show ?thesis using round53_mono_pos [of "- q" "- p"] pq by (simp add: round53_minus)
  qed
qed

section \<open>Facts about converted values\<close>

lemma fl_Fin_iff: "fl q = Fin r \<longleftrightarrow> r = round53 q \<and> r < 2 ^ 1024 \<and> - (2 ^ 1024) < r"
  by (auto simp: fl_def Let_def)

lemma fl_not_NaN [simp]: "fl q \<noteq> NaN"
  by (simp add: fl_def Let_def)

lemma fl_idem: "fl q = Fin r \<Longrightarrow> fl r = Fin r"
  by (auto simp: fl_Fin_iff)

lemma fl_is_double [simp]: "is_double (fl q)"
  by (auto simp: is_double_def dest: fl_idem split: pyfloat.splits)

lemma fl_mono: "p \<le> q \<Longrightarrow> fle (fl p) (fl q)"
  using round53_mono [of p q] by (auto simp: fle_def fl_def Let_def)

lemma fl_exact:
  "\<bar>n\<bar> \<le> 2 ^ 53 \<Longrightarrow> - 1074 \<le> e \<Longrightarrow> \<bar>of_int n * pow2 e\<bar> < 2 ^ 1024 \<Longrightarrow> fl (of_int n * pow2 e) = Fin (of_int n * pow2 e)"
  using round53_exact [of n e] by (simp add: fl_Fin_iff abs_less_iff)

lemma fl_int: "\<bar>n\<bar> \<le> 2 ^ 53 \<Longrightarrow> fl (of_int n) = Fin (of_int n)"
proof -
  assume n: "\<bar>n\<bar> \<le> 2 ^ 53"
  have "(of_int \<bar>n\<bar> :: rat) \<le> of_int (2 ^ 53)" using n by (simp only: of_int_le_iff)
  also have "\<dots> < 2 ^ 1024" by simp
  finally show ?thesis using fl_exact [OF n, of 0] by (simp add: pow2_def)
qed

lemma fl_numeral [simp]:
  "fl 0 = Fin 0" "fl 1 = Fin 1"
  "(numeral k :: int) \<le> 2 ^ 53 \<Longrightarrow> fl (numeral k) = Fin (numeral k)"
  using fl_int [of 0] fl_int [of 1] fl_int [of "numeral k"] by simp_all

lemma fle_trans: "fle x y \<Longrightarrow> fle y z \<Longrightarrow> fle x z"
  by (cases x; cases y; cases z) (auto simp: fle_def)

lemma fle_refl: "x \<noteq> NaN \<Longrightarrow> fle x x"
  by (cases x) (auto simp: fle_def)

lemma fle_total: "x \<noteq> NaN \<Longrightarrow> y \<noteq> NaN \<Longrightarrow> fle x y \<or> flt y x"
  by (cases x; cases y) (auto simp: fle_def)

lemma flt_irrefl [simp]: "\<not> flt x x"
  by (cases x) auto

lemma not_flt_iff: "x \<noteq> NaN \<Longrightarrow> y \<noteq> NaN \<Longrightarrow> \<not> flt y x \<longleftrightarrow> fle x y"
  by (cases x; cases y) (auto simp: fle_def)

lemma fle_Fin [simp]: "fle (Fin a) (Fin b) \<longleftrightarrow> a \<le> b"
  by (auto simp: fle_def)

lemma fle_NaN [simp]: "\<not> fle NaN y" "\<not> fle x NaN"
  by (cases y; simp add: fle_def) (cases x; simp add: fle_def)

lemma fadd_0 [simp]: "is_double x \<Longrightarrow> fadd (Fin 0) x = x" "is_double x \<Longrightarrow> fadd x (Fin 0) = x"
  by (cases x; simp add: is_double_def)+

lemma fsum_single: "is_double x \<Longrightarrow> fsum [x] = x"
  by (simp add: fsum_def)

lemma is_double_special [simp]: "is_double PInf" "is_double NInf" "is_double NaN" "is_double (Fin 0)"
  by (simp_all add: is_double_def)

lemma fadd_is_double: "is_double x \<Longrightarrow> is_double y \<Longrightarrow> is_double (fadd x y)"
  by (cases x; cases y) simp_all

lemma fmul_is_double: "is_double x \<Longrightarrow> is_double y \<Longrightarrow> is_double (fmul x y)"
  by (cases x; cases y) (simp_all add: inf_sign_def)

lemma fneg_is_double: "is_double x \<Longrightarrow> is_double (fneg x)"
proof (cases x)
  case (Fin q)
  assume "is_double x"
  then have "round53 q = q \<and> q < 2 ^ 1024 \<and> - (2 ^ 1024) < q"
    using Fin by (auto simp: is_double_def fl_Fin_iff)
  then have "fl (- q) = Fin (- q)"
    unfolding fl_Fin_iff by (simp add: round53_minus minus_less_iff)
  then show ?thesis using Fin by (simp add: is_double_def)
qed simp_all

lemma fmax_is_double: "is_double x \<Longrightarrow> is_double y \<Longrightarrow> is_double (fmax x y)"
  by (simp add: fmax_def)

lemma fmin_is_double: "is_double x \<Longrightarrow> is_double y \<Longrightarrow> is_double (fmin x y)"
  by (simp add: fmin_def)

lemma fdiv_is_double: "fdiv x y = Inr z \<Longrightarrow> is_double z"
  by (cases x; cases y) (auto split: if_splits)


lemma fl_halves [simp]: "fl (1 / 2) = Fin (1 / 2)" "fl (1 / 4) = Fin (1 / 4)" "fl (3 / 4) = Fin (3 / 4)" "fl (3 / 2) = Fin (3 / 2)"
  using fl_exact [of 1 "- 1"] fl_exact [of 1 "- 2"] fl_exact [of 3 "- 2"] fl_exact [of 3 "- 1"] by (simp_all add: pow2_def)

text \<open>A quotient of finite numbers in the unit interval stays there after rounding.\<close>

lemma fl_unit:
  assumes "0 \<le> q" and "q \<le> 1"
  obtains r where "fl q = Fin r" "0 \<le> r" "r \<le> 1"
proof -
  have "fle (Fin 0) (fl q)" "fle (fl q) (Fin 1)"
    using fl_mono [OF assms(1)] fl_mono [OF assms(2)] by simp_all
  then show thesis using that by (cases "fl q") (auto simp: fle_def)
qed

lemma fmax_literal: "fle (fl q) x \<Longrightarrow> fmax x (fl q) = x"
  by (auto simp: fmax_def fle_def elim: flt.elims feq.elims)

end
