(* ===== verification/PyText.thy ===== *)
theory PyText
  imports PyFloat
begin

text \<open>
  Text operations of Python that the program uses: decimal printing, zero padding, \<open>strip\<close>,
  \<open>upper\<close>, \<open>replace\<close>, prefix tests, \<open>join\<close>, fixed-point formatting and the shortest
  representation that \<open>repr\<close> of a float prints. Text is ASCII: classification and case mapping
  of other characters is outside the model.
\<close>

section \<open>Characters\<close>

definition chr :: "nat \<Rightarrow> char" where
  "chr n = char_of n"

definition ordc :: "char \<Rightarrow> nat" where
  "ordc c = of_char c"

definition is_digit :: "char \<Rightarrow> bool" where
  "is_digit c \<longleftrightarrow> 48 \<le> ordc c \<and> ordc c \<le> 57"

definition is_upper :: "char \<Rightarrow> bool" where
  "is_upper c \<longleftrightarrow> 65 \<le> ordc c \<and> ordc c \<le> 90"

definition is_lower :: "char \<Rightarrow> bool" where
  "is_lower c \<longleftrightarrow> 97 \<le> ordc c \<and> ordc c \<le> 122"

definition is_space :: "char \<Rightarrow> bool" where
  "is_space c \<longleftrightarrow> (9 \<le> ordc c \<and> ordc c \<le> 13) \<or> (28 \<le> ordc c \<and> ordc c \<le> 32)"

definition to_upper :: "char \<Rightarrow> char" where
  "to_upper c = (if is_lower c then chr (ordc c - 32) else c)"

definition to_lower :: "char \<Rightarrow> char" where
  "to_lower c = (if is_upper c then chr (ordc c + 32) else c)"

definition upper :: "string \<Rightarrow> string" where "upper = map to_upper"
definition lower :: "string \<Rightarrow> string" where "lower = map to_lower"

definition isdigit :: "string \<Rightarrow> bool" where
  "isdigit s \<longleftrightarrow> s \<noteq> [] \<and> list_all is_digit s"

lemma ordc_chr [simp]: "n < 256 \<Longrightarrow> ordc (chr n) = n"
  by (simp add: ordc_def chr_def)

lemma chr_ordc [simp]: "chr (ordc c) = c"
  by (simp add: ordc_def chr_def)

lemma ordc_inject [simp]: "ordc c = ordc d \<longleftrightarrow> c = d"
  by (metis chr_ordc)

section \<open>Strings\<close>

definition startswith :: "string \<Rightarrow> string \<Rightarrow> bool" where
  "startswith s p \<longleftrightarrow> take (length p) s = p"

definition endswith :: "string \<Rightarrow> string \<Rightarrow> bool" where
  "endswith s p \<longleftrightarrow> startswith (rev s) (rev p)"

definition lstrip :: "string \<Rightarrow> string" where
  "lstrip s = dropWhile is_space s"

definition strip :: "string \<Rightarrow> string" where
  "strip s = rev (lstrip (rev (lstrip s)))"

text \<open>\<open>needle in s\<close>.\<close>

fun contains :: "string \<Rightarrow> string \<Rightarrow> bool" where
  "contains n [] = (n = [])"
| "contains n (c # s) = (startswith (c # s) n \<or> contains n s)"

text \<open>\<open>s.replace(a, b)\<close> for a non-empty \<open>a\<close>, left to right without overlaps.\<close>

function replace_all :: "string \<Rightarrow> string \<Rightarrow> string \<Rightarrow> string" where
  "replace_all a b s = (if s = [] \<or> a = [] then s
     else if startswith s a then b @ replace_all a b (drop (length a) s)
     else hd s # replace_all a b (tl s))"
  by pat_completeness auto
termination
  by (relation "measure (\<lambda>(a, b, s). length s)") auto

declare replace_all.simps [simp del]

fun join :: "string \<Rightarrow> string list \<Rightarrow> string" where
  "join sep [] = []"
| "join sep [x] = x"
| "join sep (x # y # zs) = x @ sep @ join sep (y # zs)"

lemma startswith_append [simp]: "startswith (p @ s) p"
  by (simp add: startswith_def)

lemma startswith_iff: "startswith s p \<longleftrightarrow> (\<exists>t. s = p @ t)"
  unfolding startswith_def by (metis append_eq_conv_conj append_take_drop_id)

section \<open>Decimal numbers\<close>

definition digit_char :: "nat \<Rightarrow> char" where
  "digit_char n = chr (48 + n)"

definition digit_val :: "char \<Rightarrow> nat" where
  "digit_val c = ordc c - 48"

fun dec_nat :: "nat \<Rightarrow> string" where
  "dec_nat n = (if n < 10 then [digit_char n] else dec_nat (n div 10) @ [digit_char (n mod 10)])"

declare dec_nat.simps [simp del]

definition dec_int :: "int \<Rightarrow> string" where
  "dec_int i = (if i < 0 then CHR ''-'' # dec_nat (nat (- i)) else dec_nat (nat i))"

definition parse_nat :: "string \<Rightarrow> nat" where
  "parse_nat s = foldl (\<lambda>n c. 10 * n + digit_val c) 0 s"

text \<open>\<open>f"{n:0<w>d}"\<close> for a natural number.\<close>

definition pad0 :: "nat \<Rightarrow> string \<Rightarrow> string" where
  "pad0 w s = replicate (w - length s) CHR ''0'' @ s"

lemma digit_char_props [simp]:
  "n < 10 \<Longrightarrow> is_digit (digit_char n)"
  "n < 10 \<Longrightarrow> digit_val (digit_char n) = n"
  by (simp_all add: is_digit_def digit_char_def digit_val_def)

lemma parse_nat_append: "parse_nat (s @ [c]) = 10 * parse_nat s + digit_val c"
  by (simp add: parse_nat_def)

lemma parse_dec_nat [simp]: "parse_nat (dec_nat n) = n"
proof (induction n rule: dec_nat.induct)
  case (1 n)
  show ?case
  proof (cases "n < 10")
    case True
    then show ?thesis by (simp add: dec_nat.simps [of n] parse_nat_def)
  next
    case False
    then show ?thesis
      using 1 by (simp add: dec_nat.simps [of n] parse_nat_append)
  qed
qed

lemma dec_nat_digits: "list_all is_digit (dec_nat n)"
proof (induction n rule: dec_nat.induct)
  case (1 n)
  show ?case using 1 by (simp add: dec_nat.simps [of n])
qed

lemma dec_nat_nonempty [simp]: "dec_nat n \<noteq> []"
  by (simp add: dec_nat.simps [of n])

lemma parse_nat_pad0 [simp]: "parse_nat (pad0 w s) = parse_nat s"
proof -
  have *: "digit_val (CHR ''0'') = 0" by (simp add: digit_val_def ordc_def)
  have "foldl (\<lambda>n c. 10 * n + digit_val c) 0 (replicate k CHR ''0'') = 0" for k
    by (induction k) (simp_all add: *)
  then show ?thesis by (simp add: parse_nat_def pad0_def)
qed

lemma inj_pad0_dec: "pad0 w (dec_nat m) = pad0 w (dec_nat n) \<Longrightarrow> m = n"
  by (metis parse_dec_nat parse_nat_pad0)

section \<open>Printed floats\<close>

definition fixed_fmt :: "nat \<Rightarrow> pyfloat \<Rightarrow> string" where
  "fixed_fmt n x = (case x of
      Fin q \<Rightarrow> (let m = nat (rne (\<bar>q\<bar> * 10 ^ n)) in
        (if q < 0 then ''-'' else '''') @ dec_nat (m div 10 ^ n) @
        (if n = 0 then '''' else ''.'' @ pad0 n (dec_nat (m mod 10 ^ n))))
    | PInf \<Rightarrow> ''inf'' | NInf \<Rightarrow> ''-inf'' | NaN \<Rightarrow> ''nan'')"

text \<open>\<open>10\<^sup>k\<close> for an integer exponent, and the decimal point position of a positive rational.\<close>

definition pow10 :: "int \<Rightarrow> rat" where
  "pow10 k = (if 0 \<le> k then 10 ^ nat k else 1 / 10 ^ nat (- k))"

fun small_expo :: "nat \<Rightarrow> rat \<Rightarrow> int" where
  "small_expo 0 q = 0"
| "small_expo (Suc f) q = (if 1 \<le> q * 10 then 0 else small_expo f (q * 10) - 1)"

definition decpt :: "rat \<Rightarrow> int" where
  "decpt q = (if 1 \<le> q then int (length (dec_nat (nat \<lfloor>q\<rfloor>))) else small_expo 400 q)"

definition short_cands :: "rat \<Rightarrow> nat \<Rightarrow> int list" where
  "short_cands q n = (let s = q * pow10 (int n - decpt q); f = \<lfloor>s\<rfloor>;
      ok = (\<lambda>c. fl (of_int c * pow10 (decpt q - int n)) = Fin q)
    in filter ok (if s - of_int f \<le> 1 / 2 then [f, f + 1] else [f + 1, f]))"

fun short_digits :: "nat \<Rightarrow> nat \<Rightarrow> rat \<Rightarrow> int \<times> nat" where
  "short_digits 0 n q = (0, n)"
| "short_digits (Suc fuel) n q =
    (case short_cands q n of c # _ \<Rightarrow> (c, n) | [] \<Rightarrow> short_digits fuel (Suc n) q)"

definition strip_zeros :: "string \<Rightarrow> string" where
  "strip_zeros s = rev (dropWhile (\<lambda>c. c = CHR ''0'') (rev s))"

definition frepr_pos :: "rat \<Rightarrow> string" where
  "frepr_pos q = (let (c, n) = short_digits 17 1 q;
      txt = dec_nat (nat c);
      p = decpt q + (int (length txt) - int n);
      ds = strip_zeros txt;
      e = p - 1
    in if p \<le> - 4 \<or> 16 < p then
         [hd ds] @ (if tl ds = [] then '''' else ''.'' @ tl ds) @ ''e'' @
         (if e < 0 then ''-'' else ''+'') @ pad0 2 (dec_nat (nat \<bar>e\<bar>))
       else if p \<le> 0 then ''0.'' @ replicate (nat (- p)) CHR ''0'' @ ds
       else if int (length ds) \<le> p then ds @ replicate (nat p - length ds) CHR ''0'' @ ''.0''
       else take (nat p) ds @ ''.'' @ drop (nat p) ds)"

definition frepr :: "pyfloat \<Rightarrow> string" where
  "frepr x = (case x of
      Fin q \<Rightarrow> (if q = 0 then ''0.0'' else if q < 0 then CHR ''-'' # frepr_pos (- q) else frepr_pos q)
    | PInf \<Rightarrow> ''inf'' | NInf \<Rightarrow> ''-inf'' | NaN \<Rightarrow> ''nan'')"

section \<open>Numbers read from text\<close>

text \<open>
  \<open>float(text)\<close>: surrounding space, a sign, \<open>inf\<close>/\<open>infinity\<close>/\<open>nan\<close> in any case, or decimal digits with
  an optional point and exponent; an underscore is allowed between two digits.
\<close>

fun drop_underscores :: "string \<Rightarrow> string option" where
  "drop_underscores [] = Some []"
| "drop_underscores (c # s) = (if c = CHR ''_'' then None else
     (case s of d # e # t \<Rightarrow> if is_digit c \<and> d = CHR ''_'' \<and> is_digit e
          then map_option ((#) c) (drop_underscores (e # t))
          else map_option ((#) c) (drop_underscores (d # e # t))
      | [d] \<Rightarrow> if d = CHR ''_'' then None else Some [c, d]
      | [] \<Rightarrow> Some [c]))"

definition split_sign :: "string \<Rightarrow> bool \<times> string" where
  "split_sign s = (case s of c # t \<Rightarrow> if c = CHR ''-'' then (True, t) else if c = CHR ''+'' then (False, t) else (False, s)
     | [] \<Rightarrow> (False, []))"

definition decimal_value :: "string \<Rightarrow> rat option" where
  "decimal_value s = (let
      int_part = takeWhile is_digit s; r1 = drop (length int_part) s;
      has_dot = startswith r1 ''.''; r2 = (if has_dot then tl r1 else r1);
      frac = (if has_dot then takeWhile is_digit r2 else []); r3 = drop (length frac) r2;
      has_e = startswith (lower r3) ''e''; (eneg, etxt) = split_sign (if has_e then tl r3 else []);
      m = of_nat (parse_nat (int_part @ frac)) * pow10 (- int (length frac))
    in if int_part @ frac = [] then None
       else if r3 = [] then Some m
       else if has_e \<and> isdigit etxt then Some (m * pow10 (if eneg then - int (parse_nat etxt) else int (parse_nat etxt)))
       else None)"

definition float_of_text :: "string \<Rightarrow> pyfloat res" where
  "float_of_text s = (let bad = Inl (ValueError ''could not convert string to float''); (neg, t) = split_sign (strip s); u = lower t in
     if u = ''inf'' \<or> u = ''infinity'' then Inr (if neg then NInf else PInf)
     else if u = ''nan'' then Inr NaN
     else case drop_underscores t of None \<Rightarrow> bad | Some v \<Rightarrow>
       (case decimal_value v of None \<Rightarrow> bad | Some q \<Rightarrow> Inr (fl (if neg then - q else q))))"

definition int_of_text :: "string \<Rightarrow> int res" where
  "int_of_text s = (let bad = Inl (ValueError ''invalid literal for int() with base 10''); (neg, t) = split_sign (strip s) in
     case drop_underscores t of None \<Rightarrow> bad | Some v \<Rightarrow>
       if isdigit v then Inr (if neg then - int (parse_nat v) else int (parse_nat v)) else bad)"

end
