(* ===== verification/Json.thy ===== *)
theory Json
  imports PyText "HOL-Library.AList"
begin

text \<open>
  JSON values, the Python objects that \<open>json.dumps\<close> accepts. A text column that was written with
  \<open>json.dumps(..., sort_keys=True)\<close> and is read back with \<open>json.loads\<close> holds the canonical tree
  \<open>jcanon\<close> of the value: the same tree with the keys of every object in order. \<open>json_text\<close> prints
  the compact ASCII text of \<open>runtime/serialization.py: dumps_json\<close>, which the event store measures.
\<close>

datatype json =
    JNull
  | JBool bool
  | JInt int
  | JFloat pyfloat
  | JStr string
  | JArr "json list"
  | JObj "(string \<times> json) list"

type_synonym obj = "(string \<times> json) list"

section \<open>Access\<close>

text \<open>\<open>raw.get(k)\<close> and \<open>raw[k]\<close> on a dictionary.\<close>

definition jget :: "obj \<Rightarrow> string \<Rightarrow> json" where
  "jget raw k = (case map_of raw k of None \<Rightarrow> JNull | Some v \<Rightarrow> v)"

definition jreq :: "obj \<Rightarrow> string \<Rightarrow> json res" where
  "jreq raw k = (case map_of raw k of None \<Rightarrow> Inl (KeyError k) | Some v \<Rightarrow> Inr v)"

text \<open>The truth value of an object.\<close>

fun jtruthy :: "json \<Rightarrow> bool" where
  "jtruthy JNull = False"
| "jtruthy (JBool b) = b"
| "jtruthy (JInt i) = (i \<noteq> 0)"
| "jtruthy (JFloat x) = ftrue x"
| "jtruthy (JStr s) = (s \<noteq> [])"
| "jtruthy (JArr xs) = (xs \<noteq> [])"
| "jtruthy (JObj kvs) = (kvs \<noteq> [])"

section \<open>\<open>str\<close> of a value\<close>

definition hex_char :: "nat \<Rightarrow> char" where
  "hex_char n = (if n < 10 then chr (48 + n) else chr (87 + n))"

definition repr_char :: "char \<Rightarrow> char \<Rightarrow> string" where
  "repr_char q c = (let n = ordc c in
     if c = q \<or> n = 92 then [chr 92, c]
     else if n = 10 then [chr 92, CHR ''n''] else if n = 13 then [chr 92, CHR ''r'']
     else if n = 9 then [chr 92, CHR ''t'']
     else if n < 32 \<or> n = 127 then [chr 92, CHR ''x'', hex_char (n div 16), hex_char (n mod 16)]
     else [c])"

definition py_repr_str :: "string \<Rightarrow> string" where
  "py_repr_str s = (let q = (if chr 39 \<in> set s \<and> chr 34 \<notin> set s then chr 34 else chr 39) in
     [q] @ concat (map (repr_char q) s) @ [q])"

fun py_repr :: "json \<Rightarrow> string" where
  "py_repr JNull = ''None''"
| "py_repr (JBool b) = (if b then ''True'' else ''False'')"
| "py_repr (JInt i) = dec_int i"
| "py_repr (JFloat x) = frepr x"
| "py_repr (JStr s) = py_repr_str s"
| "py_repr (JArr xs) = ''['' @ join '', '' (map py_repr xs) @ '']''"
| "py_repr (JObj kvs) =
     ''{'' @ join '', '' (map (\<lambda>(k, v). py_repr_str k @ '': '' @ py_repr v) kvs) @ ''}''"

definition py_str :: "json \<Rightarrow> string" where
  "py_str j = (case j of JStr s \<Rightarrow> s | _ \<Rightarrow> py_repr j)"

lemma py_str_JStr [simp]: "py_str (JStr s) = s"
  by (simp add: py_str_def)

text \<open>\<open>str(x) if x is not None else None\<close>.\<close>

definition jopt_str :: "json \<Rightarrow> string option" where
  "jopt_str j = (case j of JNull \<Rightarrow> None | _ \<Rightarrow> Some (py_str j))"

definition of_opt :: "string option \<Rightarrow> json" where
  "of_opt x = (case x of None \<Rightarrow> JNull | Some s \<Rightarrow> JStr s)"

lemma jopt_str_simps [simp]:
  "jopt_str (JStr s) = Some s" "jopt_str JNull = None" "jopt_str (of_opt x) = x"
  by (simp_all add: jopt_str_def of_opt_def split: option.splits)

definition jstrs :: "string list \<Rightarrow> json" where
  "jstrs xs = JArr (map JStr xs)"

text \<open>
  \<open>dict(x or {})\<close> and \<open>for item in x or []\<close>. A non-empty array given to \<open>dict\<close> must hold pairs with
  a string key.
\<close>

definition pair_of :: "json \<Rightarrow> (string \<times> json) res" where
  "pair_of j = (case j of JArr [JStr k, v] \<Rightarrow> Inr (k, v)
     | _ \<Rightarrow> Inl (TypeError ''cannot convert dictionary update sequence element''))"

definition as_dict :: "json \<Rightarrow> obj res" where
  "as_dict j = (if \<not> jtruthy j then Inr [] else case j of JObj kvs \<Rightarrow> Inr kvs
     | JArr xs \<Rightarrow> bindR (mapR pair_of xs) (\<lambda>ps. Inr (fold (\<lambda>(k, v) d. AList.update k v d) ps []))
     | JStr _ \<Rightarrow> Inl (ValueError ''dictionary update sequence element'')
     | _ \<Rightarrow> Inl (TypeError ''object is not iterable''))"

definition as_items :: "json \<Rightarrow> json list res" where
  "as_items j = (if \<not> jtruthy j then Inr [] else case j of JArr xs \<Rightarrow> Inr xs
     | JObj kvs \<Rightarrow> Inr (map (JStr \<circ> fst) kvs)
     | JStr s \<Rightarrow> Inr (map (\<lambda>c. JStr [c]) s)
     | _ \<Rightarrow> Inl (TypeError ''object is not iterable''))"

text \<open>A value that is subscripted as a dictionary.\<close>

definition need_obj :: "json \<Rightarrow> obj res" where
  "need_obj j = (case j of JObj kvs \<Rightarrow> Inr kvs | _ \<Rightarrow> Inl (TypeError ''not a mapping''))"

lemma as_dict_JObj [simp]: "as_dict (JObj kvs) = Inr kvs"
  by (auto simp: as_dict_def)

lemma as_items_JArr [simp]: "as_items (JArr xs) = Inr xs"
  by (auto simp: as_items_def)

lemma need_obj_JObj [simp]: "need_obj (JObj kvs) = Inr kvs"
  by (simp add: need_obj_def)

section \<open>Canonical form\<close>

fun jcanon :: "json \<Rightarrow> json" where
  "jcanon (JArr xs) = JArr (map jcanon xs)"
| "jcanon (JObj kvs) = JObj (sort_key fst (map (\<lambda>(k, v). (k, jcanon v)) kvs))"
| "jcanon j = j"

definition ocanon :: "obj \<Rightarrow> obj" where
  "ocanon kvs = sort_key fst (map (\<lambda>(k, v). (k, jcanon v)) kvs)"

lemma jcanon_JObj: "jcanon (JObj kvs) = JObj (ocanon kvs)"
  by (simp add: ocanon_def)

lemma map_of_filter_hd: "map_of xs k = (case filter (\<lambda>p. fst p = k) xs of [] \<Rightarrow> None | p # _ \<Rightarrow> Some (snd p))"
  by (induction xs) auto

lemma map_of_sort_key [simp]: "map_of (sort_key fst xs) k = map_of xs k"
  by (simp add: map_of_filter_hd sort_key_stable)

lemma map_of_map_snd: "map_of (map (\<lambda>(k, v). (k, f v)) xs) k = map_option f (map_of xs k)"
  by (induction xs) auto

lemma map_of_ocanon [simp]: "map_of (ocanon kvs) k = map_option jcanon (map_of kvs k)"
  by (simp add: ocanon_def map_of_map_snd)

lemma jcanon_jstrs [simp]: "jcanon (jstrs xs) = jstrs xs"
  by (simp add: jstrs_def)

lemma jcanon_of_opt [simp]: "jcanon (of_opt x) = of_opt x"
  by (simp add: of_opt_def split: option.splits)

lemma jcanon_idem [simp]: "jcanon (jcanon j) = jcanon j"
proof (induction j rule: jcanon.induct)
  case (1 xs)
  then show ?case by simp
next
  case (2 kvs)
  let ?g = "\<lambda>(k :: string, v). (k, jcanon v)"
  have ins: "map ?g (insort_key fst x xs) = insort_key fst (?g x) (map ?g xs)" for x xs
    by (induction xs) (auto split: prod.splits)
  have srt: "map ?g (sort_key fst xs) = sort_key fst (map ?g xs)" for xs
    by (induction xs) (simp_all add: ins)
  have gg: "map ?g (map ?g kvs) = map ?g kvs"
    using 2 by auto
  have "jcanon (jcanon (JObj kvs)) = JObj (sort_key fst (map ?g (sort_key fst (map ?g kvs))))"
    by simp
  also have "\<dots> = JObj (sort_key fst (sort_key fst (map ?g kvs)))"
    by (simp only: srt gg)
  also have "\<dots> = jcanon (JObj kvs)"
    by (simp add: sort_key_id_if_sorted)
  finally show ?case .
qed simp_all

lemma ocanon_idem [simp]: "ocanon (ocanon kvs) = ocanon kvs"
  using jcanon_idem [of "JObj kvs"] by (simp only: jcanon_JObj json.inject)

lemma jreq_ocanon [simp]: "jreq (ocanon kvs) k = map_sum id jcanon (jreq kvs k)"
  by (simp add: jreq_def split: option.splits)

lemma jget_ocanon [simp]: "jget (ocanon kvs) k = jcanon (jget kvs k)"
  by (simp add: jget_def split: option.splits)

lemma jreq_Cons [simp]:
  "jreq ((k, v) # raw) k' = (if k = k' then Inr v else jreq raw k')"
  "jreq [] k' = Inl (KeyError k')"
  by (simp_all add: jreq_def)

lemma jget_Cons [simp]:
  "jget ((k, v) # raw) k' = (if k = k' then v else jget raw k')"
  "jget [] k' = JNull"
  by (simp_all add: jget_def)

declare jcanon.simps(2) [simp del]
declare jcanon_JObj [simp]

section \<open>Printed text\<close>

definition json_char :: "char \<Rightarrow> string" where
  "json_char c = (let n = ordc c in
     if n = 34 \<or> n = 92 then [chr 92, c]
     else if n = 10 then [chr 92, CHR ''n''] else if n = 13 then [chr 92, CHR ''r'']
     else if n = 9 then [chr 92, CHR ''t''] else if n = 8 then [chr 92, CHR ''b'']
     else if n = 12 then [chr 92, CHR ''f'']
     else if n < 32 \<or> 127 \<le> n then [chr 92, CHR ''u'', CHR ''0'', CHR ''0'', hex_char (n div 16), hex_char (n mod 16)]
     else [c])"

definition json_str_text :: "string \<Rightarrow> string" where
  "json_str_text s = [chr 34] @ concat (map json_char s) @ [chr 34]"

definition json_float_text :: "pyfloat \<Rightarrow> string" where
  "json_float_text x = (case x of NaN \<Rightarrow> ''NaN'' | PInf \<Rightarrow> ''Infinity'' | NInf \<Rightarrow> ''-Infinity'' | _ \<Rightarrow> frepr x)"

fun json_text :: "json \<Rightarrow> string" where
  "json_text JNull = ''null''"
| "json_text (JBool b) = (if b then ''true'' else ''false'')"
| "json_text (JInt i) = dec_int i"
| "json_text (JFloat x) = json_float_text x"
| "json_text (JStr s) = json_str_text s"
| "json_text (JArr xs) = ''['' @ join '','' (map json_text xs) @ '']''"
| "json_text (JObj kvs) =
     ''{'' @ join '','' (map (\<lambda>(k, v). json_str_text k @ '':'' @ json_text v) kvs) @ ''}''"

text \<open>\<open>runtime/serialization.py: dumps_json\<close>: sorted keys, compact separators.\<close>

definition dumps_json :: "obj \<Rightarrow> string" where
  "dumps_json payload = json_text (jcanon (JObj payload))"

section \<open>Conversions\<close>

text \<open>\<open>float(x)\<close> and \<open>int(x)\<close> on a JSON value.\<close>

definition jfloat :: "json \<Rightarrow> pyfloat res" where
  "jfloat j = (case j of JFloat x \<Rightarrow> Inr x | JInt i \<Rightarrow> float_of_int i | JBool b \<Rightarrow> Inr (if b then Fin 1 else Fin 0)
     | JStr s \<Rightarrow> float_of_text s
     | _ \<Rightarrow> Inl (TypeError ''float() argument must be a string or a real number''))"

definition jint :: "json \<Rightarrow> int res" where
  "jint j = (case j of JInt i \<Rightarrow> Inr i | JFloat x \<Rightarrow> int_of_float x | JBool b \<Rightarrow> Inr (if b then 1 else 0)
     | JStr s \<Rightarrow> int_of_text s
     | _ \<Rightarrow> Inl (TypeError ''int() argument must be a string or a real number''))"

definition opt_float :: "pyfloat option \<Rightarrow> json" where
  "opt_float x = (case x of None \<Rightarrow> JNull | Some v \<Rightarrow> JFloat v)"

definition opt_int :: "int option \<Rightarrow> json" where
  "opt_int x = (case x of None \<Rightarrow> JNull | Some v \<Rightarrow> JInt v)"

text \<open>\<open>None if value is None else float(value)\<close>.\<close>

definition optional_float :: "json \<Rightarrow> pyfloat option res" where
  "optional_float j = (case j of JNull \<Rightarrow> Inr None | _ \<Rightarrow> bindR (jfloat j) (\<lambda>x. Inr (Some x)))"

definition optional_int :: "json \<Rightarrow> int option res" where
  "optional_int j = (case j of JNull \<Rightarrow> Inr None | _ \<Rightarrow> bindR (jint j) (\<lambda>x. Inr (Some x)))"

lemma jfloat_simps [simp]: "jfloat (JFloat x) = Inr x" "jint (JInt i) = Inr i"
  by (simp_all add: jfloat_def jint_def)

lemma optional_roundtrip [simp]:
  "optional_float (opt_float x) = Inr x" "optional_int (opt_int i) = Inr i"
  "jcanon (opt_float x) = opt_float x" "jcanon (opt_int i) = opt_int i"
  subgoal by (cases x) (simp_all add: optional_float_def opt_float_def)
  subgoal by (cases i) (simp_all add: optional_int_def opt_int_def)
  subgoal by (cases x) (simp_all add: opt_float_def)
  subgoal by (cases i) (simp_all add: opt_int_def)
  done

definition need_str :: "json \<Rightarrow> string res" where
  "need_str j = (case j of JStr s \<Rightarrow> Inr s | _ \<Rightarrow> Inl (TypeError ''expected str''))"

definition need_float :: "json \<Rightarrow> pyfloat res" where
  "need_float j = (case j of JFloat x \<Rightarrow> Inr x | JInt i \<Rightarrow> float_of_int i | _ \<Rightarrow> Inl (TypeError ''expected float''))"

lemma need_simps [simp]: "need_str (JStr s) = Inr s" "need_float (JFloat x) = Inr x"
  by (simp_all add: need_str_def need_float_def)

end
