(* ===== verification/Tables.thy ===== *)
theory Tables
  imports Json
begin

text \<open>
  SQLite tables with a text primary key as association lists in rowid order, with the statements the
  repositories issue: \<open>INSERT\<close> (an existing key raises \<open>IntegrityError\<close>), \<open>INSERT OR REPLACE\<close> (the old
  row goes, the new one gets the next rowid), \<open>INSERT OR IGNORE\<close>, upsert (the row keeps its place)
  and \<open>UPDATE\<close>. The locale \<open>keyed_store\<close> is the contract the services rely on.
\<close>

type_synonym 'r table = "(string \<times> 'r) list"

definition t_keys :: "'r table \<Rightarrow> string list" where
  "t_keys t = map fst t"

definition t_get :: "string \<Rightarrow> 'r table \<Rightarrow> 'r option" where
  "t_get k t = map_of t k"

definition t_rows :: "'r table \<Rightarrow> 'r list" where
  "t_rows t = map snd t"

definition t_insert :: "string \<Rightarrow> 'r \<Rightarrow> 'r table \<Rightarrow> 'r table res" where
  "t_insert k r t = (if k \<in> set (t_keys t) then Inl (IntegrityError ''UNIQUE constraint failed'') else Inr (t @ [(k, r)]))"

definition t_replace :: "string \<Rightarrow> 'r \<Rightarrow> 'r table \<Rightarrow> 'r table" where
  "t_replace k r t = filter (\<lambda>p. fst p \<noteq> k) t @ [(k, r)]"

definition t_ignore :: "string \<Rightarrow> 'r \<Rightarrow> 'r table \<Rightarrow> 'r table" where
  "t_ignore k r t = (if k \<in> set (t_keys t) then t else t @ [(k, r)])"

definition t_upsert :: "string \<Rightarrow> 'r \<Rightarrow> 'r table \<Rightarrow> 'r table" where
  "t_upsert k r t = (if k \<in> set (t_keys t) then map (\<lambda>(k', r'). if k' = k then (k', r) else (k', r')) t else t @ [(k, r)])"

text \<open>\<open>UPDATE ... WHERE key = ?\<close>.\<close>

definition t_update :: "string \<Rightarrow> ('r \<Rightarrow> 'r) \<Rightarrow> 'r table \<Rightarrow> 'r table" where
  "t_update k f t = map (\<lambda>(k', r). if k' = k then (k', f r) else (k', r)) t"

definition t_ok :: "'r table \<Rightarrow> bool" where
  "t_ok t \<longleftrightarrow> distinct (t_keys t)"

lemma t_keys_simps [simp]:
  "t_keys [] = []" "t_keys (t @ u) = t_keys t @ t_keys u" "t_keys ((k, r) # t) = k # t_keys t"
  by (simp_all add: t_keys_def)

lemma t_get_None: "t_get k t = None \<longleftrightarrow> k \<notin> set (t_keys t)"
  by (simp add: t_get_def t_keys_def map_of_eq_None_iff)

lemma map_of_filter_ne: "map_of (filter (\<lambda>p. fst p \<noteq> k) t) k' = (if k' = k then None else map_of t k')"
  by (induction t) auto

lemma t_get_replace [simp]: "t_get k' (t_replace k r t) = (if k' = k then Some r else t_get k' t)"
  by (auto simp: t_get_def t_replace_def map_add_def map_of_filter_ne split: option.splits)

lemma t_get_snoc: "t_get k' (t @ [(k, r)]) = (case t_get k' t of Some x \<Rightarrow> Some x | None \<Rightarrow> if k' = k then Some r else None)"
  by (auto simp: t_get_def map_add_def split: option.splits)

lemma t_get_notin [simp]: "k \<notin> set (t_keys t) \<Longrightarrow> t_get k t = None"
  by (simp add: t_get_None)

lemma t_get_insert: "t_insert k r t = Inr t' \<Longrightarrow> t_get k' t' = (if k' = k then Some r else t_get k' t)"
  by (auto simp: t_insert_def t_get_snoc split: if_splits option.splits)

lemma t_get_ignore: "t_get k' (t_ignore k r t) = (if k' = k \<and> k \<notin> set (t_keys t) then Some r else t_get k' t)"
  by (auto simp: t_ignore_def t_get_snoc split: option.splits)

lemma map_of_update_all: "map_of (map (\<lambda>(k', r'). if k' = k then (k', f r') else (k', r')) t) k'
    = (if k' = k then map_option f (map_of t k) else map_of t k')"
  by (induction t) auto

lemma t_get_update [simp]: "t_get k' (t_update k f t) = (if k' = k then map_option f (t_get k t) else t_get k' t)"
  by (simp add: t_get_def t_update_def map_of_update_all)

lemma t_get_upsert [simp]: "t_get k' (t_upsert k r t) = (if k' = k then Some r else t_get k' t)"
proof (cases "k \<in> set (t_keys t)")
  case True
  then obtain x where "t_get k t = Some x" using t_get_None [of k t] by (cases "t_get k t") auto
  then show ?thesis
    using True map_of_update_all [of k "\<lambda>_. r" t k'] by (simp add: t_upsert_def t_get_def)
next
  case False
  then have "t_get k t = None" by (simp add: t_get_None)
  then show ?thesis
    using False by (auto simp: t_upsert_def t_get_snoc split: option.splits)
qed

lemma t_keys_update [simp]: "t_keys (t_update k f t) = t_keys t"
  by (auto simp: t_keys_def t_update_def)

lemma t_ok_intros:
  "t_ok []"
  "t_ok t \<Longrightarrow> t_insert k r t = Inr t' \<Longrightarrow> t_ok t'"
  "t_ok t \<Longrightarrow> t_ok (t_replace k r t)"
  "t_ok t \<Longrightarrow> t_ok (t_ignore k r t)"
  "t_ok t \<Longrightarrow> t_ok (t_update k f t)"
  subgoal by (simp add: t_ok_def)
  subgoal by (auto simp: t_ok_def t_insert_def split: if_splits)
  subgoal by (auto simp: t_ok_def t_keys_def t_replace_def distinct_map_filter)
  subgoal by (auto simp: t_ok_def t_ignore_def)
  subgoal by (simp add: t_ok_def)
  done

lemma t_ok_upsert: "t_ok t \<Longrightarrow> t_ok (t_upsert k r t)"
proof -
  have "map fst (map (\<lambda>(k', r'). if k' = k then (k', r) else (k', r')) t) = map fst t"
    by (induction t) auto
  then show "t_ok t \<Longrightarrow> t_ok (t_upsert k r t)"
    unfolding t_ok_def t_upsert_def t_keys_def by (simp del: map_map)
qed

section \<open>The contract of a keyed repository\<close>

text \<open>
  A store of values under text keys: a stored value is read back under its key, every other key
  reads as before, and the store starts empty. Clients use only these laws.
\<close>

locale keyed_store =
  fixes get :: "string \<Rightarrow> 's \<Rightarrow> 'v option"
    and put :: "string \<Rightarrow> 'v \<Rightarrow> 's \<Rightarrow> 's"
    and empty_store :: 's
  assumes get_put: "get k' (put k v s) = (if k' = k then Some v else get k' s)"
    and get_empty: "get k empty_store = None"
begin

fun put_all :: "(string \<times> 'v) list \<Rightarrow> 's \<Rightarrow> 's" where
  "put_all [] s = s"
| "put_all ((k, v) # kvs) s = put_all kvs (put k v s)"

lemma get_put_all: "get k (put_all kvs s) = (case map_of (rev kvs) k of Some v \<Rightarrow> Some v | None \<Rightarrow> get k s)"
  by (induction kvs s rule: put_all.induct) (auto simp: get_put map_add_def split: option.splits)

lemma last_write_wins: "get k (put_all (kvs @ [(k, v)]) s) = Some v"
  by (simp add: get_put_all)

lemma unwritten_unchanged: "k \<notin> fst ` set kvs \<Longrightarrow> get k (put_all kvs s) = get k s"
  by (auto simp: get_put_all split: option.splits dest!: map_of_SomeD intro: rev_image_eqI)

lemma put_twice: "get k' (put k v (put k u s)) = get k' (put k v s)"
  by (simp add: get_put)

end

interpretation replace_store: keyed_store t_get t_replace "[]"
  by unfold_locales (simp, simp add: t_get_def)

end
