(* ===== verification/EventStore.thy ===== *)
theory EventStore
  imports Tables "HOL-Library.Product_Lexorder"
begin

text \<open>
  \<open>gaon/runtime/event_store.py\<close>: the durable append-only event log, its paging and the replay of a
  projection with checkpoints. A row keeps the canonical JSON of its payload, so a stored event is
  the event with its payload in canonical form. The lemmas show that the log is append-only, that
  paging by the last seen id visits every event exactly once in order, and what a replay leaves
  in the checkpoint and failure tables.
\<close>

definition MAX_EVENT_PAYLOAD_BYTES :: nat where
  "MAX_EVENT_PAYLOAD_BYTES = 32768"

record durable_event =
  de_event_id :: string
  de_event_type :: string
  de_occurred_at :: string
  de_actor_ref :: string
  de_correlation_id :: string
  de_causation_id :: "string option"
  de_scope :: string
  de_project :: string
  de_strategy :: string
  de_market :: string
  de_payload :: obj
  de_evidence_refs :: "string list"
  de_audit_refs :: "string list"
  de_appended_at :: string

record replay_result =
  rr_processed :: nat
  rr_failed :: nat
  rr_dry_run :: bool
  rr_last_event_id :: "string option"

record replay_failure =
  rf_projection_id :: string
  rf_event_id :: string
  rf_error_type :: string
  rf_created_at :: string

text \<open>The three tables; a checkpoint row holds the event id and the time.\<close>

record event_db =
  db_events :: "durable_event list"
  db_checkpoints :: "(string option \<times> string) table"
  db_failures :: "replay_failure table"

definition stored_event :: "durable_event \<Rightarrow> durable_event" where
  "stored_event e = e\<lparr>de_payload := ocanon (de_payload e)\<rparr>"

definition event_ids :: "durable_event list \<Rightarrow> string list" where
  "event_ids es = map de_event_id es"

definition events_append :: "durable_event \<Rightarrow> durable_event list \<Rightarrow> durable_event list res" where
  "events_append e es =
    (if MAX_EVENT_PAYLOAD_BYTES < length (dumps_json (de_payload e)) then Inl (ValueError ''event payload is too large'')
     else if de_event_id e \<in> set (event_ids es) then Inl (IntegrityError ''UNIQUE constraint failed: durable_events.event_id'')
     else Inr (es @ [stored_event e]))"

definition event_append :: "durable_event \<Rightarrow> (event_db, unit) opr" where
  "event_append e = (\<lambda>s. case events_append e (db_events s) of
      Inl er \<Rightarrow> (Inl er, s) | Inr es \<Rightarrow> (Inr (), s\<lparr>db_events := es\<rparr>))"

section \<open>Reading\<close>

definition event_key :: "durable_event \<Rightarrow> string \<times> string" where
  "event_key e = (de_occurred_at e, de_event_id e)"

text \<open>Row values compare as pairs in SQL; \<open>ORDER BY occurred_at, event_id\<close> sorts by the same key.\<close>

definition ordered_events :: "durable_event list \<Rightarrow> durable_event list" where
  "ordered_events es = sort_key event_key es"

definition read_after :: "string option \<Rightarrow> int \<Rightarrow> durable_event list \<Rightarrow> durable_event list res" where
  "read_after cursor limit es =
    (if limit < 1 \<or> 1000 < limit then Inl (ValueError ''replay batch size must be between 1 and 1000'')
     else case cursor of
       None \<Rightarrow> Inr (take (nat limit) (ordered_events es))
     | Some c \<Rightarrow> (case find (\<lambda>e. de_event_id e = c) es of
           None \<Rightarrow> Inl (KeyError c)
         | Some e \<Rightarrow> Inr (take (nat limit) (filter (\<lambda>x. event_key e < event_key x) (ordered_events es)))))"

definition checkpoint_of :: "string \<Rightarrow> event_db \<Rightarrow> string option" where
  "checkpoint_of pid s = (case t_get pid (db_checkpoints s) of None \<Rightarrow> None | Some (c, _) \<Rightarrow> c)"

section \<open>Replay\<close>

text \<open>
  One event of the loop: the projection \<open>apply\<close> may raise and changes its own world \<open>'w\<close>; the
  accumulator is (processed, failed, last event id).
\<close>

definition record_failure :: "string \<Rightarrow> durable_event \<Rightarrow> pyerr \<Rightarrow> string \<Rightarrow> event_db \<Rightarrow> event_db" where
  "record_failure pid e er now db = db\<lparr>db_failures := t_replace (''failure:'' @ pid @ '':'' @ de_event_id e)
     \<lparr>rf_projection_id = pid, rf_event_id = de_event_id e, rf_error_type = err_class er, rf_created_at = now\<rparr>
     (db_failures db)\<rparr>"

definition save_checkpoint :: "string \<Rightarrow> durable_event \<Rightarrow> string \<Rightarrow> event_db \<Rightarrow> event_db" where
  "save_checkpoint pid e now db = db\<lparr>db_checkpoints := t_upsert pid (Some (de_event_id e), now) (db_checkpoints db)\<rparr>"

fun replay_loop :: "string \<Rightarrow> (durable_event \<Rightarrow> ('w, unit) opr) \<Rightarrow> bool \<Rightarrow> string \<Rightarrow> durable_event list \<Rightarrow>
    nat \<times> nat \<times> string option \<Rightarrow> event_db \<times> 'w \<Rightarrow> (nat \<times> nat \<times> string option) \<times> event_db \<times> 'w" where
  "replay_loop pid app dry now [] acc (db, w) = (acc, db, w)"
| "replay_loop pid app dry now (e # es) (p, f, l) (db, w) =
    (case app e w of
       (Inl er, w') \<Rightarrow> replay_loop pid app dry now es (p, Suc f, l) (record_failure pid e er now db, w')
     | (Inr _, w') \<Rightarrow> replay_loop pid app dry now es (Suc p, f, Some (de_event_id e))
                       (if dry then db else save_checkpoint pid e now db, w'))"

definition replay :: "string \<Rightarrow> (durable_event \<Rightarrow> bool \<Rightarrow> ('w, unit) opr) \<Rightarrow> bool \<Rightarrow> int \<Rightarrow> string \<Rightarrow>
    (event_db \<times> 'w, replay_result) opr" where
  "replay pid app dry limit now = (\<lambda>(db, w).
    let cursor = checkpoint_of pid db in
    case read_after cursor limit (db_events db) of
      Inl er \<Rightarrow> (Inl er, (db, w))
    | Inr es \<Rightarrow> (case replay_loop pid (\<lambda>e. app e dry) dry now es (0, 0, cursor) (db, w) of
        ((p, f, l), db', w') \<Rightarrow>
          (Inr \<lparr>rr_processed = p, rr_failed = f, rr_dry_run = dry, rr_last_event_id = l\<rparr>, (db', w'))))"

section \<open>The log is append-only\<close>

definition events_ok :: "durable_event list \<Rightarrow> bool" where
  "events_ok es \<longleftrightarrow> distinct (event_ids es)"

lemma events_append_Inr_iff:
  "events_append e es = Inr es' \<longleftrightarrow> length (dumps_json (de_payload e)) \<le> MAX_EVENT_PAYLOAD_BYTES \<and>
     de_event_id e \<notin> set (event_ids es) \<and> es' = es @ [stored_event e]"
  by (auto simp: events_append_def)

lemma stored_event_id [simp]: "de_event_id (stored_event e) = de_event_id e"
  "de_occurred_at (stored_event e) = de_occurred_at e"
  by (simp_all add: stored_event_def)

lemma events_append_ok: "events_ok es \<Longrightarrow> events_append e es = Inr es' \<Longrightarrow> events_ok es'"
  by (auto simp: events_append_Inr_iff events_ok_def event_ids_def)

text \<open>
  Appending to the event log either adds exactly the one event at the end, or raises and leaves
  the log unchanged. So no sequence of appends drops, rewrites or duplicates a stored event.
\<close>

theorem event_log_append_only:
  "\<exists>new. db_events (fold (\<lambda>e s. snd (event_append e s)) es s) = db_events s @ new \<and>
     set new \<subseteq> stored_event ` set es \<and>
     (distinct (event_ids (db_events s)) \<longrightarrow> distinct (event_ids (db_events s @ new)))"
proof (induction es rule: rev_induct)
  case (snoc e es)
  then obtain new where new: "db_events (fold (\<lambda>e s. snd (event_append e s)) es s) = db_events s @ new"
     "set new \<subseteq> stored_event ` set es"
     "distinct (event_ids (db_events s)) \<longrightarrow> distinct (event_ids (db_events s @ new))"
    by blast
  show ?case
  proof (cases "events_append e (db_events s @ new)")
    case (Inl er)
    then show ?thesis using new by (auto simp: event_append_def intro!: exI [of _ new])
  next
    case (Inr es')
    then have "es' = db_events s @ new @ [stored_event e]" "de_event_id e \<notin> set (event_ids (db_events s @ new))"
      by (simp_all add: events_append_Inr_iff)
    then show ?thesis
      using new Inr by (intro exI [of _ "new @ [stored_event e]"]) (auto simp: event_append_def event_ids_def)
  qed
qed simp

section \<open>Paging\<close>

lemma filter_strict_drop:
  fixes f :: "'a \<Rightarrow> 'b :: linorder"
  assumes "sorted_wrt (<) (map f xs)" and "i < length xs"
  shows "filter (\<lambda>x. f (xs ! i) < f x) xs = drop (Suc i) xs"
  using assms
proof (induction xs arbitrary: i)
  case (Cons x xs)
  show ?case
  proof (cases i)
    case 0
    have "filter (\<lambda>y. f x < f y) xs = xs"
      using Cons.prems(1) by (simp add: filter_id_conv)
    then show ?thesis using 0 by simp
  next
    case (Suc j)
    then have "f x < f (xs ! j)" using Cons.prems by simp
    then have "\<not> f (xs ! j) < f x"
      by (meson order_less_asym)
    then show ?thesis using Suc Cons by simp
  qed
qed simp

lemma ordered_strict:
  assumes "events_ok es"
  shows "sorted_wrt (<) (map event_key (ordered_events es))"
proof -
  have "distinct (map de_event_id (ordered_events es))"
    using assms by (simp add: ordered_events_def events_ok_def event_ids_def distinct_map inj_on_def)
  then have "distinct (map event_key (ordered_events es))"
    by (auto simp: distinct_map inj_on_def event_key_def)
  moreover have "sorted (map event_key (ordered_events es))"
    by (simp add: ordered_events_def)
  ultimately show ?thesis
    by (simp add: strict_sorted_iff)
qed

lemma find_event:
  assumes "events_ok es" and "e \<in> set es"
  shows "find (\<lambda>x. de_event_id x = de_event_id e) es = Some e"
  using assms
proof (induction es)
  case (Cons x es)
  then show ?case by (auto simp: events_ok_def event_ids_def)
qed simp

text \<open>
  Paging is complete. In a log with distinct ids, reading after the id of the event at place \<open>i\<close>
  of the (occurred_at, event_id) order returns exactly the next events of that order, up to the
  limit; reading without a cursor starts at the first one. So following the last id of each page
  visits every event once, in order.
\<close>

theorem read_after_pages:
  assumes "events_ok es" and "1 \<le> limit" and "limit \<le> 1000"
  shows "read_after None limit es = Inr (take (nat limit) (ordered_events es)) \<and>
    (\<forall>i < length es. read_after (Some (de_event_id (ordered_events es ! i))) limit es =
       Inr (take (nat limit) (drop (Suc i) (ordered_events es))))"
proof (intro conjI allI impI)
  show "read_after None limit es = Inr (take (nat limit) (ordered_events es))"
    using assms by (simp add: read_after_def)
next
  fix i assume i: "i < length es"
  let ?xs = "ordered_events es"
  have len: "i < length ?xs" using i by (simp add: ordered_events_def)
  then have "?xs ! i \<in> set es"
    using nth_mem [OF len] by (simp add: ordered_events_def)
  then have "find (\<lambda>x. de_event_id x = de_event_id (?xs ! i)) es = Some (?xs ! i)"
    by (rule find_event [OF assms(1)])
  then show "read_after (Some (de_event_id (?xs ! i))) limit es = Inr (take (nat limit) (drop (Suc i) ?xs))"
    using assms filter_strict_drop [OF ordered_strict [OF assms(1)] len] by (simp add: read_after_def)
qed

section \<open>Replay\<close>

text \<open>What a loop without failures does: every event applied once, in order.\<close>

fun apply_all :: "(durable_event \<Rightarrow> ('w, unit) opr) \<Rightarrow> durable_event list \<Rightarrow> 'w \<Rightarrow> 'w" where
  "apply_all app [] w = w"
| "apply_all app (e # es) w = apply_all app es (snd (app e w))"

lemma replay_loop_counts:
  "replay_loop pid app dry now es (p, f, l) (db, w) = ((p', f', l'), db', w') \<Longrightarrow>
     p' + f' = p + f + length es \<and> w' = apply_all app es w \<and> db_events db' = db_events db \<and>
     (dry \<longrightarrow> db_checkpoints db' = db_checkpoints db)"
proof (induction es arbitrary: p f l db w)
  case (Cons e es)
  show ?case
  proof (cases "app e w")
    case (Pair r w1)
    show ?thesis
    proof (cases r)
      case (Inl er)
      then show ?thesis using Cons Pair by (fastforce simp: record_failure_def)
    next
      case (Inr u)
      then show ?thesis using Cons Pair by (fastforce simp: save_checkpoint_def split: if_splits)
    qed
  qed
qed simp

lemma replay_loop_checkpoint:
  "replay_loop pid app False now es (p, f, l) (db, w) = ((p', f', l'), db', w') \<Longrightarrow>
     (p' = p \<and> l' = l \<and> db_checkpoints db' = db_checkpoints db) \<or>
     (p < p' \<and> l' \<in> Some ` de_event_id ` set es \<and> checkpoint_of pid db' = l')"
proof (induction es arbitrary: p f l db w)
  case (Cons e es)
  show ?case
  proof (cases "app e w")
    case (Pair r w1)
    show ?thesis
    proof (cases r)
      case (Inl er)
      then have "replay_loop pid app False now es (p, Suc f, l) (record_failure pid e er now db, w1) = ((p', f', l'), db', w')"
        using Cons.prems Pair by simp
      from Cons.IH [OF this] show ?thesis by (auto simp: record_failure_def)
    next
      case (Inr u)
      then have "replay_loop pid app False now es (Suc p, f, Some (de_event_id e)) (save_checkpoint pid e now db, w1)
          = ((p', f', l'), db', w')"
        using Cons.prems Pair by simp
      from Cons.IH [OF this] show ?thesis
        by (auto simp: save_checkpoint_def checkpoint_of_def)
    qed
  qed
qed simp

text \<open>
  A replay hands every event of its page to the projection exactly once and in order, counts
  each as processed or failed, and never touches the event log. A dry run leaves the checkpoint as
  it was; otherwise the checkpoint becomes the last processed event, or stays when none was.
\<close>

theorem replay_effect:
  assumes "replay pid app dry limit now (db, w) = (Inr res, (db', w'))"
  shows "\<exists>page. read_after (checkpoint_of pid db) limit (db_events db) = Inr page \<and>
     rr_processed res + rr_failed res = length page \<and>
     w' = apply_all (\<lambda>e. app e dry) page w \<and> db_events db' = db_events db \<and>
     (dry \<or> rr_processed res = 0 \<longrightarrow> db_checkpoints db' = db_checkpoints db) \<and>
     (\<not> dry \<and> 0 < rr_processed res \<longrightarrow>
        checkpoint_of pid db' = rr_last_event_id res \<and> rr_last_event_id res \<in> Some ` de_event_id ` set page)"
proof -
  obtain page where page: "read_after (checkpoint_of pid db) limit (db_events db) = Inr page"
    using assms by (auto simp: replay_def Let_def split: sum.splits)
  obtain p f l where loop: "replay_loop pid (\<lambda>e. app e dry) dry now page (0, 0, checkpoint_of pid db) (db, w)
      = ((p, f, l), db', w')" and res: "res = \<lparr>rr_processed = p, rr_failed = f, rr_dry_run = dry, rr_last_event_id = l\<rparr>"
    using assms page by (auto simp: replay_def Let_def split: prod.splits)
  from replay_loop_counts [OF loop] have c: "p + f = length page" "w' = apply_all (\<lambda>e. app e dry) page w"
    "db_events db' = db_events db" "dry \<longrightarrow> db_checkpoints db' = db_checkpoints db"
    by auto
  have k: "\<not> dry \<longrightarrow> (p = 0 \<and> db_checkpoints db' = db_checkpoints db) \<or>
      (0 < p \<and> l \<in> Some ` de_event_id ` set page \<and> checkpoint_of pid db' = l)"
    using replay_loop_checkpoint [of pid _ now page 0 0 _ db w p f l db' w'] loop by (cases dry) auto
  show ?thesis
    using page res c k by (intro exI [of _ page]) auto
qed

section \<open>Witnesses\<close>

definition sample_event :: "string \<Rightarrow> durable_event" where
  "sample_event i = \<lparr>de_event_id = i, de_event_type = ''T'', de_occurred_at = ''2026'', de_actor_ref = ''a'',
     de_correlation_id = ''c'', de_causation_id = None, de_scope = ''s'', de_project = ''p'', de_strategy = ''x'',
     de_market = ''m'', de_payload = [], de_evidence_refs = [], de_audit_refs = [], de_appended_at = ''2026''\<rparr>"

theorem read_after_pages_witness:
  "read_after (Some ''e1'') 10 [sample_event ''e1''] = Inr []"
  using read_after_pages [of "[sample_event ''e1'']" 10]
  by (simp add: events_ok_def event_ids_def ordered_events_def sample_event_def)

definition sample_db :: event_db where
  "sample_db = \<lparr>db_events = [sample_event ''e1''], db_checkpoints = [], db_failures = []\<rparr>"

lemma sample_replay:
  "replay ''p'' (\<lambda>e dry. modO (\<lambda>n :: nat. Suc n)) False 10 ''now'' (sample_db, 0) =
     (Inr \<lparr>rr_processed = 1, rr_failed = 0, rr_dry_run = False, rr_last_event_id = Some ''e1''\<rparr>,
      (sample_db\<lparr>db_checkpoints := [(''p'', (Some ''e1'', ''now''))]\<rparr>, 1))"
  by (simp add: replay_def Let_def sample_db_def checkpoint_of_def read_after_def ordered_events_def
      save_checkpoint_def t_upsert_def t_get_def sample_event_def)

theorem replay_effect_witness:
  "checkpoint_of ''p'' (sample_db\<lparr>db_checkpoints := [(''p'', (Some ''e1'', ''now''))]\<rparr>) = Some ''e1''"
  using replay_effect [OF sample_replay] by auto

text \<open>
  An event whose projection failed is not retried once a later event of the page succeeds: the
  checkpoint passes over it, and only its row in the failure table remains.
\<close>

lemma replay_skips_failed_event:
  "case replay ''p'' (\<lambda>e dry. if de_event_id e = ''e1'' then raiseO (RuntimeError ''x'') else retO ()) False 10 ''now''
      (sample_db\<lparr>db_events := [sample_event ''e1'', sample_event ''e2'']\<rparr>, ()) of
     (Inr res, (db, _)) \<Rightarrow> rr_failed res = 1 \<and> checkpoint_of ''p'' db = Some ''e2'' \<and>
        t_keys (db_failures db) = [''failure:p:e1'']
   | _ \<Rightarrow> False"
proof -
  have "ordered_events [sample_event ''e1'', sample_event ''e2''] = [sample_event ''e1'', sample_event ''e2'']"
    by (simp add: ordered_events_def sample_event_def event_key_def)
  then show ?thesis
    by (simp add: replay_def Let_def sample_db_def checkpoint_of_def read_after_def
        save_checkpoint_def record_failure_def t_upsert_def t_get_def t_replace_def sample_event_def)
qed

theorem event_log_append_only_witness:
  "\<exists>new. db_events (snd (event_append (sample_event ''e2'') sample_db)) = db_events sample_db @ new \<and>
    distinct (event_ids (db_events sample_db @ new))"
  using event_log_append_only [of "[sample_event ''e2'']" sample_db]
  by (simp add: sample_db_def event_ids_def) blast

end
