(* ===== verification/Env.thy ===== *)
theory Env
  imports EventStore
begin

text \<open>
  What every adapter service shares: the optional event store and metrics collector it is built
  with, and the format checks of timestamps, dates, references and symbols (the regular expressions
  at the head of the adapter modules, matched with \<open>fullmatch\<close>). The state of a service is the base
  record \<open>env\<close> extended by the tables of its repository; the events operation fails like
  \<open>SQLiteEventStore.append\<close>, metrics are the log of calls made on the collector.
\<close>

section \<open>Formats\<close>

definition is_alnum :: "char \<Rightarrow> bool" where
  "is_alnum c \<longleftrightarrow> is_digit c \<or> is_upper c \<or> is_lower c"

definition one_of :: "string \<Rightarrow> char \<Rightarrow> bool" where
  "one_of cs c \<longleftrightarrow> c \<in> set cs"

text \<open>A fixed layout: digit positions and literal characters.\<close>

fun layout :: "string \<Rightarrow> string \<Rightarrow> bool" where
  "layout [] s = (s = [])"
| "layout (p # ps) [] = False"
| "layout (p # ps) (c # s) = ((if p = CHR ''d'' then is_digit c else c = p) \<and> layout ps s)"

text \<open>\<open>ISO_UTC\<close>: seconds, an optional fraction, then \<open>Z\<close>.\<close>

definition iso_utc :: "string \<Rightarrow> bool" where
  "iso_utc s \<longleftrightarrow> layout ''dddd-dd-ddTdd:dd:dd'' (take 19 s) \<and>
     (let rest = drop 19 s in rest = ''Z'' \<or>
       (startswith rest ''.'' \<and> endswith rest ''Z'' \<and> 2 < length rest \<and> list_all is_digit (butlast (tl rest))))"

definition date_only :: "string \<Rightarrow> bool" where
  "date_only s \<longleftrightarrow> layout ''dddd-dd-dd'' s"

text \<open>A reference: one alphanumeric character, then between \<open>lo\<close> and \<open>hi\<close> characters of a class.\<close>

definition ref_format :: "(char \<Rightarrow> bool) \<Rightarrow> (char \<Rightarrow> bool) \<Rightarrow> nat \<Rightarrow> nat \<Rightarrow> string \<Rightarrow> bool" where
  "ref_format first rest lo hi s \<longleftrightarrow>
     (case s of [] \<Rightarrow> False | c # cs \<Rightarrow> first c \<and> list_all rest cs \<and> lo \<le> length cs \<and> length cs \<le> hi)"

definition backtest_ref :: "string \<Rightarrow> bool" where
  "backtest_ref = ref_format is_alnum (\<lambda>c. is_alnum c \<or> one_of ''_.-'' c) 1 63"

definition safe_ref :: "string \<Rightarrow> bool" where
  "safe_ref = ref_format is_alnum (\<lambda>c. is_alnum c \<or> one_of ''_.:-'' c) 0 127"

definition symbol_ok :: "string \<Rightarrow> bool" where
  "symbol_ok = ref_format (\<lambda>c. is_upper c \<or> is_digit c) (\<lambda>c. is_upper c \<or> is_digit c \<or> one_of ''.-'' c) 0 19"

definition validate_utc :: "string \<Rightarrow> unit res" where
  "validate_utc value = guardR (iso_utc value) (ValueError ''timestamp must use ISO 8601 UTC format'')"

definition validate_symbol :: "string \<Rightarrow> unit res" where
  "validate_symbol symbol = guardR (symbol_ok symbol) (ValueError ''invalid symbol'')"

section \<open>Events and metrics of a service\<close>

datatype metric_call =
    MIncrement string string
  | MGauge string pyfloat string

record env =
  env_events :: "durable_event list option"
  env_metrics :: "metric_call list option"

definition record_event :: "durable_event \<Rightarrow> ('a env_scheme, unit) opr" where
  "record_event e = (\<lambda>s. case env_events s of
      None \<Rightarrow> (Inr (), s)
    | Some es \<Rightarrow> (case events_append e es of
        Inl er \<Rightarrow> (Inl er, s) | Inr es' \<Rightarrow> (Inr (), s\<lparr>env_events := Some es'\<rparr>)))"

text \<open>\<open>_increment\<close>: nothing happens without a collector.\<close>

definition increment :: "string \<Rightarrow> string \<Rightarrow> ('a env_scheme, unit) opr" where
  "increment component name = modO (\<lambda>s. s\<lparr>env_metrics := map_option (\<lambda>ms. ms @ [MIncrement name component]) (env_metrics s)\<rparr>)"

definition gauge :: "string \<Rightarrow> pyfloat \<Rightarrow> string \<Rightarrow> ('a env_scheme, unit) opr" where
  "gauge name value component = modO (\<lambda>s. s\<lparr>env_metrics := map_option (\<lambda>ms. ms @ [MGauge name value component]) (env_metrics s)\<rparr>)"

lemma keeps_record_event [keeps_intros]:
  "(\<And>s es. I s \<Longrightarrow> I (s\<lparr>env_events := es\<rparr>)) \<Longrightarrow> keeps I (record_event e)"
  by (auto simp: keeps_def record_event_def split: option.splits sum.splits)

lemma keeps_increment [keeps_intros]:
  "(\<And>s ms. I s \<Longrightarrow> I (s\<lparr>env_metrics := ms\<rparr>)) \<Longrightarrow> keeps I (increment component name)"
  by (auto simp: keeps_def increment_def)

lemma keeps_gauge [keeps_intros]:
  "(\<And>s ms. I s \<Longrightarrow> I (s\<lparr>env_metrics := ms\<rparr>)) \<Longrightarrow> keeps I (gauge name v component)"
  by (auto simp: keeps_def gauge_def)

lemma wp_increment [wp_simps]:
  "wp (increment component name) Q E s = Q () (s\<lparr>env_metrics := map_option (\<lambda>ms. ms @ [MIncrement name component]) (env_metrics s)\<rparr>)"
  by (simp add: increment_def wp_simps)

text \<open>An event is recorded, or the log is unchanged and the operation raises.\<close>

lemma record_event_cases:
  obtains "record_event e s = (Inr (), s)" "env_events s = None"
  | es es' where "env_events s = Some es" "events_append e es = Inr es'" "record_event e s = (Inr (), s\<lparr>env_events := Some es'\<rparr>)"
  | er where "record_event e s = (Inl er, s)"
  by (cases "env_events s"; cases "events_append e (the (env_events s))") (auto simp: record_event_def)

lemma wp_record_event [wp_simps]:
  "wp (record_event e) Q E s = (case env_events s of
      None \<Rightarrow> Q () s
    | Some es \<Rightarrow> (case events_append e es of Inl er \<Rightarrow> E er s | Inr es' \<Rightarrow> Q () (s\<lparr>env_events := Some es'\<rparr>)))"
  by (auto simp: wp_def record_event_def split: option.splits sum.splits)

text \<open>Without an event store nothing is recorded and nothing raises.\<close>

lemma record_event_None [simp]: "env_events s = None \<Longrightarrow> record_event e s = (Inr (), s)"
  by (simp add: record_event_def)

text \<open>The log of a service only grows.\<close>

definition log_extends :: "durable_event list option \<Rightarrow> durable_event list option \<Rightarrow> bool" where
  "log_extends a b \<longleftrightarrow> (case a of None \<Rightarrow> b = None | Some es \<Rightarrow> (\<exists>new. b = Some (es @ new)))"

lemma log_extends_refl [simp]: "log_extends a a"
  by (auto simp: log_extends_def split: option.splits)

lemma log_extends_trans: "log_extends a b \<Longrightarrow> log_extends b c \<Longrightarrow> log_extends a c"
  by (auto simp: log_extends_def split: option.splits)

lemma keeps_log_record [keeps_intros]: "keeps (\<lambda>s. log_extends l (env_events s)) (record_event e)"
  unfolding keeps_def
proof (intro allI impI)
  fix s :: "'a env_scheme" assume l: "log_extends l (env_events s)"
  show "log_extends l (env_events (snd (record_event e s)))"
  proof (cases rule: record_event_cases [of e s])
    case (2 es es')
    then have "log_extends (env_events s) (Some es')"
      by (auto simp: events_append_Inr_iff log_extends_def)
    then show ?thesis using l 2 log_extends_trans by simp
  qed (use l in simp_all)
qed

lemma keeps_no_log: "keeps (\<lambda>s. env_events s = None) (record_event e)"
  by (simp add: keeps_def)


text \<open>
  The \<open>_record\<close> of the champion, registry and deployment services: an event already in the log is
  not an error.
\<close>

definition record_once :: "durable_event \<Rightarrow> ('a env_scheme, unit) opr" where
  "record_once e = catchO (record_event e) (\<lambda>er. case er of IntegrityError _ \<Rightarrow> retO () | _ \<Rightarrow> raiseO er)"

lemma record_once_None [simp]: "env_events s = None \<Longrightarrow> record_once e s = (Inr (), s)"
  by (simp add: record_once_def catchO_apply)

lemma wp_record_once [wp_simps]:
  "wp (record_once e) Q E s = (case env_events s of
      None \<Rightarrow> Q () s
    | Some es \<Rightarrow> (case events_append e es of
          Inl (IntegrityError m) \<Rightarrow> Q () s | Inl er \<Rightarrow> E er s | Inr es' \<Rightarrow> Q () (s\<lparr>env_events := Some es'\<rparr>)))"
  by (auto simp: record_once_def wp_simps split: option.splits sum.splits pyerr.splits)

text \<open>Recording changes the log only, so a fact that ignores the log survives it.\<close>

lemma wp_record_onceI:
  assumes "\<And>es. Q () (s\<lparr>env_events := es\<rparr>)" and "\<And>er. E er s"
  shows "wp (record_once e) Q E s"
  using assms(1) [of "env_events s"] assms by (auto simp: wp_record_once split: option.splits sum.splits pyerr.splits)

lemma wp_record_eventI:
  assumes "\<And>es. Q () (s\<lparr>env_events := es\<rparr>)" and "\<And>er. E er s"
  shows "wp (record_event e) Q E s"
  using assms(1) [of "env_events s"] assms by (auto simp: wp_record_event split: option.splits sum.splits)

lemma keeps_record_once [keeps_intros]:
  "(\<And>s es. I s \<Longrightarrow> I (s\<lparr>env_events := es\<rparr>)) \<Longrightarrow> keeps I (record_once e)"
  unfolding record_once_def
  by (intro keeps_catch keeps_record_event) (auto simp: keeps_def split: pyerr.splits)

end
