(* ===== verification/Sha256.thy ===== *)
theory Sha256
  imports PyText "HOL-Library.Word"
begin

text \<open>
  \<open>hashlib.sha256(text).hexdigest()\<close> (FIPS 180-4) on 32-bit words (the constants in decimal), which the adapters use for request
  fingerprints and package checksums.
\<close>

unbundle bit_operations_syntax

type_synonym w32 = "32 word"

definition ror :: "nat \<Rightarrow> w32 \<Rightarrow> w32" where
  "ror n x = drop_bit n x OR push_bit (32 - n) x"

definition sha_k :: "w32 list" where
  "sha_k = [1116352408, 1899447441, 3049323471, 3921009573, 961987163, 1508970993, 2453635748, 2870763221,
    3624381080, 310598401, 607225278, 1426881987, 1925078388, 2162078206, 2614888103, 3248222580,
    3835390401, 4022224774, 264347078, 604807628, 770255983, 1249150122, 1555081692, 1996064986,
    2554220882, 2821834349, 2952996808, 3210313671, 3336571891, 3584528711, 113926993, 338241895,
    666307205, 773529912, 1294757372, 1396182291, 1695183700, 1986661051, 2177026350, 2456956037,
    2730485921, 2820302411, 3259730800, 3345764771, 3516065817, 3600352804, 4094571909, 275423344,
    430227734, 506948616, 659060556, 883997877, 958139571, 1322822218, 1537002063, 1747873779,
    1955562222, 2024104815, 2227730452, 2361852424, 2428436474, 2756734187, 3204031479, 3329325298]"

definition sha_h0 :: "w32 list" where
  "sha_h0 = [1779033703, 3144134277, 1013904242, 2773480762, 1359893119, 2600822924, 528734635, 1541459225]"

definition sha_byte_of :: "nat \<Rightarrow> nat \<Rightarrow> nat" where
  "sha_byte_of n i = n div 256 ^ i mod 256"

definition sha_pad :: "nat list \<Rightarrow> nat list" where
  "sha_pad bs = (let l = length bs; z = (55 + 64 - l mod 64) mod 64 in
     bs @ [128] @ replicate z 0 @ map (\<lambda>i. sha_byte_of (8 * l) (7 - i)) [0..<8])"

definition be_word :: "nat list \<Rightarrow> w32" where
  "be_word bs = of_nat (foldl (\<lambda>a b. 256 * a + b) 0 bs)"

function chunks :: "nat \<Rightarrow> 'a list \<Rightarrow> 'a list list" where
  "chunks n xs = (if n = 0 \<or> xs = [] then [] else take n xs # chunks n (drop n xs))"
  by pat_completeness auto
termination
  by (relation "measure (\<lambda>(n, xs). length xs)") auto

declare chunks.simps [simp del]

text \<open>The message schedule is built in reverse: the head is the latest word.\<close>

fun sha_extend :: "nat \<Rightarrow> w32 list \<Rightarrow> w32 list" where
  "sha_extend 0 rw = rw"
| "sha_extend (Suc k) rw =
    (let w2 = rw ! 1; w15 = rw ! 14;
         s0 = ror 7 w15 XOR ror 18 w15 XOR drop_bit 3 w15;
         s1 = ror 17 w2 XOR ror 19 w2 XOR drop_bit 10 w2
     in sha_extend k ((rw ! 15 + s0 + rw ! 6 + s1) # rw))"

fun sha_round :: "w32 \<times> w32 \<Rightarrow> w32 list \<Rightarrow> w32 list" where
  "sha_round (k, w) [a, b, c, d, e, f, g, h] =
    (let s1 = ror 6 e XOR ror 11 e XOR ror 25 e;
         ch = (e AND f) XOR (NOT e AND g);
         t1 = h + s1 + ch + k + w;
         s0 = ror 2 a XOR ror 13 a XOR ror 22 a;
         maj = (a AND b) XOR (a AND c) XOR (b AND c)
     in [t1 + s0 + maj, a, b, c, d + t1, e, f, g])"
| "sha_round _ hs = hs"

definition sha_block :: "w32 list \<Rightarrow> nat list \<Rightarrow> w32 list" where
  "sha_block hs block = (let ws = rev (sha_extend 48 (rev (map be_word (chunks 4 block))))
     in map2 (+) hs (fold sha_round (zip sha_k ws) hs))"

definition hex_word :: "w32 \<Rightarrow> string" where
  "hex_word w = map (\<lambda>i. let d = nat (uint w) div 16 ^ (7 - i) mod 16 in
     if d < 10 then chr (48 + d) else chr (87 + d)) [0..<8]"

definition sha256_hex :: "string \<Rightarrow> string" where
  "sha256_hex s = concat (map hex_word (foldl sha_block sha_h0 (chunks 64 (sha_pad (map ordc s)))))"

end
