(* ===== verification/Backtest.thy ===== *)
theory Backtest
  imports Env Sha256
begin

text \<open>
  \<open>gaon/adapters/backtest.py\<close>: requests with their reproducibility fingerprint, results and their
  stored form, the normalisation of a raw engine payload, the fake adapter, the repository and the
  execution service over an adapter interface. The local-process adapter is not modelled: it parses
  the text printed by a program outside the repository.
\<close>

definition MAX_OUTPUT_BYTES :: int where
  "MAX_OUTPUT_BYTES = 64000"

datatype backtest_status = BT_REQUESTED | BT_VALIDATED | BT_COMPLETED | BT_FAILED | BT_REJECTED | BT_TIMEOUT

fun backtest_status_value :: "backtest_status \<Rightarrow> string" where
  "backtest_status_value BT_REQUESTED = ''requested''"
| "backtest_status_value BT_VALIDATED = ''validated''"
| "backtest_status_value BT_COMPLETED = ''completed''"
| "backtest_status_value BT_FAILED = ''failed''"
| "backtest_status_value BT_REJECTED = ''rejected''"
| "backtest_status_value BT_TIMEOUT = ''timeout''"

definition backtest_status_of :: "string \<Rightarrow> backtest_status res" where
  "backtest_status_of s = ofOption (ValueError ''not a valid BacktestStatus'') (find (\<lambda>m. backtest_status_value m = s)
     [BT_REQUESTED, BT_VALIDATED, BT_COMPLETED, BT_FAILED, BT_REJECTED, BT_TIMEOUT])"

lemma backtest_status_roundtrip [simp]: "backtest_status_of (backtest_status_value st) = Inr st"
  by (cases st) (simp_all add: backtest_status_of_def)

section \<open>Requests\<close>

definition validate_backtest_ref :: "string \<Rightarrow> string \<Rightarrow> unit res" where
  "validate_backtest_ref value label = guardR (backtest_ref value) (ValueError (''invalid '' @ label))"

record strategy_ref =
  sr_strategy_id :: string
  sr_version :: string

definition mk_strategy_ref :: "string \<Rightarrow> string \<Rightarrow> strategy_ref res" where
  "mk_strategy_ref sid version = bindR (validate_backtest_ref sid ''strategy id'') (\<lambda>_.
     bindR (validate_backtest_ref version ''strategy version'') (\<lambda>_.
     Inr \<lparr>sr_strategy_id = sid, sr_version = version\<rparr>))"

record dataset_ref =
  dr_dataset_id :: string
  dr_version :: string

definition mk_dataset_ref :: "string \<Rightarrow> string \<Rightarrow> dataset_ref res" where
  "mk_dataset_ref did version = bindR (validate_backtest_ref did ''dataset id'') (\<lambda>_.
     bindR (validate_backtest_ref version ''dataset version'') (\<lambda>_.
     Inr \<lparr>dr_dataset_id = did, dr_version = version\<rparr>))"

record backtest_period =
  bp_start_date :: string
  bp_end_date :: string

definition mk_backtest_period :: "string \<Rightarrow> string \<Rightarrow> backtest_period res" where
  "mk_backtest_period s e =
     bindR (guardR (date_only s \<and> date_only e) (ValueError ''backtest period dates must use YYYY-MM-DD'')) (\<lambda>_.
     bindR (guardR (\<not> e \<le> s) (ValueError ''backtest period start_date must be before end_date'')) (\<lambda>_.
     Inr \<lparr>bp_start_date = s, bp_end_date = e\<rparr>))"

record backtest_request =
  bq_request_id :: string
  bq_strategy :: strategy_ref
  bq_dataset :: dataset_ref
  bq_period :: backtest_period
  bq_parameters :: obj
  bq_actor_ref :: string
  bq_created_at :: string
  bq_engine_version :: string

definition mk_backtest_request :: "backtest_request \<Rightarrow> backtest_request res" where
  "mk_backtest_request r =
     bindR (guardR (bq_request_id r \<noteq> [] \<and> bq_actor_ref r \<noteq> []) (ValueError ''backtest request requires id and actor'')) (\<lambda>_.
     bindR (validate_backtest_ref (replace_all '':'' ''-'' (bq_request_id r)) ''request id'') (\<lambda>_.
     bindR (validate_utc (bq_created_at r)) (\<lambda>_.
     bindR (validate_backtest_ref (bq_engine_version r) ''engine version'') (\<lambda>_. Inr r))))"

definition strategy_ref_json :: "strategy_ref \<Rightarrow> json" where
  "strategy_ref_json s = JObj [(''strategy_id'', JStr (sr_strategy_id s)), (''version'', JStr (sr_version s))]"

definition dataset_ref_json :: "dataset_ref \<Rightarrow> json" where
  "dataset_ref_json d = JObj [(''dataset_id'', JStr (dr_dataset_id d)), (''version'', JStr (dr_version d))]"

definition period_json :: "backtest_period \<Rightarrow> json" where
  "period_json p = JObj [(''start_date'', JStr (bp_start_date p)), (''end_date'', JStr (bp_end_date p))]"

text \<open>What the fingerprint depends on: neither the request id nor the actor nor the time.\<close>

definition fingerprint_material :: "backtest_request \<Rightarrow> obj" where
  "fingerprint_material r = [(''strategy'', strategy_ref_json (bq_strategy r)), (''dataset'', dataset_ref_json (bq_dataset r)),
     (''period'', period_json (bq_period r)), (''parameters'', JObj (bq_parameters r)),
     (''engine_version'', JStr (bq_engine_version r))]"

definition backtest_fingerprint :: "backtest_request \<Rightarrow> string" where
  "backtest_fingerprint r = take 24 (sha256_hex (dumps_json (fingerprint_material r)))"

definition backtest_request_to_json :: "backtest_request \<Rightarrow> obj" where
  "backtest_request_to_json r = [(''request_id'', JStr (bq_request_id r)), (''strategy'', strategy_ref_json (bq_strategy r)),
     (''dataset'', dataset_ref_json (bq_dataset r)), (''period'', period_json (bq_period r)),
     (''parameters'', JObj (bq_parameters r)), (''actor_ref'', JStr (bq_actor_ref r)),
     (''created_at'', JStr (bq_created_at r)), (''engine_version'', JStr (bq_engine_version r)),
     (''fingerprint'', JStr (backtest_fingerprint r))]"

definition build_backtest_request :: "string \<Rightarrow> string \<Rightarrow> string \<Rightarrow> string \<Rightarrow> string \<Rightarrow> string \<Rightarrow> string \<Rightarrow> obj option \<Rightarrow> backtest_request res" where
  "build_backtest_request rid sid did start end' actor created params =
     bindR (mk_strategy_ref sid ''v1'') (\<lambda>s. bindR (mk_dataset_ref did ''fixture'') (\<lambda>d.
     bindR (mk_backtest_period start end') (\<lambda>p.
     mk_backtest_request \<lparr>bq_request_id = rid, bq_strategy = s, bq_dataset = d, bq_period = p,
       bq_parameters = (case params of Some o' \<Rightarrow> o' | None \<Rightarrow> []), bq_actor_ref = actor,
       bq_created_at = created, bq_engine_version = ''v1-fixture''\<rparr>)))"

record backtest_context =
  bc_timeout_seconds :: int
  bc_max_output_bytes :: int
  bc_generated_at :: string

definition mk_backtest_context :: "int \<Rightarrow> int \<Rightarrow> string \<Rightarrow> backtest_context res" where
  "mk_backtest_context timeout bytes at' =
     bindR (validate_utc at') (\<lambda>_.
     bindR (guardR (\<not> (timeout < 1 \<or> 300 < timeout)) (ValueError ''backtest timeout must be bounded'')) (\<lambda>_.
     bindR (guardR (\<not> (bytes < 1024 \<or> MAX_OUTPUT_BYTES < bytes)) (ValueError ''backtest output bound is invalid'')) (\<lambda>_.
     Inr \<lparr>bc_timeout_seconds = timeout, bc_max_output_bytes = bytes, bc_generated_at = at'\<rparr>)))"

section \<open>Results\<close>

record backtest_metrics =
  bm_total_return :: "pyfloat option"
  bm_annualized_return :: "pyfloat option"
  bm_max_drawdown :: "pyfloat option"
  bm_win_rate :: "pyfloat option"
  bm_profit_factor :: "pyfloat option"
  bm_sharpe_ratio :: "pyfloat option"
  bm_trade_count :: "int option"
  bm_average_trade_return :: "pyfloat option"
  bm_exposure :: "pyfloat option"
  bm_start_date :: "string option"
  bm_end_date :: "string option"

definition backtest_metrics_none :: backtest_metrics where
  "backtest_metrics_none = \<lparr>bm_total_return = None, bm_annualized_return = None, bm_max_drawdown = None,
     bm_win_rate = None, bm_profit_factor = None, bm_sharpe_ratio = None, bm_trade_count = None,
     bm_average_trade_return = None, bm_exposure = None, bm_start_date = None, bm_end_date = None\<rparr>"

record trade_summary =
  sm_trade_count :: int
  sm_winning_trades :: "int option"
  sm_losing_trades :: "int option"
  sm_gross_profit :: "pyfloat option"
  sm_gross_loss :: "pyfloat option"

definition mk_trade_summary :: "trade_summary \<Rightarrow> trade_summary res" where
  "mk_trade_summary t = bindR (guardR (\<not> sm_trade_count t < 0) (ValueError ''trade_count must be non-negative'')) (\<lambda>_. Inr t)"

definition count_summary :: "int \<Rightarrow> trade_summary" where
  "count_summary n = \<lparr>sm_trade_count = n, sm_winning_trades = None, sm_losing_trades = None,
     sm_gross_profit = None, sm_gross_loss = None\<rparr>"

record backtest_result =
  br_result_id :: string
  br_request_id :: string
  br_status :: backtest_status
  br_fingerprint :: string
  br_strategy :: strategy_ref
  br_dataset :: dataset_ref
  br_period :: backtest_period
  br_metrics :: backtest_metrics
  br_trade_summary :: trade_summary
  br_raw_engine_version :: string
  br_parameters :: obj
  br_warnings :: "string list"
  br_errors :: "string list"
  br_generated_at :: string
  br_duration_ms :: int
  br_reproducibility :: "(string \<times> string) list"

definition mk_backtest_result :: "backtest_result \<Rightarrow> backtest_result res" where
  "mk_backtest_result r = bindR (validate_utc (br_generated_at r)) (\<lambda>_.
     bindR (guardR (\<not> br_duration_ms r < 0) (ValueError ''duration_ms must be non-negative'')) (\<lambda>_. Inr r))"

definition backtest_metrics_json :: "backtest_metrics \<Rightarrow> obj" where
  "backtest_metrics_json m = [(''total_return'', opt_float (bm_total_return m)), (''annualized_return'', opt_float (bm_annualized_return m)),
     (''max_drawdown'', opt_float (bm_max_drawdown m)), (''win_rate'', opt_float (bm_win_rate m)),
     (''profit_factor'', opt_float (bm_profit_factor m)), (''sharpe_ratio'', opt_float (bm_sharpe_ratio m)),
     (''trade_count'', opt_int (bm_trade_count m)), (''average_trade_return'', opt_float (bm_average_trade_return m)),
     (''exposure'', opt_float (bm_exposure m)), (''start_date'', of_opt (bm_start_date m)), (''end_date'', of_opt (bm_end_date m))]"

definition trade_summary_json :: "trade_summary \<Rightarrow> obj" where
  "trade_summary_json t = [(''trade_count'', JInt (sm_trade_count t)), (''winning_trades'', opt_int (sm_winning_trades t)),
     (''losing_trades'', opt_int (sm_losing_trades t)), (''gross_profit'', opt_float (sm_gross_profit t)),
     (''gross_loss'', opt_float (sm_gross_loss t))]"

definition backtest_result_to_json :: "backtest_result \<Rightarrow> obj" where
  "backtest_result_to_json r = [(''result_id'', JStr (br_result_id r)), (''request_id'', JStr (br_request_id r)),
     (''status'', JStr (backtest_status_value (br_status r))), (''fingerprint'', JStr (br_fingerprint r)),
     (''strategy'', strategy_ref_json (br_strategy r)), (''dataset'', dataset_ref_json (br_dataset r)),
     (''period'', period_json (br_period r)), (''metrics'', JObj (backtest_metrics_json (br_metrics r))),
     (''trade_summary'', JObj (trade_summary_json (br_trade_summary r))),
     (''raw_engine_version'', JStr (br_raw_engine_version r)), (''parameters'', JObj (br_parameters r)),
     (''warnings'', jstrs (br_warnings r)), (''errors'', jstrs (br_errors r)),
     (''generated_at'', JStr (br_generated_at r)), (''duration_ms'', JInt (br_duration_ms r)),
     (''reproducibility'', JObj (map (\<lambda>(k, v). (k, JStr v)) (br_reproducibility r)))]"

text \<open>
  \<open>Cls(**payload)\<close> for a payload the repository wrote: a missing key is an error, and so is a value of
  another type than the field's (the checks of the constructors need the type).
\<close>

definition need_opt_float :: "json \<Rightarrow> pyfloat option res" where
  "need_opt_float j = (case j of JNull \<Rightarrow> Inr None | _ \<Rightarrow> bindR (need_float j) (\<lambda>x. Inr (Some x)))"

definition need_int :: "json \<Rightarrow> int res" where
  "need_int j = (case j of JInt i \<Rightarrow> Inr i | _ \<Rightarrow> Inl (TypeError ''expected int''))"

definition need_opt_int :: "json \<Rightarrow> int option res" where
  "need_opt_int j = (case j of JNull \<Rightarrow> Inr None | _ \<Rightarrow> bindR (need_int j) (\<lambda>x. Inr (Some x)))"

definition need_opt_str :: "json \<Rightarrow> string option res" where
  "need_opt_str j = (case j of JNull \<Rightarrow> Inr None | _ \<Rightarrow> bindR (need_str j) (\<lambda>x. Inr (Some x)))"

lemma need_opt_simps [simp]:
  "need_opt_float (opt_float x) = Inr x" "need_opt_int (opt_int i) = Inr i" "need_opt_str (of_opt s) = Inr s"
  "need_int (JInt n) = Inr n"
  subgoal by (cases x) (simp_all add: need_opt_float_def opt_float_def)
  subgoal by (cases i) (simp_all add: need_opt_int_def opt_int_def need_int_def)
  subgoal by (cases s) (simp_all add: need_opt_str_def of_opt_def)
  subgoal by (simp add: need_int_def)
  done

definition backtest_metrics_from_json :: "obj \<Rightarrow> backtest_metrics res" where
  "backtest_metrics_from_json m =
    bindR (bindR (jreq m ''total_return'') need_opt_float) (\<lambda>tr. bindR (bindR (jreq m ''annualized_return'') need_opt_float) (\<lambda>ar.
    bindR (bindR (jreq m ''max_drawdown'') need_opt_float) (\<lambda>dd. bindR (bindR (jreq m ''win_rate'') need_opt_float) (\<lambda>wr.
    bindR (bindR (jreq m ''profit_factor'') need_opt_float) (\<lambda>pf. bindR (bindR (jreq m ''sharpe_ratio'') need_opt_float) (\<lambda>sr.
    bindR (bindR (jreq m ''trade_count'') need_opt_int) (\<lambda>tc. bindR (bindR (jreq m ''average_trade_return'') need_opt_float) (\<lambda>at'.
    bindR (bindR (jreq m ''exposure'') need_opt_float) (\<lambda>ex. bindR (bindR (jreq m ''start_date'') need_opt_str) (\<lambda>sd.
    bindR (bindR (jreq m ''end_date'') need_opt_str) (\<lambda>ed.
    Inr \<lparr>bm_total_return = tr, bm_annualized_return = ar, bm_max_drawdown = dd, bm_win_rate = wr, bm_profit_factor = pf,
         bm_sharpe_ratio = sr, bm_trade_count = tc, bm_average_trade_return = at', bm_exposure = ex,
         bm_start_date = sd, bm_end_date = ed\<rparr>)))))))))))"

definition trade_summary_from_json :: "obj \<Rightarrow> trade_summary res" where
  "trade_summary_from_json t =
    bindR (bindR (jreq t ''trade_count'') need_int) (\<lambda>tc. bindR (bindR (jreq t ''winning_trades'') need_opt_int) (\<lambda>w.
    bindR (bindR (jreq t ''losing_trades'') need_opt_int) (\<lambda>l. bindR (bindR (jreq t ''gross_profit'') need_opt_float) (\<lambda>gp.
    bindR (bindR (jreq t ''gross_loss'') need_opt_float) (\<lambda>gl.
    mk_trade_summary \<lparr>sm_trade_count = tc, sm_winning_trades = w, sm_losing_trades = l, sm_gross_profit = gp, sm_gross_loss = gl\<rparr>)))))"

definition strategy_ref_from_json :: "json \<Rightarrow> strategy_ref res" where
  "strategy_ref_from_json j = bindR (need_obj j) (\<lambda>o'. bindR (bindR (jreq o' ''strategy_id'') need_str) (\<lambda>sid.
     bindR (bindR (jreq o' ''version'') need_str) (mk_strategy_ref sid)))"

definition dataset_ref_from_json :: "json \<Rightarrow> dataset_ref res" where
  "dataset_ref_from_json j = bindR (need_obj j) (\<lambda>o'. bindR (bindR (jreq o' ''dataset_id'') need_str) (\<lambda>did.
     bindR (bindR (jreq o' ''version'') need_str) (mk_dataset_ref did)))"

definition period_from_json :: "json \<Rightarrow> backtest_period res" where
  "period_from_json j = bindR (need_obj j) (\<lambda>o'. bindR (bindR (jreq o' ''start_date'') need_str) (\<lambda>s.
     bindR (bindR (jreq o' ''end_date'') need_str) (mk_backtest_period s)))"

definition backtest_result_from_json :: "obj \<Rightarrow> backtest_result res" where
  "backtest_result_from_json o' =
    bindR (bindR (bindR (jreq o' ''metrics'') need_obj) backtest_metrics_from_json) (\<lambda>metrics.
    bindR (bindR (bindR (jreq o' ''trade_summary'') need_obj) trade_summary_from_json) (\<lambda>summary.
    bindR (jreq o' ''result_id'') (\<lambda>rid. bindR (jreq o' ''request_id'') (\<lambda>qid.
    bindR (bindR (jreq o' ''status'') (\<lambda>v. backtest_status_of (py_str v))) (\<lambda>st.
    bindR (jreq o' ''fingerprint'') (\<lambda>fp.
    bindR (bindR (jreq o' ''strategy'') strategy_ref_from_json) (\<lambda>s.
    bindR (bindR (jreq o' ''dataset'') dataset_ref_from_json) (\<lambda>d.
    bindR (bindR (jreq o' ''period'') period_from_json) (\<lambda>p.
    bindR (jreq o' ''raw_engine_version'') (\<lambda>ev. bindR (bindR (jreq o' ''parameters'') as_dict) (\<lambda>params.
    bindR (bindR (jreq o' ''warnings'') as_items) (\<lambda>ws. bindR (bindR (jreq o' ''errors'') as_items) (\<lambda>es.
    bindR (jreq o' ''generated_at'') (\<lambda>ga. bindR (bindR (jreq o' ''duration_ms'') jint) (\<lambda>ms.
    bindR (bindR (jreq o' ''reproducibility'') need_obj) (\<lambda>rep.
    mk_backtest_result \<lparr>br_result_id = py_str rid, br_request_id = py_str qid, br_status = st, br_fingerprint = py_str fp,
      br_strategy = s, br_dataset = d, br_period = p, br_metrics = metrics, br_trade_summary = summary,
      br_raw_engine_version = py_str ev, br_parameters = params, br_warnings = map py_str ws, br_errors = map py_str es,
      br_generated_at = py_str ga, br_duration_ms = ms,
      br_reproducibility = map (\<lambda>(k, v). (k, py_str v)) rep\<rparr>))))))))))))))))"

text \<open>\<open>_failed_result\<close>.\<close>

definition reproducibility_of :: "backtest_request \<Rightarrow> (string \<times> string) list" where
  "reproducibility_of r = [(''fingerprint'', backtest_fingerprint r), (''strategy_id'', sr_strategy_id (bq_strategy r)),
     (''dataset_id'', dr_dataset_id (bq_dataset r))]"

definition failed_result :: "backtest_request \<Rightarrow> backtest_status \<Rightarrow> string list \<Rightarrow> string \<Rightarrow> int \<Rightarrow> backtest_result res" where
  "failed_result r st errors at' ms = mk_backtest_result
    \<lparr>br_result_id = ''backtest-result:'' @ backtest_fingerprint r, br_request_id = bq_request_id r, br_status = st,
     br_fingerprint = backtest_fingerprint r, br_strategy = bq_strategy r, br_dataset = bq_dataset r, br_period = bq_period r,
     br_metrics = backtest_metrics_none\<lparr>bm_start_date := Some (bp_start_date (bq_period r)), bm_end_date := Some (bp_end_date (bq_period r))\<rparr>,
     br_trade_summary = count_summary 0, br_raw_engine_version = bq_engine_version r, br_parameters = bq_parameters r,
     br_warnings = [], br_errors = errors, br_generated_at = at', br_duration_ms = ms,
     br_reproducibility = reproducibility_of r\<rparr>"

text \<open>\<open>normalize_v1_backtest_result\<close>; the metrics default to nothing when the payload has none.\<close>

definition opt_text :: "obj \<Rightarrow> string \<Rightarrow> string option" where
  "opt_text o' k = map_option py_str (map_of o' k)"

definition normalize_metrics :: "obj \<Rightarrow> backtest_metrics res" where
  "normalize_metrics m =
    bindR (optional_float (jget m ''total_return'')) (\<lambda>tr. bindR (optional_float (jget m ''annualized_return'')) (\<lambda>ar.
    bindR (optional_float (jget m ''max_drawdown'')) (\<lambda>dd. bindR (optional_float (jget m ''win_rate'')) (\<lambda>wr.
    bindR (optional_float (jget m ''profit_factor'')) (\<lambda>pf. bindR (optional_float (jget m ''sharpe_ratio'')) (\<lambda>sr.
    bindR (optional_int (jget m ''trade_count'')) (\<lambda>tc. bindR (optional_float (jget m ''average_trade_return'')) (\<lambda>at'.
    bindR (optional_float (jget m ''exposure'')) (\<lambda>ex.
    Inr \<lparr>bm_total_return = tr, bm_annualized_return = ar, bm_max_drawdown = dd, bm_win_rate = wr, bm_profit_factor = pf,
         bm_sharpe_ratio = sr, bm_trade_count = tc, bm_average_trade_return = at', bm_exposure = ex,
         bm_start_date = opt_text m ''start_date'', bm_end_date = opt_text m ''end_date''\<rparr>)))))))))"

definition text_items :: "obj \<Rightarrow> string \<Rightarrow> string list res" where
  "text_items raw k = (case map_of raw k of None \<Rightarrow> Inr []
     | Some (JArr xs) \<Rightarrow> Inr (map py_str xs)
     | Some (JObj kvs) \<Rightarrow> Inr (map fst kvs)
     | Some (JStr s) \<Rightarrow> Inr (map (\<lambda>c. [c]) s)
     | Some _ \<Rightarrow> Inl (TypeError ''object is not iterable''))"

definition normalize_v1_result :: "backtest_request \<Rightarrow> obj \<Rightarrow> string \<Rightarrow> int option \<Rightarrow> backtest_result res" where
  "normalize_v1_result r raw at' ms =
    bindR (normalize_metrics (case map_of raw ''metrics'' of Some (JObj m) \<Rightarrow> m | _ \<Rightarrow> [])) (\<lambda>metrics.
    bindR (mk_trade_summary (count_summary (case bm_trade_count metrics of Some n \<Rightarrow> n | None \<Rightarrow> 0))) (\<lambda>summary.
    bindR (text_items raw ''warnings'') (\<lambda>ws. bindR (text_items raw ''errors'') (\<lambda>es.
    bindR (case ms of Some n \<Rightarrow> Inr n | None \<Rightarrow> (case map_of raw ''duration_ms'' of Some v \<Rightarrow> jint v | None \<Rightarrow> Inr 0)) (\<lambda>duration.
    mk_backtest_result
    \<lparr>br_result_id = ''backtest-result:'' @ backtest_fingerprint r, br_request_id = bq_request_id r, br_status = BT_COMPLETED,
     br_fingerprint = backtest_fingerprint r, br_strategy = bq_strategy r, br_dataset = bq_dataset r, br_period = bq_period r,
     br_metrics = metrics, br_trade_summary = summary,
     br_raw_engine_version = (case map_of raw ''engine_version'' of Some v \<Rightarrow> py_str v | None \<Rightarrow> bq_engine_version r),
     br_parameters = bq_parameters r, br_warnings = ws, br_errors = es, br_generated_at = at', br_duration_ms = duration,
     br_reproducibility = reproducibility_of r\<rparr>)))))"

section \<open>The fake adapter\<close>

record fake_backtest =
  fb_supported :: "string list"
  fb_fail :: bool

definition fake_backtest_init :: "string list \<Rightarrow> bool \<Rightarrow> fake_backtest" where
  "fake_backtest_init supported fail = \<lparr>fb_supported = sort supported, fb_fail = fail\<rparr>"

definition DEFAULT_SUPPORTED_STRATEGIES :: "string list" where
  "DEFAULT_SUPPORTED_STRATEGIES = [''turtle_v5'', ''turtle_v6_candidate'']"

definition fake_bt_validate :: "backtest_request \<Rightarrow> fake_backtest \<Rightarrow> bool \<times> string list" where
  "fake_bt_validate r a = (let reasons = (if sr_strategy_id (bq_strategy r) \<notin> set (fb_supported a) then [''unsupported strategy''] else [])
     in (reasons = [], reasons))"

definition fixture_payload :: "backtest_request \<Rightarrow> obj" where
  "fixture_payload r = [(''engine_version'', JStr (bq_engine_version r)),
     (''strategy_version'', JStr (sr_version (bq_strategy r))), (''dataset_version'', JStr (dr_version (bq_dataset r))),
     (''metrics'', JObj [(''total_return'', JFloat (fl (1234 / 10000))), (''max_drawdown'', JFloat (fl (- 45 / 1000))),
        (''win_rate'', JFloat (fl (55 / 100))), (''profit_factor'', JFloat (fl (142 / 100))), (''trade_count'', JInt 12),
        (''start_date'', JStr (bp_start_date (bq_period r))), (''end_date'', JStr (bp_end_date (bq_period r)))]),
     (''warnings'', JArr [JStr ''fixture result; real v1 engine not invoked'']), (''errors'', JArr []), (''duration_ms'', JInt 7)]"

definition fake_bt_run :: "backtest_request \<Rightarrow> backtest_context \<Rightarrow> fake_backtest \<Rightarrow> backtest_result res" where
  "fake_bt_run r ctx a = (case fake_bt_validate r a of (valid, reasons) \<Rightarrow>
     if \<not> valid then failed_result r BT_REJECTED reasons (bc_generated_at ctx) 0
     else if fb_fail a then failed_result r BT_FAILED [''fake backtest failure''] (bc_generated_at ctx) 1
     else normalize_v1_result r (fixture_payload r) (bc_generated_at ctx) None)"

section \<open>Repository\<close>

record backtest_repo =
  bt_requests :: "(string \<times> backtest_request) table"
  bt_results :: "(string \<times> obj) table"

definition backtest_repo_init :: backtest_repo where
  "backtest_repo_init = \<lparr>bt_requests = [], bt_results = []\<rparr>"

text \<open>The fingerprint column is unique as well as the request id.\<close>

definition backtest_add_request :: "backtest_request \<Rightarrow> backtest_repo \<Rightarrow> bool \<times> backtest_repo" where
  "backtest_add_request r repo =
    (if backtest_fingerprint r \<in> set (map fst (t_rows (bt_requests repo))) then (False, repo)
     else case t_insert (bq_request_id r) (backtest_fingerprint r, r) (bt_requests repo) of
        Inl _ \<Rightarrow> (False, repo) | Inr t \<Rightarrow> (True, repo\<lparr>bt_requests := t\<rparr>))"

definition backtest_add_result :: "backtest_result \<Rightarrow> backtest_repo \<Rightarrow> backtest_repo" where
  "backtest_add_result r repo = repo\<lparr>bt_results :=
     t_replace (br_result_id r) (br_generated_at r, ocanon (backtest_result_to_json r)) (bt_results repo)\<rparr>"

definition backtest_get_result :: "string \<Rightarrow> backtest_repo \<Rightarrow> backtest_result res" where
  "backtest_get_result rid repo = bindR (ofOption (KeyError rid) (t_get rid (bt_results repo)))
     (\<lambda>row. backtest_result_from_json (snd row))"

definition backtest_list_results :: "backtest_repo \<Rightarrow> backtest_result list res" where
  "backtest_list_results repo = mapR (\<lambda>(k, c, p). backtest_result_from_json p)
     (sort_key (\<lambda>(k, c, p). (c, k)) (bt_results repo))"

section \<open>The execution service\<close>

record 'd backtest_adapter =
  ba_validate :: "backtest_request \<Rightarrow> ('d, bool \<times> string list) opr"
  ba_run :: "backtest_request \<Rightarrow> backtest_context \<Rightarrow> ('d, backtest_result) opr"

definition fake_backtest_adapter :: "fake_backtest backtest_adapter" where
  "fake_backtest_adapter = \<lparr>ba_validate = (\<lambda>r. getO (fake_bt_validate r)),
     ba_run = (\<lambda>r ctx. bindO (getO (fake_bt_run r ctx)) liftO)\<rparr>"

record 'd backtest_env = env +
  be_repo :: "backtest_repo option"
  be_adapter :: 'd

definition bt_adapterO :: "('d, 'a) opr \<Rightarrow> ('d backtest_env, 'a) opr" where
  "bt_adapterO m = (\<lambda>s. case m (be_adapter s) of (r, d) \<Rightarrow> (r, s\<lparr>be_adapter := d\<rparr>))"

definition backtest_event :: "string \<Rightarrow> backtest_request \<Rightarrow> backtest_result option \<Rightarrow> durable_event" where
  "backtest_event event_type r result =
    \<lparr>de_event_id = ''event:backtest:'' @ event_type @ '':'' @ bq_request_id r @ '':'' @
       (case result of Some x \<Rightarrow> br_result_id x | None \<Rightarrow> bq_created_at r),
     de_event_type = event_type,
     de_occurred_at = (case result of Some x \<Rightarrow> br_generated_at x | None \<Rightarrow> bq_created_at r),
     de_actor_ref = bq_actor_ref r, de_correlation_id = bq_request_id r, de_causation_id = None,
     de_scope = ''backtest'', de_project = ''StrategyLab'', de_strategy = sr_strategy_id (bq_strategy r), de_market = ''N/A'',
     de_payload = [(''request_id'', JStr (bq_request_id r)),
       (''status'', JStr (backtest_status_value (case result of Some x \<Rightarrow> br_status x | None \<Rightarrow> BT_REQUESTED))),
       (''fingerprint'', JStr (backtest_fingerprint r))],
     de_evidence_refs = [], de_audit_refs = [],
     de_appended_at = (case result of Some x \<Rightarrow> br_generated_at x | None \<Rightarrow> bq_created_at r)\<rparr>"

definition bt_record :: "string \<Rightarrow> backtest_request \<Rightarrow> backtest_result option \<Rightarrow> ('d backtest_env, unit) opr" where
  "bt_record event_type r result = record_event (backtest_event event_type r result)"

definition bt_register :: "backtest_request \<Rightarrow> ('d backtest_env, bool) opr" where
  "bt_register r = (\<lambda>s. case be_repo s of None \<Rightarrow> (Inr True, s)
     | Some repo \<Rightarrow> (case backtest_add_request r repo of (ok, repo') \<Rightarrow> (Inr ok, s\<lparr>be_repo := Some repo'\<rparr>)))"

definition bt_save :: "backtest_result \<Rightarrow> ('d backtest_env, unit) opr" where
  "bt_save x = modO (\<lambda>s. s\<lparr>be_repo := map_option (backtest_add_result x) (be_repo s)\<rparr>)"

definition bt_reject :: "backtest_request \<Rightarrow> backtest_context \<Rightarrow> string list \<Rightarrow> ('d backtest_env, backtest_result) opr" where
  "bt_reject r ctx reasons =
    bindO (liftO (failed_result r BT_REJECTED reasons (bc_generated_at ctx) 0)) (\<lambda>result.
    thenO (bt_record ''BacktestRejected'' r (Some result))
    (thenO (increment ''backtest'' ''gaon_backtest_rejections_total'') (thenO (bt_save result) (retO result))))"

definition backtest_run :: "'d backtest_adapter \<Rightarrow> backtest_request \<Rightarrow> backtest_context \<Rightarrow> ('d backtest_env, backtest_result) opr" where
  "backtest_run ad r ctx =
    bindO (bt_register r) (\<lambda>fresh.
    if \<not> fresh then bt_reject r ctx [''duplicate backtest request'']
    else
      thenO (bt_record ''BacktestRequested'' r None)
      (thenO (increment ''backtest'' ''gaon_backtest_requests_total'')
      (bindO (bt_adapterO (ba_validate ad r)) (\<lambda>(valid, reasons).
      if \<not> valid then bt_reject r ctx reasons
      else
        thenO (bt_record ''BacktestStarted'' r None)
        (bindO (bt_adapterO (ba_run ad r ctx)) (\<lambda>result.
        thenO (if br_status result = BT_COMPLETED
               then thenO (bt_record ''BacktestCompleted'' r (Some result)) (increment ''backtest'' ''gaon_backtest_runs_total'')
               else thenO (bt_record ''BacktestFailed'' r (Some result)) (increment ''backtest'' ''gaon_backtest_failures_total''))
        (thenO (bt_save result) (retO result))))))))"

section \<open>Stored results\<close>

definition strategy_ref_ok :: "strategy_ref \<Rightarrow> bool" where
  "strategy_ref_ok s \<longleftrightarrow> backtest_ref (sr_strategy_id s) \<and> backtest_ref (sr_version s)"

definition dataset_ref_ok :: "dataset_ref \<Rightarrow> bool" where
  "dataset_ref_ok d \<longleftrightarrow> backtest_ref (dr_dataset_id d) \<and> backtest_ref (dr_version d)"

definition period_ok :: "backtest_period \<Rightarrow> bool" where
  "period_ok p \<longleftrightarrow> date_only (bp_start_date p) \<and> date_only (bp_end_date p) \<and> bp_start_date p < bp_end_date p"

definition backtest_result_ok :: "backtest_result \<Rightarrow> bool" where
  "backtest_result_ok r \<longleftrightarrow> strategy_ref_ok (br_strategy r) \<and> dataset_ref_ok (br_dataset r) \<and> period_ok (br_period r) \<and>
     0 \<le> sm_trade_count (br_trade_summary r) \<and> iso_utc (br_generated_at r) \<and> 0 \<le> br_duration_ms r \<and>
     ocanon (br_parameters r) = br_parameters r \<and> sorted (map fst (br_reproducibility r))"

lemma metrics_roundtrip: "backtest_metrics_from_json (ocanon (backtest_metrics_json m)) = Inr m"
  by (simp add: backtest_metrics_from_json_def backtest_metrics_json_def)

lemma summary_roundtrip: "0 \<le> sm_trade_count t \<Longrightarrow> trade_summary_from_json (ocanon (trade_summary_json t)) = Inr t"
  by (simp add: trade_summary_from_json_def trade_summary_json_def mk_trade_summary_def)

lemma refs_roundtrip:
  "strategy_ref_ok s \<Longrightarrow> strategy_ref_from_json (jcanon (strategy_ref_json s)) = Inr s"
  "dataset_ref_ok d \<Longrightarrow> dataset_ref_from_json (jcanon (dataset_ref_json d)) = Inr d"
  "period_ok p \<Longrightarrow> period_from_json (jcanon (period_json p)) = Inr p"
  by (simp_all add: strategy_ref_from_json_def strategy_ref_json_def mk_strategy_ref_def strategy_ref_ok_def
      dataset_ref_from_json_def dataset_ref_json_def mk_dataset_ref_def dataset_ref_ok_def
      period_from_json_def period_json_def mk_backtest_period_def period_ok_def validate_backtest_ref_def not_le)

lemma ocanon_strs:
  "sorted (map fst kvs) \<Longrightarrow> map (\<lambda>(k, v). (k, py_str v)) (ocanon (map (\<lambda>(k, v). (k, JStr v)) kvs)) = kvs"
proof -
  assume s: "sorted (map fst kvs)"
  have "map (\<lambda>(k, v). (k, jcanon v)) (map (\<lambda>(k, v). (k, JStr v)) kvs) = map (\<lambda>(k, v). (k, JStr v)) kvs" by auto
  moreover have "map fst (map (\<lambda>(k, v). (k, JStr v)) kvs) = map fst kvs" by auto
  ultimately have "ocanon (map (\<lambda>(k, v). (k, JStr v)) kvs) = map (\<lambda>(k, v). (k, JStr v)) kvs"
    unfolding ocanon_def using s by (metis sort_key_id_if_sorted)
  moreover have "map (\<lambda>(k, v). (k, py_str v)) (map (\<lambda>(k, v). (k, JStr v)) kvs) = kvs"
    by (induction kvs) auto
  ultimately show ?thesis by simp
qed

text \<open>
  A stored backtest result is read back unchanged by its id, whatever was stored before it under
  any id. (The parameters and the reproducibility map are compared in key order, the order in which
  the text column holds them.)
\<close>

theorem backtest_result_stored:
  assumes "backtest_result_ok r"
  shows "backtest_get_result (br_result_id r) (backtest_add_result r repo) = Inr r"
  using assms
  by (simp add: backtest_get_result_def backtest_add_result_def backtest_result_from_json_def backtest_result_to_json_def
      backtest_result_ok_def metrics_roundtrip summary_roundtrip refs_roundtrip ocanon_strs mk_backtest_result_def
      validate_utc_def jstrs_def comp_def)

section \<open>What the service does\<close>

lemma wp_bt_adapterO [wp_simps]:
  "wp (bt_adapterO m) Q E s = (case m (be_adapter s) of
      (Inl e, d) \<Rightarrow> E e (s\<lparr>be_adapter := d\<rparr>) | (Inr x, d) \<Rightarrow> Q x (s\<lparr>be_adapter := d\<rparr>))"
  by (auto simp: wp_def bt_adapterO_def split: prod.splits sum.splits)

lemma wp_bt_save [wp_simps]:
  "wp (bt_save x) Q E s = Q () (s\<lparr>be_repo := map_option (backtest_add_result x) (be_repo s)\<rparr>)"
  by (simp add: bt_save_def wp_simps)

lemma wp_bt_record [wp_simps]: "wp (bt_record t r x) Q E s = wp (record_event (backtest_event t r x)) Q E s"
  by (simp add: bt_record_def)

lemma wp_bt_lift [wp_simps]: "wp (liftO r) Q E s = (case r of Inl e \<Rightarrow> E e s | Inr x \<Rightarrow> Q x s)"
  by (rule wp_lift)

text \<open>The identity of a result: request id, fingerprint and the id built from the fingerprint.\<close>

definition result_for :: "backtest_request \<Rightarrow> backtest_result \<Rightarrow> bool" where
  "result_for r x \<longleftrightarrow> br_request_id x = bq_request_id r \<and> br_fingerprint x = backtest_fingerprint r \<and>
     br_result_id x = ''backtest-result:'' @ backtest_fingerprint r \<and> br_strategy x = bq_strategy r \<and>
     br_dataset x = bq_dataset r \<and> br_period x = bq_period r \<and> br_parameters x = bq_parameters r"

lemma failed_result_Inr: "failed_result r st es at' ms = Inr x \<Longrightarrow> result_for r x \<and> br_status x = st \<and> br_errors x = es"
  by (auto simp: failed_result_def mk_backtest_result_def bindR_Inr_iff result_for_def)

lemma normalize_Inr: "normalize_v1_result r raw at' ms = Inr x \<Longrightarrow> result_for r x \<and> br_status x = BT_COMPLETED"
  by (auto simp: normalize_v1_result_def mk_backtest_result_def bindR_Inr_iff result_for_def)

lemma fake_run_result: "fake_bt_run r ctx a = Inr x \<Longrightarrow> result_for r x"
  using failed_result_Inr normalize_Inr
  by (fastforce simp: fake_bt_run_def split: prod.splits if_splits)

lemma wp_bt_reject:
  assumes "\<And>x. result_for r x \<Longrightarrow> br_status x = BT_REJECTED \<Longrightarrow> br_errors x = reasons \<Longrightarrow>
      (\<And>t. env_events t = env_events s \<or> env_events s \<noteq> None \<Longrightarrow> be_adapter t = be_adapter s \<Longrightarrow>
        be_repo t = map_option (backtest_add_result x) (be_repo s) \<Longrightarrow> Q x t)"
    and "\<And>e t. be_adapter t = be_adapter s \<Longrightarrow> E e t"
  shows "wp (bt_reject r ctx reasons) Q E s"
proof -
  have fr: "failed_result r BT_REJECTED reasons (bc_generated_at ctx) 0 = Inr x \<Longrightarrow>
      result_for r x \<and> br_status x = BT_REJECTED \<and> br_errors x = reasons" for x
    by (rule failed_result_Inr)
  show ?thesis
    unfolding bt_reject_def wp_simps
    by (auto dest!: fr intro!: assms split: sum.splits option.splits)
qed

text \<open>
  Whatever the fake engine does, a result that the service returns belongs to the request: it
  carries the request id, the request's fingerprint, strategy, dataset, period and parameters, and
  it is what the repository then holds under the result id.
\<close>

theorem backtest_result_identity:
  assumes "backtest_run fake_backtest_adapter r ctx s = (Inr x, t)"
  shows "result_for r x \<and> (\<forall>repo. be_repo t = Some repo \<longrightarrow>
     t_get (br_result_id x) (bt_results repo) = Some (br_generated_at x, ocanon (backtest_result_to_json x)))"
proof -
  let ?Q = "\<lambda>x (t :: fake_backtest backtest_env). result_for r x \<and> (\<forall>repo. be_repo t = Some repo \<longrightarrow>
     t_get (br_result_id x) (bt_results repo) = Some (br_generated_at x, ocanon (backtest_result_to_json x)))"
  have "wp (backtest_run fake_backtest_adapter r ctx) ?Q (\<lambda>_ _. True) s"
    unfolding backtest_run_def wp_bind
  proof (cases "bt_register r s")
    case (Pair ok s1)
    have rej: "wp (bt_reject r ctx reasons) ?Q (\<lambda>_ _. True) s'" for reasons s'
      by (rule wp_bt_reject) (auto simp: backtest_add_result_def)
    show "wp (bt_register r) (\<lambda>fresh t. wp (if \<not> fresh then bt_reject r ctx [''duplicate backtest request'']
        else thenO (bt_record ''BacktestRequested'' r None)
          (thenO (increment ''backtest'' ''gaon_backtest_requests_total'')
          (bindO (bt_adapterO (ba_validate fake_backtest_adapter r)) (\<lambda>(valid, reasons).
          if \<not> valid then bt_reject r ctx reasons
          else thenO (bt_record ''BacktestStarted'' r None)
            (bindO (bt_adapterO (ba_run fake_backtest_adapter r ctx)) (\<lambda>result.
            thenO (if br_status result = BT_COMPLETED
               then thenO (bt_record ''BacktestCompleted'' r (Some result)) (increment ''backtest'' ''gaon_backtest_runs_total'')
               else thenO (bt_record ''BacktestFailed'' r (Some result)) (increment ''backtest'' ''gaon_backtest_failures_total''))
            (thenO (bt_save result) (retO result)))))))) ?Q (\<lambda>_ _. True) t) (\<lambda>_ _. True) s"
      unfolding wp_def [of "bt_register r"] Pair
      by (cases ok)
        (auto simp: wp_simps rej fake_backtest_adapter_def backtest_add_result_def fake_run_result bindO_apply
          split: option.splits sum.splits prod.splits)
  qed
  from wp_Inr [OF this assms] show ?thesis .
qed

text \<open>
  An experiment runs at most once. When the repository already holds a request with the same
  strategy, dataset, period, parameters and engine version (under whatever request id), the engine
  is not called and a returned result is REJECTED.
\<close>

theorem backtest_runs_once:
  assumes "be_repo s = Some repo" and "(k, backtest_fingerprint r', r') \<in> set (bt_requests repo)"
    and "fingerprint_material r' = fingerprint_material r"
  shows "be_adapter (snd (backtest_run ad r ctx s)) = be_adapter s \<and>
    (case fst (backtest_run ad r ctx s) of Inr x \<Rightarrow> br_status x = BT_REJECTED | Inl _ \<Rightarrow> True)"
proof -
  have "backtest_fingerprint r' = backtest_fingerprint r"
    using assms(3) by (simp add: backtest_fingerprint_def)
  then have "backtest_fingerprint r \<in> set (map fst (t_rows (bt_requests repo)))"
    using assms(2) by (force simp: t_rows_def)
  then have reg: "bt_register r s = (Inr False, s)"
    using assms(1) by (simp add: bt_register_def backtest_add_request_def)
  have "wp (bt_reject r ctx [''duplicate backtest request'']) (\<lambda>x t. br_status x = BT_REJECTED \<and> be_adapter t = be_adapter s)
      (\<lambda>_ t. be_adapter t = be_adapter s) s"
    by (rule wp_bt_reject) auto
  then show ?thesis
    by (auto simp: backtest_run_def bindO_apply reg wp_def split: prod.splits sum.splits)
qed

section \<open>Witnesses and observed behaviour\<close>

definition sample_backtest :: "string \<Rightarrow> backtest_request" where
  "sample_backtest rid = \<lparr>bq_request_id = rid, bq_strategy = \<lparr>sr_strategy_id = ''turtle_v5'', sr_version = ''v1''\<rparr>,
     bq_dataset = \<lparr>dr_dataset_id = ''krx'', dr_version = ''fixture''\<rparr>,
     bq_period = \<lparr>bp_start_date = ''2025-01-01'', bp_end_date = ''2025-12-31''\<rparr>, bq_parameters = [],
     bq_actor_ref = ''actor'', bq_created_at = ''2026-01-01T00:00:00Z'', bq_engine_version = ''v1-fixture''\<rparr>"

definition sample_context :: backtest_context where
  "sample_context = \<lparr>bc_timeout_seconds = 30, bc_max_output_bytes = 1024, bc_generated_at = ''2026-01-01T00:00:00Z''\<rparr>"

lemma sample_bt_formats: "iso_utc ''2026-01-01T00:00:00Z''" "backtest_ref ''turtle_v5''" "backtest_ref ''v1''"
  "backtest_ref ''krx''" "backtest_ref ''fixture''" "date_only ''2025-01-01''" "date_only ''2025-12-31''"
  "''2025-01-01'' < ''2025-12-31''"
  by code_simp+

text \<open>The engine is told to fail, so the result is a failure for every way the fingerprint is computed.\<close>

definition sample_bt_env :: "fake_backtest backtest_env" where
  "sample_bt_env = \<lparr>env_events = None, env_metrics = None, be_repo = None,
     be_adapter = fake_backtest_init DEFAULT_SUPPORTED_STRATEGIES True\<rparr>"

lemma sample_bt_run:
  "\<exists>x t. backtest_run fake_backtest_adapter (sample_backtest ''r1'') sample_context sample_bt_env = (Inr x, t)"
  by (simp add: backtest_run_def bindO_apply thenO_apply bt_register_def sample_bt_env_def bt_record_def increment_def
      bt_adapterO_def fake_backtest_adapter_def fake_bt_validate_def fake_backtest_init_def DEFAULT_SUPPORTED_STRATEGIES_def
      sample_backtest_def fake_bt_run_def failed_result_def mk_backtest_result_def validate_utc_def sample_bt_formats
      sample_context_def bt_save_def)

theorem backtest_result_identity_witness:
  "\<exists>x. result_for (sample_backtest ''r1'') x"
  using sample_bt_run backtest_result_identity by blast

definition sample_backtest_result :: backtest_result where
  "sample_backtest_result = \<lparr>br_result_id = ''x'', br_request_id = ''r1'', br_status = BT_COMPLETED, br_fingerprint = ''f'',
     br_strategy = bq_strategy (sample_backtest ''r''), br_dataset = bq_dataset (sample_backtest ''r''),
     br_period = bq_period (sample_backtest ''r''),
     br_metrics = backtest_metrics_none\<lparr>bm_win_rate := Some (Fin (1 / 2))\<rparr>, br_trade_summary = count_summary 3,
     br_raw_engine_version = ''v1'', br_parameters = [(''n'', JInt 5)], br_warnings = [''w''], br_errors = [],
     br_generated_at = ''2026-01-01T00:00:00Z'', br_duration_ms = 7, br_reproducibility = [(''seed'', ''7'')]\<rparr>"

theorem backtest_result_stored_witness:
  "backtest_get_result ''x'' (backtest_add_result sample_backtest_result backtest_repo_init) = Inr sample_backtest_result"
  using backtest_result_stored [of sample_backtest_result backtest_repo_init]
  by (simp add: sample_backtest_result_def backtest_result_ok_def strategy_ref_ok_def dataset_ref_ok_def period_ok_def
      sample_backtest_def sample_bt_formats count_summary_def ocanon_def)

definition sample_bt_seen :: "fake_backtest backtest_env" where
  "sample_bt_seen = sample_bt_env\<lparr>be_repo := Some (snd (backtest_add_request (sample_backtest ''r1'') backtest_repo_init))\<rparr>"

theorem backtest_runs_once_witness:
  "be_adapter (snd (backtest_run fake_backtest_adapter (sample_backtest ''r2'') sample_context sample_bt_seen)) = be_adapter sample_bt_env"
  using backtest_runs_once [of sample_bt_seen "snd (backtest_add_request (sample_backtest ''r1'') backtest_repo_init)"
      "''r1''" "sample_backtest ''r1''" "sample_backtest ''r2''" fake_backtest_adapter sample_context]
  by (simp add: sample_bt_seen_def sample_bt_env_def backtest_add_request_def backtest_repo_init_def t_rows_def t_insert_def
      sample_backtest_def fingerprint_material_def)

text \<open>
  Observed behaviour: a duplicate request replaces the stored result of the run it duplicates. The
  result id is the fingerprint, so the REJECTED result overwrites a COMPLETED one.
\<close>

lemma duplicate_overwrites_result:
  assumes "be_repo s = Some repo" and "env_events s = None"
    and "backtest_fingerprint r \<in> set (map fst (t_rows (bt_requests repo)))" and "iso_utc (bc_generated_at ctx)"
  shows "\<exists>repo' at' p. be_repo (snd (backtest_run ad r ctx s)) = Some repo' \<and>
    t_get (''backtest-result:'' @ backtest_fingerprint r) (bt_results repo') = Some (at', p) \<and>
    jget p ''status'' = JStr ''rejected''"
  using assms
  by (auto simp: backtest_run_def bindO_apply bt_register_def backtest_add_request_def bt_reject_def failed_result_def
      mk_backtest_result_def validate_utc_def thenO_apply bt_record_def increment_def bt_save_def backtest_add_result_def
      backtest_result_to_json_def)

end
