(* ===== verification/PyTime.thy ===== *)
theory PyTime
  imports PyText
begin

text \<open>
  The part of Python's \<open>datetime\<close> the program uses: calendar dates as ordinals, aware and naive
  timestamps, \<open>fromisoformat\<close> (the accepted formats of Python 3.11, read with the same scan as
  the C implementation), \<open>isoformat\<close>, and addition of a whole number of seconds.
\<close>

section \<open>Calendar\<close>

definition is_leap :: "int \<Rightarrow> bool" where
  "is_leap y \<longleftrightarrow> y mod 4 = 0 \<and> (y mod 100 \<noteq> 0 \<or> y mod 400 = 0)"

definition days_in_month :: "int \<Rightarrow> int \<Rightarrow> int" where
  "days_in_month y m = (if m = 2 then (if is_leap y then 29 else 28)
     else if m = 4 \<or> m = 6 \<or> m = 9 \<or> m = 11 then 30 else 31)"

definition days_before_year :: "int \<Rightarrow> int" where
  "days_before_year y = (let z = y - 1 in z * 365 + z div 4 - z div 100 + z div 400)"

definition days_before_month :: "int \<Rightarrow> int \<Rightarrow> int" where
  "days_before_month y m =
     ([0, 31, 59, 90, 120, 151, 181, 212, 243, 273, 304, 334] ! nat (m - 1))
     + (if 2 < m \<and> is_leap y then 1 else 0)"

definition valid_date :: "int \<Rightarrow> int \<Rightarrow> int \<Rightarrow> bool" where
  "valid_date y m d \<longleftrightarrow> 1 \<le> y \<and> y \<le> 9999 \<and> 1 \<le> m \<and> m \<le> 12 \<and> 1 \<le> d \<and> d \<le> days_in_month y m"

definition ymd2ord :: "int \<Rightarrow> int \<Rightarrow> int \<Rightarrow> int" where
  "ymd2ord y m d = days_before_year y + days_before_month y m + d"

text \<open>The inverse, by 400-, 100-, 4- and 1-year cycles.\<close>

definition ord2ymd :: "int \<Rightarrow> int \<times> int \<times> int" where
  "ord2ymd ord = (let n = ord - 1;
      n400 = n div 146097; n = n mod 146097;
      n100 = n div 36524; n = n mod 36524;
      n4 = n div 1461; n = n mod 1461;
      n1 = n div 365; n = n mod 365;
      year = n400 * 400 + 1 + n100 * 100 + n4 * 4 + n1
    in if n1 = 4 \<or> n100 = 4 then (year - 1, 12, 31)
       else let month = (n + 50) div 32;
                pre = days_before_month year month;
                month' = (if n < pre then month - 1 else month)
            in (year, month', n - days_before_month year month' + 1))"

text \<open>Monday is 0.\<close>

definition weekday :: "int \<Rightarrow> int \<Rightarrow> int \<Rightarrow> int" where
  "weekday y m d = (ymd2ord y m d + 6) mod 7"

definition iso_week1_monday :: "int \<Rightarrow> int" where
  "iso_week1_monday y = (let first = ymd2ord y 1 1; wd = (first + 6) mod 7; monday = first - wd
     in if 3 < wd then monday + 7 else monday)"

definition iso_to_ymd :: "int \<Rightarrow> int \<Rightarrow> int \<Rightarrow> (int \<times> int \<times> int) option" where
  "iso_to_ymd y w d = (let fw = weekday y 1 1 in
     if y < 1 \<or> 9999 < y then None
     else if \<not> (1 \<le> w \<and> (w \<le> 52 \<or> w = 53 \<and> (fw = 3 \<or> fw = 2 \<and> is_leap y))) then None
     else if d < 1 \<or> 7 < d then None
     else Some (ord2ymd (iso_week1_monday y + (w - 1) * 7 + d - 1)))"

section \<open>Timestamps\<close>

text \<open>The offset of an aware timestamp is in microseconds; \<open>None\<close> is a naive one.\<close>

record dtime =
  dt_year :: int
  dt_month :: int
  dt_day :: int
  dt_hour :: int
  dt_minute :: int
  dt_second :: int
  dt_micro :: int
  dt_off :: "int option"

definition valid_dtime :: "dtime \<Rightarrow> bool" where
  "valid_dtime t \<longleftrightarrow> valid_date (dt_year t) (dt_month t) (dt_day t) \<and>
     0 \<le> dt_hour t \<and> dt_hour t < 24 \<and> 0 \<le> dt_minute t \<and> dt_minute t < 60 \<and>
     0 \<le> dt_second t \<and> dt_second t < 60 \<and> 0 \<le> dt_micro t \<and> dt_micro t < 1000000"

definition local_micros :: "dtime \<Rightarrow> int" where
  "local_micros t = ((ymd2ord (dt_year t) (dt_month t) (dt_day t) * 86400
      + dt_hour t * 3600 + dt_minute t * 60 + dt_second t) * 1000000) + dt_micro t"

text \<open>The instant of an aware timestamp; aware timestamps compare by it.\<close>

definition instant :: "dtime \<Rightarrow> int" where
  "instant t = local_micros t - (case dt_off t of None \<Rightarrow> 0 | Some o' \<Rightarrow> o')"

definition add_seconds :: "dtime \<Rightarrow> int \<Rightarrow> dtime res" where
  "add_seconds t k = (let total = local_micros t + k * 1000000;
      micro = total mod 1000000; secs = total div 1000000;
      day = secs div 86400; s = secs mod 86400
    in if day < 1 \<or> 3652059 < day then Inl (OverflowError ''date value out of range'')
       else let (y, m, d) = ord2ymd day in
         Inr \<lparr>dt_year = y, dt_month = m, dt_day = d, dt_hour = s div 3600,
              dt_minute = s mod 3600 div 60, dt_second = s mod 60, dt_micro = micro,
              dt_off = dt_off t\<rparr>)"

section \<open>\<open>isoformat\<close>\<close>

definition pad_int :: "nat \<Rightarrow> int \<Rightarrow> string" where
  "pad_int w i = pad0 w (dec_nat (nat i))"

definition iso_date_text :: "int \<Rightarrow> int \<Rightarrow> int \<Rightarrow> string" where
  "iso_date_text y m d = pad_int 4 y @ ''-'' @ pad_int 2 m @ ''-'' @ pad_int 2 d"

definition iso_off_text :: "int \<Rightarrow> string" where
  "iso_off_text off = (let a = \<bar>off\<bar>; secs = a div 1000000 mod 60; micro = a mod 1000000 in
     (if off < 0 then ''-'' else ''+'') @ pad_int 2 (a div 3600000000) @ '':'' @
     pad_int 2 (a div 60000000 mod 60) @
     (if secs = 0 \<and> micro = 0 then '''' else '':'' @ pad_int 2 secs @
       (if micro = 0 then '''' else ''.'' @ pad_int 6 micro)))"

definition isoformat :: "dtime \<Rightarrow> string" where
  "isoformat t = iso_date_text (dt_year t) (dt_month t) (dt_day t) @ ''T'' @
     pad_int 2 (dt_hour t) @ '':'' @ pad_int 2 (dt_minute t) @ '':'' @ pad_int 2 (dt_second t) @
     (if dt_micro t = 0 then '''' else ''.'' @ pad_int 6 (dt_micro t)) @
     (case dt_off t of None \<Rightarrow> '''' | Some off \<Rightarrow> iso_off_text off)"

section \<open>\<open>fromisoformat\<close>\<close>

text \<open>Reading past the end of the text yields the terminating NUL, as in the C scan.\<close>

definition at_pos :: "string \<Rightarrow> nat \<Rightarrow> char" where
  "at_pos s i = (if i < length s then s ! i else chr 0)"

fun digits_at :: "string \<Rightarrow> nat \<Rightarrow> nat \<Rightarrow> (nat \<times> nat) option" where
  "digits_at s i n = (let ds = take n (drop i s) in
     if length ds = n \<and> list_all is_digit ds then Some (parse_nat ds, i + n) else None)"

definition iso_separator :: "string \<Rightarrow> nat option" where
  "iso_separator s = (let len = length s in
     if len = 7 then Some 7
     else if at_pos s 4 = CHR ''-'' then
       (if at_pos s 5 = CHR ''W'' then
          (if len < 8 then None
           else if 8 < len \<and> at_pos s 8 = CHR ''-'' then
             (if len = 9 then None
              else if 10 < len \<and> is_digit (at_pos s 10) then Some 8 else Some 10)
           else Some 8)
        else Some 10)
     else if at_pos s 4 = CHR ''W'' then
       (let pos = 7 + length (takeWhile is_digit (drop 7 s)) in
        if pos < 9 then Some pos else if even pos then Some 7 else Some 8)
     else Some 8)"

definition parse_iso_date :: "string \<Rightarrow> (int \<times> int \<times> int) option" where
  "parse_iso_date s =
    (case digits_at s 0 4 of None \<Rightarrow> None | Some (y, p) \<Rightarrow>
      let sep = (at_pos s p = CHR ''-''); p = (if sep then Suc p else p) in
      if at_pos s p = CHR ''W'' then
        (case digits_at s (Suc p) 2 of None \<Rightarrow> None | Some (w, p) \<Rightarrow>
          if p < length s then
            if sep \<and> at_pos s p \<noteq> CHR ''-'' then None
            else (case digits_at s (if sep then Suc p else p) 1 of None \<Rightarrow> None
                  | Some (d, _) \<Rightarrow> iso_to_ymd (int y) (int w) (int d))
          else iso_to_ymd (int y) (int w) 1)
      else
        (case digits_at s p 2 of None \<Rightarrow> None | Some (m, p) \<Rightarrow>
          if sep \<and> at_pos s p \<noteq> CHR ''-'' then None
          else (case digits_at s (if sep then Suc p else p) 2 of None \<Rightarrow> None
                | Some (d, p) \<Rightarrow> if p = length s then Some (int y, int m, int d) else None)))"

text \<open>
  \<open>[HH[:?MM[:?SS]]][.fff[fff]]\<close>; the second component is true when text is left over. The
  index \<open>i\<close> counts the fields read so far.
\<close>

definition parse_fraction :: "string \<Rightarrow> nat \<Rightarrow> (nat \<times> bool) option" where
  "parse_fraction s p = (let rest = length s - p; n = min 6 rest in
     case digits_at s p n of None \<Rightarrow> None
     | Some (v, p') \<Rightarrow> Some (v * 10 ^ (6 - n), p' + length (takeWhile is_digit (drop p' s)) < length s))"

fun parse_fields :: "string \<Rightarrow> nat \<Rightarrow> nat \<Rightarrow> bool \<Rightarrow> nat list \<Rightarrow> (nat list \<times> nat \<times> bool) option" where
  "parse_fields s 0 p sep acc =
     (case parse_fraction s p of None \<Rightarrow> None | Some (f, left) \<Rightarrow> Some (acc, f, left))"
| "parse_fields s (Suc k) p sep acc =
     (case digits_at s p 2 of None \<Rightarrow> None | Some (v, p) \<Rightarrow>
       let c = at_pos s p; acc' = acc @ [v]; sep' = (if acc = [] then c = CHR '':'' else sep) in
       if length s \<le> Suc p then Some (acc', 0, p < length s)
       else if sep' \<and> c = CHR '':'' then parse_fields s k (Suc p) sep' acc'
       else if c = CHR ''.'' \<or> c = CHR '','' then
         (case parse_fraction s (Suc p) of None \<Rightarrow> None | Some (f, left) \<Rightarrow> Some (acc', f, left))
       else if \<not> sep' then parse_fields s k p sep' acc'
       else None)"

text \<open>Hour, minute, second and microsecond; \<open>None\<close> when the text is malformed.\<close>

definition parse_clock :: "string \<Rightarrow> (int \<times> int \<times> int \<times> int) option" where
  "parse_clock s = (case parse_fields s 3 0 True [] of None \<Rightarrow> None
     | Some (vs, f, left) \<Rightarrow> if left then None
       else let vs = vs @ replicate (3 - length vs) 0
            in Some (int (vs ! 0), int (vs ! 1), int (vs ! 2), int f))"

definition is_tz_mark :: "char \<Rightarrow> bool" where
  "is_tz_mark c \<longleftrightarrow> c = CHR ''+'' \<or> c = CHR ''-'' \<or> c = CHR ''Z''"

definition parse_iso_time :: "string \<Rightarrow> ((int \<times> int \<times> int \<times> int) \<times> int option) option" where
  "parse_iso_time s = (let body = takeWhile (\<lambda>c. \<not> is_tz_mark c) s; tz = drop (length body) s in
     case parse_clock body of None \<Rightarrow> None | Some clock \<Rightarrow>
       (case tz of [] \<Rightarrow> Some (clock, None)
        | c # off \<Rightarrow>
            if c = CHR ''Z'' then (if off = [] then Some (clock, Some 0) else None)
            else (case parse_clock off of None \<Rightarrow> None
                  | Some (h, m, sec, us) \<Rightarrow>
                      Some (clock, Some ((if c = CHR ''-'' then - 1 else 1) *
                        ((h * 3600 + m * 60 + sec) * 1000000 + us))))))"

definition dt_fromisoformat :: "string \<Rightarrow> dtime res" where
  "dt_fromisoformat s = (let bad = Inl (ValueError ''Invalid isoformat string'') in
     if length s < 7 then bad
     else case iso_separator s of None \<Rightarrow> bad | Some p \<Rightarrow>
       (case parse_iso_date (take p s) of None \<Rightarrow> bad | Some (y, m, d) \<Rightarrow>
         (case (if 1 < length s - p then parse_iso_time (drop (Suc p) s) else Some ((0, 0, 0, 0), None)) of
            None \<Rightarrow> bad
          | Some ((hh, mi, ss, us), off) \<Rightarrow>
              let t = \<lparr>dt_year = y, dt_month = m, dt_day = d, dt_hour = hh, dt_minute = mi,
                       dt_second = ss, dt_micro = us, dt_off = off\<rparr> in
              if \<not> valid_dtime t then bad
              else (case off of Some o' \<Rightarrow> if 86400000000 \<le> \<bar>o'\<bar> then bad else Inr t
                    | None \<Rightarrow> Inr t))))"

text \<open>\<open>date.fromisoformat\<close> reads a whole text as a date.\<close>

definition date_fromisoformat :: "string \<Rightarrow> (int \<times> int \<times> int) res" where
  "date_fromisoformat s = (let bad = Inl (ValueError ''Invalid isoformat string'') in
     if length s \<noteq> 7 \<and> length s \<noteq> 8 \<and> length s \<noteq> 10 then bad
     else case parse_iso_date s of None \<Rightarrow> bad
       | Some (y, m, d) \<Rightarrow> if valid_date y m d then Inr (y, m, d) else bad)"

end
