(* ===== verification/Validation.thy ===== *)
theory Validation
  imports Backtest PyTime
begin

text \<open>
  \<open>gaon/adapters/validation.py\<close>: the deterministic validation of normalised backtest results. The
  rules of one result and of several windows, the overall status, the score, the report with its
  stored form, the repository and the engine. The lemmas show what a PASS means, that the score is
  bounded and capped by a failure, and that a stored report is read back unchanged.
\<close>

definition POLICY_VERSION :: string where
  "POLICY_VERSION = ''validation_policy_v1''"

datatype validation_status = V_PASS | V_FAIL | V_REVIEW
datatype validation_severity = SEV_INFO | SEV_WARNING | SEV_REVIEW | SEV_FAIL

fun validation_status_value :: "validation_status \<Rightarrow> string" where
  "validation_status_value V_PASS = ''pass''"
| "validation_status_value V_FAIL = ''fail''"
| "validation_status_value V_REVIEW = ''review''"

fun severity_value :: "validation_severity \<Rightarrow> string" where
  "severity_value SEV_INFO = ''info''"
| "severity_value SEV_WARNING = ''warning''"
| "severity_value SEV_REVIEW = ''review''"
| "severity_value SEV_FAIL = ''fail''"

definition validation_status_of :: "string \<Rightarrow> validation_status res" where
  "validation_status_of s = ofOption (ValueError ''not a valid ValidationStatus'')
     (find (\<lambda>m. validation_status_value m = s) [V_PASS, V_FAIL, V_REVIEW])"

definition severity_of :: "string \<Rightarrow> validation_severity res" where
  "severity_of s = ofOption (ValueError ''not a valid ValidationSeverity'')
     (find (\<lambda>m. severity_value m = s) [SEV_INFO, SEV_WARNING, SEV_REVIEW, SEV_FAIL])"

lemma validation_enum_roundtrip [simp]:
  "validation_status_of (validation_status_value st) = Inr st"
  "severity_of (severity_value sv) = Inr sv"
  subgoal by (cases st) (simp_all add: validation_status_of_def)
  subgoal by (cases sv) (simp_all add: severity_of_def)
  done

record validation_evidence =
  ev_evidence_id :: string
  ev_source_ref :: string
  ev_description :: string

record rule_result =
  ru_rule_id :: string
  ru_status :: validation_status
  ru_severity :: validation_severity
  ru_message :: string
  ru_observed :: string
  ru_threshold :: string

record validation_policy =
  vp_policy_version :: string
  vp_min_total_return :: pyfloat
  vp_min_annualized_return :: "pyfloat option"
  vp_min_profit_factor :: pyfloat
  vp_max_drawdown :: pyfloat
  vp_max_exposure :: "pyfloat option"
  vp_min_trade_count :: int
  vp_min_sample_days :: int
  vp_min_win_rate :: "pyfloat option"
  vp_missing_profit_factor :: validation_status
  vp_missing_annualized_return :: validation_status
  vp_require_fingerprint :: bool
  vp_min_passing_window_ratio :: pyfloat

definition validation_policy_default :: validation_policy where
  "validation_policy_default = \<lparr>vp_policy_version = POLICY_VERSION, vp_min_total_return = Fin 0,
     vp_min_annualized_return = None, vp_min_profit_factor = fl (11 / 10), vp_max_drawdown = fl (3 / 10),
     vp_max_exposure = None, vp_min_trade_count = 30, vp_min_sample_days = 180, vp_min_win_rate = None,
     vp_missing_profit_factor = V_REVIEW, vp_missing_annualized_return = V_REVIEW,
     vp_require_fingerprint = True, vp_min_passing_window_ratio = fl (8 / 10)\<rparr>"

record validation_request =
  vq_validation_id :: string
  vq_result_ids :: "string list"
  vq_policy_version :: string
  vq_requested_at :: string
  vq_actor_ref :: string

definition mk_validation_request :: "validation_request \<Rightarrow> validation_request res" where
  "mk_validation_request r = bindR (guardR (vq_validation_id r \<noteq> [] \<and> vq_result_ids r \<noteq> [] \<and> vq_policy_version r \<noteq> [] \<and>
       vq_requested_at r \<noteq> [] \<and> vq_actor_ref r \<noteq> [])
     (ValueError ''validation request requires id, results, policy, timestamp, and actor'')) (\<lambda>_. Inr r)"

definition validation_request_to_json :: "validation_request \<Rightarrow> obj" where
  "validation_request_to_json r = [(''validation_id'', JStr (vq_validation_id r)),
     (''backtest_result_ids'', jstrs (vq_result_ids r)), (''policy_version'', JStr (vq_policy_version r)),
     (''requested_at'', JStr (vq_requested_at r)), (''actor_ref'', JStr (vq_actor_ref r))]"

definition build_validation_request :: "string \<Rightarrow> backtest_result list \<Rightarrow> string \<Rightarrow> string \<Rightarrow> validation_policy option \<Rightarrow> validation_request res" where
  "build_validation_request vid results actor requested_at policy =
     mk_validation_request \<lparr>vq_validation_id = vid, vq_result_ids = map br_result_id results,
       vq_policy_version = vp_policy_version (case policy of Some p \<Rightarrow> p | None \<Rightarrow> validation_policy_default),
       vq_requested_at = requested_at, vq_actor_ref = actor\<rparr>"

record validation_report =
  vr_validation_id :: string
  vr_backtest_run_id :: string
  vr_fingerprint :: string
  vr_strategy_ref :: string
  vr_dataset_ref :: string
  vr_policy_version :: string
  vr_overall_status :: validation_status
  vr_score :: int
  vr_rule_results :: "rule_result list"
  vr_warnings :: "string list"
  vr_failures :: "string list"
  vr_unknowns :: "string list"
  vr_generated_at :: string
  vr_reproducibility :: "(string \<times> string) list"
  vr_evidence :: "validation_evidence list"

section \<open>Rules\<close>

text \<open>\<open>normalize_drawdown\<close>: a fraction of either sign, or a percentage above 1.\<close>

definition normalize_drawdown :: "pyfloat option \<Rightarrow> pyfloat res" where
  "normalize_drawdown value = (case value of
      None \<Rightarrow> Inl (ValueError ''maximum drawdown is missing'')
    | Some v \<Rightarrow>
        if fle (Fin (- 1)) v \<and> fle v (Fin 0) then Inr (fabs v)
        else if fle (Fin 0) v \<and> fle v (Fin 1) then Inr v
        else if flt (Fin 1) v \<and> fle v (Fin 100) then fdiv v (Fin 100)
        else Inl (ValueError ''maximum drawdown is outside supported range''))"

definition safe_drawdown :: "backtest_result \<Rightarrow> pyfloat option" where
  "safe_drawdown r = (case normalize_drawdown (bm_max_drawdown (br_metrics r)) of Inr d \<Rightarrow> Some d | Inl _ \<Rightarrow> None)"

definition mk_rule :: "string \<Rightarrow> validation_status \<Rightarrow> validation_severity \<Rightarrow> string \<Rightarrow> string \<Rightarrow> string \<Rightarrow> rule_result" where
  "mk_rule rid st sev msg observed threshold = \<lparr>ru_rule_id = rid, ru_status = st, ru_severity = sev,
     ru_message = msg, ru_observed = observed, ru_threshold = threshold\<rparr>"

definition threshold_rule :: "string \<Rightarrow> pyfloat option \<Rightarrow> pyfloat \<Rightarrow> bool \<Rightarrow> validation_status \<Rightarrow> rule_result" where
  "threshold_rule rid observed threshold ge missing = (case observed of
      None \<Rightarrow> mk_rule rid missing (if missing = V_FAIL then SEV_FAIL else SEV_REVIEW) (rid @ '' is missing'') ''missing'' (frepr threshold)
    | Some x \<Rightarrow> let ok = (if ge then fge x threshold else fle x threshold) in
        mk_rule rid (if ok then V_PASS else V_FAIL) SEV_FAIL (if ok then rid @ '' within policy'' else rid @ '' violates policy'')
          (fixed_fmt 4 x) ((if ge then ''>= '' else ''<= '') @ fixed_fmt 4 threshold))"

definition effective_trade_count :: "backtest_result \<Rightarrow> int" where
  "effective_trade_count r = (case bm_trade_count (br_metrics r) of Some n \<Rightarrow> n | None \<Rightarrow> sm_trade_count (br_trade_summary r))"

text \<open>\<open>x or y\<close> on an optional text.\<close>

definition or_text :: "string option \<Rightarrow> string \<Rightarrow> string" where
  "or_text x y = (case x of Some s \<Rightarrow> if s \<noteq> [] then s else y | None \<Rightarrow> y)"

definition sample_days :: "string \<Rightarrow> string \<Rightarrow> int res" where
  "sample_days start stop = bindR (date_fromisoformat stop) (\<lambda>(y2, m2, d2).
     bindR (date_fromisoformat start) (\<lambda>(y1, m1, d1). Inr (ymd2ord y2 m2 d2 - ymd2ord y1 m1 d1)))"

definition result_days :: "backtest_result \<Rightarrow> int res" where
  "result_days r = sample_days (or_text (bm_start_date (br_metrics r)) (bp_start_date (br_period r)))
     (or_text (bm_end_date (br_metrics r)) (bp_end_date (br_period r)))"

definition fingerprint_bad :: "backtest_result \<Rightarrow> bool" where
  "fingerprint_bad r \<longleftrightarrow> br_fingerprint r = [] \<or> map_of (br_reproducibility r) ''fingerprint'' \<noteq> Some (br_fingerprint r)"

definition drawdown_rule :: "backtest_result \<Rightarrow> validation_policy \<Rightarrow> rule_result" where
  "drawdown_rule r p = (case normalize_drawdown (bm_max_drawdown (br_metrics r)) of
      Inr d \<Rightarrow> let ok = fle d (vp_max_drawdown p) in
        mk_rule ''max_drawdown'' (if ok then V_PASS else V_FAIL) SEV_FAIL
          (if ok then ''maximum drawdown within policy'' else ''maximum drawdown exceeds policy'')
          (fixed_fmt 4 d) (''<= '' @ fixed_fmt 4 (vp_max_drawdown p))
    | Inl e \<Rightarrow> mk_rule ''max_drawdown'' V_FAIL SEV_FAIL (case e of ValueError m \<Rightarrow> m | _ \<Rightarrow> [])
        (case bm_max_drawdown (br_metrics r) of Some v \<Rightarrow> frepr v | None \<Rightarrow> ''None'') ''valid drawdown'')"

definition trade_count_rule :: "backtest_result \<Rightarrow> validation_policy \<Rightarrow> rule_result" where
  "trade_count_rule r p = (let ok = vp_min_trade_count p \<le> effective_trade_count r in
     mk_rule ''trade_count'' (if ok then V_PASS else V_FAIL) SEV_FAIL
       (if ok then ''trade count is sufficient'' else ''trade count is below policy minimum'')
       (dec_int (effective_trade_count r)) (''>= '' @ dec_int (vp_min_trade_count p)))"

definition sample_rule :: "int \<Rightarrow> validation_policy \<Rightarrow> rule_result" where
  "sample_rule days p = (let ok = vp_min_sample_days p \<le> days in
     mk_rule ''sample_period'' (if ok then V_PASS else V_REVIEW) SEV_REVIEW
       (if ok then ''sample period is sufficient'' else ''sample period is shorter than policy minimum'')
       (dec_int days) (''>= '' @ dec_int (vp_min_sample_days p) @ '' days''))"

definition single_result_rules :: "backtest_result \<Rightarrow> validation_policy \<Rightarrow> rule_result list res" where
  "single_result_rules r p = bindR (result_days r) (\<lambda>days. let m = br_metrics r in Inr (
     (if br_status r \<noteq> BT_COMPLETED then [mk_rule ''completed_status'' V_FAIL SEV_FAIL ''backtest result is not completed''
        (backtest_status_value (br_status r)) ''completed''] else []) @
     (if vp_require_fingerprint p \<and> fingerprint_bad r then [mk_rule ''fingerprint_required'' V_FAIL SEV_FAIL
        ''reproducibility fingerprint is missing or mismatched'' (if br_fingerprint r \<noteq> [] then br_fingerprint r else ''missing'') ''required''] else []) @
     [threshold_rule ''total_return'' (bm_total_return m) (vp_min_total_return p) True V_FAIL,
      threshold_rule ''profit_factor'' (bm_profit_factor m) (vp_min_profit_factor p) True (vp_missing_profit_factor p)] @
     (case vp_min_annualized_return p of Some t \<Rightarrow> [threshold_rule ''annualized_return'' (bm_annualized_return m) t True (vp_missing_annualized_return p)] | None \<Rightarrow> []) @
     (case vp_max_exposure p of Some t \<Rightarrow> [threshold_rule ''exposure'' (bm_exposure m) t False V_REVIEW] | None \<Rightarrow> []) @
     (case vp_min_win_rate p of Some t \<Rightarrow> [threshold_rule ''win_rate'' (bm_win_rate m) t True V_REVIEW] | None \<Rightarrow> []) @
     [drawdown_rule r p, trade_count_rule r p, sample_rule days p]))"

definition overall_status :: "rule_result list \<Rightarrow> validation_status" where
  "overall_status rules = (if list_ex (\<lambda>r. ru_status r = V_FAIL) rules then V_FAIL
     else if list_ex (\<lambda>r. ru_status r = V_REVIEW) rules then V_REVIEW else V_PASS)"

text \<open>\<open>int / int\<close> is correctly rounded; the quotient must fit a float.\<close>

definition int_div :: "int \<Rightarrow> int \<Rightarrow> pyfloat res" where
  "int_div a b = (if b = 0 then Inl ZeroDivisionError else
     case fl (of_int a / of_int b) of Fin q \<Rightarrow> Inr (Fin q)
     | _ \<Rightarrow> Inl (OverflowError ''integer division result too large for a float''))"

definition multi_result_rules :: "backtest_result list \<Rightarrow> validation_policy \<Rightarrow> rule_result list res" where
  "multi_result_rules results p =
    bindR (mapR (\<lambda>r. bindR (single_result_rules r p) (\<lambda>rs. Inr (overall_status rs))) results) (\<lambda>per_window.
    bindR (int_div (int (length (filter (\<lambda>s. s = V_PASS) per_window))) (int (length results))) (\<lambda>ratio.
    let ok = fge ratio (vp_min_passing_window_ratio p);
        limit = fmul (vp_max_drawdown p) (Fin (3 / 2));
        catastrophic = list_ex (\<lambda>r. case safe_drawdown r of Some d \<Rightarrow> fgt d limit | None \<Rightarrow> False) results
    in Inr (mk_rule ''passing_window_ratio'' (if ok then V_PASS else V_REVIEW) SEV_REVIEW
         (if ok then ''validation window pass ratio is acceptable'' else ''validation window pass ratio requires review'')
         (fixed_fmt 2 ratio) (''>= '' @ fixed_fmt 2 (vp_min_passing_window_ratio p)) #
       (if catastrophic then [mk_rule ''catastrophic_window'' V_FAIL SEV_FAIL
          ''at least one validation window has catastrophic drawdown'' ''present'' ''absent''] else []))))"

definition overfit_of :: "validation_policy \<Rightarrow> backtest_result \<Rightarrow> rule_result list" where
  "overfit_of p r = (let n = effective_trade_count r; few = n < vp_min_trade_count p in
     (case bm_total_return (br_metrics r) of
        Some x \<Rightarrow> if fgt x (Fin 1) \<and> few then [mk_rule ''overfit_high_return_low_trades'' V_REVIEW SEV_WARNING
            ''very high return with low trade count is an overfitting warning, not proof''
            (''return='' @ fixed_fmt 2 x @ '', trades='' @ dec_int n) ''review''] else []
      | None \<Rightarrow> []) @
     (case bm_win_rate (br_metrics r) of
        Some x \<Rightarrow> if fgt x (fl (9 / 10)) \<and> few then [mk_rule ''overfit_high_win_rate_low_trades'' V_REVIEW SEV_WARNING
            ''very high win rate with tiny sample is an overfitting warning, not proof''
            (''win_rate='' @ fixed_fmt 2 x @ '', trades='' @ dec_int n) ''review''] else []
      | None \<Rightarrow> []))"

definition overfitting_warnings :: "backtest_result list \<Rightarrow> validation_policy \<Rightarrow> rule_result list" where
  "overfitting_warnings results p = concat (map (overfit_of p) results) @
     (if 1 < length results then
        (let returns = List.map_filter (\<lambda>r. bm_total_return (br_metrics r)) results in
         case returns of [] \<Rightarrow> []
         | x # xs \<Rightarrow> let top = foldl fmax x xs in
             if fgt top (fmul (fmax (fl (1 / 100)) (fsum returns)) (fl (8 / 10))) then
               [mk_rule ''one_window_dominates'' V_REVIEW SEV_WARNING ''one window dominates aggregate return''
                 (''max='' @ fixed_fmt 4 top) ''balanced windows''] else [])
      else [])"

section \<open>Score\<close>

definition cap :: "pyfloat \<Rightarrow> pyfloat \<Rightarrow> pyfloat" where
  "cap value max_value = fmax (Fin 0) (fmin max_value value)"

text \<open>\<open>x or d\<close> on an optional float: zero counts as missing.\<close>

definition or_float :: "pyfloat option \<Rightarrow> pyfloat \<Rightarrow> pyfloat" where
  "or_float x d = (case x of Some v \<Rightarrow> if ftrue v then v else d | None \<Rightarrow> d)"

definition score_dimensions :: "backtest_result \<Rightarrow> validation_policy \<Rightarrow> pyfloat list res" where
  "score_dimensions r p = (let m = br_metrics r in
    bindR (fdiv (or_float (bm_total_return m) (Fin 0)) (fmax (vp_min_total_return p) (fl (1 / 100)))) (\<lambda>d1.
    bindR (fdiv (or_float (safe_drawdown r) (vp_max_drawdown p)) (fmax (vp_max_drawdown p) (fl (1 / 100)))) (\<lambda>d2.
    bindR (int_div (effective_trade_count r) (max (vp_min_trade_count p) 1)) (\<lambda>d3.
    bindR (fdiv (or_float (bm_profit_factor m) (Fin 0)) (fmax (vp_min_profit_factor p) (fl (1 / 100)))) (\<lambda>d4.
    bindR (bindR (result_days r) (\<lambda>days. int_div days (vp_min_sample_days p))) (\<lambda>d5.
    Inr [cap d1 (Fin 1), fsub (Fin 1) (cap d2 (Fin 1)), cap d3 (Fin 1), cap d4 (Fin 1), cap d5 (Fin 1),
         if \<not> fingerprint_bad r then Fin 1 else Fin 0]))))))"

definition score :: "backtest_result list \<Rightarrow> rule_result list \<Rightarrow> validation_policy \<Rightarrow> int res" where
  "score results rules p =
    bindR (score_dimensions (hd results) p) (\<lambda>dims.
    bindR (fdiv (fsum dims) (Fin 6)) (\<lambda>mean.
    bindR (round0 (fmul mean (Fin 100))) (\<lambda>s.
    let s = (if list_ex (\<lambda>r. ru_status r = V_FAIL) rules then min s 69 else s) in Inr (max 0 (min 100 s)))))"

section \<open>The engine\<close>

definition validate_results :: "validation_policy \<Rightarrow> validation_request \<Rightarrow> backtest_result list \<Rightarrow> string \<Rightarrow> validation_report res" where
  "validate_results p request results at' =
    bindR (guardR (results \<noteq> []) (ValueError ''validation requires at least one backtest result'')) (\<lambda>_.
    bindR (mapR (\<lambda>r. single_result_rules r p) results) (\<lambda>singles.
    bindR (if 1 < length results then multi_result_rules results p else Inr []) (\<lambda>multi.
    let rules = concat singles @ multi @ overfitting_warnings results p; primary = hd results in
    bindR (score results rules p) (\<lambda>sc.
    Inr \<lparr>vr_validation_id = vq_validation_id request, vr_backtest_run_id = br_result_id primary,
      vr_fingerprint = br_fingerprint primary,
      vr_strategy_ref = sr_strategy_id (br_strategy primary) @ '':'' @ sr_version (br_strategy primary),
      vr_dataset_ref = dr_dataset_id (br_dataset primary) @ '':'' @ dr_version (br_dataset primary),
      vr_policy_version = vp_policy_version p, vr_overall_status = overall_status rules, vr_score = sc,
      vr_rule_results = rules,
      vr_warnings = map ru_message (filter (\<lambda>r. (ru_severity r = SEV_WARNING \<or> ru_severity r = SEV_REVIEW) \<and> ru_status r \<noteq> V_PASS) rules),
      vr_failures = map ru_message (filter (\<lambda>r. ru_status r = V_FAIL) rules),
      vr_unknowns = map ru_message (filter (\<lambda>r. ru_status r = V_REVIEW \<and> ru_observed r = ''missing'') rules),
      vr_generated_at = at', vr_reproducibility = br_reproducibility primary,
      vr_evidence = [\<lparr>ev_evidence_id = ''evidence:'' @ br_result_id primary, ev_source_ref = br_result_id primary,
                      ev_description = ''normalized BacktestResult''\<rparr>]\<rparr>))))"


section \<open>The stored report\<close>

text \<open>\<open>for item in value\<close>.\<close>

definition jiter :: "json \<Rightarrow> json list res" where
  "jiter j = (case j of JArr xs \<Rightarrow> Inr xs | JObj kvs \<Rightarrow> Inr (map (JStr \<circ> fst) kvs) | JStr s \<Rightarrow> Inr (map (\<lambda>c. JStr [c]) s)
     | _ \<Rightarrow> Inl (TypeError ''object is not iterable''))"

lemma jiter_JArr [simp]: "jiter (JArr xs) = Inr xs"
  by (simp add: jiter_def)

definition rule_to_json :: "rule_result \<Rightarrow> json" where
  "rule_to_json r = JObj [(''rule_id'', JStr (ru_rule_id r)), (''status'', JStr (validation_status_value (ru_status r))),
     (''severity'', JStr (severity_value (ru_severity r))), (''message'', JStr (ru_message r)),
     (''observed'', JStr (ru_observed r)), (''threshold'', JStr (ru_threshold r))]"

definition evidence_to_json :: "validation_evidence \<Rightarrow> json" where
  "evidence_to_json e = JObj [(''evidence_id'', JStr (ev_evidence_id e)), (''source_ref'', JStr (ev_source_ref e)),
     (''description'', JStr (ev_description e))]"

definition report_to_json :: "validation_report \<Rightarrow> obj" where
  "report_to_json r = [(''validation_id'', JStr (vr_validation_id r)), (''backtest_run_id'', JStr (vr_backtest_run_id r)),
     (''fingerprint'', JStr (vr_fingerprint r)), (''strategy_ref'', JStr (vr_strategy_ref r)),
     (''dataset_ref'', JStr (vr_dataset_ref r)), (''policy_version'', JStr (vr_policy_version r)),
     (''overall_status'', JStr (validation_status_value (vr_overall_status r))), (''score'', JInt (vr_score r)),
     (''rule_results'', JArr (map rule_to_json (vr_rule_results r))), (''warnings'', jstrs (vr_warnings r)),
     (''failures'', jstrs (vr_failures r)), (''unknowns'', jstrs (vr_unknowns r)), (''generated_at'', JStr (vr_generated_at r)),
     (''reproducibility'', JObj (map (\<lambda>(k, v). (k, JStr v)) (vr_reproducibility r))),
     (''evidence'', JArr (map evidence_to_json (vr_evidence r)))]"

definition rule_from_json :: "json \<Rightarrow> rule_result res" where
  "rule_from_json j = bindR (need_obj j) (\<lambda>o'.
     bindR (jreq o' ''rule_id'') (\<lambda>rid. bindR (bindR (jreq o' ''status'') (\<lambda>v. validation_status_of (py_str v))) (\<lambda>st.
     bindR (bindR (jreq o' ''severity'') (\<lambda>v. severity_of (py_str v))) (\<lambda>sev.
     bindR (jreq o' ''message'') (\<lambda>m. bindR (jreq o' ''observed'') (\<lambda>ob. bindR (jreq o' ''threshold'') (\<lambda>th.
     Inr (mk_rule (py_str rid) st sev (py_str m) (py_str ob) (py_str th)))))))))"

text \<open>\<open>ValidationEvidence(**item)\<close>: exactly the three fields.\<close>

definition evidence_from_json :: "json \<Rightarrow> validation_evidence res" where
  "evidence_from_json j = bindR (need_obj j) (\<lambda>o'.
     bindR (guardR (list_all (\<lambda>(k, v). k \<in> set [''evidence_id'', ''source_ref'', ''description'']) o')
       (TypeError ''got an unexpected keyword argument'')) (\<lambda>_.
     bindR (bindR (jreq o' ''evidence_id'') need_str) (\<lambda>i. bindR (bindR (jreq o' ''source_ref'') need_str) (\<lambda>s.
     bindR (bindR (jreq o' ''description'') need_str) (\<lambda>d.
     Inr \<lparr>ev_evidence_id = i, ev_source_ref = s, ev_description = d\<rparr>)))))"

definition report_from_json :: "obj \<Rightarrow> validation_report res" where
  "report_from_json o' =
    bindR (jreq o' ''validation_id'') (\<lambda>vid. bindR (jreq o' ''backtest_run_id'') (\<lambda>run.
    bindR (jreq o' ''fingerprint'') (\<lambda>fp. bindR (jreq o' ''strategy_ref'') (\<lambda>sref. bindR (jreq o' ''dataset_ref'') (\<lambda>dref.
    bindR (jreq o' ''policy_version'') (\<lambda>pv.
    bindR (bindR (jreq o' ''overall_status'') (\<lambda>v. validation_status_of (py_str v))) (\<lambda>st.
    bindR (bindR (jreq o' ''score'') jint) (\<lambda>sc.
    bindR (bindR (bindR (jreq o' ''rule_results'') jiter) (mapR rule_from_json)) (\<lambda>rules.
    bindR (bindR (jreq o' ''warnings'') jiter) (\<lambda>ws. bindR (bindR (jreq o' ''failures'') jiter) (\<lambda>fs.
    bindR (bindR (jreq o' ''unknowns'') jiter) (\<lambda>us. bindR (jreq o' ''generated_at'') (\<lambda>ga.
    bindR (bindR (jreq o' ''reproducibility'') need_obj) (\<lambda>rep.
    bindR (case map_of o' ''evidence'' of None \<Rightarrow> Inr [] | Some v \<Rightarrow> bindR (jiter v) (mapR evidence_from_json)) (\<lambda>evs.
    Inr \<lparr>vr_validation_id = py_str vid, vr_backtest_run_id = py_str run, vr_fingerprint = py_str fp,
      vr_strategy_ref = py_str sref, vr_dataset_ref = py_str dref, vr_policy_version = py_str pv, vr_overall_status = st,
      vr_score = sc, vr_rule_results = rules, vr_warnings = map py_str ws, vr_failures = map py_str fs,
      vr_unknowns = map py_str us, vr_generated_at = py_str ga, vr_reproducibility = map (\<lambda>(k, v). (k, py_str v)) rep,
      vr_evidence = evs\<rparr>)))))))))))))))"

lemma rule_roundtrip: "rule_from_json (jcanon (rule_to_json r)) = Inr r"
  by (cases r) (simp add: rule_from_json_def rule_to_json_def mk_rule_def)

lemma ocanon_keys: "set (ocanon kvs) = set (map (\<lambda>(k, v). (k, jcanon v)) kvs)"
  by (simp add: ocanon_def)

lemma evidence_roundtrip: "evidence_from_json (jcanon (evidence_to_json e)) = Inr e"
  by (cases e) (auto simp: evidence_from_json_def evidence_to_json_def list_all_iff ocanon_keys)

section \<open>Repository\<close>

record validation_repo =
  va_requests :: "validation_request table"
  va_reports :: "(string \<times> obj) table"

definition validation_repo_init :: validation_repo where
  "validation_repo_init = \<lparr>va_requests = [], va_reports = []\<rparr>"

definition validation_add_request :: "validation_request \<Rightarrow> validation_repo \<Rightarrow> validation_repo" where
  "validation_add_request r repo = repo\<lparr>va_requests := t_replace (vq_validation_id r) r (va_requests repo)\<rparr>"

definition validation_add_report :: "validation_report \<Rightarrow> validation_repo \<Rightarrow> validation_repo" where
  "validation_add_report r repo = repo\<lparr>va_reports :=
     t_replace (vr_validation_id r) (vr_generated_at r, ocanon (report_to_json r)) (va_reports repo)\<rparr>"

definition validation_get_report :: "string \<Rightarrow> validation_repo \<Rightarrow> validation_report res" where
  "validation_get_report vid repo = bindR (ofOption (KeyError vid) (t_get vid (va_reports repo)))
     (\<lambda>row. report_from_json (snd row))"

definition validation_list_reports :: "validation_repo \<Rightarrow> validation_report list res" where
  "validation_list_reports repo = mapR (\<lambda>(k, c, p). report_from_json p)
     (sort_key (\<lambda>(k, c, p). (c, k)) (va_reports repo))"

section \<open>The engine around it\<close>

record validation_env = env +
  ve_repo :: "validation_repo option"

definition validation_event :: "string \<Rightarrow> validation_request \<Rightarrow> validation_report option \<Rightarrow> string \<Rightarrow> durable_event" where
  "validation_event event_type r rep at' =
    \<lparr>de_event_id = ''event:validation:'' @ event_type @ '':'' @ vq_validation_id r, de_event_type = event_type,
     de_occurred_at = at', de_actor_ref = vq_actor_ref r, de_correlation_id = vq_validation_id r, de_causation_id = None,
     de_scope = ''validation'', de_project = ''StrategyLab'',
     de_strategy = (case rep of Some x \<Rightarrow> vr_strategy_ref x | None \<Rightarrow> ''N/A''), de_market = ''N/A'',
     de_payload = [(''validation_id'', JStr (vq_validation_id r)),
       (''status'', JStr (case rep of Some x \<Rightarrow> validation_status_value (vr_overall_status x) | None \<Rightarrow> ''requested'')),
       (''score'', JInt (case rep of Some x \<Rightarrow> vr_score x | None \<Rightarrow> 0))],
     de_evidence_refs = (case rep of Some x \<Rightarrow> map ev_evidence_id (vr_evidence x) | None \<Rightarrow> []), de_audit_refs = [],
     de_appended_at = at'\<rparr>"

definition va_update :: "(validation_repo \<Rightarrow> validation_repo) \<Rightarrow> (validation_env, unit) opr" where
  "va_update f = modO (\<lambda>s. s\<lparr>ve_repo := map_option f (ve_repo s)\<rparr>)"

definition validation_validate :: "validation_policy \<Rightarrow> validation_request \<Rightarrow> backtest_result list \<Rightarrow> string \<Rightarrow> (validation_env, validation_report) opr" where
  "validation_validate p request results at' =
    thenO (record_event (validation_event ''ValidationRequested'' request None at'))
    (thenO (record_event (validation_event ''ValidationStarted'' request None at'))
    (thenO (increment ''validation'' ''gaon_validation_requests_total'')
    (thenO (va_update (validation_add_request request))
    (bindO (catchO (liftO (validate_results p request results at'))
        (\<lambda>e. thenO (record_event (validation_event ''ValidationFailed'' request None at'))
             (thenO (increment ''validation'' ''gaon_validation_errors_total'') (raiseO e)))) (\<lambda>report.
    thenO (va_update (validation_add_report report))
    (thenO (record_event (validation_event (if vr_overall_status report = V_REVIEW then ''ValidationReviewRequired'' else ''ValidationCompleted'')
        request (Some report) at'))
    (thenO (increment ''validation'' (''gaon_validation_'' @ validation_status_value (vr_overall_status report) @ ''_total''))
    (retO report))))))))"

section \<open>What a verdict means\<close>

lemma overall_status_iff:
  "overall_status rules = V_FAIL \<longleftrightarrow> (\<exists>r \<in> set rules. ru_status r = V_FAIL)"
  "overall_status rules = V_PASS \<longleftrightarrow> (\<forall>r \<in> set rules. ru_status r = V_PASS)"
  subgoal by (auto simp: overall_status_def list_ex_iff)
  subgoal
  proof -
    have "st = V_PASS \<longleftrightarrow> st \<noteq> V_FAIL \<and> st \<noteq> V_REVIEW" for st by (cases st) simp_all
    then show ?thesis by (simp add: overall_status_def list_ex_iff) blast
  qed
  done

lemma mk_rule_simps [simp]:
  "ru_status (mk_rule a st sev m b c) = st" "ru_message (mk_rule a st sev m b c) = m" "ru_rule_id (mk_rule a st sev m b c) = a"
  by (simp_all add: mk_rule_def)

lemma threshold_pass:
  "ru_status (threshold_rule rid x t ge missing) = V_PASS \<longleftrightarrow>
    (case x of None \<Rightarrow> missing = V_PASS | Some v \<Rightarrow> if ge then fge v t else fle v t)"
  by (auto simp: threshold_rule_def Let_def split: option.splits)

lemma drawdown_pass:
  "ru_status (drawdown_rule r p) = V_PASS \<longleftrightarrow>
    (\<exists>d. normalize_drawdown (bm_max_drawdown (br_metrics r)) = Inr d \<and> fle d (vp_max_drawdown p))"
  by (auto simp: drawdown_rule_def Let_def split: sum.splits)

definition passes_policy :: "validation_policy \<Rightarrow> backtest_result \<Rightarrow> bool" where
  "passes_policy p r \<longleftrightarrow> br_status r = BT_COMPLETED \<and> (vp_require_fingerprint p \<longrightarrow> \<not> fingerprint_bad r) \<and>
    (\<exists>x. bm_total_return (br_metrics r) = Some x \<and> fge x (vp_min_total_return p)) \<and>
    (case bm_profit_factor (br_metrics r) of Some x \<Rightarrow> fge x (vp_min_profit_factor p) | None \<Rightarrow> vp_missing_profit_factor p = V_PASS) \<and>
    (\<exists>d. normalize_drawdown (bm_max_drawdown (br_metrics r)) = Inr d \<and> fle d (vp_max_drawdown p)) \<and>
    vp_min_trade_count p \<le> effective_trade_count r \<and>
    (\<exists>n. result_days r = Inr n \<and> vp_min_sample_days p \<le> n)"

lemma single_rules_pass:
  assumes "single_result_rules r p = Inr rules" and "\<forall>x \<in> set rules. ru_status x = V_PASS"
  shows "passes_policy p r"
proof -
  obtain days where d: "result_days r = Inr days"
    using assms(1) by (auto simp: single_result_rules_def bindR_Inr_iff)
  have R: "list_all (\<lambda>x. ru_status x = V_PASS) rules" using assms(2) by (simp add: list_all_iff)
  have "br_status r = BT_COMPLETED" "vp_require_fingerprint p \<longrightarrow> \<not> fingerprint_bad r"
    "ru_status (threshold_rule ''total_return'' (bm_total_return (br_metrics r)) (vp_min_total_return p) True V_FAIL) = V_PASS"
    "ru_status (threshold_rule ''profit_factor'' (bm_profit_factor (br_metrics r)) (vp_min_profit_factor p) True (vp_missing_profit_factor p)) = V_PASS"
    "ru_status (drawdown_rule r p) = V_PASS" "ru_status (trade_count_rule r p) = V_PASS" "ru_status (sample_rule days p) = V_PASS"
    using R assms(1)
    by (auto simp: single_result_rules_def d Let_def split: if_splits)
  then show ?thesis
    by (auto simp: passes_policy_def d threshold_pass drawdown_pass trade_count_rule_def sample_rule_def Let_def
        split: if_splits option.splits)
qed

lemma validate_resultsE:
  assumes "validate_results p q rs at' = Inr rep"
  obtains singles multi sc where "rs \<noteq> []" "mapR (\<lambda>r. single_result_rules r p) rs = Inr singles"
    "(if 1 < length rs then multi_result_rules rs p else Inr []) = Inr multi"
    "vr_rule_results rep = concat singles @ multi @ overfitting_warnings rs p"
    "score rs (vr_rule_results rep) p = Inr sc" "vr_score rep = sc"
    "vr_overall_status rep = overall_status (vr_rule_results rep)"
    "vr_failures rep = map ru_message (filter (\<lambda>r. ru_status r = V_FAIL) (vr_rule_results rep))"
    "vr_validation_id rep = vq_validation_id q" "vr_generated_at rep = at'" "vr_reproducibility rep = br_reproducibility (hd rs)"
  using assms by (auto simp: validate_results_def bindR_Inr_iff Let_def)


text \<open>
  A PASS is sound. When the engine reports PASS, every result it was given is completed, has a
  matching fingerprint (if the policy asks for one), a total return and a profit factor that reach
  the policy's minima, a drawdown within the maximum, enough trades and a long enough sample.
\<close>

theorem validation_pass_sound:
  assumes "validate_results p q rs at' = Inr rep" and "vr_overall_status rep = V_PASS" and "r \<in> set rs"
  shows "passes_policy p r"
  using assms(1)
proof (cases rule: validate_resultsE)
  case (1 singles multi sc)
  obtain rules where r: "single_result_rules r p = Inr rules" "rules \<in> set singles"
    using 1(2) assms(3) by (rule mapR_Inr_in)
  have "\<forall>x \<in> set (vr_rule_results rep). ru_status x = V_PASS"
    using assms(2) 1(7) by (simp add: overall_status_iff)
  then have "\<forall>x \<in> set rules. ru_status x = V_PASS"
    using r(2) 1(4) by auto
  with r(1) show ?thesis by (rule single_rules_pass)
qed

text \<open>
  The score of a report lies between 0 and 100, it is at most 69 when the verdict is FAIL, and
  the verdict is FAIL exactly when the report lists a failure.
\<close>

theorem validation_score_bounds:
  assumes "validate_results p q rs at' = Inr rep"
  shows "0 \<le> vr_score rep \<and> vr_score rep \<le> 100 \<and> (vr_overall_status rep = V_FAIL \<longleftrightarrow> vr_failures rep \<noteq> []) \<and>
    (vr_overall_status rep = V_FAIL \<longrightarrow> vr_score rep \<le> 69)"
  using assms
proof (cases rule: validate_resultsE)
  case (1 singles multi sc)
  have "0 \<le> sc" "sc \<le> 100" "list_ex (\<lambda>r. ru_status r = V_FAIL) (vr_rule_results rep) \<Longrightarrow> sc \<le> 69"
    using 1(5) by (auto simp: score_def bindR_Inr_iff Let_def)
  then show ?thesis
    using 1(6-8) by (auto simp: overall_status_iff list_ex_iff filter_empty_conv)
qed

text \<open>
  A drawdown that normalises is a fraction between 0 and 1, and a drawdown reported as a negative
  fraction is the same as its absolute value.
\<close>

theorem normalize_drawdown_fraction:
  assumes "normalize_drawdown (Some x) = Inr d"
  shows "(\<exists>r. d = Fin r \<and> 0 \<le> r \<and> r \<le> 1) \<and> (fle (Fin (- 1)) x \<and> fle x (Fin 0) \<longrightarrow> d = fabs x)"
proof (cases x)
  case (Fin v)
  consider "- 1 \<le> v" "v \<le> 0" | "0 < v" "v \<le> 1" | "1 < v" "v \<le> 100"
    using assms Fin by (force simp: normalize_drawdown_def split: if_splits)
  then show ?thesis
  proof cases
    case 3
    then obtain r where "fl (v / 100) = Fin r" "0 \<le> r" "r \<le> 1"
      by (auto intro: fl_unit [of "v / 100"])
    then show ?thesis using assms Fin 3 by (simp add: normalize_drawdown_def) (metis (full_types))
  qed (use assms Fin in \<open>auto simp: normalize_drawdown_def\<close>)
qed (use assms in \<open>auto simp: normalize_drawdown_def fle_def\<close>)

lemma drawdown_sign: "fle (Fin (- 1)) x \<and> fle x (Fin 0) \<Longrightarrow> normalize_drawdown (Some x) = Inr (fabs x)"
  by (simp add: normalize_drawdown_def)

section \<open>What the engine stores\<close>

lemma report_roundtrip:
  assumes "sorted (map fst (vr_reproducibility r))"
  shows "report_from_json (ocanon (report_to_json r)) = Inr r"
proof -
  have a: "mapR rule_from_json (map (jcanon \<circ> rule_to_json) xs) = Inr xs"
    and b: "mapR evidence_from_json (map (jcanon \<circ> evidence_to_json) ys) = Inr ys" for xs ys
    by (auto intro!: mapR_map_id simp: rule_roundtrip evidence_roundtrip)
  show ?thesis
    using assms by (simp add: report_from_json_def report_to_json_def ocanon_strs jstrs_def comp_def a [unfolded comp_def] b [unfolded comp_def])
qed

lemma wp_va_update [wp_simps]:
  "wp (va_update f) Q E s = Q () (s\<lparr>ve_repo := map_option f (ve_repo s)\<rparr>)"
  by (simp add: va_update_def wp_simps)

text \<open>
  When validation returns a report, it is the one the rules compute, the repository holds exactly
  it under the validation id (read back unchanged), and the reports under other ids are untouched.
\<close>

theorem validation_report_recorded:
  assumes "validation_validate p q rs at' s = (Inr rep, t)" and "ve_repo s = Some repo"
    and "sorted (map fst (br_reproducibility (hd rs)))"
  shows "validate_results p q rs at' = Inr rep \<and> (\<exists>repo'. ve_repo t = Some repo' \<and>
    validation_get_report (vq_validation_id q) repo' = Inr rep \<and>
    (\<forall>k. k \<noteq> vq_validation_id q \<longrightarrow> t_get k (va_reports repo') = t_get k (va_reports repo)))"
proof -
  let ?R = "validation_add_report rep (validation_add_request q repo)"
  have "wp (validation_validate p q rs at')
      (\<lambda>x t. validate_results p q rs at' = Inr x \<and> ve_repo t = Some (validation_add_report x (validation_add_request q repo)))
      (\<lambda>_ _. True) s"
    using assms(2)
    by (auto simp: validation_validate_def wp_simps wp_lift split: option.splits sum.splits)
  from wp_Inr [OF this assms(1)] have v: "validate_results p q rs at' = Inr rep" and t: "ve_repo t = Some ?R" by simp_all
  have "vr_validation_id rep = vq_validation_id q" "vr_reproducibility rep = br_reproducibility (hd rs)"
    using v by (auto elim!: validate_resultsE)
  then have "validation_get_report (vq_validation_id q) ?R = Inr rep"
    using report_roundtrip [of rep] assms(3) by (simp add: validation_get_report_def validation_add_report_def)
  moreover have "t_get k (va_reports ?R) = t_get k (va_reports repo)" if "k \<noteq> vq_validation_id q" for k
    using that \<open>vr_validation_id rep = _\<close> by (simp add: validation_add_report_def validation_add_request_def)
  ultimately show ?thesis using v t by blast
qed

text \<open>
  A validation whose rules raise is an error to the caller and stores no report: every stored
  report is as before, whatever the event store does.
\<close>

theorem validation_error_stores_no_report:
  assumes "validate_results p q rs at' = Inl e" and "ve_repo s = Some repo"
  shows "\<exists>e' t repo'. validation_validate p q rs at' s = (Inl e', t) \<and> ve_repo t = Some repo' \<and>
    va_reports repo' = va_reports repo \<and> (env_events s = None \<longrightarrow> e' = e)"
proof -
  have "wp (validation_validate p q rs at') (\<lambda>_ _. False)
      (\<lambda>e' t. \<exists>repo'. ve_repo t = Some repo' \<and> va_reports repo' = va_reports repo \<and> (env_events s = None \<longrightarrow> e' = e)) s"
    using assms
    by (auto simp: validation_validate_def wp_simps validation_add_request_def split: option.splits sum.splits)
  then show ?thesis
    by (auto simp: wp_def split: prod.splits sum.splits)
qed


section \<open>Witnesses and observed behaviour\<close>

definition sample_policy :: validation_policy where
  "sample_policy = \<lparr>vp_policy_version = POLICY_VERSION, vp_min_total_return = Fin 1, vp_min_annualized_return = None,
     vp_min_profit_factor = Fin 1, vp_max_drawdown = Fin 1, vp_max_exposure = None, vp_min_trade_count = 3,
     vp_min_sample_days = 364, vp_min_win_rate = None, vp_missing_profit_factor = V_PASS,
     vp_missing_annualized_return = V_REVIEW, vp_require_fingerprint = False, vp_min_passing_window_ratio = Fin 1\<rparr>"

definition sample_validation :: validation_request where
  "sample_validation = \<lparr>vq_validation_id = ''v1'', vq_result_ids = [''x''], vq_policy_version = POLICY_VERSION,
     vq_requested_at = ''2026-01-01T00:00:00Z'', vq_actor_ref = ''actor''\<rparr>"

definition sample_window :: backtest_result where
  "sample_window = sample_backtest_result\<lparr>br_metrics := backtest_metrics_none\<lparr>bm_total_return := Some (Fin 1),
     bm_max_drawdown := Some (Fin (- 1))\<rparr>\<rparr>"

lemma sample_window_days: "sample_days ''2025-01-01'' ''2025-12-31'' = Inr 364"
  by code_simp

lemma sample_result_days: "result_days sample_window = Inr 364"
  by (simp add: result_days_def sample_window_def sample_backtest_result_def sample_backtest_def backtest_metrics_none_def
      or_text_def sample_window_days)

lemma fl_cent_le: "fle (fl (1 / 100)) (Fin 1)"
  using fl_mono [of "1 / 100" 1] by simp

lemma rne_50 [simp]: "rne 50 = 50"
  by (simp add: rne_def)

lemma sample_dims: "score_dimensions sample_window sample_policy = Inr [Fin 1, Fin 0, Fin 1, Fin 0, Fin 1, Fin 0]"
  by (simp add: score_dimensions_def sample_policy_def sample_result_days fmax_literal fl_cent_le)
    (simp add: sample_window_def sample_backtest_result_def backtest_metrics_none_def or_float_def ftrue_def cap_def fmax_def
      fmin_def safe_drawdown_def normalize_drawdown_def int_div_def effective_trade_count_def count_summary_def
      fingerprint_bad_def fsub_def)

lemma sample_rules:
  "map_sum id (map ru_status) (single_result_rules sample_window sample_policy) = Inr [V_PASS, V_PASS, V_PASS, V_PASS, V_PASS]"
  by (simp add: single_result_rules_def sample_result_days)
    (simp add: sample_policy_def sample_window_def sample_backtest_result_def backtest_metrics_none_def threshold_rule_def
      drawdown_rule_def normalize_drawdown_def trade_count_rule_def sample_rule_def effective_trade_count_def count_summary_def
      mk_rule_def)

lemma no_sample_warnings: "overfitting_warnings [sample_window] sample_policy = []"
  by (simp add: overfitting_warnings_def overfit_of_def sample_window_def sample_backtest_result_def backtest_metrics_none_def)

lemma sample_report:
  obtains rep where "validate_results sample_policy sample_validation [sample_window] ''t'' = Inr rep"
    "vr_overall_status rep = V_PASS"
proof -
  obtain rules where r: "single_result_rules sample_window sample_policy = Inr rules"
      "map ru_status rules = [V_PASS, V_PASS, V_PASS, V_PASS, V_PASS]"
    using sample_rules by (cases "single_result_rules sample_window sample_policy") auto
  then have p: "\<forall>x \<in> set rules. ru_status x = V_PASS"
    by (metis (no_types, lifting) imageI image_set insertE list.set(1,2) empty_iff)
  then have o: "overall_status rules = V_PASS" by (simp add: overall_status_iff)
  have "score [sample_window] rules sample_policy = Inr 50"
    using p by (auto simp: score_def sample_dims fsum_def list_ex_iff)
  then have "\<exists>rep. validate_results sample_policy sample_validation [sample_window] ''t'' = Inr rep \<and> vr_overall_status rep = V_PASS"
    by (simp add: validate_results_def r(1) no_sample_warnings o)
  then show thesis using that by blast
qed

theorem validation_pass_sound_witness: "passes_policy sample_policy sample_window"
  using sample_report validation_pass_sound [of sample_policy sample_validation "[sample_window]" "''t''" _ sample_window]
  by (metis list.set_intros(1))

theorem validation_score_bounds_witness:
  "\<exists>rep. validate_results sample_policy sample_validation [sample_window] ''t'' = Inr rep \<and> vr_score rep \<le> 100"
  using sample_report validation_score_bounds by metis

theorem normalize_drawdown_fraction_witness:
  "\<exists>r. Fin (1 / 4) = Fin r \<and> 0 \<le> r \<and> r \<le> 1"
  using normalize_drawdown_fraction [of "Fin (- 1 / 4)" "Fin (1 / 4)"] by (simp add: normalize_drawdown_def)

definition sample_validation_env :: validation_env where
  "sample_validation_env = \<lparr>env_events = None, env_metrics = None, ve_repo = Some validation_repo_init\<rparr>"

theorem validation_report_recorded_witness:
  "\<exists>rep repo'. validate_results sample_policy sample_validation [sample_window] ''t'' = Inr rep \<and>
    validation_get_report ''v1'' repo' = Inr rep"
proof -
  obtain rep where r: "validate_results sample_policy sample_validation [sample_window] ''t'' = Inr rep"
    using sample_report by blast
  obtain t where "validation_validate sample_policy sample_validation [sample_window] ''t'' sample_validation_env = (Inr rep, t)"
    by (simp add: validation_validate_def bindO_apply thenO_apply sample_validation_env_def r catchO_apply increment_def va_update_def)
  from validation_report_recorded [OF this, of validation_repo_init] show ?thesis
    by (auto simp: sample_validation_env_def sample_validation_def sample_window_def sample_backtest_result_def)
qed

theorem validation_error_stores_no_report_witness:
  "\<exists>e t. validation_validate sample_policy sample_validation [] ''t'' sample_validation_env = (Inl e, t)"
  using validation_error_stores_no_report [of sample_policy sample_validation "[]" "''t''" _ sample_validation_env validation_repo_init]
  by (auto simp: validate_results_def sample_validation_env_def)

text \<open>
  Observed behaviour: \<open>normalize_drawdown\<close> is not monotone. A drawdown of 1.0 (all of the capital) is 1.0,
  a drawdown of 2.0 is read as two percent.
\<close>

lemma normalize_drawdown_jump:
  "normalize_drawdown (Some (Fin 1)) = Inr (Fin 1)"
  "\<exists>r. normalize_drawdown (Some (Fin 2)) = Inr (Fin r) \<and> r \<le> 1 / 4"
  subgoal by (simp add: normalize_drawdown_def)
  subgoal
    using fl_mono [of "2 / 100" "1 / 4"] fl_mono [of 0 "2 / 100"]
    by (cases "fl (2 / 100)") (auto simp: normalize_drawdown_def fle_def)
  done

text \<open>
  Observed behaviour: a result without any drawdown gets no credit for it. Zero is taken as a missing
  value, replaced by the policy's maximum, and the drawdown dimension of the score is zero.
\<close>

lemma zero_drawdown_scores_zero:
  assumes "score_dimensions r p = Inr dims" and "bm_max_drawdown (br_metrics r) = Some (Fin 0)" and "1 / 100 \<le> q"
    and "vp_max_drawdown p = Fin q" and "is_double (Fin q)"
  shows "dims ! 1 = Fin 0"
proof -
  have "fl q = Fin q" using assms(5) by (simp add: is_double_def)
  then have "fle (fl (1 / 100)) (Fin q)" using fl_mono [OF assms(3)] by simp
  then have m: "fmax (vp_max_drawdown p) (fl (1 / 100)) = Fin q" using assms(4) by (simp add: fmax_literal)
  have d: "or_float (safe_drawdown r) (vp_max_drawdown p) = Fin q"
    using assms(2,4) by (simp add: or_float_def safe_drawdown_def normalize_drawdown_def ftrue_def)
  have "q \<noteq> 0" using assms(3) by auto
  then have f: "fdiv (Fin q) (Fin q) = Inr (Fin 1)" by simp
  have "fsub (Fin 1) (cap (Fin 1) (Fin 1)) = Fin 0" by (simp add: fsub_def cap_def fmax_def fmin_def)
  then show ?thesis
    using assms(1) unfolding score_dimensions_def m d f bindR_simps Let_def
    by (auto simp: bindR_Inr_iff)
qed

end
