(* ===== verification/Champion.thy ===== *)
theory Champion
  imports Validation
begin

text \<open>
  \<open>gaon/adapters/champion.py\<close>: the comparison of a challenger's backtest with the champion's. The seven
  comparisons, the decision and the score they give, the report with its stored form, the repository
  and the engine. The lemmas show what a promotion candidate has passed, that evaluation never raises
  on results with readable dates, and that a stored report is read back unchanged.
\<close>

definition champion_policy_version :: string where
  "champion_policy_version = ''champion_challenger_policy_v1''"

datatype cc_decision = KEEP_CHAMPION | PROMOTION_CANDIDATE | CC_REVIEW
datatype comparison_status = CS_PASS | CS_FAIL | CS_REVIEW | CS_NOT_EVALUATED

fun cc_decision_value :: "cc_decision \<Rightarrow> string" where
  "cc_decision_value KEEP_CHAMPION = ''keep_champion''"
| "cc_decision_value PROMOTION_CANDIDATE = ''promotion_candidate''"
| "cc_decision_value CC_REVIEW = ''review''"

fun comparison_status_value :: "comparison_status \<Rightarrow> string" where
  "comparison_status_value CS_PASS = ''pass''"
| "comparison_status_value CS_FAIL = ''fail''"
| "comparison_status_value CS_REVIEW = ''review''"
| "comparison_status_value CS_NOT_EVALUATED = ''not_evaluated''"

definition cc_decision_of :: "string \<Rightarrow> cc_decision res" where
  "cc_decision_of s = ofOption (ValueError ''not a valid ChampionChallengerDecision'')
     (find (\<lambda>m. cc_decision_value m = s) [KEEP_CHAMPION, PROMOTION_CANDIDATE, CC_REVIEW])"

definition comparison_status_of :: "string \<Rightarrow> comparison_status res" where
  "comparison_status_of s = ofOption (ValueError ''not a valid ComparisonStatus'')
     (find (\<lambda>m. comparison_status_value m = s) [CS_PASS, CS_FAIL, CS_REVIEW, CS_NOT_EVALUATED])"

lemma champion_enum_roundtrip [simp]:
  "cc_decision_of (cc_decision_value d) = Inr d" "comparison_status_of (comparison_status_value st) = Inr st"
  subgoal by (cases d) (simp_all add: cc_decision_of_def)
  subgoal by (cases st) (simp_all add: comparison_status_of_def)
  done

record champion_policy =
  cp_policy_version :: string
  cp_min_return_improvement :: pyfloat
  cp_max_mdd_degradation :: pyfloat
  cp_require_profit_factor :: bool
  cp_sample_ratio :: pyfloat

definition champion_policy_default :: champion_policy where
  "champion_policy_default = \<lparr>cp_policy_version = champion_policy_version, cp_min_return_improvement = fl (5 / 100),
     cp_max_mdd_degradation = fl (5 / 100), cp_require_profit_factor = True, cp_sample_ratio = Fin (1 / 2)\<rparr>"

record champion_request =
  cq_evaluation_id :: string
  cq_champion_backtest_id :: string
  cq_challenger_backtest_id :: string
  cq_validation_id :: string
  cq_policy_version :: string
  cq_requested_at :: string
  cq_actor_ref :: string

definition mk_champion_request :: "champion_request \<Rightarrow> champion_request res" where
  "mk_champion_request r = bindR (guardR (list_all (\<lambda>f. f r \<noteq> []) [cq_evaluation_id, cq_champion_backtest_id,
       cq_challenger_backtest_id, cq_validation_id, cq_policy_version, cq_requested_at, cq_actor_ref])
     (ValueError ''champion/challenger evaluation request is incomplete'')) (\<lambda>_. Inr r)"

definition build_champion_request :: "string \<Rightarrow> backtest_result \<Rightarrow> backtest_result \<Rightarrow> validation_report \<Rightarrow> string \<Rightarrow> string \<Rightarrow> champion_policy option \<Rightarrow> champion_request res" where
  "build_champion_request eid champion challenger validation actor requested_at policy =
     mk_champion_request \<lparr>cq_evaluation_id = eid, cq_champion_backtest_id = br_result_id champion,
       cq_challenger_backtest_id = br_result_id challenger, cq_validation_id = vr_validation_id validation,
       cq_policy_version = cp_policy_version (case policy of Some p \<Rightarrow> p | None \<Rightarrow> champion_policy_default),
       cq_requested_at = requested_at, cq_actor_ref = actor\<rparr>"

record comparison =
  cm_metric :: string
  cm_status :: comparison_status
  cm_champion_value :: string
  cm_challenger_value :: string
  cm_difference :: string
  cm_threshold :: string
  cm_message :: string

definition mk_comparison :: "string \<Rightarrow> comparison_status \<Rightarrow> string \<Rightarrow> string \<Rightarrow> string \<Rightarrow> string \<Rightarrow> string \<Rightarrow> comparison" where
  "mk_comparison metric st cv hv d t m = \<lparr>cm_metric = metric, cm_status = st, cm_champion_value = cv,
     cm_challenger_value = hv, cm_difference = d, cm_threshold = t, cm_message = m\<rparr>"

lemma mk_comparison_simps [simp]:
  "cm_metric (mk_comparison a st b c d e f) = a" "cm_status (mk_comparison a st b c d e f) = st"
  by (simp_all add: mk_comparison_def)

record champion_report =
  ch_evaluation_id :: string
  ch_decision :: cc_decision
  ch_policy_version :: string
  ch_score :: int
  ch_champion_backtest_id :: string
  ch_challenger_backtest_id :: string
  ch_validation_id :: string
  ch_champion_fingerprint :: string
  ch_challenger_fingerprint :: string
  ch_comparisons :: "comparison list"
  ch_warnings :: "string list"
  ch_failures :: "string list"
  ch_generated_at :: string
  ch_rationale :: string

section \<open>Comparisons\<close>

text \<open>\<open>_fmt\<close>: four decimals, with the sign of a difference.\<close>

definition fmt_value :: "pyfloat option \<Rightarrow> string" where
  "fmt_value x = (case x of None \<Rightarrow> ''missing'' | Some v \<Rightarrow> fixed_fmt 4 v)"

definition fmt_signed :: "pyfloat \<Rightarrow> string" where
  "fmt_signed v = (if flt v (Fin 0) then fixed_fmt 4 v else ''+'' @ fixed_fmt 4 v)"

definition validation_gate :: "validation_report \<Rightarrow> comparison" where
  "validation_gate v = (let cmp = (\<lambda>st m. mk_comparison ''validation_status'' st ''N/A''
       (validation_status_value (vr_overall_status v)) ''N/A'' ''pass'' m) in
     case vr_overall_status v of
       V_PASS \<Rightarrow> cmp CS_PASS ''challenger validation passed''
     | V_FAIL \<Rightarrow> cmp CS_FAIL ''challenger validation failed''
     | V_REVIEW \<Rightarrow> cmp CS_REVIEW ''challenger validation requires review'')"

definition or_missing :: "string \<Rightarrow> string" where
  "or_missing s = (if s \<noteq> [] then s else ''missing'')"

definition fingerprint_gate :: "backtest_result \<Rightarrow> backtest_result \<Rightarrow> comparison" where
  "fingerprint_gate c h = (
     if br_fingerprint c = [] \<or> br_fingerprint h = [] then
       mk_comparison ''fingerprint'' CS_REVIEW (or_missing (br_fingerprint c)) (or_missing (br_fingerprint h)) ''N/A''
         ''both present'' ''comparison requires both fingerprints''
     else if br_fingerprint c = br_fingerprint h then
       mk_comparison ''fingerprint'' CS_FAIL (br_fingerprint c) (br_fingerprint h) ''0'' ''different''
         ''champion and challenger fingerprints are identical''
     else mk_comparison ''fingerprint'' CS_PASS (br_fingerprint c) (br_fingerprint h) ''different'' ''different''
         ''fingerprints are comparable and different'')"

definition return_comparison :: "backtest_result \<Rightarrow> backtest_result \<Rightarrow> champion_policy \<Rightarrow> comparison" where
  "return_comparison c h p = (let t = ''>= +'' @ fixed_fmt 4 (cp_min_return_improvement p) in
     case (bm_total_return (br_metrics c), bm_total_return (br_metrics h)) of
       (Some a, Some b) \<Rightarrow> let d = fsub b a; ok = fge d (cp_min_return_improvement p) in
         mk_comparison ''total_return'' (if ok then CS_PASS else CS_FAIL) (fixed_fmt 4 a) (fixed_fmt 4 b) (fmt_signed d) t
           (if ok then ''challenger return improvement meets threshold'' else ''challenger return improvement is insufficient'')
     | (a, b) \<Rightarrow> mk_comparison ''total_return'' CS_REVIEW (fmt_value a) (fmt_value b) ''missing'' t
           ''return comparison requires both total return metrics'')"

definition drawdown_text :: "backtest_result \<Rightarrow> string" where
  "drawdown_text r = (case bm_max_drawdown (br_metrics r) of Some v \<Rightarrow> frepr v | None \<Rightarrow> ''None'')"

definition drawdown_comparison :: "backtest_result \<Rightarrow> backtest_result \<Rightarrow> champion_policy \<Rightarrow> comparison" where
  "drawdown_comparison c h p = (
     case bindR (normalize_drawdown (bm_max_drawdown (br_metrics c))) (\<lambda>a.
          bindR (normalize_drawdown (bm_max_drawdown (br_metrics h))) (\<lambda>b. Inr (a, b))) of
       Inl e \<Rightarrow> mk_comparison ''max_drawdown'' CS_REVIEW (drawdown_text c) (drawdown_text h) ''missing'' ''valid mdd''
           (case e of ValueError m \<Rightarrow> m | _ \<Rightarrow> [])
     | Inr (a, b) \<Rightarrow> let allowed = fadd a (cp_max_mdd_degradation p); ok = fle b allowed in
         mk_comparison ''max_drawdown'' (if ok then CS_PASS else CS_FAIL) (fixed_fmt 4 a) (fixed_fmt 4 b)
           (fmt_signed (fsub b a)) (''<= '' @ fixed_fmt 4 allowed)
           (if ok then ''challenger drawdown is within allowed degradation'' else ''challenger drawdown degradation exceeds threshold''))"

definition profit_factor_comparison :: "backtest_result \<Rightarrow> backtest_result \<Rightarrow> champion_policy \<Rightarrow> comparison" where
  "profit_factor_comparison c h p = (
     case (bm_profit_factor (br_metrics c), bm_profit_factor (br_metrics h)) of
       (Some a, Some b) \<Rightarrow> let ok = \<not> cp_require_profit_factor p \<or> fge b a in
         mk_comparison ''profit_factor'' (if ok then CS_PASS else CS_FAIL) (fixed_fmt 4 a) (fixed_fmt 4 b)
           (fmt_signed (fsub b a)) ''>= champion''
           (if ok then ''challenger profit factor is acceptable'' else ''challenger profit factor is worse than champion'')
     | (a, b) \<Rightarrow> mk_comparison ''profit_factor'' CS_NOT_EVALUATED (fmt_value a) (fmt_value b) ''missing'' ''both present''
           ''profit factor comparison was not evaluated because a metric is missing'')"

definition sample_ok :: "int \<Rightarrow> int \<Rightarrow> champion_policy \<Rightarrow> bool res" where
  "sample_ok a b p = (if max a b = 0 then Inr True
     else bindR (int_div (min a b) (max a b)) (\<lambda>x. Inr (fge x (cp_sample_ratio p))))"

definition sample_comparison :: "backtest_result \<Rightarrow> backtest_result \<Rightarrow> champion_policy \<Rightarrow> comparison res" where
  "sample_comparison c h p =
     bindR (result_days c) (\<lambda>a. bindR (result_days h) (\<lambda>b. bindR (sample_ok a b p) (\<lambda>ok.
     Inr (mk_comparison ''sample_period'' (if ok then CS_PASS else CS_REVIEW) (dec_int a) (dec_int b) (dec_int (b - a))
       (''>= '' @ fixed_fmt 2 (cp_sample_ratio p) @ '' ratio'')
       (if ok then ''sample periods are broadly comparable'' else ''sample period comparability requires review'')))))"

definition trade_count_comparison :: "backtest_result \<Rightarrow> backtest_result \<Rightarrow> comparison" where
  "trade_count_comparison c h = (let a = effective_trade_count c; b = effective_trade_count h in
     mk_comparison ''trade_count'' CS_PASS (dec_int a) (dec_int b) (dec_int (b - a)) ''record only'' ''trade counts recorded for audit'')"

definition by_metric :: "comparison list \<Rightarrow> string \<Rightarrow> comparison res" where
  "by_metric cs metric = ofOption (KeyError metric) (find (\<lambda>c. cm_metric c = metric) cs)"

definition any_status :: "comparison_status \<Rightarrow> comparison list \<Rightarrow> bool" where
  "any_status st cs \<longleftrightarrow> list_ex (\<lambda>c. cm_status c = st) cs"

definition cc_decide :: "comparison list \<Rightarrow> cc_decision res" where
  "cc_decide cs = bindR (by_metric cs ''validation_status'') (\<lambda>v. Inr (
     if cm_status v = CS_FAIL then KEEP_CHAMPION
     else if cm_status v = CS_REVIEW then CC_REVIEW
     else if any_status CS_REVIEW cs then CC_REVIEW
     else if any_status CS_NOT_EVALUATED cs then CC_REVIEW
     else if any_status CS_FAIL cs then KEEP_CHAMPION
     else PROMOTION_CANDIDATE))"

fun comparison_weight :: "comparison_status \<Rightarrow> pyfloat" where
  "comparison_weight CS_PASS = Fin 1"
| "comparison_weight CS_NOT_EVALUATED = Fin (1 / 2)"
| "comparison_weight CS_REVIEW = fl (35 / 100)"
| "comparison_weight CS_FAIL = Fin 0"

definition cc_score :: "comparison list \<Rightarrow> int res" where
  "cc_score cs = bindR (bindR (float_of_int (int (length cs))) (fdiv (fsum (map (\<lambda>c. comparison_weight (cm_status c)) cs)))) (\<lambda>m.
     bindR (round0 (fmul m (Fin 100))) (\<lambda>s.
     let s = (if any_status CS_FAIL cs then min s 69 else s) in Inr (max 0 (min 100 s))))"

definition cc_rationale :: "cc_decision \<Rightarrow> string" where
  "cc_rationale d = (case d of
     PROMOTION_CANDIDATE \<Rightarrow> ''challenger passed validation and all comparison gates; this is not promotion''
   | CC_REVIEW \<Rightarrow> ''comparison requires human review before any future promotion workflow''
   | KEEP_CHAMPION \<Rightarrow> ''champion remains selected by evaluation policy'')"

definition cc_comparisons :: "champion_policy \<Rightarrow> backtest_result \<Rightarrow> backtest_result \<Rightarrow> validation_report \<Rightarrow> comparison list res" where
  "cc_comparisons p c h v = bindR (sample_comparison c h p) (\<lambda>sample.
     Inr [validation_gate v, fingerprint_gate c h, return_comparison c h p, drawdown_comparison c h p,
          profit_factor_comparison c h p, sample, trade_count_comparison c h])"

definition champion_evaluate_results :: "champion_policy \<Rightarrow> champion_request \<Rightarrow> backtest_result \<Rightarrow> backtest_result \<Rightarrow> validation_report \<Rightarrow> string \<Rightarrow> champion_report res" where
  "champion_evaluate_results p q c h v at' =
     bindR (cc_comparisons p c h v) (\<lambda>cs. bindR (cc_decide cs) (\<lambda>d. bindR (cc_score cs) (\<lambda>sc.
     Inr \<lparr>ch_evaluation_id = cq_evaluation_id q, ch_decision = d, ch_policy_version = cp_policy_version p, ch_score = sc,
       ch_champion_backtest_id = br_result_id c, ch_challenger_backtest_id = br_result_id h,
       ch_validation_id = vr_validation_id v, ch_champion_fingerprint = br_fingerprint c,
       ch_challenger_fingerprint = br_fingerprint h, ch_comparisons = cs,
       ch_warnings = map cm_message (filter (\<lambda>x. cm_status x = CS_REVIEW \<or> cm_status x = CS_NOT_EVALUATED) cs),
       ch_failures = map cm_message (filter (\<lambda>x. cm_status x = CS_FAIL) cs),
       ch_generated_at = at', ch_rationale = cc_rationale d\<rparr>)))"

section \<open>The stored report\<close>

definition comparison_to_json :: "comparison \<Rightarrow> json" where
  "comparison_to_json c = JObj [(''metric'', JStr (cm_metric c)), (''status'', JStr (comparison_status_value (cm_status c))),
     (''champion_value'', JStr (cm_champion_value c)), (''challenger_value'', JStr (cm_challenger_value c)),
     (''difference'', JStr (cm_difference c)), (''threshold'', JStr (cm_threshold c)), (''message'', JStr (cm_message c))]"

definition champion_report_to_json :: "champion_report \<Rightarrow> obj" where
  "champion_report_to_json r = [(''evaluation_id'', JStr (ch_evaluation_id r)),
     (''decision'', JStr (cc_decision_value (ch_decision r))), (''policy_version'', JStr (ch_policy_version r)),
     (''evaluation_score'', JInt (ch_score r)), (''champion_backtest_id'', JStr (ch_champion_backtest_id r)),
     (''challenger_backtest_id'', JStr (ch_challenger_backtest_id r)), (''validation_id'', JStr (ch_validation_id r)),
     (''champion_fingerprint'', JStr (ch_champion_fingerprint r)), (''challenger_fingerprint'', JStr (ch_challenger_fingerprint r)),
     (''comparisons'', JArr (map comparison_to_json (ch_comparisons r))), (''warnings'', jstrs (ch_warnings r)),
     (''failures'', jstrs (ch_failures r)), (''generated_at'', JStr (ch_generated_at r)), (''rationale'', JStr (ch_rationale r))]"

definition comparison_from_json :: "json \<Rightarrow> comparison res" where
  "comparison_from_json j = bindR (need_obj j) (\<lambda>o'.
     bindR (jreq o' ''metric'') (\<lambda>m. bindR (bindR (jreq o' ''status'') (\<lambda>v. comparison_status_of (py_str v))) (\<lambda>st.
     bindR (jreq o' ''champion_value'') (\<lambda>cv. bindR (jreq o' ''challenger_value'') (\<lambda>hv.
     bindR (jreq o' ''difference'') (\<lambda>d. bindR (jreq o' ''threshold'') (\<lambda>t. bindR (jreq o' ''message'') (\<lambda>ms.
     Inr (mk_comparison (py_str m) st (py_str cv) (py_str hv) (py_str d) (py_str t) (py_str ms))))))))))"

definition champion_report_from_json :: "obj \<Rightarrow> champion_report res" where
  "champion_report_from_json o' =
    bindR (jreq o' ''evaluation_id'') (\<lambda>eid. bindR (bindR (jreq o' ''decision'') (\<lambda>v. cc_decision_of (py_str v))) (\<lambda>d.
    bindR (jreq o' ''policy_version'') (\<lambda>pv. bindR (bindR (jreq o' ''evaluation_score'') jint) (\<lambda>sc.
    bindR (jreq o' ''champion_backtest_id'') (\<lambda>cb. bindR (jreq o' ''challenger_backtest_id'') (\<lambda>hb.
    bindR (jreq o' ''validation_id'') (\<lambda>vid. bindR (jreq o' ''champion_fingerprint'') (\<lambda>cf.
    bindR (jreq o' ''challenger_fingerprint'') (\<lambda>hf.
    bindR (bindR (bindR (jreq o' ''comparisons'') jiter) (mapR comparison_from_json)) (\<lambda>cs.
    bindR (bindR (jreq o' ''warnings'') jiter) (\<lambda>ws. bindR (bindR (jreq o' ''failures'') jiter) (\<lambda>fs.
    bindR (jreq o' ''generated_at'') (\<lambda>ga. bindR (jreq o' ''rationale'') (\<lambda>ra.
    Inr \<lparr>ch_evaluation_id = py_str eid, ch_decision = d, ch_policy_version = py_str pv, ch_score = sc,
      ch_champion_backtest_id = py_str cb, ch_challenger_backtest_id = py_str hb, ch_validation_id = py_str vid,
      ch_champion_fingerprint = py_str cf, ch_challenger_fingerprint = py_str hf, ch_comparisons = cs,
      ch_warnings = map py_str ws, ch_failures = map py_str fs, ch_generated_at = py_str ga, ch_rationale = py_str ra\<rparr>))))))))))))))"

lemma comparison_roundtrip: "comparison_from_json (jcanon (comparison_to_json c)) = Inr c"
  by (cases c) (simp add: comparison_from_json_def comparison_to_json_def mk_comparison_def)

lemma champion_report_roundtrip: "champion_report_from_json (ocanon (champion_report_to_json r)) = Inr r"
proof -
  have a: "mapR comparison_from_json (map (jcanon \<circ> comparison_to_json) xs) = Inr xs" for xs
    by (auto intro!: mapR_map_id simp: comparison_roundtrip)
  show ?thesis
    by (simp add: champion_report_from_json_def champion_report_to_json_def jstrs_def comp_def a [unfolded comp_def])
qed

section \<open>Repository and engine\<close>

record champion_repo =
  cc_requests :: "champion_request table"
  cc_reports :: "(string \<times> obj) table"

definition champion_repo_init :: champion_repo where
  "champion_repo_init = \<lparr>cc_requests = [], cc_reports = []\<rparr>"

definition champion_add_request :: "champion_request \<Rightarrow> champion_repo \<Rightarrow> champion_repo" where
  "champion_add_request q repo = repo\<lparr>cc_requests := t_replace (cq_evaluation_id q) q (cc_requests repo)\<rparr>"

definition champion_add_report :: "champion_report \<Rightarrow> champion_repo \<Rightarrow> champion_repo" where
  "champion_add_report r repo = repo\<lparr>cc_reports :=
     t_replace (ch_evaluation_id r) (ch_generated_at r, ocanon (champion_report_to_json r)) (cc_reports repo)\<rparr>"

definition champion_get_report :: "string \<Rightarrow> champion_repo \<Rightarrow> champion_report res" where
  "champion_get_report eid repo = bindR (ofOption (KeyError eid) (t_get eid (cc_reports repo)))
     (\<lambda>row. champion_report_from_json (snd row))"

definition champion_list_reports :: "champion_repo \<Rightarrow> champion_report list res" where
  "champion_list_reports repo = mapR (\<lambda>(k, c, p). champion_report_from_json p)
     (sort_key (\<lambda>(k, c, p). (c, k)) (cc_reports repo))"

record champion_env = env +
  ce_repo :: "champion_repo option"

definition champion_event :: "string \<Rightarrow> champion_request \<Rightarrow> champion_report option \<Rightarrow> string \<Rightarrow> durable_event" where
  "champion_event event_type q rep at' =
    \<lparr>de_event_id = ''event:champion-challenger:'' @ event_type @ '':'' @ cq_evaluation_id q, de_event_type = event_type,
     de_occurred_at = at', de_actor_ref = cq_actor_ref q, de_correlation_id = cq_evaluation_id q,
     de_causation_id = Some (cq_validation_id q), de_scope = ''champion_challenger_evaluation'', de_project = ''StrategyLab'',
     de_strategy = ''N/A'', de_market = ''N/A'',
     de_payload = [(''evaluation_id'', JStr (cq_evaluation_id q)),
       (''decision'', JStr (case rep of Some x \<Rightarrow> cc_decision_value (ch_decision x) | None \<Rightarrow> ''requested'')),
       (''score'', JInt (case rep of Some x \<Rightarrow> ch_score x | None \<Rightarrow> 0))],
     de_evidence_refs = [cq_validation_id q], de_audit_refs = [], de_appended_at = at'\<rparr>"

fun decision_event :: "cc_decision \<Rightarrow> string" where
  "decision_event PROMOTION_CANDIDATE = ''PromotionCandidateIdentified''"
| "decision_event KEEP_CHAMPION = ''ChampionRetained''"
| "decision_event CC_REVIEW = ''ChampionChallengerReviewRequired''"

fun decision_counter :: "cc_decision \<Rightarrow> string" where
  "decision_counter PROMOTION_CANDIDATE = ''promotion_candidates_total''"
| "decision_counter KEEP_CHAMPION = ''champion_retained_total''"
| "decision_counter CC_REVIEW = ''champion_challenger_reviews_total''"

definition ce_update :: "(champion_repo \<Rightarrow> champion_repo) \<Rightarrow> (champion_env, unit) opr" where
  "ce_update f = modO (\<lambda>s. s\<lparr>ce_repo := map_option f (ce_repo s)\<rparr>)"

definition champion_evaluate :: "champion_policy \<Rightarrow> champion_request \<Rightarrow> backtest_result \<Rightarrow> backtest_result \<Rightarrow> validation_report \<Rightarrow> string \<Rightarrow> (champion_env, champion_report) opr" where
  "champion_evaluate p q c h v at' =
    thenO (record_once (champion_event ''ChampionChallengerEvaluationRequested'' q None at'))
    (thenO (increment ''champion_challenger'' ''champion_challenger_evaluations_total'')
    (thenO (ce_update (champion_add_request q))
    (bindO (liftO (champion_evaluate_results p q c h v at')) (\<lambda>report.
    thenO (ce_update (champion_add_report report))
    (thenO (record_once (champion_event ''ChampionChallengerEvaluationCompleted'' q (Some report) at'))
    (thenO (record_once (champion_event (decision_event (ch_decision report)) q (Some report) at'))
    (thenO (increment ''champion_challenger'' (decision_counter (ch_decision report)))
    (retO report))))))))"


section \<open>What the decision means\<close>

definition candidate_ok :: "champion_policy \<Rightarrow> backtest_result \<Rightarrow> backtest_result \<Rightarrow> validation_report \<Rightarrow> bool" where
  "candidate_ok p c h v \<longleftrightarrow> vr_overall_status v = V_PASS \<and>
    br_fingerprint c \<noteq> [] \<and> br_fingerprint h \<noteq> [] \<and> br_fingerprint c \<noteq> br_fingerprint h \<and>
    (\<exists>a b. bm_total_return (br_metrics c) = Some a \<and> bm_total_return (br_metrics h) = Some b \<and>
       fge (fsub b a) (cp_min_return_improvement p)) \<and>
    (\<exists>a b. normalize_drawdown (bm_max_drawdown (br_metrics c)) = Inr a \<and> normalize_drawdown (bm_max_drawdown (br_metrics h)) = Inr b \<and>
       fle b (fadd a (cp_max_mdd_degradation p))) \<and>
    (\<exists>a b. bm_profit_factor (br_metrics c) = Some a \<and> bm_profit_factor (br_metrics h) = Some b \<and>
       (cp_require_profit_factor p \<longrightarrow> fge b a)) \<and>
    (\<exists>a b. result_days c = Inr a \<and> result_days h = Inr b \<and> sample_ok a b p = Inr True)"

lemma gate_pass:
  "cm_status (validation_gate v) = CS_PASS \<longleftrightarrow> vr_overall_status v = V_PASS"
  "cm_status (validation_gate v) = CS_FAIL \<longleftrightarrow> vr_overall_status v = V_FAIL"
  "cm_status (validation_gate v) = CS_REVIEW \<longleftrightarrow> vr_overall_status v = V_REVIEW"
  "cm_metric (validation_gate v) = ''validation_status''"
  "cm_status (fingerprint_gate c h) = CS_PASS \<longleftrightarrow>
     br_fingerprint c \<noteq> [] \<and> br_fingerprint h \<noteq> [] \<and> br_fingerprint c \<noteq> br_fingerprint h"
  by (auto simp: validation_gate_def fingerprint_gate_def split: validation_status.splits)

lemma comparison_pass:
  "cm_status (return_comparison c h p) = CS_PASS \<longleftrightarrow>
    (\<exists>a b. bm_total_return (br_metrics c) = Some a \<and> bm_total_return (br_metrics h) = Some b \<and>
       fge (fsub b a) (cp_min_return_improvement p))"
  "cm_status (drawdown_comparison c h p) = CS_PASS \<longleftrightarrow>
    (\<exists>a b. normalize_drawdown (bm_max_drawdown (br_metrics c)) = Inr a \<and> normalize_drawdown (bm_max_drawdown (br_metrics h)) = Inr b \<and>
       fle b (fadd a (cp_max_mdd_degradation p)))"
  "cm_status (profit_factor_comparison c h p) = CS_PASS \<longleftrightarrow>
    (\<exists>a b. bm_profit_factor (br_metrics c) = Some a \<and> bm_profit_factor (br_metrics h) = Some b \<and>
       (cp_require_profit_factor p \<longrightarrow> fge b a))"
  "cm_status (trade_count_comparison c h) = CS_PASS"
  subgoal by (auto simp: return_comparison_def Let_def split: option.splits)
  subgoal by (auto simp: drawdown_comparison_def Let_def bindR_def split: sum.splits)
  subgoal by (auto simp: profit_factor_comparison_def Let_def split: option.splits)
  subgoal by (simp add: trade_count_comparison_def Let_def)
  done

lemma sample_comparison_Inr:
  "sample_comparison c h p = Inr x \<Longrightarrow> cm_status x = CS_PASS \<longleftrightarrow>
    (\<exists>a b. result_days c = Inr a \<and> result_days h = Inr b \<and> sample_ok a b p = Inr True)"
  by (auto simp: sample_comparison_def bindR_Inr_iff split: if_splits)

lemma all_pass_iff:
  "(\<forall>x \<in> set cs. cm_status x = CS_PASS) \<longleftrightarrow> \<not> any_status CS_REVIEW cs \<and> \<not> any_status CS_NOT_EVALUATED cs \<and> \<not> any_status CS_FAIL cs"
proof -
  have "st = CS_PASS \<longleftrightarrow> st \<noteq> CS_REVIEW \<and> st \<noteq> CS_NOT_EVALUATED \<and> st \<noteq> CS_FAIL" for st by (cases st) simp_all
  then show ?thesis by (simp add: any_status_def list_ex_iff) blast
qed

lemma champion_evaluate_resultsE:
  assumes "champion_evaluate_results p q c h v at' = Inr rep"
  obtains sample rest where "sample_comparison c h p = Inr sample"
    "ch_comparisons rep = validation_gate v # rest"
    "rest = [fingerprint_gate c h, return_comparison c h p, drawdown_comparison c h p, profit_factor_comparison c h p,
       sample, trade_count_comparison c h]"
    "cc_decide (ch_comparisons rep) = Inr (ch_decision rep)" "cc_score (ch_comparisons rep) = Inr (ch_score rep)"
    "ch_evaluation_id rep = cq_evaluation_id q" "ch_champion_fingerprint rep = br_fingerprint c"
    "ch_challenger_fingerprint rep = br_fingerprint h" "ch_validation_id rep = vr_validation_id v"
  using assms by (auto simp: champion_evaluate_results_def cc_comparisons_def bindR_Inr_iff)

lemma cc_decide_candidate:
  assumes "cc_decide (validation_gate v # rest) = Inr d"
  shows "d = PROMOTION_CANDIDATE \<longleftrightarrow> (\<forall>x \<in> set (validation_gate v # rest). cm_status x = CS_PASS)"
  using assms unfolding all_pass_iff
  by (cases "vr_overall_status v") (auto simp: cc_decide_def by_metric_def gate_pass any_status_def split: if_splits)

text \<open>
  A challenger becomes a promotion candidate exactly when it passed validation and every gate:
  both fingerprints are present and differ, its total return improves on the champion's by the
  policy's margin, its drawdown exceeds the champion's by no more than the allowed degradation, its
  profit factor is known and not worse, and the sample periods are comparable.
\<close>

theorem promotion_candidate_iff:
  assumes "champion_evaluate_results p q c h v at' = Inr rep"
  shows "ch_decision rep = PROMOTION_CANDIDATE \<longleftrightarrow> candidate_ok p c h v"
  using assms
proof (cases rule: champion_evaluate_resultsE)
  case (1 sample rest)
  have "ch_decision rep = PROMOTION_CANDIDATE \<longleftrightarrow> (\<forall>x \<in> set (validation_gate v # rest). cm_status x = CS_PASS)"
    using 1(4) cc_decide_candidate unfolding 1(2) by blast
  also have "\<dots> \<longleftrightarrow> candidate_ok p c h v"
    using 1(1) by (simp add: 1(3) candidate_ok_def gate_pass comparison_pass sample_comparison_Inr)
  finally show ?thesis .
qed

text \<open>
  Validation comes first. Whatever the numbers say, a challenger whose validation failed leaves
  the champion in place with a score of at most 69, and one whose validation is under review is
  sent to review.
\<close>

theorem validation_decides_first:
  assumes "champion_evaluate_results p q c h v at' = Inr rep"
  shows "(vr_overall_status v = V_FAIL \<longrightarrow> ch_decision rep = KEEP_CHAMPION \<and> ch_score rep \<le> 69) \<and>
    (vr_overall_status v = V_REVIEW \<longrightarrow> ch_decision rep = CC_REVIEW) \<and> 0 \<le> ch_score rep \<and> ch_score rep \<le> 100"
  using assms
proof (cases rule: champion_evaluate_resultsE)
  case (1 sample rest)
  have "0 \<le> ch_score rep" "ch_score rep \<le> 100" "any_status CS_FAIL (ch_comparisons rep) \<Longrightarrow> ch_score rep \<le> 69"
    using 1(5) by (auto simp: cc_score_def bindR_Inr_iff Let_def)
  then show ?thesis
    using 1(2,4) by (auto simp: cc_decide_def by_metric_def gate_pass any_status_def)
qed

section \<open>Evaluation does not raise\<close>

lemma fl_bounds:
  assumes "0 \<le> q" and "q \<le> of_int n" and "n \<le> 2 ^ 53" and "0 \<le> n"
  obtains r where "fl q = Fin r" "0 \<le> r" "r \<le> of_int n"
proof -
  have "fl (of_int n) = Fin (of_int n)" using fl_int [of n] assms(3,4) by simp
  then have "fle (Fin 0) (fl q)" "fle (fl q) (Fin (of_int n))"
    using fl_mono [OF assms(1)] fl_mono [OF assms(2)] by simp_all
  then show thesis using that by (cases "fl q") (auto simp: fle_def)
qed

lemma weight_unit: obtains r where "comparison_weight st = Fin r" "0 \<le> r" "r \<le> 1"
proof (cases st)
  case CS_REVIEW
  then show thesis using that fl_unit [of "35 / 100"] by auto
next
  case CS_NOT_EVALUATED
  then show thesis using that [of "1 / 2"] by simp
qed (use that in simp_all)

lemma weights_bounded:
  assumes "int (length cs) \<le> 2 ^ 53"
  shows "\<exists>r. foldl fadd (Fin 0) (map (\<lambda>c. comparison_weight (cm_status c)) cs) = Fin r \<and> 0 \<le> r \<and> r \<le> of_int (int (length cs))"
  using assms
proof (induction cs rule: rev_induct)
  case (snoc c cs)
  then obtain r where r: "foldl fadd (Fin 0) (map (\<lambda>c. comparison_weight (cm_status c)) cs) = Fin r" "0 \<le> r"
      "r \<le> of_int (int (length cs))" by auto
  obtain w where w: "comparison_weight (cm_status c) = Fin w" "0 \<le> w" "w \<le> 1" by (rule weight_unit)
  have "r + w \<le> of_int (int (length (cs @ [c])))" using r(3) w(3) by simp
  then obtain z where "fl (r + w) = Fin z" "0 \<le> z" "z \<le> of_int (int (length (cs @ [c])))"
    using fl_bounds [of "r + w" "int (length (cs @ [c]))"] r(2) w(2) snoc.prems by auto
  then show ?case by (simp add: r(1) w(1))
qed simp


lemma cc_score_total:
  assumes "cs \<noteq> []" and "int (length cs) \<le> 2 ^ 53"
  shows "\<exists>n. cc_score cs = Inr n"
proof -
  let ?n = "int (length cs)"
  obtain r where r: "fsum (map (\<lambda>c. comparison_weight (cm_status c)) cs) = Fin r" "0 \<le> r" "r \<le> of_int ?n"
    using weights_bounded [OF assms(2)] by (auto simp: fsum_def)
  have n: "fl (of_int ?n) = Fin (of_int ?n)" "0 < ?n"
    subgoal by (rule fl_int) (use assms(2) in simp)
    subgoal using assms(1) by simp
    done
  then have "0 \<le> r / of_int ?n" "r / of_int ?n \<le> 1" using r by auto
  then obtain m where m: "fl (r / of_int ?n) = Fin m" "0 \<le> m" "m \<le> 1" by (rule fl_unit)
  then obtain z where z: "fmul (Fin m) (Fin 100) = Fin z"
    using fl_bounds [of "m * 100" 100] by auto
  have f: "float_of_int ?n = Inr (Fin (of_int ?n))" unfolding float_of_int_def n by simp
  have d: "fdiv (Fin r) (Fin (of_int ?n)) = Inr (Fin m)" using m(1) n(2) by (simp del: of_int_of_nat_eq)
  show ?thesis
    unfolding cc_score_def f r(1) bindR_simps d z by (simp add: Let_def)
qed

lemma sample_comparison_total:
  assumes "result_days c = Inr a" and "result_days h = Inr b" and "0 \<le> a" and "0 \<le> b"
  shows "\<exists>x. sample_comparison c h p = Inr x"
proof (cases "max a b = 0")
  case False
  have "0 \<le> rat_of_int (min a b) / of_int (max a b)" "rat_of_int (min a b) / of_int (max a b) \<le> 1"
    using assms(3,4) False by (auto simp: divide_le_eq)
  then obtain r where "fl (rat_of_int (min a b) / of_int (max a b)) = Fin r" by (rule fl_unit)
  then have "int_div (min a b) (max a b) = Inr (Fin r)" using False unfolding int_div_def by simp
  then show ?thesis using assms(1,2) False by (simp add: sample_comparison_def sample_ok_def)
qed (simp add: sample_comparison_def sample_ok_def assms(1,2))

text \<open>
  An evaluation never raises on results whose sample periods can be read and run forward, whatever
  their metrics hold (missing values, NaN, infinities or out of range drawdowns).
\<close>

theorem champion_evaluation_total:
  assumes "result_days c = Inr a" and "result_days h = Inr b" and "0 \<le> a" and "0 \<le> b"
  shows "\<exists>rep. champion_evaluate_results p q c h v at' = Inr rep"
proof -
  obtain x where x: "sample_comparison c h p = Inr x" using sample_comparison_total assms by blast
  let ?rest = "[fingerprint_gate c h, return_comparison c h p, drawdown_comparison c h p,
      profit_factor_comparison c h p, x, trade_count_comparison c h]"
  obtain d where d: "cc_decide (validation_gate v # ?rest) = Inr d"
    by (simp add: cc_decide_def by_metric_def gate_pass)
  obtain n where n: "cc_score (validation_gate v # ?rest) = Inr n"
    using cc_score_total [of "validation_gate v # ?rest"] by auto
  show ?thesis
    unfolding champion_evaluate_results_def cc_comparisons_def x bindR_simps d n by blast
qed

section \<open>What the engine stores\<close>

lemma wp_ce_update [wp_simps]: "wp (ce_update f) Q E s = Q () (s\<lparr>ce_repo := map_option f (ce_repo s)\<rparr>)"
  by (simp add: ce_update_def wp_simps)

text \<open>
  When the engine returns a report, it is the computed one and the repository returns exactly it
  under the evaluation id; the reports of other evaluations are untouched. Evaluating again with the
  same event log is not an error: the events are recorded once.
\<close>

theorem champion_report_recorded:
  assumes "champion_evaluate p q c h v at' s = (Inr rep, t)" and "ce_repo s = Some repo"
  shows "champion_evaluate_results p q c h v at' = Inr rep \<and> (\<exists>repo'. ce_repo t = Some repo' \<and>
    champion_get_report (cq_evaluation_id q) repo' = Inr rep \<and>
    (\<forall>k. k \<noteq> cq_evaluation_id q \<longrightarrow> t_get k (cc_reports repo') = t_get k (cc_reports repo)))"
proof -
  have "wp (champion_evaluate p q c h v at')
      (\<lambda>x t. champion_evaluate_results p q c h v at' = Inr x \<and> ce_repo t = Some (champion_add_report x (champion_add_request q repo)))
      (\<lambda>_ _. True) s"
  proof (cases "champion_evaluate_results p q c h v at'")
    case (Inl e)
    then show ?thesis unfolding champion_evaluate_def wp_then wp_bind
      by (intro wp_record_onceI) (simp_all add: wp_simps)
  next
    case (Inr r)
    then show ?thesis unfolding champion_evaluate_def wp_then wp_bind
      by (intro wp_record_onceI)
        (simp_all add: wp_then wp_bind wp_increment wp_ce_update wp_basic assms(2) wp_record_onceI)
  qed
  from wp_Inr [OF this assms(1)] have v: "champion_evaluate_results p q c h v at' = Inr rep"
    and t: "ce_repo t = Some (champion_add_report rep (champion_add_request q repo))" by simp_all
  have "ch_evaluation_id rep = cq_evaluation_id q"
    using v by (auto elim!: champion_evaluate_resultsE)
  then show ?thesis
    using v t by (simp add: champion_get_report_def champion_add_report_def champion_add_request_def champion_report_roundtrip)
qed

section \<open>Witnesses\<close>

definition sample_cc_request :: champion_request where
  "sample_cc_request = \<lparr>cq_evaluation_id = ''e1'', cq_champion_backtest_id = ''x'', cq_challenger_backtest_id = ''y'',
     cq_validation_id = ''v1'', cq_policy_version = champion_policy_version, cq_requested_at = ''t'', cq_actor_ref = ''actor''\<rparr>"

definition sample_cc_report :: "validation_status \<Rightarrow> validation_report" where
  "sample_cc_report st = \<lparr>vr_validation_id = ''v1'', vr_backtest_run_id = ''x'', vr_fingerprint = ''f'', vr_strategy_ref = ''s'',
     vr_dataset_ref = ''d'', vr_policy_version = POLICY_VERSION, vr_overall_status = st, vr_score = 50, vr_rule_results = [],
     vr_warnings = [], vr_failures = [], vr_unknowns = [], vr_generated_at = ''t'', vr_reproducibility = [], vr_evidence = []\<rparr>"

theorem champion_evaluation_total_witness:
  "\<exists>rep. champion_evaluate_results champion_policy_default sample_cc_request sample_window sample_window (sample_cc_report V_PASS) ''t'' = Inr rep"
  using champion_evaluation_total [OF sample_result_days sample_result_days] by simp

text \<open>The library's copy of totality, for the witnesses below.\<close>

lemma sample_cc_result:
  obtains rep where "champion_evaluate_results p q sample_window sample_window v at' = Inr rep"
proof -
  obtain x where x: "sample_comparison sample_window sample_window p = Inr x"
    using sample_comparison_total [OF sample_result_days sample_result_days] by auto
  obtain n where n: "cc_score [validation_gate v, fingerprint_gate sample_window sample_window,
      return_comparison sample_window sample_window p, drawdown_comparison sample_window sample_window p,
      profit_factor_comparison sample_window sample_window p, x, trade_count_comparison sample_window sample_window] = Inr n"
    using cc_score_total by fastforce
  show thesis
    by (rule that) (simp add: champion_evaluate_results_def cc_comparisons_def x n cc_decide_def by_metric_def gate_pass)
qed

theorem promotion_candidate_iff_witness:
  "\<exists>rep. champion_evaluate_results champion_policy_default sample_cc_request sample_window sample_window (sample_cc_report V_PASS) ''t'' = Inr rep \<and>
     ch_decision rep \<noteq> PROMOTION_CANDIDATE"
proof -
  obtain rep where r: "champion_evaluate_results champion_policy_default sample_cc_request sample_window sample_window (sample_cc_report V_PASS) ''t'' = Inr rep"
    by (rule sample_cc_result)
  moreover have "\<not> candidate_ok champion_policy_default sample_window sample_window (sample_cc_report V_PASS)"
    by (simp add: candidate_ok_def)
  ultimately show ?thesis using promotion_candidate_iff by blast
qed

theorem validation_decides_first_witness:
  "\<exists>rep. champion_evaluate_results champion_policy_default sample_cc_request sample_window sample_window (sample_cc_report V_FAIL) ''t'' = Inr rep \<and>
     ch_decision rep = KEEP_CHAMPION"
proof -
  obtain rep where "champion_evaluate_results champion_policy_default sample_cc_request sample_window sample_window (sample_cc_report V_FAIL) ''t'' = Inr rep"
    by (rule sample_cc_result)
  then show ?thesis using validation_decides_first by (fastforce simp: sample_cc_report_def)
qed

theorem champion_report_recorded_witness:
  "\<exists>rep repo'. champion_get_report ''e1'' repo' = Inr rep \<and> ch_validation_id rep = ''v1''"
proof -
  define s :: champion_env where "s = \<lparr>env_events = None, env_metrics = None, ce_repo = Some champion_repo_init\<rparr>"
  obtain rep where r: "champion_evaluate_results champion_policy_default sample_cc_request sample_window sample_window (sample_cc_report V_FAIL) ''t'' = Inr rep"
    by (rule sample_cc_result)
  then have "ch_validation_id rep = ''v1''" by (auto elim!: champion_evaluate_resultsE simp: sample_cc_report_def)
  moreover obtain t where "champion_evaluate champion_policy_default sample_cc_request sample_window sample_window (sample_cc_report V_FAIL) ''t'' s = (Inr rep, t)"
    by (simp add: champion_evaluate_def bindO_apply thenO_apply s_def r increment_def ce_update_def)
  from champion_report_recorded [OF this] have "\<exists>repo'. champion_get_report ''e1'' repo' = Inr rep"
    by (auto simp: s_def sample_cc_request_def)
  ultimately show ?thesis by blast
qed

end
