(* ===== verification/ChampionRegistry.thy ===== *)
theory ChampionRegistry
  imports Champion
begin

text \<open>
  \<open>gaon/adapters/champion_registry.py\<close>: the approval-gated registry of champion strategies. Entries,
  history versions, promotion requests and decisions, the four tables, and the service operations
  \<open>bootstrap\<close>, \<open>request_promotion\<close>, \<open>approve\<close>, \<open>reject\<close> and \<open>rollback\<close>. Rows are read through their JSON
  form, as the repository reads them. The lemmas show that the active champion is always the newest
  version of a gapless history, and that only an approved candidate becomes champion.
\<close>

definition DEFAULT_CHAMPION_SLOT :: string where
  "DEFAULT_CHAMPION_SLOT = ''default''"

datatype promotion_status = PR_PENDING | PR_APPROVED | PR_REJECTED | PR_ACTIVATED | PR_ROLLED_BACK
datatype promotion_decision = PD_APPROVE | PD_REJECT

fun promotion_status_value :: "promotion_status \<Rightarrow> string" where
  "promotion_status_value PR_PENDING = ''pending_approval''"
| "promotion_status_value PR_APPROVED = ''approved''"
| "promotion_status_value PR_REJECTED = ''rejected''"
| "promotion_status_value PR_ACTIVATED = ''activated''"
| "promotion_status_value PR_ROLLED_BACK = ''rolled_back''"

definition promotion_status_of :: "string \<Rightarrow> promotion_status res" where
  "promotion_status_of s = ofOption (ValueError ''not a valid PromotionStatus'')
     (find (\<lambda>m. promotion_status_value m = s) [PR_PENDING, PR_APPROVED, PR_REJECTED, PR_ACTIVATED, PR_ROLLED_BACK])"

lemma promotion_status_roundtrip [simp]: "promotion_status_of (promotion_status_value st) = Inr st"
  by (cases st) (simp_all add: promotion_status_of_def)

definition validate_ref :: "string \<Rightarrow> string \<Rightarrow> unit res" where
  "validate_ref value label = guardR (safe_ref value) (ValueError (''invalid '' @ label))"

section \<open>Data\<close>

record registry_entry =
  re_slot :: string
  re_version_id :: string
  re_strategy_ref :: string
  re_fingerprint :: string
  re_backtest_id :: string
  re_validation_id :: string
  re_evaluation_id :: string
  re_activated_at :: string
  re_revision :: int
  re_previous :: "string option"

definition mk_registry_entry :: "registry_entry \<Rightarrow> registry_entry res" where
  "mk_registry_entry e = bindR (validate_ref (re_slot e) ''slot'') (\<lambda>_.
     bindR (validate_ref (re_strategy_ref e) ''strategy_ref'') (\<lambda>_.
     bindR (validate_ref (re_fingerprint e) ''fingerprint'') (\<lambda>_.
     bindR (validate_utc (re_activated_at e)) (\<lambda>_.
     bindR (guardR (\<not> re_revision e < 1) (ValueError ''champion revision must be positive'')) (\<lambda>_. Inr e)))))"

definition entry_to_json :: "registry_entry \<Rightarrow> obj" where
  "entry_to_json e = [(''slot'', JStr (re_slot e)), (''active_version_id'', JStr (re_version_id e)),
     (''strategy_ref'', JStr (re_strategy_ref e)), (''fingerprint'', JStr (re_fingerprint e)),
     (''source_backtest_id'', JStr (re_backtest_id e)), (''source_validation_id'', JStr (re_validation_id e)),
     (''source_evaluation_id'', JStr (re_evaluation_id e)), (''activated_at'', JStr (re_activated_at e)),
     (''revision'', JInt (re_revision e)), (''previous_version_id'', of_opt (re_previous e))]"

definition entry_from_json :: "obj \<Rightarrow> registry_entry res" where
  "entry_from_json o' =
     bindR (bindR (jreq o' ''slot'') need_str) (\<lambda>sl. bindR (bindR (jreq o' ''active_version_id'') need_str) (\<lambda>v.
     bindR (bindR (jreq o' ''strategy_ref'') need_str) (\<lambda>sr. bindR (bindR (jreq o' ''fingerprint'') need_str) (\<lambda>fp.
     bindR (bindR (jreq o' ''source_backtest_id'') need_str) (\<lambda>b. bindR (bindR (jreq o' ''source_validation_id'') need_str) (\<lambda>va.
     bindR (bindR (jreq o' ''source_evaluation_id'') need_str) (\<lambda>ev. bindR (bindR (jreq o' ''activated_at'') need_str) (\<lambda>ts.
     bindR (bindR (jreq o' ''revision'') need_int) (\<lambda>n. bindR (bindR (jreq o' ''previous_version_id'') need_opt_str) (\<lambda>pv.
     mk_registry_entry \<lparr>re_slot = sl, re_version_id = v, re_strategy_ref = sr, re_fingerprint = fp, re_backtest_id = b,
       re_validation_id = va, re_evaluation_id = ev, re_activated_at = ts, re_revision = n, re_previous = pv\<rparr>))))))))))"

record champion_version =
  cv_version_id :: string
  cv_slot :: string
  cv_revision :: int
  cv_strategy_ref :: string
  cv_fingerprint :: string
  cv_backtest_id :: string
  cv_validation_id :: string
  cv_evaluation_id :: string
  cv_activated_at :: string
  cv_previous :: "string option"
  cv_activation_type :: string

definition version_to_json :: "champion_version \<Rightarrow> obj" where
  "version_to_json v = [(''version_id'', JStr (cv_version_id v)), (''slot'', JStr (cv_slot v)), (''revision'', JInt (cv_revision v)),
     (''strategy_ref'', JStr (cv_strategy_ref v)), (''fingerprint'', JStr (cv_fingerprint v)),
     (''source_backtest_id'', JStr (cv_backtest_id v)), (''source_validation_id'', JStr (cv_validation_id v)),
     (''source_evaluation_id'', JStr (cv_evaluation_id v)), (''activated_at'', JStr (cv_activated_at v)),
     (''previous_version_id'', of_opt (cv_previous v)), (''activation_type'', JStr (cv_activation_type v))]"

definition version_from_json :: "obj \<Rightarrow> champion_version res" where
  "version_from_json o' =
     bindR (bindR (jreq o' ''version_id'') need_str) (\<lambda>v. bindR (bindR (jreq o' ''slot'') need_str) (\<lambda>sl.
     bindR (bindR (jreq o' ''revision'') need_int) (\<lambda>n. bindR (bindR (jreq o' ''strategy_ref'') need_str) (\<lambda>sr.
     bindR (bindR (jreq o' ''fingerprint'') need_str) (\<lambda>fp. bindR (bindR (jreq o' ''source_backtest_id'') need_str) (\<lambda>b.
     bindR (bindR (jreq o' ''source_validation_id'') need_str) (\<lambda>va. bindR (bindR (jreq o' ''source_evaluation_id'') need_str) (\<lambda>ev.
     bindR (bindR (jreq o' ''activated_at'') need_str) (\<lambda>ts. bindR (bindR (jreq o' ''previous_version_id'') need_opt_str) (\<lambda>pv.
     bindR (bindR (jreq o' ''activation_type'') need_str) (\<lambda>ty.
     Inr \<lparr>cv_version_id = v, cv_slot = sl, cv_revision = n, cv_strategy_ref = sr, cv_fingerprint = fp, cv_backtest_id = b,
       cv_validation_id = va, cv_evaluation_id = ev, cv_activated_at = ts, cv_previous = pv, cv_activation_type = ty\<rparr>)))))))))))"

record promotion_request =
  pq_promotion_id :: string
  pq_evaluation_id :: string
  pq_slot :: string
  pq_status :: promotion_status
  pq_champion_backtest_id :: string
  pq_challenger_backtest_id :: string
  pq_validation_id :: string
  pq_candidate_fingerprint :: string
  pq_current_fingerprint :: string
  pq_requested_by :: string
  pq_requested_at :: string

definition mk_promotion_request :: "promotion_request \<Rightarrow> promotion_request res" where
  "mk_promotion_request r = bindR (validate_ref (pq_promotion_id r) ''promotion_id'') (\<lambda>_.
     bindR (validate_ref (pq_slot r) ''slot'') (\<lambda>_. bindR (validate_utc (pq_requested_at r)) (\<lambda>_.
     bindR (guardR (pq_candidate_fingerprint r \<noteq> [] \<and> pq_current_fingerprint r \<noteq> [])
       (ValueError ''promotion request requires fingerprints'')) (\<lambda>_. Inr r))))"

definition promotion_request_to_json :: "promotion_request \<Rightarrow> obj" where
  "promotion_request_to_json r = [(''promotion_id'', JStr (pq_promotion_id r)), (''evaluation_id'', JStr (pq_evaluation_id r)),
     (''slot'', JStr (pq_slot r)), (''status'', JStr (promotion_status_value (pq_status r))),
     (''champion_backtest_id'', JStr (pq_champion_backtest_id r)), (''challenger_backtest_id'', JStr (pq_challenger_backtest_id r)),
     (''validation_id'', JStr (pq_validation_id r)), (''candidate_fingerprint'', JStr (pq_candidate_fingerprint r)),
     (''current_champion_fingerprint'', JStr (pq_current_fingerprint r)), (''requested_by'', JStr (pq_requested_by r)),
     (''requested_at'', JStr (pq_requested_at r))]"

definition promotion_request_from_json :: "obj \<Rightarrow> promotion_request res" where
  "promotion_request_from_json o' =
     bindR (bindR (jreq o' ''status'') (\<lambda>v. promotion_status_of (py_str v))) (\<lambda>st.
     bindR (bindR (jreq o' ''promotion_id'') need_str) (\<lambda>pid. bindR (bindR (jreq o' ''evaluation_id'') need_str) (\<lambda>ev.
     bindR (bindR (jreq o' ''slot'') need_str) (\<lambda>sl. bindR (bindR (jreq o' ''champion_backtest_id'') need_str) (\<lambda>cb.
     bindR (bindR (jreq o' ''challenger_backtest_id'') need_str) (\<lambda>hb. bindR (bindR (jreq o' ''validation_id'') need_str) (\<lambda>va.
     bindR (bindR (jreq o' ''candidate_fingerprint'') need_str) (\<lambda>cf. bindR (bindR (jreq o' ''current_champion_fingerprint'') need_str) (\<lambda>cu.
     bindR (bindR (jreq o' ''requested_by'') need_str) (\<lambda>rb. bindR (bindR (jreq o' ''requested_at'') need_str) (\<lambda>ra.
     mk_promotion_request \<lparr>pq_promotion_id = pid, pq_evaluation_id = ev, pq_slot = sl, pq_status = st,
       pq_champion_backtest_id = cb, pq_challenger_backtest_id = hb, pq_validation_id = va, pq_candidate_fingerprint = cf,
       pq_current_fingerprint = cu, pq_requested_by = rb, pq_requested_at = ra\<rparr>)))))))))))"

lemma registry_roundtrips [simp]:
  "entry_from_json (ocanon (entry_to_json e)) = mk_registry_entry e"
  "version_from_json (ocanon (version_to_json v)) = Inr v"
  "promotion_request_from_json (ocanon (promotion_request_to_json r)) = mk_promotion_request r"
  subgoal by (cases e) (simp add: entry_from_json_def entry_to_json_def)
  subgoal by (cases v) (simp add: version_from_json_def version_to_json_def)
  subgoal by (cases r) (simp add: promotion_request_from_json_def promotion_request_to_json_def)
  done

record decision_record =
  dn_decision_id :: string
  dn_promotion_id :: string
  dn_decision :: promotion_decision
  dn_actor_ref :: string
  dn_decided_at :: string
  dn_reason :: string

definition mk_decision_record :: "decision_record \<Rightarrow> decision_record res" where
  "mk_decision_record d = bindR (validate_ref (dn_decision_id d) ''decision_id'') (\<lambda>_.
     bindR (validate_utc (dn_decided_at d)) (\<lambda>_.
     bindR (guardR (dn_actor_ref d \<noteq> []) (ValueError ''promotion decision requires actor'')) (\<lambda>_. Inr d)))"

record rollback_request =
  rr_rollback_id :: string
  rr_slot :: string
  rr_actor_ref :: string
  rr_requested_at :: string

record rollback_result =
  rs_rollback_id :: string
  rs_slot :: string
  rs_restored_version_id :: string
  rs_new_version_id :: string
  rs_status :: promotion_status
  rs_rolled_back_at :: string

section \<open>Repository\<close>

text \<open>A request row keeps its \<open>evaluation_id\<close> column beside the payload; only the payload is updated.\<close>

record registry_repo =
  rg_active :: "registry_entry table"
  rg_history :: "champion_version table"
  rg_requests :: "(string \<times> promotion_request) table"
  rg_decisions :: "decision_record table"

definition registry_repo_init :: registry_repo where
  "registry_repo_init = \<lparr>rg_active = [], rg_history = [], rg_requests = [], rg_decisions = []\<rparr>"

definition rg_get_active :: "string \<Rightarrow> registry_repo \<Rightarrow> registry_entry option res" where
  "rg_get_active slot repo = (case t_get slot (rg_active repo) of None \<Rightarrow> Inr None
     | Some e \<Rightarrow> bindR (entry_from_json (ocanon (entry_to_json e))) (\<lambda>x. Inr (Some x)))"

definition rg_put_active :: "registry_entry \<Rightarrow> registry_repo \<Rightarrow> registry_repo" where
  "rg_put_active e repo = repo\<lparr>rg_active := t_upsert (re_slot e) e (rg_active repo)\<rparr>"

definition rg_add_history :: "champion_version \<Rightarrow> registry_repo \<Rightarrow> registry_repo res" where
  "rg_add_history v repo =
    bindR (guardR ((cv_slot v, cv_revision v) \<notin> (\<lambda>x. (cv_slot x, cv_revision x)) ` set (t_rows (rg_history repo)))
      (IntegrityError ''UNIQUE constraint failed: champion_history.slot, champion_history.revision'')) (\<lambda>_.
    bindR (t_insert (cv_version_id v) v (rg_history repo)) (\<lambda>t. Inr (repo\<lparr>rg_history := t\<rparr>)))"

definition rg_list_history :: "string \<Rightarrow> registry_repo \<Rightarrow> champion_version list res" where
  "rg_list_history slot repo = mapR (\<lambda>v. version_from_json (ocanon (version_to_json v)))
     (sort_key (\<lambda>v. (cv_revision v, cv_activated_at v, cv_version_id v))
       (filter (\<lambda>v. cv_slot v = slot) (t_rows (rg_history repo))))"

definition rg_get_request :: "string \<Rightarrow> registry_repo \<Rightarrow> promotion_request res" where
  "rg_get_request pid repo = bindR (ofOption (KeyError pid) (t_get pid (rg_requests repo)))
     (\<lambda>(c, r). promotion_request_from_json (ocanon (promotion_request_to_json r)))"

definition rg_find_request :: "string \<Rightarrow> registry_repo \<Rightarrow> promotion_request option res" where
  "rg_find_request eid repo = (case find (\<lambda>(c, r). c = eid) (t_rows (rg_requests repo)) of None \<Rightarrow> Inr None
     | Some (c, r) \<Rightarrow> bindR (promotion_request_from_json (ocanon (promotion_request_to_json r))) (\<lambda>x. Inr (Some x)))"

definition rg_add_request :: "promotion_request \<Rightarrow> registry_repo \<Rightarrow> registry_repo res" where
  "rg_add_request r repo =
    bindR (guardR (pq_evaluation_id r \<notin> fst ` set (t_rows (rg_requests repo)))
      (IntegrityError ''UNIQUE constraint failed: promotion_requests.evaluation_id'')) (\<lambda>_.
    bindR (t_insert (pq_promotion_id r) (pq_evaluation_id r, r) (rg_requests repo)) (\<lambda>t. Inr (repo\<lparr>rg_requests := t\<rparr>)))"

definition rg_update_request :: "promotion_request \<Rightarrow> registry_repo \<Rightarrow> registry_repo res" where
  "rg_update_request r repo =
    (if pq_promotion_id r \<in> set (t_keys (rg_requests repo))
     then Inr (repo\<lparr>rg_requests := t_update (pq_promotion_id r) (\<lambda>(c, _). (c, r)) (rg_requests repo)\<rparr>)
     else Inl (KeyError (pq_promotion_id r)))"

definition rg_add_decision :: "decision_record \<Rightarrow> registry_repo \<Rightarrow> registry_repo" where
  "rg_add_decision d repo = repo\<lparr>rg_decisions := t_ignore (dn_decision_id d) d (rg_decisions repo)\<rparr>"

section \<open>The service\<close>

record registry_env = env +
  ry_repo :: registry_repo
  ry_evals :: champion_repo

definition ry_read :: "(registry_repo \<Rightarrow> 'a res) \<Rightarrow> (registry_env, 'a) opr" where
  "ry_read f = (\<lambda>s. (f (ry_repo s), s))"

text \<open>A repository write in its own transaction: raising leaves the tables as they were.\<close>

definition ry_write :: "(registry_repo \<Rightarrow> registry_repo res) \<Rightarrow> (registry_env, unit) opr" where
  "ry_write f = (\<lambda>s. case f (ry_repo s) of Inl e \<Rightarrow> (Inl e, s) | Inr repo \<Rightarrow> (Inr (), s\<lparr>ry_repo := repo\<rparr>))"

definition ry_report :: "string \<Rightarrow> (registry_env, champion_report) opr" where
  "ry_report eid = (\<lambda>s. (champion_get_report eid (ry_evals s), s))"

definition registry_event :: "string \<Rightarrow> string \<Rightarrow> string \<Rightarrow> string \<Rightarrow> (string \<times> string) list \<Rightarrow> durable_event" where
  "registry_event event_type correlation actor at' payload =
    \<lparr>de_event_id = ''event:champion-registry:'' @ event_type @ '':'' @ correlation, de_event_type = event_type,
     de_occurred_at = at', de_actor_ref = actor, de_correlation_id = correlation, de_causation_id = None,
     de_scope = ''champion_registry'', de_project = ''StrategyLab'',
     de_strategy = (case map_of payload ''slot'' of Some v \<Rightarrow> v | None \<Rightarrow> DEFAULT_CHAMPION_SLOT), de_market = ''N/A'',
     de_payload = map (\<lambda>(k, v). (k, JStr v)) payload,
     de_evidence_refs = map snd (filter (\<lambda>(k, v). endswith k ''_id'') payload), de_audit_refs = [], de_appended_at = at'\<rparr>"

definition ry_record :: "string \<Rightarrow> string \<Rightarrow> string \<Rightarrow> string \<Rightarrow> (string \<times> string) list \<Rightarrow> (registry_env, unit) opr" where
  "ry_record event_type correlation actor at' payload = record_once (registry_event event_type correlation actor at' payload)"

definition ry_increment :: "string \<Rightarrow> (registry_env, unit) opr" where
  "ry_increment name = increment ''champion_registry'' name"

definition version_id_of :: "string \<Rightarrow> int \<Rightarrow> string" where
  "version_id_of slot revision = ''champion-version:'' @ slot @ '':'' @ dec_int revision"

text \<open>What an activation takes: the source of the strategy, the time and the kind of activation.\<close>

record activation =
  ac_slot :: string
  ac_strategy_ref :: string
  ac_fingerprint :: string
  ac_backtest_id :: string
  ac_validation_id :: string
  ac_evaluation_id :: string
  ac_activated_at :: string
  ac_type :: string

definition activation_version :: "activation \<Rightarrow> registry_entry option \<Rightarrow> champion_version" where
  "activation_version a prev = (let revision = (case prev of None \<Rightarrow> 1 | Some p \<Rightarrow> re_revision p + 1) in
    \<lparr>cv_version_id = version_id_of (ac_slot a) revision, cv_slot = ac_slot a, cv_revision = revision,
     cv_strategy_ref = ac_strategy_ref a, cv_fingerprint = ac_fingerprint a, cv_backtest_id = ac_backtest_id a,
     cv_validation_id = ac_validation_id a, cv_evaluation_id = ac_evaluation_id a, cv_activated_at = ac_activated_at a,
     cv_previous = map_option re_version_id prev, cv_activation_type = ac_type a\<rparr>)"

definition version_entry :: "champion_version \<Rightarrow> registry_entry" where
  "version_entry v = \<lparr>re_slot = cv_slot v, re_version_id = cv_version_id v, re_strategy_ref = cv_strategy_ref v,
     re_fingerprint = cv_fingerprint v, re_backtest_id = cv_backtest_id v, re_validation_id = cv_validation_id v,
     re_evaluation_id = cv_evaluation_id v, re_activated_at = cv_activated_at v, re_revision = cv_revision v,
     re_previous = cv_previous v\<rparr>"

definition ry_activate :: "activation \<Rightarrow> registry_entry option \<Rightarrow> (registry_env, registry_entry) opr" where
  "ry_activate a prev = (let version = activation_version a prev in
    bindO (liftO (mk_registry_entry (version_entry version))) (\<lambda>entry.
    thenO (ry_write (rg_add_history version))
    (thenO (ry_write (\<lambda>repo. Inr (rg_put_active entry repo))) (retO entry))))"

definition registry_bootstrap :: "string \<Rightarrow> string \<Rightarrow> string \<Rightarrow> string \<Rightarrow> string \<Rightarrow> string \<Rightarrow> (registry_env, registry_entry) opr" where
  "registry_bootstrap slot sref fp backtest_id actor at' =
    bindO (ry_read (rg_get_active slot)) (\<lambda>active.
    thenO (liftO (guardR (active = None) (ValueError ''champion slot already has an active champion'')))
    (bindO (ry_activate \<lparr>ac_slot = slot, ac_strategy_ref = sref, ac_fingerprint = fp, ac_backtest_id = backtest_id,
        ac_validation_id = ''bootstrap'', ac_evaluation_id = ''bootstrap'', ac_activated_at = at', ac_type = ''bootstrap''\<rparr> None) (\<lambda>entry.
    thenO (ry_record ''ChampionBootstrapCreated'' (re_version_id entry) actor at' [(''slot'', slot), (''fingerprint'', fp)])
    (retO entry))))"

definition validate_candidate :: "champion_report \<Rightarrow> registry_entry option \<Rightarrow> unit res" where
  "validate_candidate rep current =
    bindR (guardR (ch_decision rep = PROMOTION_CANDIDATE) (ValueError ''only promotion_candidate evaluations can create promotion requests'')) (\<lambda>_.
    bindR (guardR (ch_challenger_fingerprint rep \<noteq> [] \<and> ch_champion_fingerprint rep \<noteq> []) (ValueError ''promotion candidate requires fingerprints'')) (\<lambda>_.
    bindR (guardR (ch_challenger_fingerprint rep \<noteq> ch_champion_fingerprint rep) (ValueError ''candidate fingerprint must differ from champion'')) (\<lambda>_.
    guardR (case current of Some c \<Rightarrow> re_fingerprint c \<noteq> ch_challenger_fingerprint rep | None \<Rightarrow> True)
      (ValueError ''candidate is already the active champion''))))"

definition registry_request :: "string \<Rightarrow> string \<Rightarrow> string \<Rightarrow> string \<Rightarrow> string \<Rightarrow> (registry_env, promotion_request) opr" where
  "registry_request pid eid actor at' slot =
    bindO (ry_read (rg_find_request eid)) (\<lambda>existing. case existing of
      Some r \<Rightarrow> if pq_promotion_id r \<noteq> pid then raiseO (ValueError ''promotion request already exists for evaluation'') else retO r
    | None \<Rightarrow>
        bindO (ry_report eid) (\<lambda>rep.
        bindO (ry_read (rg_get_active slot)) (\<lambda>current.
        thenO (liftO (validate_candidate rep current))
        (bindO (liftO (mk_promotion_request \<lparr>pq_promotion_id = pid, pq_evaluation_id = eid, pq_slot = slot, pq_status = PR_PENDING,
            pq_champion_backtest_id = ch_champion_backtest_id rep, pq_challenger_backtest_id = ch_challenger_backtest_id rep,
            pq_validation_id = ch_validation_id rep, pq_candidate_fingerprint = ch_challenger_fingerprint rep,
            pq_current_fingerprint = ch_champion_fingerprint rep, pq_requested_by = actor, pq_requested_at = at'\<rparr>)) (\<lambda>request.
        thenO (ry_write (rg_add_request request))
        (thenO (ry_record ''ChampionPromotionRequested'' pid actor at' [(''evaluation_id'', eid), (''slot'', slot)])
        (thenO (ry_increment ''gaon_champion_promotion_requests_total'') (retO request))))))))"

text \<open>\<open>backtest_id.rsplit(":", 1)[-1][:24]\<close>: the text after the last colon.\<close>

definition strategy_ref_from_backtest_id :: "string \<Rightarrow> string" where
  "strategy_ref_from_backtest_id b = ''strategy:'' @ take 24 (rev (takeWhile (\<lambda>c. c \<noteq> CHR '':'') (rev b)))"

definition replace_request_status :: "promotion_request \<Rightarrow> promotion_status \<Rightarrow> promotion_request res" where
  "replace_request_status r st = mk_promotion_request (r\<lparr>pq_status := st\<rparr>)"

definition candidate_activation :: "promotion_request \<Rightarrow> champion_report \<Rightarrow> string \<Rightarrow> activation" where
  "candidate_activation r rep at' = \<lparr>ac_slot = pq_slot r,
     ac_strategy_ref = strategy_ref_from_backtest_id (ch_challenger_backtest_id rep), ac_fingerprint = ch_challenger_fingerprint rep,
     ac_backtest_id = ch_challenger_backtest_id rep, ac_validation_id = ch_validation_id rep,
     ac_evaluation_id = ch_evaluation_id rep, ac_activated_at = at', ac_type = ''promotion''\<rparr>"

definition registry_approve :: "string \<Rightarrow> string \<Rightarrow> string \<Rightarrow> string \<Rightarrow> (registry_env, registry_entry) opr" where
  "registry_approve pid actor at' reason =
    bindO (ry_read (rg_get_request pid)) (\<lambda>r.
    if pq_status r = PR_ACTIVATED then
      bindO (ry_read (rg_get_active (pq_slot r))) (\<lambda>active.
      case active of None \<Rightarrow> raiseO (ValueError ''activated request has no active champion'') | Some a \<Rightarrow> retO a)
    else if pq_status r = PR_REJECTED then raiseO (ValueError ''rejected promotion cannot be approved'')
    else if pq_status r \<notin> {PR_PENDING, PR_APPROVED} then raiseO (ValueError ''promotion request cannot be approved from current state'')
    else
      bindO (ry_report (pq_evaluation_id r)) (\<lambda>rep.
      bindO (ry_read (rg_get_active (pq_slot r))) (\<lambda>current.
      thenO (liftO (validate_candidate rep current))
      (bindO (liftO (mk_decision_record \<lparr>dn_decision_id = ''decision:'' @ pid @ '':approve'', dn_promotion_id = pid,
          dn_decision = PD_APPROVE, dn_actor_ref = actor, dn_decided_at = at', dn_reason = reason\<rparr>)) (\<lambda>decision.
      thenO (ry_write (\<lambda>repo. Inr (rg_add_decision decision repo)))
      (thenO (ry_record ''ChampionPromotionApproved'' pid actor at' [(''promotion_id'', pid)])
      (thenO (ry_increment ''gaon_champion_promotions_approved_total'')
      (bindO (ry_activate (candidate_activation r rep at') current) (\<lambda>entry.
      bindO (liftO (replace_request_status r PR_ACTIVATED)) (\<lambda>r'.
      thenO (ry_write (rg_update_request r'))
      (thenO (ry_record ''ChampionActivated'' (re_version_id entry) actor at' [(''promotion_id'', pid), (''slot'', pq_slot r)])
      (thenO (ry_increment ''gaon_champion_activations_total'') (retO entry)))))))))))))"

definition registry_reject :: "string \<Rightarrow> string \<Rightarrow> string \<Rightarrow> string \<Rightarrow> (registry_env, promotion_request) opr" where
  "registry_reject pid actor at' reason =
    bindO (ry_read (rg_get_request pid)) (\<lambda>r.
    if pq_status r = PR_REJECTED then retO r
    else if pq_status r = PR_ACTIVATED then raiseO (ValueError ''activated promotion cannot be rejected'')
    else
      bindO (liftO (mk_decision_record \<lparr>dn_decision_id = ''decision:'' @ pid @ '':reject'', dn_promotion_id = pid,
          dn_decision = PD_REJECT, dn_actor_ref = actor, dn_decided_at = at', dn_reason = reason\<rparr>)) (\<lambda>decision.
      thenO (ry_write (\<lambda>repo. Inr (rg_add_decision decision repo)))
      (bindO (liftO (replace_request_status r PR_REJECTED)) (\<lambda>r'.
      thenO (ry_write (rg_update_request r'))
      (thenO (ry_record ''ChampionPromotionRejected'' pid actor at' [(''promotion_id'', pid)])
      (thenO (ry_increment ''gaon_champion_promotions_rejected_total'') (retO r')))))))"

definition find_version :: "champion_version list \<Rightarrow> string \<Rightarrow> champion_version res" where
  "find_version vs vid = ofOption (KeyError vid) (find (\<lambda>v. cv_version_id v = vid) vs)"

definition restored_activation :: "rollback_request \<Rightarrow> champion_version \<Rightarrow> activation" where
  "restored_activation r v = \<lparr>ac_slot = rr_slot r, ac_strategy_ref = cv_strategy_ref v, ac_fingerprint = cv_fingerprint v,
     ac_backtest_id = cv_backtest_id v, ac_validation_id = cv_validation_id v, ac_evaluation_id = cv_evaluation_id v,
     ac_activated_at = rr_requested_at r, ac_type = ''rollback''\<rparr>"

definition registry_rollback :: "rollback_request \<Rightarrow> (registry_env, rollback_result) opr" where
  "registry_rollback r =
    bindO (ry_read (rg_get_active (rr_slot r))) (\<lambda>active.
    case (active, Option.bind active re_previous) of
      (Some a, Some pv) \<Rightarrow>
        bindO (ry_read (\<lambda>repo. bindR (rg_list_history (rr_slot r) repo) (\<lambda>vs. find_version vs pv))) (\<lambda>previous.
        thenO (ry_record ''ChampionRollbackRequested'' (rr_rollback_id r) (rr_actor_ref r) (rr_requested_at r) [(''slot'', rr_slot r)])
        (bindO (ry_activate (restored_activation r previous) (Some a)) (\<lambda>entry.
        thenO (ry_record ''ChampionRolledBack'' (rr_rollback_id r) (rr_actor_ref r) (rr_requested_at r)
            [(''restored_version_id'', cv_version_id previous), (''new_version_id'', re_version_id entry)])
        (thenO (ry_increment ''gaon_champion_rollbacks_total'')
        (retO \<lparr>rs_rollback_id = rr_rollback_id r, rs_slot = rr_slot r, rs_restored_version_id = cv_version_id previous,
           rs_new_version_id = re_version_id entry, rs_status = PR_ROLLED_BACK, rs_rolled_back_at = rr_requested_at r\<rparr>)))))
    | _ \<Rightarrow> raiseO (ValueError ''no previous champion exists for rollback''))"


section \<open>The registry invariant\<close>

text \<open>
  In every slot the history holds the revisions 1, 2, ... in order, each version names the one before
  it, and the active entry is the newest version. A slot without history has no champion.
\<close>

definition slot_history :: "string \<Rightarrow> registry_repo \<Rightarrow> champion_version list" where
  "slot_history slot repo = filter (\<lambda>v. cv_slot v = slot) (t_rows (rg_history repo))"

definition chain_ok :: "champion_version list \<Rightarrow> bool" where
  "chain_ok vs \<longleftrightarrow> (\<forall>i < length vs. cv_revision (vs ! i) = int i + 1 \<and>
     cv_previous (vs ! i) = (if i = 0 then None else Some (cv_version_id (vs ! (i - 1)))))"

definition version_ok :: "champion_version \<Rightarrow> bool" where
  "version_ok v \<longleftrightarrow> cv_version_id v = version_id_of (cv_slot v) (cv_revision v) \<and>
     mk_registry_entry (version_entry v) = Inr (version_entry v)"

definition slot_ok :: "registry_repo \<Rightarrow> string \<Rightarrow> bool" where
  "slot_ok repo slot \<longleftrightarrow> (let vs = slot_history slot repo in chain_ok vs \<and>
     t_get slot (rg_active repo) = (if vs = [] then None else Some (version_entry (last vs))))"

definition champ_ok :: "registry_repo \<Rightarrow> bool" where
  "champ_ok repo \<longleftrightarrow> (\<forall>slot. slot_ok repo slot) \<and>
     (\<forall>(k, v) \<in> set (rg_history repo). k = cv_version_id v \<and> version_ok v)"

text \<open>Version ids of different slots or revisions differ: a revision prints without a colon.\<close>

lemma dec_int_pos: "0 \<le> n \<Longrightarrow> CHR '':'' \<notin> set (dec_int n)"
proof
  assume n: "0 \<le> n" and "CHR '':'' \<in> set (dec_int n)"
  then have "CHR '':'' \<in> set (dec_nat (nat n))" by (simp add: dec_int_def)
  then have "is_digit CHR '':''" using dec_nat_digits [of "nat n"] by (simp add: list_all_iff)
  then show False by (simp add: is_digit_def ordc_def)
qed

lemma split_last_colon:
  assumes "a @ CHR '':'' # x = b @ CHR '':'' # y" and "CHR '':'' \<notin> set x" and "CHR '':'' \<notin> set y"
  shows "a = b \<and> x = y"
proof -
  have last: "takeWhile (\<lambda>c. c \<noteq> CHR '':'') (rev (b @ CHR '':'' # y)) = rev y" if "CHR '':'' \<notin> set y" for b y :: string
  proof -
    have "rev (b @ CHR '':'' # y) = rev y @ CHR '':'' # rev b" by simp
    then show ?thesis using that by (simp only:) (subst takeWhile_append2, auto)
  qed
  have "rev x = rev y"
    using last [OF assms(2), of a] last [OF assms(3), of b] unfolding assms(1) by simp
  then show ?thesis using assms(1) by simp
qed

lemma version_id_inject:
  assumes "version_id_of s m = version_id_of t n" and "0 \<le> m" and "0 \<le> n"
  shows "s = t \<and> m = n"
proof -
  have "s = t \<and> dec_int m = dec_int n"
    using assms split_last_colon [of s "dec_int m" t "dec_int n"] by (simp add: version_id_of_def dec_int_pos)
  then have "s = t" "dec_nat (nat m) = dec_nat (nat n)" using assms(2,3) by (auto simp: dec_int_def)
  moreover from this(2) have "nat m = nat n" by (metis parse_dec_nat)
  ultimately show ?thesis using assms(2,3) by simp
qed

lemma champ_okD:
  assumes "champ_ok repo"
  shows "slot_ok repo slot" "v \<in> set (t_rows (rg_history repo)) \<Longrightarrow> version_ok v"
    "t_keys (rg_history repo) = map cv_version_id (t_rows (rg_history repo))"
  using assms by (auto simp: champ_ok_def t_rows_def t_keys_def)

lemma chain_revision: "chain_ok vs \<Longrightarrow> v \<in> set vs \<Longrightarrow> 1 \<le> cv_revision v \<and> cv_revision v \<le> int (length vs)"
  by (auto simp: chain_ok_def in_set_conv_nth)

lemma chain_last: "chain_ok vs \<Longrightarrow> vs \<noteq> [] \<Longrightarrow> cv_revision (last vs) = int (length vs)"
  by (cases "length vs") (auto simp: chain_ok_def last_conv_nth)

lemma chain_snoc:
  assumes "chain_ok vs" and "cv_revision v = int (length vs) + 1"
    and "cv_previous v = (if vs = [] then None else Some (cv_version_id (last vs)))"
  shows "chain_ok (vs @ [v])"
  using assms by (auto simp: chain_ok_def nth_append less_Suc_eq last_conv_nth)

lemma active_entry:
  assumes "champ_ok repo"
  shows "t_get slot (rg_active repo) = (if slot_history slot repo = [] then None else Some (version_entry (last (slot_history slot repo))))"
    "rg_get_active slot repo = Inr (t_get slot (rg_active repo))"
proof -
  show a: "t_get slot (rg_active repo) = (if slot_history slot repo = [] then None else Some (version_entry (last (slot_history slot repo))))"
    using champ_okD(1) [OF assms, of slot] by (simp add: slot_ok_def Let_def)
  have "mk_registry_entry (version_entry v) = Inr (version_entry v)" if "v \<in> set (slot_history slot repo)" for v
    using that champ_okD(2) [OF assms] by (simp add: slot_history_def version_ok_def)
  then show "rg_get_active slot repo = Inr (t_get slot (rg_active repo))"
    by (simp add: rg_get_active_def a)
qed

text \<open>Adding the next version of a slot and making it active.\<close>

definition activated :: "champion_version \<Rightarrow> registry_repo \<Rightarrow> registry_repo" where
  "activated v repo = repo\<lparr>rg_history := rg_history repo @ [(cv_version_id v, v)],
     rg_active := t_upsert (cv_slot v) (version_entry v) (rg_active repo)\<rparr>"

lemma slot_history_activated:
  "slot_history slot (activated v repo) = slot_history slot repo @ (if cv_slot v = slot then [v] else [])"
  by (simp add: slot_history_def activated_def t_rows_def)

lemma next_version:
  assumes "champ_ok repo" and "prev = t_get (ac_slot a) (rg_active repo)"
  defines "v \<equiv> activation_version a prev"
  shows "cv_revision v = int (length (slot_history (ac_slot a) repo)) + 1"
    "cv_previous v = (if slot_history (ac_slot a) repo = [] then None else Some (cv_version_id (last (slot_history (ac_slot a) repo))))"
    "cv_slot v = ac_slot a" "cv_version_id v = version_id_of (cv_slot v) (cv_revision v)"
  using active_entry(1) [OF assms(1), of "ac_slot a"] chain_last champ_okD(1) [OF assms(1), of "ac_slot a"]
  by (auto simp: v_def activation_version_def Let_def assms(2) version_entry_def slot_ok_def split: if_splits)

lemma activated_ok:
  assumes "champ_ok repo" and "prev = t_get (ac_slot a) (rg_active repo)"
    and "mk_registry_entry (version_entry (activation_version a prev)) = Inr e"
  shows "champ_ok (activated (activation_version a prev) repo)"
    "rg_add_history (activation_version a prev) repo = Inr (repo\<lparr>rg_history := rg_history repo @
       [(cv_version_id (activation_version a prev), activation_version a prev)]\<rparr>)"
proof -
  let ?v = "activation_version a prev"
  note nv = next_version [OF assms(1,2)]
  have e: "mk_registry_entry (version_entry ?v) = Inr (version_entry ?v)"
    using assms(3) by (auto simp: mk_registry_entry_def bindR_Inr_iff)
  have "slot_ok (activated ?v repo) slot" for slot
  proof (cases "slot = ac_slot a")
    case True
    then show ?thesis
      using champ_okD(1) [OF assms(1), of slot] chain_snoc [of "slot_history slot repo" ?v] nv
      by (auto simp: slot_ok_def Let_def slot_history_activated) (auto simp: activated_def)
  next
    case False
    then show ?thesis
      using champ_okD(1) [OF assms(1), of slot] nv(3)
      by (simp add: slot_ok_def Let_def slot_history_activated) (simp add: activated_def)
  qed
  then show "champ_ok (activated ?v repo)"
    using assms(1) nv(4) e by (auto simp: champ_ok_def version_ok_def) (auto simp: activated_def version_ok_def)
  have fresh: "\<not> (cv_slot w = cv_slot ?v \<and> cv_revision w = cv_revision ?v)" if "w \<in> set (t_rows (rg_history repo))" for w
  proof
    assume w: "cv_slot w = cv_slot ?v \<and> cv_revision w = cv_revision ?v"
    then have "w \<in> set (slot_history (ac_slot a) repo)" using that nv(3) by (simp add: slot_history_def)
    then have "cv_revision w \<le> int (length (slot_history (ac_slot a) repo))"
      using champ_okD(1) [OF assms(1)] chain_revision by (auto simp: slot_ok_def Let_def)
    then show False using w nv(1) by simp
  qed
  have rev: "0 \<le> cv_revision w" if "w \<in> set (t_rows (rg_history repo))" for w
    using champ_okD(2) [OF assms(1) that]
    by (auto simp: version_ok_def mk_registry_entry_def version_entry_def bindR_Inr_iff)
  have "cv_version_id w \<noteq> cv_version_id ?v" if w: "w \<in> set (t_rows (rg_history repo))" for w
  proof
    assume "cv_version_id w = cv_version_id ?v"
    then have "version_id_of (cv_slot w) (cv_revision w) = version_id_of (cv_slot ?v) (cv_revision ?v)"
      using champ_okD(2) [OF assms(1) w] nv(4) by (simp add: version_ok_def)
    then have "cv_slot w = cv_slot ?v \<and> cv_revision w = cv_revision ?v"
      using rev [OF w] nv(1) by (intro version_id_inject) simp_all
    then show False using fresh [OF w] by blast
  qed
  then show "rg_add_history ?v repo = Inr (repo\<lparr>rg_history := rg_history repo @ [(cv_version_id ?v, ?v)]\<rparr>)"
    using fresh champ_okD(3) [OF assms(1)]
    by (auto simp: rg_add_history_def t_insert_def bindR_Inr_iff) metis+
qed


section \<open>What the operations do to it\<close>

text \<open>Request rows are valid and stored under their own ids.\<close>

definition requests_ok :: "registry_repo \<Rightarrow> bool" where
  "requests_ok repo \<longleftrightarrow> t_ok (rg_requests repo) \<and> (\<forall>(k, c, r) \<in> set (rg_requests repo). pq_promotion_id r = k \<and> pq_evaluation_id r = c \<and>
     mk_promotion_request r = Inr r)"

definition registry_ok :: "registry_repo \<Rightarrow> bool" where
  "registry_ok repo \<longleftrightarrow> champ_ok repo \<and> requests_ok repo"

lemma registry_init_ok: "registry_ok registry_repo_init"
  by (simp add: registry_ok_def champ_ok_def slot_ok_def registry_repo_init_def slot_history_def t_rows_def chain_ok_def
      t_get_def requests_ok_def t_ok_def)

lemma mk_identity:
  "mk_promotion_request r = Inr r' \<Longrightarrow> r' = r" "mk_registry_entry e = Inr e' \<Longrightarrow> e' = e" "mk_decision_record d = Inr d' \<Longrightarrow> d' = d"
  by (auto simp: mk_promotion_request_def mk_registry_entry_def mk_decision_record_def bindR_Inr_iff)

lemma champ_ok_other [simp]:
  "champ_ok (repo\<lparr>rg_requests := x\<rparr>) = champ_ok repo" "champ_ok (repo\<lparr>rg_decisions := y\<rparr>) = champ_ok repo"
  "requests_ok (activated v repo) = requests_ok repo" "requests_ok (repo\<lparr>rg_decisions := y\<rparr>) = requests_ok repo"
  by (simp_all add: champ_ok_def slot_ok_def slot_history_def requests_ok_def activated_def)

lemma add_decision_simps [simp]:
  "champ_ok (rg_add_decision d repo) = champ_ok repo" "rg_active (rg_add_decision d repo) = rg_active repo"
  "rg_history (rg_add_decision d repo) = rg_history repo" "rg_requests (rg_add_decision d repo) = rg_requests repo"
  by (simp_all add: rg_add_decision_def)

lemma registry_ok_decision: "registry_ok (rg_add_decision d repo) = registry_ok repo"
  by (simp add: rg_add_decision_def registry_ok_def)

lemma registry_ok_add_request:
  "registry_ok repo \<Longrightarrow> mk_promotion_request r = Inr r \<Longrightarrow> rg_add_request r repo = Inr repo' \<Longrightarrow> registry_ok repo'"
  by (auto simp: rg_add_request_def registry_ok_def t_insert_def bindR_Inr_iff requests_ok_def t_ok_def split: if_splits)

lemma registry_ok_new_request:
  "registry_ok repo \<Longrightarrow> mk_promotion_request q = Inr r \<Longrightarrow> rg_add_request r repo = Inr repo' \<Longrightarrow> registry_ok repo'"
  using mk_identity(1) registry_ok_add_request by metis

lemma registry_ok_update_request:
  assumes "registry_ok repo" and "t_get (pq_promotion_id r) (rg_requests repo) = Some (pq_evaluation_id r, x)"
    and "mk_promotion_request r = Inr r" and "rg_update_request r repo = Inr repo'"
  shows "registry_ok repo'"
proof -
  have d: "distinct (map fst (rg_requests repo))" using assms(1) by (simp add: registry_ok_def requests_ok_def t_ok_def t_keys_def)
  have "c = pq_evaluation_id r" if "(pq_promotion_id r, c, y) \<in> set (rg_requests repo)" for c y
    using map_of_is_SomeI [OF d that] assms(2) by (simp add: t_get_def)
  then have c: "c = pq_evaluation_id r" if "(k, c, y) \<in> set (rg_requests repo)" "k = pq_promotion_id r" for k c y
    using that by blast
  let ?upd = "t_update (pq_promotion_id r) (\<lambda>(c, _). (c, r)) (rg_requests repo)"
  have row: "pq_promotion_id z = k \<and> pq_evaluation_id z = w \<and> mk_promotion_request z = Inr z" if "(k, w, z) \<in> set ?upd" for k w z
    using that assms(1,3) c by (fastforce simp: t_update_def registry_ok_def requests_ok_def split: if_splits prod.splits)
  have "t_ok ?upd" using assms(1) by (simp add: registry_ok_def requests_ok_def t_ok_def)
  then show ?thesis
    using assms(1,4) row by (auto simp: rg_update_request_def registry_ok_def requests_ok_def split: if_splits)
qed

lemma get_request_Inr:
  assumes "registry_ok repo" and "rg_get_request pid repo = Inr r"
  shows "t_get pid (rg_requests repo) = Some (pq_evaluation_id r, r)" "pq_promotion_id r = pid" "mk_promotion_request r = Inr r"
  using assms by (auto simp: rg_get_request_def bindR_Inr_iff registry_ok_def requests_ok_def t_get_def
      dest!: mk_identity map_of_SomeD split: prod.splits)

lemma wp_ry [wp_simps]:
  "wp (ry_read f) Q E s = (case f (ry_repo s) of Inl e \<Rightarrow> E e s | Inr x \<Rightarrow> Q x s)"
  "wp (ry_write g) Q' E s = (case g (ry_repo s) of Inl e \<Rightarrow> E e s | Inr repo \<Rightarrow> Q' () (s\<lparr>ry_repo := repo\<rparr>))"
  "wp (ry_report eid) Q'' E s = (case champion_get_report eid (ry_evals s) of Inl e \<Rightarrow> E e s | Inr x \<Rightarrow> Q'' x s)"
  by (simp_all add: wp_def ry_read_def ry_write_def ry_report_def split: sum.splits)

lemma wp_ry_record:
  assumes "\<And>es. Q () (s\<lparr>env_events := es\<rparr>)" and "\<And>er. E er s"
  shows "wp (ry_record ty c a ts p) Q E s"
  unfolding ry_record_def by (rule wp_record_onceI) (rule assms)+

lemma wp_ry_increment [wp_simps]:
  "wp (ry_increment name) Q E s = Q () (s\<lparr>env_metrics := map_option (\<lambda>ms. ms @ [MIncrement name ''champion_registry'']) (env_metrics s)\<rparr>)"
  by (simp add: ry_increment_def wp_increment)

text \<open>
  An activation that starts from the current champion either does nothing and raises (the entry is
  malformed) or appends the next version and makes it active. It never collides with the history.
\<close>

lemma wp_ry_activate:
  assumes "champ_ok (ry_repo s)" and "prev = t_get (ac_slot a) (rg_active (ry_repo s))" and "\<And>e. E e s"
    and "champ_ok (activated (activation_version a prev) (ry_repo s)) \<Longrightarrow>
      Q (version_entry (activation_version a prev)) (s\<lparr>ry_repo := activated (activation_version a prev) (ry_repo s)\<rparr>)"
  shows "wp (ry_activate a prev) Q E s"
proof (cases "mk_registry_entry (version_entry (activation_version a prev))")
  case (Inl e)
  then show ?thesis using assms(3) by (simp add: ry_activate_def Let_def wp_simps)
next
  case (Inr e)
  then have e: "e = version_entry (activation_version a prev)" by (auto dest: mk_identity)
  have "re_slot e = cv_slot (activation_version a prev)" by (simp add: e version_entry_def)
  then show ?thesis
    using assms(4) activated_ok [OF assms(1,2) Inr] Inr
    by (simp add: ry_activate_def Let_def wp_simps rg_put_active_def activated_def e)
qed


lemma registry_ok_activated: "requests_ok repo \<Longrightarrow> champ_ok (activated v repo) \<Longrightarrow> registry_ok (activated v repo)"
  by (simp add: registry_ok_def)

text \<open>The service reads the active entry of a slot as the table holds it.\<close>

lemma wp_read_active:
  "champ_ok (ry_repo s) \<Longrightarrow> wp (ry_read (rg_get_active slot)) Q E s = Q (t_get slot (rg_active (ry_repo s))) s"
  by (simp add: wp_ry active_entry(2))

lemma bootstrap_wp:
  assumes "registry_ok (ry_repo s)"
  shows "wp (registry_bootstrap slot sref fp b actor ts)
    (\<lambda>e t. registry_ok (ry_repo t) \<and> t_get slot (rg_active (ry_repo s)) = None \<and> t_get slot (rg_active (ry_repo t)) = Some e \<and>
       re_revision e = 1 \<and> re_fingerprint e = fp \<and> re_strategy_ref e = sref)
    (\<lambda>e t. registry_ok (ry_repo t)) s"
proof -
  have c: "champ_ok (ry_repo s)" "requests_ok (ry_repo s)" using assms by (simp_all add: registry_ok_def)
  show ?thesis
  proof (cases "t_get slot (rg_active (ry_repo s))")
    case None
    show ?thesis
      unfolding registry_bootstrap_def wp_bind wp_then wp_read_active [OF c(1)] None
      apply (simp add: wp_simps)
      apply (rule wp_ry_activate)
         apply (simp_all add: c None assms)
      apply (rule wp_ry_record)
       apply (simp_all add: wp_simps registry_ok_activated c)
      apply (simp add: activated_def activation_version_def Let_def version_entry_def)
      done
  next
    case (Some e)
    then show ?thesis
      unfolding registry_bootstrap_def wp_bind wp_then wp_read_active [OF c(1)] by (simp add: wp_simps assms)
  qed
qed

lemma request_wp:
  assumes "registry_ok (ry_repo s)"
  shows "wp (registry_request pid eid actor ts slot)
    (\<lambda>r t. registry_ok (ry_repo t) \<and> rg_active (ry_repo t) = rg_active (ry_repo s) \<and> rg_history (ry_repo t) = rg_history (ry_repo s))
    (\<lambda>e t. registry_ok (ry_repo t) \<and> rg_active (ry_repo t) = rg_active (ry_repo s) \<and> rg_history (ry_repo t) = rg_history (ry_repo s)) s"
proof -
  have c: "champ_ok (ry_repo s)" "requests_ok (ry_repo s)" using assms by (simp_all add: registry_ok_def)
  have add: "rg_add_request r (ry_repo s) = Inr repo' \<Longrightarrow> rg_active repo' = rg_active (ry_repo s) \<and> rg_history repo' = rg_history (ry_repo s)" for r repo'
    by (auto simp: rg_add_request_def bindR_Inr_iff)
  show ?thesis
    unfolding registry_request_def wp_bind wp_ry(1)
    apply (auto simp: assms wp_bind wp_then wp_ry wp_lift wp_basic wp_if active_entry(2) [OF c(1)] split: sum.splits option.splits)
    apply (auto intro!: wp_ry_record simp: wp_simps assms add dest: registry_ok_new_request [OF assms])
    done
qed


text \<open>What an approval that returns has done: it found the champion in place, or made the candidate champion.\<close>

definition approval_effect :: "promotion_request \<Rightarrow> champion_report \<Rightarrow> string \<Rightarrow> registry_repo \<Rightarrow> registry_entry \<Rightarrow> registry_repo \<Rightarrow> bool" where
  "approval_effect r rep ts repo e repo' \<longleftrightarrow>
    (let prev = t_get (pq_slot r) (rg_active repo); v = activation_version (candidate_activation r rep ts) prev in
     (pq_status r = PR_PENDING \<or> pq_status r = PR_APPROVED) \<and> validate_candidate rep prev = Inr () \<and>
     e = version_entry v \<and> rg_active repo' = rg_active (activated v repo) \<and> rg_history repo' = rg_history (activated v repo) \<and>
     t_get (pq_promotion_id r) (rg_requests repo') = Some (pq_evaluation_id r, r\<lparr>pq_status := PR_ACTIVATED\<rparr>))"

lemma replace_status_Inr: "replace_request_status r st = Inr r' \<Longrightarrow> r' = r\<lparr>pq_status := st\<rparr> \<and> mk_promotion_request r' = Inr r'"
  using mk_identity(1) unfolding replace_request_status_def by metis

lemma replace_status_ok: "mk_promotion_request r = Inr r \<Longrightarrow> replace_request_status r st = Inr (r\<lparr>pq_status := st\<rparr>)"
  by (simp add: replace_request_status_def mk_promotion_request_def bindR_Inr_iff)

lemma update_request_status:
  assumes "registry_ok repo" and "t_get pid (rg_requests repo) = Some (pq_evaluation_id r, r)" and "pq_promotion_id r = pid"
    and "mk_promotion_request r = Inr r"
  obtains repo' where "rg_update_request (r\<lparr>pq_status := st\<rparr>) repo = Inr repo'" "registry_ok repo'"
    "rg_active repo' = rg_active repo" "rg_history repo' = rg_history repo"
    "t_get pid (rg_requests repo') = Some (pq_evaluation_id r, r\<lparr>pq_status := st\<rparr>)"
proof -
  let ?r = "r\<lparr>pq_status := st\<rparr>"
  have k: "pid \<in> set (t_keys (rg_requests repo))" using assms(2) t_get_None [of pid "rg_requests repo"] by auto
  have u: "rg_update_request ?r repo = Inr (repo\<lparr>rg_requests := t_update pid (\<lambda>(c, _). (c, ?r)) (rg_requests repo)\<rparr>)"
    using k assms(3) by (simp add: rg_update_request_def)
  have "mk_promotion_request ?r = Inr ?r" using replace_status_ok [OF assms(4)] by (simp add: replace_request_status_def)
  then have "registry_ok (repo\<lparr>rg_requests := t_update pid (\<lambda>(c, _). (c, ?r)) (rg_requests repo)\<rparr>)"
    using registry_ok_update_request [OF assms(1) _ _ u] assms(2,3) by simp
  then show thesis using assms(2) by (intro that [OF u]) simp_all
qed

lemma approve_pending_wp:
  assumes "registry_ok (ry_repo s)" and "rg_get_request pid (ry_repo s) = Inr r"
    and "pq_status r = PR_PENDING \<or> pq_status r = PR_APPROVED"
  shows "wp (registry_approve pid actor ts reason)
    (\<lambda>e t. registry_ok (ry_repo t) \<and> (\<exists>rep. champion_get_report (pq_evaluation_id r) (ry_evals s) = Inr rep \<and>
       approval_effect r rep ts (ry_repo s) e (ry_repo t)))
    (\<lambda>e t. registry_ok (ry_repo t)) s"
proof -
  have c: "champ_ok (ry_repo s)" "requests_ok (ry_repo s)" using assms by (simp_all add: registry_ok_def)
  note r = get_request_Inr [OF assms(1,2)]
  let ?prev = "t_get (pq_slot r) (rg_active (ry_repo s))"
  have dec: "registry_ok (rg_add_decision d (ry_repo s))" for d using assms(1) by (simp add: registry_ok_decision)
  have st: "pq_status r \<noteq> PR_ACTIVATED" "pq_status r \<noteq> PR_REJECTED" "pq_status r \<in> {PR_PENDING, PR_APPROVED}" using assms(3) by auto
  show ?thesis
  proof (cases "champion_get_report (pq_evaluation_id r) (ry_evals s)")
    case (Inl e)
    then show ?thesis
      unfolding registry_approve_def wp_bind wp_then wp_ry(1) assms(2) using st by (simp add: wp_simps assms(1))
  next
    case (Inr rep)
    let ?v = "activation_version (candidate_activation r rep ts) ?prev"
    have slot: "ac_slot (candidate_activation r rep ts) = pq_slot r" by (simp add: candidate_activation_def)
    have fin: "\<exists>repo'. rg_update_request (r\<lparr>pq_status := PR_ACTIVATED\<rparr>) (activated ?v (rg_add_decision d (ry_repo s))) = Inr repo' \<and>
        registry_ok repo' \<and> (validate_candidate rep ?prev = Inr () \<longrightarrow> approval_effect r rep ts (ry_repo s) (version_entry ?v) repo')"
      if "champ_ok (activated ?v (rg_add_decision d (ry_repo s)))" for d
    proof -
      have ok: "registry_ok (activated ?v (rg_add_decision d (ry_repo s)))"
        using that dec [of d] by (simp add: registry_ok_def)
      have "t_get pid (rg_requests (activated ?v (rg_add_decision d (ry_repo s)))) = Some (pq_evaluation_id r, r)"
        using r(1) by (simp add: activated_def rg_add_decision_def)
      from update_request_status [OF ok this r(2,3), of PR_ACTIVATED] obtain repo' where
        "rg_update_request (r\<lparr>pq_status := PR_ACTIVATED\<rparr>) (activated ?v (rg_add_decision d (ry_repo s))) = Inr repo'" "registry_ok repo'"
        "rg_active repo' = rg_active (activated ?v (rg_add_decision d (ry_repo s)))"
        "rg_history repo' = rg_history (activated ?v (rg_add_decision d (ry_repo s)))"
        "t_get pid (rg_requests repo') = Some (pq_evaluation_id r, r\<lparr>pq_status := PR_ACTIVATED\<rparr>)" by blast
      then show ?thesis
        using assms(3) r(2) by (auto simp: approval_effect_def Let_def activated_def rg_add_decision_def)
    qed
    show ?thesis
      unfolding registry_approve_def wp_bind wp_then wp_ry(1) assms(2)
      using st
      apply (simp add: wp_bind wp_then wp_ry wp_lift wp_basic Inr active_entry(2) [OF c(1)] assms(1) split: sum.splits)
      apply (intro allI impI)
      apply (rule wp_ry_record; simp add: dec wp_ry_increment)
      apply (rule wp_ry_activate)
         apply (simp_all add: registry_ok_decision assms(1) c slot)
      subgoal for d es
        by (auto simp: replace_status_ok [OF r(3)] wp_ry_increment registry_ok_def dest!: fin intro!: wp_ry_record)
      done
  qed
qed


text \<open>An approval outside the pending states never changes anything.\<close>

lemma approve_other:
  assumes "registry_ok (ry_repo s)" and "rg_get_request pid (ry_repo s) = Inr r"
    and "pq_status r \<noteq> PR_PENDING" and "pq_status r \<noteq> PR_APPROVED"
  shows "registry_approve pid actor ts reason s = ((if pq_status r = PR_ACTIVATED
     then ofOption (ValueError ''activated request has no active champion'') (t_get (pq_slot r) (rg_active (ry_repo s)))
     else Inl (ValueError (if pq_status r = PR_REJECTED then ''rejected promotion cannot be approved''
       else ''promotion request cannot be approved from current state''))), s)"
proof -
  have "champ_ok (ry_repo s)" using assms(1) by (simp add: registry_ok_def)
  then show ?thesis
    using assms(3,4)
    by (simp add: registry_approve_def bindO_apply ry_read_def assms(2) active_entry(2) split: option.splits)
qed

lemma approve_wp:
  assumes "registry_ok (ry_repo s)"
  shows "wp (registry_approve pid actor ts reason) (\<lambda>_ t. registry_ok (ry_repo t)) (\<lambda>_ t. registry_ok (ry_repo t)) s"
proof (cases "rg_get_request pid (ry_repo s)")
  case (Inl e)
  then show ?thesis by (simp add: registry_approve_def wp_simps assms)
next
  case (Inr r)
  show ?thesis
  proof (cases "pq_status r = PR_PENDING \<or> pq_status r = PR_APPROVED")
    case True
    show ?thesis by (rule wp_mono [OF approve_pending_wp [OF assms Inr True]]) simp_all
  next
    case False
    then show ?thesis using approve_other [OF assms Inr] assms
      by (auto simp: wp_def split: sum.splits prod.splits)
  qed
qed

lemma reject_wp:
  assumes "registry_ok (ry_repo s)"
  shows "wp (registry_reject pid actor ts reason)
    (\<lambda>r t. registry_ok (ry_repo t) \<and> rg_active (ry_repo t) = rg_active (ry_repo s) \<and> rg_history (ry_repo t) = rg_history (ry_repo s) \<and>
       t_get pid (rg_requests (ry_repo t)) = Some (pq_evaluation_id r, r) \<and> pq_status r = PR_REJECTED)
    (\<lambda>e t. registry_ok (ry_repo t) \<and> rg_active (ry_repo t) = rg_active (ry_repo s) \<and> rg_history (ry_repo t) = rg_history (ry_repo s)) s"
proof (cases "rg_get_request pid (ry_repo s)")
  case (Inl e)
  then show ?thesis by (simp add: registry_reject_def wp_simps assms)
next
  case (Inr r)
  note r = get_request_Inr [OF assms Inr]
  have upd: "\<exists>repo'. rg_update_request (r\<lparr>pq_status := PR_REJECTED\<rparr>) (rg_add_decision d (ry_repo s)) = Inr repo' \<and>
      registry_ok repo' \<and> rg_active repo' = rg_active (ry_repo s) \<and> rg_history repo' = rg_history (ry_repo s) \<and>
      t_get pid (rg_requests repo') = Some (pq_evaluation_id r, r\<lparr>pq_status := PR_REJECTED\<rparr>)" for d
  proof -
    have "registry_ok (rg_add_decision d (ry_repo s))" using assms by (simp add: registry_ok_decision)
    from update_request_status [OF this _ r(2,3), of PR_REJECTED] show ?thesis using r(1) by simp metis
  qed
  show ?thesis
    unfolding registry_reject_def wp_bind wp_ry(1) Inr
    using r(1) assms
    apply (auto simp: wp_bind wp_then wp_ry wp_lift wp_basic registry_ok_decision replace_status_ok [OF r(3)] split: sum.splits)
     apply (use upd in \<open>auto simp: wp_ry_increment intro!: wp_ry_record\<close>)
    by (metis Inl_Inr_False sum.inject(2) upd)+
qed


text \<open>The predecessor that the active entry names is the version before the newest one.\<close>

lemma list_history_eq:
  "rg_list_history slot repo = Inr (sort_key (\<lambda>v. (cv_revision v, cv_activated_at v, cv_version_id v)) (slot_history slot repo))"
proof -
  have "mapR (\<lambda>v. version_from_json (ocanon (version_to_json v))) vs = Inr vs" for vs by (induction vs) simp_all
  then show ?thesis by (simp add: rg_list_history_def slot_history_def)
qed

lemma previous_version:
  assumes "champ_ok repo" and "t_get slot (rg_active repo) = Some a" and "re_previous a = Some pv"
  obtains "2 \<le> length (slot_history slot repo)" "a = version_entry (last (slot_history slot repo))"
    "bindR (rg_list_history slot repo) (\<lambda>vs. find_version vs pv) =
       Inr (slot_history slot repo ! (length (slot_history slot repo) - 2))"
proof -
  let ?vs = "slot_history slot repo" let ?p = "?vs ! (length ?vs - 2)"
  have chain: "chain_ok ?vs" using champ_okD(1) [OF assms(1), of slot] by (simp add: slot_ok_def Let_def)
  have ne: "?vs \<noteq> []" and a: "a = version_entry (last ?vs)"
    using active_entry(1) [OF assms(1), of slot] assms(2) by (auto split: if_splits)
  have pv: "cv_previous (last ?vs) = Some pv" using assms(3) a by (simp add: version_entry_def)
  have len: "2 \<le> length ?vs"
    using chain pv ne by (cases "length ?vs" rule: nat.exhaust; cases "length ?vs - 1") (auto simp: chain_ok_def last_conv_nth)
  have lm: "last ?vs = ?vs ! (length ?vs - 1)" using ne by (simp add: last_conv_nth)
  have id: "pv = cv_version_id ?p"
    using chain pv len unfolding lm by (auto simp: chain_ok_def numeral_2_eq_2)
  have mem: "?p \<in> set ?vs" using len by simp
  have uniq: "v = ?p" if v: "v \<in> set ?vs" "cv_version_id v = pv" for v
  proof -
    have ok: "version_ok x \<and> cv_slot x = slot" if "x \<in> set ?vs" for x
      using that champ_okD(2) [OF assms(1)] by (simp add: slot_history_def)
    have "version_id_of (cv_slot v) (cv_revision v) = version_id_of (cv_slot ?p) (cv_revision ?p)"
      using ok [OF v(1)] ok [OF mem] v(2) id by (simp add: version_ok_def)
    then have "cv_revision v = cv_revision ?p"
      using version_id_inject chain_revision [OF chain v(1)] chain_revision [OF chain mem] by fastforce
    moreover obtain i where i: "i < length ?vs" "v = ?vs ! i" using v(1) by (auto simp: in_set_conv_nth)
    moreover have "cv_revision (?vs ! j) = int j + 1" if "j < length ?vs" for j using chain that by (simp add: chain_ok_def)
    ultimately have "i = length ?vs - 2" using len by simp
    then show ?thesis using i(2) by simp
  qed
  let ?srt = "sort_key (\<lambda>v. (cv_revision v, cv_activated_at v, cv_version_id v)) ?vs"
  have "find (\<lambda>v. cv_version_id v = pv) ?srt = Some ?p"
  proof (cases "find (\<lambda>v. cv_version_id v = pv) ?srt")
    case None
    then show ?thesis using mem id by (auto simp: find_None_iff)
  next
    case (Some v)
    then obtain i where i: "i < length ?srt" "v = ?srt ! i" "cv_version_id v = pv" unfolding find_Some_iff by blast
    then have "v \<in> set ?srt" using nth_mem by blast
    with i(3) have "v \<in> set ?vs" "cv_version_id v = pv" by simp_all
    then show ?thesis using Some uniq by simp
  qed
  then show thesis using that len a by (simp add: list_history_eq find_version_def)
qed

lemma version_entry_simps [simp]:
  "re_version_id (version_entry v) = cv_version_id v" "re_revision (version_entry v) = cv_revision v"
  "re_fingerprint (version_entry v) = cv_fingerprint v" "re_strategy_ref (version_entry v) = cv_strategy_ref v"
  "re_slot (version_entry v) = cv_slot v" "re_previous (version_entry v) = cv_previous v"
  by (simp_all add: version_entry_def)

definition rollback_effect :: "rollback_request \<Rightarrow> registry_repo \<Rightarrow> rollback_result \<Rightarrow> registry_repo \<Rightarrow> bool" where
  "rollback_effect q repo x repo' \<longleftrightarrow> (let vs = slot_history (rr_slot q) repo in 2 \<le> length vs \<and>
     (\<exists>v. v = activation_version (restored_activation q (vs ! (length vs - 2))) (Some (version_entry (last vs))) \<and>
       repo' = activated v repo \<and> rs_new_version_id x = cv_version_id v \<and>
       rs_restored_version_id x = cv_version_id (vs ! (length vs - 2)) \<and> rs_status x = PR_ROLLED_BACK))"

lemma rollback_wp:
  assumes "registry_ok (ry_repo s)"
  shows "wp (registry_rollback q)
    (\<lambda>x t. registry_ok (ry_repo t) \<and> rollback_effect q (ry_repo s) x (ry_repo t))
    (\<lambda>e t. registry_ok (ry_repo t)) s"
proof -
  have c: "champ_ok (ry_repo s)" "requests_ok (ry_repo s)" using assms by (simp_all add: registry_ok_def)
  let ?repo = "ry_repo s"
  show ?thesis
  proof (cases "\<exists>a pv. t_get (rr_slot q) (rg_active ?repo) = Some a \<and> re_previous a = Some pv")
    case False
    then show ?thesis
      unfolding registry_rollback_def wp_bind wp_read_active [OF c(1)]
      by (cases "t_get (rr_slot q) (rg_active ?repo)") (auto simp: wp_basic assms split: option.splits)
  next
    case True
    then obtain a pv where a: "t_get (rr_slot q) (rg_active ?repo) = Some a" "re_previous a = Some pv" by blast
    from previous_version [OF c(1) a] have pv: "2 \<le> length (slot_history (rr_slot q) ?repo)"
      "a = version_entry (last (slot_history (rr_slot q) ?repo))"
      "bindR (rg_list_history (rr_slot q) ?repo) (\<lambda>vs. find_version vs pv) =
         Inr (slot_history (rr_slot q) ?repo ! (length (slot_history (rr_slot q) ?repo) - 2))" by blast+
    let ?p = "slot_history (rr_slot q) ?repo ! (length (slot_history (rr_slot q) ?repo) - 2)"
    show ?thesis
      unfolding registry_rollback_def wp_bind wp_read_active [OF c(1)]
      apply (simp add: a wp_bind wp_then wp_ry pv(3))
      apply (rule wp_ry_record)
       apply (rule wp_ry_activate)
          apply (simp_all add: c a restored_activation_def assms)
      apply (rule wp_ry_record)
       apply (simp_all add: wp_ry_increment wp_basic registry_ok_activated c)
      apply (use pv(1) in \<open>simp add: rollback_effect_def Let_def pv(2) restored_activation_def\<close>)
      done
  qed
qed


section \<open>Properties of the service\<close>

text \<open>The calls a registry receives, the evaluation engine's new reports among them.\<close>

datatype registry_cmd =
    RC_Bootstrap string string string string string string
  | RC_Evaluated champion_report
  | RC_Request string string string string string
  | RC_Approve string string string string
  | RC_Reject string string string string
  | RC_Rollback rollback_request

fun registry_step :: "registry_cmd \<Rightarrow> registry_env \<Rightarrow> registry_env" where
  "registry_step (RC_Bootstrap slot sref fp b actor ts) s = snd (registry_bootstrap slot sref fp b actor ts s)"
| "registry_step (RC_Evaluated rep) s = s\<lparr>ry_evals := champion_add_report rep (ry_evals s)\<rparr>"
| "registry_step (RC_Request pid eid actor ts slot) s = snd (registry_request pid eid actor ts slot s)"
| "registry_step (RC_Approve pid actor ts reason) s = snd (registry_approve pid actor ts reason s)"
| "registry_step (RC_Reject pid actor ts reason) s = snd (registry_reject pid actor ts reason s)"
| "registry_step (RC_Rollback q) s = snd (registry_rollback q s)"

definition registry_env_init :: "durable_event list option \<Rightarrow> metric_call list option \<Rightarrow> registry_env" where
  "registry_env_init es ms = \<lparr>env_events = es, env_metrics = ms, ry_repo = registry_repo_init, ry_evals = champion_repo_init\<rparr>"

lemma wp_keep: "wp m Q E s \<Longrightarrow> (\<And>x t. Q x t \<Longrightarrow> I t) \<Longrightarrow> (\<And>e t. E e t \<Longrightarrow> I t) \<Longrightarrow> I (snd (m s))"
  by (auto simp: wp_def split: prod.splits sum.splits)

lemma registry_step_ok:
  assumes "registry_ok (ry_repo s)"
  shows "registry_ok (ry_repo (registry_step c s))"
proof (cases c)
  case (RC_Bootstrap slot sref fp b actor ts)
  show ?thesis unfolding RC_Bootstrap registry_step.simps by (rule wp_keep [OF bootstrap_wp [OF assms]]) blast+
next
  case (RC_Request pid eid actor ts slot)
  show ?thesis unfolding RC_Request registry_step.simps by (rule wp_keep [OF request_wp [OF assms]]) blast+
next
  case (RC_Approve pid actor ts reason)
  show ?thesis unfolding RC_Approve registry_step.simps by (rule wp_keep [OF approve_wp [OF assms]])
next
  case (RC_Reject pid actor ts reason)
  show ?thesis unfolding RC_Reject registry_step.simps by (rule wp_keep [OF reject_wp [OF assms]]) blast+
next
  case (RC_Rollback q)
  show ?thesis unfolding RC_Rollback registry_step.simps by (rule wp_keep [OF rollback_wp [OF assms]]) blast+
qed (simp add: assms)

text \<open>
  C27: after any sequence of calls (evaluations, bootstraps, requests, approvals, rejections and
  rollbacks, each of which may raise), every slot's history holds the revisions 1, 2, ... without a
  gap, each version names the one before it, and the active champion is the newest version.
\<close>

theorem champion_history_invariant:
  "champ_ok (ry_repo (fold registry_step cmds (registry_env_init es ms)))"
proof -
  have "registry_ok (ry_repo (fold registry_step cmds s))" if "registry_ok (ry_repo s)" for s
    using that by (induction cmds arbitrary: s) (auto intro: registry_step_ok)
  then show ?thesis using registry_init_ok by (auto simp: registry_env_init_def registry_ok_def)
qed

text \<open>
  C28: approving a pending promotion promotes exactly the evaluated candidate. If the call returns, the
  stored evaluation is a promotion candidate whose fingerprint differs from that of the champion it
  replaces, the new champion carries that fingerprint and the next revision, and the request is
  recorded as activated.
\<close>

theorem approval_promotes_candidate:
  assumes "registry_ok (ry_repo s)" and "rg_get_request pid (ry_repo s) = Inr r" and "pq_status r = PR_PENDING"
    and "registry_approve pid actor ts reason s = (Inr e, t)"
  shows "\<exists>rep. champion_get_report (pq_evaluation_id r) (ry_evals s) = Inr rep \<and> ch_decision rep = PROMOTION_CANDIDATE \<and>
    re_fingerprint e = ch_challenger_fingerprint rep \<and> re_slot e = pq_slot r \<and>
    t_get (pq_slot r) (rg_active (ry_repo t)) = Some e \<and>
    (case t_get (pq_slot r) (rg_active (ry_repo s)) of
       None \<Rightarrow> re_revision e = 1 \<and> re_previous e = None
     | Some old \<Rightarrow> re_fingerprint old \<noteq> re_fingerprint e \<and> re_revision e = re_revision old + 1 \<and>
         re_previous e = Some (re_version_id old)) \<and>
    t_get pid (rg_requests (ry_repo t)) = Some (pq_evaluation_id r, r\<lparr>pq_status := PR_ACTIVATED\<rparr>)"
proof -
  have pid: "pq_promotion_id r = pid" by (rule get_request_Inr [OF assms(1,2)])
  from wp_Inr [OF approve_pending_wp [OF assms(1,2)] assms(4)] assms(3)
  obtain rep where rep: "champion_get_report (pq_evaluation_id r) (ry_evals s) = Inr rep"
      "approval_effect r rep ts (ry_repo s) e (ry_repo t)" by blast
  then show ?thesis
    using pid by (intro exI [of _ rep])
      (auto simp: approval_effect_def Let_def activation_version_def candidate_activation_def activated_def validate_candidate_def
        bindR_Inr_iff version_entry_def split: option.splits)
qed

text \<open>
  Approval is idempotent. Approving again after a successful approval returns the same champion
  entry and changes nothing at all, neither tables nor events nor metrics.
\<close>

theorem approval_idempotent:
  assumes "registry_ok (ry_repo s)" and "rg_get_request pid (ry_repo s) = Inr r" and "pq_status r = PR_PENDING"
    and "registry_approve pid actor ts reason s = (Inr e, t)"
  shows "registry_approve pid actor2 ts2 reason2 t = (Inr e, t)"
proof -
  note r = get_request_Inr [OF assms(1,2)]
  from wp_Inr [OF approve_pending_wp [OF assms(1,2)] assms(4)] assms(3)
  obtain rep where ok: "registry_ok (ry_repo t)" and eff: "approval_effect r rep ts (ry_repo s) e (ry_repo t)" by blast
  let ?r = "r\<lparr>pq_status := PR_ACTIVATED\<rparr>"
  have "mk_promotion_request ?r = Inr ?r" using replace_status_ok [OF r(3)] by (simp add: replace_request_status_def)
  then have get: "rg_get_request pid (ry_repo t) = Inr ?r"
    using eff r(2) by (simp add: rg_get_request_def approval_effect_def Let_def)
  have "t_get (pq_slot r) (rg_active (ry_repo t)) = Some e"
    using eff by (auto simp: approval_effect_def Let_def activated_def activation_version_def candidate_activation_def)
  then show ?thesis using approve_other [OF ok get] by simp
qed

text \<open>
  A rejected promotion stays rejected. After a rejection an approval of it raises and changes
  nothing, and the rejection itself touches neither the active champions nor the history.
\<close>

theorem rejected_never_activates:
  assumes "registry_ok (ry_repo s)" and "registry_reject pid actor ts reason s = (Inr r, t)"
  shows "rg_active (ry_repo t) = rg_active (ry_repo s) \<and> rg_history (ry_repo t) = rg_history (ry_repo s) \<and>
    (\<exists>e. registry_approve pid actor2 ts2 reason2 t = (Inl e, t))"
proof -
  from wp_Inr [OF reject_wp [OF assms(1)] assms(2)] have ok: "registry_ok (ry_repo t)"
    and eq: "rg_active (ry_repo t) = rg_active (ry_repo s)" "rg_history (ry_repo t) = rg_history (ry_repo s)"
    and row: "t_get pid (rg_requests (ry_repo t)) = Some (pq_evaluation_id r, r)" "pq_status r = PR_REJECTED" by blast+
  have "(pid, pq_evaluation_id r, r) \<in> set (rg_requests (ry_repo t))" using row(1) by (auto simp: t_get_def dest: map_of_SomeD)
  then have "mk_promotion_request r = Inr r" using ok by (auto simp: registry_ok_def requests_ok_def)
  then have "rg_get_request pid (ry_repo t) = Inr r" using row(1) by (simp add: rg_get_request_def)
  from approve_other [OF ok this] show ?thesis using eq row(2) by simp
qed

text \<open>
  A rollback that returns puts the version before the active one back in force, as a new version:
  the slot's history grows by one entry that carries the strategy and fingerprint of the restored
  version and the next revision, and names the version rolled back as its predecessor.
\<close>

theorem rollback_restores_previous:
  assumes "registry_ok (ry_repo s)" and "registry_rollback q s = (Inr x, t)"
  shows "\<exists>vs old cur new. slot_history (rr_slot q) (ry_repo s) = vs @ [old, cur] \<and>
    slot_history (rr_slot q) (ry_repo t) = vs @ [old, cur, new] \<and>
    t_get (rr_slot q) (rg_active (ry_repo t)) = Some (version_entry new) \<and>
    cv_strategy_ref new = cv_strategy_ref old \<and> cv_fingerprint new = cv_fingerprint old \<and>
    cv_revision new = cv_revision cur + 1 \<and> cv_previous new = Some (cv_version_id cur) \<and>
    rs_restored_version_id x = cv_version_id old \<and> rs_new_version_id x = cv_version_id new"
proof -
  let ?vs = "slot_history (rr_slot q) (ry_repo s)"
  from wp_Inr [OF rollback_wp [OF assms(1)] assms(2)] have "rollback_effect q (ry_repo s) x (ry_repo t)" by blast
  then obtain v where len: "2 \<le> length ?vs" and t: "ry_repo t = activated v (ry_repo s)"
    and v: "v = activation_version (restored_activation q (?vs ! (length ?vs - 2))) (Some (version_entry (last ?vs)))"
    and x: "rs_new_version_id x = cv_version_id v" "rs_restored_version_id x = cv_version_id (?vs ! (length ?vs - 2))"
    by (auto simp: rollback_effect_def Let_def)
  obtain us old cur where vs: "?vs = us @ [old, cur]"
    using len by (metis append_Cons append_Nil append_assoc append_butlast_last_id butlast.simps(1) length_0_conv length_append_singleton
        length_butlast less_eq_Suc_le not_less_eq_eq numeral_2_eq_2 zero_le)
  then have "?vs ! (length ?vs - 2) = old" by (simp add: nth_append)
  then have v': "v = activation_version (restored_activation q old) (Some (version_entry cur))" using v vs by simp
  then have slot: "cv_slot v = rr_slot q" by (simp add: activation_version_def Let_def restored_activation_def)
  have "slot_history (rr_slot q) (ry_repo t) = us @ [old, cur, v]" by (simp add: t slot_history_activated slot vs)
  moreover have "t_get (rr_slot q) (rg_active (ry_repo t)) = Some (version_entry v)" by (simp add: t activated_def slot)
  moreover have "cv_strategy_ref v = cv_strategy_ref old" "cv_fingerprint v = cv_fingerprint old"
    "cv_revision v = cv_revision cur + 1" "cv_previous v = Some (cv_version_id cur)"
    by (simp_all add: v' activation_version_def restored_activation_def Let_def)
  ultimately show ?thesis using vs x \<open>?vs ! (length ?vs - 2) = old\<close> by auto
qed


section \<open>Witnesses and observed behaviour\<close>

definition sample_candidate_report :: champion_report where
  "sample_candidate_report = \<lparr>ch_evaluation_id = ''e1'', ch_decision = PROMOTION_CANDIDATE, ch_policy_version = ''p'', ch_score = 100,
     ch_champion_backtest_id = ''run:a'', ch_challenger_backtest_id = ''run:b'', ch_validation_id = ''v1'',
     ch_champion_fingerprint = ''fa'', ch_challenger_fingerprint = ''fb'', ch_comparisons = [], ch_warnings = [],
     ch_failures = [], ch_generated_at = ''t'', ch_rationale = ''r''\<rparr>"

definition sample_champions :: registry_env where
  "sample_champions = fold registry_step
     [RC_Bootstrap ''main'' ''strategy:a'' ''fa'' ''run:a'' ''actor'' ''2026-01-01T00:00:00Z'',
      RC_Evaluated sample_candidate_report,
      RC_Request ''p1'' ''e1'' ''actor'' ''2026-01-01T00:00:00Z'' ''main''] (registry_env_init None None)"

definition is_Inr :: "'a res \<Rightarrow> bool" where
  "is_Inr x = (case x of Inr _ \<Rightarrow> True | Inl _ \<Rightarrow> False)"

lemma sample_champions_ok: "registry_ok (ry_repo sample_champions)"
  unfolding sample_champions_def
  by (simp del: registry_step.simps add: registry_step_ok registry_env_init_def registry_init_ok)

lemma sample_champions_request:
  "case rg_get_request ''p1'' (ry_repo sample_champions) of Inr r \<Rightarrow> pq_status r = PR_PENDING | Inl _ \<Rightarrow> False"
  by code_simp

lemma sample_champions_approve:
  "is_Inr (fst (registry_approve ''p1'' ''actor'' ''2026-01-02T00:00:00Z'' ''ok'' sample_champions))"
  by code_simp


lemma is_InrE: "is_Inr (fst p) \<Longrightarrow> (\<And>x t. p = (Inr x, t) \<Longrightarrow> thesis) \<Longrightarrow> thesis"
  by (cases p; cases "fst p") (auto simp: is_Inr_def)

lemma sample_champions_facts:
  obtains r e t where "rg_get_request ''p1'' (ry_repo sample_champions) = Inr r" "pq_status r = PR_PENDING"
    "registry_approve ''p1'' ''actor'' ''2026-01-02T00:00:00Z'' ''ok'' sample_champions = (Inr e, t)"
proof -
  obtain e t where "registry_approve ''p1'' ''actor'' ''2026-01-02T00:00:00Z'' ''ok'' sample_champions = (Inr e, t)"
    using sample_champions_approve by (rule is_InrE)
  moreover obtain r where "rg_get_request ''p1'' (ry_repo sample_champions) = Inr r" "pq_status r = PR_PENDING"
    using sample_champions_request by (auto split: sum.splits)
  ultimately show thesis by (rule that [rotated 2])
qed

theorem approval_promotes_candidate_witness:
  "\<exists>e t. registry_approve ''p1'' ''actor'' ''2026-01-02T00:00:00Z'' ''ok'' sample_champions = (Inr e, t) \<and>
    (\<exists>rep :: champion_report. ch_decision rep = PROMOTION_CANDIDATE \<and> re_fingerprint e = ch_challenger_fingerprint rep)"
proof -
  obtain r e t where a: "rg_get_request ''p1'' (ry_repo sample_champions) = Inr r" "pq_status r = PR_PENDING"
    "registry_approve ''p1'' ''actor'' ''2026-01-02T00:00:00Z'' ''ok'' sample_champions = (Inr e, t)" by (rule sample_champions_facts)
  from approval_promotes_candidate [OF sample_champions_ok a] obtain rep :: champion_report
    where "ch_decision rep = PROMOTION_CANDIDATE" "re_fingerprint e = ch_challenger_fingerprint rep" by auto
  with a(3) show ?thesis by (intro exI conjI)
qed

theorem approval_idempotent_witness:
  "\<exists>e t. registry_approve ''p1'' ''actor'' ''2026-01-02T00:00:00Z'' ''ok'' sample_champions = (Inr e, t) \<and>
    registry_approve ''p1'' ''other'' ''2026-01-03T00:00:00Z'' ''again'' t = (Inr e, t)"
proof -
  obtain r e t where a: "rg_get_request ''p1'' (ry_repo sample_champions) = Inr r" "pq_status r = PR_PENDING"
    "registry_approve ''p1'' ''actor'' ''2026-01-02T00:00:00Z'' ''ok'' sample_champions = (Inr e, t)" by (rule sample_champions_facts)
  show ?thesis by (intro exI conjI) (rule a(3), rule approval_idempotent [OF sample_champions_ok a])
qed

lemma sample_champions_reject:
  "is_Inr (fst (registry_reject ''p1'' ''actor'' ''2026-01-02T00:00:00Z'' ''no'' sample_champions))"
  by code_simp

theorem rejected_never_activates_witness:
  "\<exists>e t. registry_approve ''p1'' ''actor'' ''2026-01-03T00:00:00Z'' ''ok'' t = (Inl e, t)"
proof -
  obtain r t where "registry_reject ''p1'' ''actor'' ''2026-01-02T00:00:00Z'' ''no'' sample_champions = (Inr r, t)"
    using sample_champions_reject by (rule is_InrE)
  from rejected_never_activates [OF sample_champions_ok this, of "''actor''" "''2026-01-03T00:00:00Z''" "''ok''"]
  show ?thesis by auto
qed

definition sample_promoted :: registry_env where
  "sample_promoted = registry_step (RC_Approve ''p1'' ''actor'' ''2026-01-02T00:00:00Z'' ''ok'') sample_champions"

definition sample_rollback :: rollback_request where
  "sample_rollback = \<lparr>rr_rollback_id = ''rb1'', rr_slot = ''main'', rr_actor_ref = ''actor'', rr_requested_at = ''2026-01-03T00:00:00Z''\<rparr>"

lemma sample_rollback_run: "is_Inr (fst (registry_rollback sample_rollback sample_promoted))"
  by code_simp

lemma sample_promoted_ok: "registry_ok (ry_repo sample_promoted)"
  unfolding sample_promoted_def using sample_champions_ok by (rule registry_step_ok)

theorem rollback_restores_previous_witness:
  "\<exists>(old :: champion_version) (new :: champion_version) (t :: registry_env). t_get ''main'' (rg_active (ry_repo t)) = Some (version_entry new) \<and> cv_fingerprint new = cv_fingerprint old"
proof -
  obtain x t where "registry_rollback sample_rollback sample_promoted = (Inr x, t)"
    using sample_rollback_run by (rule is_InrE)
  from rollback_restores_previous [OF sample_promoted_ok this] obtain old new :: champion_version
    where "t_get (rr_slot sample_rollback) (rg_active (ry_repo t)) = Some (version_entry new)" "cv_fingerprint new = cv_fingerprint old"
    by auto
  moreover have "rr_slot sample_rollback = ''main''" by (simp add: sample_rollback_def)
  ultimately show ?thesis by auto
qed

text \<open>
  Observed behaviour: a second rollback undoes the first. The predecessor of the restored champion is the
  version that was rolled back, so rolling back twice alternates between two strategies and never
  reaches an older one.
\<close>

lemma rollback_twice_returns:
  assumes "registry_ok (ry_repo s)" and "registry_rollback q s = (Inr x, t)" and "registry_rollback q t = (Inr y, u)"
  shows "\<exists>old new. t_get (rr_slot q) (rg_active (ry_repo s)) = Some old \<and> t_get (rr_slot q) (rg_active (ry_repo u)) = Some new \<and>
    re_strategy_ref new = re_strategy_ref old \<and> re_fingerprint new = re_fingerprint old"
proof -
  let ?vs = "slot_history (rr_slot q) (ry_repo s)"
  from wp_Inr [OF rollback_wp [OF assms(1)] assms(2)] have ok: "registry_ok (ry_repo t)"
    and e1: "rollback_effect q (ry_repo s) x (ry_repo t)" by blast+
  from wp_Inr [OF rollback_wp [OF ok] assms(3)] have e2: "rollback_effect q (ry_repo t) y (ry_repo u)" by blast
  obtain v where len: "2 \<le> length ?vs" and t: "ry_repo t = activated v (ry_repo s)" and slot: "cv_slot v = rr_slot q"
    using e1 by (auto simp: rollback_effect_def Let_def activation_version_def restored_activation_def)
  have vs: "slot_history (rr_slot q) (ry_repo t) = ?vs @ [v]" by (simp add: t slot_history_activated slot)
  have "(?vs @ [v]) ! (length (?vs @ [v]) - 2) = last ?vs"
    using len by (cases ?vs rule: rev_cases) (auto simp: nth_append)
  then have u: "ry_repo u = activated (activation_version (restored_activation q (last ?vs)) (Some (version_entry v))) (ry_repo t)"
    using e2 vs by (auto simp: rollback_effect_def Let_def)
  have old: "t_get (rr_slot q) (rg_active (ry_repo s)) = Some (version_entry (last ?vs))"
    using active_entry(1) [of "ry_repo s" "rr_slot q"] assms(1) len by (auto simp: registry_ok_def)
  show ?thesis
    by (simp add: old u activated_def activation_version_def restored_activation_def Let_def)
qed

end
