(* ===== verification/Trading.thy ===== *)
theory Trading
  imports Env
begin

text \<open>
  \<open>gaon/adapters/trading.py\<close>: the broker-free trading boundary. Data and enumerations, the risk
  policy, the fake and paper adapters, the request and result repository, and the execution service
  over an adapter interface. The lemmas show that live intents are always blocked, that the position
  limit holds across every sequence of paper orders, and what a duplicate request does.
\<close>

section \<open>Data\<close>

datatype command_status = CMD_PROPOSED | CMD_VALIDATED | CMD_APPROVED | CMD_EXECUTED | CMD_CANCELLED | CMD_REJECTED

datatype trading_intent = ANALYZE | SIMULATE_BUY | SIMULATE_SELL | CANCEL_SIMULATED_ORDER | LIVE_BUY | LIVE_SELL

datatype trading_action = ACT_ANALYZE | ACT_SIMULATE_ORDER | ACT_CANCEL_SIMULATED_ORDER | ACT_BLOCK_LIVE_EXECUTION

datatype order_side = BUY | SELL
datatype order_type = MARKET | LIMIT

datatype trading_status = TS_CREATED | TS_VALIDATED | TS_REJECTED | TS_BLOCKED | TS_SIMULATED | TS_CANCELLED | TS_FAILED

fun intent_value :: "trading_intent \<Rightarrow> string" where
  "intent_value ANALYZE = ''analyze''"
| "intent_value SIMULATE_BUY = ''simulate_buy''"
| "intent_value SIMULATE_SELL = ''simulate_sell''"
| "intent_value CANCEL_SIMULATED_ORDER = ''cancel_simulated_order''"
| "intent_value LIVE_BUY = ''live_buy''"
| "intent_value LIVE_SELL = ''live_sell''"

fun action_value :: "trading_action \<Rightarrow> string" where
  "action_value ACT_ANALYZE = ''analyze''"
| "action_value ACT_SIMULATE_ORDER = ''simulate_order''"
| "action_value ACT_CANCEL_SIMULATED_ORDER = ''cancel_simulated_order''"
| "action_value ACT_BLOCK_LIVE_EXECUTION = ''block_live_execution''"

fun trading_status_value :: "trading_status \<Rightarrow> string" where
  "trading_status_value TS_CREATED = ''created''"
| "trading_status_value TS_VALIDATED = ''validated''"
| "trading_status_value TS_REJECTED = ''rejected''"
| "trading_status_value TS_BLOCKED = ''blocked''"
| "trading_status_value TS_SIMULATED = ''simulated''"
| "trading_status_value TS_CANCELLED = ''cancelled''"
| "trading_status_value TS_FAILED = ''failed''"

definition trading_status_of :: "string \<Rightarrow> trading_status res" where
  "trading_status_of s = ofOption (ValueError ''not a valid TradingStatus'') (find (\<lambda>m. trading_status_value m = s)
     [TS_CREATED, TS_VALIDATED, TS_REJECTED, TS_BLOCKED, TS_SIMULATED, TS_CANCELLED, TS_FAILED])"

definition trading_action_of :: "string \<Rightarrow> trading_action res" where
  "trading_action_of s = ofOption (ValueError ''not a valid TradingAction'') (find (\<lambda>m. action_value m = s)
     [ACT_ANALYZE, ACT_SIMULATE_ORDER, ACT_CANCEL_SIMULATED_ORDER, ACT_BLOCK_LIVE_EXECUTION])"

lemma trading_enum_roundtrip [simp]:
  "trading_status_of (trading_status_value st) = Inr st"
  "trading_action_of (action_value a) = Inr a"
  subgoal by (cases st) (simp_all add: trading_status_of_def)
  subgoal by (cases a) (simp_all add: trading_action_of_def)
  done

record account_snapshot =
  as_account_ref :: string
  as_cash :: pyfloat
  as_equity :: pyfloat
  as_currency :: string
  as_as_of :: string

definition mk_account_snapshot :: "string \<Rightarrow> pyfloat \<Rightarrow> pyfloat \<Rightarrow> string \<Rightarrow> string \<Rightarrow> account_snapshot res" where
  "mk_account_snapshot ref cash equity currency as_of =
    bindR (validate_utc as_of) (\<lambda>_.
    bindR (guardR (\<not> (flt cash (Fin 0) \<or> flt equity (Fin 0))) (ValueError ''account snapshot values must be non-negative'')) (\<lambda>_.
    Inr \<lparr>as_account_ref = ref, as_cash = cash, as_equity = equity, as_currency = currency, as_as_of = as_of\<rparr>))"

record position_snapshot =
  ps_symbol :: string
  ps_quantity :: pyfloat
  ps_average_price :: pyfloat
  ps_market_value :: pyfloat
  ps_as_of :: string

definition mk_position_snapshot :: "string \<Rightarrow> pyfloat \<Rightarrow> pyfloat \<Rightarrow> pyfloat \<Rightarrow> string \<Rightarrow> position_snapshot res" where
  "mk_position_snapshot symbol quantity price value as_of =
    bindR (validate_symbol symbol) (\<lambda>_. bindR (validate_utc as_of) (\<lambda>_.
    Inr \<lparr>ps_symbol = symbol, ps_quantity = quantity, ps_average_price = price, ps_market_value = value, ps_as_of = as_of\<rparr>))"

record trading_request =
  tq_request_id :: string
  tq_intent :: trading_intent
  tq_symbol :: string
  tq_side :: "order_side option"
  tq_quantity :: pyfloat
  tq_order_type :: order_type
  tq_limit_price :: "pyfloat option"
  tq_actor_ref :: string
  tq_created_at :: string
  tq_simulation :: bool
  tq_approval_ref :: "string option"
  tq_idempotency_key :: "string option"

text \<open>\<open>TradingRequest.__post_init__\<close>.\<close>

definition check_trading_request :: "trading_request \<Rightarrow> unit res" where
  "check_trading_request r =
    bindR (guardR (tq_request_id r \<noteq> [] \<and> tq_actor_ref r \<noteq> []) (ValueError ''trading request requires id and actor'')) (\<lambda>_.
    bindR (validate_utc (tq_created_at r)) (\<lambda>_.
    bindR (if tq_symbol r \<noteq> [] then validate_symbol (tq_symbol r) else Inr ()) (\<lambda>_.
    bindR (guardR (\<not> flt (tq_quantity r) (Fin 0)) (ValueError ''trading request quantity cannot be negative'')) (\<lambda>_.
    (case tq_limit_price r of
       Some p \<Rightarrow> guardR (\<not> fle p (Fin 0)) (ValueError ''limit price must be positive'')
     | None \<Rightarrow> Inr ())))))"

definition mk_trading_request :: "trading_request \<Rightarrow> trading_request res" where
  "mk_trading_request r = bindR (check_trading_request r) (\<lambda>_. Inr r)"

record trading_decision =
  td_request_id :: string
  td_status :: trading_status
  td_action :: trading_action
  td_reasons :: "string list"
  td_approval_required :: bool

record trading_result =
  tx_result_id :: string
  tx_request_id :: string
  tx_status :: trading_status
  tx_message :: string
  tx_account :: "account_snapshot option"
  tx_positions :: "position_snapshot list"
  tx_decision :: trading_decision
  tx_notional :: pyfloat
  tx_created_at :: string

definition limit_or_zero :: "pyfloat option \<Rightarrow> pyfloat" where
  "limit_or_zero p = (case p of Some x \<Rightarrow> if ftrue x then x else Fin 0 | None \<Rightarrow> Fin 0)"

text \<open>\<open>_notional\<close>, \<open>_action_for_intent\<close> and \<open>_trading_result\<close>.\<close>

definition notional :: "trading_request \<Rightarrow> pyfloat" where
  "notional r = fmul (tq_quantity r) (limit_or_zero (tq_limit_price r))"

fun action_for_intent :: "trading_intent \<Rightarrow> trading_action" where
  "action_for_intent ANALYZE = ACT_ANALYZE"
| "action_for_intent CANCEL_SIMULATED_ORDER = ACT_CANCEL_SIMULATED_ORDER"
| "action_for_intent LIVE_BUY = ACT_BLOCK_LIVE_EXECUTION"
| "action_for_intent LIVE_SELL = ACT_BLOCK_LIVE_EXECUTION"
| "action_for_intent _ = ACT_SIMULATE_ORDER"

definition mk_trading_result :: "trading_request \<Rightarrow> trading_status \<Rightarrow> string \<Rightarrow> account_snapshot option \<Rightarrow>
    position_snapshot list \<Rightarrow> trading_decision \<Rightarrow> pyfloat \<Rightarrow> trading_result res" where
  "mk_trading_result r st msg account positions decision value =
    bindR (validate_utc (tq_created_at r)) (\<lambda>_.
    Inr \<lparr>tx_result_id = ''trading-result:'' @ tq_request_id r, tx_request_id = tq_request_id r, tx_status = st,
         tx_message = msg, tx_account = account, tx_positions = positions, tx_decision = decision,
         tx_notional = value, tx_created_at = tq_created_at r\<rparr>)"

definition build_trading_request :: "string \<Rightarrow> trading_intent \<Rightarrow> string \<Rightarrow> pyfloat \<Rightarrow> pyfloat option \<Rightarrow> string \<Rightarrow>
    string \<Rightarrow> string option \<Rightarrow> trading_request res" where
  "build_trading_request request_id intent symbol quantity price actor_ref created_at key =
    mk_trading_request \<lparr>tq_request_id = request_id, tq_intent = intent, tq_symbol = symbol,
      tq_side = (if intent = SIMULATE_BUY \<or> intent = LIVE_BUY then Some BUY
                 else if intent = SIMULATE_SELL \<or> intent = LIVE_SELL then Some SELL else None),
      tq_quantity = quantity,
      tq_order_type = (case price of Some p \<Rightarrow> if ftrue p then LIMIT else MARKET | None \<Rightarrow> MARKET),
      tq_limit_price = price, tq_actor_ref = actor_ref, tq_created_at = created_at,
      tq_simulation = (intent \<noteq> LIVE_BUY \<and> intent \<noteq> LIVE_SELL), tq_approval_ref = None,
      tq_idempotency_key = key\<rparr>"

section \<open>Risk policy\<close>

record trading_policy =
  tp_max_notional :: pyfloat
  tp_max_position_quantity :: pyfloat
  tp_allowed_order_types :: "order_type list"
  tp_live_execution_enabled :: bool
  tp_adapter_enabled :: bool

definition trading_policy_default :: trading_policy where
  "trading_policy_default = \<lparr>tp_max_notional = Fin 1000000, tp_max_position_quantity = Fin 100,
     tp_allowed_order_types = [MARKET, LIMIT], tp_live_execution_enabled = False, tp_adapter_enabled = True\<rparr>"

definition is_live_intent :: "trading_intent \<Rightarrow> bool" where
  "is_live_intent i \<longleftrightarrow> i = LIVE_BUY \<or> i = LIVE_SELL"

definition is_simulated_trade :: "trading_intent \<Rightarrow> bool" where
  "is_simulated_trade i \<longleftrightarrow> i = SIMULATE_BUY \<or> i = SIMULATE_SELL"

text \<open>The quantity after the order: buying adds, anything else subtracts and stops at zero.\<close>

definition projected_quantity :: "pyfloat \<Rightarrow> trading_request \<Rightarrow> pyfloat" where
  "projected_quantity current r =
     (if tq_side r = Some BUY then fadd current (tq_quantity r) else fmax (Fin 0) (fsub current (tq_quantity r)))"

definition current_quantity :: "position_snapshot list \<Rightarrow> string \<Rightarrow> pyfloat" where
  "current_quantity positions symbol = fsum (map ps_quantity (filter (\<lambda>p. ps_symbol p = symbol) positions))"

definition reason :: "bool \<Rightarrow> string \<Rightarrow> string list" where
  "reason b text = (if b then [text] else [])"

definition policy_reasons :: "trading_policy \<Rightarrow> trading_request \<Rightarrow> account_snapshot \<Rightarrow> position_snapshot list \<Rightarrow> string list \<Rightarrow> string list" where
  "policy_reasons pol r account positions seen =
     reason (\<not> tp_adapter_enabled pol) ''trading adapter is disabled'' @
     reason (is_live_intent (tq_intent r) \<or> \<not> tq_simulation r) ''live trading is not implemented'' @
     reason (tq_order_type r \<notin> set (tp_allowed_order_types pol)) ''unsupported order type'' @
     reason (is_simulated_trade (tq_intent r) \<and> fle (tq_quantity r) (Fin 0)) ''quantity must be positive'' @
     (if tq_symbol r \<noteq> [] then reason (\<not> symbol_ok (tq_symbol r)) ''invalid symbol''
      else reason (tq_intent r \<noteq> ANALYZE) ''symbol is required'') @
     reason (fgt (notional r) (tp_max_notional pol)) ''max notional exceeded'' @
     reason (fgt (projected_quantity (current_quantity positions (tq_symbol r)) r) (tp_max_position_quantity pol))
       ''max position limit exceeded'' @
     reason (case tq_idempotency_key r of Some k \<Rightarrow> k \<noteq> [] \<and> k \<in> set seen | None \<Rightarrow> False) ''duplicate trading request'' @
     reason (as_currency account = []) ''account currency is required''"

definition policy_validate :: "trading_policy \<Rightarrow> trading_request \<Rightarrow> account_snapshot \<Rightarrow> position_snapshot list \<Rightarrow> string list \<Rightarrow> trading_decision" where
  "policy_validate pol r account positions seen =
    (let reasons = policy_reasons pol r account positions seen;
         status = (if reasons \<noteq> [] then TS_REJECTED else TS_VALIDATED);
         action = (if ''live trading is not implemented'' \<in> set reasons then ACT_BLOCK_LIVE_EXECUTION
                   else action_for_intent (tq_intent r))
     in \<lparr>td_request_id = tq_request_id r, td_status = status, td_action = action, td_reasons = reasons,
         td_approval_required = (reasons \<noteq> [] \<and> action = ACT_BLOCK_LIVE_EXECUTION)\<rparr>)"

section \<open>The paper adapter\<close>

record paper_adapter =
  pa_enabled :: bool
  pa_fail_simulation :: bool
  pa_account :: account_snapshot
  pa_positions :: "string \<rightharpoonup> position_snapshot"
  pa_symbols :: "string list"
  pa_keys :: "string list"

text \<open>\<open>pa_symbols\<close> lists the keys of the position dictionary, \<open>pa_keys\<close> the seen idempotency keys.\<close>

definition paper_account :: account_snapshot where
  "paper_account = \<lparr>as_account_ref = ''paper-account'', as_cash = Fin 1000000, as_equity = Fin 1000000,
     as_currency = ''KRW'', as_as_of = ''2026-07-17T00:00:00Z''\<rparr>"

definition paper_init :: "bool \<Rightarrow> bool \<Rightarrow> paper_adapter" where
  "paper_init enabled fail = \<lparr>pa_enabled = enabled, pa_fail_simulation = fail, pa_account = paper_account,
     pa_positions = Map.empty, pa_symbols = [], pa_keys = []\<rparr>"

definition paper_get_positions :: "paper_adapter \<Rightarrow> position_snapshot list" where
  "paper_get_positions a = map (\<lambda>s. the (pa_positions a s)) (sort (pa_symbols a))"

definition paper_validate_request :: "trading_request \<Rightarrow> trading_policy \<Rightarrow> paper_adapter \<Rightarrow> trading_decision" where
  "paper_validate_request r pol a =
     policy_validate (pol\<lparr>tp_adapter_enabled := tp_adapter_enabled pol \<and> pa_enabled a\<rparr>) r (pa_account a)
       (paper_get_positions a) (pa_keys a)"

definition paper_next_quantity :: "trading_request \<Rightarrow> paper_adapter \<Rightarrow> pyfloat" where
  "paper_next_quantity r a =
     projected_quantity (case pa_positions a (tq_symbol r) of Some p \<Rightarrow> ps_quantity p | None \<Rightarrow> Fin 0) r"

definition paper_remember_key :: "trading_request \<Rightarrow> paper_adapter \<Rightarrow> paper_adapter" where
  "paper_remember_key r a = (case tq_idempotency_key r of
      Some k \<Rightarrow> if k \<noteq> [] then a\<lparr>pa_keys := List.insert k (pa_keys a)\<rparr> else a | None \<Rightarrow> a)"

definition paper_move_position :: "trading_request \<Rightarrow> (paper_adapter, unit) opr" where
  "paper_move_position r = (\<lambda>a.
     if is_simulated_trade (tq_intent r) \<and> tq_symbol r \<noteq> [] then
       let q = paper_next_quantity r a; price = limit_or_zero (tq_limit_price r) in
       (case mk_position_snapshot (tq_symbol r) q price (fmul q price) (tq_created_at r) of
          Inl e \<Rightarrow> (Inl e, a)
        | Inr p \<Rightarrow> (Inr (), a\<lparr>pa_positions := (pa_positions a)(tq_symbol r \<mapsto> p),
                            pa_symbols := List.insert (tq_symbol r) (pa_symbols a)\<rparr>))
     else (Inr (), a))"

definition simulated_decision :: "trading_request \<Rightarrow> trading_decision" where
  "simulated_decision r = \<lparr>td_request_id = tq_request_id r, td_status = TS_SIMULATED, td_action = ACT_SIMULATE_ORDER,
     td_reasons = [], td_approval_required = False\<rparr>"

definition cancelled_decision :: "trading_request \<Rightarrow> trading_decision" where
  "cancelled_decision r = \<lparr>td_request_id = tq_request_id r, td_status = TS_CANCELLED,
     td_action = ACT_CANCEL_SIMULATED_ORDER, td_reasons = [], td_approval_required = False\<rparr>"

definition paper_simulate_order :: "trading_request \<Rightarrow> (paper_adapter, trading_result) opr" where
  "paper_simulate_order r =
    bindO (getO (\<lambda>a. (pa_fail_simulation a, pa_enabled a))) (\<lambda>(fail, enabled).
    if fail then raiseO (RuntimeError ''paper trading simulation failed'')
    else if \<not> enabled then
      bindO (getO (\<lambda>a. mk_trading_result r TS_REJECTED ''paper adapter disabled'' (Some (pa_account a)) (paper_get_positions a)
        \<lparr>td_request_id = tq_request_id r, td_status = TS_REJECTED, td_action = ACT_SIMULATE_ORDER,
         td_reasons = [''trading adapter is disabled''], td_approval_required = False\<rparr> (notional r))) liftO
    else thenO (modO (paper_remember_key r)) (thenO (paper_move_position r)
      (bindO (getO (\<lambda>a. mk_trading_result r TS_SIMULATED ''paper simulation completed; no live order was placed''
        (Some (pa_account a)) (paper_get_positions a) (simulated_decision r) (notional r))) liftO)))"

definition paper_cancel_simulated_order :: "trading_request \<Rightarrow> (paper_adapter, trading_result) opr" where
  "paper_cancel_simulated_order r =
    bindO (getO (\<lambda>a. mk_trading_result r TS_CANCELLED ''simulated order cancelled; no live order was placed''
      (Some (pa_account a)) (paper_get_positions a) (cancelled_decision r) (notional r))) liftO"

definition paper_health_check :: "paper_adapter \<Rightarrow> bool \<times> string" where
  "paper_health_check a = (pa_enabled a, if pa_enabled a then ''paper trading adapter ready; live trading disabled''
     else ''paper trading adapter disabled'')"

section \<open>The fake adapter and its order commands\<close>

record order_command =
  oc_command_id :: string
  oc_symbol :: string
  oc_side :: string
  oc_quantity :: pyfloat
  oc_limit_price :: "pyfloat option"
  oc_status :: command_status
  oc_proposed_by :: string
  oc_created_at :: string
  oc_approval_ref :: "string option"
  oc_rejection_reason :: "string option"

record risk_gate =
  rg_max_holdings :: int
  rg_max_order_value :: pyfloat
  rg_daily_loss_limit :: pyfloat
  rg_duplicate_order_prevention :: bool
  rg_market_hours_required :: bool
  rg_emergency_stop :: bool

text \<open>
  A command object is a value with an identity (a natural number), because \<open>validate_order\<close> compares
  identities; the identity of a new object made by \<open>replace\<close> is an argument.
\<close>

type_synonym command_object = "nat \<times> order_command"

record fake_adapter =
  fa_execution_enabled :: bool
  fa_market_open :: bool
  fa_commands :: "string \<rightharpoonup> command_object"

definition fake_adapter_init :: "bool \<Rightarrow> bool \<Rightarrow> fake_adapter" where
  "fake_adapter_init execution_enabled market_open =
     \<lparr>fa_execution_enabled = execution_enabled, fa_market_open = market_open, fa_commands = Map.empty\<rparr>"

definition store_command :: "command_object \<Rightarrow> fake_adapter \<Rightarrow> fake_adapter" where
  "store_command c a = a\<lparr>fa_commands := (fa_commands a)(oc_command_id (snd c) \<mapsto> c)\<rparr>"

definition propose_order :: "command_object \<Rightarrow> (fake_adapter, command_object) opr" where
  "propose_order c =
    (if oc_status (snd c) \<noteq> CMD_PROPOSED then raiseO (ValueError ''order command must start as proposed'')
     else thenO (modO (store_command c)) (retO c))"

definition validate_order :: "command_object \<Rightarrow> risk_gate \<Rightarrow> fake_adapter \<Rightarrow> bool \<times> string list" where
  "validate_order c gate a =
    (let cmd = snd c;
         value = fmul (oc_quantity cmd) (limit_or_zero (oc_limit_price cmd));
         reasons =
           reason (rg_emergency_stop gate) ''emergency stop enabled'' @
           reason (fle (oc_quantity cmd) (Fin 0)) ''quantity must be positive'' @
           reason (fgt value (rg_max_order_value gate)) ''max order value exceeded'' @
           reason (rg_market_hours_required gate \<and> \<not> fa_market_open a) ''market is closed'' @
           reason (rg_duplicate_order_prevention gate \<and>
             (case fa_commands a (oc_command_id cmd) of Some (oid, _) \<Rightarrow> oid \<noteq> fst c | None \<Rightarrow> False))
             ''duplicate order command''
     in (reasons = [], reasons))"

definition approve_order :: "nat \<Rightarrow> command_object \<Rightarrow> string \<Rightarrow> (fake_adapter, command_object) opr" where
  "approve_order fresh c approval_ref =
    (if oc_status (snd c) \<noteq> CMD_PROPOSED then raiseO (ValueError ''only proposed commands can be approved'')
     else let c' = (fresh, (snd c)\<lparr>oc_status := CMD_APPROVED, oc_approval_ref := Some approval_ref\<rparr>)
          in thenO (modO (store_command c')) (retO c'))"

definition execute_order :: "nat \<Rightarrow> command_object \<Rightarrow> (fake_adapter, command_object) opr" where
  "execute_order fresh c =
    bindO (getO fa_execution_enabled) (\<lambda>enabled.
    if \<not> enabled then raiseO (PermissionError ''trading execution is disabled'')
    else if oc_status (snd c) \<noteq> CMD_APPROVED \<or> oc_approval_ref (snd c) = None \<or> oc_approval_ref (snd c) = Some []
      then raiseO (PermissionError ''approved command with approval_ref is required'')
    else let c' = (fresh, (snd c)\<lparr>oc_status := CMD_EXECUTED\<rparr>) in thenO (modO (store_command c')) (retO c'))"

definition cancel_order :: "nat \<Rightarrow> command_object \<Rightarrow> string \<Rightarrow> (fake_adapter, command_object) opr" where
  "cancel_order fresh c why =
    (let c' = (fresh, (snd c)\<lparr>oc_status := CMD_CANCELLED, oc_rejection_reason := Some why\<rparr>)
     in thenO (modO (store_command c')) (retO c'))"

section \<open>Repository\<close>

definition account_to_json :: "account_snapshot \<Rightarrow> json" where
  "account_to_json a = JObj [(''account_ref'', JStr (as_account_ref a)), (''cash'', JFloat (as_cash a)),
     (''equity'', JFloat (as_equity a)), (''currency'', JStr (as_currency a)), (''as_of'', JStr (as_as_of a))]"

definition position_to_json :: "position_snapshot \<Rightarrow> json" where
  "position_to_json p = JObj [(''symbol'', JStr (ps_symbol p)), (''quantity'', JFloat (ps_quantity p)),
     (''average_price'', JFloat (ps_average_price p)), (''market_value'', JFloat (ps_market_value p)),
     (''as_of'', JStr (ps_as_of p))]"

definition trading_result_to_json :: "trading_result \<Rightarrow> obj" where
  "trading_result_to_json r = [(''result_id'', JStr (tx_result_id r)), (''request_id'', JStr (tx_request_id r)),
     (''status'', JStr (trading_status_value (tx_status r))), (''message'', JStr (tx_message r)),
     (''account'', case tx_account r of Some a \<Rightarrow> account_to_json a | None \<Rightarrow> JNull),
     (''positions'', JArr (map position_to_json (tx_positions r))),
     (''decision'', JObj [(''request_id'', JStr (td_request_id (tx_decision r))),
        (''status'', JStr (trading_status_value (td_status (tx_decision r)))),
        (''action'', JStr (action_value (td_action (tx_decision r)))),
        (''reasons'', jstrs (td_reasons (tx_decision r))),
        (''approval_required'', JBool (td_approval_required (tx_decision r)))]),
     (''notional'', JFloat (tx_notional r)), (''created_at'', JStr (tx_created_at r))]"

text \<open>
  Typed reads of a stored payload. The table holds only what \<open>add_result\<close> wrote; a value of another
  type would be a \<open>TypeError\<close> of the constructor or of its checks.
\<close>

definition account_from_json :: "obj \<Rightarrow> account_snapshot res" where
  "account_from_json o' = bindR (bindR (jreq o' ''account_ref'') need_str) (\<lambda>ref.
     bindR (bindR (jreq o' ''cash'') need_float) (\<lambda>cash. bindR (bindR (jreq o' ''equity'') need_float) (\<lambda>equity.
     bindR (bindR (jreq o' ''currency'') need_str) (\<lambda>cur. bindR (bindR (jreq o' ''as_of'') need_str) (\<lambda>as_of.
     mk_account_snapshot ref cash equity cur as_of)))))"

definition position_from_json :: "json \<Rightarrow> position_snapshot res" where
  "position_from_json j = bindR (need_obj j) (\<lambda>o'. bindR (bindR (jreq o' ''symbol'') need_str) (\<lambda>sy.
     bindR (bindR (jreq o' ''quantity'') need_float) (\<lambda>q. bindR (bindR (jreq o' ''average_price'') need_float) (\<lambda>p.
     bindR (bindR (jreq o' ''market_value'') need_float) (\<lambda>v. bindR (bindR (jreq o' ''as_of'') need_str) (\<lambda>as_of.
     mk_position_snapshot sy q p v as_of))))))"

definition trading_result_from_json :: "obj \<Rightarrow> trading_result res" where
  "trading_result_from_json o' =
    bindR (bindR (jreq o' ''decision'') need_obj) (\<lambda>d.
    bindR (case jget o' ''account'' of JObj a \<Rightarrow> bindR (account_from_json a) (\<lambda>x. Inr (Some x)) | _ \<Rightarrow> Inr None) (\<lambda>account.
    bindR (bindR (bindR (jreq o' ''positions'') as_items) (mapR position_from_json)) (\<lambda>positions.
    bindR (jreq d ''request_id'') (\<lambda>drid.
    bindR (bindR (jreq d ''status'') (\<lambda>v. trading_status_of (py_str v))) (\<lambda>dstatus.
    bindR (bindR (jreq d ''action'') (\<lambda>v. trading_action_of (py_str v))) (\<lambda>daction.
    bindR (bindR (jreq d ''reasons'') as_items) (\<lambda>dreasons.
    bindR (jreq d ''approval_required'') (\<lambda>dappr.
    bindR (jreq o' ''result_id'') (\<lambda>rid.
    bindR (jreq o' ''request_id'') (\<lambda>qid.
    bindR (bindR (jreq o' ''status'') (\<lambda>v. trading_status_of (py_str v))) (\<lambda>status.
    bindR (jreq o' ''message'') (\<lambda>msg.
    bindR (bindR (jreq o' ''notional'') need_float) (\<lambda>value.
    bindR (jreq o' ''created_at'') (\<lambda>created.
    bindR (validate_utc (py_str created)) (\<lambda>_.
    Inr \<lparr>tx_result_id = py_str rid, tx_request_id = py_str qid, tx_status = status, tx_message = py_str msg,
         tx_account = account, tx_positions = positions,
         tx_decision = \<lparr>td_request_id = py_str drid, td_status = dstatus, td_action = daction,
           td_reasons = map py_str dreasons, td_approval_required = jtruthy dappr\<rparr>,
         tx_notional = value, tx_created_at = py_str created\<rparr>)))))))))))))))"

record trading_repo =
  tr_requests :: "trading_request table"
  tr_results :: "(string \<times> obj) table"

definition trading_repo_init :: trading_repo where
  "trading_repo_init = \<lparr>tr_requests = [], tr_results = []\<rparr>"

text \<open>
  The row is refused (\<open>IntegrityError\<close>) when the request id or the idempotency key is taken, and when
  the quantity is NaN, which SQLite stores as NULL in a NOT NULL column.
\<close>

definition trading_add_request :: "trading_request \<Rightarrow> (trading_repo, bool) opr" where
  "trading_add_request r = (\<lambda>repo.
    if tq_quantity r = NaN \<or>
       (tq_idempotency_key r \<noteq> None \<and> tq_idempotency_key r \<in> set (map tq_idempotency_key (t_rows (tr_requests repo))))
    then (Inr False, repo)
    else (case t_insert (tq_request_id r) r (tr_requests repo) of
        Inl _ \<Rightarrow> (Inr False, repo)
      | Inr t \<Rightarrow> (Inr True, repo\<lparr>tr_requests := t\<rparr>)))"

definition trading_add_result :: "trading_result \<Rightarrow> trading_repo \<Rightarrow> trading_repo" where
  "trading_add_result r repo = repo\<lparr>tr_results :=
     t_replace (tx_result_id r) (tx_created_at r, ocanon (trading_result_to_json r)) (tr_results repo)\<rparr>"

definition trading_list_results :: "trading_repo \<Rightarrow> trading_result list res" where
  "trading_list_results repo = mapR (\<lambda>(k, c, p). trading_result_from_json p)
     (sort_key (\<lambda>(k, c, p). (c, k)) (tr_results repo))"

section \<open>The execution service\<close>

record 'd trading_adapter =
  ad_validate :: "trading_request \<Rightarrow> trading_policy \<Rightarrow> ('d, trading_decision) opr"
  ad_simulate :: "trading_request \<Rightarrow> ('d, trading_result) opr"
  ad_cancel :: "trading_request \<Rightarrow> ('d, trading_result) opr"
  ad_account :: "('d, account_snapshot) opr"
  ad_positions :: "('d, position_snapshot list) opr"

definition paper_trading_adapter :: "paper_adapter trading_adapter" where
  "paper_trading_adapter = \<lparr>ad_validate = (\<lambda>r pol. getO (paper_validate_request r pol)),
     ad_simulate = paper_simulate_order, ad_cancel = paper_cancel_simulated_order,
     ad_account = getO pa_account, ad_positions = getO paper_get_positions\<rparr>"

definition fake_trading_adapter :: "fake_adapter trading_adapter" where
  "fake_trading_adapter = \<lparr>
     ad_validate = (\<lambda>r pol. bindO (getO (\<lambda>a. dom (fa_commands a))) (\<lambda>ids.
       retO (policy_validate pol r paper_account []
         (case tq_idempotency_key r of Some k \<Rightarrow> if k \<in> ids then [k] else [] | None \<Rightarrow> [])))),
     ad_simulate = (\<lambda>r. liftO (mk_trading_result r TS_SIMULATED ''paper simulation completed; no live order was placed''
       (Some paper_account) [] (simulated_decision r) (notional r))),
     ad_cancel = (\<lambda>r. liftO (mk_trading_result r TS_CANCELLED ''simulated order cancelled; no live order was placed''
       (Some paper_account) [] (cancelled_decision r) (Fin 0))),
     ad_account = retO paper_account, ad_positions = retO []\<rparr>"

record 'd trading_env = env +
  te_repo :: "trading_repo option"
  te_adapter :: 'd

definition adapterO :: "('d, 'a) opr \<Rightarrow> ('d trading_env, 'a) opr" where
  "adapterO m = (\<lambda>s. case m (te_adapter s) of (r, d) \<Rightarrow> (r, s\<lparr>te_adapter := d\<rparr>))"

definition trading_event :: "string \<Rightarrow> trading_request \<Rightarrow> trading_result option \<Rightarrow> durable_event" where
  "trading_event event_type r result =
    \<lparr>de_event_id = ''event:trading:'' @ event_type @ '':'' @ tq_request_id r @ '':'' @
       (case result of Some x \<Rightarrow> tx_result_id x | None \<Rightarrow> tq_created_at r),
     de_event_type = event_type, de_occurred_at = tq_created_at r, de_actor_ref = tq_actor_ref r,
     de_correlation_id = tq_request_id r, de_causation_id = None, de_scope = ''trading'',
     de_project = ''StrategyLab'', de_strategy = ''N/A'', de_market = ''N/A'',
     de_payload = [(''request_id'', JStr (tq_request_id r)), (''intent'', JStr (intent_value (tq_intent r))),
       (''status'', JStr (trading_status_value (case result of Some x \<Rightarrow> tx_status x | None \<Rightarrow> TS_CREATED)))],
     de_evidence_refs = [], de_audit_refs = [], de_appended_at = tq_created_at r\<rparr>"

definition trading_record :: "string \<Rightarrow> trading_request \<Rightarrow> trading_result option \<Rightarrow> ('d trading_env, unit) opr" where
  "trading_record event_type r result = record_event (trading_event event_type r result)"

definition save_result :: "trading_result \<Rightarrow> ('d trading_env, unit) opr" where
  "save_result x = modO (\<lambda>s. s\<lparr>te_repo := map_option (trading_add_result x) (te_repo s)\<rparr>)"

definition register_request :: "trading_request \<Rightarrow> ('d trading_env, bool) opr" where
  "register_request r = (\<lambda>s. case te_repo s of None \<Rightarrow> (Inr True, s)
     | Some repo \<Rightarrow> (case trading_add_request r repo of (res, repo') \<Rightarrow> (res, s\<lparr>te_repo := Some repo'\<rparr>)))"

definition snapshot_result :: "'d trading_adapter \<Rightarrow> trading_request \<Rightarrow> trading_status \<Rightarrow> string \<Rightarrow> trading_decision \<Rightarrow>
    ('d trading_env, trading_result) opr" where
  "snapshot_result ad r st msg decision =
    bindO (adapterO (ad_account ad)) (\<lambda>account. bindO (adapterO (ad_positions ad)) (\<lambda>positions.
      liftO (mk_trading_result r st msg (Some account) positions decision (notional r))))"

definition failed_decision :: "trading_request \<Rightarrow> trading_status \<Rightarrow> string \<Rightarrow> trading_decision" where
  "failed_decision r st why = \<lparr>td_request_id = tq_request_id r, td_status = st, td_action = action_for_intent (tq_intent r),
     td_reasons = [why], td_approval_required = False\<rparr>"

text \<open>The body of the \<open>try\<close> statement.\<close>

definition trading_attempt :: "'d trading_adapter \<Rightarrow> trading_policy \<Rightarrow> trading_request \<Rightarrow> ('d trading_env, trading_result) opr" where
  "trading_attempt ad pol r =
    bindO (adapterO (ad_validate ad r pol)) (\<lambda>decision.
    if td_status decision = TS_REJECTED then
      let st = (if td_action decision = ACT_BLOCK_LIVE_EXECUTION then TS_BLOCKED else TS_REJECTED) in
      bindO (snapshot_result ad r st (join ''; '' (td_reasons decision)) decision) (\<lambda>result.
      thenO (trading_record (if st = TS_BLOCKED then ''TradingExecutionBlocked'' else ''TradingRequestRejected'') r (Some result))
      (thenO (increment ''trading'' (if st = TS_BLOCKED then ''gaon_trading_execution_blocked_total'' else ''gaon_trading_rejections_total''))
      (thenO (save_result result) (retO result))))
    else
      thenO (trading_record ''TradingRequestValidated'' r None)
      (bindO (if tq_intent r = ANALYZE then
                snapshot_result ad r TS_VALIDATED ''paper account inspected; no live account access performed'' decision
              else if tq_intent r = CANCEL_SIMULATED_ORDER then adapterO (ad_cancel ad r)
              else thenO (trading_record ''PaperTradeStarted'' r None)
                (bindO (adapterO (ad_simulate ad r)) (\<lambda>x.
                  thenO (increment ''trading'' ''gaon_paper_trades_total'') (retO x)))) (\<lambda>result.
      thenO (trading_record (if tx_status result = TS_SIMULATED \<or> tx_status result = TS_CANCELLED
               then ''PaperTradeCompleted'' else ''TradingRequestValidated'') r (Some result))
      (thenO (save_result result) (retO result)))))"

definition trading_failure :: "trading_request \<Rightarrow> pyerr \<Rightarrow> ('d trading_env, trading_result) opr" where
  "trading_failure r e =
    bindO (liftO (mk_trading_result r TS_FAILED ''paper trading failed safely'' None [] (failed_decision r TS_FAILED (err_class e)) (notional r)))
    (\<lambda>result. thenO (trading_record ''PaperTradeFailed'' r (Some result))
      (thenO (increment ''trading'' ''gaon_paper_trade_failures_total'') (thenO (save_result result) (retO result))))"

definition trading_execute :: "'d trading_adapter \<Rightarrow> trading_policy \<Rightarrow> trading_request \<Rightarrow> ('d trading_env, trading_result) opr" where
  "trading_execute ad pol r =
    bindO (register_request r) (\<lambda>fresh.
    if \<not> fresh then
      bindO (snapshot_result ad r TS_REJECTED ''duplicate trading request rejected''
        (failed_decision r TS_REJECTED ''duplicate trading request'')) (\<lambda>result.
      thenO (trading_record ''TradingRequestRejected'' r (Some result))
      (thenO (increment ''trading'' ''gaon_trading_rejections_total'') (thenO (save_result result) (retO result))))
    else
      thenO (trading_record ''TradingRequestCreated'' r None)
      (thenO (increment ''trading'' ''gaon_trading_requests_total'')
      (catchO (trading_attempt ad pol r) (trading_failure r))))"

definition record_trading_metrics :: "trading_result list \<Rightarrow> ('d trading_env, unit) opr" where
  "record_trading_metrics results = gauge ''gaon_trading_results_total'' (fl (of_nat (length results))) ''trading''"

section \<open>Lemmas\<close>

lemma wp_adapterO [wp_simps]:
  "wp (adapterO m) Q E s = (case m (te_adapter s) of
      (Inl e, d) \<Rightarrow> E e (s\<lparr>te_adapter := d\<rparr>) | (Inr x, d) \<Rightarrow> Q x (s\<lparr>te_adapter := d\<rparr>))"
  by (auto simp: wp_def adapterO_def split: prod.splits sum.splits)

lemma wp_save_result [wp_simps]:
  "wp (save_result x) Q E s = Q () (s\<lparr>te_repo := map_option (trading_add_result x) (te_repo s)\<rparr>)"
  by (simp add: save_result_def wp_simps)

lemma wp_trading_record [wp_simps]:
  "wp (trading_record t r x) Q E s = wp (record_event (trading_event t r x)) Q E s"
  by (simp add: trading_record_def)

lemma wp_lift_res [wp_simps]: "wp (liftO r) Q E s = (case r of Inl e \<Rightarrow> E e s | Inr x \<Rightarrow> Q x s)"
  by (rule wp_lift)

lemma reason_mem [simp]: "x \<in> set (reason b t) \<longleftrightarrow> b \<and> x = t"
  by (auto simp: reason_def)

lemma reason_Nil [simp]: "reason b t = [] \<longleftrightarrow> \<not> b"
  by (simp add: reason_def)

lemma policy_status: "td_status (policy_validate pol r acc ps seen) = TS_REJECTED \<longleftrightarrow> policy_reasons pol r acc ps seen \<noteq> []"
  by (simp add: policy_validate_def Let_def)

lemma policy_accepts_iff:
  "td_status (policy_validate pol r acc ps seen) \<noteq> TS_REJECTED \<longleftrightarrow>
     tp_adapter_enabled pol \<and> \<not> is_live_intent (tq_intent r) \<and> tq_simulation r \<and>
     tq_order_type r \<in> set (tp_allowed_order_types pol) \<and>
     \<not> (is_simulated_trade (tq_intent r) \<and> fle (tq_quantity r) (Fin 0)) \<and>
     (if tq_symbol r \<noteq> [] then symbol_ok (tq_symbol r) else tq_intent r = ANALYZE) \<and>
     \<not> fgt (notional r) (tp_max_notional pol) \<and>
     \<not> fgt (projected_quantity (current_quantity ps (tq_symbol r)) r) (tp_max_position_quantity pol) \<and>
     \<not> (case tq_idempotency_key r of Some k \<Rightarrow> k \<noteq> [] \<and> k \<in> set seen | None \<Rightarrow> False) \<and>
     as_currency acc \<noteq> []"
  by (auto simp: policy_status policy_reasons_def)

lemma policy_status_cases: "td_status (policy_validate pol r acc ps seen) = TS_REJECTED \<or> td_status (policy_validate pol r acc ps seen) = TS_VALIDATED"
  by (simp add: policy_validate_def Let_def)

section \<open>Properties\<close>

text \<open>
  C10: the risk policy blocks every live order. A request with a live intent, or not marked as a
  simulation, is rejected with the action BLOCK_LIVE_EXECUTION and needs an approval, whatever the
  limits, the account and the positions are.
\<close>

theorem policy_blocks_live:
  assumes "is_live_intent (tq_intent r) \<or> \<not> tq_simulation r"
  shows "let d = policy_validate pol r acc ps seen in td_status d = TS_REJECTED \<and>
     td_action d = ACT_BLOCK_LIVE_EXECUTION \<and> td_approval_required d \<and>
     ''live trading is not implemented'' \<in> set (td_reasons d)"
proof -
  have "''live trading is not implemented'' \<in> set (policy_reasons pol r acc ps seen)"
    using assms by (simp add: policy_reasons_def)
  then show ?thesis
    by (auto simp: policy_validate_def Let_def)
qed

text \<open>Positions of the paper adapter: one per symbol, a double, and within the limit.\<close>

definition paper_ok :: "pyfloat \<Rightarrow> paper_adapter \<Rightarrow> bool" where
  "paper_ok limit a \<longleftrightarrow> distinct (pa_symbols a) \<and> dom (pa_positions a) = set (pa_symbols a) \<and>
     (\<forall>s p. pa_positions a s = Some p \<longrightarrow> ps_symbol p = s \<and> is_double (ps_quantity p) \<and> \<not> fgt (ps_quantity p) limit)"

lemma paper_current_quantity:
  assumes "paper_ok limit a"
  shows "current_quantity (paper_get_positions a) sy
    = (case pa_positions a sy of Some p \<Rightarrow> ps_quantity p | None \<Rightarrow> Fin 0)"
proof -
  have pos: "s \<in> set (pa_symbols a) \<Longrightarrow> \<exists>p. pa_positions a s = Some p \<and> ps_symbol p = s" for s
    using assms by (fastforce simp: paper_ok_def)
  have "filter (\<lambda>p. ps_symbol p = sy) (map (\<lambda>s. the (pa_positions a s)) xs)
      = map (\<lambda>s. the (pa_positions a s)) (filter (\<lambda>s. s = sy) xs)" if "set xs \<subseteq> set (pa_symbols a)" for xs
    using that by (induction xs) (use pos in fastforce)+
  then have f: "filter (\<lambda>p. ps_symbol p = sy) (paper_get_positions a)
      = map (\<lambda>s. the (pa_positions a s)) (filter (\<lambda>s. s = sy) (sort (pa_symbols a)))"
    by (simp add: paper_get_positions_def)
  have g: "filter (\<lambda>s. s = sy) xs = (if sy \<in> set xs then [sy] else [])" if "distinct xs" for xs
    using that by (induction xs) auto
  have "distinct (sort (pa_symbols a))" using assms by (simp add: paper_ok_def)
  then have h: "filter (\<lambda>s. s = sy) (sort (pa_symbols a)) = (if sy \<in> set (pa_symbols a) then [sy] else [])"
    using g by simp
  show ?thesis
  proof (cases "pa_positions a sy")
    case None
    then have "sy \<notin> set (pa_symbols a)" using assms by (auto simp: paper_ok_def)
    then show ?thesis using None by (simp add: current_quantity_def f h fsum_def)
  next
    case (Some p)
    then have "sy \<in> set (pa_symbols a)" "is_double (ps_quantity p)" using assms by (auto simp: paper_ok_def)
    then show ?thesis using Some by (simp add: current_quantity_def f h fsum_single)
  qed
qed

lemma projected_is_double: "is_double q \<Longrightarrow> is_double (tq_quantity r) \<Longrightarrow> is_double (projected_quantity q r)"
  by (simp add: projected_quantity_def fadd_is_double fsub_def fneg_is_double fmax_is_double)

lemma paper_remember_simps [simp]:
  "pa_positions (paper_remember_key r a) = pa_positions a" "pa_symbols (paper_remember_key r a) = pa_symbols a"
  "paper_ok limit (paper_remember_key r a) = paper_ok limit a"
  "paper_next_quantity r (paper_remember_key r a) = paper_next_quantity r a"
  by (simp_all add: paper_remember_key_def paper_ok_def paper_next_quantity_def split: option.splits)

lemma paper_simulate_ok:
  assumes "paper_ok limit a" and "is_double (tq_quantity r)"
    and "\<not> fgt (projected_quantity (current_quantity (paper_get_positions a) (tq_symbol r)) r) limit"
  shows "paper_ok limit (snd (paper_simulate_order r a))"
proof -
  have q: "\<not> fgt (paper_next_quantity r a) limit"
    using assms(3) paper_current_quantity [OF assms(1)] by (simp add: paper_next_quantity_def)
  have "is_double (case pa_positions a (tq_symbol r) of Some p \<Rightarrow> ps_quantity p | None \<Rightarrow> Fin 0)"
    using assms(1) by (auto simp: paper_ok_def split: option.splits)
  then have d: "is_double (paper_next_quantity r a)"
    using assms(2) by (simp add: paper_next_quantity_def projected_is_double)
  have move: "paper_ok limit (snd (paper_move_position r (paper_remember_key r a)))"
    using assms(1) q d unfolding paper_move_position_def Let_def
    by (auto simp: mk_position_snapshot_def paper_ok_def bindR_Inr_iff split: sum.splits if_splits)
  show ?thesis
    using assms(1) move
    by (auto simp: paper_simulate_order_def bindO_apply thenO_apply split: sum.splits prod.splits)
qed

text \<open>Only the simulation moves the adapter, and only after a validation that did not reject.\<close>

lemma paper_adapter_simps [simp]:
  "ad_simulate paper_trading_adapter = paper_simulate_order"
  "ad_cancel paper_trading_adapter = paper_cancel_simulated_order"
  "ad_account paper_trading_adapter = getO pa_account"
  "ad_positions paper_trading_adapter = getO paper_get_positions"
  "ad_validate paper_trading_adapter r pol = getO (paper_validate_request r pol)"
  by (simp_all add: paper_trading_adapter_def)

lemma keeps_adapterO [keeps_intros]:
  "(\<And>s d. I s \<Longrightarrow> I (s\<lparr>te_adapter := snd (m d)\<rparr>)) \<Longrightarrow> keeps I (adapterO m)"
  by (auto simp: keeps_def adapterO_def split: prod.splits) (metis snd_conv)

lemma frames_adapter [keeps_intros]:
  "frames te_adapter (trading_record t r x)"
  "frames te_adapter (increment c n)"
  "frames te_adapter (save_result res)"
  "frames te_adapter (adapterO (getO f))"
  "frames te_adapter (retO y)"
  "frames te_adapter (liftO z)"
  by (auto simp: frames_def trading_record_def record_event_def increment_def save_result_def adapterO_def
      split: option.splits sum.splits)

lemma frames_snapshot [keeps_intros]: "frames te_adapter (snapshot_result paper_trading_adapter r st msg d)"
  unfolding snapshot_result_def paper_trading_adapter_def by (auto intro!: keeps_intros)

lemma frames_failure [keeps_intros]: "frames te_adapter (trading_failure r e)"
  unfolding trading_failure_def by (intro keeps_intros)

lemma paper_cancel_frames [keeps_intros]: "frames te_adapter (adapterO (paper_cancel_simulated_order r))"
  by (auto simp: frames_def adapterO_def paper_cancel_simulated_order_def)

lemma paper_attempt_settles:
  assumes "R a"
    and "td_status (paper_validate_request r pol a) \<noteq> TS_REJECTED \<Longrightarrow> R (snd (paper_simulate_order r a))"
  shows "settles te_adapter a R (trading_attempt paper_trading_adapter pol r)"
proof -
  have sim: "settles te_adapter a R (adapterO (paper_simulate_order r))"
    if "td_status (paper_validate_request r pol a) \<noteq> TS_REJECTED"
    using assms(2) that by (auto simp: settles_def adapterO_def split: prod.splits)
  show ?thesis
    unfolding trading_attempt_def
  proof (rule settles_read [where x = "paper_validate_request r pol a"])
    show "adapterO (ad_validate paper_trading_adapter r pol) s = (Inr (paper_validate_request r pol a), s)"
      if "te_adapter s = a" for s :: "paper_adapter trading_env"
      using that by (simp add: adapterO_def paper_trading_adapter_def)
  next
    let ?d = "paper_validate_request r pol a"
    show "settles te_adapter a R (if td_status ?d = TS_REJECTED then
        let st = if td_action ?d = ACT_BLOCK_LIVE_EXECUTION then TS_BLOCKED else TS_REJECTED in
        bindO (snapshot_result paper_trading_adapter r st (join ''; '' (td_reasons ?d)) ?d) (\<lambda>result.
        thenO (trading_record (if st = TS_BLOCKED then ''TradingExecutionBlocked'' else ''TradingRequestRejected'') r (Some result))
        (thenO (increment ''trading'' (if st = TS_BLOCKED then ''gaon_trading_execution_blocked_total'' else ''gaon_trading_rejections_total''))
        (thenO (save_result result) (retO result))))
      else
        thenO (trading_record ''TradingRequestValidated'' r None)
        (bindO (if tq_intent r = ANALYZE then
                  snapshot_result paper_trading_adapter r TS_VALIDATED ''paper account inspected; no live account access performed'' ?d
                else if tq_intent r = CANCEL_SIMULATED_ORDER then adapterO (ad_cancel paper_trading_adapter r)
                else thenO (trading_record ''PaperTradeStarted'' r None)
                  (bindO (adapterO (ad_simulate paper_trading_adapter r)) (\<lambda>x.
                    thenO (increment ''trading'' ''gaon_paper_trades_total'') (retO x)))) (\<lambda>result.
        thenO (trading_record (if tx_status result = TS_SIMULATED \<or> tx_status result = TS_CANCELLED
                 then ''PaperTradeCompleted'' else ''TradingRequestValidated'') r (Some result))
        (thenO (save_result result) (retO result)))))"
      (is "settles _ _ _ (if ?rej then ?blocked else thenO ?rec (bindO ?main ?save))")
    proof (rule settles_if)
      show "settles te_adapter a R ?blocked"
        unfolding Let_def by (intro settles_frames keeps_intros) (rule assms(1))
    next
      assume acc: "\<not> ?rej"
      have main: "settles te_adapter a R ?main"
        unfolding paper_adapter_simps
        by (intro settles_if settles_skip_then settles_end [OF sim [OF acc]] keeps_intros assms(1))
           (rule settles_frames; intro keeps_intros assms(1))+
      show "settles te_adapter a R (thenO ?rec (bindO ?main ?save))"
        by (intro settles_skip_then settles_end [OF main] keeps_intros assms(1))
    qed
  qed
qed

lemma register_frames [keeps_intros]: "frames te_adapter (register_request r)"
  by (auto simp: frames_def register_request_def split: option.splits prod.splits)

lemma paper_execute_settles:
  assumes "R a"
    and "td_status (paper_validate_request r pol a) \<noteq> TS_REJECTED \<Longrightarrow> R (snd (paper_simulate_order r a))"
  shows "settles te_adapter a R (trading_execute paper_trading_adapter pol r)"
  unfolding trading_execute_def
  by (intro settles_skip settles_if settles_skip_then settles_catch [OF paper_attempt_settles [OF assms]] keeps_intros assms(1))
     (intro settles_frames keeps_intros assms(1))+

lemma paper_execute_ok:
  assumes "paper_ok (tp_max_position_quantity pol) (te_adapter s)" and "is_double (tq_quantity r)"
  shows "paper_ok (tp_max_position_quantity pol) (te_adapter (snd (trading_execute paper_trading_adapter pol r s)))"
proof -
  have "settles te_adapter (te_adapter s) (paper_ok (tp_max_position_quantity pol)) (trading_execute paper_trading_adapter pol r)"
  proof (rule paper_execute_settles)
    assume "td_status (paper_validate_request r pol (te_adapter s)) \<noteq> TS_REJECTED"
    then have "\<not> fgt (projected_quantity (current_quantity (paper_get_positions (te_adapter s)) (tq_symbol r)) r) (tp_max_position_quantity pol)"
      unfolding paper_validate_request_def policy_accepts_iff by simp
    then show "paper_ok (tp_max_position_quantity pol) (snd (paper_simulate_order r (te_adapter s)))"
      using paper_simulate_ok assms by blast
  qed (rule assms(1))
  from settlesD [OF this refl] show ?thesis .
qed

text \<open>
  C40: through any sequence of trading requests on a fresh paper adapter (with any event store,
  metrics and repository, whatever raises), no position ever exceeds the position limit of the
  policy.
\<close>

theorem paper_position_limit:
  assumes "\<forall>r \<in> set rs. is_double (tq_quantity r)" and "te_adapter s = paper_init enabled fail"
  shows "paper_ok (tp_max_position_quantity pol)
    (te_adapter (fold (\<lambda>r s. snd (trading_execute paper_trading_adapter pol r s)) rs s))"
  using assms
proof (induction rs rule: rev_induct)
  case Nil
  then show ?case by (simp add: paper_ok_def paper_init_def)
next
  case (snoc r rs)
  then show ?case by (simp add: paper_execute_ok)
qed

lemma settles_result:
  assumes "settles p (p s) (\<lambda>b. b = p s) m" shows "p (snd (m s)) = p s"
  using settlesD [OF assms refl] .

text \<open>
  A request id is executed at most once. When the repository already holds the id, the paper
  adapter is left exactly as it was, and a result that is returned is REJECTED.
\<close>

theorem duplicate_request_not_executed:
  assumes "te_repo s = Some repo" and "tq_request_id r \<in> set (t_keys (tr_requests repo))"
  shows "te_adapter (snd (trading_execute paper_trading_adapter pol r s)) = te_adapter s \<and>
    (case fst (trading_execute paper_trading_adapter pol r s) of Inr x \<Rightarrow> tx_status x = TS_REJECTED | Inl _ \<Rightarrow> True)"
proof -
  have reg: "register_request r s = (Inr False, s)"
    using assms by (simp add: register_request_def trading_add_request_def t_insert_def)
  let ?m = "bindO (snapshot_result paper_trading_adapter r TS_REJECTED ''duplicate trading request rejected''
        (failed_decision r TS_REJECTED ''duplicate trading request'')) (\<lambda>result.
      thenO (trading_record ''TradingRequestRejected'' r (Some result))
      (thenO (increment ''trading'' ''gaon_trading_rejections_total'') (thenO (save_result result) (retO result))))"
  have ex: "trading_execute paper_trading_adapter pol r s = ?m s"
    using reg by (simp add: trading_execute_def bindO_apply [of "register_request r"])
  have "frames te_adapter ?m" by (intro keeps_intros)
  then have 1: "te_adapter (snd (?m s)) = te_adapter s" by (simp add: frames_def)
  have "wp ?m (\<lambda>x _. tx_status x = TS_REJECTED) (\<lambda>_ _. True) s"
    by (auto simp: wp_simps snapshot_result_def mk_trading_result_def bindR_Inr_iff split: option.splits sum.splits)
  then have 2: "case fst (?m s) of Inr x \<Rightarrow> tx_status x = TS_REJECTED | Inl _ \<Rightarrow> True"
    by (auto simp: wp_def split: prod.splits sum.splits)
  show ?thesis unfolding ex using 1 2 by blast
qed

lemma attempt_env:
  "wp (trading_attempt ad pol r) (\<lambda>_ _. True) (\<lambda>_ t. env_events t = None) s" if "env_events s = None"
proof -
  have "keeps (\<lambda>t. env_events t = None) (trading_attempt ad pol r)"
    unfolding trading_attempt_def snapshot_result_def trading_record_def increment_def save_result_def Let_def
    by (intro keeps_no_log keeps_intros keeps_mod) (auto simp: keeps_def adapterO_def split: prod.splits)
  then show ?thesis
    using that by (auto simp: wp_def keeps_def split: prod.splits sum.splits) (metis snd_conv)
qed

text \<open>
  An adapter that fails cannot crash the runtime. For every adapter, whatever its operations
  raise, a fresh valid request executed without an event store yields a result; if the adapter
  raised, that result is FAILED and names the exception class.
\<close>

theorem trading_adapter_failure_contained:
  assumes "env_events s = None" and "check_trading_request r = Inr ()"
    and "register_request r s = (Inr True, s1)"
  shows "\<exists>x t. trading_execute ad pol r s = (Inr x, t) \<and>
    (\<forall>e t'. trading_attempt ad pol r (s1\<lparr>env_metrics := map_option (\<lambda>ms. ms @ [MIncrement ''gaon_trading_requests_total'' ''trading'']) (env_metrics s1)\<rparr>) = (Inl e, t')
       \<longrightarrow> tx_status x = TS_FAILED \<and> td_reasons (tx_decision x) = [err_class e])"
proof -
  have ev: "env_events s1 = None"
    using assms(1,3) by (auto simp: register_request_def split: option.splits prod.splits)
  let ?s2 = "s1\<lparr>env_metrics := map_option (\<lambda>ms. ms @ [MIncrement ''gaon_trading_requests_total'' ''trading'']) (env_metrics s1)\<rparr>"
  have ex: "trading_execute ad pol r s = catchO (trading_attempt ad pol r) (trading_failure r) ?s2"
    using assms(3) ev by (simp add: trading_execute_def bindO_apply thenO_apply trading_record_def increment_def)
  have utc: "validate_utc (tq_created_at r) = Inr ()"
    using assms(2) by (auto simp: check_trading_request_def bindR_Inr_iff)
  obtain res t where at: "trading_attempt ad pol r ?s2 = (res, t)" by fastforce
  show ?thesis
  proof (cases res)
    case (Inr x)
    then show ?thesis using ex at by (simp add: catchO_apply)
  next
    case (Inl e)
    have "env_events t = None"
      using wp_Inl [OF attempt_env, of ?s2 ad pol r e t] at Inl ev by simp
    then have "\<exists>x t'. trading_failure r e t = (Inr x, t') \<and> tx_status x = TS_FAILED \<and> td_reasons (tx_decision x) = [err_class e]"
      using utc by (auto simp: trading_failure_def mk_trading_result_def bindO_apply thenO_apply trading_record_def
          increment_def save_result_def failed_decision_def)
    then show ?thesis using ex at Inl by (auto simp: catchO_apply)
  qed
qed

section \<open>Stored results\<close>

definition account_ok :: "account_snapshot \<Rightarrow> bool" where
  "account_ok a \<longleftrightarrow> iso_utc (as_as_of a) \<and> \<not> flt (as_cash a) (Fin 0) \<and> \<not> flt (as_equity a) (Fin 0)"

definition position_ok :: "position_snapshot \<Rightarrow> bool" where
  "position_ok p \<longleftrightarrow> symbol_ok (ps_symbol p) \<and> iso_utc (ps_as_of p)"

definition result_ok :: "trading_result \<Rightarrow> bool" where
  "result_ok x \<longleftrightarrow> iso_utc (tx_created_at x) \<and> pred_option account_ok (tx_account x) \<and> list_all position_ok (tx_positions x)"

lemma account_roundtrip: "account_ok a \<Longrightarrow> account_from_json (ocanon (case account_to_json a of JObj o' \<Rightarrow> o' | _ \<Rightarrow> [])) = Inr a"
  by (simp add: account_from_json_def account_to_json_def need_str_def need_float_def mk_account_snapshot_def
      account_ok_def validate_utc_def)

lemma position_roundtrip: "position_ok p \<Longrightarrow> position_from_json (jcanon (position_to_json p)) = Inr p"
  by (simp add: position_from_json_def position_to_json_def need_str_def need_float_def mk_position_snapshot_def
      position_ok_def validate_utc_def validate_symbol_def)

text \<open>
  A trading result survives storage. A result whose account, positions and time pass the checks
  of their constructors is read back unchanged from the text column it was written to.
\<close>

theorem trading_result_roundtrip:
  assumes "result_ok x"
  shows "trading_result_from_json (ocanon (trading_result_to_json x)) = Inr x"
proof -
  have pos: "mapR position_from_json (map (jcanon \<circ> position_to_json) (tx_positions x)) = Inr (tx_positions x)"
    using assms by (intro mapR_map_id) (simp add: result_ok_def list_all_iff position_roundtrip)
  have acc: "(case jcanon (case tx_account x of Some a \<Rightarrow> account_to_json a | None \<Rightarrow> JNull) of
      JObj a \<Rightarrow> bindR (account_from_json a) (\<lambda>x. Inr (Some x)) | _ \<Rightarrow> Inr None) = Inr (tx_account x)"
    using assms account_roundtrip
    by (cases "tx_account x") (auto simp: result_ok_def account_to_json_def)
  show ?thesis
    using assms pos acc
    by (simp add: trading_result_from_json_def trading_result_to_json_def need_float_def jstrs_def
        result_ok_def validate_utc_def comp_def)
qed

section \<open>Witnesses and observed behaviour\<close>

definition sample_request :: "string \<Rightarrow> trading_intent \<Rightarrow> trading_request" where
  "sample_request rid intent = \<lparr>tq_request_id = rid, tq_intent = intent, tq_symbol = ''AAPL'', tq_side = Some BUY,
     tq_quantity = Fin 3, tq_order_type = MARKET, tq_limit_price = None, tq_actor_ref = ''actor'',
     tq_created_at = ''2026-01-01T00:00:00Z'', tq_simulation = True, tq_approval_ref = None, tq_idempotency_key = None\<rparr>"

definition sample_trading_env :: "paper_adapter trading_env" where
  "sample_trading_env = \<lparr>env_events = None, env_metrics = None, te_repo = Some trading_repo_init, te_adapter = paper_init True False\<rparr>"

lemma sample_formats: "iso_utc ''2026-01-01T00:00:00Z''" "symbol_ok ''AAPL''" "iso_utc ''2026-07-17T00:00:00Z''"
  by code_simp+

lemma sample_check: "check_trading_request (sample_request ''r1'' SIMULATE_BUY) = Inr ()"
  by (simp add: check_trading_request_def sample_request_def validate_utc_def validate_symbol_def sample_formats)

theorem policy_blocks_live_witness:
  "td_status (policy_validate trading_policy_default (sample_request ''r1'' LIVE_BUY) paper_account [] []) = TS_REJECTED"
  using policy_blocks_live [of "sample_request ''r1'' LIVE_BUY" trading_policy_default paper_account "[]" "[]"]
  by (simp add: sample_request_def is_live_intent_def Let_def)

theorem paper_position_limit_witness:
  "paper_ok (Fin 100) (te_adapter (fold (\<lambda>r s. snd (trading_execute paper_trading_adapter trading_policy_default r s))
     [sample_request ''r1'' SIMULATE_BUY, sample_request ''r2'' SIMULATE_BUY] sample_trading_env))"
  using paper_position_limit [of "[sample_request ''r1'' SIMULATE_BUY, sample_request ''r2'' SIMULATE_BUY]"
      sample_trading_env True False trading_policy_default]
  by (simp add: sample_request_def sample_trading_env_def is_double_def trading_policy_default_def)

definition sample_seen_env :: "paper_adapter trading_env" where
  "sample_seen_env = sample_trading_env\<lparr>te_repo := Some \<lparr>tr_requests = [(''r1'', sample_request ''r1'' SIMULATE_BUY)], tr_results = []\<rparr>\<rparr>"

theorem duplicate_request_not_executed_witness:
  "te_adapter (snd (trading_execute paper_trading_adapter trading_policy_default (sample_request ''r1'' SIMULATE_BUY) sample_seen_env))
     = paper_init True False"
  using duplicate_request_not_executed [of sample_seen_env _ "sample_request ''r1'' SIMULATE_BUY" trading_policy_default]
  by (simp add: sample_seen_env_def sample_trading_env_def sample_request_def)

theorem trading_adapter_failure_contained_witness:
  "\<exists>x t. trading_execute paper_trading_adapter trading_policy_default (sample_request ''r1'' SIMULATE_BUY) sample_trading_env = (Inr x, t)"
proof -
  have "register_request (sample_request ''r1'' SIMULATE_BUY) sample_trading_env = (Inr True,
      sample_trading_env\<lparr>te_repo := Some \<lparr>tr_requests = [(''r1'', sample_request ''r1'' SIMULATE_BUY)], tr_results = []\<rparr>\<rparr>)"
    by (simp add: register_request_def trading_add_request_def t_insert_def sample_trading_env_def trading_repo_init_def
        sample_request_def)
  from trading_adapter_failure_contained [where ad = paper_trading_adapter and pol = trading_policy_default,
      OF _ sample_check this] show ?thesis
    by (auto simp: sample_trading_env_def)
qed

definition sample_result :: trading_result where
  "sample_result = \<lparr>tx_result_id = ''trading-result:r1'', tx_request_id = ''r1'', tx_status = TS_SIMULATED,
     tx_message = ''m'', tx_account = Some paper_account, tx_positions = [],
     tx_decision = simulated_decision (sample_request ''r1'' SIMULATE_BUY), tx_notional = Fin 0,
     tx_created_at = ''2026-01-01T00:00:00Z''\<rparr>"

theorem trading_result_roundtrip_witness:
  "trading_result_from_json (ocanon (trading_result_to_json sample_result)) = Inr sample_result"
  by (rule trading_result_roundtrip) (simp add: result_ok_def sample_result_def account_ok_def paper_account_def sample_formats)

text \<open>
  Observed behaviour: resubmitting a request id replaces its stored result. The result id is built
  from the request id alone, so the REJECTED result of the duplicate overwrites the SIMULATED one.
\<close>

lemma resubmission_overwrites_result:
  assumes "te_repo s = Some repo" and "tq_request_id r \<in> set (t_keys (tr_requests repo))"
    and "env_events s = None" and "iso_utc (tq_created_at r)"
  shows "\<exists>x. fst (trading_execute paper_trading_adapter pol r s) = Inr x \<and> tx_status x = TS_REJECTED \<and>
    te_repo (snd (trading_execute paper_trading_adapter pol r s)) = Some (trading_add_result x repo) \<and>
    tx_result_id x = ''trading-result:'' @ tq_request_id r"
proof -
  have reg: "register_request r s = (Inr False, s)"
    using assms by (simp add: register_request_def trading_add_request_def t_insert_def)
  show ?thesis
    using assms
    by (simp add: trading_execute_def bindO_apply reg thenO_apply snapshot_result_def adapterO_def mk_trading_result_def
        validate_utc_def trading_record_def increment_def save_result_def)
qed

end
