(* ===== verification/PaperForward.thy ===== *)
theory PaperForward
  imports ChampionRegistry Trading
begin

text \<open>
  \<open>gaon/adapters/paper_forward.py\<close>: paper-only forward tests of the active champion. Sessions with
  their life cycle, observations and summaries, the repository, and the service that starts, pauses,
  resumes, completes and cancels a session and simulates orders in it through the trading service.
  The lemmas show that a stored session only moves along its life cycle, that an order needs an
  active session of the current champion, and what a summary counts.
\<close>

definition paper_policy_version :: string where
  "paper_policy_version = ''paper_forward_test_policy_v1''"

datatype session_status = SS_PENDING | SS_ACTIVE | SS_PAUSED | SS_COMPLETED | SS_FAILED | SS_CANCELLED

fun session_status_value :: "session_status \<Rightarrow> string" where
  "session_status_value SS_PENDING = ''pending''"
| "session_status_value SS_ACTIVE = ''active''"
| "session_status_value SS_PAUSED = ''paused''"
| "session_status_value SS_COMPLETED = ''completed''"
| "session_status_value SS_FAILED = ''failed''"
| "session_status_value SS_CANCELLED = ''cancelled''"

definition session_status_of :: "string \<Rightarrow> session_status res" where
  "session_status_of s = ofOption (ValueError ''not a valid PaperTradingSessionStatus'')
     (find (\<lambda>m. session_status_value m = s) [SS_PENDING, SS_ACTIVE, SS_PAUSED, SS_COMPLETED, SS_FAILED, SS_CANCELLED])"

lemma session_status_roundtrip [simp]: "session_status_of (session_status_value st) = Inr st"
  by (cases st) (simp_all add: session_status_of_def)

section \<open>Data\<close>

record paper_session =
  fs_session_id :: string
  fs_slot :: string
  fs_version_id :: string
  fs_strategy_ref :: string
  fs_fingerprint :: string
  fs_status :: session_status
  fs_policy_version :: string
  fs_created_at :: string
  fs_started_at :: "string option"
  fs_ended_at :: "string option"
  fs_warnings :: "string list"
  fs_errors :: "string list"

definition validate_opt_utc :: "string option \<Rightarrow> unit res" where
  "validate_opt_utc x = (case x of None \<Rightarrow> Inr () | Some ts \<Rightarrow> validate_utc ts)"

definition mk_paper_session :: "paper_session \<Rightarrow> paper_session res" where
  "mk_paper_session s = bindR (validate_ref (fs_session_id s) ''session_id'') (\<lambda>_.
     bindR (validate_utc (fs_created_at s)) (\<lambda>_. bindR (validate_opt_utc (fs_started_at s)) (\<lambda>_.
     bindR (validate_opt_utc (fs_ended_at s)) (\<lambda>_. Inr s))))"

definition session_to_json :: "paper_session \<Rightarrow> obj" where
  "session_to_json s = [(''session_id'', JStr (fs_session_id s)), (''slot'', JStr (fs_slot s)),
     (''champion_version_id'', JStr (fs_version_id s)), (''strategy_ref'', JStr (fs_strategy_ref s)),
     (''fingerprint'', JStr (fs_fingerprint s)), (''status'', JStr (session_status_value (fs_status s))),
     (''policy_version'', JStr (fs_policy_version s)), (''created_at'', JStr (fs_created_at s)),
     (''started_at'', of_opt (fs_started_at s)), (''ended_at'', of_opt (fs_ended_at s)),
     (''warnings'', jstrs (fs_warnings s)), (''errors'', jstrs (fs_errors s))]"

definition str_items :: "obj \<Rightarrow> string \<Rightarrow> string list res" where
  "str_items o' k = bindR (bindR (jreq o' k) jiter) (\<lambda>xs. Inr (map py_str xs))"

definition session_from_json :: "obj \<Rightarrow> paper_session res" where
  "session_from_json o' =
     bindR (bindR (jreq o' ''status'') (\<lambda>v. session_status_of (py_str v))) (\<lambda>st.
     bindR (str_items o' ''warnings'') (\<lambda>ws. bindR (str_items o' ''errors'') (\<lambda>es.
     bindR (bindR (jreq o' ''session_id'') need_str) (\<lambda>sid. bindR (bindR (jreq o' ''slot'') need_str) (\<lambda>sl.
     bindR (bindR (jreq o' ''champion_version_id'') need_str) (\<lambda>v. bindR (bindR (jreq o' ''strategy_ref'') need_str) (\<lambda>sr.
     bindR (bindR (jreq o' ''fingerprint'') need_str) (\<lambda>fp. bindR (bindR (jreq o' ''policy_version'') need_str) (\<lambda>pv.
     bindR (bindR (jreq o' ''created_at'') need_str) (\<lambda>ca. bindR (bindR (jreq o' ''started_at'') need_opt_str) (\<lambda>sa.
     bindR (bindR (jreq o' ''ended_at'') need_opt_str) (\<lambda>ea.
     mk_paper_session \<lparr>fs_session_id = sid, fs_slot = sl, fs_version_id = v, fs_strategy_ref = sr, fs_fingerprint = fp,
       fs_status = st, fs_policy_version = pv, fs_created_at = ca, fs_started_at = sa, fs_ended_at = ea,
       fs_warnings = ws, fs_errors = es\<rparr>))))))))))))"

record paper_observation =
  fo_observation_id :: string
  fo_session_id :: string
  fo_observed_at :: string
  fo_trading_result_id :: "string option"
  fo_status :: string
  fo_notional :: pyfloat
  fo_message :: string

definition mk_paper_observation :: "paper_observation \<Rightarrow> paper_observation res" where
  "mk_paper_observation x = bindR (validate_ref (fo_observation_id x) ''observation_id'') (\<lambda>_.
     bindR (validate_utc (fo_observed_at x)) (\<lambda>_. Inr x))"

definition observation_to_json :: "paper_observation \<Rightarrow> obj" where
  "observation_to_json x = [(''observation_id'', JStr (fo_observation_id x)), (''session_id'', JStr (fo_session_id x)),
     (''observed_at'', JStr (fo_observed_at x)), (''trading_result_id'', of_opt (fo_trading_result_id x)),
     (''status'', JStr (fo_status x)), (''notional'', JFloat (fo_notional x)), (''message'', JStr (fo_message x))]"

definition observation_from_json :: "obj \<Rightarrow> paper_observation res" where
  "observation_from_json o' =
     bindR (bindR (jreq o' ''observation_id'') need_str) (\<lambda>oid. bindR (bindR (jreq o' ''session_id'') need_str) (\<lambda>sid.
     bindR (bindR (jreq o' ''observed_at'') need_str) (\<lambda>ts. bindR (bindR (jreq o' ''trading_result_id'') need_opt_str) (\<lambda>rid.
     bindR (bindR (jreq o' ''status'') need_str) (\<lambda>st. bindR (bindR (jreq o' ''notional'') need_float) (\<lambda>n.
     bindR (bindR (jreq o' ''message'') need_str) (\<lambda>m.
     mk_paper_observation \<lparr>fo_observation_id = oid, fo_session_id = sid, fo_observed_at = ts, fo_trading_result_id = rid,
       fo_status = st, fo_notional = n, fo_message = m\<rparr>)))))))"

record paper_summary =
  fm_session_id :: string
  fm_status :: session_status
  fm_version_id :: string
  fm_strategy_ref :: string
  fm_fingerprint :: string
  fm_simulated_orders :: int
  fm_fills :: int
  fm_rejected :: int
  fm_failed :: int
  fm_realized_pnl :: "pyfloat option"
  fm_unrealized_pnl :: "pyfloat option"
  fm_max_drawdown :: "pyfloat option"
  fm_exposure :: "pyfloat option"
  fm_warnings :: "string list"
  fm_errors :: "string list"
  fm_generated_at :: string

definition summary_to_json :: "paper_summary \<Rightarrow> obj" where
  "summary_to_json m = [(''session_id'', JStr (fm_session_id m)), (''status'', JStr (session_status_value (fm_status m))),
     (''champion_version_id'', JStr (fm_version_id m)), (''strategy_ref'', JStr (fm_strategy_ref m)),
     (''fingerprint'', JStr (fm_fingerprint m)), (''simulated_orders'', JInt (fm_simulated_orders m)),
     (''fills'', JInt (fm_fills m)), (''rejected_simulated_orders'', JInt (fm_rejected m)),
     (''failed_simulated_orders'', JInt (fm_failed m)), (''realized_paper_pnl'', opt_float (fm_realized_pnl m)),
     (''unrealized_paper_pnl'', opt_float (fm_unrealized_pnl m)), (''max_paper_drawdown'', opt_float (fm_max_drawdown m)),
     (''exposure'', opt_float (fm_exposure m)), (''warnings'', jstrs (fm_warnings m)), (''errors'', jstrs (fm_errors m)),
     (''generated_at'', JStr (fm_generated_at m))]"

definition summary_from_json :: "obj \<Rightarrow> paper_summary res" where
  "summary_from_json o' =
     bindR (bindR (jreq o' ''status'') (\<lambda>v. session_status_of (py_str v))) (\<lambda>st.
     bindR (str_items o' ''warnings'') (\<lambda>ws. bindR (str_items o' ''errors'') (\<lambda>es.
     bindR (bindR (jreq o' ''session_id'') need_str) (\<lambda>sid. bindR (bindR (jreq o' ''champion_version_id'') need_str) (\<lambda>v.
     bindR (bindR (jreq o' ''strategy_ref'') need_str) (\<lambda>sr. bindR (bindR (jreq o' ''fingerprint'') need_str) (\<lambda>fp.
     bindR (bindR (jreq o' ''simulated_orders'') need_int) (\<lambda>n. bindR (bindR (jreq o' ''fills'') need_int) (\<lambda>fi.
     bindR (bindR (jreq o' ''rejected_simulated_orders'') need_int) (\<lambda>re. bindR (bindR (jreq o' ''failed_simulated_orders'') need_int) (\<lambda>fa.
     bindR (bindR (jreq o' ''realized_paper_pnl'') need_opt_float) (\<lambda>rp. bindR (bindR (jreq o' ''unrealized_paper_pnl'') need_opt_float) (\<lambda>up.
     bindR (bindR (jreq o' ''max_paper_drawdown'') need_opt_float) (\<lambda>dd. bindR (bindR (jreq o' ''exposure'') need_opt_float) (\<lambda>ex.
     bindR (bindR (jreq o' ''generated_at'') need_str) (\<lambda>ga.
     Inr \<lparr>fm_session_id = sid, fm_status = st, fm_version_id = v, fm_strategy_ref = sr, fm_fingerprint = fp,
       fm_simulated_orders = n, fm_fills = fi, fm_rejected = re, fm_failed = fa, fm_realized_pnl = rp, fm_unrealized_pnl = up,
       fm_max_drawdown = dd, fm_exposure = ex, fm_warnings = ws, fm_errors = es, fm_generated_at = ga\<rparr>))))))))))))))))"

lemma str_items_jstrs [simp]: "jreq o' k = Inr (jstrs xs) \<Longrightarrow> str_items o' k = Inr xs"
  by (simp add: str_items_def jstrs_def comp_def)

lemma paper_roundtrips [simp]:
  "session_from_json (ocanon (session_to_json s)) = mk_paper_session s"
  "observation_from_json (ocanon (observation_to_json x)) = mk_paper_observation x"
  "summary_from_json (ocanon (summary_to_json m)) = Inr m"
  subgoal by (cases s) (simp add: session_from_json_def session_to_json_def)
  subgoal by (cases x) (simp add: observation_from_json_def observation_to_json_def)
  subgoal by (cases m) (simp add: summary_from_json_def summary_to_json_def)
  done

section \<open>Repository\<close>

record paper_repo =
  pr_sessions :: "paper_session table"
  pr_observations :: "paper_observation table"
  pr_summaries :: "paper_summary table"

definition paper_repo_init :: paper_repo where
  "paper_repo_init = \<lparr>pr_sessions = [], pr_observations = [], pr_summaries = []\<rparr>"

definition pr_add_session :: "paper_session \<Rightarrow> paper_repo \<Rightarrow> paper_repo res" where
  "pr_add_session s repo = bindR (t_insert (fs_session_id s) s (pr_sessions repo)) (\<lambda>t. Inr (repo\<lparr>pr_sessions := t\<rparr>))"

definition pr_update_session :: "paper_session \<Rightarrow> paper_repo \<Rightarrow> paper_repo res" where
  "pr_update_session s repo =
    (if fs_session_id s \<in> set (t_keys (pr_sessions repo))
     then Inr (repo\<lparr>pr_sessions := t_update (fs_session_id s) (\<lambda>_. s) (pr_sessions repo)\<rparr>)
     else Inl (KeyError (fs_session_id s)))"

definition read_session :: "paper_session \<Rightarrow> paper_session res" where
  "read_session s = session_from_json (ocanon (session_to_json s))"

definition pr_get_session :: "string \<Rightarrow> paper_repo \<Rightarrow> paper_session res" where
  "pr_get_session sid repo = bindR (ofOption (KeyError sid) (t_get sid (pr_sessions repo))) read_session"

definition pr_list_sessions :: "paper_repo \<Rightarrow> paper_session list res" where
  "pr_list_sessions repo = mapR read_session (map snd (sort_key (\<lambda>(k, s). (fs_created_at s, k)) (pr_sessions repo)))"

definition pr_add_observation :: "paper_observation \<Rightarrow> paper_repo \<Rightarrow> paper_repo res" where
  "pr_add_observation x repo = bindR (t_insert (fo_observation_id x) x (pr_observations repo)) (\<lambda>t. Inr (repo\<lparr>pr_observations := t\<rparr>))"

definition pr_list_observations :: "string \<Rightarrow> paper_repo \<Rightarrow> paper_observation list res" where
  "pr_list_observations sid repo = mapR (\<lambda>x. observation_from_json (ocanon (observation_to_json x)))
     (sort_key (\<lambda>x. (fo_observed_at x, fo_observation_id x)) (filter (\<lambda>x. fo_session_id x = sid) (t_rows (pr_observations repo))))"

definition pr_put_summary :: "paper_summary \<Rightarrow> paper_repo \<Rightarrow> paper_repo" where
  "pr_put_summary m repo = repo\<lparr>pr_summaries := t_upsert (fm_session_id m) m (pr_summaries repo)\<rparr>"

definition pr_get_summary :: "string \<Rightarrow> paper_repo \<Rightarrow> paper_summary res" where
  "pr_get_summary sid repo = bindR (ofOption (KeyError sid) (t_get sid (pr_summaries repo)))
     (\<lambda>m. summary_from_json (ocanon (summary_to_json m)))"

section \<open>The service\<close>

record paper_env = env +
  pf_repo :: paper_repo
  pf_registry :: registry_repo
  pf_trading :: "trading_repo option"
  pf_adapter :: paper_adapter

definition pf_read :: "(paper_repo \<Rightarrow> 'a res) \<Rightarrow> (paper_env, 'a) opr" where
  "pf_read f = (\<lambda>s. (f (pf_repo s), s))"

definition pf_write :: "(paper_repo \<Rightarrow> paper_repo res) \<Rightarrow> (paper_env, unit) opr" where
  "pf_write f = (\<lambda>s. case f (pf_repo s) of Inl e \<Rightarrow> (Inl e, s) | Inr repo \<Rightarrow> (Inr (), s\<lparr>pf_repo := repo\<rparr>))"

definition pf_active :: "string \<Rightarrow> (paper_env, registry_entry) opr" where
  "pf_active slot = (\<lambda>s. (bindR (rg_get_active slot (pf_registry s))
     (\<lambda>a. ofOption (ValueError ''active champion is required for paper forward test'') a), s))"

text \<open>A call of the trading service on the shared event store, metrics, repository and adapter.\<close>

definition pf_tradingO :: "(paper_adapter trading_env, 'a) opr \<Rightarrow> (paper_env, 'a) opr" where
  "pf_tradingO m = (\<lambda>s. case m \<lparr>env_events = env_events s, env_metrics = env_metrics s, te_repo = pf_trading s, te_adapter = pf_adapter s\<rparr> of
     (r, t) \<Rightarrow> (r, s\<lparr>env_events := env_events t, env_metrics := env_metrics t, pf_trading := te_repo t, pf_adapter := te_adapter t\<rparr>))"

definition paper_event :: "string \<Rightarrow> paper_session \<Rightarrow> string \<Rightarrow> string \<Rightarrow> durable_event" where
  "paper_event event_type s actor ts =
    \<lparr>de_event_id = ''event:paper-forward:'' @ event_type @ '':'' @ fs_session_id s @ '':'' @ ts, de_event_type = event_type,
     de_occurred_at = ts, de_actor_ref = actor, de_correlation_id = fs_session_id s, de_causation_id = Some (fs_version_id s),
     de_scope = ''paper_forward_test'', de_project = ''StrategyLab'', de_strategy = fs_strategy_ref s, de_market = ''N/A'',
     de_payload = [(''session_id'', JStr (fs_session_id s)), (''status'', JStr (session_status_value (fs_status s))),
       (''champion_version_id'', JStr (fs_version_id s)), (''fingerprint'', JStr (fs_fingerprint s))],
     de_evidence_refs = [fs_version_id s], de_audit_refs = [], de_appended_at = ts\<rparr>"

definition pf_record :: "string \<Rightarrow> paper_session \<Rightarrow> string \<Rightarrow> string \<Rightarrow> (paper_env, unit) opr" where
  "pf_record event_type s actor ts = record_once (paper_event event_type s actor ts)"

definition pf_increment :: "string \<Rightarrow> (paper_env, unit) opr" where
  "pf_increment name = increment ''paper_forward'' name"

definition pf_gauge :: "string \<Rightarrow> pyfloat \<Rightarrow> (paper_env, unit) opr" where
  "pf_gauge name v = gauge name v ''paper_forward''"

definition replace_session :: "paper_session \<Rightarrow> session_status \<Rightarrow> string option \<Rightarrow> string option \<Rightarrow> paper_session res" where
  "replace_session s st started ended = mk_paper_session (s\<lparr>fs_status := st,
     fs_started_at := (if started \<noteq> None then started else fs_started_at s),
     fs_ended_at := (if ended \<noteq> None then ended else fs_ended_at s)\<rparr>)"

definition require_status :: "paper_session \<Rightarrow> session_status list \<Rightarrow> unit res" where
  "require_status s allowed = guardR (fs_status s \<in> set allowed)
     (ValueError (''invalid paper session transition from '' @ session_status_value (fs_status s)))"

definition require_same_champion :: "paper_session \<Rightarrow> registry_entry \<Rightarrow> unit res" where
  "require_same_champion s a = guardR (\<not> (fs_version_id s \<noteq> re_version_id a \<or> fs_fingerprint s \<noteq> re_fingerprint a))
     (ValueError ''paper session champion is no longer active'')"

definition paper_create :: "string \<Rightarrow> string \<Rightarrow> string option \<Rightarrow> string option \<Rightarrow> string \<Rightarrow> string \<Rightarrow> (paper_env, paper_session) opr" where
  "paper_create sid slot version fp actor ts =
    bindO (pf_active slot) (\<lambda>a.
    thenO (liftO (guardR (\<not> (version \<noteq> None \<and> version \<noteq> Some (re_version_id a)))
      (ValueError ''only the active champion version can start paper forward test'')))
    (thenO (liftO (guardR (\<not> (fp \<noteq> None \<and> fp \<noteq> Some (re_fingerprint a))) (ValueError ''champion fingerprint mismatch'')))
    (bindO (liftO (mk_paper_session \<lparr>fs_session_id = sid, fs_slot = slot, fs_version_id = re_version_id a,
        fs_strategy_ref = re_strategy_ref a, fs_fingerprint = re_fingerprint a, fs_status = SS_PENDING,
        fs_policy_version = paper_policy_version, fs_created_at = ts, fs_started_at = None, fs_ended_at = None,
        fs_warnings = [], fs_errors = []\<rparr>)) (\<lambda>session.
    thenO (pf_write (pr_add_session session))
    (thenO (pf_record ''PaperTradingPromotionRequested'' session actor ts)
    (thenO (pf_record ''PaperTradingSessionCreated'' session actor ts)
    (thenO (pf_increment ''gaon_paper_sessions_total'') (retO session))))))))"

definition paper_start :: "string \<Rightarrow> string \<Rightarrow> string \<Rightarrow> (paper_env, paper_session) opr" where
  "paper_start sid actor ts =
    bindO (pf_read (pr_get_session sid)) (\<lambda>s.
    if fs_status s = SS_ACTIVE then retO s
    else
      thenO (liftO (require_status s [SS_PENDING]))
      (bindO (pf_active (fs_slot s)) (\<lambda>a.
      thenO (liftO (require_same_champion s a))
      (bindO (liftO (replace_session s SS_ACTIVE (Some ts) None)) (\<lambda>u.
      thenO (pf_write (pr_update_session u))
      (thenO (pf_record ''PaperTradingSessionStarted'' u actor ts)
      (thenO (pf_gauge ''gaon_paper_sessions_active'' (Fin 1)) (retO u))))))))"

definition paper_pause :: "string \<Rightarrow> string \<Rightarrow> string \<Rightarrow> (paper_env, paper_session) opr" where
  "paper_pause sid actor ts =
    bindO (pf_read (pr_get_session sid)) (\<lambda>s.
    thenO (liftO (require_status s [SS_ACTIVE]))
    (bindO (liftO (replace_session s SS_PAUSED None None)) (\<lambda>u.
    thenO (pf_write (pr_update_session u))
    (thenO (pf_record ''PaperTradingSessionPaused'' u actor ts)
    (thenO (pf_gauge ''gaon_paper_sessions_active'' (Fin 0)) (retO u))))))"

definition paper_resume :: "string \<Rightarrow> string \<Rightarrow> string \<Rightarrow> (paper_env, paper_session) opr" where
  "paper_resume sid actor ts =
    bindO (pf_read (pr_get_session sid)) (\<lambda>s.
    thenO (liftO (require_status s [SS_PAUSED]))
    (bindO (pf_active (fs_slot s)) (\<lambda>a.
    thenO (liftO (require_same_champion s a))
    (bindO (liftO (replace_session s SS_ACTIVE None None)) (\<lambda>u.
    thenO (pf_write (pr_update_session u))
    (thenO (pf_record ''PaperTradingSessionResumed'' u actor ts)
    (thenO (pf_gauge ''gaon_paper_sessions_active'' (Fin 1)) (retO u))))))))"

definition has_status :: "string list \<Rightarrow> paper_observation \<Rightarrow> bool" where
  "has_status names x \<longleftrightarrow> fo_status x \<in> set names"

definition count_status :: "string list \<Rightarrow> paper_observation list \<Rightarrow> int" where
  "count_status names xs = int (length (filter (has_status names) xs))"

definition paper_summary_of :: "paper_session \<Rightarrow> paper_observation list \<Rightarrow> string \<Rightarrow> paper_summary" where
  "paper_summary_of s xs ts = \<lparr>fm_session_id = fs_session_id s, fm_status = fs_status s, fm_version_id = fs_version_id s,
     fm_strategy_ref = fs_strategy_ref s, fm_fingerprint = fs_fingerprint s, fm_simulated_orders = int (length xs),
     fm_fills = count_status [trading_status_value TS_SIMULATED] xs,
     fm_rejected = count_status [trading_status_value TS_REJECTED, trading_status_value TS_BLOCKED] xs,
     fm_failed = count_status [trading_status_value TS_FAILED] xs,
     fm_realized_pnl = None, fm_unrealized_pnl = None, fm_max_drawdown = None, fm_exposure = None,
     fm_warnings = fs_warnings s, fm_errors = fs_errors s, fm_generated_at = ts\<rparr>"

definition paper_summarize :: "string \<Rightarrow> string \<Rightarrow> (paper_env, paper_summary) opr" where
  "paper_summarize sid ts =
    bindO (pf_read (pr_get_session sid)) (\<lambda>s.
    bindO (pf_read (pr_list_observations sid)) (\<lambda>xs.
    thenO (pf_write (\<lambda>repo. Inr (pr_put_summary (paper_summary_of s xs ts) repo))) (retO (paper_summary_of s xs ts))))"

definition paper_complete :: "string \<Rightarrow> string \<Rightarrow> string \<Rightarrow> (paper_env, paper_session) opr" where
  "paper_complete sid actor ts =
    bindO (pf_read (pr_get_session sid)) (\<lambda>s.
    thenO (liftO (require_status s [SS_ACTIVE, SS_PAUSED]))
    (bindO (liftO (replace_session s SS_COMPLETED None (Some ts))) (\<lambda>u.
    thenO (pf_write (pr_update_session u))
    (thenO (pf_record ''PaperTradingSessionCompleted'' u actor ts)
    (thenO (pf_increment ''gaon_paper_sessions_completed_total'')
    (thenO (pf_gauge ''gaon_paper_sessions_active'' (Fin 0))
    (thenO (paper_summarize sid ts) (retO u))))))))"

definition paper_cancel :: "string \<Rightarrow> string \<Rightarrow> string \<Rightarrow> (paper_env, paper_session) opr" where
  "paper_cancel sid actor ts =
    bindO (pf_read (pr_get_session sid)) (\<lambda>s.
    thenO (liftO (require_status s [SS_PENDING, SS_ACTIVE, SS_PAUSED]))
    (bindO (liftO (replace_session s SS_CANCELLED None (Some ts))) (\<lambda>u.
    thenO (pf_write (pr_update_session u))
    (thenO (pf_record ''PaperTradingSessionCancelled'' u actor ts)
    (thenO (pf_gauge ''gaon_paper_sessions_active'' (Fin 0)) (retO u))))))"

definition paper_order_request :: "string \<Rightarrow> nat \<Rightarrow> string \<Rightarrow> pyfloat \<Rightarrow> pyfloat \<Rightarrow> string \<Rightarrow> string \<Rightarrow> string \<Rightarrow> trading_request res" where
  "paper_order_request sid n symbol quantity price side actor ts =
     build_trading_request (''paper-session:'' @ sid @ '':'' @ dec_nat (n + 1)) (if side = ''sell'' then SIMULATE_SELL else SIMULATE_BUY)
       symbol quantity (Some price) actor ts (Some (''paper-session:'' @ sid @ '':'' @ symbol @ '':'' @ side @ '':'' @ ts))"

definition paper_simulate :: "string \<Rightarrow> string \<Rightarrow> pyfloat \<Rightarrow> pyfloat \<Rightarrow> string \<Rightarrow> string \<Rightarrow> string \<Rightarrow> (paper_env, trading_result) opr" where
  "paper_simulate sid symbol quantity price side actor ts =
    bindO (pf_read (pr_get_session sid)) (\<lambda>s.
    thenO (liftO (require_status s [SS_ACTIVE]))
    (bindO (pf_active (fs_slot s)) (\<lambda>a.
    thenO (liftO (require_same_champion s a))
    (bindO (pf_read (pr_list_observations sid)) (\<lambda>xs.
    bindO (liftO (paper_order_request sid (length xs) symbol quantity price side actor ts)) (\<lambda>request.
    bindO (pf_tradingO (trading_execute paper_trading_adapter trading_policy_default request)) (\<lambda>result.
    bindO (pf_read (pr_list_observations sid)) (\<lambda>ys.
    bindO (liftO (mk_paper_observation \<lparr>fo_observation_id = ''paper-observation:'' @ sid @ '':'' @ dec_nat (length ys + 1),
        fo_session_id = sid, fo_observed_at = ts, fo_trading_result_id = Some (tx_result_id result),
        fo_status = trading_status_value (tx_status result), fo_notional = tx_notional result, fo_message = tx_message result\<rparr>)) (\<lambda>x.
    thenO (pf_write (pr_add_observation x))
    (thenO (whenO (tx_status result = TS_SIMULATED) (pf_increment ''gaon_paper_simulated_orders_total''))
    (retO result)))))))))))"

section \<open>The life cycle of a session\<close>

text \<open>One move of a session, with the fields it changes. Nothing else of a session ever changes.\<close>

inductive session_step :: "paper_session \<Rightarrow> paper_session \<Rightarrow> bool" where
  started: "fs_status s = SS_PENDING \<Longrightarrow> session_step s (s\<lparr>fs_status := SS_ACTIVE, fs_started_at := Some ts\<rparr>)"
| paused: "fs_status s = SS_ACTIVE \<Longrightarrow> session_step s (s\<lparr>fs_status := SS_PAUSED\<rparr>)"
| resumed: "fs_status s = SS_PAUSED \<Longrightarrow> session_step s (s\<lparr>fs_status := SS_ACTIVE\<rparr>)"
| completed: "fs_status s = SS_ACTIVE \<or> fs_status s = SS_PAUSED \<Longrightarrow>
    session_step s (s\<lparr>fs_status := SS_COMPLETED, fs_ended_at := Some ts\<rparr>)"
| cancelled: "fs_status s = SS_PENDING \<or> fs_status s = SS_ACTIVE \<or> fs_status s = SS_PAUSED \<Longrightarrow>
    session_step s (s\<lparr>fs_status := SS_CANCELLED, fs_ended_at := Some ts\<rparr>)"

inductive_cases session_stepE: "session_step s t"

definition session_over :: "paper_session \<Rightarrow> bool" where
  "session_over s \<longleftrightarrow> fs_status s = SS_COMPLETED \<or> fs_status s = SS_CANCELLED \<or> fs_status s = SS_FAILED"

definition same_session :: "paper_session \<Rightarrow> paper_session \<Rightarrow> bool" where
  "same_session s t \<longleftrightarrow> fs_session_id t = fs_session_id s \<and> fs_slot t = fs_slot s \<and> fs_version_id t = fs_version_id s \<and>
     fs_strategy_ref t = fs_strategy_ref s \<and> fs_fingerprint t = fs_fingerprint s \<and> fs_policy_version t = fs_policy_version s \<and>
     fs_created_at t = fs_created_at s"

lemma session_step_facts:
  "session_step s t \<Longrightarrow> \<not> session_over s \<and> same_session s t \<and> fs_status t \<noteq> SS_PENDING \<and> fs_status t \<noteq> SS_FAILED"
  by (auto elim!: session_stepE simp: session_over_def same_session_def)

lemma session_steps_facts:
  assumes "session_step\<^sup>*\<^sup>* s t"
  shows "same_session s t" and "session_over s \<longrightarrow> t = s" and "fs_status t = SS_FAILED \<longrightarrow> t = s" and "fs_status t = SS_PENDING \<longrightarrow> t = s"
  using assms
proof (induction rule: converse_rtranclp_induct)
  case base
  { case 1 show ?case by (simp add: same_session_def) next
    case 2 show ?case by simp next
    case 3 show ?case by simp next
    case 4 show ?case by simp }
next
  case (step s u)
  note f = session_step_facts [OF step(1)]
  { case 1 show ?case using f step(3) by (simp add: same_session_def) next
    case 2 show ?case using f by blast next
    case 3 show ?case using f step(5) by auto next
    case 4 show ?case using f step(6) by auto }
qed

text \<open>Stored sessions are valid, not FAILED, and stored under their own id.\<close>

definition sessions_ok :: "paper_repo \<Rightarrow> bool" where
  "sessions_ok repo \<longleftrightarrow> (\<forall>k s. t_get k (pr_sessions repo) = Some s \<longrightarrow> fs_session_id s = k \<and> mk_paper_session s = Inr s \<and> fs_status s \<noteq> SS_FAILED)"

definition later :: "paper_repo \<Rightarrow> paper_repo \<Rightarrow> bool" where
  "later a b \<longleftrightarrow> sessions_ok b \<and> (\<forall>k s. t_get k (pr_sessions a) = Some s \<longrightarrow>
     (\<exists>t. t_get k (pr_sessions b) = Some t \<and> session_step\<^sup>*\<^sup>* s t))"

lemma later_refl: "sessions_ok a \<Longrightarrow> later a a"
  by (auto simp: later_def)

lemma later_trans: "later a b \<Longrightarrow> later b c \<Longrightarrow> later a c"
  unfolding later_def by (metis rtranclp_trans)

lemma later_other [simp]:
  "later a (b\<lparr>pr_observations := x\<rparr>) = later a b" "later a (b\<lparr>pr_summaries := y\<rparr>) = later a b"
  by (simp_all add: later_def sessions_ok_def)

lemma mk_paper_session_id: "mk_paper_session s = Inr s' \<Longrightarrow> s' = s"
  by (auto simp: mk_paper_session_def bindR_Inr_iff)

lemma get_session_Inr:
  assumes "pr_get_session sid repo = Inr s" and "sessions_ok repo"
  shows "t_get sid (pr_sessions repo) = Some s" "fs_session_id s = sid"
  using assms by (auto simp: pr_get_session_def read_session_def bindR_Inr_iff sessions_ok_def dest: mk_paper_session_id)

lemma later_add: "sessions_ok repo \<Longrightarrow> mk_paper_session s = Inr s \<Longrightarrow> fs_status s = SS_PENDING \<Longrightarrow> pr_add_session s repo = Inr repo' \<Longrightarrow> later repo repo'"
  by (auto simp: pr_add_session_def bindR_Inr_iff later_def sessions_ok_def t_get_insert t_insert_def t_get_snoc split: if_splits option.splits)

lemma later_new:
  "sessions_ok repo \<Longrightarrow> mk_paper_session r = Inr s \<Longrightarrow> fs_status r = SS_PENDING \<Longrightarrow> pr_add_session s repo = Inr repo' \<Longrightarrow> later repo repo'"
  using mk_paper_session_id later_add by metis

lemma later_update:
  assumes "sessions_ok repo" and "t_get (fs_session_id u) (pr_sessions repo) = Some s" and "session_step s u"
    and "mk_paper_session u = Inr u" and "pr_update_session u repo = Inr repo'"
  shows "later repo repo'"
  using assms session_step_facts [OF assms(3)] by (auto simp: pr_update_session_def later_def sessions_ok_def split: if_splits)

lemma wp_pf [wp_simps]:
  "wp (pf_read f) Q E s = (case f (pf_repo s) of Inl e \<Rightarrow> E e s | Inr x \<Rightarrow> Q x s)"
  "wp (pf_write g) Q' E s = (case g (pf_repo s) of Inl e \<Rightarrow> E e s | Inr repo \<Rightarrow> Q' () (s\<lparr>pf_repo := repo\<rparr>))"
  "wp (pf_active slot) Q'' E s = (case rg_get_active slot (pf_registry s) of Inl e \<Rightarrow> E e s
      | Inr None \<Rightarrow> E (ValueError ''active champion is required for paper forward test'') s | Inr (Some a) \<Rightarrow> Q'' a s)"
  by (simp_all add: wp_def pf_read_def pf_write_def pf_active_def split: sum.splits option.splits)

lemma wp_pf_metrics [wp_simps]:
  "wp (pf_increment name) Q E s = Q () (s\<lparr>env_metrics := map_option (\<lambda>ms. ms @ [MIncrement name ''paper_forward'']) (env_metrics s)\<rparr>)"
  "wp (pf_gauge name v) Q E s = Q () (s\<lparr>env_metrics := map_option (\<lambda>ms. ms @ [MGauge name v ''paper_forward'']) (env_metrics s)\<rparr>)"
  by (simp_all add: pf_increment_def pf_gauge_def wp_increment gauge_def wp_simps)

lemma wp_pf_record:
  assumes "\<And>es. Q () (s\<lparr>env_events := es\<rparr>)" and "\<And>er. E er s"
  shows "wp (pf_record ty x a ts) Q E s"
  unfolding pf_record_def by (rule wp_record_onceI) (rule assms)+

text \<open>The trading service never touches the sessions or the registry.\<close>

lemma wp_pf_tradingI:
  assumes "\<And>r es ms tr ad. Q r (s\<lparr>env_events := es, env_metrics := ms, pf_trading := tr, pf_adapter := ad\<rparr>)"
    and "\<And>e es ms tr ad. E e (s\<lparr>env_events := es, env_metrics := ms, pf_trading := tr, pf_adapter := ad\<rparr>)"
  shows "wp (pf_tradingO m) Q E s"
  by (simp add: wp_def pf_tradingO_def assms split: prod.splits sum.splits)

text \<open>A session read, moved and written back.\<close>

lemma moved_later:
  assumes "sessions_ok repo" and "pr_get_session sid repo = Inr x" and "replace_session x st a b = Inr u"
    and "session_step x u" and "pr_update_session u repo = Inr repo'"
  shows "later repo repo'"
proof -
  note x = get_session_Inr [OF assms(2,1)]
  have u: "fs_session_id u = sid" using session_step_facts [OF assms(4)] x(2) by (simp add: same_session_def)
  have mk: "mk_paper_session u = Inr u" using assms(3) mk_paper_session_id unfolding replace_session_def by metis
  show ?thesis using later_update [OF assms(1) _ assms(4) mk assms(5)] x(1) u by simp
qed

lemma replace_session_eq: "replace_session x st a b = Inr u \<Longrightarrow> u = x\<lparr>fs_status := st,
     fs_started_at := (if a \<noteq> None then a else fs_started_at x), fs_ended_at := (if b \<noteq> None then b else fs_ended_at x)\<rparr>"
  unfolding replace_session_def by (drule mk_paper_session_id) simp

lemma session_moves:
  "fs_status x = SS_PENDING \<Longrightarrow> replace_session x SS_ACTIVE (Some ts) None = Inr u \<Longrightarrow> session_step x u"
  "fs_status x = SS_ACTIVE \<Longrightarrow> replace_session x SS_PAUSED None None = Inr u \<Longrightarrow> session_step x u"
  "fs_status x = SS_PAUSED \<Longrightarrow> replace_session x SS_ACTIVE None None = Inr u \<Longrightarrow> session_step x u"
  "fs_status x = SS_ACTIVE \<or> fs_status x = SS_PAUSED \<Longrightarrow> replace_session x SS_COMPLETED None (Some ts) = Inr u \<Longrightarrow> session_step x u"
  "fs_status x = SS_PENDING \<or> fs_status x = SS_ACTIVE \<or> fs_status x = SS_PAUSED \<Longrightarrow>
     replace_session x SS_CANCELLED None (Some ts) = Inr u \<Longrightarrow> session_step x u"
  using session_step.intros by (auto dest!: replace_session_eq)

abbreviation always_later :: "(paper_env, 'a) opr \<Rightarrow> paper_env \<Rightarrow> bool" where
  "always_later m s \<equiv> wp m (\<lambda>_ t. later (pf_repo s) (pf_repo t)) (\<lambda>_ t. later (pf_repo s) (pf_repo t)) s"

lemma create_later: "sessions_ok (pf_repo s) \<Longrightarrow> always_later (paper_create sid slot v fp actor ts) s"
  unfolding paper_create_def
  by (auto intro!: wp_pf_record later_refl simp: wp_simps wp_lift split: sum.splits option.splits)
   (auto elim!: later_new [rotated])

lemmas paper_wp = wp_pf wp_bind wp_then wp_lift wp_basic wp_if wp_pf_metrics require_status_def require_same_champion_def

lemma start_later: "sessions_ok (pf_repo s) \<Longrightarrow> always_later (paper_start sid actor ts) s"
  unfolding paper_start_def
  by (auto intro!: wp_pf_record later_refl simp: paper_wp split: sum.splits option.splits)
   (metis moved_later session_moves(1))+

lemma pause_later: "sessions_ok (pf_repo s) \<Longrightarrow> always_later (paper_pause sid actor ts) s"
  unfolding paper_pause_def
  by (auto intro!: wp_pf_record later_refl simp: paper_wp split: sum.splits option.splits)
   (metis moved_later session_moves(2))+

lemma resume_later: "sessions_ok (pf_repo s) \<Longrightarrow> always_later (paper_resume sid actor ts) s"
  unfolding paper_resume_def
  by (auto intro!: wp_pf_record later_refl simp: paper_wp split: sum.splits option.splits)
   (metis moved_later session_moves(3))+

lemma cancel_later: "sessions_ok (pf_repo s) \<Longrightarrow> always_later (paper_cancel sid actor ts) s"
  unfolding paper_cancel_def
  by (auto intro!: wp_pf_record later_refl simp: paper_wp split: sum.splits option.splits)
   (metis moved_later session_moves(5))+

lemma put_summary_later [simp]: "later a (pr_put_summary m b) = later a b"
  by (simp add: pr_put_summary_def)

lemma summarize_wp:
  "wp (paper_summarize sid ts) (\<lambda>m t. \<exists>x. t = s\<lparr>pf_repo := pr_put_summary m (pf_repo s)\<rparr> \<and> pr_get_session sid (pf_repo s) = Inr x \<and>
      (\<exists>xs. pr_list_observations sid (pf_repo s) = Inr xs \<and> m = paper_summary_of x xs ts)) (\<lambda>e t. t = s) s"
  unfolding paper_summarize_def by (simp add: paper_wp split: sum.splits)

lemma complete_later: "sessions_ok (pf_repo s) \<Longrightarrow> always_later (paper_complete sid actor ts) s"
  unfolding paper_complete_def paper_summarize_def
  by (auto intro!: wp_pf_record later_refl simp: paper_wp split: sum.splits option.splits)
   (metis moved_later session_moves(4))+

lemma add_observation_later: "pr_add_observation x repo = Inr repo' \<Longrightarrow> later a repo' = later a repo"
  by (auto simp: pr_add_observation_def bindR_Inr_iff)

lemma simulate_later: "sessions_ok (pf_repo s) \<Longrightarrow> always_later (paper_simulate sid symbol q p side actor ts) s"
  unfolding paper_simulate_def
  by (auto intro!: wp_pf_tradingI later_refl simp: paper_wp wp_when add_observation_later split: sum.splits option.splits)

text \<open>
  Calls of the service, and the champion registry changing between them: \<open>PC_Registry\<close> is any other
  content of its tables.
\<close>

datatype paper_call =
    PC_Create string string "string option" "string option" string string
  | PC_Start string string string
  | PC_Pause string string string
  | PC_Resume string string string
  | PC_Complete string string string
  | PC_Cancel string string string
  | PC_Simulate string string pyfloat pyfloat string string string
  | PC_Summarize string string
  | PC_Registry registry_repo

fun paper_run :: "paper_call \<Rightarrow> paper_env \<Rightarrow> paper_env" where
  "paper_run (PC_Create sid slot v fp actor ts) s = snd (paper_create sid slot v fp actor ts s)"
| "paper_run (PC_Start sid actor ts) s = snd (paper_start sid actor ts s)"
| "paper_run (PC_Pause sid actor ts) s = snd (paper_pause sid actor ts s)"
| "paper_run (PC_Resume sid actor ts) s = snd (paper_resume sid actor ts s)"
| "paper_run (PC_Complete sid actor ts) s = snd (paper_complete sid actor ts s)"
| "paper_run (PC_Cancel sid actor ts) s = snd (paper_cancel sid actor ts s)"
| "paper_run (PC_Simulate sid symbol q p side actor ts) s = snd (paper_simulate sid symbol q p side actor ts s)"
| "paper_run (PC_Summarize sid ts) s = snd (paper_summarize sid ts s)"
| "paper_run (PC_Registry repo) s = s\<lparr>pf_registry := repo\<rparr>"

definition paper_env_init :: "durable_event list option \<Rightarrow> metric_call list option \<Rightarrow> trading_repo option \<Rightarrow> paper_adapter \<Rightarrow> paper_env" where
  "paper_env_init es ms tr ad = \<lparr>env_events = es, env_metrics = ms, pf_repo = paper_repo_init, pf_registry = registry_repo_init,
     pf_trading = tr, pf_adapter = ad\<rparr>"

lemma wp_snd: "wp m (\<lambda>_ t. P t) (\<lambda>_ t. P t) s \<Longrightarrow> P (snd (m s))"
  by (auto simp: wp_def split: sum.splits prod.splits)

lemma summarize_later: "sessions_ok (pf_repo s) \<Longrightarrow> always_later (paper_summarize sid ts) s"
  by (rule wp_mono [OF summarize_wp]) (auto simp: later_refl)

lemmas calls_later = create_later start_later pause_later resume_later complete_later cancel_later simulate_later summarize_later

lemma paper_run_later: "sessions_ok (pf_repo s) \<Longrightarrow> later (pf_repo s) (pf_repo (paper_run c s))"
  using calls_later [THEN wp_snd] by (cases c) (simp_all add: later_refl)

lemma paper_runs_later: "sessions_ok (pf_repo s) \<Longrightarrow> later (pf_repo s) (pf_repo (fold paper_run cs s))"
proof (induction cs arbitrary: s)
  case Nil then show ?case by (simp add: later_refl)
next
  case (Cons c cs)
  have step: "later (pf_repo s) (pf_repo (paper_run c s))" by (rule paper_run_later [OF Cons.prems])
  then have "sessions_ok (pf_repo (paper_run c s))" by (simp add: later_def)
  from later_trans [OF step Cons.IH [OF this]] show ?case by simp
qed

lemma paper_init_ok: "sessions_ok (pf_repo (paper_env_init es ms tr ad))"
  by (simp add: paper_env_init_def paper_repo_init_def sessions_ok_def t_get_def)

section \<open>Properties\<close>

text \<open>
  C24: the life cycle of a paper session. Over any sequence of service calls, in any order and with
  the champion registry changing arbitrarily between them, a stored session is never lost and only
  moves along pending, active, paused, completed or cancelled; its champion, fingerprint and slot
  never change, a completed or cancelled session never changes again, and no session is ever in the
  FAILED state.
\<close>

theorem paper_session_lifecycle:
  assumes "t_get sid (pr_sessions (pf_repo (fold paper_run cs (paper_env_init es ms tr ad)))) = Some x"
  shows "fs_status x \<noteq> SS_FAILED \<and>
    (\<exists>y. t_get sid (pr_sessions (pf_repo (fold paper_run (cs @ ds) (paper_env_init es ms tr ad)))) = Some y \<and>
      session_step\<^sup>*\<^sup>* x y \<and> same_session x y \<and> (session_over x \<longrightarrow> y = x))"
proof -
  let ?s = "fold paper_run cs (paper_env_init es ms tr ad)"
  have ok: "sessions_ok (pf_repo ?s)"
    using paper_runs_later [OF paper_init_ok] by (simp add: later_def)
  obtain y where y: "t_get sid (pr_sessions (pf_repo (fold paper_run ds ?s))) = Some y" "session_step\<^sup>*\<^sup>* x y"
    using paper_runs_later [OF ok, of ds] assms by (auto simp: later_def)
  then show ?thesis
    using ok assms session_steps_facts(1,2) [OF y(2)] by (simp add: sessions_ok_def)
qed

text \<open>What an observation stores of a trading result.\<close>

definition observes :: "string \<Rightarrow> string \<Rightarrow> trading_result \<Rightarrow> paper_observation \<Rightarrow> bool" where
  "observes sid ts r x \<longleftrightarrow> fo_session_id x = sid \<and> fo_trading_result_id x = Some (tx_result_id r) \<and>
     fo_status x = trading_status_value (tx_status r) \<and> fo_notional x = tx_notional r \<and> fo_observed_at x = ts"

lemma mk_observation_observes:
  "mk_paper_observation \<lparr>fo_observation_id = oid, fo_session_id = sid, fo_observed_at = ts, fo_trading_result_id = Some (tx_result_id r),
     fo_status = trading_status_value (tx_status r), fo_notional = tx_notional r, fo_message = m\<rparr> = Inr x \<Longrightarrow> observes sid ts r x"
  by (auto simp: mk_paper_observation_def bindR_Inr_iff observes_def)

definition order_stored :: "string \<Rightarrow> string \<Rightarrow> trading_result \<Rightarrow> paper_repo \<Rightarrow> paper_repo \<Rightarrow> bool" where
  "order_stored sid ts r a b \<longleftrightarrow> pr_sessions b = pr_sessions a \<and> pr_summaries b = pr_summaries a \<and>
     (\<exists>x. pr_observations b = pr_observations a @ [(fo_observation_id x, x)] \<and> observes sid ts r x)"

lemma add_observation_stored: "pr_add_observation x a = Inr b \<Longrightarrow> observes sid ts r x \<Longrightarrow> order_stored sid ts r a b"
  by (auto simp: pr_add_observation_def bindR_Inr_iff t_insert_def order_stored_def split: if_splits)

lemma simulate_wp:
  "wp (paper_simulate sid symbol q p side actor ts) (\<lambda>r t. order_stored sid ts r (pf_repo s) (pf_repo t)) (\<lambda>e t. pf_repo t = pf_repo s) s"
  unfolding paper_simulate_def
  by (auto intro!: wp_pf_tradingI elim!: add_observation_stored intro: mk_observation_observes simp: paper_wp wp_when
      split: sum.splits option.splits)

text \<open>The gate of an order: an active session of the champion that is still active.\<close>

definition order_gate :: "string \<Rightarrow> paper_env \<Rightarrow> bool" where
  "order_gate sid s \<longleftrightarrow> (case pr_get_session sid (pf_repo s) of Inl e \<Rightarrow> False | Inr x \<Rightarrow> fs_status x = SS_ACTIVE \<and>
     (case rg_get_active (fs_slot x) (pf_registry s) of
        Inr (Some a) \<Rightarrow> fs_version_id x = re_version_id a \<and> fs_fingerprint x = re_fingerprint a | _ \<Rightarrow> False))"

text \<open>
  An order is simulated only for an active session whose champion is still the active one. In
  every other case the call raises and changes nothing at all. When it returns, exactly one observation
  is stored, with the identity, the status and the notional of the trading result, and no session or
  summary changes; when it raises, the paper tables are as before.
\<close>

theorem paper_order_gate:
  "case paper_simulate sid symbol q p side actor ts s of
     (Inr r, t) \<Rightarrow> order_gate sid s \<and> order_stored sid ts r (pf_repo s) (pf_repo t)
   | (Inl e, t) \<Rightarrow> pf_repo t = pf_repo s \<and> (order_gate sid s \<or> t = s)"
proof -
  have gate: "order_gate sid s \<or> (\<exists>e. paper_simulate sid symbol q p side actor ts s = (Inl e, s))"
    by (cases "pr_get_session sid (pf_repo s)")
      (auto simp: order_gate_def paper_simulate_def bindO_apply thenO_apply pf_read_def pf_active_def require_status_def
        require_same_champion_def guardR_def liftO_def ofOption_def bindR_def split: sum.splits option.splits)
  show ?thesis
    using gate simulate_wp [of sid symbol q p side actor ts s] by (auto simp: wp_def split: prod.splits sum.splits)
qed

text \<open>The observations a summary counts in none of its three groups.\<close>

definition uncounted :: "paper_observation list \<Rightarrow> int" where
  "uncounted xs = int (length (filter (\<lambda>x. fo_status x \<notin> trading_status_value ` {TS_SIMULATED, TS_REJECTED, TS_BLOCKED, TS_FAILED}) xs))"

lemma counts_partition:
  "int (length xs) = count_status [trading_status_value TS_SIMULATED] xs +
     count_status [trading_status_value TS_REJECTED, trading_status_value TS_BLOCKED] xs +
     count_status [trading_status_value TS_FAILED] xs + uncounted xs"
  by (induction xs) (auto simp: count_status_def has_status_def uncounted_def)

text \<open>
  What a summary says. It is stored under its session and read back unchanged, carries the status
  and the champion of the session, and its counts add up: the simulated, the rejected or blocked, the
  failed orders and those of any other status are together the observations of the session.
\<close>

theorem paper_summary_counts:
  assumes "paper_summarize sid ts s = (Inr m, t)"
  shows "pr_get_summary (fm_session_id m) (pf_repo t) = Inr m \<and>
    (\<exists>x xs. pr_get_session sid (pf_repo s) = Inr x \<and> pr_list_observations sid (pf_repo s) = Inr xs \<and>
      fm_status m = fs_status x \<and> fm_version_id m = fs_version_id x \<and> fm_fingerprint m = fs_fingerprint x \<and>
      fm_simulated_orders m = int (length xs) \<and> 0 \<le> fm_fills m \<and> 0 \<le> fm_rejected m \<and> 0 \<le> fm_failed m \<and>
      fm_simulated_orders m = fm_fills m + fm_rejected m + fm_failed m + uncounted xs)"
proof -
  obtain x xs where x: "pr_get_session sid (pf_repo s) = Inr x" "pr_list_observations sid (pf_repo s) = Inr xs"
    "m = paper_summary_of x xs ts" "pf_repo t = pr_put_summary m (pf_repo s)"
    using wp_Inr [OF summarize_wp assms] by auto
  show ?thesis
    using counts_partition [of xs] x by (auto simp: pr_get_summary_def pr_put_summary_def paper_summary_of_def)
      (auto simp: count_status_def)
qed

section \<open>Witnesses\<close>

definition sample_paper :: paper_env where
  "sample_paper = fold paper_run [PC_Registry (ry_repo sample_champions),
     PC_Create ''s1'' ''main'' None None ''actor'' ''2026-01-03T00:00:00Z'',
     PC_Start ''s1'' ''actor'' ''2026-01-03T00:00:01Z''] (paper_env_init None None None (paper_init True False))"

lemma sample_paper_session: "case t_get ''s1'' (pr_sessions (pf_repo sample_paper)) of Some x \<Rightarrow> fs_status x = SS_ACTIVE | None \<Rightarrow> False"
  by code_simp

definition sample_observation :: "string \<Rightarrow> trading_status \<Rightarrow> string \<times> paper_observation" where
  "sample_observation oid st = (oid, \<lparr>fo_observation_id = oid, fo_session_id = ''s1'', fo_observed_at = ''2026-01-03T00:00:02Z'',
     fo_trading_result_id = None, fo_status = trading_status_value st, fo_notional = Fin 0, fo_message = ''m''\<rparr>)"

definition sample_observed :: paper_env where
  "sample_observed = sample_paper\<lparr>pf_repo := (pf_repo sample_paper)\<lparr>pr_observations :=
     [sample_observation ''o1'' TS_SIMULATED, sample_observation ''o2'' TS_BLOCKED, sample_observation ''o3'' TS_CANCELLED]\<rparr>\<rparr>"

lemma sample_paper_summary: "case paper_summarize ''s1'' ''2026-01-03T00:00:09Z'' sample_observed of
    (Inr m, t) \<Rightarrow> fm_fills m = 1 \<and> fm_rejected m = 1 \<and> fm_simulated_orders m = 3 | (Inl e, t) \<Rightarrow> False"
  by code_simp

theorem paper_summary_counts_witness:
  "\<exists>m t. paper_summarize ''s1'' ''2026-01-03T00:00:09Z'' sample_observed = (Inr m, t) \<and>
    pr_get_summary (fm_session_id m) (pf_repo t) = Inr m \<and> fm_fills m = 1 \<and> fm_simulated_orders m = 3"
proof -
  obtain m t where r: "paper_summarize ''s1'' ''2026-01-03T00:00:09Z'' sample_observed = (Inr m, t)"
    and m: "fm_fills m = 1" "fm_simulated_orders m = 3"
    using sample_paper_summary by (auto split: prod.splits sum.splits)
  show ?thesis by (intro exI conjI) (rule r, use paper_summary_counts [OF r] in blast, rule m, rule m)
qed

theorem paper_session_lifecycle_witness:
  "\<exists>y. t_get ''s1'' (pr_sessions (pf_repo (paper_run (PC_Pause ''s1'' ''actor'' ''2026-01-04T00:00:00Z'') sample_paper))) = Some y \<and>
    fs_status y \<noteq> SS_FAILED"
proof -
  let ?cs = "[PC_Registry (ry_repo sample_champions), PC_Create ''s1'' ''main'' None None ''actor'' ''2026-01-03T00:00:00Z'',
     PC_Start ''s1'' ''actor'' ''2026-01-03T00:00:01Z'']"
  let ?d = "PC_Pause ''s1'' ''actor'' ''2026-01-04T00:00:00Z''"
  obtain x where x: "t_get ''s1'' (pr_sessions (pf_repo (fold paper_run ?cs (paper_env_init None None None (paper_init True False))))) = Some x"
    "fs_status x = SS_ACTIVE"
    using sample_paper_session unfolding sample_paper_def by (auto split: option.splits)
  obtain y where y: "t_get ''s1'' (pr_sessions (pf_repo (fold paper_run (?cs @ [?d]) (paper_env_init None None None (paper_init True False))))) = Some y"
    "session_step\<^sup>*\<^sup>* x y"
    using paper_session_lifecycle [OF x(1), of "[?d]"] by blast
  then show ?thesis using x(2) session_steps_facts(3) [OF y(2)] unfolding sample_paper_def by auto
qed

end
