(* ===== verification/PaperRevalidation.thy ===== *)
theory PaperRevalidation
  imports PaperForward
begin

text \<open>
  \<open>gaon/adapters/paper_revalidation.py\<close>: the safety gates a finished paper test passes before it may
  be considered for live trading. The seven rules, the status they give, the report with its stored
  form, the repository and the engine. The lemmas show exactly which sessions are eligible, that the
  status is the most severe of the rules, that a stored report is read back unchanged, and that no
  summary the paper service produces can be eligible.
\<close>

definition revalidation_policy_version :: string where
  "revalidation_policy_version = ''paper_revalidation_policy_v1''"

datatype revalidation_status = RV_LIVE_ELIGIBLE | RV_HOLD | RV_KILL | RV_ROLLBACK | RV_REVIEW
datatype gate_decision = RG_PASS | RG_HOLD | RG_KILL | RG_ROLLBACK | RG_REVIEW
datatype kill_reason = KG_EXECUTION | KG_SESSION | KG_FINGERPRINT | KG_IMPOSSIBLE | KG_DRAWDOWN

fun revalidation_status_value :: "revalidation_status \<Rightarrow> string" where
  "revalidation_status_value RV_LIVE_ELIGIBLE = ''live_eligible''"
| "revalidation_status_value RV_HOLD = ''hold''"
| "revalidation_status_value RV_KILL = ''kill''"
| "revalidation_status_value RV_ROLLBACK = ''rollback_recommended''"
| "revalidation_status_value RV_REVIEW = ''review''"

fun gate_decision_value :: "gate_decision \<Rightarrow> string" where
  "gate_decision_value RG_PASS = ''pass''"
| "gate_decision_value RG_HOLD = ''hold''"
| "gate_decision_value RG_KILL = ''kill''"
| "gate_decision_value RG_ROLLBACK = ''rollback_recommended''"
| "gate_decision_value RG_REVIEW = ''review''"

fun kill_reason_value :: "kill_reason \<Rightarrow> string" where
  "kill_reason_value KG_EXECUTION = ''critical_execution_error''"
| "kill_reason_value KG_SESSION = ''corrupted_session_state''"
| "kill_reason_value KG_FINGERPRINT = ''fingerprint_mismatch''"
| "kill_reason_value KG_IMPOSSIBLE = ''impossible_metric''"
| "kill_reason_value KG_DRAWDOWN = ''extreme_paper_drawdown''"

definition revalidation_status_of :: "string \<Rightarrow> revalidation_status res" where
  "revalidation_status_of s = ofOption (ValueError ''not a valid PaperRevalidationStatus'')
     (find (\<lambda>m. revalidation_status_value m = s) [RV_LIVE_ELIGIBLE, RV_HOLD, RV_KILL, RV_ROLLBACK, RV_REVIEW])"

definition gate_decision_of :: "string \<Rightarrow> gate_decision res" where
  "gate_decision_of s = ofOption (ValueError ''not a valid RiskGateDecision'')
     (find (\<lambda>m. gate_decision_value m = s) [RG_PASS, RG_HOLD, RG_KILL, RG_ROLLBACK, RG_REVIEW])"

definition kill_reason_of :: "string \<Rightarrow> kill_reason res" where
  "kill_reason_of s = ofOption (ValueError ''not a valid KillGateReason'')
     (find (\<lambda>m. kill_reason_value m = s) [KG_EXECUTION, KG_SESSION, KG_FINGERPRINT, KG_IMPOSSIBLE, KG_DRAWDOWN])"

lemma revalidation_enums_roundtrip [simp]:
  "revalidation_status_of (revalidation_status_value a) = Inr a" "gate_decision_of (gate_decision_value b) = Inr b"
  "kill_reason_of (kill_reason_value c) = Inr c"
  subgoal by (cases a) (simp_all add: revalidation_status_of_def)
  subgoal by (cases b) (simp_all add: gate_decision_of_def)
  subgoal by (cases c) (simp_all add: kill_reason_of_def)
  done

section \<open>Data\<close>

record revalidation_policy =
  rp_policy_version :: string
  rp_min_trades :: int
  rp_max_drawdown :: pyfloat
  rp_kill_drawdown :: pyfloat
  rp_max_rejection_rate :: pyfloat

definition revalidation_policy_default :: revalidation_policy where
  "revalidation_policy_default = \<lparr>rp_policy_version = revalidation_policy_version, rp_min_trades = 20,
     rp_max_drawdown = fl (20 / 100), rp_kill_drawdown = fl (35 / 100), rp_max_rejection_rate = Fin (1 / 4)\<rparr>"

record revalidation_request =
  rq_revalidation_id :: string
  rq_session_id :: string
  rq_version_id :: string
  rq_policy_version :: string
  rq_requested_at :: string
  rq_actor_ref :: string

definition build_revalidation_request :: "string \<Rightarrow> paper_session \<Rightarrow> string \<Rightarrow> string \<Rightarrow> revalidation_policy option \<Rightarrow> revalidation_request" where
  "build_revalidation_request rid x actor ts policy = \<lparr>rq_revalidation_id = rid, rq_session_id = fs_session_id x,
     rq_version_id = fs_version_id x,
     rq_policy_version = rp_policy_version (case policy of Some p \<Rightarrow> p | None \<Rightarrow> revalidation_policy_default),
     rq_requested_at = ts, rq_actor_ref = actor\<rparr>"

record gate_result =
  gr_rule :: string
  gr_decision :: gate_decision
  gr_observed :: string
  gr_threshold :: string
  gr_message :: string

definition gate_rule :: "string \<Rightarrow> gate_decision \<Rightarrow> string \<Rightarrow> string \<Rightarrow> string \<Rightarrow> gate_result" where
  "gate_rule r d obs thr msg = \<lparr>gr_rule = r, gr_decision = d, gr_observed = obs, gr_threshold = thr, gr_message = msg\<rparr>"

record rollback_advice =
  ra_recommended :: bool
  ra_reason :: string
  ra_previous :: "string option"

record revalidation_report =
  rv_revalidation_id :: string
  rv_status :: revalidation_status
  rv_policy_version :: string
  rv_session_id :: string
  rv_version_id :: string
  rv_fingerprint :: string
  rv_rules :: "gate_result list"
  rv_warnings :: "string list"
  rv_kill_reasons :: "kill_reason list"
  rv_rollback :: rollback_advice
  rv_generated_at :: string

definition gate_to_json :: "gate_result \<Rightarrow> json" where
  "gate_to_json g = JObj [(''rule'', JStr (gr_rule g)), (''decision'', JStr (gate_decision_value (gr_decision g))),
     (''observed'', JStr (gr_observed g)), (''threshold'', JStr (gr_threshold g)), (''message'', JStr (gr_message g))]"

definition rollback_to_json :: "rollback_advice \<Rightarrow> json" where
  "rollback_to_json a = JObj [(''recommended'', JBool (ra_recommended a)), (''reason'', JStr (ra_reason a)),
     (''previous_champion_ref'', of_opt (ra_previous a))]"

definition revalidation_to_json :: "revalidation_report \<Rightarrow> obj" where
  "revalidation_to_json r = [(''revalidation_id'', JStr (rv_revalidation_id r)),
     (''status'', JStr (revalidation_status_value (rv_status r))), (''policy_version'', JStr (rv_policy_version r)),
     (''session_id'', JStr (rv_session_id r)), (''champion_version_id'', JStr (rv_version_id r)),
     (''fingerprint'', JStr (rv_fingerprint r)), (''rule_results'', JArr (map gate_to_json (rv_rules r))),
     (''warnings'', jstrs (rv_warnings r)), (''kill_reasons'', jstrs (map kill_reason_value (rv_kill_reasons r))),
     (''rollback'', rollback_to_json (rv_rollback r)), (''generated_at'', JStr (rv_generated_at r))]"

definition gate_from_json :: "json \<Rightarrow> gate_result res" where
  "gate_from_json j = bindR (need_obj j) (\<lambda>o'. bindR (jreq o' ''rule'') (\<lambda>r.
     bindR (bindR (jreq o' ''decision'') (\<lambda>v. gate_decision_of (py_str v))) (\<lambda>d. bindR (jreq o' ''observed'') (\<lambda>obs.
     bindR (jreq o' ''threshold'') (\<lambda>thr. bindR (jreq o' ''message'') (\<lambda>msg.
     Inr (gate_rule (py_str r) d (py_str obs) (py_str thr) (py_str msg))))))))"

definition need_bool :: "json \<Rightarrow> bool res" where
  "need_bool j = (case j of JBool b \<Rightarrow> Inr b | _ \<Rightarrow> Inl (TypeError ''expected bool''))"

definition rollback_from_json :: "json \<Rightarrow> rollback_advice res" where
  "rollback_from_json j = bindR (need_obj j) (\<lambda>o'. bindR (bindR (jreq o' ''recommended'') need_bool) (\<lambda>b.
     bindR (bindR (jreq o' ''reason'') need_str) (\<lambda>r. bindR (bindR (jreq o' ''previous_champion_ref'') need_opt_str) (\<lambda>p.
     Inr \<lparr>ra_recommended = b, ra_reason = r, ra_previous = p\<rparr>))))"

definition revalidation_from_json :: "obj \<Rightarrow> revalidation_report res" where
  "revalidation_from_json o' =
    bindR (jreq o' ''revalidation_id'') (\<lambda>rid. bindR (bindR (jreq o' ''status'') (\<lambda>v. revalidation_status_of (py_str v))) (\<lambda>st.
    bindR (jreq o' ''policy_version'') (\<lambda>pv. bindR (jreq o' ''session_id'') (\<lambda>sid. bindR (jreq o' ''champion_version_id'') (\<lambda>vid.
    bindR (jreq o' ''fingerprint'') (\<lambda>fp.
    bindR (bindR (bindR (jreq o' ''rule_results'') jiter) (mapR gate_from_json)) (\<lambda>rs.
    bindR (str_items o' ''warnings'') (\<lambda>ws.
    bindR (bindR (str_items o' ''kill_reasons'') (mapR kill_reason_of)) (\<lambda>ks.
    bindR (bindR (jreq o' ''rollback'') rollback_from_json) (\<lambda>rb. bindR (jreq o' ''generated_at'') (\<lambda>ga.
    Inr \<lparr>rv_revalidation_id = py_str rid, rv_status = st, rv_policy_version = py_str pv, rv_session_id = py_str sid,
      rv_version_id = py_str vid, rv_fingerprint = py_str fp, rv_rules = rs, rv_warnings = ws, rv_kill_reasons = ks,
      rv_rollback = rb, rv_generated_at = py_str ga\<rparr>)))))))))))"

lemma revalidation_roundtrip: "revalidation_from_json (ocanon (revalidation_to_json r)) = Inr r"
proof -
  have g: "mapR gate_from_json (map (jcanon \<circ> gate_to_json) xs) = Inr xs" for xs
    by (rule mapR_map_id) (simp add: gate_from_json_def gate_to_json_def gate_rule_def)
  have k: "mapR kill_reason_of (map kill_reason_value ks) = Inr ks" for ks
    using mapR_map_id [of ks kill_reason_of kill_reason_value] by simp
  have b: "rollback_from_json (jcanon (rollback_to_json a)) = Inr a" for a
    by (simp add: rollback_from_json_def rollback_to_json_def need_bool_def)
  show ?thesis
    by (simp add: revalidation_from_json_def revalidation_to_json_def str_items_def jstrs_def comp_def g [unfolded comp_def] k b)
qed

section \<open>The rules\<close>

definition session_state_rule :: "paper_session \<Rightarrow> paper_summary \<Rightarrow> gate_result" where
  "session_state_rule x m = (let st = session_status_value (fs_status x) in
     if fs_status x \<noteq> fm_status m then gate_rule ''session_state'' RG_KILL (st @ ''/'' @ session_status_value (fm_status m)) ''matching''
       ''session and summary state mismatch''
     else if fs_status x = SS_COMPLETED then gate_rule ''session_state'' RG_PASS st ''completed'' ''paper session completed''
     else if fs_status x = SS_FAILED \<or> fs_status x = SS_CANCELLED then
       gate_rule ''session_state'' RG_KILL st ''completed'' ''paper session ended in unsafe state''
     else gate_rule ''session_state'' RG_HOLD st ''completed'' ''paper session is not complete'')"

definition champion_match :: "registry_entry \<Rightarrow> paper_session \<Rightarrow> paper_summary \<Rightarrow> bool" where
  "champion_match a x m \<longleftrightarrow> \<not> (re_version_id a \<noteq> fs_version_id x \<or> re_fingerprint a \<noteq> fs_fingerprint x \<or> fs_fingerprint x \<noteq> fm_fingerprint m)"

definition fingerprint_rule :: "registry_entry \<Rightarrow> paper_session \<Rightarrow> paper_summary \<Rightarrow> gate_result" where
  "fingerprint_rule a x m = (if \<not> champion_match a x m
     then gate_rule ''champion_fingerprint'' RG_KILL (re_fingerprint a @ ''/'' @ fs_fingerprint x @ ''/'' @ fm_fingerprint m) ''all equal''
       ''active Champion fingerprint mismatch''
     else gate_rule ''champion_fingerprint'' RG_PASS (fs_fingerprint x) ''matches active'' ''Champion fingerprint remained unchanged'')"

definition paper_trade_count_rule :: "paper_summary \<Rightarrow> revalidation_policy \<Rightarrow> gate_result" where
  "paper_trade_count_rule m p = (let n = dec_int (fm_simulated_orders m); t = ''>= '' @ dec_int (rp_min_trades p) in
     if fm_simulated_orders m < rp_min_trades p then gate_rule ''simulated_trade_count'' RG_HOLD n t ''insufficient paper trade count''
     else gate_rule ''simulated_trade_count'' RG_PASS n t ''paper trade count threshold met'')"

definition critical_errors :: "paper_summary \<Rightarrow> int" where
  "critical_errors m = fm_failed m + int (length (fm_errors m))"

definition execution_error_rule :: "paper_summary \<Rightarrow> gate_result" where
  "execution_error_rule m = (if 0 < critical_errors m
     then gate_rule ''critical_execution_errors'' RG_KILL (dec_int (critical_errors m)) ''0'' ''critical paper execution error detected''
     else gate_rule ''critical_execution_errors'' RG_PASS ''0'' ''0'' ''no critical execution errors'')"

definition paper_drawdown_rule :: "paper_summary \<Rightarrow> revalidation_policy \<Rightarrow> gate_result" where
  "paper_drawdown_rule m p = (let r = gate_rule ''paper_drawdown''; limit = ''<= '' @ fixed_fmt 2 (rp_max_drawdown p) in
     case fm_max_drawdown m of
       None \<Rightarrow> r RG_REVIEW ''missing'' limit ''paper drawdown metric is unavailable''
     | Some d \<Rightarrow>
         if flt d (Fin 0) \<or> fgt d (Fin 1) then r RG_KILL (fixed_fmt 4 d) ''0..1'' ''impossible paper drawdown metric''
         else if fge d (rp_kill_drawdown p) then
           r RG_KILL (fixed_fmt 4 d) (''< '' @ fixed_fmt 2 (rp_kill_drawdown p)) ''paper drawdown exceeded hard kill threshold''
         else if fgt d (rp_max_drawdown p) then r RG_ROLLBACK (fixed_fmt 4 d) limit ''paper drawdown materially exceeded policy''
         else r RG_PASS (fixed_fmt 4 d) limit ''paper drawdown within policy'')"

definition rejection_rate_rule :: "paper_summary \<Rightarrow> revalidation_policy \<Rightarrow> gate_result res" where
  "rejection_rate_rule m p = (let r = gate_rule ''execution_rejection_rate''; limit = ''<= '' @ fixed_fmt 2 (rp_max_rejection_rate p) in
     if fm_simulated_orders m = 0 then Inr (r RG_HOLD ''missing'' limit ''rejection rate unavailable without paper orders'')
     else bindR (int_div (fm_rejected m) (fm_simulated_orders m)) (\<lambda>rate.
       Inr (if fgt rate (rp_max_rejection_rate p) then r RG_ROLLBACK (fixed_fmt 4 rate) limit ''paper rejection rate is elevated''
            else r RG_PASS (fixed_fmt 4 rate) limit ''paper rejection rate within policy'')))"

definition missing_metrics :: "paper_summary \<Rightarrow> string list" where
  "missing_metrics m = map fst (filter (\<lambda>nv. snd nv = None)
     [(''realized_paper_pnl'', fm_realized_pnl m), (''unrealized_paper_pnl'', fm_unrealized_pnl m), (''exposure'', fm_exposure m)])"

definition missing_metric_rule :: "paper_summary \<Rightarrow> gate_result" where
  "missing_metric_rule m = (if missing_metrics m \<noteq> []
     then gate_rule ''optional_metrics'' RG_REVIEW (join '','' (missing_metrics m)) ''record only''
       ''optional paper metrics unavailable; values were not fabricated''
     else gate_rule ''optional_metrics'' RG_PASS ''available'' ''record only'' ''optional paper metrics available'')"

definition revalidation_rules :: "revalidation_policy \<Rightarrow> registry_entry \<Rightarrow> paper_session \<Rightarrow> paper_summary \<Rightarrow> gate_result list res" where
  "revalidation_rules p a x m = bindR (rejection_rate_rule m p) (\<lambda>rr.
     Inr [session_state_rule x m, fingerprint_rule a x m, paper_trade_count_rule m p, execution_error_rule m, paper_drawdown_rule m p,
       rr, missing_metric_rule m])"

definition any_gate :: "gate_decision \<Rightarrow> gate_result list \<Rightarrow> bool" where
  "any_gate d rs = list_ex (\<lambda>r. gr_decision r = d) rs"

definition revalidation_status_from :: "gate_result list \<Rightarrow> revalidation_status" where
  "revalidation_status_from rs = (if any_gate RG_KILL rs then RV_KILL else if any_gate RG_ROLLBACK rs then RV_ROLLBACK
     else if any_gate RG_HOLD rs then RV_HOLD else if any_gate RG_REVIEW rs then RV_REVIEW else RV_LIVE_ELIGIBLE)"

definition kill_mapping :: "(string \<times> kill_reason) list" where
  "kill_mapping = [(''critical_execution_errors'', KG_EXECUTION), (''session_state'', KG_SESSION),
     (''champion_fingerprint'', KG_FINGERPRINT), (''paper_drawdown'', KG_DRAWDOWN)]"

definition kill_reasons_of :: "gate_result list \<Rightarrow> kill_reason list" where
  "kill_reasons_of rs = List.map_filter (\<lambda>r. if gr_decision r = RG_KILL then map_of kill_mapping (gr_rule r) else None) rs"

fun revalidation_event_name :: "revalidation_status \<Rightarrow> string" where
  "revalidation_event_name RV_LIVE_ELIGIBLE = ''LiveEligibilityGranted''"
| "revalidation_event_name RV_HOLD = ''PaperRiskHoldTriggered''"
| "revalidation_event_name RV_KILL = ''PaperKillGateTriggered''"
| "revalidation_event_name RV_ROLLBACK = ''ChampionRollbackRecommended''"
| "revalidation_event_name RV_REVIEW = ''PaperRevalidationReviewRequired''"

fun revalidation_counter :: "revalidation_status \<Rightarrow> string" where
  "revalidation_counter RV_LIVE_ELIGIBLE = ''gaon_live_eligible_total''"
| "revalidation_counter RV_HOLD = ''gaon_paper_hold_total''"
| "revalidation_counter RV_KILL = ''gaon_paper_kill_total''"
| "revalidation_counter RV_ROLLBACK = ''gaon_rollback_recommended_total''"
| "revalidation_counter RV_REVIEW = ''gaon_revalidation_review_total''"

section \<open>Repository and engine\<close>

record revalidation_repo =
  rv_requests :: "revalidation_request table"
  rv_reports :: "(string \<times> obj) table"

definition revalidation_repo_init :: revalidation_repo where
  "revalidation_repo_init = \<lparr>rv_requests = [], rv_reports = []\<rparr>"

definition revalidation_add_request :: "revalidation_request \<Rightarrow> revalidation_repo \<Rightarrow> revalidation_repo" where
  "revalidation_add_request q repo = repo\<lparr>rv_requests := t_replace (rq_revalidation_id q) q (rv_requests repo)\<rparr>"

definition revalidation_add_report :: "revalidation_report \<Rightarrow> revalidation_repo \<Rightarrow> revalidation_repo" where
  "revalidation_add_report r repo = repo\<lparr>rv_reports :=
     t_replace (rv_revalidation_id r) (rv_generated_at r, ocanon (revalidation_to_json r)) (rv_reports repo)\<rparr>"

definition revalidation_get_report :: "string \<Rightarrow> revalidation_repo \<Rightarrow> revalidation_report res" where
  "revalidation_get_report rid repo = bindR (ofOption (KeyError rid) (t_get rid (rv_reports repo)))
     (\<lambda>row. revalidation_from_json (snd row))"

definition revalidation_list_reports :: "revalidation_repo \<Rightarrow> revalidation_report list res" where
  "revalidation_list_reports repo = mapR (\<lambda>(k, g, p). revalidation_from_json p) (sort_key (\<lambda>(k, g, p). (g, k)) (rv_reports repo))"

record revalidation_env = env +
  rv_repo :: "revalidation_repo option"

definition revalidation_event :: "string \<Rightarrow> revalidation_request \<Rightarrow> revalidation_report option \<Rightarrow> string \<Rightarrow> durable_event" where
  "revalidation_event event_type q rep ts =
    \<lparr>de_event_id = ''event:paper-revalidation:'' @ event_type @ '':'' @ rq_revalidation_id q, de_event_type = event_type,
     de_occurred_at = ts, de_actor_ref = rq_actor_ref q, de_correlation_id = rq_revalidation_id q,
     de_causation_id = Some (rq_session_id q), de_scope = ''paper_revalidation'', de_project = ''StrategyLab'',
     de_strategy = ''N/A'', de_market = ''N/A'',
     de_payload = [(''revalidation_id'', JStr (rq_revalidation_id q)), (''session_id'', JStr (rq_session_id q)),
       (''status'', JStr (case rep of Some r \<Rightarrow> revalidation_status_value (rv_status r) | None \<Rightarrow> ''requested''))],
     de_evidence_refs = [rq_session_id q, rq_version_id q], de_audit_refs = [], de_appended_at = ts\<rparr>"

definition rv_update :: "(revalidation_repo \<Rightarrow> revalidation_repo) \<Rightarrow> (revalidation_env, unit) opr" where
  "rv_update f = modO (\<lambda>s. s\<lparr>rv_repo := map_option f (rv_repo s)\<rparr>)"

definition rollback_for :: "revalidation_status \<Rightarrow> registry_entry \<Rightarrow> rollback_advice" where
  "rollback_for st a = \<lparr>ra_recommended = (st = RV_ROLLBACK),
     ra_reason = (if st = RV_ROLLBACK then ''paper risk deterioration recommends human-reviewed rollback'' else ''not recommended''),
     ra_previous = re_previous a\<rparr>"

definition revalidation_report_of :: "revalidation_policy \<Rightarrow> revalidation_request \<Rightarrow> registry_entry \<Rightarrow> paper_session \<Rightarrow> gate_result list \<Rightarrow> string \<Rightarrow> revalidation_report" where
  "revalidation_report_of p q a x rs ts = (let st = revalidation_status_from rs in
     \<lparr>rv_revalidation_id = rq_revalidation_id q, rv_status = st, rv_policy_version = rp_policy_version p,
      rv_session_id = fs_session_id x, rv_version_id = fs_version_id x, rv_fingerprint = fs_fingerprint x, rv_rules = rs,
      rv_warnings = map gr_message (filter (\<lambda>r. gr_decision r \<in> {RG_HOLD, RG_REVIEW, RG_ROLLBACK}) rs),
      rv_kill_reasons = kill_reasons_of rs, rv_rollback = rollback_for st a, rv_generated_at = ts\<rparr>)"

definition revalidate :: "revalidation_policy \<Rightarrow> revalidation_request \<Rightarrow> registry_entry \<Rightarrow> paper_session \<Rightarrow> paper_summary \<Rightarrow> string \<Rightarrow> (revalidation_env, revalidation_report) opr" where
  "revalidate p q a x m ts =
    thenO (liftO (validate_utc ts))
    (thenO (rv_update (revalidation_add_request q))
    (thenO (record_once (revalidation_event ''PaperRevalidationRequested'' q None ts))
    (thenO (record_once (revalidation_event ''PaperRevalidationStarted'' q None ts))
    (thenO (increment ''paper_revalidation'' ''gaon_paper_revalidations_total'')
    (bindO (liftO (revalidation_rules p a x m)) (\<lambda>rs.
    bindO (retO (revalidation_report_of p q a x rs ts)) (\<lambda>report.
    thenO (rv_update (revalidation_add_report report))
    (thenO (record_once (revalidation_event ''PaperRevalidationCompleted'' q (Some report) ts))
    (thenO (record_once (revalidation_event (revalidation_event_name (rv_status report)) q (Some report) ts))
    (thenO (increment ''paper_revalidation'' (revalidation_counter (rv_status report))) (retO report)))))))))))"

section \<open>What the status means\<close>

definition live_eligible :: "revalidation_policy \<Rightarrow> registry_entry \<Rightarrow> paper_session \<Rightarrow> paper_summary \<Rightarrow> bool" where
  "live_eligible p a x m \<longleftrightarrow> fs_status x = SS_COMPLETED \<and> fm_status m = SS_COMPLETED \<and> champion_match a x m \<and>
    rp_min_trades p \<le> fm_simulated_orders m \<and> critical_errors m \<le> 0 \<and>
    (\<exists>d. fm_max_drawdown m = Some d \<and> \<not> flt d (Fin 0) \<and> \<not> fgt d (Fin 1) \<and> \<not> fge d (rp_kill_drawdown p) \<and> \<not> fgt d (rp_max_drawdown p)) \<and>
    (\<exists>rate. int_div (fm_rejected m) (fm_simulated_orders m) = Inr rate \<and> \<not> fgt rate (rp_max_rejection_rate p)) \<and>
    fm_realized_pnl m \<noteq> None \<and> fm_unrealized_pnl m \<noteq> None \<and> fm_exposure m \<noteq> None"

definition must_kill :: "revalidation_policy \<Rightarrow> registry_entry \<Rightarrow> paper_session \<Rightarrow> paper_summary \<Rightarrow> bool" where
  "must_kill p a x m \<longleftrightarrow> fs_status x \<noteq> fm_status m \<or> fs_status x = SS_FAILED \<or> fs_status x = SS_CANCELLED \<or> \<not> champion_match a x m \<or>
    0 < critical_errors m \<or>
    (\<exists>d. fm_max_drawdown m = Some d \<and> (flt d (Fin 0) \<or> fgt d (Fin 1) \<or> fge d (rp_kill_drawdown p)))"

lemma gate_rule_simps [simp]:
  "gr_rule (gate_rule r d b c e) = r" "gr_decision (gate_rule r d b c e) = d" "gr_message (gate_rule r d b c e) = e"
  by (simp_all add: gate_rule_def)

lemma gates_pass:
  "gr_decision (session_state_rule x m) = RG_PASS \<longleftrightarrow> fs_status x = SS_COMPLETED \<and> fm_status m = SS_COMPLETED"
  "gr_decision (fingerprint_rule a x m) = RG_PASS \<longleftrightarrow> champion_match a x m"
  "gr_decision (paper_trade_count_rule m p) = RG_PASS \<longleftrightarrow> rp_min_trades p \<le> fm_simulated_orders m"
  "gr_decision (execution_error_rule m) = RG_PASS \<longleftrightarrow> critical_errors m \<le> 0"
  "gr_decision (paper_drawdown_rule m p) = RG_PASS \<longleftrightarrow> (\<exists>d. fm_max_drawdown m = Some d \<and> \<not> flt d (Fin 0) \<and> \<not> fgt d (Fin 1) \<and>
     \<not> fge d (rp_kill_drawdown p) \<and> \<not> fgt d (rp_max_drawdown p))"
  "gr_decision (missing_metric_rule m) = RG_PASS \<longleftrightarrow> fm_realized_pnl m \<noteq> None \<and> fm_unrealized_pnl m \<noteq> None \<and> fm_exposure m \<noteq> None"
  subgoal by (auto simp: session_state_rule_def Let_def)
  subgoal by (simp add: fingerprint_rule_def)
  subgoal by (auto simp: paper_trade_count_rule_def Let_def)
  subgoal by (auto simp: execution_error_rule_def)
  subgoal by (auto simp: paper_drawdown_rule_def Let_def split: option.splits)
  subgoal by (auto simp: missing_metric_rule_def missing_metrics_def)
  done

lemma gates_kill:
  "gr_decision (session_state_rule x m) = RG_KILL \<longleftrightarrow> fs_status x \<noteq> fm_status m \<or> fs_status x = SS_FAILED \<or> fs_status x = SS_CANCELLED"
  "gr_decision (fingerprint_rule a x m) = RG_KILL \<longleftrightarrow> \<not> champion_match a x m"
  "gr_decision (paper_trade_count_rule m p) \<noteq> RG_KILL"
  "gr_decision (execution_error_rule m) = RG_KILL \<longleftrightarrow> 0 < critical_errors m"
  "gr_decision (paper_drawdown_rule m p) = RG_KILL \<longleftrightarrow>
     (\<exists>d. fm_max_drawdown m = Some d \<and> (flt d (Fin 0) \<or> fgt d (Fin 1) \<or> fge d (rp_kill_drawdown p)))"
  "gr_decision (missing_metric_rule m) \<noteq> RG_KILL"
  subgoal by (auto simp: session_state_rule_def Let_def)
  subgoal by (simp add: fingerprint_rule_def)
  subgoal by (simp add: paper_trade_count_rule_def Let_def)
  subgoal by (simp add: execution_error_rule_def)
  subgoal by (auto simp: paper_drawdown_rule_def Let_def split: option.splits)
  subgoal by (simp add: missing_metric_rule_def)
  done

lemma rejection_gate:
  assumes "rejection_rate_rule m p = Inr r"
  shows "gr_decision r \<noteq> RG_KILL" and "gr_decision r = RG_PASS \<longleftrightarrow>
    (\<exists>rate. int_div (fm_rejected m) (fm_simulated_orders m) = Inr rate \<and> \<not> fgt rate (rp_max_rejection_rate p))"
proof -
  show "gr_decision r \<noteq> RG_KILL"
    using assms by (auto simp: rejection_rate_rule_def Let_def bindR_Inr_iff split: if_splits)
  show "gr_decision r = RG_PASS \<longleftrightarrow>
    (\<exists>rate. int_div (fm_rejected m) (fm_simulated_orders m) = Inr rate \<and> \<not> fgt rate (rp_max_rejection_rate p))"
  proof (cases "fm_simulated_orders m = 0")
    case True
    then show ?thesis using assms by (auto simp: rejection_rate_rule_def Let_def int_div_def)
  next
    case False
    then obtain rate where rate: "int_div (fm_rejected m) (fm_simulated_orders m) = Inr rate"
      and "gr_decision r = (if fgt rate (rp_max_rejection_rate p) then RG_ROLLBACK else RG_PASS)"
      using assms by (auto simp: rejection_rate_rule_def Let_def bindR_Inr_iff)
    then show ?thesis by simp
  qed
qed

lemma status_from:
  "revalidation_status_from rs = RV_LIVE_ELIGIBLE \<longleftrightarrow> (\<forall>r \<in> set rs. gr_decision r = RG_PASS)"
  "revalidation_status_from rs = RV_KILL \<longleftrightarrow> (\<exists>r \<in> set rs. gr_decision r = RG_KILL)"
proof -
  have g: "d = RG_PASS \<longleftrightarrow> d \<noteq> RG_KILL \<and> d \<noteq> RG_ROLLBACK \<and> d \<noteq> RG_HOLD \<and> d \<noteq> RG_REVIEW" for d by (cases d) simp_all
  show "revalidation_status_from rs = RV_LIVE_ELIGIBLE \<longleftrightarrow> (\<forall>r \<in> set rs. gr_decision r = RG_PASS)"
    unfolding g by (auto simp: revalidation_status_from_def any_gate_def list_ex_iff)
  show "revalidation_status_from rs = RV_KILL \<longleftrightarrow> (\<exists>r \<in> set rs. gr_decision r = RG_KILL)"
    by (auto simp: revalidation_status_from_def any_gate_def list_ex_iff)
qed

lemma rules_status:
  assumes "revalidation_rules p a x m = Inr rs"
  shows "revalidation_status_from rs = RV_LIVE_ELIGIBLE \<longleftrightarrow> live_eligible p a x m"
    and "revalidation_status_from rs = RV_KILL \<longleftrightarrow> must_kill p a x m"
proof -
  obtain r where r: "rejection_rate_rule m p = Inr r" and rs: "rs = [session_state_rule x m, fingerprint_rule a x m, paper_trade_count_rule m p,
      execution_error_rule m, paper_drawdown_rule m p, r, missing_metric_rule m]"
    using assms by (auto simp: revalidation_rules_def bindR_Inr_iff)
  show "revalidation_status_from rs = RV_LIVE_ELIGIBLE \<longleftrightarrow> live_eligible p a x m"
    unfolding status_from rs live_eligible_def list.set ball_simps insert_iff gates_pass rejection_gate(2) [OF r] by auto
  show "revalidation_status_from rs = RV_KILL \<longleftrightarrow> must_kill p a x m"
    unfolding status_from rs must_kill_def list.set by (auto simp: gates_kill rejection_gate(1) [OF r])
qed

text \<open>What a revalidation that returns has done, on every state of the event log.\<close>

lemma wp_rv_update [wp_simps]: "wp (rv_update f) Q E s = Q () (s\<lparr>rv_repo := map_option f (rv_repo s)\<rparr>)"
  by (simp add: rv_update_def wp_simps)

lemma revalidate_wp:
  "wp (revalidate p q a x m ts)
    (\<lambda>r t. \<exists>rs. revalidation_rules p a x m = Inr rs \<and> r = revalidation_report_of p q a x rs ts \<and> iso_utc ts \<and>
       rv_repo t = map_option (\<lambda>repo. revalidation_add_report r (revalidation_add_request q repo)) (rv_repo s))
    (\<lambda>e t. True) s"
  unfolding revalidate_def
  by (auto simp: wp_then wp_bind wp_basic wp_lift wp_increment wp_rv_update validate_utc_def guardR_def option.map_comp comp_def
      intro!: wp_record_onceI split: sum.splits)

lemma revalidateE:
  assumes "revalidate p q a x m ts s = (Inr r, t)"
  obtains rs where "revalidation_rules p a x m = Inr rs" "rv_status r = revalidation_status_from rs" "rv_rules r = rs"
    "rv_revalidation_id r = rq_revalidation_id q" "r = revalidation_report_of p q a x rs ts"
    "rv_repo t = map_option (\<lambda>repo. revalidation_add_report r (revalidation_add_request q repo)) (rv_repo s)"
  using wp_Inr [OF revalidate_wp assms] by (auto simp: revalidation_report_of_def Let_def)

section \<open>Properties\<close>

text \<open>
  C38: a session becomes live eligible exactly when every gate is passed: session and summary are both
  completed, champion and fingerprints still match the active champion, there are enough simulated
  orders, no failed order and no recorded error, a drawdown that is present and exceeds no limit, a
  rejection rate within its limit, and every optional metric is present. It is killed exactly when a
  hard gate is broken, whatever the other rules say. The limits are comparisons, which a drawdown that is
  not a number passes: it is present, exceeds none of them and is not killed, although the architecture
  document wants at most 20% and a kill for an impossible metric (\<open>nan_drawdown_is_eligible\<close>).
\<close>

theorem revalidation_status_exact:
  assumes "revalidate p q a x m ts s = (Inr r, t)"
  shows "(rv_status r = RV_LIVE_ELIGIBLE \<longleftrightarrow> live_eligible p a x m) \<and> (rv_status r = RV_KILL \<longleftrightarrow> must_kill p a x m)"
  using assms by (elim revalidateE) (simp add: rules_status)

text \<open>
  The report of a revalidation is stored under the request's id and read back unchanged, field by
  field, and every other stored report is as it was.
\<close>

theorem revalidation_recorded:
  assumes "revalidate p q a x m ts s = (Inr r, t)" and "rv_repo s = Some repo"
  shows "\<exists>repo'. rv_repo t = Some repo' \<and> revalidation_get_report (rq_revalidation_id q) repo' = Inr r \<and>
    (\<forall>k. k \<noteq> rq_revalidation_id q \<longrightarrow> revalidation_get_report k repo' = revalidation_get_report k repo)"
  using assms(1)
proof (rule revalidateE)
  fix rs assume "rv_revalidation_id r = rq_revalidation_id q"
    "rv_repo t = map_option (\<lambda>repo. revalidation_add_report r (revalidation_add_request q repo)) (rv_repo s)"
  then show ?thesis
    using assms(2) by (simp add: revalidation_get_report_def revalidation_add_report_def revalidation_add_request_def
        replace_store.get_put revalidation_roundtrip)
qed

lemma summary_of_counts:
  "0 \<le> fm_rejected (paper_summary_of x xs ts)" "fm_rejected (paper_summary_of x xs ts) \<le> fm_simulated_orders (paper_summary_of x xs ts)"
  by (simp_all add: paper_summary_of_def count_status_def)

lemma rejection_rate_total:
  assumes "0 \<le> fm_rejected m" and "fm_rejected m \<le> fm_simulated_orders m"
  shows "\<exists>r. rejection_rate_rule m p = Inr r"
proof (cases "fm_simulated_orders m = 0")
  case True then show ?thesis by (simp add: rejection_rate_rule_def Let_def)
next
  case False
  let ?q = "of_int (fm_rejected m) / of_int (fm_simulated_orders m) :: rat"
  have "0 \<le> ?q" "?q \<le> 1" using assms False by (simp_all add: divide_le_eq_1)
  then obtain v where "fl ?q = Fin v" using fl_unit by blast
  then have "int_div (fm_rejected m) (fm_simulated_orders m) = Inr (Fin v)" using False by (simp add: int_div_def)
  then show ?thesis using False by (simp add: rejection_rate_rule_def Let_def)
qed

lemma revalidate_returns:
  assumes "revalidation_rules p a x m = Inr rs" and "iso_utc ts" and "env_events s = None"
  obtains r t where "revalidate p q a x m ts s = (Inr r, t)"
proof -
  have "wp (revalidate p q a x m ts) (\<lambda>r t. True) (\<lambda>e t. False) s"
    unfolding revalidate_def
    using assms by (simp add: wp_then wp_bind wp_basic wp_increment wp_rv_update wp_record_once validate_utc_def)
  then show thesis
    using that by (cases "revalidate p q a x m ts s"; cases "fst (revalidate p q a x m ts s)") (auto simp: wp_def)
qed

text \<open>
  The paper service and the revalidation together. The revalidation of a summary the paper service
  produced always returns a report (without an event log), and that report never grants live
  eligibility: the service leaves the drawdown and the other optional metrics unknown, and unknown
  metrics are sent to review at best.
\<close>

theorem paper_summary_never_live:
  assumes "paper_summarize sid ts0 s0 = (Inr m, s1)" and "iso_utc ts" and "env_events s = None"
  shows "\<exists>r t. revalidate p q a x m ts s = (Inr r, t) \<and> rv_status r \<noteq> RV_LIVE_ELIGIBLE"
proof -
  obtain y xs where m: "m = paper_summary_of y xs ts0"
    using wp_Inr [OF summarize_wp assms(1)] by auto
  obtain rr where "rejection_rate_rule m p = Inr rr"
    using rejection_rate_total [of m p] summary_of_counts unfolding m by blast
  then obtain rs where rs: "revalidation_rules p a x m = Inr rs" by (simp add: revalidation_rules_def)
  obtain r t where run: "revalidate p q a x m ts s = (Inr r, t)" by (rule revalidate_returns [OF rs assms(2,3)])
  have "\<not> live_eligible p a x m" by (simp add: live_eligible_def m paper_summary_of_def)
  then have "rv_status r \<noteq> RV_LIVE_ELIGIBLE" using run by (elim revalidateE) (simp add: rules_status)
  then show ?thesis using run by blast
qed

section \<open>Witnesses and observed behaviour\<close>

definition sample_passed_session :: paper_session where
  "sample_passed_session = \<lparr>fs_session_id = ''s1'', fs_slot = ''main'', fs_version_id = ''v1'', fs_strategy_ref = ''strategy:a'',
     fs_fingerprint = ''f'', fs_status = SS_COMPLETED, fs_policy_version = ''p'', fs_created_at = ''2026-01-01T00:00:00Z'',
     fs_started_at = None, fs_ended_at = None, fs_warnings = [], fs_errors = []\<rparr>"

definition sample_passed_summary :: "pyfloat \<Rightarrow> paper_summary" where
  "sample_passed_summary d = \<lparr>fm_session_id = ''s1'', fm_status = SS_COMPLETED, fm_version_id = ''v1'', fm_strategy_ref = ''strategy:a'',
     fm_fingerprint = ''f'', fm_simulated_orders = 20, fm_fills = 20, fm_rejected = 0, fm_failed = 0, fm_realized_pnl = Some (Fin 1),
     fm_unrealized_pnl = Some (Fin 0), fm_max_drawdown = Some d, fm_exposure = Some (Fin 0), fm_warnings = [], fm_errors = [],
     fm_generated_at = ''2026-01-01T00:00:00Z''\<rparr>"

definition sample_active :: registry_entry where
  "sample_active = \<lparr>re_slot = ''main'', re_version_id = ''v1'', re_strategy_ref = ''strategy:a'', re_fingerprint = ''f'',
     re_backtest_id = ''b'', re_validation_id = ''v'', re_evaluation_id = ''e'', re_activated_at = ''t'', re_revision = 1, re_previous = None\<rparr>"

definition sample_revalidation :: revalidation_request where
  "sample_revalidation = build_revalidation_request ''r1'' sample_passed_session ''actor'' ''2026-01-01T00:00:00Z'' None"

definition sample_revalidation_env :: revalidation_env where
  "sample_revalidation_env = \<lparr>env_events = None, env_metrics = None, rv_repo = Some revalidation_repo_init\<rparr>"

lemma sample_gates: "\<exists>rs. revalidation_rules p a x (sample_passed_summary d) = Inr rs"
  using rejection_rate_total [of "sample_passed_summary d" p] by (auto simp: revalidation_rules_def sample_passed_summary_def)

lemma sample_revalidation_run:
  obtains r t where "revalidate p sample_revalidation a x (sample_passed_summary d) ''2026-01-01T00:00:00Z'' sample_revalidation_env = (Inr r, t)"
proof -
  obtain rs where "revalidation_rules p a x (sample_passed_summary d) = Inr rs" using sample_gates by blast
  moreover have "env_events sample_revalidation_env = None" by (simp add: sample_revalidation_env_def)
  ultimately show thesis using revalidate_returns [OF _ sample_formats(1)] that by blast
qed

theorem revalidation_status_exact_witness:
  "\<exists>r t. revalidate revalidation_policy_default sample_revalidation sample_active sample_passed_session (sample_passed_summary (Fin 2))
     ''2026-01-01T00:00:00Z'' sample_revalidation_env = (Inr r, t) \<and> rv_status r = RV_KILL"
proof -
  obtain r t where r: "revalidate revalidation_policy_default sample_revalidation sample_active sample_passed_session
      (sample_passed_summary (Fin 2)) ''2026-01-01T00:00:00Z'' sample_revalidation_env = (Inr r, t)"
    by (rule sample_revalidation_run)
  have "must_kill revalidation_policy_default sample_active sample_passed_session (sample_passed_summary (Fin 2))"
    by (simp add: must_kill_def sample_passed_summary_def)
  then show ?thesis using revalidation_status_exact [OF r] r by blast
qed

theorem revalidation_recorded_witness:
  "\<exists>r t repo'. revalidate revalidation_policy_default sample_revalidation sample_active sample_passed_session (sample_passed_summary (Fin 2))
      ''2026-01-01T00:00:00Z'' sample_revalidation_env = (Inr r, t) \<and>
    rv_repo t = Some repo' \<and> revalidation_get_report ''r1'' repo' = Inr r"
proof -
  obtain r t where r: "revalidate revalidation_policy_default sample_revalidation sample_active sample_passed_session
      (sample_passed_summary (Fin 2)) ''2026-01-01T00:00:00Z'' sample_revalidation_env = (Inr r, t)"
    by (rule sample_revalidation_run)
  have "rq_revalidation_id sample_revalidation = ''r1''" by (simp add: sample_revalidation_def build_revalidation_request_def)
  then show ?thesis using revalidation_recorded [OF r, of revalidation_repo_init] r by (auto simp: sample_revalidation_env_def)
qed

theorem paper_summary_never_live_witness:
  "\<exists>m s1 r t. paper_summarize ''s1'' ''2026-01-03T00:00:09Z'' sample_observed = (Inr m, s1) \<and>
    revalidate revalidation_policy_default sample_revalidation sample_active sample_passed_session m
      ''2026-01-01T00:00:00Z'' sample_revalidation_env = (Inr r, t) \<and> rv_status r \<noteq> RV_LIVE_ELIGIBLE"
proof -
  obtain m s1 where m: "paper_summarize ''s1'' ''2026-01-03T00:00:09Z'' sample_observed = (Inr m, s1)"
    using sample_paper_summary by (auto split: prod.splits sum.splits)
  have "env_events sample_revalidation_env = None" by (simp add: sample_revalidation_env_def)
  from paper_summary_never_live [OF m sample_formats(1) this] m show ?thesis by blast
qed

text \<open>
  Observed behaviour: the limits of the drawdown are comparisons, and a drawdown that is not a number
  fails none of them. A completed session with a NaN drawdown is live eligible.
\<close>

lemma nan_drawdown_is_eligible:
  "live_eligible revalidation_policy_default sample_active sample_passed_session (sample_passed_summary NaN)"
  by (simp add: live_eligible_def sample_passed_session_def sample_passed_summary_def champion_match_def sample_active_def
      critical_errors_def revalidation_policy_default_def int_div_def fl_numeral)

end
