(* ===== verification/StrategyHandoff.thy ===== *)
theory StrategyHandoff
  imports PaperRevalidation
begin

text \<open>
  \<open>gaon/adapters/strategy_handoff.py\<close>: the handoff package of an approved champion. Parameters, contract,
  manifest and package with their checksums and stored forms, the repository of packages and approvals,
  and the service that creates, approves and rejects. The lemmas show what a package is created from,
  that a stored package is read back unchanged and never with a wrong checksum, and that a decided
  package never changes again.
\<close>

definition handoff_schema_version :: int where
  "handoff_schema_version = 1"

definition handoff_policy_version :: string where
  "handoff_policy_version = ''strategy_handoff_policy_v1''"

datatype handoff_status = HS_CREATED | HS_PENDING | HS_APPROVED | HS_REJECTED | HS_SUPERSEDED

fun handoff_status_value :: "handoff_status \<Rightarrow> string" where
  "handoff_status_value HS_CREATED = ''created''"
| "handoff_status_value HS_PENDING = ''pending_approval''"
| "handoff_status_value HS_APPROVED = ''approved_for_deployment''"
| "handoff_status_value HS_REJECTED = ''rejected''"
| "handoff_status_value HS_SUPERSEDED = ''superseded''"

definition handoff_status_of :: "string \<Rightarrow> handoff_status res" where
  "handoff_status_of s = ofOption (ValueError ''not a valid StrategyHandoffStatus'')
     (find (\<lambda>m. handoff_status_value m = s) [HS_CREATED, HS_PENDING, HS_APPROVED, HS_REJECTED, HS_SUPERSEDED])"

lemma handoff_status_roundtrip [simp]: "handoff_status_of (handoff_status_value st) = Inr st"
  by (cases st) (simp_all add: handoff_status_of_def)

section \<open>Checksums\<close>

text \<open>
  \<open>_dumps\<close> keeps other than ASCII characters (\<open>ensure_ascii=False\<close>) and \<open>_checksum\<close> hashes the UTF-8
  text. A character of the model is a code point below 256, so its encoding has at most two bytes.
\<close>

fun json_text_by :: "(string \<Rightarrow> string) \<Rightarrow> json \<Rightarrow> string" where
  "json_text_by q JNull = ''null''"
| "json_text_by q (JBool b) = (if b then ''true'' else ''false'')"
| "json_text_by q (JInt i) = dec_int i"
| "json_text_by q (JFloat x) = json_float_text x"
| "json_text_by q (JStr s) = q s"
| "json_text_by q (JArr xs) = ''['' @ join '','' (map (json_text_by q) xs) @ '']''"
| "json_text_by q (JObj kvs) =
     ''{'' @ join '','' (map (\<lambda>(k, v). q k @ '':'' @ json_text_by q v) kvs) @ ''}''"

definition raw_char :: "char \<Rightarrow> string" where
  "raw_char c = (if ordc c < 127 then json_char c else [c])"

definition raw_str_text :: "string \<Rightarrow> string" where
  "raw_str_text s = [chr 34] @ concat (map raw_char s) @ [chr 34]"

definition utf8_char :: "char \<Rightarrow> string" where
  "utf8_char c = (if ordc c < 128 then [c] else [chr (192 + ordc c div 64), chr (128 + ordc c mod 64)])"

definition utf8 :: "string \<Rightarrow> string" where
  "utf8 s = concat (map utf8_char s)"

definition handoff_dumps :: "obj \<Rightarrow> string" where
  "handoff_dumps payload = json_text_by raw_str_text (jcanon (JObj payload))"

definition checksum_of :: "obj \<Rightarrow> string" where
  "checksum_of payload = sha256_hex (utf8 (handoff_dumps payload))"

definition short_hash :: "string \<Rightarrow> string" where
  "short_hash value = take 16 (sha256_hex (utf8 value))"

text \<open>On plain ASCII text the two printers agree, and encoding changes nothing.\<close>

lemma json_text_by_ascii: "json_text_by json_str_text j = json_text j"
proof (induction j rule: json_text.induct)
  case (6 xs)
  then show ?case by (simp cong: map_cong)
next
  case (7 kvs)
  then have "map (\<lambda>(k, v). json_str_text k @ '':'' @ json_text_by json_str_text v) kvs =
      map (\<lambda>(k, v). json_str_text k @ '':'' @ json_text v) kvs" by auto
  then show ?case by (simp only: json_text_by.simps json_text.simps)
qed simp_all

lemma utf8_ascii: "(\<And>c. c \<in> set s \<Longrightarrow> ordc c < 128) \<Longrightarrow> utf8 s = s"
  by (induction s) (simp_all add: utf8_def utf8_char_def)

section \<open>Data\<close>

definition safe_key :: "string \<Rightarrow> bool" where
  "safe_key = ref_format (\<lambda>c. is_upper c \<or> is_lower c) (\<lambda>c. is_alnum c \<or> c = CHR ''_'') 0 63"

definition validate_key :: "string \<Rightarrow> unit res" where
  "validate_key k = guardR (safe_key k) (ValueError ''parameter keys must be safe identifiers'')"

definition validate_handoff_ref :: "string \<Rightarrow> string \<Rightarrow> unit res" where
  "validate_handoff_ref value label = guardR (safe_ref value) (ValueError (label @ '' must be a safe reference''))"

definition is_primitive :: "json \<Rightarrow> bool" where
  "is_primitive j = (case j of JStr _ \<Rightarrow> True | JInt _ \<Rightarrow> True | JFloat _ \<Rightarrow> True | JBool _ \<Rightarrow> True | _ \<Rightarrow> False)"

definition mk_parameters :: "obj \<Rightarrow> obj res" where
  "mk_parameters ps = bindR (checkR (\<lambda>(k, v). bindR (validate_key k) (\<lambda>_.
     guardR (is_primitive v) (ValueError ''strategy parameters must be primitive JSON values''))) ps) (\<lambda>_. Inr ps)"

text \<open>\<open>type(value).__name__\<close>.\<close>

definition type_name :: "json \<Rightarrow> string" where
  "type_name j = (case j of JStr _ \<Rightarrow> ''str'' | JInt _ \<Rightarrow> ''int'' | JFloat _ \<Rightarrow> ''float'' | JBool _ \<Rightarrow> ''bool''
     | JNull \<Rightarrow> ''NoneType'' | JArr _ \<Rightarrow> ''list'' | JObj _ \<Rightarrow> ''dict'')"

record handoff_contract =
  hc_strategy_id :: string
  hc_keys :: "string list"
  hc_types :: "(string \<times> string) list"
  hc_schema_version :: int
  hc_runtime_version :: string

definition mk_contract :: "handoff_contract \<Rightarrow> handoff_contract res" where
  "mk_contract c = bindR (validate_handoff_ref (hc_strategy_id c) ''required_strategy_id'') (\<lambda>_.
     bindR (checkR validate_key (hc_keys c)) (\<lambda>_.
     bindR (guardR (sort (hc_keys c) = hc_keys c) (ValueError ''required parameter keys must be sorted'')) (\<lambda>_.
     bindR (guardR (set (hc_keys c) = fst ` set (hc_types c)) (ValueError ''parameter type map must match required keys'')) (\<lambda>_.
     Inr c))))"

definition contract_json :: "handoff_contract \<Rightarrow> json" where
  "contract_json c = JObj [(''required_strategy_id'', JStr (hc_strategy_id c)), (''required_parameter_keys'', jstrs (hc_keys c)),
     (''parameter_types'', JObj (map (\<lambda>(k, v). (k, JStr v)) (hc_types c))),
     (''supported_package_schema_version'', JInt (hc_schema_version c)),
     (''target_runtime_compatibility_version'', JStr (hc_runtime_version c))]"

record handoff_manifest =
  hm_package_id :: string
  hm_schema_version :: int
  hm_strategy_ref :: string
  hm_strategy_version :: string
  hm_registry_version :: string
  hm_fingerprint :: string
  hm_backtest_id :: string
  hm_backtest_fingerprint :: string
  hm_validation_id :: string
  hm_evaluation_id :: string
  hm_session_id :: string
  hm_revalidation_id :: string
  hm_policy_versions :: "string list"
  hm_generated_at :: string
  hm_checksum :: string

definition mk_manifest :: "handoff_manifest \<Rightarrow> handoff_manifest res" where
  "mk_manifest m = bindR (validate_handoff_ref (hm_package_id m) ''package_id'') (\<lambda>_.
     bindR (validate_handoff_ref (hm_strategy_ref m) ''strategy_ref'') (\<lambda>_.
     bindR (validate_handoff_ref (hm_fingerprint m) ''champion_fingerprint'') (\<lambda>_.
     bindR (validate_utc (hm_generated_at m)) (\<lambda>_.
     bindR (guardR (\<not> hm_schema_version m \<noteq> handoff_schema_version) (ValueError ''unsupported handoff package schema version'')) (\<lambda>_.
     Inr m)))))"

definition manifest_json :: "handoff_manifest \<Rightarrow> json" where
  "manifest_json m = JObj [(''package_id'', JStr (hm_package_id m)), (''schema_version'', JInt (hm_schema_version m)),
     (''strategy_ref'', JStr (hm_strategy_ref m)), (''strategy_version'', JStr (hm_strategy_version m)),
     (''champion_registry_version'', JStr (hm_registry_version m)), (''champion_fingerprint'', JStr (hm_fingerprint m)),
     (''source_backtest_id'', JStr (hm_backtest_id m)), (''source_backtest_fingerprint'', JStr (hm_backtest_fingerprint m)),
     (''validation_id'', JStr (hm_validation_id m)), (''champion_evaluation_id'', JStr (hm_evaluation_id m)),
     (''paper_session_id'', JStr (hm_session_id m)), (''paper_revalidation_id'', JStr (hm_revalidation_id m)),
     (''policy_versions'', jstrs (hm_policy_versions m)), (''generated_at'', JStr (hm_generated_at m)),
     (''checksum'', JStr (hm_checksum m))]"

record handoff_request =
  hq_request_id :: string
  hq_slot :: string
  hq_revalidation_id :: string
  hq_actor_ref :: string
  hq_requested_at :: string

text \<open>\<open>value.replace(":", "-")\<close>.\<close>

definition colons_to_dashes :: "string \<Rightarrow> string" where
  "colons_to_dashes s = map (\<lambda>c. if c = CHR '':'' then CHR ''-'' else c) s"

definition mk_handoff_request :: "handoff_request \<Rightarrow> handoff_request res" where
  "mk_handoff_request q = bindR (validate_handoff_ref (colons_to_dashes (hq_request_id q)) ''request_id'') (\<lambda>_.
     bindR (validate_handoff_ref (hq_slot q) ''champion_slot'') (\<lambda>_. bindR (validate_utc (hq_requested_at q)) (\<lambda>_. Inr q)))"

definition build_handoff_request :: "string \<Rightarrow> string \<Rightarrow> string \<Rightarrow> string \<Rightarrow> string \<Rightarrow> handoff_request res" where
  "build_handoff_request rid rv actor ts slot = mk_handoff_request \<lparr>hq_request_id = rid, hq_slot = slot, hq_revalidation_id = rv,
     hq_actor_ref = actor, hq_requested_at = ts\<rparr>"

record handoff_approval =
  ha_approval_id :: string
  ha_package_id :: string
  ha_checksum :: string
  ha_approver_ref :: string
  ha_approved :: bool
  ha_decided_at :: string
  ha_reason :: string

definition mk_handoff_approval :: "handoff_approval \<Rightarrow> handoff_approval res" where
  "mk_handoff_approval a = bindR (validate_handoff_ref (colons_to_dashes (ha_approval_id a)) ''approval_id'') (\<lambda>_.
     bindR (validate_handoff_ref (ha_package_id a) ''package_id'') (\<lambda>_. bindR (validate_utc (ha_decided_at a)) (\<lambda>_.
     bindR (guardR (ha_approver_ref a \<noteq> []) (ValueError ''approval requires approver_ref'')) (\<lambda>_. Inr a))))"

definition approval_to_json :: "handoff_approval \<Rightarrow> obj" where
  "approval_to_json a = [(''approval_id'', JStr (ha_approval_id a)), (''package_id'', JStr (ha_package_id a)),
     (''package_checksum'', JStr (ha_checksum a)), (''approver_ref'', JStr (ha_approver_ref a)), (''approved'', JBool (ha_approved a)),
     (''decided_at'', JStr (ha_decided_at a)), (''reason'', JStr (ha_reason a))]"

definition approval_from_json :: "obj \<Rightarrow> handoff_approval res" where
  "approval_from_json o' = bindR (jreq o' ''approval_id'') (\<lambda>aid. bindR (jreq o' ''package_id'') (\<lambda>pid.
     bindR (jreq o' ''package_checksum'') (\<lambda>c. bindR (jreq o' ''approver_ref'') (\<lambda>ar. bindR (jreq o' ''approved'') (\<lambda>ap.
     bindR (jreq o' ''decided_at'') (\<lambda>da. bindR (jreq o' ''reason'') (\<lambda>re.
     mk_handoff_approval \<lparr>ha_approval_id = py_str aid, ha_package_id = py_str pid, ha_checksum = py_str c, ha_approver_ref = py_str ar,
       ha_approved = jtruthy ap, ha_decided_at = py_str da, ha_reason = py_str re\<rparr>)))))))"

record handoff_package =
  hp_package_id :: string
  hp_status :: handoff_status
  hp_manifest :: handoff_manifest
  hp_parameters :: obj
  hp_contract :: handoff_contract
  hp_created_by :: string
  hp_approval_required :: bool
  hp_approved_by :: "string option"
  hp_approved_at :: "string option"
  hp_rejected_by :: "string option"
  hp_rejected_at :: "string option"

definition given :: "string option \<Rightarrow> bool" where
  "given x \<longleftrightarrow> (case x of None \<Rightarrow> False | Some s \<Rightarrow> s \<noteq> [])"

definition mk_package :: "handoff_package \<Rightarrow> handoff_package res" where
  "mk_package p = bindR (guardR (\<not> hp_package_id p \<noteq> hm_package_id (hp_manifest p)) (ValueError ''package id must match manifest'')) (\<lambda>_.
     bindR (guardR (\<not> (hp_status p = HS_APPROVED \<and> (\<not> given (hp_approved_by p) \<or> \<not> given (hp_approved_at p))))
       (ValueError ''approved handoff package requires approval metadata'')) (\<lambda>_.
     bindR (validate_opt_utc (hp_approved_at p)) (\<lambda>_. bindR (validate_opt_utc (hp_rejected_at p)) (\<lambda>_. Inr p))))"

definition payload_without_checksum :: "handoff_package \<Rightarrow> obj" where
  "payload_without_checksum p = [(''kind'', JStr ''strategy_handoff_package''), (''schema_version'', JInt handoff_schema_version),
     (''package_id'', JStr (hp_package_id p)), (''manifest'', manifest_json ((hp_manifest p)\<lparr>hm_checksum := []\<rparr>)),
     (''parameters'', JObj (hp_parameters p)), (''compatibility'', contract_json (hp_contract p)),
     (''created_by'', JStr (hp_created_by p)), (''approval_required'', JBool (hp_approval_required p))]"

definition package_to_json :: "handoff_package \<Rightarrow> obj" where
  "package_to_json p = [(''kind'', JStr ''strategy_handoff_package''), (''schema_version'', JInt handoff_schema_version),
     (''package_id'', JStr (hp_package_id p)), (''manifest'', manifest_json (hp_manifest p)),
     (''parameters'', JObj (hp_parameters p)), (''compatibility'', contract_json (hp_contract p)),
     (''created_by'', JStr (hp_created_by p)), (''approval_required'', JBool (hp_approval_required p)),
     (''status'', JStr (handoff_status_value (hp_status p))), (''approved_by'', of_opt (hp_approved_by p)),
     (''approved_at'', of_opt (hp_approved_at p)), (''rejected_by'', of_opt (hp_rejected_by p)), (''rejected_at'', of_opt (hp_rejected_at p))]"

definition with_status :: "handoff_status \<Rightarrow> string \<Rightarrow> string \<Rightarrow> handoff_package \<Rightarrow> handoff_package res" where
  "with_status st actor ts p =
     bindR (guardR (\<not> (hp_status p = HS_APPROVED \<and> st \<noteq> hp_status p)) (ValueError ''approved handoff packages are immutable'')) (\<lambda>_.
     if st = HS_APPROVED then mk_package (p\<lparr>hp_status := st, hp_approved_by := Some actor, hp_approved_at := Some ts\<rparr>)
     else if st = HS_REJECTED then mk_package (p\<lparr>hp_status := st, hp_rejected_by := Some actor, hp_rejected_at := Some ts\<rparr>)
     else mk_package (p\<lparr>hp_status := st\<rparr>))"

definition manifest_from_json :: "obj \<Rightarrow> handoff_manifest res" where
  "manifest_from_json m =
     bindR (jreq m ''package_id'') (\<lambda>pid. bindR (bindR (jreq m ''schema_version'') jint) (\<lambda>sv. bindR (jreq m ''strategy_ref'') (\<lambda>sr.
     bindR (jreq m ''strategy_version'') (\<lambda>svn. bindR (jreq m ''champion_registry_version'') (\<lambda>rv.
     bindR (jreq m ''champion_fingerprint'') (\<lambda>fp. bindR (jreq m ''source_backtest_id'') (\<lambda>bid.
     bindR (jreq m ''source_backtest_fingerprint'') (\<lambda>bf. bindR (jreq m ''validation_id'') (\<lambda>vid.
     bindR (jreq m ''champion_evaluation_id'') (\<lambda>eid. bindR (jreq m ''paper_session_id'') (\<lambda>sid.
     bindR (jreq m ''paper_revalidation_id'') (\<lambda>rid. bindR (str_items m ''policy_versions'') (\<lambda>pvs.
     bindR (jreq m ''generated_at'') (\<lambda>ga. bindR (jreq m ''checksum'') (\<lambda>c.
     mk_manifest \<lparr>hm_package_id = py_str pid, hm_schema_version = sv, hm_strategy_ref = py_str sr, hm_strategy_version = py_str svn,
       hm_registry_version = py_str rv, hm_fingerprint = py_str fp, hm_backtest_id = py_str bid, hm_backtest_fingerprint = py_str bf,
       hm_validation_id = py_str vid, hm_evaluation_id = py_str eid, hm_session_id = py_str sid, hm_revalidation_id = py_str rid,
       hm_policy_versions = pvs, hm_generated_at = py_str ga, hm_checksum = py_str c\<rparr>)))))))))))))))"

definition contract_from_json :: "obj \<Rightarrow> handoff_contract res" where
  "contract_from_json c =
     bindR (jreq c ''required_strategy_id'') (\<lambda>sid. bindR (str_items c ''required_parameter_keys'') (\<lambda>ks.
     bindR (bindR (jreq c ''parameter_types'') need_obj) (\<lambda>ts. bindR (bindR (jreq c ''supported_package_schema_version'') jint) (\<lambda>sv.
     bindR (jreq c ''target_runtime_compatibility_version'') (\<lambda>rv.
     mk_contract \<lparr>hc_strategy_id = py_str sid, hc_keys = ks, hc_types = map (\<lambda>(k, v). (k, py_str v)) ts, hc_schema_version = sv,
       hc_runtime_version = py_str rv\<rparr>)))))"

text \<open>\<open>dict(x)\<close> of a JSON value.\<close>

definition dict_of :: "json \<Rightarrow> obj res" where
  "dict_of j = (case j of JNull \<Rightarrow> Inl (TypeError ''object is not iterable'') | JBool _ \<Rightarrow> Inl (TypeError ''object is not iterable'')
     | JInt _ \<Rightarrow> Inl (TypeError ''object is not iterable'') | JFloat _ \<Rightarrow> Inl (TypeError ''object is not iterable'') | _ \<Rightarrow> as_dict j)"

text \<open>
  The code keeps whatever JSON value stands for \<open>approved_by\<close> or \<open>rejected_by\<close>; here, where the field is
  an optional string, a text with any other value there is refused. The service only writes strings.
\<close>

definition package_from_json :: "obj \<Rightarrow> handoff_package res" where
  "package_from_json o' =
     bindR (guardR (jget o' ''kind'' = JStr ''strategy_handoff_package'') (ValueError ''unsupported handoff package JSON'')) (\<lambda>_.
     bindR (case map_of o' ''schema_version'' of None \<Rightarrow> Inr (-1) | Some v \<Rightarrow> jint v) (\<lambda>schema.
     bindR (guardR (schema = handoff_schema_version) (ValueError ''unsupported handoff package JSON'')) (\<lambda>_.
     bindR (bindR (bindR (jreq o' ''manifest'') need_obj) manifest_from_json) (\<lambda>m. bindR (jreq o' ''package_id'') (\<lambda>pid.
     bindR (bindR (jreq o' ''status'') (\<lambda>v. handoff_status_of (py_str v))) (\<lambda>st.
     bindR (bindR (bindR (jreq o' ''parameters'') dict_of) mk_parameters) (\<lambda>ps.
     bindR (bindR (bindR (jreq o' ''compatibility'') need_obj) contract_from_json) (\<lambda>c.
     bindR (jreq o' ''created_by'') (\<lambda>cb. bindR (jreq o' ''approval_required'') (\<lambda>ar.
     bindR (need_opt_str (jget o' ''approved_by'')) (\<lambda>ab. bindR (need_opt_str (jget o' ''approved_at'')) (\<lambda>aa.
     bindR (need_opt_str (jget o' ''rejected_by'')) (\<lambda>rb. bindR (need_opt_str (jget o' ''rejected_at'')) (\<lambda>ra.
     bindR (mk_package \<lparr>hp_package_id = py_str pid, hp_status = st, hp_manifest = m, hp_parameters = ps, hp_contract = c,
       hp_created_by = py_str cb, hp_approval_required = jtruthy ar, hp_approved_by = ab, hp_approved_at = aa, hp_rejected_by = rb,
       hp_rejected_at = ra\<rparr>) (\<lambda>p.
     bindR (guardR (checksum_of (payload_without_checksum p) = hm_checksum (hp_manifest p)) (ValueError ''handoff package checksum mismatch''))
       (\<lambda>_. Inr p))))))))))))))))"

section \<open>Stored packages\<close>

text \<open>The packages the constructors and the checksum accept, with parameters and types in key order.\<close>

definition package_ok :: "handoff_package \<Rightarrow> bool" where
  "package_ok p \<longleftrightarrow> mk_manifest (hp_manifest p) = Inr (hp_manifest p) \<and> mk_parameters (hp_parameters p) = Inr (hp_parameters p) \<and>
     mk_contract (hp_contract p) = Inr (hp_contract p) \<and> mk_package p = Inr p \<and> ocanon (hp_parameters p) = hp_parameters p \<and>
     sorted (map fst (hc_types (hp_contract p))) \<and> checksum_of (payload_without_checksum p) = hm_checksum (hp_manifest p)"

lemma types_canon: "sorted (map fst ts) \<Longrightarrow> ocanon (map (\<lambda>(k, v). (k, JStr v)) ts) = map (\<lambda>(k, v). (k, JStr v)) ts"
proof -
  assume s: "sorted (map fst ts)"
  have m: "map (\<lambda>(k, v). (k, jcanon v)) (map (\<lambda>(k, v). (k, JStr v)) ts) = map (\<lambda>(k, v). (k, JStr v)) ts" by auto
  have "map fst (map (\<lambda>(k, v). (k, JStr v)) ts) = map fst ts" by auto
  then have "sorted (map fst (map (\<lambda>(k, v). (k, JStr v)) ts))" using s by (simp only:)
  then show ?thesis unfolding ocanon_def m by (rule sort_key_id_if_sorted)
qed

lemma manifest_roundtrip: "mk_manifest m = Inr m \<Longrightarrow> \<exists>o'. manifest_json m = JObj o' \<and> manifest_from_json (ocanon o') = Inr m"
  by (cases m) (simp add: manifest_json_def manifest_from_json_def)

lemma contract_roundtrip:
  "mk_contract c = Inr c \<Longrightarrow> sorted (map fst (hc_types c)) \<Longrightarrow>
    \<exists>o'. contract_json c = JObj o' \<and> contract_from_json (ocanon o') = Inr c"
proof -
  assume c: "mk_contract c = Inr c" "sorted (map fst (hc_types c))"
  have t: "map (\<lambda>(k, v). (k, py_str v)) (map (\<lambda>(k, v). (k, JStr v)) ts) = ts" for ts by (induction ts) auto
  show ?thesis
    using c by (cases c) (simp add: contract_json_def contract_from_json_def types_canon t del: map_map)
qed

lemma package_roundtrip:
  assumes "package_ok p"
  shows "package_from_json (ocanon (package_to_json p)) = Inr p"
proof -
  obtain m where m: "manifest_json (hp_manifest p) = JObj m" "manifest_from_json (ocanon m) = Inr (hp_manifest p)"
    using manifest_roundtrip assms by (auto simp: package_ok_def)
  obtain c where c: "contract_json (hp_contract p) = JObj c" "contract_from_json (ocanon c) = Inr (hp_contract p)"
    using contract_roundtrip assms by (auto simp: package_ok_def)
  show ?thesis
    using assms m c
    by (cases p) (simp add: package_from_json_def package_to_json_def dict_of_def package_ok_def handoff_schema_version_def)
qed

lemma package_from_json_checksum:
  "package_from_json o' = Inr p \<Longrightarrow> checksum_of (payload_without_checksum p) = hm_checksum (hp_manifest p)"
  by (auto simp: package_from_json_def bindR_Inr_iff)

section \<open>Repository\<close>

text \<open>The column \<open>created_at\<close> is written with the row and not by an update.\<close>

record handoff_repo =
  hr_packages :: "handoff_package table"
  hr_created :: "string table"
  hr_approvals :: "handoff_approval table"

definition handoff_repo_init :: handoff_repo where
  "handoff_repo_init = \<lparr>hr_packages = [], hr_created = [], hr_approvals = []\<rparr>"

definition read_package :: "handoff_package \<Rightarrow> handoff_package res" where
  "read_package p = package_from_json (ocanon (package_to_json p))"

definition hr_get_or_none :: "string \<Rightarrow> handoff_repo \<Rightarrow> handoff_package option res" where
  "hr_get_or_none pid repo = (case t_get pid (hr_packages repo) of None \<Rightarrow> Inr None | Some p \<Rightarrow> bindR (read_package p) (\<lambda>x. Inr (Some x)))"

definition hr_get :: "string \<Rightarrow> handoff_repo \<Rightarrow> handoff_package res" where
  "hr_get pid repo = bindR (hr_get_or_none pid repo) (ofOption (KeyError pid))"

definition same_text :: "handoff_package \<Rightarrow> handoff_package \<Rightarrow> bool" where
  "same_text p q \<longleftrightarrow> handoff_dumps (package_to_json p) = handoff_dumps (package_to_json q)"

definition frozen_check :: "handoff_package \<Rightarrow> handoff_package \<Rightarrow> unit res" where
  "frozen_check existing p = guardR (\<not> (hp_status existing = HS_APPROVED \<and> \<not> same_text existing p))
     (ValueError ''approved handoff package is immutable'')"

definition hr_add :: "handoff_package \<Rightarrow> handoff_repo \<Rightarrow> handoff_repo res" where
  "hr_add p repo = bindR (hr_get_or_none (hp_package_id p) repo) (\<lambda>existing. case existing of
     Some e \<Rightarrow> bindR (frozen_check e p) (\<lambda>_. Inl (IntegrityError (''handoff package already exists: '' @ hp_package_id p)))
   | None \<Rightarrow> bindR (t_insert (hp_package_id p) p (hr_packages repo)) (\<lambda>t. Inr (repo\<lparr>hr_packages := t,
       hr_created := hr_created repo @ [(hp_package_id p, hm_generated_at (hp_manifest p))]\<rparr>)))"

definition hr_update :: "handoff_package \<Rightarrow> handoff_repo \<Rightarrow> handoff_repo res" where
  "hr_update p repo = bindR (hr_get (hp_package_id p) repo) (\<lambda>existing. bindR (frozen_check existing p) (\<lambda>_.
     Inr (repo\<lparr>hr_packages := t_update (hp_package_id p) (\<lambda>_. p) (hr_packages repo)\<rparr>)))"

definition created_at :: "string \<Rightarrow> handoff_repo \<Rightarrow> string" where
  "created_at k repo = (case t_get k (hr_created repo) of None \<Rightarrow> [] | Some ts \<Rightarrow> ts)"

definition hr_list :: "handoff_repo \<Rightarrow> handoff_package list res" where
  "hr_list repo = mapR (\<lambda>(k, p). read_package p) (sort_key (\<lambda>(k, p). (created_at k repo, k)) (hr_packages repo))"

definition hr_add_approval :: "handoff_approval \<Rightarrow> handoff_repo \<Rightarrow> handoff_repo res" where
  "hr_add_approval a repo = bindR (t_insert (ha_approval_id a) a (hr_approvals repo)) (\<lambda>t. Inr (repo\<lparr>hr_approvals := t\<rparr>))"

text \<open>The latest decision of a package, by time and then by id.\<close>

definition hr_latest_approval :: "string \<Rightarrow> handoff_repo \<Rightarrow> handoff_approval option res" where
  "hr_latest_approval pid repo = (case rev (sort_key (\<lambda>(k, a). (ha_decided_at a, k))
       (filter (\<lambda>(k, a). ha_package_id a = pid) (hr_approvals repo))) of
     [] \<Rightarrow> Inr None
   | (k, a) # _ \<Rightarrow> bindR (approval_from_json (ocanon (approval_to_json a))) (\<lambda>x.
       Inr (Some (if ha_checksum x \<noteq> ha_checksum a then x\<lparr>ha_checksum := ha_checksum a\<rparr> else x))))"

section \<open>The service\<close>

record handoff_env = env +
  ho_repo :: handoff_repo
  ho_registry :: registry_repo
  ho_revalidations :: revalidation_repo
  ho_backtests :: backtest_repo

definition ho_read :: "(handoff_env \<Rightarrow> 'a res) \<Rightarrow> (handoff_env, 'a) opr" where
  "ho_read f = (\<lambda>s. (f s, s))"

definition ho_write :: "(handoff_repo \<Rightarrow> handoff_repo res) \<Rightarrow> (handoff_env, unit) opr" where
  "ho_write f = (\<lambda>s. case f (ho_repo s) of Inl e \<Rightarrow> (Inl e, s) | Inr repo \<Rightarrow> (Inr (), s\<lparr>ho_repo := repo\<rparr>))"

definition handoff_event :: "string \<Rightarrow> handoff_package \<Rightarrow> string \<Rightarrow> string \<Rightarrow> durable_event" where
  "handoff_event event_type p actor ts =
    \<lparr>de_event_id = ''event:strategy-handoff:'' @ event_type @ '':'' @ hp_package_id p, de_event_type = event_type,
     de_occurred_at = ts, de_actor_ref = actor, de_correlation_id = hp_package_id p,
     de_causation_id = Some (hm_revalidation_id (hp_manifest p)), de_scope = ''strategy_handoff'', de_project = ''StrategyLab'',
     de_strategy = hm_strategy_ref (hp_manifest p), de_market = ''N/A'',
     de_payload = [(''package_id'', JStr (hp_package_id p)), (''status'', JStr (handoff_status_value (hp_status p))),
       (''checksum'', JStr (hm_checksum (hp_manifest p)))],
     de_evidence_refs = [hm_backtest_id (hp_manifest p), hm_revalidation_id (hp_manifest p)], de_audit_refs = [], de_appended_at = ts\<rparr>"

definition ho_record :: "string \<Rightarrow> handoff_package \<Rightarrow> string \<Rightarrow> string \<Rightarrow> (handoff_env, unit) opr" where
  "ho_record event_type p actor ts = record_once (handoff_event event_type p actor ts)"

text \<open>These counters carry no component label.\<close>

definition ho_increment :: "string \<Rightarrow> (handoff_env, unit) opr" where
  "ho_increment name = increment [] name"

definition contract_of :: "backtest_result \<Rightarrow> obj \<Rightarrow> handoff_contract res" where
  "contract_of b ps = (let keys = sort (map fst ps) in mk_contract \<lparr>hc_strategy_id = sr_strategy_id (br_strategy b), hc_keys = keys,
     hc_types = map (\<lambda>k. (k, type_name (jget ps k))) keys, hc_schema_version = handoff_schema_version,
     hc_runtime_version = ''generic-strategy-runtime-v1''\<rparr>)"

definition manifest_of :: "handoff_request \<Rightarrow> registry_entry \<Rightarrow> revalidation_report \<Rightarrow> backtest_result \<Rightarrow> handoff_manifest res" where
  "manifest_of q a rep b = mk_manifest \<lparr>hm_package_id = ''handoff-'' @ short_hash (re_version_id a @ '':'' @ hq_revalidation_id q),
     hm_schema_version = handoff_schema_version, hm_strategy_ref = re_strategy_ref a, hm_strategy_version = sr_version (br_strategy b),
     hm_registry_version = re_version_id a, hm_fingerprint = re_fingerprint a, hm_backtest_id = re_backtest_id a,
     hm_backtest_fingerprint = br_fingerprint b, hm_validation_id = re_validation_id a, hm_evaluation_id = re_evaluation_id a,
     hm_session_id = rv_session_id rep, hm_revalidation_id = rv_revalidation_id rep,
     hm_policy_versions = [handoff_policy_version, rv_policy_version rep], hm_generated_at = hq_requested_at q, hm_checksum = []\<rparr>"

definition build_package :: "handoff_request \<Rightarrow> registry_entry \<Rightarrow> revalidation_report \<Rightarrow> backtest_result \<Rightarrow> handoff_package res" where
  "build_package q a rep b =
     bindR (mk_parameters (br_parameters b)) (\<lambda>ps. bindR (contract_of b ps) (\<lambda>c. bindR (manifest_of q a rep b) (\<lambda>m.
     bindR (mk_package \<lparr>hp_package_id = hm_package_id m, hp_status = HS_PENDING, hp_manifest = m, hp_parameters = ps, hp_contract = c,
       hp_created_by = hq_actor_ref q, hp_approval_required = True, hp_approved_by = None, hp_approved_at = None, hp_rejected_by = None,
       hp_rejected_at = None\<rparr>) (\<lambda>p.
     bindR (mk_manifest (m\<lparr>hm_checksum := checksum_of (payload_without_checksum p)\<rparr>)) (\<lambda>m'. mk_package (p\<lparr>hp_manifest := m'\<rparr>))))))"

definition handoff_source :: "handoff_request \<Rightarrow> handoff_env \<Rightarrow> (registry_entry \<times> revalidation_report \<times> backtest_result) res" where
  "handoff_source q s = bindR (rg_get_active (hq_slot q) (ho_registry s)) (\<lambda>active.
     bindR (ofOption (ValueError ''active Champion is required for handoff'') active) (\<lambda>a.
     bindR (revalidation_get_report (hq_revalidation_id q) (ho_revalidations s)) (\<lambda>rep.
     bindR (guardR (\<not> rv_status rep \<noteq> RV_LIVE_ELIGIBLE)
       (ValueError (revalidation_status_value (rv_status rep) @ '' revalidation is not deployable by default''))) (\<lambda>_.
     bindR (guardR (\<not> (rv_version_id rep \<noteq> re_version_id a \<or> rv_fingerprint rep \<noteq> re_fingerprint a))
       (ValueError ''paper revalidation does not match active Champion fingerprint'')) (\<lambda>_.
     bindR (backtest_get_result (re_backtest_id a) (ho_backtests s)) (\<lambda>b.
     bindR (guardR (\<not> br_fingerprint b \<noteq> re_fingerprint a) (ValueError ''Champion fingerprint does not match source backtest'')) (\<lambda>_.
     Inr (a, rep, b))))))))"

definition handoff_create :: "handoff_request \<Rightarrow> (handoff_env, handoff_package) opr" where
  "handoff_create q =
    bindO (ho_read (handoff_source q)) (\<lambda>(a, rep, b).
    bindO (liftO (build_package q a rep b)) (\<lambda>p.
    thenO (ho_record ''StrategyHandoffRequested'' p (hq_actor_ref q) (hq_requested_at q))
    (thenO (ho_write (hr_add p))
    (thenO (ho_record ''StrategyHandoffPackageCreated'' p (hq_actor_ref q) (hq_requested_at q))
    (thenO (ho_record ''StrategyHandoffApprovalRequested'' p (hq_actor_ref q) (hq_requested_at q))
    (thenO (ho_increment ''gaon_strategy_handoff_packages_total'') (retO p)))))))"

definition approval_key :: "string \<Rightarrow> string" where
  "approval_key pid = ''handoff-approval:'' @ pid"

definition rejection_key :: "string \<Rightarrow> string" where
  "rejection_key pid = ''handoff-rejection:'' @ pid"

definition handoff_approve :: "string \<Rightarrow> string \<Rightarrow> string \<Rightarrow> string \<Rightarrow> (handoff_env, handoff_package) opr" where
  "handoff_approve pid approver ts why =
    bindO (ho_read (\<lambda>s. hr_get pid (ho_repo s))) (\<lambda>p.
    thenO (liftO (guardR (hp_status p \<noteq> HS_REJECTED) (ValueError ''rejected handoff package cannot be approved'')))
    (bindO (liftO (mk_handoff_approval \<lparr>ha_approval_id = approval_key pid, ha_package_id = pid,
        ha_checksum = hm_checksum (hp_manifest p), ha_approver_ref = approver, ha_approved = True, ha_decided_at = ts, ha_reason = why\<rparr>)) (\<lambda>a.
    thenO (ho_write (hr_add_approval a))
    (bindO (liftO (with_status HS_APPROVED approver ts p)) (\<lambda>u.
    thenO (ho_write (hr_update u))
    (thenO (ho_record ''StrategyHandoffApproved'' u approver ts)
    (thenO (ho_increment ''gaon_strategy_handoff_approvals_total'') (retO u))))))))"

definition handoff_reject :: "string \<Rightarrow> string \<Rightarrow> string \<Rightarrow> string \<Rightarrow> (handoff_env, handoff_package) opr" where
  "handoff_reject pid actor ts why =
    bindO (ho_read (\<lambda>s. hr_get pid (ho_repo s))) (\<lambda>p.
    thenO (liftO (guardR (hp_status p \<noteq> HS_APPROVED) (ValueError ''approved handoff package is immutable'')))
    (bindO (liftO (mk_handoff_approval \<lparr>ha_approval_id = rejection_key pid, ha_package_id = pid,
        ha_checksum = hm_checksum (hp_manifest p), ha_approver_ref = actor, ha_approved = False, ha_decided_at = ts, ha_reason = why\<rparr>)) (\<lambda>a.
    thenO (ho_write (hr_add_approval a))
    (bindO (liftO (with_status HS_REJECTED actor ts p)) (\<lambda>u.
    thenO (ho_write (hr_update u))
    (thenO (ho_record ''StrategyHandoffRejected'' u actor ts)
    (thenO (ho_increment ''gaon_strategy_handoff_rejections_total'') (retO u))))))))"

section \<open>What the service keeps true\<close>

definition bt_rows_ok :: "backtest_repo \<Rightarrow> bool" where
  "bt_rows_ok repo \<longleftrightarrow> (\<forall>k c o'. t_get k (bt_results repo) = Some (c, o') \<longrightarrow> (\<exists>r. o' = ocanon (backtest_result_to_json r)))"

definition handoff_ok :: "handoff_repo \<Rightarrow> bool" where
  "handoff_ok repo \<longleftrightarrow> (\<forall>k p. t_get k (hr_packages repo) = Some p \<longrightarrow> hp_package_id p = k \<and> package_ok p \<and>
     (hp_status p = HS_PENDING \<or> hp_status p = HS_APPROVED \<and> approval_key k \<in> set (t_keys (hr_approvals repo)) \<or>
      hp_status p = HS_REJECTED \<and> rejection_key k \<in> set (t_keys (hr_approvals repo))))"

text \<open>The two moves of a package, with the only fields they set.\<close>

inductive handoff_move :: "handoff_package \<Rightarrow> handoff_package \<Rightarrow> bool" where
  approved: "hp_status p = HS_PENDING \<Longrightarrow>
    handoff_move p (p\<lparr>hp_status := HS_APPROVED, hp_approved_by := Some a, hp_approved_at := Some ts\<rparr>)"
| rejected: "hp_status p = HS_PENDING \<Longrightarrow>
    handoff_move p (p\<lparr>hp_status := HS_REJECTED, hp_rejected_by := Some a, hp_rejected_at := Some ts\<rparr>)"

inductive_cases handoff_moveE: "handoff_move p u"

definition packages_later :: "handoff_repo \<Rightarrow> handoff_repo \<Rightarrow> bool" where
  "packages_later a b \<longleftrightarrow> handoff_ok b \<and> (\<forall>k p. t_get k (hr_packages a) = Some p \<longrightarrow>
     (\<exists>u. t_get k (hr_packages b) = Some u \<and> handoff_move\<^sup>*\<^sup>* p u))"

lemma packages_later_refl: "handoff_ok a \<Longrightarrow> packages_later a a"
  by (auto simp: packages_later_def)

lemma packages_later_trans: "packages_later a b \<Longrightarrow> packages_later b c \<Longrightarrow> packages_later a c"
  unfolding packages_later_def by (metis rtranclp_trans)

lemma mk_handoff_ids:
  "mk_package p = Inr p' \<Longrightarrow> p' = p" "mk_manifest m = Inr m' \<Longrightarrow> m' = m" "mk_contract c = Inr c' \<Longrightarrow> c' = c"
  "mk_parameters ps = Inr ps' \<Longrightarrow> ps' = ps" "mk_handoff_approval a = Inr a' \<Longrightarrow> a' = a"
  by (auto simp: mk_package_def mk_manifest_def mk_contract_def mk_parameters_def mk_handoff_approval_def bindR_Inr_iff)

lemma hr_get_ok:
  assumes "handoff_ok repo"
  shows "hr_get pid repo = Inr p \<longleftrightarrow> t_get pid (hr_packages repo) = Some p"
proof (cases "t_get pid (hr_packages repo)")
  case None then show ?thesis by (simp add: hr_get_def hr_get_or_none_def)
next
  case (Some q)
  then have "package_ok q" using assms by (auto simp: handoff_ok_def)
  then show ?thesis using Some by (simp add: hr_get_def hr_get_or_none_def read_package_def package_roundtrip)
qed

lemma hr_get_or_none_ok: "handoff_ok repo \<Longrightarrow> hr_get_or_none pid repo = Inr (t_get pid (hr_packages repo))"
  by (cases "t_get pid (hr_packages repo)") (auto simp: hr_get_or_none_def read_package_def handoff_ok_def package_roundtrip)

lemma payload_status [simp]:
  "payload_without_checksum (p\<lparr>hp_status := st\<rparr>) = payload_without_checksum p"
  "payload_without_checksum (p\<lparr>hp_approved_by := x\<rparr>) = payload_without_checksum p"
  "payload_without_checksum (p\<lparr>hp_approved_at := x\<rparr>) = payload_without_checksum p"
  "payload_without_checksum (p\<lparr>hp_rejected_by := x\<rparr>) = payload_without_checksum p"
  "payload_without_checksum (p\<lparr>hp_rejected_at := x\<rparr>) = payload_without_checksum p"
  by (simp_all add: payload_without_checksum_def)

lemma handoff_ok_mono:
  "handoff_ok repo \<Longrightarrow> hr_packages repo' = hr_packages repo \<Longrightarrow>
    set (t_keys (hr_approvals repo)) \<subseteq> set (t_keys (hr_approvals repo')) \<Longrightarrow> handoff_ok repo'"
proof (unfold handoff_ok_def, intro allI impI)
  fix k p
  assume ok: "\<forall>k p. t_get k (hr_packages repo) = Some p \<longrightarrow> hp_package_id p = k \<and> package_ok p \<and>
      (hp_status p = HS_PENDING \<or> hp_status p = HS_APPROVED \<and> approval_key k \<in> set (t_keys (hr_approvals repo)) \<or>
       hp_status p = HS_REJECTED \<and> rejection_key k \<in> set (t_keys (hr_approvals repo)))"
    and eq: "hr_packages repo' = hr_packages repo" and sub: "set (t_keys (hr_approvals repo)) \<subseteq> set (t_keys (hr_approvals repo'))"
    and p: "t_get k (hr_packages repo') = Some p"
  from ok p eq have "hp_package_id p = k \<and> package_ok p \<and>
      (hp_status p = HS_PENDING \<or> hp_status p = HS_APPROVED \<and> approval_key k \<in> set (t_keys (hr_approvals repo)) \<or>
       hp_status p = HS_REJECTED \<and> rejection_key k \<in> set (t_keys (hr_approvals repo)))" by simp
  with sub show "hp_package_id p = k \<and> package_ok p \<and>
      (hp_status p = HS_PENDING \<or> hp_status p = HS_APPROVED \<and> approval_key k \<in> set (t_keys (hr_approvals repo')) \<or>
       hp_status p = HS_REJECTED \<and> rejection_key k \<in> set (t_keys (hr_approvals repo')))" by blast
qed

lemma add_approval_ok:
  assumes "handoff_ok repo" and "hr_add_approval a repo = Inr repo'"
  shows "handoff_ok repo'" "hr_packages repo' = hr_packages repo" "ha_approval_id a \<in> set (t_keys (hr_approvals repo'))"
    "ha_approval_id a \<notin> set (t_keys (hr_approvals repo))"
proof -
  have r: "repo' = repo\<lparr>hr_approvals := hr_approvals repo @ [(ha_approval_id a, a)]\<rparr>" "ha_approval_id a \<notin> set (t_keys (hr_approvals repo))"
    using assms(2) by (auto simp: hr_add_approval_def bindR_Inr_iff t_insert_def split: if_splits)
  show "handoff_ok repo'" by (rule handoff_ok_mono [OF assms(1)]) (auto simp: r)
qed (use assms(2) in \<open>auto simp: hr_add_approval_def bindR_Inr_iff t_insert_def split: if_splits\<close>)

lemma decided_ok:
  assumes "handoff_ok repo" and "t_get pid (hr_packages repo) = Some p" and "hp_status p = HS_PENDING" and "handoff_move p u"
    and "mk_package u = Inr u" and "hr_update u repo = Inr repo'"
    and "hp_status u = HS_APPROVED \<Longrightarrow> approval_key pid \<in> set (t_keys (hr_approvals repo))"
    and "hp_status u = HS_REJECTED \<Longrightarrow> rejection_key pid \<in> set (t_keys (hr_approvals repo))"
  shows "packages_later repo repo'"
proof -
  have id: "hp_package_id p = pid" and ok: "package_ok p" using assms(1,2) by (auto simp: handoff_ok_def)
  have u: "hp_package_id u = pid \<and> package_ok u \<and> (hp_status u = HS_APPROVED \<or> hp_status u = HS_REJECTED)"
    using assms(4,5) id ok by (auto elim!: handoff_moveE simp: package_ok_def)
  have repo': "repo' = repo\<lparr>hr_packages := t_update pid (\<lambda>_. u) (hr_packages repo)\<rparr>"
    using assms(6) u by (auto simp: hr_update_def bindR_Inr_iff)
  have "handoff_ok repo'" unfolding repo' handoff_ok_def
    using assms(1,7,8) u by (auto simp: handoff_ok_def)
  then show ?thesis using assms(2,4) unfolding packages_later_def repo' by auto
qed

lemma wp_ho [wp_simps]:
  "wp (ho_read f) Q E s = (case f s of Inl e \<Rightarrow> E e s | Inr x \<Rightarrow> Q x s)"
  "wp (ho_write g) Q' E s = (case g (ho_repo s) of Inl e \<Rightarrow> E e s | Inr repo \<Rightarrow> Q' () (s\<lparr>ho_repo := repo\<rparr>))"
  "wp (ho_increment name) Q' E s = Q' () (s\<lparr>env_metrics := map_option (\<lambda>ms. ms @ [MIncrement name []]) (env_metrics s)\<rparr>)"
  by (simp_all add: wp_def ho_read_def ho_write_def ho_increment_def increment_def split: sum.splits)

lemma wp_ho_record:
  assumes "\<And>es. Q () (s\<lparr>env_events := es\<rparr>)" and "\<And>er. E er s"
  shows "wp (ho_record ty p a ts) Q E s"
  unfolding ho_record_def by (rule wp_record_onceI) (rule assms)+

lemmas handoff_wp = wp_ho wp_then wp_bind wp_basic wp_lift wp_if

lemma with_status_Inr:
  assumes "hp_status p = HS_PENDING"
  shows "with_status HS_APPROVED a ts p = Inr u \<Longrightarrow> handoff_move p u \<and> mk_package u = Inr u \<and> hp_status u = HS_APPROVED"
    and "with_status HS_REJECTED a ts p = Inr u \<Longrightarrow> handoff_move p u \<and> mk_package u = Inr u \<and> hp_status u = HS_REJECTED"
  using assms by (auto simp: with_status_def dest: mk_handoff_ids(1) intro: handoff_move.intros)

abbreviation always_kept :: "(handoff_env, 'a) opr \<Rightarrow> handoff_env \<Rightarrow> bool" where
  "always_kept m s \<equiv> wp m (\<lambda>_ t. packages_later (ho_repo s) (ho_repo t) \<and> ho_backtests t = ho_backtests s)
     (\<lambda>_ t. packages_later (ho_repo s) (ho_repo t) \<and> ho_backtests t = ho_backtests s) s"

lemma later_approval:
  assumes "handoff_ok repo" and "hr_add_approval a repo = Inr repo'"
  shows "packages_later repo repo'"
  using add_approval_ok [OF assms] by (auto simp: packages_later_def)

lemma decision_later:
  assumes "handoff_ok repo" and "hr_get pid repo = Inr p" and "hp_status p = HS_PENDING" and "hr_add_approval a repo = Inr repo1"
    and "handoff_move p u \<and> mk_package u = Inr u \<and> hp_status u = st"
    and "st = HS_APPROVED \<and> ha_approval_id a = approval_key pid \<or> st = HS_REJECTED \<and> ha_approval_id a = rejection_key pid"
    and "hr_update u repo1 = Inr repo2"
  shows "packages_later repo repo2"
proof -
  note r = add_approval_ok [OF assms(1,4)]
  have pk: "t_get pid (hr_packages repo1) = Some p" using assms(2) r(2) by (simp add: hr_get_ok [OF assms(1)])
  have "packages_later repo1 repo2"
    by (rule decided_ok [OF r(1) pk assms(3), of u]) (use assms(5-7) r(3) in auto)
  with later_approval [OF assms(1,4)] show ?thesis by (rule packages_later_trans)
qed

text \<open>A package that is already decided has its approval row, so deciding it again stops at that row.\<close>

lemma decided_again:
  assumes "handoff_ok repo" and "hr_get pid repo = Inr p"
  shows "hp_status p = HS_APPROVED \<Longrightarrow> ha_approval_id a = approval_key pid \<Longrightarrow> hr_add_approval a repo \<noteq> Inr r"
    and "hp_status p = HS_REJECTED \<Longrightarrow> ha_approval_id a = rejection_key pid \<Longrightarrow> hr_add_approval a repo \<noteq> Inr r"
proof -
  have "hp_status p = HS_PENDING \<or> hp_status p = HS_APPROVED \<and> approval_key pid \<in> set (t_keys (hr_approvals repo)) \<or>
      hp_status p = HS_REJECTED \<and> rejection_key pid \<in> set (t_keys (hr_approvals repo))"
    using assms by (simp add: hr_get_ok handoff_ok_def)
  then show "hp_status p = HS_APPROVED \<Longrightarrow> ha_approval_id a = approval_key pid \<Longrightarrow> hr_add_approval a repo \<noteq> Inr r"
    and "hp_status p = HS_REJECTED \<Longrightarrow> ha_approval_id a = rejection_key pid \<Longrightarrow> hr_add_approval a repo \<noteq> Inr r"
    by (auto simp: hr_add_approval_def t_insert_def)
qed

lemma pending_or_decided:
  "handoff_ok repo \<Longrightarrow> hr_get pid repo = Inr p \<Longrightarrow> hp_status p = HS_PENDING \<or> hp_status p = HS_APPROVED \<or> hp_status p = HS_REJECTED"
  by (auto simp: hr_get_ok handoff_ok_def)

lemma approve_kept: "handoff_ok (ho_repo s) \<Longrightarrow> always_kept (handoff_approve pid approver ts why) s"
proof (cases "hr_get pid (ho_repo s)")
  case (Inl e)
  assume "handoff_ok (ho_repo s)"
  then show ?thesis using Inl by (simp add: handoff_approve_def handoff_wp packages_later_refl)
next
  case (Inr p)
  assume ok: "handoff_ok (ho_repo s)"
  note again = decided_again(1) [OF ok Inr] and later = later_approval [OF ok] and decided = decision_later [OF ok Inr]
  show ?thesis
  proof (cases "hp_status p = HS_PENDING")
    case True
    show ?thesis
      unfolding handoff_approve_def
      by (auto intro!: wp_ho_record packages_later_refl simp: handoff_wp Inr True ok split: sum.splits
          intro: later decided [OF True _ with_status_Inr(1) [OF True]] dest!: mk_handoff_ids(5))
  next
    case False
    then have "hp_status p = HS_APPROVED \<or> hp_status p = HS_REJECTED" using pending_or_decided [OF ok Inr] by blast
    then show ?thesis
      unfolding handoff_approve_def
      by (auto intro!: packages_later_refl simp: handoff_wp Inr ok again split: sum.splits dest!: mk_handoff_ids(5))
  qed
qed

lemma reject_kept: "handoff_ok (ho_repo s) \<Longrightarrow> always_kept (handoff_reject pid actor ts why) s"
proof (cases "hr_get pid (ho_repo s)")
  case (Inl e)
  assume "handoff_ok (ho_repo s)"
  then show ?thesis using Inl by (simp add: handoff_reject_def handoff_wp packages_later_refl)
next
  case (Inr p)
  assume ok: "handoff_ok (ho_repo s)"
  note again = decided_again(2) [OF ok Inr] and later = later_approval [OF ok] and decided = decision_later [OF ok Inr]
  show ?thesis
  proof (cases "hp_status p = HS_PENDING")
    case True
    show ?thesis
      unfolding handoff_reject_def
      by (auto intro!: wp_ho_record packages_later_refl simp: handoff_wp Inr True ok split: sum.splits
          intro: later decided [OF True _ with_status_Inr(2) [OF True]] dest!: mk_handoff_ids(5))
  next
    case False
    then have "hp_status p = HS_APPROVED \<or> hp_status p = HS_REJECTED" using pending_or_decided [OF ok Inr] by blast
    then show ?thesis
      unfolding handoff_reject_def
      by (auto intro!: packages_later_refl simp: handoff_wp Inr ok again split: sum.splits dest!: mk_handoff_ids(5))
  qed
qed

section \<open>Creation\<close>

lemma canon_parameters: "ocanon (br_parameters r) = br_parameters r \<Longrightarrow> jcanon (JObj (br_parameters r)) = JObj (br_parameters r)"
  by simp

lemma stored_parameters:
  assumes "bt_rows_ok repo" and "backtest_get_result k repo = Inr b"
  shows "ocanon (br_parameters b) = br_parameters b"
proof -
  obtain c r where row: "t_get k (bt_results repo) = Some (c, ocanon (backtest_result_to_json r))"
  proof (cases "t_get k (bt_results repo)")
    case None then show thesis using assms(2) by (simp add: backtest_get_result_def)
  next
    case (Some row)
    then show thesis using assms(1) that by (cases row) (auto simp: bt_rows_ok_def)
  qed
  have "jreq (ocanon (backtest_result_to_json r)) ''parameters'' = Inr (JObj (ocanon (br_parameters r)))"
    by (simp add: backtest_result_to_json_def)
  moreover have "backtest_result_from_json (ocanon (backtest_result_to_json r)) = Inr b"
    using assms(2) row by (simp add: backtest_get_result_def)
  ultimately have "br_parameters b = ocanon (br_parameters r)"
    by (auto simp: backtest_result_from_json_def mk_backtest_result_def bindR_Inr_iff)
  then show ?thesis by simp
qed

lemma build_package_ok:
  assumes "build_package q a rep b = Inr p" and "ocanon (br_parameters b) = br_parameters b"
  shows "package_ok p" "hp_status p = HS_PENDING" "hp_approval_required p" "hm_fingerprint (hp_manifest p) = re_fingerprint a"
    "hm_registry_version (hp_manifest p) = re_version_id a" "hm_backtest_fingerprint (hp_manifest p) = br_fingerprint b"
    "hm_revalidation_id (hp_manifest p) = rv_revalidation_id rep" "hp_parameters p = br_parameters b" "hp_approved_by p = None"
proof -
  obtain ps c m p0 m' where ps: "mk_parameters (br_parameters b) = Inr ps" and c: "contract_of b ps = Inr c"
    and m: "manifest_of q a rep b = Inr m"
    and p0: "mk_package \<lparr>hp_package_id = hm_package_id m, hp_status = HS_PENDING, hp_manifest = m, hp_parameters = ps, hp_contract = c,
       hp_created_by = hq_actor_ref q, hp_approval_required = True, hp_approved_by = None, hp_approved_at = None, hp_rejected_by = None,
       hp_rejected_at = None\<rparr> = Inr p0"
    and m': "mk_manifest (m\<lparr>hm_checksum := checksum_of (payload_without_checksum p0)\<rparr>) = Inr m'"
    and p: "mk_package (p0\<lparr>hp_manifest := m'\<rparr>) = Inr p"
    using assms(1) by (auto simp: build_package_def bindR_Inr_iff)
  have psb: "ps = br_parameters b" by (rule mk_handoff_ids(4) [OF ps])
  have m'_eq: "m' = m\<lparr>hm_checksum := checksum_of (payload_without_checksum p0)\<rparr>" by (rule mk_handoff_ids(2) [OF m'])
  have p0_eq: "p0 = \<lparr>hp_package_id = hm_package_id m, hp_status = HS_PENDING, hp_manifest = m, hp_parameters = ps, hp_contract = c,
       hp_created_by = hq_actor_ref q, hp_approval_required = True, hp_approved_by = None, hp_approved_at = None, hp_rejected_by = None,
       hp_rejected_at = None\<rparr>" by (rule mk_handoff_ids(1) [OF p0])
  have p_eq: "p = p0\<lparr>hp_manifest := m'\<rparr>" by (rule mk_handoff_ids(1) [OF p])
  have c_eq: "hc_types c = map (\<lambda>k. (k, type_name (jget ps k))) (sort (map fst ps))"
    using c by (auto simp: contract_of_def Let_def dest: mk_handoff_ids(3))
  have parts: "hp_manifest p = m'" "hp_parameters p = br_parameters b" "hp_contract p = c" by (simp_all add: p_eq p0_eq psb)
  have "payload_without_checksum p = payload_without_checksum p0"
    by (simp add: p_eq m'_eq p0_eq payload_without_checksum_def)
  then have "checksum_of (payload_without_checksum p) = hm_checksum m'" by (simp add: m'_eq)
  moreover have "sorted (map fst (hc_types c))" by (simp add: c_eq comp_def)
  moreover have "mk_contract c = Inr c"
  proof -
    obtain c0 where c0: "mk_contract c0 = Inr c" using c by (auto simp: contract_of_def Let_def)
    then show ?thesis using mk_handoff_ids(3) [OF c0] by simp
  qed
  moreover have "mk_manifest m' = Inr m'" using m' m'_eq by simp
  moreover have "mk_package p = Inr p" using p p_eq by simp
  ultimately show "package_ok p"
    using ps assms(2) unfolding package_ok_def parts psb by simp
  show "hp_status p = HS_PENDING" "hp_approval_required p" "hm_fingerprint (hp_manifest p) = re_fingerprint a"
    "hm_registry_version (hp_manifest p) = re_version_id a" "hm_backtest_fingerprint (hp_manifest p) = br_fingerprint b"
    "hm_revalidation_id (hp_manifest p) = rv_revalidation_id rep" "hp_parameters p = br_parameters b" "hp_approved_by p = None"
    using mk_handoff_ids(2) [OF m [unfolded manifest_of_def]] by (simp_all add: p_eq p0_eq m'_eq psb)
qed

lemma hr_add_later:
  assumes "handoff_ok repo" and "package_ok p" and "hp_status p = HS_PENDING" and "hr_add p repo = Inr repo'"
  shows "packages_later repo repo'" "t_get (hp_package_id p) (hr_packages repo') = Some p"
proof -
  have fresh: "t_get (hp_package_id p) (hr_packages repo) = None"
    and ins: "t_insert (hp_package_id p) p (hr_packages repo) = Inr (hr_packages repo')" and app: "hr_approvals repo' = hr_approvals repo"
    using assms(4) by (auto simp: hr_add_def hr_get_or_none_ok [OF assms(1)] bindR_Inr_iff split: option.splits)
  show "t_get (hp_package_id p) (hr_packages repo') = Some p" by (simp add: t_get_insert [OF ins])
  have "handoff_ok repo'"
    using assms(1-3) unfolding handoff_ok_def by (auto simp: t_get_insert [OF ins] app)
  moreover have "t_get k (hr_packages repo') = Some x" if "t_get k (hr_packages repo) = Some x" for k x
    using that fresh by (auto simp: t_get_insert [OF ins])
  ultimately show "packages_later repo repo'" unfolding packages_later_def by blast
qed

text \<open>What a creation is based on, and what it leaves.\<close>

definition handoff_created :: "handoff_request \<Rightarrow> handoff_env \<Rightarrow> handoff_package \<Rightarrow> handoff_repo \<Rightarrow> bool" where
  "handoff_created q s p repo \<longleftrightarrow> (\<exists>a rep b. rg_get_active (hq_slot q) (ho_registry s) = Inr (Some a) \<and>
     revalidation_get_report (hq_revalidation_id q) (ho_revalidations s) = Inr rep \<and> rv_status rep = RV_LIVE_ELIGIBLE \<and>
     rv_version_id rep = re_version_id a \<and> rv_fingerprint rep = re_fingerprint a \<and>
     backtest_get_result (re_backtest_id a) (ho_backtests s) = Inr b \<and> br_fingerprint b = re_fingerprint a \<and>
     hm_fingerprint (hp_manifest p) = re_fingerprint a \<and> hm_registry_version (hp_manifest p) = re_version_id a \<and>
     hp_parameters p = br_parameters b) \<and>
   hp_status p = HS_PENDING \<and> hp_approval_required p \<and> hp_approved_by p = None \<and> hr_get (hp_package_id p) repo = Inr p"

lemma handoff_source_Inr:
  "handoff_source q s = Inr (a, rep, b) \<longleftrightarrow> rg_get_active (hq_slot q) (ho_registry s) = Inr (Some a) \<and>
     revalidation_get_report (hq_revalidation_id q) (ho_revalidations s) = Inr rep \<and> rv_status rep = RV_LIVE_ELIGIBLE \<and>
     rv_version_id rep = re_version_id a \<and> rv_fingerprint rep = re_fingerprint a \<and>
     backtest_get_result (re_backtest_id a) (ho_backtests s) = Inr b \<and> br_fingerprint b = re_fingerprint a"
  by (auto simp: handoff_source_def bindR_Inr_iff ofOption_def split: option.splits)

lemma create_wp:
  assumes "handoff_ok (ho_repo s)" and "bt_rows_ok (ho_backtests s)"
  shows "wp (handoff_create q)
    (\<lambda>p t. packages_later (ho_repo s) (ho_repo t) \<and> ho_backtests t = ho_backtests s \<and> handoff_created q s p (ho_repo t))
    (\<lambda>_ t. packages_later (ho_repo s) (ho_repo t) \<and> ho_backtests t = ho_backtests s \<and>
       (ho_repo t = ho_repo s \<or> (\<exists>x. handoff_source q s = Inr x))) s"
proof (cases "handoff_source q s")
  case (Inl e)
  then show ?thesis using assms(1) by (simp add: handoff_create_def handoff_wp packages_later_refl)
next
  case (Inr x)
  obtain a rep b where x: "x = (a, rep, b)" by (cases x)
  note src = Inr [unfolded x handoff_source_Inr]
  have canon: "ocanon (br_parameters b) = br_parameters b" using stored_parameters [OF assms(2)] src by blast
  show ?thesis
  proof (cases "build_package q a rep b")
    case (Inl e)
    then show ?thesis using Inr x assms(1) by (simp add: handoff_create_def handoff_wp packages_later_refl)
  next
    case (Inr p)
    note p = build_package_ok [OF Inr canon]
    have made: "packages_later (ho_repo s) repo' \<and> handoff_created q s p repo'" if "hr_add p (ho_repo s) = Inr repo'" for repo'
      using hr_add_later [OF assms(1) p(1,2) that] src p(2-9) unfolding handoff_created_def
      by (auto simp: hr_get_ok packages_later_def)
    show ?thesis
      unfolding handoff_create_def
      using \<open>handoff_source q s = Inr x\<close> assms(1) made
      by (auto intro!: wp_ho_record packages_later_refl simp: handoff_wp x Inr split: sum.splits)
  qed
qed

text \<open>Calls of the service, with the other services writing their tables between them.\<close>

datatype handoff_call =
    HC_Create handoff_request
  | HC_Approve string string string string
  | HC_Reject string string string string
  | HC_Registry registry_repo
  | HC_Revalidations revalidation_repo
  | HC_Backtest backtest_result

fun handoff_step :: "handoff_call \<Rightarrow> handoff_env \<Rightarrow> handoff_env" where
  "handoff_step (HC_Create q) s = snd (handoff_create q s)"
| "handoff_step (HC_Approve pid approver ts why) s = snd (handoff_approve pid approver ts why s)"
| "handoff_step (HC_Reject pid actor ts why) s = snd (handoff_reject pid actor ts why s)"
| "handoff_step (HC_Registry repo) s = s\<lparr>ho_registry := repo\<rparr>"
| "handoff_step (HC_Revalidations repo) s = s\<lparr>ho_revalidations := repo\<rparr>"
| "handoff_step (HC_Backtest r) s = s\<lparr>ho_backtests := backtest_add_result r (ho_backtests s)\<rparr>"

definition handoff_env_init :: "durable_event list option \<Rightarrow> metric_call list option \<Rightarrow> handoff_env" where
  "handoff_env_init es ms = \<lparr>env_events = es, env_metrics = ms, ho_repo = handoff_repo_init, ho_registry = registry_repo_init,
     ho_revalidations = revalidation_repo_init, ho_backtests = backtest_repo_init\<rparr>"

lemma bt_rows_add: "bt_rows_ok repo \<Longrightarrow> bt_rows_ok (backtest_add_result r repo)"
  by (auto simp: bt_rows_ok_def backtest_add_result_def replace_store.get_put)

definition handoff_env_ok :: "handoff_env \<Rightarrow> bool" where
  "handoff_env_ok s \<longleftrightarrow> handoff_ok (ho_repo s) \<and> bt_rows_ok (ho_backtests s)"

lemma handoff_step_later:
  assumes "handoff_env_ok s"
  shows "packages_later (ho_repo s) (ho_repo (handoff_step c s)) \<and> handoff_env_ok (handoff_step c s)"
proof -
  have ok: "handoff_ok (ho_repo s)" "bt_rows_ok (ho_backtests s)" using assms by (simp_all add: handoff_env_ok_def)
  have kept: "packages_later (ho_repo s) (ho_repo (snd (m s))) \<and> handoff_env_ok (snd (m s))" if "always_kept m s" for m :: "(handoff_env, handoff_package) opr"
    using wp_snd [OF that] ok(2) by (auto simp: handoff_env_ok_def packages_later_def)
  have create: "always_kept (handoff_create q) s" for q
    by (rule wp_mono [OF create_wp [OF ok]]) auto
  show ?thesis
    using kept [OF create] kept [OF approve_kept [OF ok(1)]] kept [OF reject_kept [OF ok(1)]] ok bt_rows_add
    by (cases c) (simp_all add: packages_later_refl handoff_env_ok_def)
qed

lemma handoff_steps_later:
  "handoff_env_ok s \<Longrightarrow> packages_later (ho_repo s) (ho_repo (fold handoff_step cs s)) \<and> handoff_env_ok (fold handoff_step cs s)"
proof (induction cs arbitrary: s)
  case Nil then show ?case by (simp add: packages_later_refl handoff_env_ok_def)
next
  case (Cons c cs)
  note step = handoff_step_later [OF Cons.prems, of c]
  with Cons.IH [of "handoff_step c s"] show ?case by (auto intro: packages_later_trans)
qed

lemma handoff_init_ok: "handoff_env_ok (handoff_env_init es ms)"
  by (simp add: handoff_env_ok_def handoff_env_init_def handoff_ok_def handoff_repo_init_def bt_rows_ok_def backtest_repo_init_def t_get_def)

lemma moves_pending: "handoff_move\<^sup>*\<^sup>* p u \<Longrightarrow> hp_status p \<noteq> HS_PENDING \<Longrightarrow> u = p"
  by (erule converse_rtranclpE) (auto elim: handoff_moveE)

section \<open>Properties\<close>

text \<open>
  C25: the life of a handoff package. After any calls, in any order and with the other services writing
  in between, a stored package is readable with a correct checksum, and whatever calls follow it only
  moves from pending to approved or rejected: a decided package is never changed again, not in a single
  field.
\<close>

theorem handoff_package_lifecycle:
  assumes "t_get pid (hr_packages (ho_repo (fold handoff_step cs (handoff_env_init es ms)))) = Some p"
  shows "hr_get pid (ho_repo (fold handoff_step cs (handoff_env_init es ms))) = Inr p \<and>
    checksum_of (payload_without_checksum p) = hm_checksum (hp_manifest p) \<and>
    (\<exists>u. t_get pid (hr_packages (ho_repo (fold handoff_step (cs @ ds) (handoff_env_init es ms)))) = Some u \<and>
      handoff_move\<^sup>*\<^sup>* p u \<and> (hp_status p \<noteq> HS_PENDING \<longrightarrow> u = p))"
proof -
  let ?s = "fold handoff_step cs (handoff_env_init es ms)"
  have env: "handoff_env_ok ?s" using handoff_steps_later [OF handoff_init_ok] by blast
  then have ok: "handoff_ok (ho_repo ?s)" by (simp add: handoff_env_ok_def)
  obtain u where u: "t_get pid (hr_packages (ho_repo (fold handoff_step ds ?s))) = Some u" "handoff_move\<^sup>*\<^sup>* p u"
    using handoff_steps_later [OF env, of ds] assms by (auto simp: packages_later_def)
  have "package_ok p" using ok assms by (auto simp: handoff_ok_def)
  then show ?thesis
    using assms u moves_pending [OF u(2)] by (auto simp: hr_get_ok [OF ok] package_ok_def)
qed

text \<open>
  C26: what a package is created from. A creation that returns has found an active champion, a live
  eligible revalidation of exactly that champion version and fingerprint, and a backtest result with
  the same fingerprint; the package carries that champion and the parameters of that backtest, is
  pending and needs an approval, and reads back unchanged. A creation that raises without such a
  source leaves the packages as they were.
\<close>

theorem handoff_create_gate:
  "case handoff_create q (fold handoff_step cs (handoff_env_init es ms)) of
     (Inr p, t) \<Rightarrow> handoff_created q (fold handoff_step cs (handoff_env_init es ms)) p (ho_repo t)
   | (Inl e, t) \<Rightarrow> ho_repo t = ho_repo (fold handoff_step cs (handoff_env_init es ms)) \<or>
       (\<exists>x. handoff_source q (fold handoff_step cs (handoff_env_init es ms)) = Inr x)"
proof -
  let ?s = "fold handoff_step cs (handoff_env_init es ms)"
  have "handoff_env_ok ?s" using handoff_steps_later [OF handoff_init_ok] by blast
  then have "handoff_ok (ho_repo ?s)" "bt_rows_ok (ho_backtests ?s)" by (simp_all add: handoff_env_ok_def)
  from create_wp [OF this, of q] show ?thesis by (auto simp: wp_def split: prod.splits sum.splits)
qed

lemma mk_same:
  "mk_manifest m = Inr x \<Longrightarrow> x = m" "mk_contract c = Inr y \<Longrightarrow> y = c" "mk_parameters ps = Inr qs \<Longrightarrow> qs = ps"
  by (auto simp: mk_manifest_def mk_contract_def mk_parameters_def bindR_Inr_iff)

lemma read_parts:
  "manifest_from_json m = Inr x \<Longrightarrow> mk_manifest x = Inr x" "contract_from_json c = Inr y \<Longrightarrow> mk_contract y = Inr y"
  "mk_parameters ps = Inr qs \<Longrightarrow> mk_parameters qs = Inr qs"
  subgoal unfolding manifest_from_json_def bindR_Inr_iff by (elim exE conjE, frule mk_same(1), simp only:)
  subgoal unfolding contract_from_json_def bindR_Inr_iff by (elim exE conjE, frule mk_same(2), simp only:)
  subgoal by (frule mk_same(3), simp only:)
  done

text \<open>
  C39: no package that its constructors refuse, and none with a wrong checksum, is ever read. Whatever
  tree the table holds, the manifest, the parameters, the contract and the package that are read pass the
  checks of their constructors, the manifest is the one of the package, and its checksum is the one of the
  package's content.
\<close>

theorem handoff_read_checked:
  "case package_from_json o' of
     Inr p \<Rightarrow> mk_manifest (hp_manifest p) = Inr (hp_manifest p) \<and> mk_parameters (hp_parameters p) = Inr (hp_parameters p) \<and>
       mk_contract (hp_contract p) = Inr (hp_contract p) \<and> mk_package p = Inr p \<and> hp_package_id p = hm_package_id (hp_manifest p) \<and>
       checksum_of (payload_without_checksum p) = hm_checksum (hp_manifest p)
   | Inl e \<Rightarrow> True"
proof (cases "package_from_json o'")
  case (Inr p)
  then have "mk_manifest (hp_manifest p) = Inr (hp_manifest p)" "mk_parameters (hp_parameters p) = Inr (hp_parameters p)"
    "mk_contract (hp_contract p) = Inr (hp_contract p)" "mk_package p = Inr p" "hp_package_id p = hm_package_id (hp_manifest p)"
    by (auto simp: package_from_json_def bindR_Inr_iff mk_package_def dest: read_parts)
  then show ?thesis using Inr package_from_json_checksum [OF Inr] by simp
qed simp

text \<open>
  Observed behaviour: the checksum covers neither the status nor the decision, so a text in which only
  these were changed still reads as a valid package.
\<close>

lemma checksum_ignores_decision:
  "checksum_of (payload_without_checksum (p\<lparr>hp_status := HS_APPROVED, hp_approved_by := Some a, hp_approved_at := Some ts\<rparr>)) =
   checksum_of (payload_without_checksum p)"
  by simp

section \<open>Witness\<close>

lemma hex_word_alnum: "c \<in> set (hex_word w) \<Longrightarrow> is_alnum c"
proof -
  have d: "is_alnum (if d < 10 then chr (48 + d) else chr (87 + d))" if "d < 16" for d :: nat
    using that by (auto simp: is_alnum_def is_digit_def is_lower_def)
  assume "c \<in> set (hex_word w)"
  then obtain i where c: "c = (let d = nat (uint w) div 16 ^ (7 - i) mod 16 in if d < 10 then chr (48 + d) else chr (87 + d))"
    unfolding hex_word_def set_map by blast
  show "is_alnum c" unfolding c Let_def by (rule d) simp
qed

lemma package_id_safe: "safe_ref (''handoff-'' @ short_hash v)"
proof -
  have "list_all is_alnum (short_hash v)"
    by (auto simp: short_hash_def sha256_hex_def list_all_iff intro: hex_word_alnum dest!: in_set_takeD)
  then show ?thesis
    by (auto simp: safe_ref_def ref_format_def is_alnum_def one_of_def is_lower_def is_upper_def is_digit_def list_all_iff short_hash_def ordc_def)
qed

definition sample_handoff_entry :: registry_entry where
  "sample_handoff_entry = sample_active\<lparr>re_backtest_id := ''x'', re_activated_at := ''2026-01-01T00:00:00Z''\<rparr>"

definition sample_handoff_report :: revalidation_report where
  "sample_handoff_report = \<lparr>rv_revalidation_id = ''r1'', rv_status = RV_LIVE_ELIGIBLE, rv_policy_version = ''p'', rv_session_id = ''s1'',
     rv_version_id = ''v1'', rv_fingerprint = ''f'', rv_rules = [], rv_warnings = [], rv_kill_reasons = [],
     rv_rollback = \<lparr>ra_recommended = False, ra_reason = ''n'', ra_previous = None\<rparr>, rv_generated_at = ''2026-01-01T00:00:00Z''\<rparr>"

definition sample_handoff_request :: handoff_request where
  "sample_handoff_request = \<lparr>hq_request_id = ''q1'', hq_slot = ''main'', hq_revalidation_id = ''r1'', hq_actor_ref = ''actor'',
     hq_requested_at = ''2026-01-02T00:00:00Z''\<rparr>"

definition sample_handoff_calls :: "handoff_call list" where
  "sample_handoff_calls = [HC_Registry (registry_repo_init\<lparr>rg_active := [(''main'', sample_handoff_entry)]\<rparr>),
     HC_Revalidations (revalidation_add_report sample_handoff_report revalidation_repo_init), HC_Backtest sample_backtest_result]"

lemma sample_handoff_formats: "iso_utc ''2026-01-02T00:00:00Z''" "safe_ref ''strategy:a''" "safe_ref ''f''"
    "safe_ref (sr_strategy_id (br_strategy sample_backtest_result))" "safe_key ''n''"
  by code_simp+

definition sample_handoff :: handoff_env where
  "sample_handoff = fold handoff_step sample_handoff_calls (handoff_env_init None None)"

lemma sample_handoff_facts:
  "ho_registry sample_handoff = registry_repo_init\<lparr>rg_active := [(''main'', sample_handoff_entry)]\<rparr>"
  "ho_revalidations sample_handoff = revalidation_add_report sample_handoff_report revalidation_repo_init"
  "ho_backtests sample_handoff = backtest_add_result sample_backtest_result backtest_repo_init"
  "ho_repo sample_handoff = handoff_repo_init" "env_events sample_handoff = None"
  by (simp_all add: sample_handoff_def sample_handoff_calls_def handoff_env_init_def)

lemma sample_backtest_facts:
  "br_result_id sample_backtest_result = ''x''" "br_fingerprint sample_backtest_result = ''f''"
  "br_parameters sample_backtest_result = [(''n'', JInt 5)]"
  by (simp_all add: sample_backtest_result_def)

lemma sample_entry_facts:
  "re_slot sample_handoff_entry = ''main''" "re_version_id sample_handoff_entry = ''v1''" "re_fingerprint sample_handoff_entry = ''f''"
  "re_backtest_id sample_handoff_entry = ''x''"
  by (simp_all add: sample_handoff_entry_def sample_active_def)

lemma sample_report_facts:
  "rv_revalidation_id sample_handoff_report = ''r1''" "rv_status sample_handoff_report = RV_LIVE_ELIGIBLE"
  "rv_version_id sample_handoff_report = ''v1''" "rv_fingerprint sample_handoff_report = ''f''"
  by (simp_all add: sample_handoff_report_def)

lemma sample_handoff_lookups:
  "backtest_get_result ''x'' (backtest_add_result sample_backtest_result backtest_repo_init) = Inr sample_backtest_result"
  "revalidation_get_report ''r1'' (revalidation_add_report sample_handoff_report revalidation_repo_init) = Inr sample_handoff_report"
  "rg_get_active ''main'' (registry_repo_init\<lparr>rg_active := [(''main'', sample_handoff_entry)]\<rparr>) = Inr (Some sample_handoff_entry)"
  subgoal by code_simp
  subgoal by (simp add: revalidation_get_report_def revalidation_add_report_def replace_store.get_put revalidation_roundtrip
      flip: sample_report_facts(1))
  subgoal by code_simp
  done

lemma sample_handoff_source:
  "handoff_source sample_handoff_request sample_handoff = Inr (sample_handoff_entry, sample_handoff_report, sample_backtest_result)"
  unfolding handoff_source_Inr sample_handoff_facts sample_entry_facts sample_report_facts sample_backtest_facts
  by (simp add: sample_handoff_lookups sample_handoff_request_def)

lemma sample_package:
  obtains p where "build_package sample_handoff_request sample_handoff_entry sample_handoff_report sample_backtest_result = Inr p"
  using sample_handoff_formats package_id_safe
  by (simp add: build_package_def mk_parameters_def contract_of_def manifest_of_def mk_contract_def mk_manifest_def mk_package_def
      validate_key_def validate_handoff_ref_def validate_utc_def validate_opt_utc_def is_primitive_def handoff_schema_version_def
      sample_handoff_request_def sample_handoff_entry_def sample_active_def sample_handoff_report_def sample_backtest_result_def)


definition sample_packages :: "handoff_package \<Rightarrow> handoff_repo" where
  "sample_packages p = handoff_repo_init\<lparr>hr_packages := [(hp_package_id p, p)],
     hr_created := [(hp_package_id p, hm_generated_at (hp_manifest p))]\<rparr>"

lemma sample_silent:
  "env_events s = None \<Longrightarrow> ho_record t p a ts s = (Inr (), s)" "env_metrics s = None \<Longrightarrow> ho_increment n s = (Inr (), s)"
  by (simp add: ho_record_def) (cases s, simp add: ho_increment_def increment_def modO_def)

lemma sample_created:
  obtains p where "handoff_create sample_handoff_request sample_handoff =
      (Inr p, sample_handoff\<lparr>ho_repo := sample_packages p\<rparr>)" "hp_status p = HS_PENDING"
proof -
  obtain p where p: "build_package sample_handoff_request sample_handoff_entry sample_handoff_report sample_backtest_result = Inr p"
    by (rule sample_package)
  have m: "env_metrics sample_handoff = None"
    by (simp add: sample_handoff_def sample_handoff_calls_def handoff_env_init_def)
  have a: "hr_add p handoff_repo_init = Inr (sample_packages p)"
    by (simp add: hr_add_def hr_get_or_none_def handoff_repo_init_def t_get_def t_insert_def sample_packages_def)
  have s: "hp_status p = HS_PENDING"
    by (rule build_package_ok(2) [OF p]) (simp add: sample_backtest_facts ocanon_def)
  have "handoff_create sample_handoff_request sample_handoff = (Inr p, sample_handoff\<lparr>ho_repo := sample_packages p\<rparr>)"
    by (simp add: handoff_create_def bindO_def thenO_def ho_read_def sample_handoff_source liftO_def p ho_write_def sample_handoff_facts
        a sample_silent m retO_def)
  then show thesis using s that by blast
qed

theorem handoff_package_lifecycle_witness:
  "\<exists>p. hr_get (hp_package_id p) (ho_repo (fold handoff_step (sample_handoff_calls @ [HC_Create sample_handoff_request])
      (handoff_env_init None None))) = Inr p \<and> hp_status p = HS_PENDING"
proof -
  obtain p where p: "handoff_create sample_handoff_request sample_handoff =
      (Inr p, sample_handoff\<lparr>ho_repo := sample_packages p\<rparr>)" "hp_status p = HS_PENDING"
    by (rule sample_created)
  have "t_get (hp_package_id p) (hr_packages (ho_repo (fold handoff_step (sample_handoff_calls @ [HC_Create sample_handoff_request])
      (handoff_env_init None None)))) = Some p"
    unfolding fold_append o_apply sample_handoff_def [symmetric]
    by (simp add: p(1) t_get_def sample_packages_def)
  from handoff_package_lifecycle [OF this] show ?thesis using p(2) by blast
qed

end
