(* ===== verification/JsonRead.thy ===== *)
theory JsonRead
  imports StrategyHandoff
begin

text \<open>
  \<open>json.loads\<close>, for the texts the program reads from files that anything may have written: the scanner of
  the standard library on the characters of the text. The lemmas show that what \<open>json.dumps\<close> prints is
  read back as the tree it was printed from, so the columns that hold such a text can be modelled by the
  tree. A number is read as \<open>int\<close> or \<open>float\<close> reads it, an escape of a code point above 255, which the
  strings of the model cannot hold, is not accepted.
\<close>

section \<open>Tokens\<close>

definition json_space :: "char \<Rightarrow> bool" where
  "json_space c \<longleftrightarrow> ordc c \<in> {9, 10, 13, 32}"

definition skip_ws :: "string \<Rightarrow> string" where
  "skip_ws = dropWhile json_space"

definition hex_val :: "char \<Rightarrow> nat option" where
  "hex_val c = (if is_digit c then Some (ordc c - 48)
     else if 97 \<le> ordc c \<and> ordc c \<le> 102 then Some (ordc c - 87)
     else if 65 \<le> ordc c \<and> ordc c \<le> 70 then Some (ordc c - 55) else None)"

definition hex4 :: "char \<Rightarrow> char \<Rightarrow> char \<Rightarrow> char \<Rightarrow> nat option" where
  "hex4 a b c d = (case (hex_val a, hex_val b, hex_val c, hex_val d) of
     (Some w, Some x, Some y, Some z) \<Rightarrow> Some (((w * 16 + x) * 16 + y) * 16 + z) | _ \<Rightarrow> None)"

definition simple_escape :: "char \<Rightarrow> char option" where
  "simple_escape c = map_of [(chr 34, chr 34), (chr 92, chr 92), (CHR ''/'', CHR ''/''), (CHR ''b'', chr 8), (CHR ''f'', chr 12),
     (CHR ''n'', chr 10), (CHR ''r'', chr 13), (CHR ''t'', chr 9)] c"

text \<open>A string from behind its opening quote, with the text behind its closing one.\<close>

fun scan_string :: "string \<Rightarrow> (string \<times> string) option" where
  "scan_string [] = None"
| "scan_string (c # s) =
    (if c = chr 34 then Some ([], s)
     else if c = chr 92 then
       (case s of [] \<Rightarrow> None
        | e # t \<Rightarrow> if e = CHR ''u'' then
            (case t of x # y # z # w # r \<Rightarrow>
               (case hex4 x y z w of Some n \<Rightarrow> if n < 256 then map_option (apfst ((#) (chr n))) (scan_string r) else None | None \<Rightarrow> None)
             | _ \<Rightarrow> None)
          else (case simple_escape e of Some d \<Rightarrow> map_option (apfst ((#) d)) (scan_string t) | None \<Rightarrow> None))
     else if ordc c < 32 then None
     else map_option (apfst ((#) c)) (scan_string s))"

text \<open>The longest prefix that is a fraction, an exponent, and the number in front of a text.\<close>

definition fraction_part :: "string \<Rightarrow> string" where
  "fraction_part s = (case s of c # t \<Rightarrow> if c = CHR ''.'' \<and> takeWhile is_digit t \<noteq> [] then c # takeWhile is_digit t else [] | [] \<Rightarrow> [])"

definition exponent_part :: "string \<Rightarrow> string" where
  "exponent_part s = (case s of c # t \<Rightarrow> if c = CHR ''e'' \<or> c = CHR ''E'' then
       (let g = (case t of d # _ \<Rightarrow> if d = CHR ''+'' \<or> d = CHR ''-'' then [d] else [] | [] \<Rightarrow> []);
            ds = takeWhile is_digit (drop (length g) t)
        in if ds = [] then [] else c # g @ ds) else [] | [] \<Rightarrow> [])"

definition integer_part :: "string \<Rightarrow> string" where
  "integer_part s = (case s of c # t \<Rightarrow> if c = CHR ''0'' then [c] else takeWhile is_digit s | [] \<Rightarrow> [])"

text \<open>Sign, integer, fraction and exponent of the number in front of a text, and the rest.\<close>

definition number_parts :: "string \<Rightarrow> string \<times> string \<times> string \<times> string \<times> string" where
  "number_parts s = (let sg = (if startswith s ''-'' then ''-'' else []); t = drop (length sg) s; ip = integer_part t;
     t1 = drop (length ip) t; fp = fraction_part t1; t2 = drop (length fp) t1; ep = exponent_part t2
   in (sg, ip, fp, ep, drop (length ep) t2))"

definition scan_number :: "string \<Rightarrow> (json \<times> string) option" where
  "scan_number s = (case number_parts s of (sg, ip, fp, ep, rest) \<Rightarrow>
     if ip = [] then None
     else if fp = [] \<and> ep = [] then Some (JInt (if sg = [] then int (parse_nat ip) else - int (parse_nat ip)), rest)
     else (case float_of_text (sg @ ip @ fp @ ep) of Inr x \<Rightarrow> Some (JFloat x, rest) | Inl _ \<Rightarrow> None))"

section \<open>Values\<close>

definition json_words :: "(string \<times> json) list" where
  "json_words = [(''null'', JNull), (''true'', JBool True), (''false'', JBool False), (''NaN'', JFloat NaN),
     (''Infinity'', JFloat PInf), (''-Infinity'', JFloat NInf)]"

definition scan_word :: "string \<Rightarrow> (json \<times> string) option" where
  "scan_word s = (case find (\<lambda>(w, v). startswith s w) json_words of Some (w, v) \<Rightarrow> Some (v, drop (length w) s) | None \<Rightarrow> scan_number s)"

text \<open>A later value of a key replaces an earlier one.\<close>

definition object_of :: "obj \<Rightarrow> json" where
  "object_of ps = JObj (fold (\<lambda>(k, v) d. AList.update k v d) ps [])"

text \<open>
  The fuel bounds the calls below one another, two for a nested array or object: twice the length of
  the text is enough.
\<close>

fun scan_value :: "nat \<Rightarrow> string \<Rightarrow> (json \<times> string) option"
  and scan_items :: "nat \<Rightarrow> string \<Rightarrow> (json list \<times> string) option"
  and scan_pairs :: "nat \<Rightarrow> string \<Rightarrow> (obj \<times> string) option" where
  "scan_value 0 s = None"
| "scan_value (Suc n) s = (case s of [] \<Rightarrow> None | c # t \<Rightarrow>
     if c = chr 34 then map_option (apfst JStr) (scan_string t)
     else if c = CHR ''{'' then
       (if startswith (skip_ws t) ''}'' then Some (JObj [], tl (skip_ws t)) else map_option (apfst object_of) (scan_pairs n (skip_ws t)))
     else if c = CHR ''['' then
       (if startswith (skip_ws t) '']'' then Some (JArr [], tl (skip_ws t)) else map_option (apfst JArr) (scan_items n (skip_ws t)))
     else scan_word s)"
| "scan_items 0 s = None"
| "scan_items (Suc n) s = (case scan_value n s of None \<Rightarrow> None | Some (v, t) \<Rightarrow> (case skip_ws t of [] \<Rightarrow> None | c # u \<Rightarrow>
     if c = CHR '']'' then Some ([v], u)
     else if c = CHR '','' then map_option (apfst ((#) v)) (scan_items n (skip_ws u)) else None))"
| "scan_pairs 0 s = None"
| "scan_pairs (Suc n) s = (case s of [] \<Rightarrow> None | q # s1 \<Rightarrow> if q \<noteq> chr 34 then None else
     (case scan_string s1 of None \<Rightarrow> None | Some (k, s2) \<Rightarrow> (case skip_ws s2 of [] \<Rightarrow> None | d # s3 \<Rightarrow> if d \<noteq> CHR '':'' then None else
     (case scan_value n (skip_ws s3) of None \<Rightarrow> None | Some (v, t) \<Rightarrow> (case skip_ws t of [] \<Rightarrow> None | c # u \<Rightarrow>
     if c = CHR ''}'' then Some ([(k, v)], u)
     else if c = CHR '','' then map_option (apfst ((#) (k, v))) (scan_pairs n (skip_ws u)) else None)))))"

definition json_error :: pyerr where
  "json_error = OtherError ''JSONDecodeError'' ''''"

definition json_loads :: "string \<Rightarrow> json res" where
  "json_loads s = (case scan_value (2 * length s + 2) (skip_ws s) of
     Some (v, t) \<Rightarrow> if skip_ws t = [] then Inr v else Inl json_error | None \<Rightarrow> Inl json_error)"

section \<open>Strings are read back\<close>

lemma ordc_bound: "ordc c < 256"
  unfolding ordc_def by (metis of_char_mod_256 mod_less_divisor zero_less_numeral)

lemma chars_differ: "ordc c \<noteq> ordc d \<Longrightarrow> c \<noteq> d"
  by auto

lemma ordc_lits [simp]:
  "ordc CHR ''u'' = 117" "ordc CHR ''n'' = 110" "ordc CHR ''r'' = 114" "ordc CHR ''t'' = 116" "ordc CHR ''b'' = 98" "ordc CHR ''f'' = 102"
  "ordc CHR ''0'' = 48" "ordc CHR ''/'' = 47" "ordc CHR ''-'' = 45" "ordc CHR ''.'' = 46" "ordc CHR ''e'' = 101" "ordc CHR ''E'' = 69"
  "ordc CHR ''{'' = 123" "ordc CHR ''}'' = 125" "ordc CHR ''['' = 91" "ordc CHR '']'' = 93" "ordc CHR '','' = 44" "ordc CHR '':'' = 58"
  "ordc CHR ''N'' = 78" "ordc CHR ''I'' = 73" "ordc CHR ''+'' = 43"
  by (simp_all add: ordc_def)

lemma chr_eq_iff: "n < 256 \<Longrightarrow> c = chr n \<longleftrightarrow> ordc c = n" "n < 256 \<Longrightarrow> chr n = c \<longleftrightarrow> ordc c = n"
  by auto

lemma hex_val_char [simp]: "n < 16 \<Longrightarrow> hex_val (hex_char n) = Some n"
  by (auto simp: hex_val_def hex_char_def is_digit_def)

lemma hex4_low: "n < 256 \<Longrightarrow> hex4 CHR ''0'' CHR ''0'' (hex_char (n div 16)) (hex_char (n mod 16)) = Some n"
proof -
  assume "n < 256"
  then have "n div 16 < 16" by simp
  moreover have "hex_val CHR ''0'' = Some 0" by (simp add: hex_val_def is_digit_def)
  ultimately show ?thesis by (simp add: hex4_def)
qed

lemma simple_escapes [simp]:
  "simple_escape (chr 34) = Some (chr 34)" "simple_escape (chr 92) = Some (chr 92)" "simple_escape CHR ''b'' = Some (chr 8)"
  "simple_escape CHR ''f'' = Some (chr 12)" "simple_escape CHR ''n'' = Some (chr 10)" "simple_escape CHR ''r'' = Some (chr 13)"
  "simple_escape CHR ''t'' = Some (chr 9)"
  by (simp_all add: simple_escape_def chr_eq_iff)

lemma scan_json_char: "scan_string (json_char c @ s) = map_option (apfst ((#) c)) (scan_string s)"
proof -
  consider "ordc c \<in> {34, 92, 10, 13, 9, 8, 12}" | "ordc c \<notin> {34, 92, 10, 13, 9, 8, 12}" "ordc c < 32 \<or> 127 \<le> ordc c"
    | "ordc c \<notin> {34, 92, 10, 13, 9, 8, 12}" "\<not> (ordc c < 32 \<or> 127 \<le> ordc c)" by blast
  then show ?thesis
  proof cases
    case 1
    then have "c \<in> {chr 34, chr 92, chr 10, chr 13, chr 9, chr 8, chr 12}" by (auto simp: chr_eq_iff)
    then show ?thesis by (elim insertE emptyE; hypsubst; simp add: json_char_def Let_def chr_eq_iff)
  next
    case 2
    then show ?thesis by (simp add: json_char_def Let_def chr_eq_iff hex4_low ordc_bound)
  next
    case 3
    then show ?thesis by (simp add: json_char_def Let_def chr_eq_iff)
  qed
qed

lemma scan_raw_char: "scan_string (raw_char c @ s) = map_option (apfst ((#) c)) (scan_string s)"
  by (simp add: raw_char_def scan_json_char chr_eq_iff)

text \<open>A printer of strings whose text the scanner reads back.\<close>

definition prints_strings :: "(string \<Rightarrow> string) \<Rightarrow> bool" where
  "prints_strings q \<longleftrightarrow> (\<forall>s. \<exists>t. q s = chr 34 # t \<and> (\<forall>rest. scan_string (t @ rest) = Some (s, rest)))"

lemma prints_by:
  assumes "\<And>c s. scan_string (f c @ s) = map_option (apfst ((#) c)) (scan_string s)"
  shows "prints_strings (\<lambda>s. [chr 34] @ concat (map f s) @ [chr 34])"
proof -
  have "scan_string (concat (map f s) @ chr 34 # rest) = Some (s, rest)" for s rest
    by (induction s) (simp_all add: assms)
  then show ?thesis by (simp add: prints_strings_def)
qed

lemma json_str_text_prints: "prints_strings json_str_text"
  using prints_by [OF scan_json_char] by (simp add: json_str_text_def [abs_def])

lemma raw_str_text_prints: "prints_strings raw_str_text"
  using prints_by [OF scan_raw_char] by (simp add: raw_str_text_def [abs_def])

section \<open>Numbers are read back\<close>

text \<open>What follows a number cannot be taken for a part of it.\<close>

definition ends_number :: "string \<Rightarrow> bool" where
  "ends_number s \<longleftrightarrow> (case s of [] \<Rightarrow> True | c # _ \<Rightarrow> \<not> is_digit c \<and> c \<notin> {CHR ''.'', CHR ''e'', CHR ''E'', CHR ''+'', CHR ''-''})"

lemma takeWhile_ends: "ends_number rest \<Longrightarrow> takeWhile is_digit (s @ rest) = takeWhile is_digit s"
  by (cases rest) (auto simp: ends_number_def takeWhile_append takeWhile_eq_all_conv [THEN iffD2])

lemma integer_part_append: "ends_number rest \<Longrightarrow> s \<noteq> [] \<Longrightarrow> integer_part (s @ rest) = integer_part s"
  using takeWhile_ends [of rest s] by (cases s) (auto simp: integer_part_def)

lemma ends_parts: "ends_number rest \<Longrightarrow> fraction_part rest = []" "ends_number rest \<Longrightarrow> exponent_part rest = []"
  by (cases rest; simp add: ends_number_def fraction_part_def exponent_part_def)+

lemma fraction_part_append: "ends_number rest \<Longrightarrow> fraction_part (s @ rest) = fraction_part s"
  using takeWhile_ends [of rest "tl s"] ends_parts by (cases s) (auto simp: fraction_part_def)

lemma exponent_part_append:
  assumes "ends_number rest"
  shows "exponent_part (s @ rest) = exponent_part s"
proof (cases s)
  case Nil then show ?thesis using ends_parts [OF assms] by (simp add: exponent_part_def)
next
  case (Cons c t)
  show ?thesis
  proof (cases t)
    case Nil
    then show ?thesis using Cons assms takeWhile_ends [OF assms, of "[]"]
      by (cases rest) (auto simp: exponent_part_def ends_number_def Let_def)
  next
    case (Cons d u)
    then show ?thesis using \<open>s = c # t\<close> takeWhile_ends [OF assms, of u] takeWhile_ends [OF assms, of t]
      by (simp add: exponent_part_def Let_def)
  qed
qed

lemma part_lengths: "length (integer_part s) \<le> length s" "length (fraction_part s) \<le> length s" "length (exponent_part s) \<le> length s"
proof -
  have t: "length (takeWhile is_digit u) \<le> length u" for u by (rule length_takeWhile_le)
  show "length (integer_part s) \<le> length s" using t [of s] by (auto simp: integer_part_def split: list.splits)
  show "length (fraction_part s) \<le> length s" using t [of "tl s"] by (auto simp: fraction_part_def split: list.splits)
  have "length (takeWhile is_digit (drop k u)) \<le> length u - k" for k and u :: string using t [of "drop k u"] by simp
  from this [of 0 "tl s"] this [of 1 "tl s"] show "length (exponent_part s) \<le> length s"
    by (cases s; cases "tl s") (auto simp: exponent_part_def Let_def)
qed

definition number_tail :: "string \<Rightarrow> string \<times> string \<times> string \<times> string" where
  "number_tail t = (let ip = integer_part t; t1 = drop (length ip) t; fp = fraction_part t1; t2 = drop (length fp) t1; ep = exponent_part t2
     in (ip, fp, ep, drop (length ep) t2))"

lemma number_parts_tail:
  "number_parts s = (if startswith s ''-'' then (''-'', number_tail (drop 1 s)) else ([], number_tail s))"
  by (simp add: number_parts_def number_tail_def Let_def)

lemma number_tail_append:
  assumes "ends_number rest" and "t \<noteq> []"
  shows "number_tail (t @ rest) = (case number_tail t of (ip, fp, ep, u) \<Rightarrow> (ip, fp, ep, u @ rest))"
proof -
  define t1 where "t1 = drop (length (integer_part t)) t"
  define t2 where "t2 = drop (length (fraction_part t1)) t1"
  have b: "drop (length (integer_part t)) (t @ rest) = t1 @ rest" "drop (length (fraction_part t1)) (t1 @ rest) = t2 @ rest"
    "drop (length (exponent_part t2)) (t2 @ rest) = drop (length (exponent_part t2)) t2 @ rest"
    using part_lengths(1) [of t] part_lengths(2) [of t1] part_lengths(3) [of t2] by (simp_all add: t1_def t2_def)
  have c: "integer_part (t @ rest) = integer_part t" "fraction_part (t1 @ rest) = fraction_part t1" "exponent_part (t2 @ rest) = exponent_part t2"
    by (rule integer_part_append [OF assms] fraction_part_append [OF assms(1)] exponent_part_append [OF assms(1)])+
  have "number_tail (t @ rest) = (integer_part t, fraction_part t1, exponent_part t2, drop (length (exponent_part t2)) t2 @ rest)"
    unfolding number_tail_def Let_def c(1) b(1) c(2) b(2) c(3) b(3) ..
  moreover have "number_tail t = (integer_part t, fraction_part t1, exponent_part t2, drop (length (exponent_part t2)) t2)"
    unfolding number_tail_def Let_def t1_def t2_def ..
  ultimately show ?thesis by simp
qed

lemma number_parts_append:
  assumes "number_parts s = (sg, ip, fp, ep, u)" and "ip \<noteq> []" and "ends_number rest"
  shows "number_parts (s @ rest) = (sg, ip, fp, ep, u @ rest)"
proof -
  have t: "fst (number_tail []) = []" by (simp add: number_tail_def Let_def integer_part_def)
  have s: "s \<noteq> []" using assms t by (cases s) (auto simp: number_parts_tail startswith_def)
  then have a: "startswith (s @ rest) ''-'' = startswith s ''-''" by (cases s) (simp_all add: startswith_def)
  show ?thesis
  proof (cases "startswith s ''-''")
    case True
    then have e: "number_tail (drop 1 s) = (ip, fp, ep, u)" "sg = ''-''" using assms(1) by (simp_all add: number_parts_tail)
    then have "drop 1 s \<noteq> []" using assms(2) t by (metis fst_conv)
    then show ?thesis using number_tail_append [OF assms(3), of "drop 1 s"] e s True a by (simp add: number_parts_tail)
  next
    case False
    then show ?thesis using assms(1) number_tail_append [OF assms(3) s] a by (simp add: number_parts_tail)
  qed
qed

lemma scan_number_append:
  assumes "scan_number s = Some (v, [])" and "ends_number rest"
  shows "scan_number (s @ rest) = Some (v, rest)"
proof -
  obtain sg ip fp ep u where n: "number_parts s = (sg, ip, fp, ep, u)" by (metis prod_cases5)
  have "ip \<noteq> []" "u = []" using assms(1) by (auto simp: scan_number_def n split: if_splits sum.splits)
  from number_parts_append [OF n this(1) assms(2)] this(2) show ?thesis
    using assms(1) by (auto simp: scan_number_def n split: if_splits sum.splits)
qed

lemma digits_only: "list_all is_digit s \<Longrightarrow> takeWhile is_digit s = s"
  by (simp add: takeWhile_eq_all_conv list_all_iff)

lemma dec_nat_first: "0 < n \<Longrightarrow> hd (dec_nat n) \<noteq> CHR ''0''"
proof (induction n rule: dec_nat.induct)
  case (1 n)
  show ?case
  proof (cases "n < 10")
    case True
    then show ?thesis using 1 by (simp add: dec_nat.simps [of n] digit_char_def chr_eq_iff)
  next
    case False
    then show ?thesis using 1 by (simp add: dec_nat.simps [of n] hd_append)
  qed
qed

lemma dec_nat_0 [simp]: "dec_nat 0 = ''0''"
  by (simp add: dec_nat.simps [of 0] digit_char_def chr_eq_iff)

lemma integer_part_dec [simp]: "integer_part (dec_nat n) = dec_nat n"
proof (cases "n = 0")
  case False
  then have "hd (dec_nat n) \<noteq> CHR ''0''" using dec_nat_first by simp
  then show ?thesis using dec_nat_digits [of n] dec_nat_nonempty [of n]
    by (cases "dec_nat n") (simp_all add: integer_part_def digits_only)
qed (simp add: integer_part_def)

lemma no_parts [simp]: "fraction_part [] = []" "exponent_part [] = []"
  by (simp_all add: fraction_part_def exponent_part_def)

lemma dec_nat_sign: "\<not> startswith (dec_nat n) ''-''"
proof -
  have "is_digit (hd (dec_nat n))" using dec_nat_digits [of n] dec_nat_nonempty [of n] by (cases "dec_nat n") auto
  then show ?thesis by (cases "dec_nat n") (auto simp: startswith_def is_digit_def)
qed

lemma scan_dec_nat: "number_parts (dec_nat n) = ([], dec_nat n, [], [], [])"
  using dec_nat_sign [of n] by (simp add: number_parts_def)

lemma scan_dec_int: "scan_number (dec_int i) = Some (JInt i, [])"
proof (cases "i < 0")
  case True
  have "number_parts (CHR ''-'' # dec_nat n) = (''-'', dec_nat n, [], [], [])" for n
    by (simp add: number_parts_def startswith_def)
  then show ?thesis using True by (simp add: scan_number_def dec_int_def)
next
  case False
  then show ?thesis by (simp add: scan_number_def dec_int_def scan_dec_nat)
qed

definition float_readable :: "pyfloat \<Rightarrow> bool" where
  "float_readable x \<longleftrightarrow> (case x of Fin q \<Rightarrow> scan_number (frepr x) = Some (JFloat x, []) | _ \<Rightarrow> True)"

lemma number_starts:
  assumes "scan_number s \<noteq> None"
  obtains "s \<noteq> []" "is_digit (hd s)" | d u where "s = CHR ''-'' # d # u" "is_digit d"
proof -
  have d: "integer_part t \<noteq> [] \<Longrightarrow> t \<noteq> [] \<and> is_digit (hd t)" for t
    by (cases t) (auto simp: integer_part_def is_digit_def split: if_splits)
  have "integer_part (if startswith s ''-'' then drop 1 s else s) \<noteq> []"
    using assms by (auto simp: scan_number_def number_parts_def Let_def split: if_splits)
  from d [OF this] show thesis
  proof (cases "startswith s ''-''")
    case True
    then obtain u where "s = CHR ''-'' # u" by (auto simp: startswith_iff)
    then show ?thesis using \<open>_ \<and> is_digit _\<close> True that(2) by (cases u) auto
  qed (use that(1) in auto)
qed

lemma number_no_word: "scan_number s \<noteq> None \<Longrightarrow> scan_word s = scan_number s"
proof -
  assume n: "scan_number s \<noteq> None"
  have "\<not> startswith s w" if "w \<in> {''null'', ''true'', ''false'', ''NaN'', ''Infinity'', ''-Infinity''}" for w
    using n
  proof (rule number_starts)
    assume "s \<noteq> []" "is_digit (hd s)"
    then show ?thesis using that by (cases s) (auto simp: startswith_def is_digit_def)
  next
    fix d u assume "s = CHR ''-'' # d # u" "is_digit d"
    then show ?thesis using that by (auto simp: startswith_def is_digit_def)
  qed
  then show "scan_word s = scan_number s" by (simp add: scan_word_def json_words_def)
qed

lemma scan_float:
  assumes "float_readable x" and "ends_number rest"
  shows "scan_word (json_float_text x @ rest) = Some (JFloat x, rest)"
proof (cases x)
  case (Fin q)
  then have "scan_number (json_float_text x @ rest) = Some (JFloat x, rest)"
    using assms scan_number_append [of "frepr x"] by (simp add: float_readable_def json_float_text_def)
  then show ?thesis using number_no_word [of "json_float_text x @ rest"] by simp
qed (simp_all add: json_float_text_def scan_word_def json_words_def startswith_def)


section \<open>Values are read back\<close>

text \<open>Every key of an object is there once, and every finite float is the one its text is read as.\<close>

fun jreadable :: "json \<Rightarrow> bool" where
  "jreadable (JFloat x) = float_readable x"
| "jreadable (JArr xs) = list_all jreadable xs"
| "jreadable (JObj kvs) = (distinct (map fst kvs) \<and> list_all (\<lambda>(k, v). jreadable v) kvs)"
| "jreadable _ = True"

lemma update_new: "k \<notin> fst ` set d \<Longrightarrow> AList.update k v d = d @ [(k, v)]"
  by (induction d) auto

lemma object_of_distinct: "distinct (map fst ps) \<Longrightarrow> object_of ps = JObj ps"
proof -
  have "distinct (map fst (d @ ps)) \<Longrightarrow> fold (\<lambda>(k, v) d. AList.update k v d) ps d = d @ ps" for d
    by (induction ps arbitrary: d) (auto simp: update_new)
  from this [of "[]"] show "distinct (map fst ps) \<Longrightarrow> object_of ps = JObj ps" by (simp add: object_of_def)
qed

text \<open>A printed value starts neither with white space nor with a bracket that closes.\<close>

definition opens :: "string \<Rightarrow> bool" where
  "opens s \<longleftrightarrow> (case s of [] \<Rightarrow> False | c # _ \<Rightarrow> \<not> json_space c \<and> c \<noteq> CHR '']'' \<and> c \<noteq> CHR ''}'')"

lemma opensD: "opens s \<Longrightarrow> skip_ws (s @ t) = s @ t \<and> \<not> startswith (s @ t) '']'' \<and> \<not> startswith (s @ t) ''}'' \<and> s \<noteq> []"
  by (cases s) (auto simp: opens_def skip_ws_def startswith_def)

lemma opens_append: "opens s \<Longrightarrow> opens (s @ t)"
  by (cases s) (simp_all add: opens_def)

lemma number_opens: "scan_number s \<noteq> None \<Longrightarrow> opens s \<and> hd s \<notin> {chr 34, CHR ''{'', CHR ''[''}"
proof (erule number_starts)
  assume "s \<noteq> []" "is_digit (hd s)"
  then show ?thesis by (cases s) (auto simp: opens_def json_space_def is_digit_def chr_eq_iff)
qed (auto simp: opens_def json_space_def chr_eq_iff)

lemma float_opens: "float_readable x \<Longrightarrow> opens (json_float_text x) \<and> hd (json_float_text x) \<notin> {chr 34, CHR ''{'', CHR ''[''}"
  using number_opens [of "frepr x"]
  by (cases x) (auto simp: float_readable_def json_float_text_def opens_def json_space_def chr_eq_iff)

lemma int_opens: "opens (dec_int i) \<and> hd (dec_int i) \<notin> {chr 34, CHR ''{'', CHR ''[''}"
  using number_opens scan_dec_int by simp

lemma text_opens: "prints_strings q \<Longrightarrow> jreadable j \<Longrightarrow> opens (json_text_by q j)"
proof (cases j)
  case (JStr s)
  assume "prints_strings q"
  then obtain t where "q s = chr 34 # t" by (auto simp: prints_strings_def)
  then show ?thesis using JStr by (simp add: opens_def json_space_def chr_eq_iff)
qed (auto simp: int_opens float_opens, auto simp: opens_def json_space_def)

lemma scan_plain: "s \<noteq> [] \<Longrightarrow> hd s \<notin> {chr 34, CHR ''{'', CHR ''[''} \<Longrightarrow> scan_value (Suc n) (s @ rest) = scan_word (s @ rest)"
  by (cases s) auto

lemma skip_ws_stop [simp]: "\<not> json_space c \<Longrightarrow> skip_ws (c # s) = c # s"
  by (simp add: skip_ws_def)

lemma separators [simp]: "\<not> json_space CHR '',''" "\<not> json_space CHR '':''" "\<not> json_space CHR '']''" "\<not> json_space CHR ''}''"
  "ends_number (CHR '','' # s)" "ends_number (CHR '']'' # s)" "ends_number (CHR ''}'' # s)" "ends_number []"
  by (simp_all add: json_space_def ends_number_def is_digit_def)

lemma items_read:
  assumes "xs \<noteq> []" and "\<And>x n rest. x \<in> set xs \<Longrightarrow> 2 * length (f x) \<le> n \<Longrightarrow> ends_number rest \<Longrightarrow> scan_value n (f x @ rest) = Some (x, rest)"
    and "\<And>x. x \<in> set xs \<Longrightarrow> opens (f x)" and "2 * length (join '','' (map f xs)) + 1 \<le> n"
  shows "scan_items n (join '','' (map f xs) @ CHR '']'' # rest) = Some (xs, rest) \<and> opens (join '','' (map f xs))"
  using assms
proof (induction xs arbitrary: n)
  case (Cons x xs)
  obtain m where n: "n = Suc m" using Cons.prems(4) by (cases n) auto
  show ?case
  proof (cases xs)
    case Nil
    then show ?thesis using Cons.prems n by simp
  next
    case (Cons y ys)
    have j: "join '','' (map f (x # xs)) = f x @ CHR '','' # join '','' (map f xs)" using Cons by simp
    have ih: "scan_items m (join '','' (map f xs) @ CHR '']'' # rest) = Some (xs, rest)" "opens (join '','' (map f xs))"
      using Cons.IH [of m] Cons.prems Cons n by (auto simp: j)
    have len: "2 * length (f x) \<le> m" using Cons.prems(4) n unfolding j by simp
    have "scan_value m (f x @ CHR '','' # join '','' (map f xs) @ CHR '']'' # rest) = Some (x, CHR '','' # join '','' (map f xs) @ CHR '']'' # rest)"
      using Cons.prems(2) [of x m "CHR '','' # join '','' (map f xs) @ CHR '']'' # rest"] len by simp
    moreover have "opens (f x @ u)" for u using Cons.prems(3) [of x] by (auto simp: opens_append)
    ultimately show ?thesis unfolding j n using ih(1) opensD [OF ih(2), of "CHR '']'' # rest"] by simp
  qed
qed simp

definition pair_text :: "(string \<Rightarrow> string) \<Rightarrow> string \<times> json \<Rightarrow> string" where
  "pair_text q = (\<lambda>(k, v). q k @ '':'' @ json_text_by q v)"

lemma pairs_read:
  assumes "ps \<noteq> []" and "prints_strings q"
    and "\<And>k v n rest. (k, v) \<in> set ps \<Longrightarrow> 2 * length (json_text_by q v) \<le> n \<Longrightarrow> ends_number rest \<Longrightarrow>
      scan_value n (json_text_by q v @ rest) = Some (v, rest)"
    and "\<And>k v. (k, v) \<in> set ps \<Longrightarrow> opens (json_text_by q v)" and "2 * length (join '','' (map (pair_text q) ps)) + 1 \<le> n"
  shows "scan_pairs n (join '','' (map (pair_text q) ps) @ CHR ''}'' # rest) = Some (ps, rest) \<and> opens (join '','' (map (pair_text q) ps))"
  using assms
proof (induction ps arbitrary: n)
  case (Cons p ps)
  obtain m where n: "n = Suc m" using Cons.prems(5) by (cases n) auto
  obtain k v where p: "p = (k, v)" by (cases p)
  obtain t where t: "q k = chr 34 # t" "\<And>r. scan_string (t @ r) = Some (k, r)" using assms(2) by (auto simp: prints_strings_def)
  have v: "scan_value m (json_text_by q v @ r) = Some (v, r)" if "ends_number r" "2 * length (json_text_by q v) \<le> m" for r
    using Cons.prems(3) [of k v m r] that p by simp
  have o': "opens (json_text_by q v)" using Cons.prems(4) [of k v] p by simp
  have skip_value: "skip_ws (json_text_by q v @ u) = json_text_by q v @ u" for u using opensD [OF o'] by simp
  have sp: "opens (chr 34 # u)" for u by (simp add: opens_def json_space_def chr_eq_iff)
  show ?case
  proof (cases ps)
    case Nil
    then show ?thesis using Cons.prems(5) n p t v skip_value sp by (simp add: pair_text_def)
  next
    case (Cons y ys)
    have ne: "ps \<noteq> []" using Cons by simp
    have j: "join '','' (map (pair_text q) (p # ps)) = pair_text q p @ CHR '','' # join '','' (map (pair_text q) ps)" using Cons by simp
    have len: "2 * length (join '','' (map (pair_text q) ps)) + 1 \<le> m" using Cons.prems(5) n unfolding j by simp
    have "scan_pairs m (join '','' (map (pair_text q) ps) @ CHR ''}'' # rest) = Some (ps, rest) \<and> opens (join '','' (map (pair_text q) ps))"
      by (rule Cons.IH [OF ne Cons.prems(2) _ _ len]) (auto intro: Cons.prems(3,4))
    then have ih: "scan_pairs m (join '','' (map (pair_text q) ps) @ CHR ''}'' # rest) = Some (ps, rest)"
      "opens (join '','' (map (pair_text q) ps))" by auto
    have "2 * length (json_text_by q v) \<le> m" using Cons.prems(5) n unfolding j by (simp add: pair_text_def p)
    then show ?thesis
      unfolding j n using ih(1) opensD [OF ih(2), of "CHR ''}'' # rest"] skip_value sp v t by (simp add: pair_text_def p)
  qed
qed simp

lemma value_read:
  assumes "prints_strings q"
  shows "jreadable j \<Longrightarrow> 2 * length (json_text_by q j) \<le> n \<Longrightarrow> ends_number rest \<Longrightarrow> scan_value n (json_text_by q j @ rest) = Some (j, rest)"
proof (induction j arbitrary: n rest)
  case (JInt i)
  have "scan_number (dec_int i @ rest) = Some (JInt i, rest)" by (rule scan_number_append [OF scan_dec_int JInt(3)])
  moreover obtain m where "n = Suc m" using JInt int_opens [of i] by (cases n) (auto simp: opens_def)
  ultimately show ?case
    using scan_plain [of "dec_int i" "n - 1" rest] int_opens [of i] opensD [of "dec_int i" "[]"] number_no_word [of "dec_int i @ rest"]
    by (simp del: scan_value.simps(2))
next
  case (JFloat x)
  then have "json_float_text x \<noteq> []" using float_opens [of x] opensD [of _ "[]"] by auto
  then show ?case
    using JFloat scan_plain [of "json_float_text x" "n - 1" rest] float_opens [of x] scan_float [of x rest] by (cases n) (auto simp del: scan_value.simps(2))
next
  case (JStr s)
  obtain t where "q s = chr 34 # t" "\<And>r. scan_string (t @ r) = Some (s, r)" using assms by (auto simp: prints_strings_def)
  then show ?case using JStr by (cases n) auto
next
  case (JArr xs)
  obtain m where n: "n = Suc m" using JArr by (cases n) auto
  show ?case
  proof (cases "xs = []")
    case False
    have "scan_items m (join '','' (map (json_text_by q) xs) @ CHR '']'' # rest) = Some (xs, rest) \<and> opens (join '','' (map (json_text_by q) xs))"
      using False JArr n text_opens [OF assms] by (intro items_read) (auto simp: list_all_iff)
    then show ?thesis using n opensD [of "join '','' (map (json_text_by q) xs)" "CHR '']'' # rest"] by (simp add: chr_eq_iff)
  qed (simp add: n startswith_def chr_eq_iff)
next
  case (JObj kvs)
  obtain m where n: "n = Suc m" using JObj by (cases n) auto
  show ?case
  proof (cases "kvs = []")
    case False
    have "scan_pairs m (join '','' (map (pair_text q) kvs) @ CHR ''}'' # rest) = Some (kvs, rest) \<and> opens (join '','' (map (pair_text q) kvs))"
      using False JObj n text_opens [OF assms] assms by (intro pairs_read) (auto simp: list_all_iff pair_text_def)
    then show ?thesis using JObj n opensD [of "join '','' (map (pair_text q) kvs)" "CHR ''}'' # rest"]
      by (simp add: object_of_distinct pair_text_def chr_eq_iff)
  qed (simp add: n startswith_def chr_eq_iff)
next
  case (JBool b)
  then show ?case by (cases n; cases b) (simp_all add: scan_word_def json_words_def startswith_def chr_eq_iff)
next
  case JNull
  then show ?case by (cases n) (simp_all add: scan_word_def json_words_def startswith_def chr_eq_iff)
qed

lemma loads_text:
  assumes "prints_strings q" and "jreadable j"
  shows "json_loads (json_text_by q j) = Inr j"
  using value_read [OF assms(1,2), of "2 * length (json_text_by q j) + 2" "[]"] opensD [OF text_opens [OF assms], of "[]"]
  by (simp add: json_loads_def skip_ws_def)


section \<open>The fuel is enough\<close>

lemma scan_string_shorter: "scan_string s = Some (x, t) \<Longrightarrow> length t < length s"
  by (induction s arbitrary: x rule: scan_string.induct)
    (auto split: if_splits list.splits option.splits, fastforce+)

lemma scan_word_shorter: "scan_word s = Some (x, t) \<Longrightarrow> length t < length s"
proof -
  assume w: "scan_word s = Some (x, t)"
  have tail: "length u < length r" if "number_tail r = (ip, fp, ep, u)" "ip \<noteq> []" for r ip fp ep u
  proof -
    have ip: "ip = integer_part r" using that(1) by (simp add: number_tail_def Let_def)
    have "length u \<le> length r - length (integer_part r)" using that(1) by (auto simp: number_tail_def Let_def)
    moreover have "0 < length (integer_part r)" using ip that(2) by simp
    ultimately show ?thesis using part_lengths(1) [of r] by linarith
  qed
  have num: "length t < length s" if "scan_number s = Some (x, t)"
  proof -
    obtain sg ip fp ep u where n: "number_parts s = (sg, ip, fp, ep, u)" by (metis prod_cases5)
    then have "ip \<noteq> []" "t = u" using that by (auto simp: scan_number_def split: if_splits sum.splits)
    then show ?thesis using n tail [of s ip fp ep u] tail [of "drop 1 s" ip fp ep u]
      by (auto simp: number_parts_tail split: if_splits)
  qed
  have "\<And>k v. (k, v) \<in> set json_words \<Longrightarrow> startswith s k \<Longrightarrow> length (drop (length k) s) < length s"
    by (auto simp: json_words_def startswith_iff)
  then show ?thesis using w num unfolding scan_word_def by (auto split: option.splits simp: find_Some_iff) (metis nth_mem)
qed

lemma skip_ws_length: "length (skip_ws s) \<le> length s"
  by (simp add: skip_ws_def length_dropWhile_le)

lemma skip_ws_Cons: "skip_ws s = c # u \<Longrightarrow> length u < length s"
  using skip_ws_length [of s] by simp

lemma scan_shorter:
  "scan_value n s = Some (v, t) \<Longrightarrow> length t < length s"
  "scan_items n s = Some (vs, t) \<Longrightarrow> length t < length s"
  "scan_pairs n s = Some (ps, t) \<Longrightarrow> length t < length s"
proof (induction n s and n s and n s arbitrary: v t and vs t and ps t rule: scan_value_scan_items_scan_pairs.induct)
  case (2 n s)
  then show ?case
    using skip_ws_length [of "tl s"] scan_word_shorter [of s v t]
    by (cases s) (fastforce simp: startswith_iff dest: scan_string_shorter split: if_splits)+
next
  case (4 n s)
  then obtain v' t' c u where a: "scan_value n s = Some (v', t')" "skip_ws t' = c # u"
    "c = CHR '']'' \<and> t = u \<or> (\<exists>ws. scan_items n (skip_ws u) = Some (ws, t) \<and> c = CHR '','')"
    by (auto split: option.splits list.splits if_splits)
  have "length t' < length s" "length u < length t'" using 4(1) [OF a(1)] skip_ws_Cons [OF a(2)] by auto
  moreover have "scan_items n (skip_ws u) = Some (ws, t) \<Longrightarrow> c = CHR '','' \<Longrightarrow> length t < length u" for ws
    using 4(2) [of "(v', t')" v' t' c u ws t] a skip_ws_length [of u] by simp
  ultimately show ?case using a(3) by force
next
  case (6 n s)
  then obtain s1 k s2 s3 v' t' c u where a: "s = chr 34 # s1" "scan_string s1 = Some (k, s2)" "skip_ws s2 = CHR '':'' # s3"
    "scan_value n (skip_ws s3) = Some (v', t')" "skip_ws t' = c # u"
    "c = CHR ''}'' \<and> t = u \<or> (\<exists>ws. scan_pairs n (skip_ws u) = Some (ws, t) \<and> c = CHR '','')"
    by (auto split: option.splits list.splits if_splits)
  have "length s2 < length s1" "length s3 < length s2" "length u < length t'" using scan_string_shorter [OF a(2)] skip_ws_Cons [OF a(3)] skip_ws_Cons [OF a(5)] by auto
  moreover have "length t' < length (skip_ws s3)" using 6(1) a by simp
  moreover have "scan_pairs n (skip_ws u) = Some (ws, t) \<Longrightarrow> c = CHR '','' \<Longrightarrow> length t < length u" for ws
    using 6(2) a skip_ws_length [of u] by fastforce
  ultimately show ?case using a(1,6) skip_ws_length [of s3] by fastforce
qed simp_all


text \<open>With more calls than twice the length of the text, more of them change nothing.\<close>

lemma fuel_enough:
  "(2 * length s < n \<longrightarrow> 2 * length s < m \<longrightarrow> scan_value n s = scan_value m s) \<and>
   (2 * length s + 1 < n \<longrightarrow> 2 * length s + 1 < m \<longrightarrow> scan_items n s = scan_items m s \<and> scan_pairs n s = scan_pairs m s)"
proof (induction s arbitrary: n m rule: length_induct)
  case (1 s)
  have val: "scan_value n u = scan_value m u" if "length u < length s" "2 * length u < n" "2 * length u < m" for u n m
    using 1 that by blast
  have items: "scan_items n u = scan_items m u" "scan_pairs n u = scan_pairs m u"
    if "length u < length s" "2 * length u + 1 < n" "2 * length u + 1 < m" for u n m
    using 1 that by blast+
  have v: "scan_value n s = scan_value m s" if lt: "2 * length s < n" "2 * length s < m" for n m
  proof (cases s)
    case (Cons c t)
    obtain k l where k: "n = Suc k" "m = Suc l" using lt by (cases n; cases m) auto
    have "length (skip_ws t) < length s" using skip_ws_length [of t] Cons by simp
    then show ?thesis using items [of "skip_ws t" k l] lt k Cons by simp
  qed (cases n; cases m; simp)
  have i: "scan_items n s = scan_items m s" if lt: "2 * length s + 1 < n" "2 * length s + 1 < m" for n m
  proof -
    obtain k l where k: "n = Suc k" "m = Suc l" using lt by (cases n; cases m) auto
    have sv: "scan_value k s = scan_value l s" using v [of k l] that k by simp
    have tail: "scan_items k (skip_ws u) = scan_items l (skip_ws u)" if "scan_value l s = Some (x, t)" "skip_ws t = c # u" for x t c u
      using scan_shorter(1) [OF that(1)] skip_ws_Cons [OF that(2)] skip_ws_length [of u] lt k by (intro items) auto
    show ?thesis unfolding k scan_items.simps sv by (auto split: option.splits list.splits simp: tail)
  qed
  have p: "scan_pairs n s = scan_pairs m s" if lt: "2 * length s + 1 < n" "2 * length s + 1 < m" for n m
  proof -
    obtain k l where k: "n = Suc k" "m = Suc l" using lt by (cases n; cases m) auto
    have sv: "scan_value k (skip_ws s3) = scan_value l (skip_ws s3)"
      if "s = q # s1" "scan_string s1 = Some (key, s2)" "skip_ws s2 = d # s3" for q s1 key s2 d s3
      using that(1) scan_string_shorter [OF that(2)] skip_ws_Cons [OF that(3)] skip_ws_length [of s3] lt k
      by (intro val) auto
    have tail: "scan_pairs k (skip_ws u) = scan_pairs l (skip_ws u)"
      if "s = q # s1" "scan_string s1 = Some (key, s2)" "skip_ws s2 = d # s3" "scan_value l (skip_ws s3) = Some (x, t)" "skip_ws t = c # u"
      for q s1 key s2 d s3 x t c u
      using that(1) scan_string_shorter [OF that(2)] skip_ws_Cons [OF that(3)] skip_ws_length [of s3] scan_shorter(1) [OF that(4)]
        skip_ws_Cons [OF that(5)] skip_ws_length [of u] lt k by (intro items) auto
    show ?thesis unfolding k scan_pairs.simps
      by (cases s; simp split: option.splits list.splits add: sv tail)
  qed
  show ?case using v i p by blast
qed

text \<open>A value keeps being readable when its keys are sorted, so the printers of the program are read back.\<close>

lemma jreadable_canon: "jreadable j \<Longrightarrow> jreadable (jcanon j)"
proof (induction j)
  case (JObj kvs)
  have "distinct (map fst (sort_key fst ps))" if "distinct (map fst ps)" for ps :: obj
    using that distinct_map [of fst "sort_key fst ps"] distinct_map [of fst ps] by simp
  then show ?case using JObj by (fastforce simp: ocanon_def list_all_iff comp_def case_prod_beta)
qed (auto simp: list_all_iff)

lemma dumps_read_back:
  assumes "jreadable (JObj o')"
  shows "json_loads (dumps_json o') = Inr (JObj (ocanon o')) \<and> json_loads (handoff_dumps o') = Inr (JObj (ocanon o'))"
  using loads_text [OF json_str_text_prints jreadable_canon [OF assms]] loads_text [OF raw_str_text_prints jreadable_canon [OF assms]]
  by (simp add: dumps_json_def handoff_dumps_def json_text_by_ascii)

end
