(* ===== verification/StrategyDeploy.thy ===== *)
theory StrategyDeploy
  imports JsonRead
begin

text \<open>
  \<open>gaon/adapters/strategy_deployment.py\<close>: the deployment of an approved handoff package to a target.
  Requests, plans, backups and runs with their stored forms, the two adapters in memory and on files,
  the repository, and the service that plans and runs over an adapter interface. The lemmas show which
  plans pass, that the target is touched only for a passed plan of an approved package, what the status
  of a run says about the target, and that a rollback brings the earlier strategy back.
\<close>

datatype deployment_status = DS_CREATED | DS_PREFLIGHT_PASSED | DS_DRY_RUN_PASSED | DS_APPLYING | DS_APPLIED | DS_VERIFYING
  | DS_SUCCEEDED | DS_FAILED | DS_ROLLING_BACK | DS_ROLLED_BACK | DS_ROLLBACK_FAILED | DS_BLOCKED

fun deployment_status_value :: "deployment_status \<Rightarrow> string" where
  "deployment_status_value DS_CREATED = ''created''"
| "deployment_status_value DS_PREFLIGHT_PASSED = ''preflight_passed''"
| "deployment_status_value DS_DRY_RUN_PASSED = ''dry_run_passed''"
| "deployment_status_value DS_APPLYING = ''applying''"
| "deployment_status_value DS_APPLIED = ''applied''"
| "deployment_status_value DS_VERIFYING = ''verifying''"
| "deployment_status_value DS_SUCCEEDED = ''succeeded''"
| "deployment_status_value DS_FAILED = ''failed''"
| "deployment_status_value DS_ROLLING_BACK = ''rolling_back''"
| "deployment_status_value DS_ROLLED_BACK = ''rolled_back''"
| "deployment_status_value DS_ROLLBACK_FAILED = ''rollback_failed''"
| "deployment_status_value DS_BLOCKED = ''blocked''"

definition deployment_status_of :: "string \<Rightarrow> deployment_status res" where
  "deployment_status_of s = ofOption (ValueError ''not a valid StrategyDeploymentStatus'')
     (find (\<lambda>m. deployment_status_value m = s) [DS_CREATED, DS_PREFLIGHT_PASSED, DS_DRY_RUN_PASSED, DS_APPLYING, DS_APPLIED,
       DS_VERIFYING, DS_SUCCEEDED, DS_FAILED, DS_ROLLING_BACK, DS_ROLLED_BACK, DS_ROLLBACK_FAILED, DS_BLOCKED])"

lemma deployment_status_roundtrip [simp]: "deployment_status_of (deployment_status_value st) = Inr st"
  by (cases st) (simp_all add: deployment_status_of_def)

section \<open>Data\<close>

record deployment_policy =
  dl_policy_version :: string
  dl_target_id :: string
  dl_require_backup :: bool
  dl_require_dry_run :: bool

definition deployment_policy_default :: deployment_policy where
  "deployment_policy_default = \<lparr>dl_policy_version = ''strategy_deployment_policy_v1'', dl_target_id = ''generic-runtime'',
     dl_require_backup = True, dl_require_dry_run = True\<rparr>"

record deployment_request =
  dq_request_id :: string
  dq_package_id :: string
  dq_target_id :: string
  dq_actor_ref :: string
  dq_requested_at :: string

definition mk_deployment_request :: "deployment_request \<Rightarrow> deployment_request res" where
  "mk_deployment_request q = bindR (validate_handoff_ref (colons_to_dashes (dq_request_id q)) ''request_id'') (\<lambda>_.
     bindR (validate_handoff_ref (dq_package_id q) ''package_id'') (\<lambda>_. bindR (validate_handoff_ref (dq_target_id q) ''target_id'') (\<lambda>_.
     bindR (validate_utc (dq_requested_at q)) (\<lambda>_. Inr q))))"

definition build_deployment_request :: "string \<Rightarrow> string \<Rightarrow> string \<Rightarrow> string \<Rightarrow> string \<Rightarrow> deployment_request res" where
  "build_deployment_request rid pid actor ts target = mk_deployment_request \<lparr>dq_request_id = rid, dq_package_id = pid,
     dq_target_id = target, dq_actor_ref = actor, dq_requested_at = ts\<rparr>"

definition deployment_request_json :: "deployment_request \<Rightarrow> obj" where
  "deployment_request_json q = [(''request_id'', JStr (dq_request_id q)), (''package_id'', JStr (dq_package_id q)),
     (''target_id'', JStr (dq_target_id q)), (''actor_ref'', JStr (dq_actor_ref q)), (''requested_at'', JStr (dq_requested_at q))]"

record deployment_plan =
  dp_plan_id :: string
  dp_request_id :: string
  dp_package_id :: string
  dp_target_id :: string
  dp_checksum :: string
  dp_status :: deployment_status
  dp_reason :: string
  dp_policy_version :: string
  dp_created_at :: string

definition deployment_plan_json :: "deployment_plan \<Rightarrow> obj" where
  "deployment_plan_json p = [(''plan_id'', JStr (dp_plan_id p)), (''request_id'', JStr (dp_request_id p)),
     (''package_id'', JStr (dp_package_id p)), (''target_id'', JStr (dp_target_id p)), (''package_checksum'', JStr (dp_checksum p)),
     (''status'', JStr (deployment_status_value (dp_status p))), (''reason'', JStr (dp_reason p)),
     (''policy_version'', JStr (dp_policy_version p)), (''created_at'', JStr (dp_created_at p))]"

definition deployment_plan_of :: "obj \<Rightarrow> deployment_plan res" where
  "deployment_plan_of o' =
     bindR (guardR (map_of o' ''plan_id'' \<noteq> None) (ValueError ''payload is not a deployment plan'')) (\<lambda>_.
     bindR (jreq o' ''plan_id'') (\<lambda>pid. bindR (jreq o' ''request_id'') (\<lambda>rid. bindR (jreq o' ''package_id'') (\<lambda>kid.
     bindR (jreq o' ''target_id'') (\<lambda>tid. bindR (jreq o' ''package_checksum'') (\<lambda>c.
     bindR (bindR (jreq o' ''status'') (\<lambda>v. deployment_status_of (py_str v))) (\<lambda>st. bindR (jreq o' ''reason'') (\<lambda>r.
     bindR (jreq o' ''policy_version'') (\<lambda>pv. bindR (jreq o' ''created_at'') (\<lambda>ca.
     Inr \<lparr>dp_plan_id = py_str pid, dp_request_id = py_str rid, dp_package_id = py_str kid, dp_target_id = py_str tid,
       dp_checksum = py_str c, dp_status = st, dp_reason = py_str r, dp_policy_version = py_str pv, dp_created_at = py_str ca\<rparr>))))))))))"

record deployment_backup =
  db_backup_id :: string
  db_package_id :: string
  db_strategy_ref :: string
  db_strategy_version :: string
  db_restore_ref :: string
  db_created_at :: string

definition deployment_backup_json :: "deployment_backup \<Rightarrow> obj" where
  "deployment_backup_json b = [(''backup_id'', JStr (db_backup_id b)), (''package_id'', JStr (db_package_id b)),
     (''previous_strategy_ref'', JStr (db_strategy_ref b)), (''previous_strategy_version'', JStr (db_strategy_version b)),
     (''restore_ref'', JStr (db_restore_ref b)), (''created_at'', JStr (db_created_at b))]"

definition deployment_backup_of :: "obj \<Rightarrow> deployment_backup res" where
  "deployment_backup_of o' = bindR (jreq o' ''backup_id'') (\<lambda>bid. bindR (jreq o' ''package_id'') (\<lambda>kid.
     bindR (jreq o' ''previous_strategy_ref'') (\<lambda>sr. bindR (jreq o' ''previous_strategy_version'') (\<lambda>sv.
     bindR (jreq o' ''restore_ref'') (\<lambda>rr. bindR (jreq o' ''created_at'') (\<lambda>ca.
     Inr \<lparr>db_backup_id = py_str bid, db_package_id = py_str kid, db_strategy_ref = py_str sr, db_strategy_version = py_str sv,
       db_restore_ref = py_str rr, db_created_at = py_str ca\<rparr>))))))"

record deployment_run =
  dr_run_id :: string
  dr_plan_id :: string
  dr_package_id :: string
  dr_target_id :: string
  dr_status :: deployment_status
  dr_backup_id :: "string option"
  dr_message :: string
  dr_started_at :: string
  dr_completed_at :: "string option"

definition deployment_run_json :: "deployment_run \<Rightarrow> obj" where
  "deployment_run_json r = [(''run_id'', JStr (dr_run_id r)), (''plan_id'', JStr (dr_plan_id r)), (''package_id'', JStr (dr_package_id r)),
     (''target_id'', JStr (dr_target_id r)), (''status'', JStr (deployment_status_value (dr_status r))),
     (''backup_id'', of_opt (dr_backup_id r)), (''message'', JStr (dr_message r)), (''started_at'', JStr (dr_started_at r)),
     (''completed_at'', of_opt (dr_completed_at r))]"

definition deployment_run_of :: "obj \<Rightarrow> deployment_run res" where
  "deployment_run_of o' = bindR (jreq o' ''run_id'') (\<lambda>rid. bindR (jreq o' ''plan_id'') (\<lambda>pid. bindR (jreq o' ''package_id'') (\<lambda>kid.
     bindR (jreq o' ''target_id'') (\<lambda>tid. bindR (bindR (jreq o' ''status'') (\<lambda>v. deployment_status_of (py_str v))) (\<lambda>st.
     bindR (need_opt_str (jget o' ''backup_id'')) (\<lambda>bid. bindR (jreq o' ''message'') (\<lambda>msg. bindR (jreq o' ''started_at'') (\<lambda>sa.
     bindR (need_opt_str (jget o' ''completed_at'')) (\<lambda>ca.
     Inr \<lparr>dr_run_id = py_str rid, dr_plan_id = py_str pid, dr_package_id = py_str kid, dr_target_id = py_str tid, dr_status = st,
       dr_backup_id = bid, dr_message = py_str msg, dr_started_at = py_str sa, dr_completed_at = ca\<rparr>)))))))))"

lemma deployment_roundtrips [simp]:
  "deployment_plan_of (ocanon (deployment_plan_json p)) = Inr p"
  "deployment_backup_of (ocanon (deployment_backup_json b)) = Inr b"
  "deployment_run_of (ocanon (deployment_run_json r)) = Inr r"
  subgoal by (cases p) (simp add: deployment_plan_of_def deployment_plan_json_def)
  subgoal by (cases b) (simp add: deployment_backup_of_def deployment_backup_json_def)
  subgoal by (cases r) (simp add: deployment_run_of_def deployment_run_json_def)
  done

section \<open>Adapters\<close>

text \<open>The protocol the service calls: every method may change the target and may raise.\<close>

record 'd deployment_adapter =
  da_health :: "('d, bool \<times> string) opr"
  da_validate :: "handoff_package \<Rightarrow> ('d, bool \<times> string list) opr"
  da_backup :: "handoff_package \<Rightarrow> string \<Rightarrow> string \<Rightarrow> ('d, deployment_backup) opr"
  da_dry_run :: "handoff_package \<Rightarrow> ('d, bool \<times> string list) opr"
  da_apply :: "handoff_package \<Rightarrow> ('d, bool \<times> string) opr"
  da_restart :: "('d, bool \<times> string) opr"
  da_verify :: "handoff_package \<Rightarrow> ('d, bool \<times> string) opr"
  da_rollback :: "deployment_backup \<Rightarrow> ('d, bool \<times> string) opr"

record active_strategy =
  as_ref :: string
  as_version :: string
  as_checksum :: string

definition status_dict :: "active_strategy \<Rightarrow> string \<Rightarrow> (string \<times> string) list" where
  "status_dict a name = [(''strategy_ref'', as_ref a), (''strategy_version'', as_version a), (''checksum'', as_checksum a),
     (''adapter'', name)]"

subsection \<open>In memory\<close>

record fake_target =
  ft_fail_health :: bool
  ft_fail_validate :: bool
  ft_fail_backup :: bool
  ft_fail_dry_run :: bool
  ft_fail_apply :: bool
  ft_fail_restart :: bool
  ft_fail_verify :: bool
  ft_fail_rollback :: bool
  ft_active :: active_strategy
  ft_backups :: "deployment_backup list"
  ft_applied :: bool
  ft_dry_run_called :: bool

definition fake_target_init :: "bool \<Rightarrow> bool \<Rightarrow> bool \<Rightarrow> bool \<Rightarrow> bool \<Rightarrow> bool \<Rightarrow> bool \<Rightarrow> bool \<Rightarrow> fake_target" where
  "fake_target_init h v b d a r f k = \<lparr>ft_fail_health = h, ft_fail_validate = v, ft_fail_backup = b, ft_fail_dry_run = d,
     ft_fail_apply = a, ft_fail_restart = r, ft_fail_verify = f, ft_fail_rollback = k,
     ft_active = \<lparr>as_ref = ''previous'', as_version = ''v0'', as_checksum = []\<rparr>, ft_backups = [], ft_applied = False,
     ft_dry_run_called = False\<rparr>"

definition ft_health :: "fake_target \<Rightarrow> bool \<times> string" where
  "ft_health f = (if ft_fail_health f then (False, ''fake target unhealthy'') else (True, ''fake target healthy''))"

definition ft_validate :: "handoff_package \<Rightarrow> fake_target \<Rightarrow> bool \<times> string list" where
  "ft_validate p f =
    (if ft_fail_validate f then (False, [''target compatibility rejected''])
     else if hc_schema_version (hp_contract p) \<noteq> hm_schema_version (hp_manifest p) then (False, [''schema version mismatch''])
     else let missing = filter (\<lambda>k. k \<notin> fst ` set (hp_parameters p)) (hc_keys (hp_contract p)) in
       (missing = [], map (\<lambda>k. ''missing parameter '' @ k) missing))"

definition ft_backup :: "handoff_package \<Rightarrow> string \<Rightarrow> string \<Rightarrow> (fake_target, deployment_backup) opr" where
  "ft_backup p bid ts = (\<lambda>f. if ft_fail_backup f then (Inl (RuntimeError ''fake backup failure''), f)
     else let b = \<lparr>db_backup_id = bid, db_package_id = hp_package_id p, db_strategy_ref = as_ref (ft_active f),
         db_strategy_version = as_version (ft_active f), db_restore_ref = ''fake-backup:'' @ bid, db_created_at = ts\<rparr> in
       (Inr b, f\<lparr>ft_backups := ft_backups f @ [b]\<rparr>))"

definition ft_dry_run :: "handoff_package \<Rightarrow> (fake_target, bool \<times> string list) opr" where
  "ft_dry_run p = (\<lambda>f. (Inr (if ft_fail_dry_run f then (False, [''fake dry-run failure'']) else (True, [])), f\<lparr>ft_dry_run_called := True\<rparr>))"

definition ft_apply :: "handoff_package \<Rightarrow> (fake_target, bool \<times> string) opr" where
  "ft_apply p = (\<lambda>f. if ft_fail_apply f then (Inr (False, ''fake apply failure''), f)
     else (Inr (True, ''fake apply ok''), f\<lparr>ft_applied := True, ft_active := \<lparr>as_ref = hm_strategy_ref (hp_manifest p),
       as_version = hm_strategy_version (hp_manifest p), as_checksum = hm_checksum (hp_manifest p)\<rparr>\<rparr>))"

definition ft_restart :: "fake_target \<Rightarrow> bool \<times> string" where
  "ft_restart f = (if ft_fail_restart f then (False, ''fake restart failure'') else (True, ''fake restart ok''))"

definition ft_verify :: "handoff_package \<Rightarrow> fake_target \<Rightarrow> bool \<times> string" where
  "ft_verify p f = (if ft_fail_verify f then (False, ''fake verify failure'')
     else (as_checksum (ft_active f) = hm_checksum (hp_manifest p),
       if as_checksum (ft_active f) = hm_checksum (hp_manifest p) then ''fake verify ok'' else ''checksum mismatch''))"

definition ft_rollback :: "deployment_backup \<Rightarrow> (fake_target, bool \<times> string) opr" where
  "ft_rollback b = (\<lambda>f. if ft_fail_rollback f then (Inr (False, ''fake rollback failure''), f)
     else (Inr (True, ''fake rollback ok''), f\<lparr>ft_applied := False, ft_active := \<lparr>as_ref = db_strategy_ref b,
       as_version = db_strategy_version b, as_checksum = []\<rparr>\<rparr>))"

definition ft_status :: "fake_target \<Rightarrow> (string \<times> string) list" where
  "ft_status f = status_dict (ft_active f) ''fake''"

definition fake_deployment :: "fake_target deployment_adapter" where
  "fake_deployment = \<lparr>da_health = getO ft_health, da_validate = (\<lambda>p. getO (ft_validate p)), da_backup = ft_backup,
     da_dry_run = ft_dry_run, da_apply = ft_apply, da_restart = getO ft_restart, da_verify = (\<lambda>p. getO (ft_verify p)),
     da_rollback = ft_rollback\<rparr>"

subsection \<open>On files\<close>

text \<open>
  The target directory with the bytes of each file under its path. The directory can be gone
  (\<open>lt_present\<close>): then no file exists and every write raises. A path is compared as text.

  A file is opened for writing, which empties it, and then written. The environment decides how far a
  write gets: it takes the next entry of \<open>lt_faults\<close>, none of which (or the end of the list) lets it
  finish. The opening can be refused, the file then being as it was, or the write can break off behind
  some number of bytes. A file that exists can be read.
\<close>

datatype write_fault = WF_Refused | WF_Cut nat

record local_target =
  lt_dir :: string
  lt_present :: bool
  lt_files :: "string table"
  lt_faults :: "write_fault option list"

definition local_target_init :: "string \<Rightarrow> write_fault option list \<Rightarrow> local_target" where
  "local_target_init dir faults = \<lparr>lt_dir = dir, lt_present = True, lt_files = [], lt_faults = faults\<rparr>"

definition lt_path :: "local_target \<Rightarrow> string \<Rightarrow> string" where
  "lt_path f name = lt_dir f @ ''/'' @ name @ ''.json''"

definition lt_active_path :: "local_target \<Rightarrow> string" where
  "lt_active_path f = lt_path f ''active-strategy-package''"

definition lt_file :: "string \<Rightarrow> local_target \<Rightarrow> string option" where
  "lt_file path f = (if lt_present f then t_get path (lt_files f) else None)"

definition next_fault :: "local_target \<Rightarrow> write_fault option" where
  "next_fault f = (case lt_faults f of [] \<Rightarrow> None | x # _ \<Rightarrow> x)"

definition lt_put :: "string \<Rightarrow> string \<Rightarrow> local_target \<Rightarrow> local_target" where
  "lt_put path content f = f\<lparr>lt_files := t_replace path content (lt_files f), lt_faults := tl (lt_faults f)\<rparr>"

definition lt_write :: "string \<Rightarrow> string \<Rightarrow> (local_target, unit) opr" where
  "lt_write path content = (\<lambda>f. if \<not> lt_present f then (Inl (OtherError ''FileNotFoundError'' path), f)
     else (case next_fault f of None \<Rightarrow> (Inr (), lt_put path content f)
       | Some WF_Refused \<Rightarrow> (Inl (PermissionError path), f\<lparr>lt_faults := tl (lt_faults f)\<rparr>)
       | Some (WF_Cut n) \<Rightarrow> (Inl (OtherError ''OSError'' path), lt_put path (take n content) f)))"

text \<open>\<open>shutil.copyfile\<close> of a file that exists.\<close>

definition lt_copy :: "string \<Rightarrow> string \<Rightarrow> string \<Rightarrow> (local_target, unit) opr" where
  "lt_copy src dst content = (if src = dst then raiseO (OtherError ''SameFileError'' src) else lt_write dst content)"

text \<open>
  \<open>read_text\<close> and \<open>json.loads\<close>. A byte sequence of a code point above 255 has no counterpart in the model
  and is not accepted.
\<close>

fun utf8_decode :: "string \<Rightarrow> string option" where
  "utf8_decode [] = Some []"
| "utf8_decode (c # s) =
    (if ordc c < 128 then map_option ((#) c) (utf8_decode s)
     else if ordc c = 194 \<or> ordc c = 195 then
       (case s of [] \<Rightarrow> None | d # t \<Rightarrow> if 128 \<le> ordc d \<and> ordc d < 192
          then map_option ((#) (chr ((ordc c - 192) * 64 + (ordc d - 128)))) (utf8_decode t) else None)
     else None)"

lemma utf8_decode_char: "utf8_decode (utf8_char c @ s) = map_option ((#) c) (utf8_decode s)"
proof (cases "ordc c < 128")
  case True then show ?thesis by (simp add: utf8_char_def)
next
  case False
  then consider "ordc c div 64 = 2" | "ordc c div 64 = 3" using ordc_bound [of c] by linarith
  then show ?thesis
  proof cases
    case 1
    then have "128 + ordc c mod 64 = ordc c" using div_mult_mod_eq [of "ordc c" 64] by simp
    then have "chr (128 + ordc c mod 64) = c" "ordc c < 192" by (simp, presburger)
    then show ?thesis using False 1 by (simp add: utf8_char_def)
  next
    case 2
    then have "192 + ordc c mod 64 = ordc c" using div_mult_mod_eq [of "ordc c" 64] by simp
    then have "chr (192 + ordc c mod 64) = c" by simp
    then show ?thesis using False 2 by (simp add: utf8_char_def)
  qed
qed

lemma utf8_decode_utf8 [simp]: "utf8_decode (utf8 s) = Some s"
  by (induction s) (simp_all add: utf8_def utf8_decode_char)

definition file_json :: "string \<Rightarrow> json res" where
  "file_json content = bindR (ofOption (OtherError ''UnicodeDecodeError'' []) (utf8_decode content)) json_loads"

text \<open>\<open>package.to_json()\<close> in the encoding of the file.\<close>

definition package_bytes :: "handoff_package \<Rightarrow> string" where
  "package_bytes p = utf8 (handoff_dumps (package_to_json p))"

text \<open>\<open>payload.get(k, default)\<close> of any JSON value: only a dictionary has the method.\<close>

definition get_or :: "json \<Rightarrow> string \<Rightarrow> json \<Rightarrow> json res" where
  "get_or j k d = (case j of JObj o' \<Rightarrow> Inr (case map_of o' k of None \<Rightarrow> d | Some v \<Rightarrow> v)
     | _ \<Rightarrow> Inl (OtherError ''AttributeError'' ''get''))"

definition strategy_of_file :: "json \<Rightarrow> active_strategy res" where
  "strategy_of_file payload = bindR (get_or payload ''manifest'' (JObj [])) (\<lambda>m.
       bindR (get_or m ''strategy_ref'' (JStr ''unknown'')) (\<lambda>sr. bindR (get_or m ''strategy_version'' (JStr ''unknown'')) (\<lambda>sv.
       bindR (get_or m ''checksum'' (JStr [])) (\<lambda>c.
       Inr \<lparr>as_ref = py_str sr, as_version = py_str sv, as_checksum = py_str c\<rparr>))))"

definition lt_active :: "local_target \<Rightarrow> active_strategy res" where
  "lt_active f = (case lt_file (lt_active_path f) f of
     None \<Rightarrow> Inr \<lparr>as_ref = ''none'', as_version = ''none'', as_checksum = []\<rparr> | Some content \<Rightarrow> bindR (file_json content) strategy_of_file)"

definition lt_health :: "local_target \<Rightarrow> bool \<times> string" where
  "lt_health f = (lt_present f, ''local safe target directory ready'')"

definition lt_validate :: "handoff_package \<Rightarrow> bool \<times> string list" where
  "lt_validate p = (hp_status p = HS_APPROVED, if hp_status p = HS_APPROVED then [] else [''package not approved''])"

definition lt_backup :: "handoff_package \<Rightarrow> string \<Rightarrow> string \<Rightarrow> (local_target, deployment_backup) opr" where
  "lt_backup p bid ts =
    bindO (getO (\<lambda>f. (lt_path f bid, lt_active_path f, lt_file (lt_active_path f) f))) (\<lambda>(path, active_path, content).
    thenO (case content of Some c \<Rightarrow> lt_copy active_path path c | None \<Rightarrow> lt_write path ''{}'')
    (bindO (\<lambda>f. (lt_active f, f)) (\<lambda>a.
    retO \<lparr>db_backup_id = bid, db_package_id = hp_package_id p, db_strategy_ref = as_ref a, db_strategy_version = as_version a,
      db_restore_ref = path, db_created_at = ts\<rparr>)))"

definition lt_apply :: "handoff_package \<Rightarrow> (local_target, bool \<times> string) opr" where
  "lt_apply p = bindO (getO lt_active_path) (\<lambda>path. thenO (lt_write path (package_bytes p))
     (retO (True, ''local safe package applied'')))"

definition lt_verify :: "handoff_package \<Rightarrow> local_target \<Rightarrow> (bool \<times> string) res" where
  "lt_verify p f = bindR (lt_active f) (\<lambda>a. Inr (as_checksum a = hm_checksum (hp_manifest p), ''local safe active checksum verified''))"

definition lt_rollback :: "deployment_backup \<Rightarrow> (local_target, bool \<times> string) opr" where
  "lt_rollback b = bindO (getO (\<lambda>f. (lt_active_path f, lt_file (db_restore_ref b) f))) (\<lambda>(path, content).
     case content of None \<Rightarrow> retO (False, ''backup file missing'')
     | Some c \<Rightarrow> thenO (lt_copy (db_restore_ref b) path c) (retO (True, ''local safe rollback restored backup'')))"

definition lt_status :: "local_target \<Rightarrow> (string \<times> string) list res" where
  "lt_status f = bindR (lt_active f) (\<lambda>a. Inr (status_dict a ''local_safe''))"

definition local_deployment :: "local_target deployment_adapter" where
  "local_deployment = \<lparr>da_health = getO lt_health, da_validate = (\<lambda>p. retO (lt_validate p)), da_backup = lt_backup,
     da_dry_run = (\<lambda>p. retO (True, [])), da_apply = lt_apply,
     da_restart = retO (True, ''local safe runtime has no restart command''), da_verify = (\<lambda>p f. (lt_verify p f, f)),
     da_rollback = lt_rollback\<rparr>"

section \<open>Repository\<close>

text \<open>
  Requests and plans share the table \<open>strategy_deployment_requests\<close>; a row keeps its creation time and
  its stored object. The columns of a run the queries read repeat fields of its object.
\<close>

record deployment_repo =
  dx_requests :: "(string \<times> obj) table"
  dx_backups :: "deployment_backup table"
  dx_runs :: "deployment_run table"

definition deployment_repo_init :: deployment_repo where
  "deployment_repo_init = \<lparr>dx_requests = [], dx_backups = [], dx_runs = []\<rparr>"

definition dx_add_request :: "deployment_request \<Rightarrow> deployment_repo \<Rightarrow> deployment_repo res" where
  "dx_add_request q repo = bindR (t_insert (dq_request_id q) (dq_requested_at q, ocanon (deployment_request_json q)) (dx_requests repo))
     (\<lambda>t. Inr (repo\<lparr>dx_requests := t\<rparr>))"

definition dx_add_plan :: "deployment_plan \<Rightarrow> deployment_repo \<Rightarrow> deployment_repo" where
  "dx_add_plan p repo = repo\<lparr>dx_requests := t_replace (dp_plan_id p) (dp_created_at p, ocanon (deployment_plan_json p)) (dx_requests repo)\<rparr>"

definition dx_get_plan :: "string \<Rightarrow> deployment_repo \<Rightarrow> deployment_plan res" where
  "dx_get_plan pid repo = bindR (ofOption (KeyError pid) (t_get pid (dx_requests repo))) (\<lambda>(_, o'). deployment_plan_of o')"

text \<open>The text of a canonical object starts with \<open>{"created_at"\<close> when that is its first key.\<close>

definition starts_created :: "obj \<Rightarrow> bool" where
  "starts_created o' \<longleftrightarrow> (case o' of [] \<Rightarrow> False | (k, _) # _ \<Rightarrow> k = ''created_at'')"

definition dx_list_plans :: "deployment_repo \<Rightarrow> deployment_plan list res" where
  "dx_list_plans repo = mapR (\<lambda>(k, ts, o'). deployment_plan_of o')
     (filter (\<lambda>(k, ts, o'). starts_created o') (sort_key (\<lambda>(k, ts, o'). (ts, k)) (dx_requests repo)))"

definition dx_add_backup :: "deployment_backup \<Rightarrow> deployment_repo \<Rightarrow> deployment_repo" where
  "dx_add_backup b repo = repo\<lparr>dx_backups := t_replace (db_backup_id b) b (dx_backups repo)\<rparr>"

definition dx_list_backups :: "deployment_repo \<Rightarrow> deployment_backup list res" where
  "dx_list_backups repo = mapR (\<lambda>(k, b). deployment_backup_of (ocanon (deployment_backup_json b)))
     (sort_key (\<lambda>(k, b). (db_created_at b, k)) (dx_backups repo))"

definition dx_add_run :: "deployment_run \<Rightarrow> deployment_repo \<Rightarrow> deployment_repo" where
  "dx_add_run r repo = repo\<lparr>dx_runs := t_replace (dr_run_id r) r (dx_runs repo)\<rparr>"

definition dx_get_run :: "string \<Rightarrow> deployment_repo \<Rightarrow> deployment_run res" where
  "dx_get_run rid repo = bindR (ofOption (KeyError rid) (t_get rid (dx_runs repo))) (\<lambda>r. deployment_run_of (ocanon (deployment_run_json r)))"

definition dx_list_runs :: "deployment_repo \<Rightarrow> deployment_run list res" where
  "dx_list_runs repo = mapR (\<lambda>(k, r). deployment_run_of (ocanon (deployment_run_json r))) (sort_key (\<lambda>(k, r). (dr_started_at r, k)) (dx_runs repo))"

definition has_successful_deployment :: "string \<Rightarrow> string \<Rightarrow> deployment_repo \<Rightarrow> bool" where
  "has_successful_deployment pid target repo =
     list_ex (\<lambda>r. dr_package_id r = pid \<and> dr_target_id r = target \<and> dr_status r = DS_SUCCEEDED) (t_rows (dx_runs repo))"

section \<open>The service\<close>

text \<open>
  The service works on the database of the handoff service, the champion registry in it included,
  and on the target behind its adapter.
\<close>

record 'd deploy_env = handoff_env +
  dx_repo :: deployment_repo
  dx_target :: 'd

definition dx_write :: "(deployment_repo \<Rightarrow> deployment_repo res) \<Rightarrow> ('d deploy_env, unit) opr" where
  "dx_write f = (\<lambda>s. case f (dx_repo s) of Inl e \<Rightarrow> (Inl e, s) | Inr repo \<Rightarrow> (Inr (), s\<lparr>dx_repo := repo\<rparr>))"

definition dx_read :: "('d deploy_env \<Rightarrow> 'a res) \<Rightarrow> ('d deploy_env, 'a) opr" where
  "dx_read f = (\<lambda>s. (f s, s))"

definition targetO :: "('d, 'a) opr \<Rightarrow> ('d deploy_env, 'a) opr" where
  "targetO m = (\<lambda>s. case m (dx_target s) of (r, d) \<Rightarrow> (r, s\<lparr>dx_target := d\<rparr>))"

definition dx_increment :: "string \<Rightarrow> ('d deploy_env, unit) opr" where
  "dx_increment name = increment [] name"

text \<open>\<open>payload | {...}\<close>: the common keys win.\<close>

definition deployment_event :: "string \<Rightarrow> deployment_plan \<Rightarrow> string \<Rightarrow> string \<Rightarrow> obj \<Rightarrow> durable_event" where
  "deployment_event event_type p actor ts payload =
    \<lparr>de_event_id = ''event:strategy-deployment:'' @ event_type @ '':'' @ dp_plan_id p, de_event_type = event_type,
     de_occurred_at = ts, de_actor_ref = actor, de_correlation_id = dp_plan_id p, de_causation_id = Some (dp_package_id p),
     de_scope = ''strategy_deployment'', de_project = ''StrategyLab'', de_strategy = ''N/A'', de_market = ''N/A'',
     de_payload = AList.update ''status'' (JStr (deployment_status_value (dp_status p)))
       (AList.update ''package_id'' (JStr (dp_package_id p)) (AList.update ''plan_id'' (JStr (dp_plan_id p)) payload)),
     de_evidence_refs = [dp_package_id p], de_audit_refs = [], de_appended_at = ts\<rparr>"

definition dx_record :: "string \<Rightarrow> deployment_plan \<Rightarrow> string \<Rightarrow> string \<Rightarrow> obj \<Rightarrow> ('d deploy_env, unit) opr" where
  "dx_record event_type p actor ts payload = record_once (deployment_event event_type p actor ts payload)"

definition approval_current :: "handoff_package \<Rightarrow> handoff_approval option \<Rightarrow> bool" where
  "approval_current p a \<longleftrightarrow> (case a of None \<Rightarrow> False | Some x \<Rightarrow> ha_approved x \<and> ha_checksum x = hm_checksum (hp_manifest p))"

definition champion_current :: "handoff_package \<Rightarrow> registry_entry option \<Rightarrow> bool" where
  "champion_current p active \<longleftrightarrow> (case active of None \<Rightarrow> False
     | Some a \<Rightarrow> re_version_id a = hm_registry_version (hp_manifest p) \<and> re_fingerprint a = hm_fingerprint (hp_manifest p))"

definition preflight :: "'d deployment_adapter \<Rightarrow> deployment_policy \<Rightarrow> handoff_package \<Rightarrow> string \<Rightarrow>
    ('d deploy_env, deployment_status \<times> string) opr" where
  "preflight ad pol p target =
    (if hp_status p \<noteq> HS_APPROVED then retO (DS_BLOCKED, ''handoff package is not approved for deployment'')
     else bindO (dx_read (\<lambda>s. hr_latest_approval (hp_package_id p) (ho_repo s))) (\<lambda>a.
     if \<not> approval_current p a then retO (DS_BLOCKED, ''package-specific approval checksum is missing or stale'')
     else bindO (dx_read (\<lambda>s. rg_get_active DEFAULT_CHAMPION_SLOT (ho_registry s))) (\<lambda>active.
     if \<not> champion_current p active then retO (DS_BLOCKED, ''Champion version no longer matches package'')
     else bindO (targetO (da_health ad)) (\<lambda>(ok, msg).
     if \<not> ok then retO (DS_BLOCKED, msg)
     else bindO (targetO (da_validate ad p)) (\<lambda>(ok, reasons).
     if \<not> ok then retO (DS_BLOCKED, join ''; '' reasons)
     else if target \<noteq> dl_target_id pol then retO (DS_BLOCKED, ''target policy mismatch'')
     else retO (DS_PREFLIGHT_PASSED, ''preflight passed''))))))"

definition deployment_plan_for :: "deployment_policy \<Rightarrow> deployment_request \<Rightarrow> handoff_package \<Rightarrow> deployment_status \<Rightarrow> string \<Rightarrow> deployment_plan" where
  "deployment_plan_for pol q p st why = \<lparr>dp_plan_id = ''deployment-plan:'' @ dq_request_id q, dp_request_id = dq_request_id q,
     dp_package_id = hp_package_id p, dp_target_id = dq_target_id q, dp_checksum = hm_checksum (hp_manifest p), dp_status = st,
     dp_reason = why, dp_policy_version = dl_policy_version pol, dp_created_at = dq_requested_at q\<rparr>"

definition deployment_plan_op :: "'d deployment_adapter \<Rightarrow> deployment_policy \<Rightarrow> deployment_request \<Rightarrow> ('d deploy_env, deployment_plan) opr" where
  "deployment_plan_op ad pol q =
    thenO (dx_write (dx_add_request q))
    (thenO (dx_increment ''gaon_strategy_deployments_total'')
    (bindO (dx_read (\<lambda>s. hr_get (dq_package_id q) (ho_repo s))) (\<lambda>p.
    bindO (preflight ad pol p (dq_target_id q)) (\<lambda>(st, why).
    bindO (retO (deployment_plan_for pol q p st why)) (\<lambda>plan.
    thenO (dx_write (\<lambda>repo. Inr (dx_add_plan plan repo)))
    (thenO (dx_record ''StrategyDeploymentRequested'' plan (dq_actor_ref q) (dq_requested_at q) [(''package_id'', JStr (dq_package_id q))])
    (thenO (dx_record (if st = DS_PREFLIGHT_PASSED then ''StrategyDeploymentPreflightPassed'' else ''StrategyDeploymentBlocked'')
       plan (dq_actor_ref q) (dq_requested_at q) [(''reason'', JStr why)])
    (retO plan))))))))"

definition deployment_run_id :: "deployment_plan \<Rightarrow> string" where
  "deployment_run_id plan = ''deployment-run:'' @ dp_plan_id plan"

definition run_of_deployment :: "deployment_plan \<Rightarrow> deployment_status \<Rightarrow> string option \<Rightarrow> string \<Rightarrow> string \<Rightarrow> deployment_run" where
  "run_of_deployment plan st bid msg ts = \<lparr>dr_run_id = deployment_run_id plan, dr_plan_id = dp_plan_id plan,
     dr_package_id = dp_package_id plan, dr_target_id = dp_target_id plan, dr_status = st, dr_backup_id = bid, dr_message = msg,
     dr_started_at = ts, dr_completed_at = Some ts\<rparr>"

definition dx_put_run :: "deployment_plan \<Rightarrow> deployment_status \<Rightarrow> string option \<Rightarrow> string \<Rightarrow> string \<Rightarrow> ('d deploy_env, deployment_run) opr" where
  "dx_put_run plan st bid msg ts = bindO (retO (run_of_deployment plan st bid msg ts)) (\<lambda>r.
     thenO (dx_write (\<lambda>repo. Inr (dx_add_run r repo))) (retO r))"

definition dx_rollback :: "'d deployment_adapter \<Rightarrow> deployment_plan \<Rightarrow> deployment_backup \<Rightarrow> string \<Rightarrow> string \<Rightarrow> ('d deploy_env, deployment_run) opr" where
  "dx_rollback ad plan b actor ts =
    thenO (dx_record ''StrategyDeploymentRollbackStarted'' plan actor ts [(''backup_id'', JStr (db_backup_id b))])
    (thenO (dx_increment ''gaon_strategy_deployment_rollbacks_total'')
    (bindO (targetO (da_rollback ad b)) (\<lambda>(ok, msg).
     if ok then
       bindO (dx_put_run plan DS_ROLLED_BACK (Some (db_backup_id b)) msg ts) (\<lambda>r.
       thenO (dx_record ''StrategyDeploymentRolledBack'' plan actor ts [(''run_id'', JStr (dr_run_id r))]) (retO r))
     else
       bindO (dx_put_run plan DS_ROLLBACK_FAILED (Some (db_backup_id b)) msg ts) (\<lambda>r.
       thenO (dx_record ''StrategyDeploymentRollbackFailed'' plan actor ts [(''run_id'', JStr (dr_run_id r))])
       (thenO (dx_increment ''gaon_strategy_deployment_rollback_failures_total'') (retO r))))))"

definition dx_fail :: "'d deployment_adapter \<Rightarrow> deployment_plan \<Rightarrow> deployment_backup option \<Rightarrow> string \<Rightarrow> string \<Rightarrow> string \<Rightarrow> bool \<Rightarrow>
    ('d deploy_env, deployment_run) opr" where
  "dx_fail ad plan backup msg actor ts modified =
    thenO (dx_record ''StrategyDeploymentFailed'' plan actor ts [(''message'', JStr msg)])
    (thenO (dx_increment ''gaon_strategy_deployments_failed_total'')
    (case backup of
       Some b \<Rightarrow> (if modified then dx_rollback ad plan b actor ts else dx_put_run plan DS_FAILED (Some (db_backup_id b)) msg ts)
     | None \<Rightarrow> dx_put_run plan DS_FAILED None msg ts))"

text \<open>
  The body of the \<open>try\<close>, in the three stretches between the assignments to \<open>backup\<close> and \<open>modified\<close>:
  an exception carries the values these variables have where it is raised, which the handler reads. An
  early return of the second stretch is an \<open>Inl\<close>.
\<close>

definition locals :: "deployment_backup option \<Rightarrow> bool \<Rightarrow> ('s, 'a) opr \<Rightarrow> (pyerr \<times> deployment_backup option \<times> bool, 's, 'a) eopr" where
  "locals backup modified m = catchO m (\<lambda>e. raiseO (e, backup, modified))"

definition deployment_backup_id :: "deployment_plan \<Rightarrow> string" where
  "deployment_backup_id plan = ''deployment-backup:'' @ dp_plan_id plan"

definition deploy_backup :: "'d deployment_adapter \<Rightarrow> deployment_plan \<Rightarrow> handoff_package \<Rightarrow> string \<Rightarrow> ('d deploy_env, deployment_backup) opr" where
  "deploy_backup ad plan p ts = targetO (da_backup ad p (deployment_backup_id plan) ts)"

definition deploy_apply :: "'d deployment_adapter \<Rightarrow> deployment_plan \<Rightarrow> handoff_package \<Rightarrow> string \<Rightarrow> string \<Rightarrow> deployment_backup \<Rightarrow>
    ('d deploy_env, deployment_run + bool \<times> string) opr" where
  "deploy_apply ad plan p actor ts b =
    thenO (dx_write (\<lambda>repo. Inr (dx_add_backup b repo)))
    (thenO (dx_record ''StrategyDeploymentBackupCreated'' plan actor ts [(''backup_id'', JStr (db_backup_id b))])
    (bindO (targetO (da_dry_run ad p)) (\<lambda>(ok, reasons).
     if \<not> ok then bindO (dx_fail ad plan (Some b) (''dry-run failed: '' @ join ''; '' reasons) actor ts False) (\<lambda>r. retO (Inl r))
     else thenO (dx_record ''StrategyDeploymentDryRunPassed'' plan actor ts [])
       (bindO (targetO (da_apply ad p)) (\<lambda>x. retO (Inr x))))))"

definition deploy_finish :: "'d deployment_adapter \<Rightarrow> deployment_plan \<Rightarrow> handoff_package \<Rightarrow> string \<Rightarrow> string \<Rightarrow> deployment_backup \<Rightarrow> bool \<Rightarrow> string \<Rightarrow>
    ('d deploy_env, deployment_run) opr" where
  "deploy_finish ad plan p actor ts b ok msg =
    (if \<not> ok then dx_fail ad plan (Some b) msg actor ts False
     else thenO (dx_record ''StrategyDeploymentApplied'' plan actor ts [(''message'', JStr msg)])
      (bindO (targetO (da_restart ad)) (\<lambda>(ok, msg).
       if \<not> ok then dx_fail ad plan (Some b) msg actor ts True
       else bindO (targetO (da_health ad)) (\<lambda>(ok, msg).
       if \<not> ok then dx_fail ad plan (Some b) msg actor ts True
       else thenO (dx_record ''StrategyDeploymentVerified'' plan actor ts [])
      (bindO (targetO (da_verify ad p)) (\<lambda>(ok, msg).
       if \<not> ok then dx_fail ad plan (Some b) msg actor ts True
       else bindO (dx_put_run plan DS_SUCCEEDED (Some (db_backup_id b)) ''deployment succeeded'' ts) (\<lambda>r.
         thenO (dx_record ''StrategyDeploymentSucceeded'' plan actor ts [(''run_id'', JStr (dr_run_id r))])
         (thenO (dx_increment ''gaon_strategy_deployments_succeeded_total'') (retO r)))))))))"

definition deploy_attempt :: "'d deployment_adapter \<Rightarrow> deployment_plan \<Rightarrow> handoff_package \<Rightarrow> string \<Rightarrow> string \<Rightarrow>
    (pyerr \<times> deployment_backup option \<times> bool, 'd deploy_env, deployment_run) eopr" where
  "deploy_attempt ad plan p actor ts =
    bindO (locals None False (deploy_backup ad plan p ts)) (\<lambda>b.
    bindO (locals (Some b) False (deploy_apply ad plan p actor ts b)) (\<lambda>x.
    case x of Inl r \<Rightarrow> retO r | Inr (ok, msg) \<Rightarrow> locals (Some b) ok (deploy_finish ad plan p actor ts b ok msg)))"

definition deployment_run_op :: "'d deployment_adapter \<Rightarrow> string \<Rightarrow> string \<Rightarrow> string \<Rightarrow> ('d deploy_env, deployment_run) opr" where
  "deployment_run_op ad plan_id actor ts =
    bindO (dx_read (\<lambda>s. dx_get_plan plan_id (dx_repo s))) (\<lambda>plan.
    bindO (dx_read (\<lambda>s. hr_get (dp_package_id plan) (ho_repo s))) (\<lambda>p.
     if dp_status plan = DS_BLOCKED then dx_put_run plan DS_BLOCKED None (dp_reason plan) ts
     else bindO (getO (\<lambda>s. has_successful_deployment (dp_package_id plan) (dp_target_id plan) (dx_repo s))) (\<lambda>dup.
     if dup then
       bindO (dx_put_run plan DS_BLOCKED None ''duplicate deployment prevented'' ts) (\<lambda>r.
       thenO (dx_record ''StrategyDeploymentBlocked'' plan actor ts [(''reason'', JStr (dr_message r))]) (retO r))
     else catchO (deploy_attempt ad plan p actor ts) (\<lambda>(e, b, modified). dx_fail ad plan b (err_class e) actor ts modified))))"

section \<open>Preconditions of the service's steps\<close>

lemma wp_dx [wp_simps]:
  "wp (dx_read f) Q E s = (case f s of Inl e \<Rightarrow> E e s | Inr x \<Rightarrow> Q x s)"
  "wp (dx_write g) Q' E s = (case g (dx_repo s) of Inl e \<Rightarrow> E e s | Inr repo \<Rightarrow> Q' () (s\<lparr>dx_repo := repo\<rparr>))"
  "wp (dx_increment name) Q' E s = Q' () (s\<lparr>env_metrics := map_option (\<lambda>ms. ms @ [MIncrement name []]) (env_metrics s)\<rparr>)"
  by (simp_all add: wp_def dx_read_def dx_write_def dx_increment_def increment_def split: sum.splits)

lemma wp_targetO:
  "wp (targetO m) Q E s = (case m (dx_target s) of
      (Inl e, d) \<Rightarrow> E e (s\<lparr>dx_target := d\<rparr>) | (Inr x, d) \<Rightarrow> Q x (s\<lparr>dx_target := d\<rparr>))"
  by (auto simp: wp_def targetO_def split: prod.splits sum.splits)

lemma wp_dx_record:
  assumes "\<And>es. Q () (s\<lparr>env_events := es\<rparr>)" and "\<And>er. E er s"
  shows "wp (dx_record ty p a ts o') Q E s"
  unfolding dx_record_def by (rule wp_record_onceI) (rule assms)+

lemma wp_dx_record_any:
  assumes "\<And>es. Q () (s\<lparr>env_events := es\<rparr>)" and "\<And>er es. E er (s\<lparr>env_events := es\<rparr>)"
  shows "wp (dx_record ty p a ts o') Q E s"
  using assms(2) [of _ "env_events s"] by (intro wp_dx_record assms(1)) simp

lemma wp_locals: "wp (locals b m op) Q E s = wp op Q (\<lambda>e t. E (e, b, m) t) s"
  by (simp add: locals_def wp_catch wp_basic)

lemmas deploy_wp = wp_dx wp_then wp_bind wp_basic wp_lift wp_if wp_locals

section \<open>What planning does\<close>

definition preflight_passes :: "'d deployment_adapter \<Rightarrow> deployment_policy \<Rightarrow> handoff_package \<Rightarrow> string \<Rightarrow> 'd deploy_env \<Rightarrow> bool" where
  "preflight_passes ad pol p target s \<longleftrightarrow> hp_status p = HS_APPROVED \<and>
     (\<exists>a. hr_latest_approval (hp_package_id p) (ho_repo s) = Inr (Some a) \<and> ha_approved a \<and> ha_checksum a = hm_checksum (hp_manifest p)) \<and>
     (\<exists>c. rg_get_active DEFAULT_CHAMPION_SLOT (ho_registry s) = Inr (Some c) \<and> re_version_id c = hm_registry_version (hp_manifest p) \<and>
        re_fingerprint c = hm_fingerprint (hp_manifest p)) \<and>
     (\<exists>m d r d'. da_health ad (dx_target s) = (Inr (True, m), d) \<and> da_validate ad p d = (Inr (True, r), d')) \<and>
     target = dl_target_id pol"

text \<open>What a service call leaves as it was.\<close>

definition same_sources :: "'d deploy_env \<Rightarrow> 'd deploy_env \<Rightarrow> bool" where
  "same_sources s t \<longleftrightarrow> ho_repo t = ho_repo s \<and> ho_registry t = ho_registry s \<and> ho_revalidations t = ho_revalidations s \<and>
     ho_backtests t = ho_backtests s"

lemma same_sources_simps [simp]:
  "same_sources s s" "same_sources s (t\<lparr>env_events := es\<rparr>) = same_sources s t" "same_sources s (t\<lparr>env_metrics := ms\<rparr>) = same_sources s t"
  "same_sources s (t\<lparr>dx_repo := repo\<rparr>) = same_sources s t" "same_sources s (t\<lparr>dx_target := d\<rparr>) = same_sources s t"
  by (simp_all add: same_sources_def)

lemma preflight_wp:
  "wp (preflight ad pol p target)
     (\<lambda>(st, why) t. (st = DS_PREFLIGHT_PASSED \<longleftrightarrow> preflight_passes ad pol p target s) \<and> (st = DS_PREFLIGHT_PASSED \<or> st = DS_BLOCKED) \<and>
        dx_repo t = dx_repo s \<and> same_sources s t)
     (\<lambda>_ t. dx_repo t = dx_repo s \<and> same_sources s t) s"
proof (cases "hp_status p = HS_APPROVED")
  case False
  then show ?thesis by (simp add: preflight_def deploy_wp preflight_passes_def)
next
  case approved: True
  obtain hr hd where h: "da_health ad (dx_target s) = (hr, hd)" by fastforce
  obtain vr vd where v: "da_validate ad p hd = (vr, vd)" by fastforce
  have split: "preflight_passes ad pol p target s \<longleftrightarrow>
      (\<exists>a. hr_latest_approval (hp_package_id p) (ho_repo s) = Inr a \<and> approval_current p a) \<and>
      (\<exists>c. rg_get_active DEFAULT_CHAMPION_SLOT (ho_registry s) = Inr c \<and> champion_current p c) \<and>
      (\<exists>m. hr = Inr (True, m)) \<and> (\<exists>m. vr = Inr (True, m)) \<and> target = dl_target_id pol"
    unfolding preflight_passes_def approval_current_def champion_current_def using approved h v
    by (auto split: option.splits)
  show ?thesis
    unfolding split preflight_def using approved
    by (auto simp: deploy_wp wp_targetO h v split: sum.splits)
qed

text \<open>The request row of a plan call: a request is not a plan.\<close>

lemma request_is_no_plan: "deployment_plan_of (ocanon (deployment_request_json q)) \<noteq> Inr p"
  by (simp add: deployment_plan_of_def deployment_request_json_def guardR_def)

lemma get_plan_add_request:
  "dx_add_request q repo = Inr repo' \<Longrightarrow> dx_get_plan k repo' = Inr p \<Longrightarrow> dx_get_plan k repo = Inr p"
  by (auto simp: dx_add_request_def dx_get_plan_def bindR_Inr_iff t_get_insert request_is_no_plan split: if_splits)

lemma get_plan_add_plan:
  "dx_get_plan k (dx_add_plan p repo) = (if k = dp_plan_id p then Inr p else dx_get_plan k repo)"
  by (simp add: dx_get_plan_def dx_add_plan_def)

definition deployment_plan_effect :: "'d deployment_adapter \<Rightarrow> deployment_policy \<Rightarrow> deployment_request \<Rightarrow> 'd deploy_env \<Rightarrow>
    deployment_plan \<Rightarrow> 'd deploy_env \<Rightarrow> bool" where
  "deployment_plan_effect ad pol q s plan t \<longleftrightarrow> (\<exists>p repo st why. hr_get (dq_package_id q) (ho_repo s) = Inr p \<and>
     plan = deployment_plan_for pol q p st why \<and>
     (st = DS_PREFLIGHT_PASSED \<longleftrightarrow> preflight_passes ad pol p (dq_target_id q) s) \<and> (st = DS_PREFLIGHT_PASSED \<or> st = DS_BLOCKED) \<and>
     dx_add_request q (dx_repo s) = Inr repo \<and> dx_repo t = dx_add_plan plan repo \<and> same_sources s t)"

definition deployment_plan_raised :: "'d deployment_adapter \<Rightarrow> deployment_policy \<Rightarrow> deployment_request \<Rightarrow> 'd deploy_env \<Rightarrow>
    'd deploy_env \<Rightarrow> bool" where
  "deployment_plan_raised ad pol q s t \<longleftrightarrow> same_sources s t \<and> (dx_repo t = dx_repo s \<or> dx_add_request q (dx_repo s) = Inr (dx_repo t) \<or>
     (\<exists>plan. deployment_plan_effect ad pol q s plan t))"

lemma deployment_plan_wp:
  "wp (deployment_plan_op ad pol q) (deployment_plan_effect ad pol q s) (\<lambda>_ t. deployment_plan_raised ad pol q s t) s"
proof (cases "dx_add_request q (dx_repo s)")
  case (Inl e)
  then show ?thesis by (simp add: deployment_plan_op_def deploy_wp deployment_plan_raised_def)
next
  case (Inr repo)
  let ?s = "s\<lparr>dx_repo := repo, env_metrics := map_option (\<lambda>ms. ms @ [MIncrement ''gaon_strategy_deployments_total'' []]) (env_metrics s)\<rparr>"
  have passes: "preflight_passes ad pol p target ?s \<longleftrightarrow> preflight_passes ad pol p target s" for p target
    by (simp add: preflight_passes_def)
  show ?thesis
  proof (cases "hr_get (dq_package_id q) (ho_repo s)")
    case (Inl e)
    then show ?thesis using Inr by (simp add: deployment_plan_op_def deploy_wp deployment_plan_raised_def)
  next
    case (Inr p)
    let ?ok = "\<lambda>(st, why) t. (st = DS_PREFLIGHT_PASSED \<longleftrightarrow> preflight_passes ad pol p (dq_target_id q) ?s) \<and>
      (st = DS_PREFLIGHT_PASSED \<or> st = DS_BLOCKED) \<and> dx_repo t = dx_repo ?s \<and> same_sources ?s t"
    have eff: "deployment_plan_effect ad pol q s (deployment_plan_for pol q p st why)
        (t\<lparr>dx_repo := dx_add_plan (deployment_plan_for pol q p st why) (dx_repo t), env_events := es\<rparr>)" if "?ok (st, why) t" for st why t es
      using that Inr \<open>dx_add_request q (dx_repo s) = Inr repo\<close> passes unfolding deployment_plan_effect_def
      by (auto simp: same_sources_def)
    have raised: "deployment_plan_raised ad pol q s
        (t\<lparr>dx_repo := dx_add_plan (deployment_plan_for pol q p st why) (dx_repo t), env_events := es\<rparr>)" if "?ok (st, why) t" for st why t es
      using eff [OF that] that unfolding deployment_plan_raised_def by (auto simp: same_sources_def)
    have rest: "wp (preflight ad pol p (dq_target_id q)) (\<lambda>x t. ?ok x t) (\<lambda>_ t. deployment_plan_raised ad pol q s t) ?s"
      by (rule wp_mono [OF preflight_wp])
        (auto simp: deployment_plan_raised_def same_sources_def \<open>dx_add_request q (dx_repo s) = Inr repo\<close>)
    have tail: "wp (thenO (dx_write (\<lambda>repo. Inr (dx_add_plan plan repo))) (thenO (dx_record a1 plan a2 a3 a4)
        (thenO (dx_record b1 plan b2 b3 b4) (retO plan)))) Q E t"
      if "\<And>es. Q plan (t\<lparr>dx_repo := dx_add_plan plan (dx_repo t), env_events := es\<rparr>)"
        "\<And>er es. E er (t\<lparr>dx_repo := dx_add_plan plan (dx_repo t), env_events := es\<rparr>)"
      for plan a1 a2 a3 a4 b1 b2 b3 b4 Q E and t :: "'a deploy_env"
      using that by (auto simp: deploy_wp intro!: wp_dx_record_any)
    show ?thesis
      unfolding deployment_plan_op_def wp_then [of "dx_write f" for f] wp_dx \<open>dx_add_request q (dx_repo s) = Inr repo\<close>
      by (simp add: wp_dx wp_then [of "dx_increment n" for n] wp_bind Inr)
        (rule wp_mono [OF rest]; auto simp: wp_basic wp_bind intro!: tail eff raised)
  qed
qed

section \<open>What a run does\<close>

text \<open>The target after a backup, a dry run and an application that all succeeded, and after the checks that follow.\<close>

definition apply_from :: "'d deployment_adapter \<Rightarrow> handoff_package \<Rightarrow> 'd \<Rightarrow> 'd option" where
  "apply_from ad p d = (case da_dry_run ad p d of
     (Inr (True, _), d1) \<Rightarrow> (case da_apply ad p d1 of (Inr (True, _), d2) \<Rightarrow> Some d2 | _ \<Rightarrow> None)
   | _ \<Rightarrow> None)"

definition applied_target :: "'d deployment_adapter \<Rightarrow> deployment_plan \<Rightarrow> handoff_package \<Rightarrow> string \<Rightarrow> 'd \<Rightarrow> (deployment_backup \<times> 'd) option" where
  "applied_target ad plan p ts d = (case da_backup ad p (deployment_backup_id plan) ts d of
     (Inr b, d1) \<Rightarrow> map_option (Pair b) (apply_from ad p d1) | _ \<Rightarrow> None)"

definition checked_target :: "'d deployment_adapter \<Rightarrow> handoff_package \<Rightarrow> 'd \<Rightarrow> 'd option" where
  "checked_target ad p d = (case da_restart ad d of
     (Inr (True, _), d1) \<Rightarrow> (case da_health ad d1 of
       (Inr (True, _), d2) \<Rightarrow> (case da_verify ad p d2 of (Inr (True, _), d3) \<Rightarrow> Some d3 | _ \<Rightarrow> None)
     | _ \<Rightarrow> None)
   | _ \<Rightarrow> None)"

text \<open>Targets on which no application of the plan's package has succeeded since \<open>d0\<close>.\<close>

inductive unapplied :: "'d deployment_adapter \<Rightarrow> deployment_plan \<Rightarrow> handoff_package \<Rightarrow> 'd \<Rightarrow> 'd \<Rightarrow> bool" for ad plan p d0 where
  start: "unapplied ad plan p d0 d0"
| backup: "unapplied ad plan p d0 d \<Longrightarrow> da_backup ad p (deployment_backup_id plan) ts d = (r, d') \<Longrightarrow> unapplied ad plan p d0 d'"
| dry_run: "unapplied ad plan p d0 d \<Longrightarrow> da_dry_run ad p d = (r, d') \<Longrightarrow> unapplied ad plan p d0 d'"
| refused: "unapplied ad plan p d0 d \<Longrightarrow> da_apply ad p d = (r, d') \<Longrightarrow> (\<And>m. r \<noteq> Inr (True, m)) \<Longrightarrow> unapplied ad plan p d0 d'"

text \<open>
  An invariant of the target between the backup and the end of the run, the backup in hand. The
  trivial invariant gives what holds of every adapter.
\<close>

definition run_invariant :: "'d deployment_adapter \<Rightarrow> handoff_package \<Rightarrow> (deployment_backup \<Rightarrow> 'd \<Rightarrow> bool) \<Rightarrow> bool" where
  "run_invariant ad p J \<longleftrightarrow> (\<forall>b d. J b d \<longrightarrow> J b (snd (da_dry_run ad p d)) \<and> J b (snd (da_apply ad p d)) \<and>
     J b (snd (da_restart ad d)) \<and> J b (snd (da_health ad d)) \<and> J b (snd (da_verify ad p d)) \<and>
     J b (snd (da_rollback ad b d)))"

lemma run_invariantD:
  assumes "run_invariant ad p J" and "J b d"
  shows "da_dry_run ad p d = (r1, d') \<Longrightarrow> J b d'" "da_apply ad p d = (r2, d') \<Longrightarrow> J b d'" "da_restart ad d = (r3, d') \<Longrightarrow> J b d'"
    "da_health ad d = (r3, d') \<Longrightarrow> J b d'" "da_verify ad p d = (r3, d') \<Longrightarrow> J b d'" "da_rollback ad b d = (r3, d') \<Longrightarrow> J b d'"
  using assms unfolding run_invariant_def by (metis snd_conv)+

definition stored_run :: "deployment_plan \<Rightarrow> deployment_run \<Rightarrow> 'd deploy_env \<Rightarrow> bool" where
  "stored_run plan r t \<longleftrightarrow> t_get (deployment_run_id plan) (dx_runs (dx_repo t)) = Some r \<and> dr_run_id r = deployment_run_id plan \<and>
     dr_package_id r = dp_package_id plan \<and> dr_target_id r = dp_target_id plan"

definition rolled_run :: "'d deployment_adapter \<Rightarrow> (deployment_backup \<Rightarrow> 'd \<Rightarrow> bool) \<Rightarrow> deployment_plan \<Rightarrow> deployment_backup \<Rightarrow>
    deployment_run \<Rightarrow> 'd deploy_env \<Rightarrow> bool" where
  "rolled_run ad J plan b r t \<longleftrightarrow> stored_run plan r t \<and> dr_backup_id r = Some (db_backup_id b) \<and>
     (\<exists>ok m y. J b y \<and> da_rollback ad b y = (Inr (ok, m), dx_target t) \<and>
        dr_status r = (if ok then DS_ROLLED_BACK else DS_ROLLBACK_FAILED))"

lemma stored_run_frame [simp]:
  "stored_run plan r (t\<lparr>env_events := es\<rparr>) = stored_run plan r t" "stored_run plan r (t\<lparr>env_metrics := ms\<rparr>) = stored_run plan r t"
  "stored_run plan r (t\<lparr>dx_target := d\<rparr>) = stored_run plan r t"
  by (simp_all add: stored_run_def)

lemma rolled_run_frame [simp]:
  "rolled_run ad J plan b r (t\<lparr>env_events := es\<rparr>) = rolled_run ad J plan b r t"
  "rolled_run ad J plan b r (t\<lparr>env_metrics := ms\<rparr>) = rolled_run ad J plan b r t"
  by (simp_all add: rolled_run_def)

lemma stored_run_new [simp]:
  "stored_run plan (run_of_deployment plan st bid msg ts) (t\<lparr>dx_repo := dx_add_run (run_of_deployment plan st bid msg ts) repo\<rparr>)"
  by (simp add: stored_run_def run_of_deployment_def dx_add_run_def)

lemma run_of_deployment_simps [simp]:
  "dr_status (run_of_deployment plan st bid msg ts) = st" "dr_backup_id (run_of_deployment plan st bid msg ts) = bid"
  by (simp_all add: run_of_deployment_def)

lemma wp_put_run:
  "wp (dx_put_run plan st bid msg ts) Q E s \<longleftrightarrow>
     Q (run_of_deployment plan st bid msg ts) (s\<lparr>dx_repo := dx_add_run (run_of_deployment plan st bid msg ts) (dx_repo s)\<rparr>)"
  by (simp add: dx_put_run_def deploy_wp)

lemma deployment_rollback_wp:
  assumes "J b (dx_target s)" and "run_invariant ad p J"
  shows "wp (dx_rollback ad plan b actor ts) (\<lambda>r t. rolled_run ad J plan b r t) (\<lambda>_ t. J b (dx_target t)) s"
  unfolding dx_rollback_def
  using assms(1) run_invariantD(6) [OF assms(2,1)]
  by (auto intro!: wp_dx_record_any simp: deploy_wp wp_targetO wp_put_run split: sum.splits prod.splits)
    (auto simp: rolled_run_def)

lemma fail_unmodified_wp:
  assumes "J (dx_target s)"
  shows "wp (dx_fail ad plan b msg actor ts False) (\<lambda>r t. stored_run plan r t \<and> dr_status r = DS_FAILED \<and> J (dx_target t))
    (\<lambda>_ t. J (dx_target t)) s"
  unfolding dx_fail_def
  using assms by (auto intro!: wp_dx_record_any simp: deploy_wp wp_put_run split: option.splits)

lemma fail_modified_wp:
  assumes "J b (dx_target s)" and "run_invariant ad p J"
  shows "wp (dx_fail ad plan (Some b) msg actor ts True) (\<lambda>r t. rolled_run ad J plan b r t) (\<lambda>_ t. J b (dx_target t)) s"
  unfolding dx_fail_def
  using assms by (auto intro!: wp_dx_record_any deployment_rollback_wp simp: deploy_wp)

lemma apply_wp:
  assumes "J b (dx_target s)" and "run_invariant ad p J" and "unapplied ad plan p d0 (dx_target s)"
  shows "wp (deploy_apply ad plan p actor ts b)
     (\<lambda>x t. case x of
        Inl r \<Rightarrow> stored_run plan r t \<and> dr_status r = DS_FAILED \<and> unapplied ad plan p d0 (dx_target t)
      | Inr (ok, msg) \<Rightarrow> J b (dx_target t) \<and> (if ok then apply_from ad p (dx_target s) = Some (dx_target t) else unapplied ad plan p d0 (dx_target t)))
     (\<lambda>_ t. unapplied ad plan p d0 (dx_target t)) s"
proof -
  obtain r1 d1 where d1: "da_dry_run ad p (dx_target s) = (r1, d1)" by fastforce
  obtain r2 d2 where d2: "da_apply ad p d1 = (r2, d2)" by fastforce
  have J1: "J b d1" by (rule run_invariantD(1) [OF assms(2,1) d1])
  have J2: "J b d2" by (rule run_invariantD(2) [OF assms(2) J1 d2])
  have u1: "unapplied ad plan p d0 d1" by (rule unapplied.dry_run [OF assms(3) d1])
  have u2: "unapplied ad plan p d0 d2" if "\<And>m. r2 \<noteq> Inr (True, m)" by (rule unapplied.refused [OF u1 d2 that])
  have failed: "unapplied ad plan p d0 (dx_target u) \<Longrightarrow> wp (dx_fail ad plan (Some b) msg actor ts False)
      (\<lambda>r t. stored_run plan r t \<and> dr_status r = DS_FAILED \<and> unapplied ad plan p d0 (dx_target t)) (\<lambda>_ t. unapplied ad plan p d0 (dx_target t)) u" for msg u
    by (rule fail_unmodified_wp)
  show ?thesis
    unfolding deploy_apply_def apply_from_def
    by (auto simp: deploy_wp wp_targetO d1 d2 J2 u1 u2 assms(3) intro!: wp_dx_record_any wp_mono [OF failed] split: sum.splits prod.splits)
qed

lemma finish_wp:
  assumes "J b (dx_target s)" and "run_invariant ad p J"
  shows "wp (deploy_finish ad plan p actor ts b True msg)
     (\<lambda>r t. stored_run plan r t \<and> dr_status r = DS_SUCCEEDED \<and> checked_target ad p (dx_target s) = Some (dx_target t) \<or>
        rolled_run ad J plan b r t) (\<lambda>_ t. J b (dx_target t)) s"
proof -
  obtain r1 d1 where d1: "da_restart ad (dx_target s) = (r1, d1)" by fastforce
  obtain r2 d2 where d2: "da_health ad d1 = (r2, d2)" by fastforce
  obtain r3 d3 where d3: "da_verify ad p d2 = (r3, d3)" by fastforce
  have J1: "J b d1" by (rule run_invariantD(3) [OF assms(2,1) d1])
  have J2: "J b d2" by (rule run_invariantD(4) [OF assms(2) J1 d2])
  have J3: "J b d3" by (rule run_invariantD(5) [OF assms(2) J2 d3])
  have failed: "J b (dx_target u) \<Longrightarrow> wp (dx_fail ad plan (Some b) msg actor ts True) (\<lambda>r t. rolled_run ad J plan b r t) (\<lambda>_ t. J b (dx_target t)) u"
    for msg u by (rule fail_modified_wp [OF _ assms(2)])
  show ?thesis
    unfolding deploy_finish_def checked_target_def
    by (auto simp: deploy_wp wp_targetO wp_put_run d1 d2 d3 J1 J2 J3 assms(1) intro!: wp_dx_record_any wp_mono [OF failed] split: sum.splits prod.splits)
qed

definition run_outcome :: "'d deployment_adapter \<Rightarrow> (deployment_backup \<Rightarrow> 'd \<Rightarrow> bool) \<Rightarrow> deployment_plan \<Rightarrow> handoff_package \<Rightarrow> string \<Rightarrow> 'd \<Rightarrow>
    deployment_run \<Rightarrow> 'd deploy_env \<Rightarrow> bool" where
  "run_outcome ad J plan p ts d0 r t \<longleftrightarrow> stored_run plan r t \<and>
     (dr_status r = DS_SUCCEEDED \<and> (\<exists>b d. applied_target ad plan p ts d0 = Some (b, d) \<and> checked_target ad p d = Some (dx_target t)) \<or>
      dr_status r = DS_FAILED \<and> unapplied ad plan p d0 (dx_target t) \<or>
      (\<exists>b d. applied_target ad plan p ts d0 = Some (b, d) \<and> rolled_run ad J plan b r t))"

definition attempt_error :: "'d deployment_adapter \<Rightarrow> (deployment_backup \<Rightarrow> 'd \<Rightarrow> bool) \<Rightarrow> deployment_plan \<Rightarrow> handoff_package \<Rightarrow> string \<Rightarrow> 'd \<Rightarrow>
    deployment_backup option \<Rightarrow> bool \<Rightarrow> 'd deploy_env \<Rightarrow> bool" where
  "attempt_error ad J plan p ts d0 b modified t \<longleftrightarrow>
     (if modified then \<exists>x d. b = Some x \<and> applied_target ad plan p ts d0 = Some (x, d) \<and> J x (dx_target t) else unapplied ad plan p d0 (dx_target t))"

lemma rolled_run_stored: "rolled_run ad J plan b r t \<Longrightarrow> stored_run plan r t"
  by (simp add: rolled_run_def)

lemma attempt_wp:
  assumes "\<And>b d'. da_backup ad p (deployment_backup_id plan) ts (dx_target s) = (Inr b, d') \<Longrightarrow> J b d'"
    and "run_invariant ad p J"
  shows "wp (deploy_attempt ad plan p actor ts) (run_outcome ad J plan p ts (dx_target s))
     (\<lambda>(e, b, modified) t. attempt_error ad J plan p ts (dx_target s) b modified t) s"
proof -
  obtain r1 d1 where d1: "da_backup ad p (deployment_backup_id plan) ts (dx_target s) = (r1, d1)" by fastforce
  have u1: "unapplied ad plan p (dx_target s) d1" by (rule unapplied.backup [OF unapplied.start d1])
  show ?thesis
  proof (cases r1)
    case (Inl e)
    then show ?thesis
      using u1 by (simp add: deploy_attempt_def deploy_backup_def deploy_wp wp_targetO d1 attempt_error_def)
  next
    case (Inr b)
    let ?s = "s\<lparr>dx_target := d1\<rparr>"
    have Jb: "J b (dx_target ?s)" using assms(1) d1 Inr by simp
    have u: "unapplied ad plan p (dx_target s) (dx_target ?s)" using u1 by simp
    have applied: "applied_target ad plan p ts (dx_target s) = Some (b, d)" if "apply_from ad p d1 = Some d" for d
      using that d1 Inr by (simp add: applied_target_def)
    have failed: "unapplied ad plan p (dx_target s) (dx_target t) \<Longrightarrow> wp (dx_fail ad plan (Some b) msg actor ts False)
        (\<lambda>r t. stored_run plan r t \<and> dr_status r = DS_FAILED \<and> unapplied ad plan p (dx_target s) (dx_target t))
        (\<lambda>_ t. unapplied ad plan p (dx_target s) (dx_target t)) t" for msg t
      by (rule fail_unmodified_wp)
    have stored: "rolled_run ad J plan b r t \<Longrightarrow> stored_run plan r t" for r and t :: "'a deploy_env"
      by (rule rolled_run_stored)
    show ?thesis
      unfolding deploy_attempt_def deploy_backup_def
      apply (simp add: deploy_wp wp_targetO d1 Inr)
      apply (rule wp_mono [OF apply_wp [OF Jb assms(2) u]])
      subgoal for x t
        by (cases x; cases "fst (projr x)")
          (auto simp: run_outcome_def attempt_error_def wp_locals wp_basic deploy_finish_def [of _ _ _ _ _ _ False] applied
            intro!: wp_mono [OF finish_wp [OF _ assms(2)]] wp_mono [OF failed] simp: stored)
      subgoal by (simp add: attempt_error_def)
      done
  qed
qed

lemma attempt_handled:
  assumes "\<And>b d'. da_backup ad p (deployment_backup_id plan) ts (dx_target s) = (Inr b, d') \<Longrightarrow> J b d'"
    and "run_invariant ad p J"
  shows "wp (catchO (deploy_attempt ad plan p actor ts) (\<lambda>(e, b, modified). dx_fail ad plan b (err_class e) actor ts modified))
     (run_outcome ad J plan p ts (dx_target s)) (\<lambda>_ _. True) s"
proof -
  have "wp (dx_fail ad plan b msg actor ts modified) (run_outcome ad J plan p ts (dx_target s)) (\<lambda>_ _. True) t"
    if err: "attempt_error ad J plan p ts (dx_target s) b modified t" for b msg modified t
  proof (cases modified)
    case True
    then obtain x d where x: "b = Some x" "applied_target ad plan p ts (dx_target s) = Some (x, d)" "J x (dx_target t)"
      using err by (auto simp: attempt_error_def)
    have "run_outcome ad J plan p ts (dx_target s) r u" if "rolled_run ad J plan x r u" for r u
      using that x(2) rolled_run_stored [OF that] by (auto simp: run_outcome_def)
    then have "wp (dx_fail ad plan (Some x) msg actor ts True) (run_outcome ad J plan p ts (dx_target s)) (\<lambda>_ _. True) t"
      by (intro wp_mono [OF fail_modified_wp [of J, OF x(3) assms(2)]]) simp_all
    then show ?thesis using True x(1) by simp
  next
    case False
    then have u: "unapplied ad plan p (dx_target s) (dx_target t)" using err by (simp add: attempt_error_def)
    have "wp (dx_fail ad plan b msg actor ts False)
        (\<lambda>r t. stored_run plan r t \<and> dr_status r = DS_FAILED \<and> unapplied ad plan p (dx_target s) (dx_target t))
        (\<lambda>_ t. unapplied ad plan p (dx_target s) (dx_target t)) t" using fail_unmodified_wp [of "unapplied ad plan p (dx_target s)" t ad plan b msg actor ts] u by simp
    then show ?thesis using False by (auto elim!: wp_mono simp: run_outcome_def)
  qed
  note handler = this
  show ?thesis
    unfolding wp_catch by (rule wp_mono [OF attempt_wp [of ad p plan ts s J, OF assms]]) (auto intro: handler)
qed

end
