(* ===== verification/DeploymentRuns.thy ===== *)
theory DeploymentRuns
  imports StrategyDeploy
begin

text \<open>
  The deployment service of \<open>gaon/adapters/strategy_deployment.py\<close> as a whole: what a run may touch and
  when, over every sequence of calls of the handoff and deployment services; the locale of targets that
  can be rolled back, with the file target and the target in memory as its instances; the properties.
\<close>

section \<open>What a run leaves alone\<close>

lemma keeps_dx [keeps_intros]:
  "(\<And>s. I s \<Longrightarrow> (\<And>repo. f (dx_repo s) = Inr repo \<Longrightarrow> I (s\<lparr>dx_repo := repo\<rparr>))) \<Longrightarrow> keeps I (dx_write f)"
  "keeps I (dx_read g)"
  by (auto simp: keeps_def dx_write_def dx_read_def split: sum.splits)

lemma keeps_targetO [keeps_intros]: "(\<And>s d. I s \<Longrightarrow> I (s\<lparr>dx_target := d\<rparr>)) \<Longrightarrow> keeps I (targetO m)"
  by (auto simp: keeps_def targetO_def split: prod.splits)

text \<open>A run writes no source of the deployment and no plan.\<close>

definition run_frame :: "'d deploy_env \<Rightarrow> 'd deploy_env \<Rightarrow> bool" where
  "run_frame s t \<longleftrightarrow> same_sources s t \<and> dx_requests (dx_repo t) = dx_requests (dx_repo s)"

lemma run_frame_simps [simp]:
  "run_frame s s" "run_frame s (t\<lparr>env_events := es\<rparr>) = run_frame s t" "run_frame s (t\<lparr>env_metrics := ms\<rparr>) = run_frame s t"
  "run_frame s (t\<lparr>dx_target := d\<rparr>) = run_frame s t"
  "run_frame s t \<Longrightarrow> run_frame s (t\<lparr>dx_repo := dx_add_run r (dx_repo t)\<rparr>)"
  "run_frame s t \<Longrightarrow> run_frame s (t\<lparr>dx_repo := dx_add_backup b (dx_repo t)\<rparr>)"
  by (simp_all add: run_frame_def dx_add_run_def dx_add_backup_def)

lemma keeps_run_steps [keeps_intros]:
  "keeps (run_frame s) (dx_record ty p a ts o')" "keeps (run_frame s) (dx_increment n)" "keeps (run_frame s) (dx_put_run plan st bid msg ts)"
  "keeps (run_frame s) (dx_rollback ad plan b actor ts)" "keeps (run_frame s) (dx_fail ad plan x msg actor ts m)"
  "keeps (run_frame s) op \<Longrightarrow> keeps (run_frame s) (locals y m' op)"
proof -
  show rec: "keeps (run_frame s) (dx_record ty p a ts o')" for ty p a ts o'
    unfolding dx_record_def by (rule keeps_record_once) simp
  show inc: "keeps (run_frame s) (dx_increment n)" for n
    unfolding dx_increment_def by (rule keeps_increment) simp
  show put: "keeps (run_frame s) (dx_put_run plan st bid msg ts)" for plan st bid msg ts
    unfolding dx_put_run_def by (auto intro!: keeps_intros)
  show rolled: "keeps (run_frame s) (dx_rollback ad plan b actor ts)" for ad plan b actor ts
    unfolding dx_rollback_def by (auto intro!: keeps_intros rec inc put)
  show "keeps (run_frame s) (dx_fail ad plan x msg actor ts m)"
    unfolding dx_fail_def by (cases x) (auto intro!: keeps_intros rec inc put rolled)
  show "keeps (run_frame s) op \<Longrightarrow> keeps (run_frame s) (locals y m' op)"
    unfolding locals_def by (intro keeps_catch keeps_raise)
qed

lemma run_keeps: "keeps (run_frame s) (deployment_run_op ad plan_id actor ts)"
proof -
  have saved: "keeps (run_frame s) (deploy_backup ad plan p ts)" for plan p
    unfolding deploy_backup_def by (auto intro!: keeps_intros)
  have app: "keeps (run_frame s) (deploy_apply ad plan p actor ts b)" for plan p b
    unfolding deploy_apply_def by (auto intro!: keeps_intros)
  have fin: "keeps (run_frame s) (deploy_finish ad plan p actor ts b ok msg)" for plan p b ok msg
    unfolding deploy_finish_def by (auto intro!: keeps_intros)
  have att: "keeps (run_frame s) (deploy_attempt ad plan p actor ts)" for plan p
    unfolding deploy_attempt_def
    by (auto intro!: keeps_bind keeps_run_steps(6) saved app fin keeps_ret split: sum.splits)
  show ?thesis
    unfolding deployment_run_op_def by (auto intro!: keeps_intros att)
qed

section \<open>The gate of a run\<close>

definition deployment_run_effect :: "'d deployment_adapter \<Rightarrow> (deployment_backup \<Rightarrow> 'd \<Rightarrow> bool) \<Rightarrow> string \<Rightarrow> string \<Rightarrow> 'd deploy_env \<Rightarrow> deployment_run \<Rightarrow>
    'd deploy_env \<Rightarrow> bool" where
  "deployment_run_effect ad J plan_id ts s r t \<longleftrightarrow> (\<exists>plan p. dx_get_plan plan_id (dx_repo s) = Inr plan \<and> hr_get (dp_package_id plan) (ho_repo s) = Inr p \<and>
     (if dp_status plan = DS_BLOCKED \<or> has_successful_deployment (dp_package_id plan) (dp_target_id plan) (dx_repo s)
      then dr_status r = DS_BLOCKED \<and> stored_run plan r t \<and> dx_target t = dx_target s
      else run_outcome ad J plan p ts (dx_target s) r t))"

text \<open>A run may reach the target.\<close>

definition deployable :: "string \<Rightarrow> 'd deploy_env \<Rightarrow> bool" where
  "deployable plan_id s \<longleftrightarrow> (\<exists>plan p. dx_get_plan plan_id (dx_repo s) = Inr plan \<and> hr_get (dp_package_id plan) (ho_repo s) = Inr p \<and>
     dp_status plan \<noteq> DS_BLOCKED \<and> \<not> has_successful_deployment (dp_package_id plan) (dp_target_id plan) (dx_repo s))"

lemma deployment_run_wp:
  assumes "\<And>plan p b d'. da_backup ad p (deployment_backup_id plan) ts (dx_target s) = (Inr b, d') \<Longrightarrow> J b d'"
    and "\<And>p. run_invariant ad p J"
  shows "wp (deployment_run_op ad plan_id actor ts) (deployment_run_effect ad J plan_id ts s)
    (\<lambda>_ t. dx_target t = dx_target s \<or> deployable plan_id s) s"
proof (cases "dx_get_plan plan_id (dx_repo s)")
  case (Inl e)
  then show ?thesis by (simp add: deployment_run_op_def deploy_wp)
next
  case plan: (Inr plan)
  show ?thesis
  proof (cases "hr_get (dp_package_id plan) (ho_repo s)")
    case (Inl e)
    then show ?thesis using plan by (simp add: deployment_run_op_def deploy_wp)
  next
    case pkg: (Inr p)
    consider "dp_status plan = DS_BLOCKED" | "dp_status plan \<noteq> DS_BLOCKED" "has_successful_deployment (dp_package_id plan) (dp_target_id plan) (dx_repo s)"
      | "dp_status plan \<noteq> DS_BLOCKED" "\<not> has_successful_deployment (dp_package_id plan) (dp_target_id plan) (dx_repo s)" by blast
    then show ?thesis
    proof cases
      case 1
      then show ?thesis using plan pkg by (simp add: deployment_run_op_def deploy_wp wp_put_run deployment_run_effect_def)
    next
      case 2
      then show ?thesis using plan pkg
        by (auto simp: deployment_run_op_def deploy_wp wp_put_run deployment_run_effect_def intro!: wp_dx_record)
    next
      case 3
      then have d: "deployable plan_id s" using plan pkg by (auto simp: deployable_def)
      have e: "run_outcome ad J plan p ts (dx_target s) r t \<Longrightarrow> deployment_run_effect ad J plan_id ts s r t" for r t
        using 3 plan pkg by (auto simp: deployment_run_effect_def)
      show ?thesis using 3 plan pkg
        by (auto simp: deployment_run_op_def deploy_wp d e intro!: wp_mono [OF attempt_handled [of ad p plan ts s J, OF assms]])
    qed
  qed
qed

section \<open>Every sequence of calls\<close>

text \<open>
  The calls of the handoff service run on the part of the state they know, between the calls of the
  deployment service; the target can change on its own.
\<close>

datatype 'd deployment_call =
    DC_Handoff handoff_call
  | DC_Plan deployment_policy deployment_request
  | DC_Run string string string
  | DC_Target 'd

definition on_handoff :: "(handoff_env \<Rightarrow> handoff_env) \<Rightarrow> 'd deploy_env \<Rightarrow> 'd deploy_env" where
  "on_handoff f s = handoff_env.extend (f (handoff_env.truncate s)) (handoff_env.more s)"

fun deployment_step :: "'d deployment_adapter \<Rightarrow> 'd deployment_call \<Rightarrow> 'd deploy_env \<Rightarrow> 'd deploy_env" where
  "deployment_step ad (DC_Handoff c) s = on_handoff (handoff_step c) s"
| "deployment_step ad (DC_Plan pol q) s = snd (deployment_plan_op ad pol q s)"
| "deployment_step ad (DC_Run plan_id actor ts) s = snd (deployment_run_op ad plan_id actor ts s)"
| "deployment_step ad (DC_Target d) s = s\<lparr>dx_target := d\<rparr>"

definition deploy_env_init :: "durable_event list option \<Rightarrow> metric_call list option \<Rightarrow> 'd \<Rightarrow> 'd deploy_env" where
  "deploy_env_init es ms d = handoff_env.extend (handoff_env_init es ms) (deploy_env.fields deployment_repo_init d)"

lemma on_handoff_fields [simp]:
  "ho_repo (on_handoff f s) = ho_repo (f (handoff_env.truncate s))" "ho_backtests (on_handoff f s) = ho_backtests (f (handoff_env.truncate s))"
  "dx_repo (on_handoff f s) = dx_repo s" "dx_target (on_handoff f s) = dx_target s"
  "ho_repo (handoff_env.truncate s) = ho_repo s" "ho_backtests (handoff_env.truncate s) = ho_backtests s"
  by (cases s; simp add: on_handoff_def handoff_env.defs)+

text \<open>
  A stored plan has passed the preflight or is blocked, and the package of a passed plan is approved
  with the checksum of the plan.
\<close>

definition passed_plan_ok :: "deployment_plan \<Rightarrow> handoff_repo \<Rightarrow> bool" where
  "passed_plan_ok plan repo \<longleftrightarrow> dp_status plan = DS_BLOCKED \<or> (dp_status plan = DS_PREFLIGHT_PASSED \<and>
     (\<exists>p. t_get (dp_package_id plan) (hr_packages repo) = Some p \<and> hp_status p = HS_APPROVED \<and> dp_checksum plan = hm_checksum (hp_manifest p)))"

definition deploy_ok :: "'d deploy_env \<Rightarrow> bool" where
  "deploy_ok s \<longleftrightarrow> handoff_ok (ho_repo s) \<and> bt_rows_ok (ho_backtests s) \<and>
     (\<forall>k plan. dx_get_plan k (dx_repo s) = Inr plan \<longrightarrow> passed_plan_ok plan (ho_repo s))"

lemma passed_later: "passed_plan_ok plan a \<Longrightarrow> packages_later a b \<Longrightarrow> passed_plan_ok plan b"
proof (cases "dp_status plan = DS_BLOCKED")
  case False
  assume "passed_plan_ok plan a" and later: "packages_later a b"
  then obtain p where p: "dp_status plan = DS_PREFLIGHT_PASSED" "t_get (dp_package_id plan) (hr_packages a) = Some p" "hp_status p = HS_APPROVED"
      "dp_checksum plan = hm_checksum (hp_manifest p)" using False by (auto simp: passed_plan_ok_def)
  then obtain u where "t_get (dp_package_id plan) (hr_packages b) = Some u" "handoff_move\<^sup>*\<^sup>* p u"
    using later by (auto simp: packages_later_def)
  moreover from this(2) have "u = p" by (rule moves_pending) (simp add: p(3))
  ultimately show ?thesis using p by (auto simp: passed_plan_ok_def)
qed (simp add: passed_plan_ok_def)

lemma deploy_ok_same:
  "deploy_ok s \<Longrightarrow> same_sources s t \<Longrightarrow> (\<And>k plan. dx_get_plan k (dx_repo t) = Inr plan \<Longrightarrow>
     dx_get_plan k (dx_repo s) = Inr plan \<or> passed_plan_ok plan (ho_repo s)) \<Longrightarrow> deploy_ok t"
  unfolding deploy_ok_def same_sources_def by metis

lemma plan_effect_ok:
  assumes "deploy_ok s" and "deployment_plan_effect ad pol q s plan t"
  shows "deploy_ok t"
proof -
  obtain p repo st why where e: "hr_get (dq_package_id q) (ho_repo s) = Inr p" "plan = deployment_plan_for pol q p st why"
      "st = DS_PREFLIGHT_PASSED \<longleftrightarrow> preflight_passes ad pol p (dq_target_id q) s" "st = DS_PREFLIGHT_PASSED \<or> st = DS_BLOCKED"
      "dx_add_request q (dx_repo s) = Inr repo" "dx_repo t = dx_add_plan plan repo" "same_sources s t"
    using assms(2) unfolding deployment_plan_effect_def by blast
  have ok: "handoff_ok (ho_repo s)" using assms(1) by (simp add: deploy_ok_def)
  then have p: "t_get (dq_package_id q) (hr_packages (ho_repo s)) = Some p" "hp_package_id p = dq_package_id q"
    using e(1) by (auto simp: hr_get_ok handoff_ok_def)
  have "passed_plan_ok plan (ho_repo s)"
    using e(3,4) p unfolding passed_plan_ok_def e(2) deployment_plan_for_def by (auto simp: preflight_passes_def)
  then show ?thesis
    using e(5) by (intro deploy_ok_same [OF assms(1) e(7)]) (auto simp: e(6) get_plan_add_plan dest: get_plan_add_request split: if_splits)
qed

lemma deployment_step_ok:
  assumes "deploy_ok s"
  shows "deploy_ok (deployment_step ad c s)"
proof (cases c)
  case (DC_Handoff h)
  have "handoff_env_ok (handoff_env.truncate s)" using assms by (simp add: deploy_ok_def handoff_env_ok_def)
  from handoff_step_later [OF this, of h] show ?thesis
    using assms DC_Handoff by (auto simp: deploy_ok_def handoff_env_ok_def intro: passed_later)
next
  case (DC_Plan pol q)
  have "deploy_ok t" if "deployment_plan_raised ad pol q s t" for t
    using that assms plan_effect_ok [OF assms] unfolding deployment_plan_raised_def
    by (auto intro: deploy_ok_same [OF assms] dest: get_plan_add_request)
  then have "wp (deployment_plan_op ad pol q) (\<lambda>_ t. deploy_ok t) (\<lambda>_ t. deploy_ok t) s"
    by (intro wp_mono [OF deployment_plan_wp]) (auto intro: plan_effect_ok [OF assms])
  from wp_snd [OF this] show ?thesis using DC_Plan by simp
next
  case (DC_Run plan_id actor ts)
  have "run_frame s (snd (deployment_run_op ad plan_id actor ts s))" using run_keeps [of s ad plan_id actor ts] by (simp add: keeps_def)
  then show ?thesis
    using DC_Run by (auto simp: run_frame_def dx_get_plan_def intro: deploy_ok_same [OF assms])
next
  case (DC_Target d)
  then show ?thesis using assms by (simp add: deploy_ok_def)
qed

lemma deployment_steps_ok: "deploy_ok (fold (deployment_step ad) cs (deploy_env_init es ms d))"
proof -
  have step: "deploy_ok s \<Longrightarrow> deploy_ok (fold (deployment_step ad) cs s)" for s :: "'a deploy_env"
    by (induction cs arbitrary: s) (simp_all add: deployment_step_ok)
  have "deploy_ok (deploy_env_init es ms d)"
    using handoff_init_ok [of es ms]
    by (simp add: deploy_ok_def deploy_env_init_def handoff_env.defs deploy_env.defs handoff_env_ok_def deployment_repo_init_def
        dx_get_plan_def t_get_def)
  from step [OF this] show ?thesis .
qed

section \<open>Targets that can be rolled back\<close>

text \<open>
  What the service relies on for a rollback: a backup saves what the target shows (\<open>shown\<close>), the saved
  backup survives every other operation of a run, a rollback that returns true shows what was saved,
  and before a successful application nothing the target shows changes, except that an application that
  breaks off can leave something \<open>torn\<close> unless the target is \<open>quiet\<close>.
\<close>

locale deployment_target =
  fixes ad :: "'d deployment_adapter"
    and shown :: "'d \<Rightarrow> 'v"
    and saved :: "'v \<Rightarrow> deployment_backup \<Rightarrow> 'd \<Rightarrow> bool"
    and quiet :: "'d \<Rightarrow> bool"
    and torn :: "handoff_package \<Rightarrow> 'v \<Rightarrow> bool"
  assumes backup_saves: "da_backup ad p (deployment_backup_id plan) ts d = (Inr b, d') \<Longrightarrow> saved (shown d) b d'"
    and saved_kept: "run_invariant ad p (saved v)"
    and rollback_restores: "saved v b d \<Longrightarrow> da_rollback ad b d = (Inr (True, m), d') \<Longrightarrow> shown d' = v"
    and backup_shows: "da_backup ad p (deployment_backup_id plan) ts d = (r, d') \<Longrightarrow> shown d' = shown d \<and> (quiet d \<longrightarrow> quiet d')"
    and dry_run_shows: "da_dry_run ad p d = (r', d') \<Longrightarrow> shown d' = shown d \<and> (quiet d \<longrightarrow> quiet d')"
    and refused_shows: "da_apply ad p d = (r'', d') \<Longrightarrow> (\<And>m. r'' \<noteq> Inr (True, m)) \<Longrightarrow>
      shown d' = shown d \<and> (quiet d \<longrightarrow> quiet d') \<or> \<not> quiet d \<and> torn p (shown d')"
begin

lemma unapplied_shows:
  "unapplied ad plan p d0 d \<Longrightarrow> (quiet d0 \<longrightarrow> quiet d) \<and> (shown d = shown d0 \<or> \<not> quiet d0 \<and> torn p (shown d))"
proof (induction rule: unapplied.induct)
  case (backup d ts r d') then show ?case using backup_shows [OF backup(2)] by auto
next
  case (dry_run d r d') then show ?case using dry_run_shows [OF dry_run(2)] by auto
next
  case (refused d r d') then show ?case using refused_shows [OF refused(2,3)] by auto
qed simp

lemma run_restores:
  "wp (deployment_run_op ad plan_id actor ts)
     (\<lambda>r t. (case dr_status r of
        DS_SUCCEEDED \<Rightarrow> \<exists>plan p b d. dx_get_plan plan_id (dx_repo s) = Inr plan \<and> hr_get (dp_package_id plan) (ho_repo s) = Inr p \<and>
          applied_target ad plan p ts (dx_target s) = Some (b, d) \<and> checked_target ad p d = Some (dx_target t)
      | DS_FAILED \<Rightarrow> shown (dx_target t) = shown (dx_target s) \<or> \<not> quiet (dx_target s) \<and>
          (\<exists>plan p. dx_get_plan plan_id (dx_repo s) = Inr plan \<and> hr_get (dp_package_id plan) (ho_repo s) = Inr p \<and> torn p (shown (dx_target t)))
      | DS_ROLLED_BACK \<Rightarrow> shown (dx_target t) = shown (dx_target s)
      | DS_BLOCKED \<Rightarrow> dx_target t = dx_target s
      | DS_ROLLBACK_FAILED \<Rightarrow> \<exists>b y m. saved (shown (dx_target s)) b y \<and> da_rollback ad b y = (Inr (False, m), dx_target t)
      | _ \<Rightarrow> False)) (\<lambda>_ t. dx_target t = dx_target s \<or> deployable plan_id s) s" (is "wp _ ?Q _ s")
proof (rule wp_mono [OF deployment_run_wp [of ad ts s "saved (shown (dx_target s))"]])
  fix r t
  assume e: "deployment_run_effect ad (saved (shown (dx_target s))) plan_id ts s r t"
  then obtain plan p where p: "dx_get_plan plan_id (dx_repo s) = Inr plan" "hr_get (dp_package_id plan) (ho_repo s) = Inr p"
    and cases: "dr_status r = DS_BLOCKED \<and> dx_target t = dx_target s \<or> run_outcome ad (saved (shown (dx_target s))) plan p ts (dx_target s) r t"
    unfolding deployment_run_effect_def by (auto split: if_splits)
  from cases show "?Q r t"
    using p by (auto simp: run_outcome_def rolled_run_def rollback_restores dest: unapplied_shows split: if_splits) blast?
qed (auto simp: backup_saves saved_kept)

end

lemma fake_deployment_simps [simp]:
  "da_health fake_deployment = getO ft_health" "da_validate fake_deployment p = getO (ft_validate p)" "da_backup fake_deployment = ft_backup"
  "da_dry_run fake_deployment = ft_dry_run" "da_apply fake_deployment = ft_apply" "da_restart fake_deployment = getO ft_restart"
  "da_verify fake_deployment p = getO (ft_verify p)" "da_rollback fake_deployment = ft_rollback"
  by (simp_all add: fake_deployment_def)

lemma local_deployment_simps [simp]:
  "da_health local_deployment = getO lt_health" "da_validate local_deployment p = retO (lt_validate p)" "da_backup local_deployment = lt_backup"
  "da_dry_run local_deployment p = retO (True, [])" "da_apply local_deployment = lt_apply"
  "da_restart local_deployment = retO (True, ''local safe runtime has no restart command'')"
  "da_verify local_deployment p = (\<lambda>f. (lt_verify p f, f))" "da_rollback local_deployment = lt_rollback"
  by (simp_all add: local_deployment_def)

text \<open>The target in memory shows its strategy and version; the checksum is not brought back.\<close>

definition ft_shown :: "fake_target \<Rightarrow> string \<times> string" where
  "ft_shown f = (as_ref (ft_active f), as_version (ft_active f))"

definition ft_saved :: "string \<times> string \<Rightarrow> deployment_backup \<Rightarrow> fake_target \<Rightarrow> bool" where
  "ft_saved v b f \<longleftrightarrow> v = (db_strategy_ref b, db_strategy_version b)"

interpretation in_memory: deployment_target fake_deployment ft_shown ft_saved "\<lambda>_. True" "\<lambda>_ _. False"
  by unfold_locales
    (auto simp: ft_backup_def ft_shown_def ft_saved_def run_invariant_def ft_rollback_def ft_dry_run_def ft_apply_def Let_def split: if_splits)

text \<open>
  The file target shows the bytes of its active file; no file counts as the empty object. It is quiet when
  no write will be disturbed; a write that breaks off leaves the beginning of the package's bytes.
\<close>

definition lt_shown :: "local_target \<Rightarrow> string" where
  "lt_shown f = (case lt_file (lt_active_path f) f of None \<Rightarrow> ''{}'' | Some c \<Rightarrow> c)"

definition lt_saved :: "string \<Rightarrow> deployment_backup \<Rightarrow> local_target \<Rightarrow> bool" where
  "lt_saved v b f \<longleftrightarrow> lt_present f \<and> db_restore_ref b \<noteq> lt_active_path f \<and> lt_file (db_restore_ref b) f = Some v"

definition lt_quiet :: "local_target \<Rightarrow> bool" where
  "lt_quiet f \<longleftrightarrow> (\<forall>x \<in> set (lt_faults f). x = None)"

definition lt_torn :: "handoff_package \<Rightarrow> string \<Rightarrow> bool" where
  "lt_torn p v \<longleftrightarrow> (\<exists>n. v = take n (package_bytes p))"

lemma backup_path: "lt_path f (deployment_backup_id plan) \<noteq> lt_active_path f"
  by (simp add: lt_path_def lt_active_path_def deployment_backup_id_def)

lemma lt_put_simps [simp]:
  "lt_path (lt_put k c f) name = lt_path f name" "lt_active_path (lt_put k c f) = lt_active_path f" "lt_present (lt_put k c f) = lt_present f"
  "lt_path (f\<lparr>lt_faults := fs\<rparr>) name = lt_path f name" "lt_active_path (f\<lparr>lt_faults := fs\<rparr>) = lt_active_path f"
  "lt_file k (f\<lparr>lt_faults := fs\<rparr>) = lt_file k f" "lt_faults (lt_put k c f) = tl (lt_faults f)"
  "lt_file k' (lt_put k c f) = (if lt_present f \<and> k' = k then Some c else lt_file k' f)"
  by (simp_all add: lt_path_def lt_active_path_def lt_put_def lt_file_def)

lemma quiet_next: "lt_quiet f \<Longrightarrow> next_fault f = None"
  by (cases "lt_faults f") (auto simp: lt_quiet_def next_fault_def)

lemma quiet_later: "lt_quiet f \<Longrightarrow> lt_quiet (lt_put k c f)"
  by (cases "lt_faults f") (auto simp: lt_quiet_def)

lemma lt_write_cases:
  assumes "lt_write path c f = (r, f')"
  obtains (gone) e where "\<not> lt_present f" "f' = f" "r = Inl e"
    | (written) "lt_present f" "f' = lt_put path c f" "r = Inr ()"
    | (refused) e where "lt_present f" "\<not> lt_quiet f" "f' = f\<lparr>lt_faults := tl (lt_faults f)\<rparr>" "r = Inl e"
    | (cut) e n where "lt_present f" "\<not> lt_quiet f" "f' = lt_put path (take n c) f" "r = Inl e"
  using assms quiet_next [of f] unfolding lt_write_def
  by (cases "lt_present f"; cases "next_fault f") (auto split: write_fault.splits)

lemma lt_backup_cases:
  assumes "lt_backup p (deployment_backup_id plan) ts f = (r, f')"
  shows "lt_shown f' = lt_shown f \<and> (lt_quiet f \<longrightarrow> lt_quiet f') \<and> (\<forall>b. r = Inr b \<longrightarrow> lt_saved (lt_shown f) b f')"
proof -
  let ?path = "lt_path f (deployment_backup_id plan)"
  obtain u g where w: "lt_write ?path (lt_shown f) f = (u, g)" by (cases "lt_write ?path (lt_shown f) f")
  have "f' = g \<and> (\<forall>b. r = Inr b \<longrightarrow> u = Inr () \<and> db_restore_ref b = ?path)"
    using assms w backup_path [of f plan] unfolding lt_backup_def
    by (auto simp: bindO_apply thenO_apply lt_copy_def lt_shown_def split: option.splits sum.splits prod.splits)
  with w backup_path [of f plan] show ?thesis
    by (auto elim!: lt_write_cases simp: lt_saved_def lt_shown_def quiet_later)
qed

lemma saved_kept_write: "lt_write path c f = (r, f') \<Longrightarrow> path = lt_active_path f \<Longrightarrow> lt_saved v b f \<Longrightarrow> lt_saved v b f'"
  by (erule lt_write_cases) (auto simp: lt_saved_def)

lemma lt_rollback_write:
  "lt_rollback b f = (case lt_file (db_restore_ref b) f of None \<Rightarrow> (Inr (False, ''backup file missing''), f)
     | Some c \<Rightarrow> (case lt_copy (db_restore_ref b) (lt_active_path f) c f of
         (Inl e, f') \<Rightarrow> (Inl e, f') | (Inr u, f') \<Rightarrow> (Inr (True, ''local safe rollback restored backup''), f')))"
  by (simp add: lt_rollback_def bindO_apply thenO_apply retO_def split: option.splits prod.splits sum.splits)

lemma saved_rollback:
  "lt_saved v b f \<Longrightarrow> lt_rollback b f = (case lt_write (lt_active_path f) v f of
     (Inl e, f') \<Rightarrow> (Inl e, f') | (Inr u, f') \<Rightarrow> (Inr (True, ''local safe rollback restored backup''), f'))"
  by (simp add: lt_rollback_write lt_saved_def lt_copy_def)

lemma lt_apply_write:
  "lt_apply p f = (case lt_write (lt_active_path f) (package_bytes p) f of
     (Inl e, f') \<Rightarrow> (Inl e, f') | (Inr u, f') \<Rightarrow> (Inr (True, ''local safe package applied''), f'))"
  by (simp add: lt_apply_def bindO_apply thenO_apply retO_def split: prod.splits sum.splits)

interpretation on_files: deployment_target local_deployment lt_shown lt_saved lt_quiet lt_torn
proof
  fix p plan ts d b d'
  assume "da_backup local_deployment p (deployment_backup_id plan) ts d = (Inr b, d')"
  from lt_backup_cases [OF this [unfolded local_deployment_simps]] show "lt_saved (lt_shown d) b d'" by simp
next
  fix p plan ts d r d'
  assume "da_backup local_deployment p (deployment_backup_id plan) ts d = (r, d')"
  from lt_backup_cases [OF this [unfolded local_deployment_simps]] show "lt_shown d' = lt_shown d \<and> (lt_quiet d \<longrightarrow> lt_quiet d')" by simp
next
  fix p v
  have "lt_saved v b (snd (lt_apply p d))" if "lt_saved v b d" for b d
    using that saved_kept_write [of "lt_active_path d" "package_bytes p" d] by (simp add: lt_apply_write split: prod.splits sum.splits)
  moreover have "lt_saved v b (snd (lt_rollback b d))" if "lt_saved v b d" for b d
    using that saved_kept_write [of "lt_active_path d" v d] by (simp add: saved_rollback split: prod.splits sum.splits)
  ultimately show "run_invariant local_deployment p (lt_saved v)" by (simp add: run_invariant_def)
next
  fix v b d m d'
  assume "lt_saved v b d" "da_rollback local_deployment b d = (Inr (True, m), d')"
  then show "lt_shown d' = v"
    by (auto simp: saved_rollback lt_shown_def elim!: lt_write_cases split: prod.splits sum.splits)
next
  fix p d r and d' :: local_target
  show "da_dry_run local_deployment p d = (r, d') \<Longrightarrow> lt_shown d' = lt_shown d \<and> (lt_quiet d \<longrightarrow> lt_quiet d')" by simp
next
  fix p d r d'
  assume a: "da_apply local_deployment p d = (r, d')" "\<And>m. r \<noteq> Inr (True, m)"
  obtain u g where w: "lt_write (lt_active_path d) (package_bytes p) d = (u, g)"
    by (cases "lt_write (lt_active_path d) (package_bytes p) d")
  then have "d' = g \<and> u \<noteq> Inr ()" using a by (auto simp: lt_apply_write split: sum.splits)
  with w show "lt_shown d' = lt_shown d \<and> (lt_quiet d \<longrightarrow> lt_quiet d') \<or> \<not> lt_quiet d \<and> lt_torn p (lt_shown d')"
    by (auto elim!: lt_write_cases simp: lt_shown_def lt_torn_def)
qed

section \<open>Properties\<close>

lemma add_request_runs: "dx_add_request q a = Inr b \<Longrightarrow> dx_runs b = dx_runs a"
  by (cases a) (auto simp: dx_add_request_def bindR_Inr_iff)

text \<open>
  C29: which plans pass. A plan call that returns has stored its plan, and the plan has passed the
  preflight exactly when the package is approved, its latest decision is an approval of its very
  checksum, the active champion is the one the package was made for, the target is healthy and accepts
  the package, and the target is the one of the policy. Every other plan is blocked.
\<close>

theorem deployment_plan_passes_iff:
  "case deployment_plan_op ad pol q s of
     (Inr plan, t) \<Rightarrow> dx_get_plan (''deployment-plan:'' @ dq_request_id q) (dx_repo t) = Inr plan \<and>
       (\<exists>p. hr_get (dq_package_id q) (ho_repo s) = Inr p \<and> dp_checksum plan = hm_checksum (hp_manifest p) \<and>
         dp_status plan = (if preflight_passes ad pol p (dq_target_id q) s then DS_PREFLIGHT_PASSED else DS_BLOCKED))
   | (Inl e, t) \<Rightarrow> ho_repo t = ho_repo s \<and> dx_runs (dx_repo t) = dx_runs (dx_repo s)"
proof (cases "deployment_plan_op ad pol q s")
  case (Pair res t)
  show ?thesis
  proof (cases res)
    case (Inl e)
    have "deployment_plan_raised ad pol q s t" by (rule wp_Inl [OF deployment_plan_wp]) (simp add: Pair Inl)
    then show ?thesis
      unfolding Pair Inl deployment_plan_raised_def deployment_plan_effect_def
      by (auto simp: same_sources_def dx_add_plan_def add_request_runs)
  next
    case (Inr plan)
    have "deployment_plan_effect ad pol q s plan t" by (rule wp_Inr [OF deployment_plan_wp]) (simp add: Pair Inr)
    then obtain p repo st why where e: "hr_get (dq_package_id q) (ho_repo s) = Inr p" "plan = deployment_plan_for pol q p st why"
        "st = DS_PREFLIGHT_PASSED \<longleftrightarrow> preflight_passes ad pol p (dq_target_id q) s" "st = DS_PREFLIGHT_PASSED \<or> st = DS_BLOCKED"
        "dx_repo t = dx_add_plan plan repo"
      unfolding deployment_plan_effect_def by blast
    have get: "dx_get_plan (dp_plan_id plan) (dx_repo t) = Inr plan" by (simp add: e(5) get_plan_add_plan)
    have "dp_status plan = (if preflight_passes ad pol p (dq_target_id q) s then DS_PREFLIGHT_PASSED else DS_BLOCKED)"
      "dp_checksum plan = hm_checksum (hp_manifest p)" "dp_plan_id plan = ''deployment-plan:'' @ dq_request_id q"
      using e(3,4) by (auto simp: e(2) deployment_plan_for_def)
    then show ?thesis using e(1) get unfolding Pair Inr by simp
  qed
qed

text \<open>
  C20: the gate of a deployment. Whatever calls of the handoff and deployment services were made before,
  in any order and on any target, a run call leaves the target alone unless its plan has passed the
  preflight, no stored run of that package on that target has succeeded, and the package as stored now is
  approved, has a correct checksum and is the very package the plan was made for. A success counts only
  while its run is stored: a refused repetition replaces it (\<open>duplicate_guard_wears_off\<close>), and the target
  can then be reached again.
\<close>

theorem deployment_only_approved:
  "dx_target (snd (deployment_run_op ad plan_id actor ts (fold (deployment_step ad) cs (deploy_env_init es ms d)))) =
     dx_target (fold (deployment_step ad) cs (deploy_env_init es ms d)) \<or>
   (\<exists>plan p. dx_get_plan plan_id (dx_repo (fold (deployment_step ad) cs (deploy_env_init es ms d))) = Inr plan \<and>
     hr_get (dp_package_id plan) (ho_repo (fold (deployment_step ad) cs (deploy_env_init es ms d))) = Inr p \<and>
     dp_status plan = DS_PREFLIGHT_PASSED \<and> hp_status p = HS_APPROVED \<and> given (hp_approved_by p) \<and>
     checksum_of (payload_without_checksum p) = dp_checksum plan \<and>
     \<not> has_successful_deployment (dp_package_id plan) (dp_target_id plan)
       (dx_repo (fold (deployment_step ad) cs (deploy_env_init es ms d))))"
proof -
  let ?s = "fold (deployment_step ad) cs (deploy_env_init es ms d)"
  have ok: "deploy_ok ?s" by (rule deployment_steps_ok)
  have "wp (deployment_run_op ad plan_id actor ts) (\<lambda>_ t. dx_target t = dx_target ?s \<or> deployable plan_id ?s)
      (\<lambda>_ t. dx_target t = dx_target ?s \<or> deployable plan_id ?s) ?s"
    by (rule wp_mono [OF deployment_run_wp [of ad ts ?s "\<lambda>_ _. True"]])
      (auto simp: run_invariant_def deployment_run_effect_def deployable_def split: if_splits)
  from wp_snd [OF this] consider "dx_target (snd (deployment_run_op ad plan_id actor ts ?s)) = dx_target ?s" | "deployable plan_id ?s" by blast
  then show ?thesis
  proof cases
    case 2
    then obtain plan p where p: "dx_get_plan plan_id (dx_repo ?s) = Inr plan" "hr_get (dp_package_id plan) (ho_repo ?s) = Inr p"
        "dp_status plan \<noteq> DS_BLOCKED" "\<not> has_successful_deployment (dp_package_id plan) (dp_target_id plan) (dx_repo ?s)"
      by (auto simp: deployable_def)
    have h: "handoff_ok (ho_repo ?s)" and "passed_plan_ok plan (ho_repo ?s)" using ok p(1) by (auto simp: deploy_ok_def)
    then have a: "dp_status plan = DS_PREFLIGHT_PASSED" "hp_status p = HS_APPROVED" "dp_checksum plan = hm_checksum (hp_manifest p)"
      using p(2,3) by (auto simp: passed_plan_ok_def hr_get_ok)
    have "package_ok p" using h p(2) by (auto simp: hr_get_ok handoff_ok_def)
    then have "checksum_of (payload_without_checksum p) = dp_checksum plan" "given (hp_approved_by p)"
      using a by (auto simp: package_ok_def mk_package_def bindR_Inr_iff)
    then show ?thesis using p a by blast
  qed simp
qed

text \<open>
  C21: what the status of a run says about the target, for every adapter. A run that returns is stored
  under its id. It succeeded only if backup, dry run, application, restart, health check and
  verification all succeeded in that order, and then the target is what they left. It failed only if no
  application succeeded. It was rolled back, or the rollback failed, only after an application had
  succeeded, and the last operation on the target was the rollback that says so.
\<close>

theorem deployment_run_status:
  "case deployment_run_op ad plan_id actor ts s of
     (Inr r, t) \<Rightarrow> dx_get_run (dr_run_id r) (dx_repo t) = Inr r \<and>
       (\<exists>plan p. dx_get_plan plan_id (dx_repo s) = Inr plan \<and> hr_get (dp_package_id plan) (ho_repo s) = Inr p \<and>
         (case dr_status r of
            DS_BLOCKED \<Rightarrow> dx_target t = dx_target s
          | DS_SUCCEEDED \<Rightarrow> \<exists>b d. applied_target ad plan p ts (dx_target s) = Some (b, d) \<and> checked_target ad p d = Some (dx_target t)
          | DS_FAILED \<Rightarrow> unapplied ad plan p (dx_target s) (dx_target t)
          | DS_ROLLED_BACK \<Rightarrow> \<exists>b d y m. applied_target ad plan p ts (dx_target s) = Some (b, d) \<and> dr_backup_id r = Some (db_backup_id b) \<and>
              da_rollback ad b y = (Inr (True, m), dx_target t)
          | DS_ROLLBACK_FAILED \<Rightarrow> \<exists>b d y m. applied_target ad plan p ts (dx_target s) = Some (b, d) \<and> dr_backup_id r = Some (db_backup_id b) \<and>
              da_rollback ad b y = (Inr (False, m), dx_target t)
          | _ \<Rightarrow> False))
   | (Inl e, t) \<Rightarrow> dx_target t = dx_target s \<or> deployable plan_id s"
proof -
  have w: "wp (deployment_run_op ad plan_id actor ts) (deployment_run_effect ad (\<lambda>_ _. True) plan_id ts s)
      (\<lambda>_ t. dx_target t = dx_target s \<or> deployable plan_id s) s"
    by (rule deployment_run_wp) (auto simp: run_invariant_def)
  have stored: "dx_get_run (dr_run_id r) (dx_repo t) = Inr r" if "stored_run plan r t" for plan r and t :: "'a deploy_env"
    using that by (simp add: stored_run_def dx_get_run_def)
  show ?thesis
  proof (cases "deployment_run_op ad plan_id actor ts s")
    case (Pair res t)
    show ?thesis
    proof (cases res)
      case (Inl e) then show ?thesis using wp_Inl [OF w] Pair by simp
    next
      case (Inr r)
      have "deployment_run_effect ad (\<lambda>_ _. True) plan_id ts s r t" by (rule wp_Inr [OF w]) (simp add: Pair Inr)
      then show ?thesis
        unfolding Pair Inr deployment_run_effect_def run_outcome_def rolled_run_def by (auto simp: stored split: if_splits) blast+
    qed
  qed
qed

lemma local_apply_from:
  "apply_from local_deployment p d = Some d' \<Longrightarrow> lt_file (lt_active_path d') d' = Some (package_bytes p)"
  by (auto simp: apply_from_def lt_apply_write elim!: lt_write_cases split: prod.splits sum.splits bool.splits)

lemma local_checked: "checked_target local_deployment p d = Some d' \<Longrightarrow> d' = d"
  by (auto simp: checked_target_def split: sum.splits prod.splits bool.splits)

text \<open>
  C30: the file target, whatever happens to its writes. A successful run leaves exactly the bytes of the
  deployed package in the active file. A run that was rolled back leaves the bytes of before (those of the
  empty object where there was no file), and a rollback that starts never reports a failure: it restores
  them or raises. A failed run leaves the bytes of before too, unless a write was disturbed: then the
  active file can hold the beginning of the package instead.
\<close>

theorem local_deployment_outcome:
  "case deployment_run_op local_deployment plan_id actor ts s of
     (Inr r, t) \<Rightarrow> (case dr_status r of
        DS_SUCCEEDED \<Rightarrow> \<exists>plan p. dx_get_plan plan_id (dx_repo s) = Inr plan \<and> hr_get (dp_package_id plan) (ho_repo s) = Inr p \<and>
          lt_file (lt_active_path (dx_target t)) (dx_target t) = Some (package_bytes p)
      | DS_ROLLED_BACK \<Rightarrow> lt_shown (dx_target t) = lt_shown (dx_target s)
      | DS_FAILED \<Rightarrow> lt_shown (dx_target t) = lt_shown (dx_target s) \<or> \<not> lt_quiet (dx_target s) \<and>
          (\<exists>plan p n. dx_get_plan plan_id (dx_repo s) = Inr plan \<and> hr_get (dp_package_id plan) (ho_repo s) = Inr p \<and>
             lt_shown (dx_target t) = take n (package_bytes p))
      | DS_BLOCKED \<Rightarrow> dx_target t = dx_target s
      | _ \<Rightarrow> False)
   | (Inl e, t) \<Rightarrow> dx_target t = dx_target s \<or> deployable plan_id s"
proof -
  have ok: "\<exists>p. hr_get k repo = Inr p \<and> lt_file (lt_active_path d') d' = Some (package_bytes p)"
    if "hr_get k repo = Inr p" "applied_target local_deployment plan p ts d0 = Some (b, d)" "checked_target local_deployment p d = Some d'"
    for k repo p plan d0 b d d'
    using that local_apply_from local_checked [OF that(3)] by (auto simp: applied_target_def split: prod.splits sum.splits)
  have "\<not> (lt_saved v b y \<and> lt_rollback b y = (Inr (False, m), d))" for v b y m d
    by (auto simp: saved_rollback split: prod.splits sum.splits)
  then show ?thesis
    using on_files.run_restores [of plan_id actor ts s] ok unfolding wp_def lt_torn_def
    by (auto split: prod.splits sum.splits deployment_status.splits)
qed

text \<open>
  The target in memory. A successful run shows the deployed package's strategy and checksum, a run
  that failed or was rolled back shows the strategy and version of before.
\<close>

theorem fake_deployment_outcome:
  "case deployment_run_op fake_deployment plan_id actor ts s of
     (Inr r, t) \<Rightarrow> (case dr_status r of
        DS_SUCCEEDED \<Rightarrow> \<exists>plan p. dx_get_plan plan_id (dx_repo s) = Inr plan \<and> hr_get (dp_package_id plan) (ho_repo s) = Inr p \<and>
          as_checksum (ft_active (dx_target t)) = hm_checksum (hp_manifest p)
      | DS_FAILED \<Rightarrow> ft_shown (dx_target t) = ft_shown (dx_target s)
      | DS_ROLLED_BACK \<Rightarrow> ft_shown (dx_target t) = ft_shown (dx_target s)
      | DS_BLOCKED \<Rightarrow> dx_target t = dx_target s
      | st \<Rightarrow> st = DS_ROLLBACK_FAILED)
   | (Inl e, t) \<Rightarrow> dx_target t = dx_target s \<or> deployable plan_id s"
proof -
  have "as_checksum (ft_active d') = hm_checksum (hp_manifest p)" if "checked_target fake_deployment p d = Some d'" for p d d'
    using that by (auto simp: checked_target_def ft_verify_def split: sum.splits prod.splits bool.splits if_splits)
  then show ?thesis
    using in_memory.run_restores [of plan_id actor ts s] unfolding wp_def
    by (auto split: prod.splits sum.splits deployment_status.splits)
qed

section \<open>Observed behaviour\<close>

text \<open>
  A run refused as a duplicate is stored under the id of the run it duplicates and replaces it. The
  success is forgotten, the guard no longer fires, and the next run of the same plan deploys again.
\<close>

lemma duplicate_guard_wears_off:
  assumes "dx_get_plan plan_id (dx_repo s) = Inr plan" and "hr_get (dp_package_id plan) (ho_repo s) = Inr p"
    and "dp_status plan = DS_PREFLIGHT_PASSED" and "dx_runs (dx_repo s) = [(deployment_run_id plan, run)]" and "dr_status run = DS_SUCCEEDED"
    and "dr_package_id run = dp_package_id plan" and "dr_target_id run = dp_target_id plan" and "env_events s = None"
  shows "dx_target (snd (deployment_run_op ad plan_id actor ts s)) = dx_target s \<and>
    deployable plan_id (snd (deployment_run_op ad plan_id actor ts s))"
proof -
  have dup: "has_successful_deployment (dp_package_id plan) (dp_target_id plan) (dx_repo s)"
    using assms(4-7) by (simp add: has_successful_deployment_def t_rows_def)
  have "wp (deployment_run_op ad plan_id actor ts) (\<lambda>_ t. dx_target t = dx_target s \<and> deployable plan_id t)
      (\<lambda>_ t. dx_target t = dx_target s \<and> deployable plan_id t) s"
    using assms dup unfolding deployment_run_op_def
    by (simp add: deploy_wp wp_put_run dx_record_def wp_record_once)
      (simp add: deployable_def dx_get_plan_def dx_add_run_def has_successful_deployment_def t_rows_def t_replace_def run_of_deployment_def)
  from wp_snd [OF this] show ?thesis .
qed

text \<open>
  Bytes that were written whole verify: the checksum that is read back is the one of the package.
\<close>

lemma written_package_verifies:
  assumes "lt_file (lt_active_path f) f = Some (package_bytes p)" and "jreadable (JObj (package_to_json p))"
  shows "lt_verify p f = Inr (True, ''local safe active checksum verified'')"
proof -
  have "file_json (package_bytes p) = Inr (JObj (ocanon (package_to_json p)))"
    using dumps_read_back [OF assms(2)] by (simp add: file_json_def package_bytes_def ofOption_def)
  then show ?thesis
    using assms(1) by (simp add: lt_verify_def lt_active_def strategy_of_file_def get_or_def package_to_json_def manifest_json_def)
qed

text \<open>
  A write of the package that breaks off is not rolled back, although a backup was made: the run ends as
  failed, as if nothing had been changed, and the active file holds the beginning of the package.
\<close>

lemma cut_write_not_rolled_back:
  assumes "dx_get_plan plan_id (dx_repo s) = Inr plan" and "hr_get (dp_package_id plan) (ho_repo s) = Inr p"
    and "dp_status plan = DS_PREFLIGHT_PASSED" and "dx_runs (dx_repo s) = []" and "env_events s = None"
    and "dx_target s = local_target_init dir [None, Some (WF_Cut n)]"
  shows "\<exists>r t. deployment_run_op local_deployment plan_id actor ts s = (Inr r, t) \<and> dr_status r = DS_FAILED \<and>
    dr_backup_id r = Some (deployment_backup_id plan) \<and> lt_file (lt_active_path (dx_target t)) (dx_target t) = Some (take n (package_bytes p))"
proof -
  let ?f = "local_target_init dir [None, Some (WF_Cut n)]"
  have f: "lt_present ?f" "lt_file k ?f = None" "lt_faults ?f = [None, Some (WF_Cut n)]" for k
    by (simp_all add: local_target_init_def lt_file_def t_get_def)
  have none: "lt_active_path ?f \<noteq> lt_path ?f (deployment_backup_id plan)" using backup_path [of ?f plan] by metis
  let ?g = "lt_put (lt_path ?f (deployment_backup_id plan)) ''{}'' ?f"
  have b: "lt_backup p (deployment_backup_id plan) ts ?f = (Inr \<lparr>db_backup_id = deployment_backup_id plan, db_package_id = hp_package_id p,
      db_strategy_ref = ''none'', db_strategy_version = ''none'', db_restore_ref = lt_path ?f (deployment_backup_id plan), db_created_at = ts\<rparr>, ?g)"
    using f none by (simp add: lt_backup_def bindO_apply thenO_apply lt_write_def next_fault_def lt_active_def)
  have a: "lt_apply p ?g = (Inl (OtherError ''OSError'' (lt_active_path ?f)), lt_put (lt_active_path ?f) (take n (package_bytes p)) ?g)"
    using f by (simp add: lt_apply_write lt_write_def next_fault_def)
  have "wp (deployment_run_op local_deployment plan_id actor ts) (\<lambda>r t. dr_status r = DS_FAILED \<and> dr_backup_id r = Some (deployment_backup_id plan) \<and>
      lt_file (lt_active_path (dx_target t)) (dx_target t) = Some (take n (package_bytes p))) (\<lambda>_ _. False) s"
    using assms f(1) none unfolding deployment_run_op_def deploy_attempt_def deploy_backup_def deploy_apply_def dx_fail_def
    by (simp add: deploy_wp wp_catch wp_targetO wp_put_run b a has_successful_deployment_def t_rows_def dx_record_def wp_record_once)
  then show ?thesis by (auto simp: wp_def split: prod.splits sum.splits)
qed

text \<open>
  Rolling back the first deployment of the file target leaves an active file with an empty object, so
  the strategy it reports is unknown and no longer none.
\<close>

lemma first_rollback_is_unknown:
  "lt_active (local_target_init dir fs) = Inr \<lparr>as_ref = ''none'', as_version = ''none'', as_checksum = []\<rparr>"
  "lt_file (lt_active_path f) f = Some (lt_shown (local_target_init dir fs)) \<Longrightarrow>
    lt_active f = Inr \<lparr>as_ref = ''unknown'', as_version = ''unknown'', as_checksum = []\<rparr>"
proof -
  have "file_json ''{}'' = Inr (JObj [])" by code_simp
  then show "lt_active (local_target_init dir fs) = Inr \<lparr>as_ref = ''none'', as_version = ''none'', as_checksum = []\<rparr>"
    "lt_file (lt_active_path f) f = Some (lt_shown (local_target_init dir fs)) \<Longrightarrow>
    lt_active f = Inr \<lparr>as_ref = ''unknown'', as_version = ''unknown'', as_checksum = []\<rparr>"
    by (simp_all add: lt_active_def lt_shown_def local_target_init_def lt_file_def t_get_def strategy_of_file_def get_or_def)
qed

text \<open>
  A run never reads the champion registry: with any other registry it does the same, so a plan that
  passed its preflight is deployed even when the champion has changed since.
\<close>

definition blind :: "('s \<Rightarrow> 's) \<Rightarrow> ('e, 's, 'a) eopr \<Rightarrow> bool" where
  "blind g m \<longleftrightarrow> (\<forall>s. m (g s) = apsnd g (m s))"

lemma blind_intros:
  "blind g (retO x)" "blind g (raiseO e)"
  "blind g m \<Longrightarrow> (\<And>x. blind g (f x)) \<Longrightarrow> blind g (bindO m f)"
  "blind g m \<Longrightarrow> blind g n \<Longrightarrow> blind g (thenO m n)"
  "blind g m \<Longrightarrow> (\<And>e. blind g (h e)) \<Longrightarrow> blind g (catchO m h)"
  by (auto simp: blind_def bindO_apply thenO_apply catchO_apply split: prod.splits sum.splits)

definition with_registry :: "registry_repo \<Rightarrow> 'd deploy_env \<Rightarrow> 'd deploy_env" where
  "with_registry reg s = s\<lparr>ho_registry := reg\<rparr>"

lemma blind_basic:
  "blind (with_registry reg) (targetO m)" "blind (with_registry reg) (dx_write w)" "blind (with_registry reg) (dx_increment n)"
  "(\<And>s. f (with_registry reg s) = f s) \<Longrightarrow> blind (with_registry reg) (dx_read f)"
  "(\<And>s. g (with_registry reg s) = g s) \<Longrightarrow> blind (with_registry reg) (getO g)"
  by (auto simp: blind_def with_registry_def targetO_def dx_write_def dx_increment_def increment_def dx_read_def split: prod.splits sum.splits)

lemma blind_record: "blind (with_registry reg) (dx_record ty p a ts o')"
  unfolding dx_record_def record_once_def
  by (intro blind_intros) (auto simp: blind_def with_registry_def record_event_def split: option.splits sum.splits pyerr.splits)

lemma run_ignores_champion:
  "deployment_run_op ad plan_id actor ts (with_registry reg s) = apsnd (with_registry reg) (deployment_run_op ad plan_id actor ts s)"
proof -
  note b = blind_intros blind_basic(1-3) blind_record
  have put: "blind (with_registry reg) (dx_put_run plan st bid msg ts)" for plan st bid msg
    unfolding dx_put_run_def by (intro b)
  have roll: "blind (with_registry reg) (dx_rollback ad plan x actor ts)" for plan x
    unfolding dx_rollback_def by (auto intro!: b put)
  have fail: "blind (with_registry reg) (dx_fail ad plan x msg actor ts m)" for plan x msg m
    unfolding dx_fail_def by (cases x) (auto intro!: b put roll)
  have app: "blind (with_registry reg) (deploy_apply ad plan p actor ts x)" for plan p x
    unfolding deploy_apply_def by (auto intro!: b fail)
  have fin: "blind (with_registry reg) (deploy_finish ad plan p actor ts x ok msg)" for plan p x ok msg
    unfolding deploy_finish_def by (auto intro!: b fail put)
  have att: "blind (with_registry reg) (deploy_attempt ad plan p actor ts)" for plan p
    unfolding deploy_attempt_def locals_def deploy_backup_def by (auto intro!: b app fin split: sum.split)
  have "blind (with_registry reg) (deployment_run_op ad plan_id actor ts)"
    unfolding deployment_run_op_def by (auto intro!: b blind_basic(4,5) put fail att simp: with_registry_def)
  then show ?thesis by (simp add: blind_def)
qed

end
