(* ===== verification/Pipeline.thy ===== *)
theory Pipeline
  imports DeploymentRuns
begin

text \<open>
  \<open>gaon/runtime/v5_pipeline.py\<close>: the orchestrator that runs a strategy through every service of the
  chain, from its backtest to its deployment, with the two approvals on the way. Requests, runs and
  their stored form, the repository, the phases in the order of the code, the failure handling.
\<close>

section \<open>Data\<close>

datatype pipeline_stage = PS_RESEARCH | PS_BACKTEST | PS_VALIDATION | PS_CHAMPION_EVALUATION | PS_PROMOTION_APPROVAL
  | PS_CHAMPION_ACTIVATION | PS_PAPER_FORWARD_TEST | PS_PAPER_REVALIDATION | PS_HANDOFF_PACKAGE | PS_DEPLOYMENT_APPROVAL
  | PS_DEPLOYMENT | PS_VERIFICATION | PS_COMPLETED

definition stage_order :: "pipeline_stage list" where
  "stage_order = [PS_RESEARCH, PS_BACKTEST, PS_VALIDATION, PS_CHAMPION_EVALUATION, PS_PROMOTION_APPROVAL, PS_CHAMPION_ACTIVATION,
     PS_PAPER_FORWARD_TEST, PS_PAPER_REVALIDATION, PS_HANDOFF_PACKAGE, PS_DEPLOYMENT_APPROVAL, PS_DEPLOYMENT, PS_VERIFICATION, PS_COMPLETED]"

fun stage_value :: "pipeline_stage \<Rightarrow> string" where
  "stage_value PS_RESEARCH = ''research''"
| "stage_value PS_BACKTEST = ''backtest''"
| "stage_value PS_VALIDATION = ''validation''"
| "stage_value PS_CHAMPION_EVALUATION = ''champion_evaluation''"
| "stage_value PS_PROMOTION_APPROVAL = ''promotion_approval''"
| "stage_value PS_CHAMPION_ACTIVATION = ''champion_activation''"
| "stage_value PS_PAPER_FORWARD_TEST = ''paper_forward_test''"
| "stage_value PS_PAPER_REVALIDATION = ''paper_revalidation''"
| "stage_value PS_HANDOFF_PACKAGE = ''handoff_package''"
| "stage_value PS_DEPLOYMENT_APPROVAL = ''deployment_approval''"
| "stage_value PS_DEPLOYMENT = ''deployment''"
| "stage_value PS_VERIFICATION = ''verification''"
| "stage_value PS_COMPLETED = ''completed''"

definition stage_of :: "string \<Rightarrow> pipeline_stage res" where
  "stage_of s = ofOption (ValueError ''not a valid GaonV5PipelineStage'') (find (\<lambda>m. stage_value m = s) stage_order)"

datatype pipeline_status = PL_CREATED | PL_RUNNING | PL_WAITING | PL_BLOCKED | PL_FAILED | PL_COMPLETED

fun pipeline_status_value :: "pipeline_status \<Rightarrow> string" where
  "pipeline_status_value PL_CREATED = ''created''"
| "pipeline_status_value PL_RUNNING = ''running''"
| "pipeline_status_value PL_WAITING = ''waiting_for_approval''"
| "pipeline_status_value PL_BLOCKED = ''blocked''"
| "pipeline_status_value PL_FAILED = ''failed''"
| "pipeline_status_value PL_COMPLETED = ''completed''"

definition pipeline_status_of :: "string \<Rightarrow> pipeline_status res" where
  "pipeline_status_of s = ofOption (ValueError ''not a valid GaonV5PipelineStatus'')
     (find (\<lambda>m. pipeline_status_value m = s) [PL_CREATED, PL_RUNNING, PL_WAITING, PL_BLOCKED, PL_FAILED, PL_COMPLETED])"

lemma pipeline_enums_roundtrip [simp]:
  "stage_of (stage_value st) = Inr st" "pipeline_status_of (pipeline_status_value x) = Inr x"
  subgoal by (cases st) (simp_all add: stage_of_def stage_order_def)
  subgoal by (cases x) (simp_all add: pipeline_status_of_def)
  done

record pipeline_request =
  gq_run_id :: string
  gq_correlation_id :: string
  gq_actor_ref :: string
  gq_requested_at :: string
  gq_approve_promotion :: bool
  gq_approve_deployment :: bool
  gq_scenario :: string

definition mk_pipeline_request :: "pipeline_request \<Rightarrow> pipeline_request res" where
  "mk_pipeline_request q =
     bindR (guardR (\<not> (gq_run_id q = [] \<or> gq_correlation_id q = [] \<or> gq_actor_ref q = []))
       (ValueError ''v5 pipeline request requires run, correlation, and actor'')) (\<lambda>_.
     bindR (validate_utc (gq_requested_at q)) (\<lambda>_. Inr q))"

record pipeline_run =
  pn_run_id :: string
  pn_correlation_id :: string
  pn_status :: pipeline_status
  pn_stage :: pipeline_stage
  pn_completed :: "pipeline_stage list"
  pn_refs :: "(string \<times> string) list"
  pn_failure :: "pipeline_stage option"
  pn_waiting :: "pipeline_stage option"
  pn_message :: string
  pn_created_at :: string
  pn_updated_at :: string

definition refs_json :: "(string \<times> string) list \<Rightarrow> json" where
  "refs_json refs = JObj (map (\<lambda>(k, v). (k, JStr v)) refs)"

definition opt_stage_json :: "pipeline_stage option \<Rightarrow> json" where
  "opt_stage_json x = of_opt (map_option stage_value x)"

definition pipeline_run_json :: "pipeline_run \<Rightarrow> obj" where
  "pipeline_run_json r = [(''run_id'', JStr (pn_run_id r)), (''correlation_id'', JStr (pn_correlation_id r)),
     (''status'', JStr (pipeline_status_value (pn_status r))), (''current_stage'', JStr (stage_value (pn_stage r))),
     (''completed_stages'', jstrs (map stage_value (pn_completed r))), (''source_refs'', refs_json (pn_refs r)),
     (''failure_stage'', opt_stage_json (pn_failure r)), (''approval_waiting_stage'', opt_stage_json (pn_waiting r)),
     (''message'', JStr (pn_message r)), (''created_at'', JStr (pn_created_at r)), (''updated_at'', JStr (pn_updated_at r))]"

definition opt_stage_of :: "json \<Rightarrow> pipeline_stage option res" where
  "opt_stage_of j = (if jtruthy j then bindR (stage_of (py_str j)) (\<lambda>x. Inr (Some x)) else Inr None)"

definition pipeline_run_of :: "obj \<Rightarrow> pipeline_run res" where
  "pipeline_run_of o' =
     bindR (jreq o' ''run_id'') (\<lambda>rid. bindR (jreq o' ''correlation_id'') (\<lambda>cid.
     bindR (bindR (jreq o' ''status'') (\<lambda>v. pipeline_status_of (py_str v))) (\<lambda>st.
     bindR (bindR (jreq o' ''current_stage'') (\<lambda>v. stage_of (py_str v))) (\<lambda>sg.
     bindR (bindR (str_items o' ''completed_stages'') (mapR stage_of)) (\<lambda>cs.
     bindR (bindR (jreq o' ''source_refs'') need_obj) (\<lambda>refs.
     bindR (opt_stage_of (jget o' ''failure_stage'')) (\<lambda>fs. bindR (opt_stage_of (jget o' ''approval_waiting_stage'')) (\<lambda>ws.
     bindR (jreq o' ''message'') (\<lambda>m. bindR (jreq o' ''created_at'') (\<lambda>ca. bindR (jreq o' ''updated_at'') (\<lambda>ua.
     Inr \<lparr>pn_run_id = py_str rid, pn_correlation_id = py_str cid, pn_status = st, pn_stage = sg, pn_completed = cs,
       pn_refs = map (\<lambda>(k, v). (k, py_str v)) refs, pn_failure = fs, pn_waiting = ws, pn_message = py_str m,
       pn_created_at = py_str ca, pn_updated_at = py_str ua\<rparr>)))))))))))"

text \<open>A run is read back with its references in key order, unchanged otherwise.\<close>

definition sorted_refs :: "pipeline_run \<Rightarrow> pipeline_run" where
  "sorted_refs r = r\<lparr>pn_refs := sort_key fst (pn_refs r)\<rparr>"

lemma insort_key_map: "insort_key f (g x) (map g xs) = map g (insort_key (\<lambda>y. f (g y)) x xs)"
  by (induction xs) auto

lemma sort_key_map: "sort_key f (map g xs) = map g (sort_key (\<lambda>y. f (g y)) xs)"
  by (induction xs) (simp_all add: insort_key_map)

lemma refs_canon [simp]: "jcanon (refs_json refs) = refs_json (sort_key fst refs)"
proof -
  have m: "map (\<lambda>(k, v). (k, jcanon v)) (map (\<lambda>(k, v). (k, JStr v)) refs) = map (\<lambda>(k, v). (k, JStr v)) refs" by auto
  have k: "(\<lambda>y. fst (case y of (k, v) \<Rightarrow> (k, JStr v))) = fst" by auto
  show ?thesis unfolding refs_json_def jcanon_JObj ocanon_def m by (simp only: sort_key_map k)
qed

lemma refs_back: "map (\<lambda>x. case case x of (k, v) \<Rightarrow> (k, JStr v) of (k, v) \<Rightarrow> (k, py_str v)) refs = refs"
  by (induction refs) auto

lemma opt_stage_roundtrip [simp]:
  "jcanon (opt_stage_json x) = opt_stage_json x" "opt_stage_of (opt_stage_json x) = Inr x"
  subgoal by (simp add: opt_stage_json_def)
  subgoal
  proof (cases x)
    case (Some st)
    have "stage_value st \<noteq> []" by (cases st) simp_all
    then show ?thesis using Some by (simp add: opt_stage_json_def opt_stage_of_def of_opt_def)
  qed (simp add: opt_stage_json_def opt_stage_of_def of_opt_def)
  done

lemma pipeline_run_roundtrip [simp]: "pipeline_run_of (ocanon (pipeline_run_json r)) = Inr (sorted_refs r)"
proof -
  have "mapR stage_of (map stage_value sts) = Inr sts" for sts by (rule mapR_map_id) simp
  then show ?thesis
    by (cases r) (simp add: pipeline_run_of_def pipeline_run_json_def str_items_def jstrs_def sorted_refs_def refs_back refs_json_def [of "sort_key fst refs" for refs] comp_def)
qed

record pipeline_report =
  pt_run_id :: string
  pt_status :: pipeline_status
  pt_stage :: pipeline_stage
  pt_completed :: "pipeline_stage list"
  pt_refs :: "(string \<times> string) list"
  pt_message :: string

definition pipeline_report_json :: "pipeline_report \<Rightarrow> obj" where
  "pipeline_report_json r = [(''run_id'', JStr (pt_run_id r)), (''status'', JStr (pipeline_status_value (pt_status r))),
     (''current_stage'', JStr (stage_value (pt_stage r))), (''completed_stages'', jstrs (map stage_value (pt_completed r))),
     (''source_refs'', refs_json (pt_refs r)), (''message'', JStr (pt_message r))]"

definition report_of_run :: "pipeline_run \<Rightarrow> pipeline_report" where
  "report_of_run r = \<lparr>pt_run_id = pn_run_id r, pt_status = pn_status r, pt_stage = pn_stage r, pt_completed = pn_completed r,
     pt_refs = pn_refs r, pt_message = pn_message r\<rparr>"

definition append_stage :: "pipeline_stage list \<Rightarrow> pipeline_stage \<Rightarrow> pipeline_stage list" where
  "append_stage sts st = (if st \<in> set sts then sts else sts @ [st])"

text \<open>\<open>source_refs | refs\<close>.\<close>

definition merge_refs :: "(string \<times> string) list \<Rightarrow> (string \<times> string) list \<Rightarrow> (string \<times> string) list" where
  "merge_refs a b = fold (\<lambda>(k, v) d. AList.update k v d) b a"

section \<open>Repository\<close>

text \<open>
  A row keeps its creation time and correlation when it is written again; a checkpoint is written once
  and never read by the orchestrator.
\<close>

record pipeline_checkpoint =
  pc_run_id :: string
  pc_stage :: string
  pc_status :: string
  pc_refs :: obj
  pc_payload :: obj
  pc_created_at :: string

definition put_pipeline_run :: "pipeline_run \<Rightarrow> (string \<times> pipeline_run) table \<Rightarrow> (string \<times> pipeline_run) table" where
  "put_pipeline_run r t = t_upsert (pn_run_id r)
     (case t_get (pn_run_id r) t of Some (created, _) \<Rightarrow> created | None \<Rightarrow> pn_created_at r, r) t"

definition get_pipeline_run :: "string \<Rightarrow> (string \<times> pipeline_run) table \<Rightarrow> pipeline_run res" where
  "get_pipeline_run rid t = bindR (ofOption (KeyError rid) (t_get rid t)) (\<lambda>(_, r). pipeline_run_of (ocanon (pipeline_run_json r)))"

definition list_pipeline_runs :: "(string \<times> pipeline_run) table \<Rightarrow> pipeline_run list res" where
  "list_pipeline_runs t = mapR (\<lambda>(k, _, r). pipeline_run_of (ocanon (pipeline_run_json r))) (sort_key (\<lambda>(k, created, _). (created, k)) t)"

definition pipeline_checkpoint_of :: "pipeline_run \<Rightarrow> pipeline_stage \<Rightarrow> pipeline_checkpoint" where
  "pipeline_checkpoint_of r st = \<lparr>pc_run_id = pn_run_id r, pc_stage = stage_value st, pc_status = pipeline_status_value (pn_status r),
     pc_refs = ocanon (map (\<lambda>(k, v). (k, JStr v)) (pn_refs r)), pc_payload = ocanon (pipeline_run_json r), pc_created_at = pn_updated_at r\<rparr>"

definition put_checkpoint :: "pipeline_run \<Rightarrow> pipeline_stage \<Rightarrow> pipeline_checkpoint table \<Rightarrow> pipeline_checkpoint table" where
  "put_checkpoint r st t = t_ignore (''checkpoint:'' @ pn_run_id r @ '':'' @ stage_value st) (pipeline_checkpoint_of r st) t"

lemma get_put_run [simp]: "get_pipeline_run rid (put_pipeline_run r t) = (if rid = pn_run_id r then Inr (sorted_refs r) else get_pipeline_run rid t)"
  by (simp add: get_pipeline_run_def put_pipeline_run_def)

section \<open>The fixtures\<close>

text \<open>\<open>re.sub\<close> of every run of other characters by a dash, cut to 96 characters.\<close>

fun dash_runs :: "bool \<Rightarrow> string \<Rightarrow> string" where
  "dash_runs inside [] = []"
| "dash_runs inside (c # s) = (if is_alnum c \<or> one_of ''_.:-'' c then c # dash_runs False s
     else if inside then dash_runs True s else CHR ''-'' # dash_runs True s)"

definition safe_id :: "string \<Rightarrow> string" where
  "safe_id value = take 96 (dash_runs False value)"

definition fixture_backtest :: "string \<Rightarrow> string \<Rightarrow> string \<Rightarrow> string \<Rightarrow> pyfloat \<Rightarrow> pyfloat \<Rightarrow> int \<Rightarrow> string \<Rightarrow> backtest_result res" where
  "fixture_backtest rid qid sid fp ret pf n ts =
     bindR (mk_strategy_ref sid ''v1'') (\<lambda>sr. bindR (mk_dataset_ref ''v5_fixture'' ''v1'') (\<lambda>d.
     bindR (mk_backtest_period ''2025-01-01'' ''2025-12-31'') (\<lambda>p. bindR (mk_trade_summary (count_summary n)) (\<lambda>sm.
     mk_backtest_result \<lparr>br_result_id = rid, br_request_id = qid, br_status = BT_COMPLETED, br_fingerprint = fp, br_strategy = sr,
       br_dataset = d, br_period = p,
       br_metrics = backtest_metrics_none\<lparr>bm_total_return := Some ret, bm_annualized_return := Some ret,
         bm_max_drawdown := Some (fl (- 5 / 100)), bm_win_rate := Some (fl (55 / 100)), bm_profit_factor := Some pf,
         bm_trade_count := Some n, bm_exposure := Some (Fin (1 / 2)), bm_start_date := Some ''2025-01-01'', bm_end_date := Some ''2025-12-31''\<rparr>,
       br_trade_summary = sm, br_raw_engine_version = ''v1-fixture'',
       br_parameters = [(''lookback'', JInt 20), (''risk_pct'', JFloat (fl (2 / 100)))], br_warnings = [], br_errors = [],
       br_generated_at = ts, br_duration_ms = 1,
       br_reproducibility = [(''fingerprint'', fp), (''strategy_id'', sid), (''dataset_id'', ''v5_fixture'')]\<rparr>))))"

definition challenger_fingerprint :: "string \<Rightarrow> string" where
  "challenger_fingerprint rid = ''fp-'' @ safe_id rid @ ''-challenger''"

definition fixture_backtests :: "string \<Rightarrow> string \<Rightarrow> string \<Rightarrow> backtest_result option \<Rightarrow> (backtest_result \<times> backtest_result) res" where
  "fixture_backtests scenario ts rid active =
     bindR (case active of Some b \<Rightarrow> Inr b
       | None \<Rightarrow> fixture_backtest (rid @ '':champion-backtest'') (rid @ '':champion-request'') ''turtle_v5'' (''fp-'' @ safe_id rid @ ''-champion'')
           (fl (8 / 100)) (fl (12 / 10)) 40 ts) (\<lambda>champion.
     bindR (Inr (case bm_total_return (br_metrics champion) of Some x \<Rightarrow> x | None \<Rightarrow> fl (8 / 100))) (\<lambda>ret.
     bindR (Inr (case bm_profit_factor (br_metrics champion) of Some x \<Rightarrow> x | None \<Rightarrow> fl (12 / 10))) (\<lambda>pf.
     bindR (fixture_backtest (rid @ '':challenger-backtest'') (rid @ '':challenger-request'') ''turtle_v5'' (challenger_fingerprint rid)
         (if scenario = ''keep_champion'' then fsub ret (fl (1 / 100)) else fadd ret (fl (10 / 100))) (fadd pf (Fin (1 / 2))) 50 ts) (\<lambda>challenger.
     Inr (champion, challenger)))))"

definition pl_validation_policy :: "string \<Rightarrow> validation_policy" where
  "pl_validation_policy scenario = validation_policy_default\<lparr>vp_min_trade_count := (if scenario = ''validation_fail'' then 999 else 10),
     vp_min_profit_factor := fl (11 / 10), vp_min_total_return := Fin 0\<rparr>"

definition pl_champion_policy :: "string \<Rightarrow> champion_policy" where
  "pl_champion_policy scenario = champion_policy_default\<lparr>cp_min_return_improvement :=
     (if scenario = ''keep_champion'' then Fin (1 / 2) else fl (5 / 100))\<rparr>"

definition pl_paper_policy :: "string \<Rightarrow> revalidation_policy" where
  "pl_paper_policy scenario =
    (if scenario = ''paper_hold'' then revalidation_policy_default\<lparr>rp_min_trades := 999\<rparr>
     else if scenario = ''paper_kill'' then revalidation_policy_default\<lparr>rp_min_trades := 10, rp_max_rejection_rate := Fin 0\<rparr>
     else revalidation_policy_default\<lparr>rp_min_trades := 10\<rparr>)"

section \<open>The state and the services in it\<close>

text \<open>
  One database holds the tables of all services; each service sees its own part and the shared event
  store and metrics.
\<close>

record 'd pipeline_env = "'d deploy_env" +
  pl_validations :: validation_repo
  pl_evals :: champion_repo
  pl_papers :: paper_repo
  pl_trading :: trading_repo
  pl_runs :: "(string \<times> pipeline_run) table"
  pl_checkpoints :: "pipeline_checkpoint table"

definition pl_read :: "('d pipeline_env \<Rightarrow> 'a res) \<Rightarrow> ('d pipeline_env, 'a) opr" where
  "pl_read f = (\<lambda>s. (f s, s))"

definition pl_add_backtest :: "backtest_result \<Rightarrow> ('d pipeline_env, unit) opr" where
  "pl_add_backtest r = modO (\<lambda>s. s\<lparr>ho_backtests := backtest_add_result r (ho_backtests s)\<rparr>)"

definition pl_validation :: "(validation_env, 'a) opr \<Rightarrow> ('d pipeline_env, 'a) opr" where
  "pl_validation m = (\<lambda>s. case m \<lparr>env_events = env_events s, env_metrics = env_metrics s, ve_repo = Some (pl_validations s)\<rparr> of
     (r, t) \<Rightarrow> (r, s\<lparr>env_events := env_events t, env_metrics := env_metrics t,
       pl_validations := (case ve_repo t of Some v \<Rightarrow> v | None \<Rightarrow> pl_validations s)\<rparr>))"

definition pl_champion :: "(champion_env, 'a) opr \<Rightarrow> ('d pipeline_env, 'a) opr" where
  "pl_champion m = (\<lambda>s. case m \<lparr>env_events = env_events s, env_metrics = env_metrics s, ce_repo = Some (pl_evals s)\<rparr> of
     (r, t) \<Rightarrow> (r, s\<lparr>env_events := env_events t, env_metrics := env_metrics t,
       pl_evals := (case ce_repo t of Some v \<Rightarrow> v | None \<Rightarrow> pl_evals s)\<rparr>))"

definition pl_registry :: "(registry_env, 'a) opr \<Rightarrow> ('d pipeline_env, 'a) opr" where
  "pl_registry m = (\<lambda>s. case m \<lparr>env_events = env_events s, env_metrics = env_metrics s, ry_repo = ho_registry s, ry_evals = pl_evals s\<rparr> of
     (r, t) \<Rightarrow> (r, s\<lparr>env_events := env_events t, env_metrics := env_metrics t, ho_registry := ry_repo t, pl_evals := ry_evals t\<rparr>))"

text \<open>The paper service of a pipeline call trades through one new paper adapter.\<close>

definition pl_paper :: "(paper_env, 'a) opr \<Rightarrow> ('d pipeline_env, 'a) opr" where
  "pl_paper m = (\<lambda>s. case m \<lparr>env_events = env_events s, env_metrics = env_metrics s, pf_repo = pl_papers s, pf_registry = ho_registry s,
       pf_trading = Some (pl_trading s), pf_adapter = paper_init True False\<rparr> of
     (r, t) \<Rightarrow> (r, s\<lparr>env_events := env_events t, env_metrics := env_metrics t, pl_papers := pf_repo t,
       pl_trading := (case pf_trading t of Some v \<Rightarrow> v | None \<Rightarrow> pl_trading s)\<rparr>))"

definition pl_revalidation :: "(revalidation_env, 'a) opr \<Rightarrow> ('d pipeline_env, 'a) opr" where
  "pl_revalidation m = (\<lambda>s. case m \<lparr>env_events = env_events s, env_metrics = env_metrics s, rv_repo = Some (ho_revalidations s)\<rparr> of
     (r, t) \<Rightarrow> (r, s\<lparr>env_events := env_events t, env_metrics := env_metrics t,
       ho_revalidations := (case rv_repo t of Some v \<Rightarrow> v | None \<Rightarrow> ho_revalidations s)\<rparr>))"

definition pl_handoff :: "(handoff_env, 'a) opr \<Rightarrow> ('d pipeline_env, 'a) opr" where
  "pl_handoff m = (\<lambda>s. case m (handoff_env.truncate s) of (r, t) \<Rightarrow> (r, handoff_env.extend t (handoff_env.more s)))"

definition pl_deploy :: "('d deploy_env, 'a) opr \<Rightarrow> ('d pipeline_env, 'a) opr" where
  "pl_deploy m = (\<lambda>s. case m (deploy_env.truncate s) of (r, t) \<Rightarrow> (r, deploy_env.extend t (deploy_env.more s)))"

definition pl_increment :: "string \<Rightarrow> ('d pipeline_env, unit) opr" where
  "pl_increment name = increment [] name"

definition pipeline_event :: "string \<Rightarrow> pipeline_run \<Rightarrow> string \<Rightarrow> durable_event" where
  "pipeline_event event_type r actor =
    \<lparr>de_event_id = ''event:v5:'' @ event_type @ '':'' @ pn_run_id r @ '':'' @ stage_value (pn_stage r), de_event_type = event_type,
     de_occurred_at = pn_updated_at r, de_actor_ref = actor, de_correlation_id = pn_run_id r, de_causation_id = Some (pn_correlation_id r),
     de_scope = ''gaon_v5_pipeline'', de_project = ''StrategyLab'', de_strategy = ''N/A'', de_market = ''N/A'',
     de_payload = [(''run_id'', JStr (pn_run_id r)), (''status'', JStr (pipeline_status_value (pn_status r))),
       (''stage'', JStr (stage_value (pn_stage r)))],
     de_evidence_refs = map snd (pn_refs r), de_audit_refs = [], de_appended_at = pn_updated_at r\<rparr>"

definition pl_record :: "string \<Rightarrow> pipeline_run \<Rightarrow> string \<Rightarrow> ('d pipeline_env, unit) opr" where
  "pl_record event_type r actor = record_once (pipeline_event event_type r actor)"

definition pl_persist :: "pipeline_run \<Rightarrow> pipeline_stage \<Rightarrow> ('d pipeline_env, unit) opr" where
  "pl_persist r st = thenO (modO (\<lambda>s. s\<lparr>pl_runs := put_pipeline_run r (pl_runs s)\<rparr>))
     (modO (\<lambda>s. s\<lparr>pl_checkpoints := put_checkpoint r st (pl_checkpoints s)\<rparr>))"

section \<open>Stages\<close>

definition pl_complete :: "pipeline_run \<Rightarrow> pipeline_stage \<Rightarrow> string \<Rightarrow> (string \<times> string) list \<Rightarrow> ('d pipeline_env, pipeline_run) opr" where
  "pl_complete run st ts refs =
    (if st \<in> set (pn_completed run) then retO run
     else bindO (retO (run\<lparr>pn_stage := st, pn_completed := append_stage (pn_completed run) st, pn_refs := merge_refs (pn_refs run) refs,
         pn_message := stage_value st @ '' completed'', pn_updated_at := ts\<rparr>)) (\<lambda>u.
       thenO (pl_persist u st) (thenO (pl_record ''GaonV5PipelineStageCompleted'' u ''actor:redacted'') (retO u))))"

definition pl_wait :: "pipeline_run \<Rightarrow> pipeline_stage \<Rightarrow> pipeline_request \<Rightarrow> (string \<times> string) list \<Rightarrow> ('d pipeline_env, pipeline_report) opr" where
  "pl_wait run st q refs =
    bindO (retO (run\<lparr>pn_status := PL_WAITING, pn_stage := st, pn_waiting := Some st, pn_refs := merge_refs (pn_refs run) refs,
      pn_message := ''waiting for explicit approval at '' @ stage_value st, pn_updated_at := gq_requested_at q\<rparr>)) (\<lambda>u.
    thenO (pl_persist u st) (thenO (pl_record ''GaonV5PipelineWaitingForApproval'' u (gq_actor_ref q))
    (thenO (pl_increment ''gaon_v5_pipeline_waiting_approval_total'') (retO (report_of_run u)))))"

definition pl_block :: "pipeline_run \<Rightarrow> pipeline_stage \<Rightarrow> pipeline_request \<Rightarrow> string \<Rightarrow> (string \<times> string) list \<Rightarrow> ('d pipeline_env, pipeline_report) opr" where
  "pl_block run st q msg refs =
    bindO (retO (run\<lparr>pn_status := PL_BLOCKED, pn_stage := st, pn_failure := Some st, pn_refs := merge_refs (pn_refs run) refs,
      pn_message := msg, pn_updated_at := gq_requested_at q\<rparr>)) (\<lambda>u.
    thenO (pl_persist u st) (thenO (pl_record ''GaonV5PipelineBlocked'' u (gq_actor_ref q))
    (thenO (pl_increment ''gaon_v5_pipeline_blocked_total'') (retO (report_of_run u)))))"

definition pl_load_or_create :: "pipeline_request \<Rightarrow> ('d pipeline_env, pipeline_run) opr" where
  "pl_load_or_create q = catchO (pl_read (\<lambda>s. get_pipeline_run (gq_run_id q) (pl_runs s))) (\<lambda>e. case e of
     KeyError _ \<Rightarrow>
       bindO (retO \<lparr>pn_run_id = gq_run_id q, pn_correlation_id = gq_correlation_id q, pn_status = PL_CREATED, pn_stage = PS_RESEARCH,
         pn_completed = [], pn_refs = [], pn_failure = None, pn_waiting = None, pn_message = ''created'',
         pn_created_at = gq_requested_at q, pn_updated_at = gq_requested_at q\<rparr>) (\<lambda>run.
       thenO (pl_persist run PS_RESEARCH) (thenO (pl_increment ''gaon_v5_pipeline_runs_total'') (retO run)))
   | _ \<Rightarrow> raiseO e)"

section \<open>The phases\<close>

text \<open>
  The body of the \<open>try\<close> in its phases. An exception carries the value of the variable \<open>run\<close> where it is
  raised, which the handler reads; a phase that returns early yields an \<open>Inl\<close> report.
\<close>

type_synonym ('d, 'a) phase = "(pyerr \<times> pipeline_run, 'd pipeline_env, pipeline_report + 'a) eopr"

definition with_run :: "pipeline_run \<Rightarrow> ('d pipeline_env, 'a) opr \<Rightarrow> (pyerr \<times> pipeline_run, 'd pipeline_env, 'a) eopr" where
  "with_run run m = catchO m (\<lambda>e. raiseO (e, run))"

definition next_phase :: "('d, 'a) phase \<Rightarrow> ('a \<Rightarrow> ('d, 'b) phase) \<Rightarrow> ('d, 'b) phase" where
  "next_phase m f = bindO m (\<lambda>x. case x of Inl r \<Rightarrow> retO (Inl r) | Inr y \<Rightarrow> f y)"

definition early :: "('d pipeline_env, pipeline_report) opr \<Rightarrow> ('d pipeline_env, pipeline_report + 'a) opr" where
  "early m = bindO m (\<lambda>r. retO (Inl r))"

definition completing :: "pipeline_run \<Rightarrow> pipeline_stage \<Rightarrow> pipeline_request \<Rightarrow> (string \<times> string) list \<Rightarrow> 'a \<Rightarrow>
    ('d pipeline_env, pipeline_report + pipeline_run \<times> 'a) opr" where
  "completing run st q refs x = bindO (pl_complete run st (gq_requested_at q) refs) (\<lambda>u. retO (Inr (u, x)))"

definition research_phase :: "pipeline_request \<Rightarrow> pipeline_run \<Rightarrow> ('d, pipeline_run \<times> unit) phase" where
  "research_phase q run = with_run run (completing run PS_RESEARCH q [(''research_fixture'', ''v5-deterministic'')] ())"

definition known_backtest :: "registry_entry option \<Rightarrow> 'd pipeline_env \<Rightarrow> backtest_result option res" where
  "known_backtest active s = (case active of None \<Rightarrow> Inr None
     | Some a \<Rightarrow> (case backtest_get_result (re_backtest_id a) (ho_backtests s) of
         Inl (KeyError k) \<Rightarrow> Inr None | Inl e \<Rightarrow> Inl e | Inr b \<Rightarrow> Inr (Some b)))"

definition backtest_phase :: "pipeline_request \<Rightarrow> pipeline_run \<Rightarrow> ('d, pipeline_run \<times> backtest_result \<times> backtest_result) phase" where
  "backtest_phase q run = with_run run
    (bindO (pl_read (\<lambda>s. rg_get_active DEFAULT_CHAMPION_SLOT (ho_registry s))) (\<lambda>active.
     bindO (pl_read (known_backtest active)) (\<lambda>known.
     bindO (liftO (fixture_backtests (gq_scenario q) (gq_requested_at q) (gq_run_id q) known)) (\<lambda>(c, h).
     thenO (pl_add_backtest c) (thenO (pl_add_backtest h)
     (completing run PS_BACKTEST q [(''champion_backtest_id'', br_result_id c), (''challenger_backtest_id'', br_result_id h)] (c, h)))))))"

definition validation_phase :: "pipeline_request \<Rightarrow> pipeline_run \<Rightarrow> backtest_result \<Rightarrow> ('d, pipeline_run \<times> validation_report) phase" where
  "validation_phase q run h = with_run run
    (bindO (liftO (build_validation_request (gq_run_id q @ '':validation'') [h] (gq_actor_ref q) (gq_requested_at q) None)) (\<lambda>r.
     bindO (pl_validation (validation_validate (pl_validation_policy (gq_scenario q)) r [h] (gq_requested_at q))) (\<lambda>v.
     if vr_overall_status v \<noteq> V_PASS
     then early (pl_block run PS_VALIDATION q ''validation did not pass'' [(''validation_id'', vr_validation_id v)])
     else completing run PS_VALIDATION q [(''validation_id'', vr_validation_id v)] v)))"

definition evaluation_phase :: "pipeline_request \<Rightarrow> pipeline_run \<Rightarrow> backtest_result \<Rightarrow> backtest_result \<Rightarrow> validation_report \<Rightarrow>
    ('d, pipeline_run \<times> champion_report) phase" where
  "evaluation_phase q run c h v = with_run run
    (bindO (pl_read (\<lambda>s. rg_get_active DEFAULT_CHAMPION_SLOT (ho_registry s))) (\<lambda>active.
     thenO (if active = None then thenO (pl_registry (registry_bootstrap DEFAULT_CHAMPION_SLOT (sr_strategy_id (br_strategy c)) (br_fingerprint c)
         (br_result_id c) (gq_actor_ref q) (gq_requested_at q))) (retO ()) else retO ())
     (bindO (liftO (build_champion_request (gq_run_id q @ '':evaluation'') c h v (gq_actor_ref q) (gq_requested_at q) None)) (\<lambda>r.
      bindO (pl_champion (champion_evaluate (pl_champion_policy (gq_scenario q)) r c h v (gq_requested_at q))) (\<lambda>e.
      if ch_decision e \<noteq> PROMOTION_CANDIDATE
      then early (pl_block run PS_CHAMPION_EVALUATION q ''Champion evaluation did not create a promotion candidate'' [(''evaluation_id'', ch_evaluation_id e)])
      else completing run PS_CHAMPION_EVALUATION q [(''evaluation_id'', ch_evaluation_id e)] e)))))"

definition promotion_phase :: "pipeline_request \<Rightarrow> pipeline_run \<Rightarrow> champion_report \<Rightarrow> ('d, pipeline_run \<times> registry_entry) phase" where
  "promotion_phase q run e =
    next_phase (with_run run
     (bindO (pl_registry (registry_request (gq_run_id q @ '':promotion'') (ch_evaluation_id e) (gq_actor_ref q) (gq_requested_at q) DEFAULT_CHAMPION_SLOT)) (\<lambda>p.
      if gq_scenario q = ''promotion_rejected'' then
        thenO (pl_registry (registry_reject (pq_promotion_id p) (gq_actor_ref q) (gq_requested_at q) ''explicit rejection''))
        (early (pl_block run PS_PROMOTION_APPROVAL q ''promotion rejected'' [(''promotion_id'', pq_promotion_id p)]))
      else if \<not> gq_approve_promotion q then early (pl_wait run PS_PROMOTION_APPROVAL q [(''promotion_id'', pq_promotion_id p)])
      else
        bindO (pl_registry (registry_approve (pq_promotion_id p) (gq_actor_ref q) (gq_requested_at q) ''explicit approval'')) (\<lambda>a.
        completing run PS_PROMOTION_APPROVAL q [(''promotion_id'', pq_promotion_id p)] a)))) (\<lambda>(run, a).
    with_run run (completing run PS_CHAMPION_ACTIVATION q [(''champion_version_id'', re_version_id a)] a))"

definition paper_orders :: "pipeline_request \<Rightarrow> string \<Rightarrow> (paper_env, paper_session \<times> paper_summary) opr" where
  "paper_orders q sid =
    bindO (paper_create sid DEFAULT_CHAMPION_SLOT None None (gq_actor_ref q) (gq_requested_at q)) (\<lambda>x.
    thenO (paper_start (fs_session_id x) (gq_actor_ref q) (gq_requested_at q))
    (thenO (forO (\<lambda>i. thenO (paper_simulate (fs_session_id x) (''PAPER'' @ dec_nat i) (Fin 1) (Fin (of_nat (100 + i))) ''buy'' (gq_actor_ref q)
        (gq_requested_at q)) (retO ())) [0..<20])
    (bindO (paper_complete (fs_session_id x) (gq_actor_ref q) (gq_requested_at q)) (\<lambda>y.
     bindO (pf_read (pr_get_summary (fs_session_id y))) (\<lambda>m. retO (y, m))))))"

definition fixture_summary :: "string \<Rightarrow> paper_summary \<Rightarrow> paper_summary" where
  "fixture_summary scenario m = (let m = m\<lparr>fm_realized_pnl := Some (Fin 0), fm_unrealized_pnl := Some (Fin 0),
       fm_max_drawdown := Some (fl (1 / 100)), fm_exposure := Some (Fin (1 / 2))\<rparr> in
     if scenario = ''paper_kill'' then m\<lparr>fm_failed := 1, fm_errors := [''fixture critical paper failure'']\<rparr> else m)"

definition paper_phase :: "pipeline_request \<Rightarrow> pipeline_run \<Rightarrow> ('d, pipeline_run \<times> paper_session \<times> paper_summary) phase" where
  "paper_phase q run = with_run run
    (bindO (pl_paper (paper_orders q (gq_run_id q @ '':paper-session''))) (\<lambda>(x, m).
     completing run PS_PAPER_FORWARD_TEST q [(''paper_session_id'', fs_session_id x)] (x, fixture_summary (gq_scenario q) m)))"

definition revalidation_phase :: "pipeline_request \<Rightarrow> pipeline_run \<Rightarrow> registry_entry \<Rightarrow> paper_session \<Rightarrow> paper_summary \<Rightarrow>
    ('d, pipeline_run \<times> revalidation_report) phase" where
  "revalidation_phase q run a x m = with_run run
    (bindO (pl_revalidation (revalidate (pl_paper_policy (gq_scenario q))
        (build_revalidation_request (gq_run_id q @ '':paper-revalidation'') x (gq_actor_ref q) (gq_requested_at q) None) a x m (gq_requested_at q))) (\<lambda>r.
     if rv_status r \<noteq> RV_LIVE_ELIGIBLE
     then early (pl_block run PS_PAPER_REVALIDATION q (''paper revalidation '' @ revalidation_status_value (rv_status r))
       [(''paper_revalidation_id'', rv_revalidation_id r)])
     else completing run PS_PAPER_REVALIDATION q [(''paper_revalidation_id'', rv_revalidation_id r)] r))"

definition handoff_phase :: "pipeline_request \<Rightarrow> pipeline_run \<Rightarrow> revalidation_report \<Rightarrow> ('d, pipeline_run \<times> handoff_package) phase" where
  "handoff_phase q run r =
    next_phase (with_run run
     (bindO (liftO (build_handoff_request (gq_run_id q @ '':handoff'') (rv_revalidation_id r) (gq_actor_ref q) (gq_requested_at q) DEFAULT_CHAMPION_SLOT)) (\<lambda>h.
      bindO (pl_handoff (handoff_create h)) (\<lambda>p.
      completing run PS_HANDOFF_PACKAGE q [(''handoff_package_id'', hp_package_id p)] p)))) (\<lambda>(run, p).
    with_run run
     (if \<not> gq_approve_deployment q then early (pl_wait run PS_DEPLOYMENT_APPROVAL q [(''handoff_package_id'', hp_package_id p)])
      else bindO (pl_handoff (handoff_approve (hp_package_id p) (gq_actor_ref q) (gq_requested_at q) ''explicit human approval'')) (\<lambda>p.
       if hp_status p \<noteq> HS_APPROVED
       then early (pl_block run PS_DEPLOYMENT_APPROVAL q ''deployment approval failed'' [(''handoff_package_id'', hp_package_id p)])
       else completing run PS_DEPLOYMENT_APPROVAL q [(''handoff_package_id'', hp_package_id p)] p)))"

definition deployment_phase :: "'d deployment_adapter \<Rightarrow> pipeline_request \<Rightarrow> pipeline_run \<Rightarrow> handoff_package \<Rightarrow> ('d, pipeline_run \<times> deployment_run) phase" where
  "deployment_phase ad q run p = with_run run
    (bindO (liftO (build_deployment_request (gq_run_id q @ '':deployment'') (hp_package_id p) (gq_actor_ref q) (gq_requested_at q) ''generic-runtime'')) (\<lambda>r.
     bindO (pl_deploy (deployment_plan_op ad deployment_policy_default r)) (\<lambda>plan.
     bindO (pl_deploy (deployment_run_op ad (dp_plan_id plan) (gq_actor_ref q) (gq_requested_at q))) (\<lambda>d.
     if dr_status d \<noteq> DS_SUCCEEDED
     then early (pl_block run PS_DEPLOYMENT q (''deployment '' @ deployment_status_value (dr_status d)) [(''deployment_run_id'', dr_run_id d)])
     else completing run PS_DEPLOYMENT q [(''deployment_run_id'', dr_run_id d)] d))))"

definition finished_run :: "pipeline_request \<Rightarrow> pipeline_run \<Rightarrow> pipeline_run" where
  "finished_run q run = run\<lparr>pn_status := PL_COMPLETED, pn_stage := PS_COMPLETED, pn_completed := append_stage (pn_completed run) PS_COMPLETED,
     pn_message := ''Gaon v5 RC pipeline completed'', pn_updated_at := gq_requested_at q\<rparr>"

definition finish_phase :: "pipeline_request \<Rightarrow> pipeline_run \<Rightarrow> deployment_run \<Rightarrow> ('d, pipeline_report) phase" where
  "finish_phase q run d =
    next_phase (with_run run (completing run PS_VERIFICATION q [(''deployment_run_id'', dr_run_id d)] ())) (\<lambda>(run, _).
    bindO (retO (finished_run q run)) (\<lambda>run.
    with_run run (thenO (pl_persist run PS_COMPLETED) (thenO (pl_record ''GaonV5PipelineCompleted'' run (gq_actor_ref q))
      (thenO (pl_increment ''gaon_v5_pipeline_completed_total'') (retO (Inr (report_of_run run))))))))"

definition pipeline_body :: "'d deployment_adapter \<Rightarrow> pipeline_request \<Rightarrow> pipeline_run \<Rightarrow> ('d, pipeline_report) phase" where
  "pipeline_body ad q run =
    next_phase (research_phase q run) (\<lambda>(run, _).
    next_phase (backtest_phase q run) (\<lambda>(run, c, h).
    next_phase (validation_phase q run h) (\<lambda>(run, v).
    next_phase (evaluation_phase q run c h v) (\<lambda>(run, e).
    next_phase (promotion_phase q run e) (\<lambda>(run, a).
    next_phase (paper_phase q run) (\<lambda>(run, x, m).
    next_phase (revalidation_phase q run a x m) (\<lambda>(run, r).
    next_phase (handoff_phase q run r) (\<lambda>(run, p).
    next_phase (deployment_phase ad q run p) (\<lambda>(run, d).
    finish_phase q run d)))))))))"

definition failed_run :: "pipeline_request \<Rightarrow> pyerr \<Rightarrow> pipeline_run \<Rightarrow> pipeline_run" where
  "failed_run q e run = run\<lparr>pn_status := PL_FAILED, pn_failure := Some (pn_stage run), pn_message := err_class e, pn_updated_at := gq_requested_at q\<rparr>"

definition pl_failure :: "pipeline_request \<Rightarrow> pyerr \<times> pipeline_run \<Rightarrow> ('d pipeline_env, pipeline_report + pipeline_report) opr" where
  "pl_failure q = (\<lambda>(e, run). bindO (retO (failed_run q e run)) (\<lambda>f.
     thenO (pl_persist f (pn_stage run)) (thenO (pl_record ''GaonV5PipelineFailed'' f (gq_actor_ref q))
     (thenO (pl_increment ''gaon_v5_pipeline_failed_total'') (retO (Inr (report_of_run f)))))))"

text \<open>A run that waits is not taken up again without the approval it waits for.\<close>

definition still_waiting :: "pipeline_request \<Rightarrow> pipeline_run \<Rightarrow> bool" where
  "still_waiting q run \<longleftrightarrow> pn_status run = PL_WAITING \<and>
     (pn_waiting run = Some PS_PROMOTION_APPROVAL \<and> \<not> gq_approve_promotion q \<or>
      pn_waiting run = Some PS_DEPLOYMENT_APPROVAL \<and> \<not> gq_approve_deployment q)"

definition pipeline_run_demo :: "'d deployment_adapter \<Rightarrow> pipeline_request \<Rightarrow> ('d pipeline_env, pipeline_report) opr" where
  "pipeline_run_demo ad q =
    bindO (pl_load_or_create q) (\<lambda>existing.
    if pn_status existing = PL_COMPLETED \<or> still_waiting q existing then retO (report_of_run existing)
    else
      bindO (retO (existing\<lparr>pn_status := PL_RUNNING, pn_updated_at := gq_requested_at q\<rparr>)) (\<lambda>run.
      thenO (pl_record ''GaonV5PipelineStarted'' run (gq_actor_ref q))
      (bindO (catchO (pipeline_body ad q run) (pl_failure q)) (\<lambda>x. case x of
         Inl r \<Rightarrow> retO r | Inr r \<Rightarrow> retO r))))"

end
