(* ===== verification/PipelineRuns.thy ===== *)
theory PipelineRuns
  imports Pipeline "HOL-Library.Sublist"
begin

text \<open>
  What the pipeline guarantees. The stored runs over every sequence of calls, with the services and
  their data changing freely between them: the completed stages are always an initial part of the stage
  order and are never lost, a completed run never changes. One call: its report is the stored run, what
  each status means, and when the deployment target can be reached.
\<close>

section \<open>Runs\<close>

definition blocking_stages :: "pipeline_stage list" where
  "blocking_stages = [PS_VALIDATION, PS_CHAMPION_EVALUATION, PS_PROMOTION_APPROVAL, PS_PAPER_REVALIDATION, PS_DEPLOYMENT_APPROVAL, PS_DEPLOYMENT]"

definition pl_run_ok :: "pipeline_run \<Rightarrow> bool" where
  "pl_run_ok u \<longleftrightarrow> (\<exists>k. pn_completed u = take k stage_order) \<and>
     (case pn_status u of
        PL_COMPLETED \<Rightarrow> pn_stage u = PS_COMPLETED \<and> pn_completed u = stage_order
      | PL_WAITING \<Rightarrow> pn_waiting u = Some (pn_stage u) \<and> pn_stage u \<in> {PS_PROMOTION_APPROVAL, PS_DEPLOYMENT_APPROVAL}
      | PL_BLOCKED \<Rightarrow> pn_failure u = Some (pn_stage u) \<and> pn_stage u \<in> set blocking_stages
      | PL_FAILED \<Rightarrow> pn_failure u = Some (pn_stage u)
      | _ \<Rightarrow> True)"

text \<open>Every stored run is well formed and stored under its id.\<close>

definition pipeline_ok :: "'d pipeline_env \<Rightarrow> bool" where
  "pipeline_ok s \<longleftrightarrow> (\<forall>k c u. t_get k (pl_runs s) = Some (c, u) \<longrightarrow> pn_run_id u = k \<and> pl_run_ok u)"

text \<open>
  \<open>s0\<close> is the state a call starts in. A run the call works on continues the run stored there: the same
  correlation and creation, the completed stages only grow, and a completed run is not taken up.
\<close>

definition continues :: "pipeline_request \<Rightarrow> 'd pipeline_env \<Rightarrow> pipeline_run \<Rightarrow> bool" where
  "continues q s0 u \<longleftrightarrow> pn_run_id u = gq_run_id q \<and>
     (\<forall>c u0. t_get (gq_run_id q) (pl_runs s0) = Some (c, u0) \<longrightarrow> pn_status u0 \<noteq> PL_COMPLETED \<and>
        pn_correlation_id u = pn_correlation_id u0 \<and> pn_created_at u = pn_created_at u0 \<and> prefix (pn_completed u0) (pn_completed u))"

definition stored :: "pipeline_request \<Rightarrow> 'd pipeline_env \<Rightarrow> pipeline_run \<Rightarrow> 'd pipeline_env \<Rightarrow> bool" where
  "stored q s0 u s \<longleftrightarrow> (\<forall>k. k \<noteq> gq_run_id q \<longrightarrow> t_get k (pl_runs s) = t_get k (pl_runs s0)) \<and>
     (\<exists>c. t_get (gq_run_id q) (pl_runs s) = Some (c, u) \<and>
        (\<forall>c0 u0. t_get (gq_run_id q) (pl_runs s0) = Some (c0, u0) \<longrightarrow> c = c0))"

definition rows :: "pipeline_request \<Rightarrow> 'd pipeline_env \<Rightarrow> 'd pipeline_env \<Rightarrow> bool" where
  "rows q s0 s \<longleftrightarrow> (\<exists>u. stored q s0 u s \<and> pl_run_ok u \<and> continues q s0 u)"

definition fully_approved :: "pipeline_request \<Rightarrow> bool" where
  "fully_approved q \<longleftrightarrow> gq_approve_promotion q \<and> gq_approve_deployment q"

text \<open>The approvals a run must have had to be past the first \<open>i\<close> stages.\<close>

definition approvals :: "nat \<Rightarrow> pipeline_request \<Rightarrow> bool" where
  "approvals i q \<longleftrightarrow> (5 \<le> i \<longrightarrow> gq_approve_promotion q) \<and> (10 \<le> i \<longrightarrow> gq_approve_deployment q)"

text \<open>Without both approvals nothing of the deployment has moved.\<close>

definition undeployed :: "pipeline_request \<Rightarrow> 'd pipeline_env \<Rightarrow> 'd pipeline_env \<Rightarrow> bool" where
  "undeployed q s0 s \<longleftrightarrow> fully_approved q \<or> dx_repo s = dx_repo s0 \<and> dx_target s = dx_target s0"

text \<open>The handoff and deployment services keep their invariant.\<close>

definition sound :: "'d pipeline_env \<Rightarrow> bool" where
  "sound s \<longleftrightarrow> deploy_ok (deploy_env.truncate s)"

definition running :: "pipeline_request \<Rightarrow> 'd pipeline_env \<Rightarrow> nat \<Rightarrow> pipeline_run \<Rightarrow> 'd pipeline_env \<Rightarrow> bool" where
  "running q s0 i run s \<longleftrightarrow> continues q s0 run \<and> pn_status run = PL_RUNNING \<and> (\<exists>k \<ge> i. pn_completed run = take k stage_order) \<and>
     approvals i q \<and> rows q s0 s \<and> undeployed q s0 s \<and> sound s"

text \<open>A run that is given up may have any status.\<close>

definition resting :: "pipeline_request \<Rightarrow> 'd pipeline_env \<Rightarrow> pipeline_run \<Rightarrow> 'd pipeline_env \<Rightarrow> bool" where
  "resting q s0 run s \<longleftrightarrow> continues q s0 run \<and> (\<exists>k. pn_completed run = take k stage_order) \<and> rows q s0 s \<and> undeployed q s0 s \<and> sound s"

lemma running_resting: "running q s0 i run s \<Longrightarrow> resting q s0 run s"
  by (auto simp: running_def resting_def)

text \<open>The package of a succeeded deployment run is approved, and the target is what applying and verifying it left.\<close>

definition deployed :: "'d deployment_adapter \<Rightarrow> string \<Rightarrow> 'd pipeline_env \<Rightarrow> bool" where
  "deployed ad ts t \<longleftrightarrow> (\<exists>plan p r b d0 d1. t_get (deployment_run_id plan) (dx_runs (dx_repo t)) = Some r \<and> dr_status r = DS_SUCCEEDED \<and>
     dr_package_id r = dp_package_id plan \<and> hr_get (dp_package_id plan) (ho_repo t) = Inr p \<and> hp_status p = HS_APPROVED \<and>
     applied_target ad plan p ts d0 = Some (b, d1) \<and> checked_target ad p d1 = Some (dx_target t))"

definition verdict :: "'d deployment_adapter \<Rightarrow> pipeline_request \<Rightarrow> pipeline_status \<Rightarrow> 'd pipeline_env \<Rightarrow> bool" where
  "verdict ad q st t = (case st of
      PL_COMPLETED \<Rightarrow> fully_approved q \<and> deployed ad (gq_requested_at q) t
    | PL_WAITING \<Rightarrow> \<not> fully_approved q
    | PL_BLOCKED \<Rightarrow> True | PL_FAILED \<Rightarrow> True
    | _ \<Rightarrow> False)"

definition reported :: "'d deployment_adapter \<Rightarrow> pipeline_request \<Rightarrow> 'd pipeline_env \<Rightarrow> pipeline_report \<Rightarrow> 'd pipeline_env \<Rightarrow> bool" where
  "reported ad q s0 r t \<longleftrightarrow> (\<exists>u. stored q s0 u t \<and> pl_run_ok u \<and> continues q s0 u \<and> r = report_of_run u \<and> verdict ad q (pn_status u) t) \<and>
     undeployed q s0 t \<and> sound t"

text \<open>What the pipeline's own bookkeeping reads.\<close>

definition ledger :: "'d pipeline_env \<Rightarrow> (string \<times> pipeline_run) table \<times> deployment_repo \<times> 'd" where
  "ledger s = (pl_runs s, dx_repo s, dx_target s)"

lemma ledger_simps [simp]:
  "ledger (s\<lparr>env_events := es\<rparr>) = ledger s" "ledger (s\<lparr>env_metrics := ms\<rparr>) = ledger s" "ledger (s\<lparr>pl_checkpoints := cs\<rparr>) = ledger s"
  by (simp_all add: ledger_def)

lemma ledger_same:
  assumes "ledger t = ledger s"
  shows "sound t = sound s \<Longrightarrow> running q s0 i run t = running q s0 i run s" "sound t = sound s \<Longrightarrow> resting q s0 run t = resting q s0 run s"
    "rows q s0 t = rows q s0 s" "undeployed q s0 t = undeployed q s0 s"
    "stored q s0 u t = stored q s0 u s"
proof -
  have e: "pl_runs t = pl_runs s" "dx_repo t = dx_repo s" "dx_target t = dx_target s" using assms by (simp_all add: ledger_def)
  show "sound t = sound s \<Longrightarrow> running q s0 i run t = running q s0 i run s" "sound t = sound s \<Longrightarrow> resting q s0 run t = resting q s0 run s"
    "rows q s0 t = rows q s0 s" "undeployed q s0 t = undeployed q s0 s"
    "stored q s0 u t = stored q s0 u s"
    by (simp_all add: running_def resting_def rows_def stored_def undeployed_def e)
qed

lemma sound_simps [simp]:
  "sound (s\<lparr>env_events := es\<rparr>) = sound s" "sound (s\<lparr>env_metrics := ms\<rparr>) = sound s" "sound (s\<lparr>pl_checkpoints := cs\<rparr>) = sound s"
  "sound (s\<lparr>pl_runs := rs\<rparr>) = sound s" "sound (s\<lparr>pl_validations := vs\<rparr>) = sound s" "sound (s\<lparr>pl_evals := vs'\<rparr>) = sound s"
  "sound (s\<lparr>pl_papers := ps\<rparr>) = sound s" "sound (s\<lparr>pl_trading := ts\<rparr>) = sound s" "sound (s\<lparr>ho_registry := r\<rparr>) = sound s"
  "sound (s\<lparr>ho_revalidations := r'\<rparr>) = sound s"
  by (cases s; simp add: sound_def deploy_ok_def deploy_env.defs)+

section \<open>The steps of a call\<close>

text \<open>The services run in the same state and leave the bookkeeping alone.\<close>

definition gentle :: "('d pipeline_env, 'a) opr \<Rightarrow> bool" where
  "gentle m \<longleftrightarrow> frames ledger m \<and> keeps sound m"

lemma wp_gentle:
  assumes "gentle m" and "running q s0 i run s" and "\<And>x t. running q s0 i run t \<Longrightarrow> Q x t" and "\<And>e t. running q s0 i run t \<Longrightarrow> E e t"
  shows "wp m Q E s"
proof -
  obtain x t where t: "m s = (x, t)" by fastforce
  have "ledger t = ledger s" "sound t"
    using assms(1,2) framesD [of ledger m s x t] keepsD [of sound m s x t] t by (auto simp: gentle_def running_def)
  then have "running q s0 i run t" using assms(2) ledger_same(1) [of t s] by (auto simp: running_def [of q s0 i run s])
  then show ?thesis using assms(3,4) t by (auto simp: wp_def split: sum.split)
qed

lemma gentle_bind [keeps_intros]: "gentle m \<Longrightarrow> (\<And>x. gentle (f x)) \<Longrightarrow> gentle (bindO m f)"
  unfolding gentle_def by (auto intro: keeps_intros)

lemma gentle_then [keeps_intros]: "gentle m \<Longrightarrow> gentle n \<Longrightarrow> gentle (thenO m n)"
  unfolding gentle_def by (auto intro: keeps_intros)

lemma gentle_ret [keeps_intros]: "gentle (retO x)"
  by (auto simp: gentle_def intro: keeps_intros)

lemma gentle_if [keeps_intros]: "gentle m \<Longrightarrow> gentle n \<Longrightarrow> gentle (if b then m else n)"
  by simp

lemma extended_fields [simp]:
  "pl_runs (handoff_env.extend h (handoff_env.more s)) = pl_runs s" "dx_repo (handoff_env.extend h (handoff_env.more s)) = dx_repo s"
  "dx_target (handoff_env.extend h (handoff_env.more s)) = dx_target s"
  "pl_runs (deploy_env.extend d (deploy_env.more s)) = pl_runs s" "dx_repo (deploy_env.extend d (deploy_env.more s)) = dx_repo d"
  "dx_target (deploy_env.extend d (deploy_env.more s)) = dx_target d" "ho_repo (deploy_env.extend d (deploy_env.more s)) = ho_repo d"
  by (cases s; simp add: handoff_env.defs deploy_env.defs)+

lemma truncate_handoff:
  "deploy_env.truncate (handoff_env.extend (f (handoff_env.truncate s)) (handoff_env.more s)) = on_handoff f (deploy_env.truncate s)"
  by (cases s) (simp add: on_handoff_def handoff_env.defs deploy_env.defs)

lemma snd_pl_handoff:
  "(\<And>h. snd (m h) = handoff_step c h) \<Longrightarrow>
   snd (pl_handoff m s) = handoff_env.extend (handoff_step c (handoff_env.truncate s)) (handoff_env.more s)"
  by (simp add: pl_handoff_def split: prod.splits) (metis snd_conv)

lemma on_handoff_ok: "deploy_ok d \<Longrightarrow> deploy_ok (on_handoff (handoff_step c) d)"
  using deployment_step_ok [of d _ "DC_Handoff c"] by simp

lemma gentle_handoff: "(\<And>h. snd (m h) = handoff_step c h) \<Longrightarrow> gentle (pl_handoff m)"
  by (auto simp: gentle_def keeps_def frames_def ledger_def sound_def snd_pl_handoff truncate_handoff on_handoff_ok)

lemma sound_add_backtest: "sound s \<Longrightarrow> sound (s\<lparr>ho_backtests := backtest_add_result b (ho_backtests s)\<rparr>)"
  by (cases s) (auto simp: sound_def deploy_ok_def deploy_env.defs intro: bt_rows_add)

lemma gentle_services [keeps_intros]:
  "gentle (pl_validation m1)" "gentle (pl_champion m2)" "gentle (pl_registry m3)" "gentle (pl_paper m4)"
  "gentle (pl_revalidation m5)" "gentle (pl_read f)" "gentle (pl_add_backtest b)"
  "gentle (pl_handoff (handoff_create h))" "gentle (pl_handoff (handoff_approve pid actor ts why))"
proof -
  show "gentle (pl_add_backtest b)" by (auto simp: gentle_def keeps_def frames_def ledger_def pl_add_backtest_def sound_add_backtest)
  show "gentle (pl_handoff (handoff_create h))" by (rule gentle_handoff [of _ "HC_Create h"]) simp
  show "gentle (pl_handoff (handoff_approve pid actor ts why))" by (rule gentle_handoff [of _ "HC_Approve pid actor ts why"]) simp
qed (auto simp: gentle_def keeps_def frames_def ledger_def pl_validation_def pl_champion_def pl_registry_def pl_paper_def
    pl_revalidation_def pl_read_def split: prod.splits)

lemma wp_pl_record:
  assumes "\<And>es. Q () (s\<lparr>env_events := es\<rparr>)" and "E (ValueError ''event payload is too large'') s"
  shows "wp (pl_record ty u actor) Q E s"
  using assms(1) [of "env_events s"] assms
  by (auto simp: pl_record_def wp_record_once events_append_def split: option.splits)

lemma wp_persist [wp_simps]:
  "wp (pl_persist u st) Q E s = Q () (s\<lparr>pl_runs := put_pipeline_run u (pl_runs s), pl_checkpoints := put_checkpoint u st (pl_checkpoints s)\<rparr>)"
  by (simp add: pl_persist_def wp_simps)

lemma wp_pl_increment [wp_simps]:
  "wp (pl_increment name) Q E s = Q () (s\<lparr>env_metrics := map_option (\<lambda>ms. ms @ [MIncrement name []]) (env_metrics s)\<rparr>)"
  by (simp add: pl_increment_def wp_increment)

lemma wp_with_run [wp_simps]: "wp (with_run run m) Q E s = wp m Q (\<lambda>e t. E (e, run) t) s"
  by (simp add: with_run_def wp_simps)

lemma wp_early [wp_simps]: "wp (early m) Q E s = wp m (\<lambda>r t. Q (Inl r) t) E s"
  by (simp add: early_def wp_simps)

lemma wp_branch: "(b \<Longrightarrow> wp m Q E s) \<Longrightarrow> (\<not> b \<Longrightarrow> wp n Q E s) \<Longrightarrow> wp (if b then m else n) Q E s"
  by simp

lemma wp_pl_read [wp_simps]: "wp (pl_read f) Q E s = (case f s of Inl e \<Rightarrow> E e s | Inr x \<Rightarrow> Q x s)"
  by (simp add: pl_read_def wp_def)

text \<open>A run that is persisted replaces the stored one.\<close>

lemma stored_put:
  assumes "rows q s0 s" and "pn_run_id u = gq_run_id q"
  shows "stored q s0 u (s\<lparr>pl_runs := put_pipeline_run u (pl_runs s), pl_checkpoints := cs\<rparr>)"
  using assms by (auto simp: rows_def stored_def put_pipeline_run_def)

lemma undeployed_simps [simp]:
  "undeployed q s0 (s\<lparr>pl_runs := rs\<rparr>) = undeployed q s0 s" "undeployed q s0 (s\<lparr>pl_checkpoints := cs\<rparr>) = undeployed q s0 s"
  by (simp_all add: undeployed_def)

text \<open>The parts of the state a later step still relies on.\<close>

definition untouched :: "'d pipeline_env \<Rightarrow> 'd pipeline_env \<Rightarrow> bool" where
  "untouched s t \<longleftrightarrow> dx_repo t = dx_repo s \<and> dx_target t = dx_target s \<and> ho_repo t = ho_repo s"

lemma untouched_simps [simp]:
  "untouched s s" "untouched s (t\<lparr>env_events := es\<rparr>) = untouched s t" "untouched s (t\<lparr>env_metrics := ms\<rparr>) = untouched s t"
  "untouched s (t\<lparr>pl_runs := rs\<rparr>) = untouched s t" "untouched s (t\<lparr>pl_checkpoints := cs\<rparr>) = untouched s t"
  by (simp_all add: untouched_def)

lemma append_stage_take:
  assumes "i \<le> k" and "i < length stage_order"
  shows "stage_order ! i \<notin> set (take k stage_order) \<Longrightarrow> append_stage (take k stage_order) (stage_order ! i) = take (Suc i) stage_order"
    "stage_order ! i \<in> set (take k stage_order) \<Longrightarrow> Suc i \<le> k"
proof -
  have d: "distinct stage_order" by (simp add: stage_order_def)
  have m: "stage_order ! i \<in> set (take k stage_order) \<longleftrightarrow> i < k"
    using assms(2) d by (auto simp: in_set_conv_nth nth_eq_iff_index_eq)
  show "stage_order ! i \<notin> set (take k stage_order) \<Longrightarrow> append_stage (take k stage_order) (stage_order ! i) = take (Suc i) stage_order"
    using assms m by (simp add: append_stage_def take_Suc_conv_app_nth)
  show "stage_order ! i \<in> set (take k stage_order) \<Longrightarrow> Suc i \<le> k"
    using m by simp
qed

lemma pl_complete_wp:
  assumes "running q s0 i run s" and "i < 12" and "st = stage_order ! i" and "approvals (Suc i) q"
  shows "wp (pl_complete run st (gq_requested_at q) refs) (\<lambda>u t. running q s0 (Suc i) u t \<and> untouched s t) (\<lambda>_ t. resting q s0 run t) s"
proof -
  obtain k where k: "i \<le> k" "pn_completed run = take k stage_order" using assms(1) by (auto simp: running_def)
  have len: "i < length stage_order" using assms(2) by (simp add: stage_order_def)
  note st = append_stage_take [OF k(1) len]
  show ?thesis
  proof (cases "st \<in> set (pn_completed run)")
    case True
    then have "Suc i \<le> k" using st(2) k(2) assms(3) by simp
    then have "running q s0 (Suc i) run s" using assms(1,4) k(2) unfolding running_def by blast
    then show ?thesis using True by (simp add: pl_complete_def wp_simps)
  next
    case False
    define u where "u = run\<lparr>pn_stage := st, pn_completed := append_stage (pn_completed run) st, pn_refs := merge_refs (pn_refs run) refs,
         pn_message := stage_value st @ '' completed'', pn_updated_at := gq_requested_at q\<rparr>"
    let ?t = "s\<lparr>pl_runs := put_pipeline_run u (pl_runs s), pl_checkpoints := put_checkpoint u st (pl_checkpoints s)\<rparr>"
    have c: "pn_completed u = take (Suc i) stage_order" using st(1) False k(2) assms(3) by (simp add: u_def)
    have p: "prefix (pn_completed run) (pn_completed u)" by (simp add: u_def append_stage_def)
    have id: "pn_run_id u = gq_run_id q" using assms(1) by (simp add: u_def running_def continues_def)
    have cont: "continues q s0 u" using assms(1) p by (auto simp: running_def continues_def u_def intro: prefix_order.trans)
    have ok: "pl_run_ok u" using c assms(1) by (auto simp: pl_run_ok_def u_def running_def)
    have r: "rows q s0 s" "undeployed q s0 s" "continues q s0 run" "pn_status run = PL_RUNNING" "sound s" using assms(1) by (simp_all add: running_def)
    have rows: "rows q s0 ?t" using stored_put [OF r(1) id] ok cont by (auto simp: rows_def)
    have after: "running q s0 (Suc i) u ?t"
      using cont rows r c assms(4) by (auto simp: running_def u_def)
    have old: "resting q s0 run ?t"
      using rows r k(2) by (auto simp: resting_def)
    have same: "running q s0 j x (?t\<lparr>env_events := es\<rparr>) = running q s0 j x ?t" for j x es by (rule ledger_same) simp_all
    show ?thesis
      using False after old unfolding pl_complete_def u_def [symmetric]
      by (simp add: wp_bind wp_then wp_basic wp_persist u_def [symmetric] same) (rule wp_pl_record; simp add: same wp_basic)
  qed
qed

text \<open>A report of a run that was just stored.\<close>

lemma closing_wp:
  assumes "resting q s0 run s" and "pn_run_id u = pn_run_id run" "pn_correlation_id u = pn_correlation_id run"
    "pn_created_at u = pn_created_at run" and "pl_run_ok u" and "prefix (pn_completed run) (pn_completed u)"
    and "\<And>t. untouched s t \<Longrightarrow> verdict ad q (pn_status u) t"
  shows "wp (thenO (pl_persist u st) (thenO (pl_record ty u actor) (thenO (pl_increment name) (retO (report_of_run u)))))
     (reported ad q s0) (\<lambda>e t. e = ValueError ''event payload is too large'' \<and> resting q s0 run t \<and> resting q s0 u t) s"
proof -
  let ?t = "s\<lparr>pl_runs := put_pipeline_run u (pl_runs s), pl_checkpoints := put_checkpoint u st (pl_checkpoints s)\<rparr>"
  have r: "rows q s0 s" "undeployed q s0 s" "continues q s0 run" "\<exists>k. pn_completed run = take k stage_order" "sound s"
    using assms(1) by (auto simp: resting_def)
  have cont: "continues q s0 u" using r(3) assms(2-4,6) by (auto simp: continues_def intro: prefix_order.trans)
  have sto: "stored q s0 u ?t" using stored_put [OF r(1)] assms(2) r(3) by (simp add: continues_def)
  have "rows q s0 ?t" using sto cont assms(5) by (auto simp: rows_def)
  then have "resting q s0 run ?t" "resting q s0 u ?t" using r cont assms(5) by (auto simp: resting_def pl_run_ok_def)
  moreover have "resting q s0 x (?t\<lparr>env_events := es\<rparr>) = resting q s0 x ?t" for x es by (rule ledger_same) simp_all
  moreover have "stored q s0 u (?t\<lparr>env_events := es, env_metrics := ms\<rparr>) = stored q s0 u ?t" for es ms by (rule ledger_same) simp_all
  moreover have "undeployed q s0 (?t\<lparr>env_events := es, env_metrics := ms\<rparr>) = undeployed q s0 ?t" for es ms by (rule ledger_same) simp_all
  ultimately show ?thesis
    using sto cont assms(5,7) r(2,5) unfolding wp_then wp_persist
    by (intro wp_pl_record) (auto simp: wp_simps reported_def intro!: exI [of _ u])
qed

lemma pl_run_ok_simps:
  "pn_status u = PL_WAITING \<Longrightarrow> pl_run_ok u \<longleftrightarrow> (\<exists>k. pn_completed u = take k stage_order) \<and> pn_waiting u = Some (pn_stage u) \<and>
     pn_stage u \<in> {PS_PROMOTION_APPROVAL, PS_DEPLOYMENT_APPROVAL}"
  "pn_status u = PL_BLOCKED \<Longrightarrow> pl_run_ok u \<longleftrightarrow> (\<exists>k. pn_completed u = take k stage_order) \<and> pn_failure u = Some (pn_stage u) \<and>
     pn_stage u \<in> set blocking_stages"
  "pn_status u = PL_FAILED \<Longrightarrow> pl_run_ok u \<longleftrightarrow> (\<exists>k. pn_completed u = take k stage_order) \<and> pn_failure u = Some (pn_stage u)"
  by (simp_all add: pl_run_ok_def)

lemma running_stages: "running q s0 i run s \<Longrightarrow> \<exists>k. pn_completed run = take k stage_order"
  by (auto simp: running_def)

lemma pl_wait_wp:
  assumes "running q s0 i run s" and "st \<in> {PS_PROMOTION_APPROVAL, PS_DEPLOYMENT_APPROVAL}" and "\<not> fully_approved q"
  shows "wp (pl_wait run st q refs) (reported ad q s0) (\<lambda>_ t. resting q s0 run t) s"
  unfolding pl_wait_def wp_bind wp_basic
  using running_stages [OF assms(1)] assms(2,3)
  by (intro wp_mono [OF closing_wp [OF running_resting [OF assms(1)]]]) (auto simp: pl_run_ok_simps verdict_def)

lemma pl_block_wp:
  assumes "running q s0 i run s" and "st \<in> set blocking_stages"
  shows "wp (pl_block run st q msg refs) (reported ad q s0) (\<lambda>_ t. resting q s0 run t) s"
  unfolding pl_block_def wp_bind wp_basic
  using running_stages [OF assms(1)] assms(2)
  by (intro wp_mono [OF closing_wp [OF running_resting [OF assms(1)]]]) (auto simp: pl_run_ok_simps verdict_def)

text \<open>A run that fails is reported with the error's class, unless its event is too large.\<close>

lemma resting_stages: "resting q s0 run s \<Longrightarrow> \<exists>k. pn_completed run = take k stage_order"
  by (auto simp: resting_def)

lemma pl_failure_wp:
  assumes "resting q s0 run s"
  shows "wp (pl_failure q (e, run)) (\<lambda>x t. \<exists>r. x = Inr r \<and> reported ad q s0 r t)
    (\<lambda>e t. e = ValueError ''event payload is too large'' \<and> resting q s0 run t) s"
proof -
  have "wp (thenO (pl_persist (failed_run q e run) (pn_stage run)) (thenO (pl_record ''GaonV5PipelineFailed'' (failed_run q e run) (gq_actor_ref q))
      (thenO (pl_increment ''gaon_v5_pipeline_failed_total'') (retO (report_of_run (failed_run q e run))))))
     (reported ad q s0) (\<lambda>er t. er = ValueError ''event payload is too large'' \<and> resting q s0 run t \<and> resting q s0 (failed_run q e run) t) s"
    using resting_stages [OF assms] by (intro closing_wp [OF assms]) (auto simp: failed_run_def pl_run_ok_simps verdict_def)
  then show ?thesis unfolding pl_failure_def by (auto simp: wp_simps elim!: wp_mono)
qed

section \<open>The phases\<close>

text \<open>A phase ends the call with a report, goes on with the run in the next stage, or raises with the run it had.\<close>

definition after :: "'d deployment_adapter \<Rightarrow> pipeline_request \<Rightarrow> 'd pipeline_env \<Rightarrow> ('a \<Rightarrow> 'd pipeline_env \<Rightarrow> bool) \<Rightarrow>
    pipeline_report + 'a \<Rightarrow> 'd pipeline_env \<Rightarrow> bool" where
  "after ad q s0 P x t \<longleftrightarrow> (case x of Inl r \<Rightarrow> reported ad q s0 r t | Inr y \<Rightarrow> P y t)"

definition raised :: "pipeline_request \<Rightarrow> 'd pipeline_env \<Rightarrow> pyerr \<times> pipeline_run \<Rightarrow> 'd pipeline_env \<Rightarrow> bool" where
  "raised q s0 = (\<lambda>(e, run) t. resting q s0 run t)"

lemma after_simps [simp]:
  "after ad q s0 P (Inl r) t = reported ad q s0 r t" "after ad q s0 P (Inr y) t = P y t" "raised q s0 (e, run) t = resting q s0 run t"
  by (simp_all add: after_def raised_def)

lemma next_phase_wp:
  assumes "wp m (after ad q s0 P) E s" and "\<And>y t. P y t \<Longrightarrow> wp (f y) (after ad q s0 P') E t"
  shows "wp (next_phase m f) (after ad q s0 P') E s"
  unfolding next_phase_def wp_bind
proof (rule wp_mono [OF assms(1)])
  fix x t assume "after ad q s0 P x t"
  then show "wp (case x of Inl r \<Rightarrow> retO (Inl r) | Inr y \<Rightarrow> f y) (after ad q s0 P') E t"
    using assms(2) by (cases x) (simp_all add: wp_simps)
qed

lemma completing_wp:
  assumes "running q s0 i run s" and "i < 12" and "st = stage_order ! i" and "approvals (Suc i) q"
    and "\<And>u t. running q s0 (Suc i) u t \<Longrightarrow> untouched s t \<Longrightarrow> P (u, x) t"
  shows "wp (completing run st q refs x) (after ad q s0 P) (\<lambda>e t. resting q s0 run t) s"
  unfolding completing_def wp_bind
  by (rule wp_mono [OF pl_complete_wp [OF assms(1-4)]]) (simp_all add: wp_simps assms(5))

lemma block_wp:
  "running q s0 i run s \<Longrightarrow> st \<in> set blocking_stages \<Longrightarrow>
   wp (early (pl_block run st q msg refs)) (after ad q s0 P) (\<lambda>e t. resting q s0 run t) s"
  unfolding wp_early after_simps by (rule pl_block_wp)

lemma wait_wp:
  "running q s0 i run s \<Longrightarrow> st \<in> {PS_PROMOTION_APPROVAL, PS_DEPLOYMENT_APPROVAL} \<Longrightarrow> \<not> fully_approved q \<Longrightarrow>
   wp (early (pl_wait run st q refs)) (after ad q s0 P) (\<lambda>e t. resting q s0 run t) s"
  unfolding wp_early after_simps by (rule pl_wait_wp)

definition at_stage :: "pipeline_request \<Rightarrow> 'd pipeline_env \<Rightarrow> nat \<Rightarrow> pipeline_run \<times> 'a \<Rightarrow> 'd pipeline_env \<Rightarrow> bool" where
  "at_stage q s0 i = (\<lambda>(run, _) t. running q s0 i run t)"

lemma at_stage_simps [simp]: "at_stage q s0 i (run, x) t = running q s0 i run t"
  by (simp add: at_stage_def)

lemma stage_wp:
  assumes "running q s0 i run s" and "i < 12" and "st = stage_order ! i" and "Suc i = 5 \<Longrightarrow> gq_approve_promotion q"
    and "Suc i = 10 \<Longrightarrow> gq_approve_deployment q" and "j = Suc i"
  shows "wp (completing run st q refs x) (after ad q s0 (at_stage q s0 j)) (\<lambda>e t. resting q s0 run t) s"
proof -
  have "approvals i q" using assms(1) by (simp add: running_def)
  then have "approvals (Suc i) q" using assms(4,5) by (auto simp: approvals_def le_Suc_eq)
  then show ?thesis using assms(6) by (auto intro: completing_wp [OF assms(1-3)])
qed

lemma stage_at:
  "stage_order ! 0 = PS_RESEARCH" "stage_order ! 1 = PS_BACKTEST" "stage_order ! 2 = PS_VALIDATION" "stage_order ! 3 = PS_CHAMPION_EVALUATION"
  "stage_order ! 4 = PS_PROMOTION_APPROVAL" "stage_order ! 5 = PS_CHAMPION_ACTIVATION" "stage_order ! 6 = PS_PAPER_FORWARD_TEST"
  "stage_order ! 7 = PS_PAPER_REVALIDATION" "stage_order ! 8 = PS_HANDOFF_PACKAGE" "stage_order ! 9 = PS_DEPLOYMENT_APPROVAL"
  "stage_order ! 10 = PS_DEPLOYMENT" "stage_order ! 11 = PS_VERIFICATION"
  by (simp_all add: stage_order_def eval_nat_numeral)

lemmas phase_simps = stage_at stage_at(2) [unfolded One_nat_def] blocking_stages_def fully_approved_def

lemmas phase_enter = wp_with_run raised_def case_prod_conv

text \<open>A service call in a phase: the run is where it was, whatever the service did.\<close>

lemma service_wp:
  assumes "gentle m" and "running q s0 i run s"
    and "\<And>x t. running q s0 i run t \<Longrightarrow> wp (f x) Q (\<lambda>e t. resting q s0 run t) t"
  shows "wp (bindO m f) Q (\<lambda>e t. resting q s0 run t) s"
  unfolding wp_bind by (rule wp_gentle [OF assms(1,2)]) (auto intro: assms(3) running_resting)

lemma service_then_wp:
  assumes "gentle m" and "running q s0 i run s"
    and "\<And>t. running q s0 i run t \<Longrightarrow> wp n Q (\<lambda>e t. resting q s0 run t) t"
  shows "wp (thenO m n) Q (\<lambda>e t. resting q s0 run t) s"
  unfolding thenO_def by (rule service_wp [OF assms])

lemmas service_steps = gentle_services [THEN service_wp] gentle_services [THEN service_then_wp]

lemma lift_wp:
  assumes "running q s0 i run s" and "\<And>x. r = Inr x \<Longrightarrow> running q s0 i run s \<Longrightarrow> wp (f x) Q (\<lambda>e t. resting q s0 run t) s"
  shows "wp (bindO (liftO r) f) Q (\<lambda>e t. resting q s0 run t) s"
  using assms running_resting [OF assms(1)] by (cases r) (simp_all add: wp_simps)

lemma research_wp:
  "running q s0 0 run s \<Longrightarrow> wp (research_phase q run) (after ad q s0 (at_stage q s0 1)) (raised q s0) s"
  unfolding research_phase_def phase_enter by (erule stage_wp) (simp_all add: phase_simps)

lemma backtest_wp:
  "running q s0 1 run s \<Longrightarrow> wp (backtest_phase q run) (after ad q s0 (at_stage q s0 2)) (raised q s0) s"
  unfolding backtest_phase_def phase_enter
  apply (erule service_steps)+
  apply (erule lift_wp)
  apply (clarsimp split: prod.split)
  apply (erule service_steps)+
  apply (erule stage_wp)
  apply (simp_all add: phase_simps)
  done

lemma validation_phase_wp:
  "running q s0 2 run s \<Longrightarrow> wp (validation_phase q run h) (after ad q s0 (at_stage q s0 3)) (raised q s0) s"
  unfolding validation_phase_def phase_enter
  apply (erule lift_wp)
  apply (erule service_steps)
  apply (rule wp_branch)
   apply (erule block_wp)
   apply (simp add: phase_simps)
  apply (erule stage_wp)
  apply (simp_all add: phase_simps)
  done

lemma evaluation_phase_wp:
  assumes "running q s0 3 run s"
  shows "wp (evaluation_phase q run c h v) (after ad q s0 (at_stage q s0 4)) (raised q s0) s"
proof -
  have boot: "gentle (if active = None then thenO (pl_registry m) (retO ()) else retO ())" for active :: "registry_entry option" and m :: "(registry_env, 'b) opr"
    by (intro gentle_if gentle_then gentle_services gentle_ret)
  show ?thesis
    unfolding evaluation_phase_def phase_enter
    apply (rule service_steps [OF assms])
    apply (erule service_then_wp [OF boot])
    apply (erule lift_wp)
    apply (erule service_steps)
    apply (rule wp_branch)
     apply (erule block_wp)
     apply (simp add: phase_simps)
    apply (erule stage_wp)
    apply (simp_all add: phase_simps)
    done
qed

lemma promotion_phase_wp:
  assumes "running q s0 4 run s"
  shows "wp (promotion_phase q run e) (after ad q s0 (at_stage q s0 6)) (raised q s0) s"
  unfolding promotion_phase_def
proof (rule next_phase_wp [where P = "at_stage q s0 5"], goal_cases)
  case 1
  show ?case
    unfolding phase_enter
    apply (rule service_steps [OF assms])
    apply (rule wp_branch)
     apply (erule service_steps)
     apply (erule block_wp)
     apply (simp add: phase_simps)
    apply (rule wp_branch)
     apply (erule wait_wp)
      apply (simp_all add: phase_simps)
    apply (erule service_steps)
    apply (erule stage_wp)
    apply (simp_all add: phase_simps)
    done
next
  case (2 y t)
  then show ?case
    by (cases y) (auto simp: phase_enter phase_simps intro!: stage_wp [where i = 5])
qed

lemma paper_phase_wp:
  "running q s0 6 run s \<Longrightarrow> wp (paper_phase q run) (after ad q s0 (at_stage q s0 7)) (raised q s0) s"
  unfolding paper_phase_def phase_enter
  apply (erule service_steps)
  apply (clarsimp split: prod.split)
  apply (erule stage_wp)
  apply (simp_all add: phase_simps)
  done

lemma revalidation_phase_wp:
  "running q s0 7 run s \<Longrightarrow> wp (revalidation_phase q run a x m) (after ad q s0 (at_stage q s0 8)) (raised q s0) s"
  unfolding revalidation_phase_def phase_enter
  apply (erule service_steps)
  apply (rule wp_branch)
   apply (erule block_wp)
   apply (simp add: phase_simps)
  apply (erule stage_wp)
  apply (simp_all add: phase_simps)
  done

lemma handoff_phase_wp:
  assumes "running q s0 8 run s"
  shows "wp (handoff_phase q run r) (after ad q s0 (at_stage q s0 10)) (raised q s0) s"
  unfolding handoff_phase_def
proof (rule next_phase_wp [where P = "at_stage q s0 9"], goal_cases)
  case 1
  show ?case
    unfolding phase_enter
    apply (rule lift_wp [OF assms])
    apply (rule service_steps [OF assms])
    apply (erule stage_wp)
    apply (simp_all add: phase_simps)
    done
next
  case (2 y t)
  obtain u p where y: "y = (u, p)" by (cases y)
  from 2 show ?case
    unfolding y phase_enter at_stage_simps
    apply (intro wp_branch)
     apply (erule wait_wp)
      apply (simp_all add: phase_simps)
    apply (erule service_steps)
    apply (rule wp_branch)
     apply (erule block_wp)
     apply (simp add: phase_simps)
    apply (erule stage_wp)
    apply (simp_all add: phase_simps)
    done
qed

section \<open>Deployment\<close>

definition with_deploy :: "'d pipeline_env \<Rightarrow> 'd deploy_env \<Rightarrow> 'd pipeline_env" where
  "with_deploy s t = deploy_env.extend t (deploy_env.more s)"

lemma with_deploy_fields [simp]:
  "pl_runs (with_deploy s t) = pl_runs s" "dx_repo (with_deploy s t) = dx_repo t" "dx_target (with_deploy s t) = dx_target t"
  "ho_repo (with_deploy s t) = ho_repo t" "sound (with_deploy s t) = deploy_ok t"
  "ho_repo (deploy_env.truncate s) = ho_repo s" "dx_repo (deploy_env.truncate s) = dx_repo s" "dx_target (deploy_env.truncate s) = dx_target s"
  by (cases s; cases t; simp add: with_deploy_def sound_def deploy_env.defs)+

lemma wp_pl_deploy:
  "wp (pl_deploy m) Q E s = wp m (\<lambda>x t. Q x (with_deploy s t)) (\<lambda>e t. E e (with_deploy s t)) (deploy_env.truncate s)"
  by (simp add: wp_def pl_deploy_def with_deploy_def split: prod.split)

lemma wp_keeps: "wp m Q E s \<Longrightarrow> keeps I m \<Longrightarrow> I s \<Longrightarrow> wp m (\<lambda>x t. Q x t \<and> I t) (\<lambda>e t. E e t \<and> I t) s"
  by (auto simp: wp_def keeps_def split: prod.splits sum.splits)

lemma running_deploy:
  "running q s0 10 run s \<Longrightarrow> deploy_ok t \<Longrightarrow> running q s0 10 run (with_deploy s t)"
  by (auto simp: running_def rows_def stored_def undeployed_def approvals_def fully_approved_def)

lemma deployment_keeps: "keeps deploy_ok (deployment_plan_op ad pol r)" "keeps deploy_ok (deployment_run_op ad plan_id actor ts)"
  using deployment_step_ok [of _ ad "DC_Plan pol r"] deployment_step_ok [of _ ad "DC_Run plan_id actor ts"] by (simp_all add: keeps_def)

lemma deployment_service_wp:
  assumes "running q s0 10 run s" and "keeps deploy_ok m" and "wp m Q' (\<lambda>_ _. True) (deploy_env.truncate s)"
    and "\<And>x t. Q' x t \<Longrightarrow> running q s0 10 run (with_deploy s t) \<Longrightarrow> wp (f x) Q (\<lambda>e t. resting q s0 run t) (with_deploy s t)"
  shows "wp (bindO (pl_deploy m) f) Q (\<lambda>e t. resting q s0 run t) s"
proof -
  have "deploy_ok (deploy_env.truncate s)" using assms(1) by (simp add: running_def sound_def)
  then show ?thesis
    unfolding wp_bind wp_pl_deploy
    by (rule wp_mono [OF wp_keeps [OF assms(3,2)]])
      (auto intro: assms(4) running_deploy [OF assms(1)] running_resting [OF running_deploy [OF assms(1)]])
qed

lemma succeeded_deployed:
  assumes "deployment_run_effect ad (\<lambda>_ _. True) plan_id ts s r t" and "deploy_ok s" and "run_frame s t" and "dr_status r = DS_SUCCEEDED"
  shows "\<exists>plan p b d0 d1. t_get (deployment_run_id plan) (dx_runs (dx_repo t)) = Some r \<and> dr_package_id r = dp_package_id plan \<and>
     hr_get (dp_package_id plan) (ho_repo t) = Inr p \<and> hp_status p = HS_APPROVED \<and>
     applied_target ad plan p ts d0 = Some (b, d1) \<and> checked_target ad p d1 = Some (dx_target t)"
proof -
  obtain plan p where plan: "dx_get_plan plan_id (dx_repo s) = Inr plan" and p: "hr_get (dp_package_id plan) (ho_repo s) = Inr p"
    and ran: "dp_status plan \<noteq> DS_BLOCKED" "run_outcome ad (\<lambda>_ _. True) plan p ts (dx_target s) r t"
    using assms(1,4) unfolding deployment_run_effect_def by (auto split: if_splits)
  have "passed_plan_ok plan (ho_repo s)" "handoff_ok (ho_repo s)" using assms(2) plan by (auto simp: deploy_ok_def)
  then have "hp_status p = HS_APPROVED" using ran(1) p by (auto simp: passed_plan_ok_def hr_get_ok)
  moreover have "ho_repo t = ho_repo s" using assms(3) by (simp add: run_frame_def same_sources_def)
  ultimately show ?thesis
    using ran(2) assms(4) p by (auto simp: run_outcome_def rolled_run_def stored_run_def split: if_splits) blast+
qed

lemma deployment_phase_wp:
  assumes "running q s0 10 run s"
  shows "wp (deployment_phase ad q run p) (after ad q s0 (\<lambda>(run, d) t. running q s0 11 run t \<and> deployed ad (gq_requested_at q) t)) (raised q s0) s"
  unfolding deployment_phase_def phase_enter
proof (rule lift_wp [OF assms], rule deployment_service_wp [OF assms, where Q' = "\<lambda>_ _. True"], goal_cases)
  case (3 r plan t)
  have ok: "deploy_ok t" using 3(4) by (simp add: running_def)
  have tr: "deploy_env.truncate (with_deploy s t) = t" by (cases s; cases t) (simp add: with_deploy_def deploy_env.defs)
  show ?case
  proof (rule deployment_service_wp [OF 3(4), where
        Q' = "\<lambda>d u. deployment_run_effect ad (\<lambda>_ _. True) (dp_plan_id plan) (gq_requested_at q) t d u \<and> run_frame t u"], goal_cases)
    case 2
    show ?case unfolding tr
      by (rule wp_mono [OF wp_keeps [OF deployment_run_wp run_keeps]]) (simp_all add: run_invariant_def)
  next
    case (3 d u)
    show ?case
    proof (rule wp_branch)
      assume "dr_status d \<noteq> DS_SUCCEEDED"
      show "wp (early (pl_block run PS_DEPLOYMENT q (''deployment '' @ deployment_status_value (dr_status d)) [(''deployment_run_id'', dr_run_id d)]))
          (after ad q s0 (\<lambda>(run, d) t. running q s0 11 run t \<and> deployed ad (gq_requested_at q) t)) (\<lambda>e t. resting q s0 run t) (with_deploy (with_deploy s t) u)"
        by (rule block_wp [OF 3(2)]) (simp add: phase_simps)
    next
      assume "\<not> dr_status d \<noteq> DS_SUCCEEDED"
      then have st: "dr_status d = DS_SUCCEEDED" by simp
      have "deployed ad (gq_requested_at q) v" if "untouched (with_deploy (with_deploy s t) u) v" for v
        using succeeded_deployed [OF _ ok _ st] 3(1) that st unfolding deployed_def untouched_def by simp blast
      then show "wp (completing run PS_DEPLOYMENT q [(''deployment_run_id'', dr_run_id d)] d)
          (after ad q s0 (\<lambda>(run, d) t. running q s0 11 run t \<and> deployed ad (gq_requested_at q) t)) (\<lambda>e t. resting q s0 run t) (with_deploy (with_deploy s t) u)"
        using 3(2) by (intro completing_wp [OF 3(2)]) (auto simp: phase_simps running_def approvals_def)
    qed
  qed (rule deployment_keeps)
qed (simp_all add: deployment_keeps wp_def split: prod.split sum.split)

section \<open>A whole call\<close>

lemma finished_stages:
  assumes "12 \<le> k"
  shows "append_stage (take k stage_order) PS_COMPLETED = stage_order"
proof (cases "k = 12")
  case False
  then have "take k stage_order = stage_order" using assms by (intro take_all) (simp add: stage_order_def)
  then show ?thesis by (simp add: append_stage_def stage_order_def)
qed (simp add: append_stage_def stage_order_def eval_nat_numeral)

lemma finish_phase_wp:
  assumes "running q s0 11 run s" and "deployed ad (gq_requested_at q) s"
  shows "wp (finish_phase q run d) (after ad q s0 (reported ad q s0)) (raised q s0) s"
  unfolding finish_phase_def
proof (rule next_phase_wp [where P = "\<lambda>(run, _) t. running q s0 12 run t \<and> untouched s t"], goal_cases)
  case 1
  show ?case
    unfolding phase_enter by (rule completing_wp [OF assms(1)]) (use assms(1) in \<open>auto simp: phase_simps running_def approvals_def\<close>)
next
  case (2 y t)
  obtain u where y: "y = (u, ())" "running q s0 12 u t" "untouched s t" using 2 by (cases y) auto
  obtain k where k: "12 \<le> k" "pn_completed u = take k stage_order" using y(2) by (auto simp: running_def)
  have all: "pn_completed (finished_run q u) = stage_order" using finished_stages [OF k(1)] k(2) by (simp add: finished_run_def)
  have "stage_order = take 13 stage_order" by (simp add: stage_order_def)
  then have ok: "pl_run_ok (finished_run q u)" using all by (auto simp: pl_run_ok_def finished_run_def)
  have kept: "deployed ad (gq_requested_at q) v" if "untouched t v" for v
    using assms(2) y(3) that by (auto simp: deployed_def untouched_def)
  have "prefix (pn_completed u) (pn_completed (finished_run q u))" by (simp add: finished_run_def append_stage_def)
  then have "wp (thenO (pl_persist (finished_run q u) PS_COMPLETED) (thenO (pl_record ''GaonV5PipelineCompleted'' (finished_run q u) (gq_actor_ref q))
      (thenO (pl_increment ''gaon_v5_pipeline_completed_total'') (retO (report_of_run (finished_run q u))))))
     (reported ad q s0) (\<lambda>e t. e = ValueError ''event payload is too large'' \<and> resting q s0 u t \<and> resting q s0 (finished_run q u) t) t"
    using y(2) kept by (intro closing_wp [OF running_resting [OF y(2)]])
      (auto simp: ok, auto simp: finished_run_def verdict_def fully_approved_def running_def approvals_def)
  then show ?case
    unfolding y(1) by (auto simp: phase_enter wp_simps elim!: wp_mono)
qed

lemma body_wp:
  assumes "running q s0 0 run s"
  shows "wp (pipeline_body ad q run) (after ad q s0 (reported ad q s0)) (raised q s0) s"
  unfolding pipeline_body_def
  apply (rule next_phase_wp [OF research_wp [OF assms]], clarsimp split: prod.splits)
  apply (rule next_phase_wp, erule backtest_wp [unfolded One_nat_def], clarsimp split: prod.splits)
  apply (rule next_phase_wp, erule validation_phase_wp, clarsimp split: prod.splits)
  apply (rule next_phase_wp, erule evaluation_phase_wp, clarsimp split: prod.splits)
  apply (rule next_phase_wp, erule promotion_phase_wp, clarsimp split: prod.splits)
  apply (rule next_phase_wp, erule paper_phase_wp, clarsimp split: prod.splits)
  apply (rule next_phase_wp, erule revalidation_phase_wp, clarsimp split: prod.splits)
  apply (rule next_phase_wp, erule handoff_phase_wp, clarsimp split: prod.splits)
  apply (rule next_phase_wp, erule deployment_phase_wp, clarsimp split: prod.splits)
  apply (erule (1) finish_phase_wp)
  done

text \<open>A completed run, and one that still waits for an approval the request lacks, is only reported.\<close>

definition only_reported :: "pipeline_request \<Rightarrow> pipeline_run \<Rightarrow> bool" where
  "only_reported q u \<longleftrightarrow> pn_status u = PL_COMPLETED \<or> still_waiting q u"

definition call_report :: "'d deployment_adapter \<Rightarrow> pipeline_request \<Rightarrow> 'd pipeline_env \<Rightarrow> pipeline_report \<Rightarrow> 'd pipeline_env \<Rightarrow> bool" where
  "call_report ad q s r t \<longleftrightarrow> (case t_get (gq_run_id q) (pl_runs s) of
      None \<Rightarrow> reported ad q s r t
    | Some (c, u) \<Rightarrow> if only_reported q u then r = report_of_run (sorted_refs u) \<and> t = s else reported ad q s r t)"

lemma sorted_refs_fields [simp]:
  "pn_run_id (sorted_refs u) = pn_run_id u" "pn_correlation_id (sorted_refs u) = pn_correlation_id u" "pn_status (sorted_refs u) = pn_status u"
  "pn_stage (sorted_refs u) = pn_stage u" "pn_completed (sorted_refs u) = pn_completed u" "pn_failure (sorted_refs u) = pn_failure u"
  "pn_waiting (sorted_refs u) = pn_waiting u" "pn_created_at (sorted_refs u) = pn_created_at u" "pn_message (sorted_refs u) = pn_message u"
  "still_waiting q (sorted_refs u) = still_waiting q u" "only_reported q (sorted_refs u) = only_reported q u"
  by (simp_all add: sorted_refs_def still_waiting_def only_reported_def)

definition rerun :: "'d deployment_adapter \<Rightarrow> pipeline_request \<Rightarrow> pipeline_run \<Rightarrow> ('d pipeline_env, pipeline_report) opr" where
  "rerun ad q run = thenO (pl_record ''GaonV5PipelineStarted'' run (gq_actor_ref q))
      (bindO (catchO (pipeline_body ad q run) (pl_failure q)) (\<lambda>x. case x of Inl r \<Rightarrow> retO r | Inr r \<Rightarrow> retO r))"

lemma rerun_wp:
  assumes "running q s0 0 run s"
  shows "wp (rerun ad q run) (reported ad q s0) (\<lambda>e t. e = ValueError ''event payload is too large'' \<and> (\<exists>u. resting q s0 u t)) s"
proof -
  have go: "wp (bindO (catchO (pipeline_body ad q run) (pl_failure q)) (\<lambda>x. case x of Inl r \<Rightarrow> retO r | Inr r \<Rightarrow> retO r)) (reported ad q s0)
     (\<lambda>e t. e = ValueError ''event payload is too large'' \<and> (\<exists>u. resting q s0 u t)) v" if "running q s0 0 run v" for v
    unfolding wp_bind wp_catch
  proof (rule wp_mono [OF body_wp [OF that, of ad]])
    fix x t assume "after ad q s0 (reported ad q s0) x t"
    then show "wp (case x of Inl r \<Rightarrow> retO r | Inr r \<Rightarrow> retO r) (reported ad q s0) (\<lambda>e t. e = ValueError ''event payload is too large'' \<and> (\<exists>u. resting q s0 u t)) t"
      by (cases x) (simp_all add: wp_basic)
  next
    fix er t assume "raised q s0 er t"
    then have "resting q s0 (snd er) t" by (cases er) simp
    from pl_failure_wp [OF this, of "fst er" ad]
    show "wp (pl_failure q er) (\<lambda>x t. wp (case x of Inl r \<Rightarrow> retO r | Inr r \<Rightarrow> retO r) (reported ad q s0)
        (\<lambda>e t. e = ValueError ''event payload is too large'' \<and> (\<exists>u. resting q s0 u t)) t) (\<lambda>e t. e = ValueError ''event payload is too large'' \<and> (\<exists>u. resting q s0 u t)) t"
      by (auto simp: wp_basic elim!: wp_mono)
  qed
  have "running q s0 0 run (s\<lparr>env_events := es\<rparr>)" for es using assms ledger_same(1) [of "s\<lparr>env_events := es\<rparr>" s] by simp
  then show ?thesis
    unfolding rerun_def wp_then using running_resting [OF assms]
    by (intro wp_pl_record) (auto intro: wp_mono [OF go])
qed

lemma demo_rerun:
  "pipeline_run_demo ad q = bindO (pl_load_or_create q) (\<lambda>u. if only_reported q u then retO (report_of_run u)
     else rerun ad q (u\<lparr>pn_status := PL_RUNNING, pn_updated_at := gq_requested_at q\<rparr>))"
proof -
  have "bindO (retO x) f = f x" for x and f :: "pipeline_run \<Rightarrow> ('a pipeline_env, pipeline_report) opr" by (simp add: fun_eq_iff)
  then show ?thesis by (simp only: pipeline_run_demo_def only_reported_def rerun_def)
qed

lemma demo_wp:
  assumes "pipeline_ok s" and "sound s"
  shows "wp (pipeline_run_demo ad q) (call_report ad q s) (\<lambda>e t. e = ValueError ''event payload is too large'' \<and> (\<exists>u. resting q s u t)) s"
proof (cases "t_get (gq_run_id q) (pl_runs s)")
  case None
  let ?u = "\<lparr>pn_run_id = gq_run_id q, pn_correlation_id = gq_correlation_id q, pn_status = PL_CREATED, pn_stage = PS_RESEARCH,
         pn_completed = [], pn_refs = [], pn_failure = None, pn_waiting = None, pn_message = ''created'',
         pn_created_at = gq_requested_at q, pn_updated_at = gq_requested_at q\<rparr>"
  let ?t = "s\<lparr>pl_runs := put_pipeline_run ?u (pl_runs s), pl_checkpoints := put_checkpoint ?u PS_RESEARCH (pl_checkpoints s),
     env_metrics := map_option (\<lambda>ms. ms @ [MIncrement ''gaon_v5_pipeline_runs_total'' []]) (env_metrics s)\<rparr>"
  have e: "[] = take 0 stage_order" by simp
  have "continues q s ?u" "pl_run_ok ?u" "stored q s ?u ?t" using None
    by (auto simp: continues_def pl_run_ok_def stored_def put_pipeline_run_def intro: e)
  then have "running q s 0 (?u\<lparr>pn_status := PL_RUNNING, pn_updated_at := gq_requested_at q\<rparr>) ?t"
    using None assms(2) e by (auto simp: running_def rows_def approvals_def undeployed_def continues_def)
  from rerun_wp [OF this, of ad] show ?thesis
    using None unfolding demo_rerun pl_load_or_create_def
    by (auto simp: wp_simps get_pipeline_run_def only_reported_def still_waiting_def call_report_def elim!: wp_mono)
next
  case (Some row)
  then obtain c u where row: "t_get (gq_run_id q) (pl_runs s) = Some (c, u)" by (cases row) auto
  have u: "pn_run_id u = gq_run_id q" "pl_run_ok u" using assms(1) row by (auto simp: pipeline_ok_def)
  have got: "get_pipeline_run (gq_run_id q) (pl_runs s) = Inr (sorted_refs u)" by (simp add: get_pipeline_run_def row)
  have load: "pl_load_or_create q s = (Inr (sorted_refs u), s)" by (simp add: pl_load_or_create_def catchO_apply pl_read_def got)
  show ?thesis
  proof (cases "only_reported q u")
    case True
    then show ?thesis by (simp add: demo_rerun wp_def bindO_apply load call_report_def row)
  next
    case False
    then have st: "pn_status u \<noteq> PL_COMPLETED" by (simp add: only_reported_def)
    have "running q s 0 (sorted_refs u\<lparr>pn_status := PL_RUNNING, pn_updated_at := gq_requested_at q\<rparr>) s"
      using u st row assms(2) by (auto simp: running_def rows_def approvals_def undeployed_def continues_def stored_def pl_run_ok_def)
    from rerun_wp [OF this, of ad] show ?thesis
      using False by (auto simp: demo_rerun wp_bind wp_def [of "pl_load_or_create q"] load call_report_def row elim!: wp_mono)
  qed
qed

section \<open>Every sequence of calls\<close>

text \<open>
  Between the calls of the pipeline the handoff and deployment services are called on their own, the
  target changes, and the other services leave any data of theirs.
\<close>

datatype 'd pipeline_call =
    PC_Run pipeline_request
  | PC_Deployment "'d deployment_call"
  | PC_Services validation_repo champion_repo paper_repo trading_repo

fun pipeline_step :: "'d deployment_adapter \<Rightarrow> 'd pipeline_call \<Rightarrow> 'd pipeline_env \<Rightarrow> 'd pipeline_env" where
  "pipeline_step ad (PC_Run q) s = snd (pipeline_run_demo ad q s)"
| "pipeline_step ad (PC_Deployment c) s = with_deploy s (deployment_step ad c (deploy_env.truncate s))"
| "pipeline_step ad (PC_Services v e p t) s = s\<lparr>pl_validations := v, pl_evals := e, pl_papers := p, pl_trading := t\<rparr>"

definition pipeline_env_init :: "durable_event list option \<Rightarrow> metric_call list option \<Rightarrow> 'd \<Rightarrow> 'd pipeline_env" where
  "pipeline_env_init es ms d = deploy_env.extend (deploy_env_init es ms d)
     (pipeline_env.fields validation_repo_init champion_repo_init paper_repo_init trading_repo_init [] [])"

text \<open>No stored run is lost or loses a completed stage, and a completed one does not change at all.\<close>

definition runs_later :: "'d pipeline_env \<Rightarrow> 'd pipeline_env \<Rightarrow> bool" where
  "runs_later s t \<longleftrightarrow> (\<forall>k c u. t_get k (pl_runs s) = Some (c, u) \<longrightarrow>
     (\<exists>u'. t_get k (pl_runs t) = Some (c, u') \<and> pn_correlation_id u' = pn_correlation_id u \<and> pn_created_at u' = pn_created_at u \<and>
        prefix (pn_completed u) (pn_completed u') \<and> (pn_status u = PL_COMPLETED \<longrightarrow> u' = u)))"

lemma runs_later_same: "pl_runs t = pl_runs s \<Longrightarrow> runs_later s t"
  by (simp add: runs_later_def)

lemma runs_later_trans: "runs_later s t \<Longrightarrow> runs_later t u \<Longrightarrow> runs_later s u"
  by (fastforce simp: runs_later_def intro: prefix_order.trans)

lemma rows_later:
  assumes "rows q s t" and "pipeline_ok s"
  shows "pipeline_ok t \<and> runs_later s t"
proof -
  obtain c u where u: "\<And>k. k \<noteq> gq_run_id q \<Longrightarrow> t_get k (pl_runs t) = t_get k (pl_runs s)" "t_get (gq_run_id q) (pl_runs t) = Some (c, u)"
      "\<And>c0 u0. t_get (gq_run_id q) (pl_runs s) = Some (c0, u0) \<Longrightarrow> c = c0" "pl_run_ok u" "continues q s u"
    using assms(1) unfolding rows_def stored_def by blast
  have "pn_run_id v = k \<and> pl_run_ok v" if "t_get k (pl_runs t) = Some (b, v)" for k b v
    using that u assms(2) by (cases "k = gq_run_id q") (auto simp: pipeline_ok_def continues_def)
  moreover have "\<exists>u'. t_get k (pl_runs t) = Some (b, u') \<and> pn_correlation_id u' = pn_correlation_id v \<and> pn_created_at u' = pn_created_at v \<and>
        prefix (pn_completed v) (pn_completed u') \<and> (pn_status v = PL_COMPLETED \<longrightarrow> u' = v)" if "t_get k (pl_runs s) = Some (b, v)" for k b v
    using that u by (cases "k = gq_run_id q") (auto simp: continues_def)
  ultimately show ?thesis by (simp add: pipeline_ok_def runs_later_def)
qed

lemma reported_rows: "reported ad q s r t \<Longrightarrow> rows q s t \<and> sound t"
  by (auto simp: reported_def rows_def)

definition pipeline_sound :: "'d pipeline_env \<Rightarrow> bool" where
  "pipeline_sound s \<longleftrightarrow> pipeline_ok s \<and> sound s"

lemma pipeline_step_sound:
  assumes "pipeline_sound s"
  shows "pipeline_sound (pipeline_step ad c s) \<and> runs_later s (pipeline_step ad c s)"
proof (cases c)
  case (PC_Run q)
  have ok: "pipeline_ok s" "sound s" using assms by (simp_all add: pipeline_sound_def)
  have "pipeline_sound t \<and> runs_later s t" if "call_report ad q s r t \<or> (\<exists>u. resting q s u t)" for r t
    using that ok rows_later [OF _ ok(1)] reported_rows runs_later_same [of s s]
    by (auto simp: call_report_def resting_def pipeline_sound_def split: option.splits if_splits) blast+
  then have "wp (pipeline_run_demo ad q) (\<lambda>_ t. pipeline_sound t \<and> runs_later s t) (\<lambda>_ t. pipeline_sound t \<and> runs_later s t) s"
    by (intro wp_mono [OF demo_wp [OF ok]]) blast+
  from wp_snd [OF this] show ?thesis using PC_Run by simp
next
  case (PC_Deployment d)
  then show ?thesis
    using assms deployment_step_ok by (auto simp: pipeline_sound_def pipeline_ok_def sound_def [of s] intro: runs_later_same)
next
  case (PC_Services v e p t)
  then show ?thesis using assms by (auto simp: pipeline_sound_def pipeline_ok_def intro: runs_later_same)
qed

lemma pipeline_steps_sound:
  "pipeline_sound s \<Longrightarrow> pipeline_sound (fold (pipeline_step ad) cs s) \<and> runs_later s (fold (pipeline_step ad) cs s)"
proof (induction cs arbitrary: s)
  case (Cons c cs)
  note step = pipeline_step_sound [OF Cons.prems, of ad c]
  with Cons.IH [of "pipeline_step ad c s"] show ?case by (auto intro: runs_later_trans)
qed (simp add: runs_later_same)

lemma pipeline_init_sound: "pipeline_sound (pipeline_env_init es ms d)"
proof -
  have "deploy_env.truncate (pipeline_env_init es ms d) = deploy_env_init es ms d" "pl_runs (pipeline_env_init es ms d) = []"
    by (cases "deploy_env_init es ms d"; simp add: pipeline_env_init_def deploy_env.defs pipeline_env.defs)+
  then show ?thesis using deployment_steps_ok [of undefined "[]" es ms d] by (simp add: pipeline_sound_def sound_def pipeline_ok_def t_get_def)
qed

lemma reachable_sound: "pipeline_sound (fold (pipeline_step ad) cs (pipeline_env_init es ms d))"
  by (rule pipeline_steps_sound [OF pipeline_init_sound, THEN conjunct1])

section \<open>What a call does\<close>

text \<open>
  C13: whatever was called before, in any order, every run the pipeline has stored is well formed (its
  completed stages are the first stages of the stage order, in order and without gaps; a completed run
  has all of them, a waiting run waits at one of the two approvals, a blocked or failed one names the
  stage), and no later sequence of calls removes a run or a completed stage, or changes a completed run.
\<close>

theorem pipeline_runs_never_regress:
  "let s = fold (pipeline_step ad) cs (pipeline_env_init es ms d) in
     pipeline_ok s \<and> runs_later s (fold (pipeline_step ad) cs' s)"
  using pipeline_steps_sound [OF reachable_sound [of ad cs es ms d], of ad cs'] reachable_sound [of ad cs es ms d]
  by (simp add: Let_def pipeline_sound_def)

text \<open>The run of the request was completed before the call.\<close>

definition completed_before :: "pipeline_request \<Rightarrow> 'd pipeline_env \<Rightarrow> bool" where
  "completed_before q s \<longleftrightarrow> (case t_get (gq_run_id q) (pl_runs s) of None \<Rightarrow> False | Some (c, u) \<Rightarrow> pn_status u = PL_COMPLETED)"

lemma reachable_demo:
  "wp (pipeline_run_demo ad q) (call_report ad q (fold (pipeline_step ad') cs (pipeline_env_init es ms d)))
     (\<lambda>e t. e = ValueError ''event payload is too large'' \<and> (\<exists>u. resting q (fold (pipeline_step ad') cs (pipeline_env_init es ms d)) u t))
     (fold (pipeline_step ad') cs (pipeline_env_init es ms d))"
  using reachable_sound [of ad' cs es ms d] by (intro demo_wp) (simp_all add: pipeline_sound_def)

lemma still_waiting_lacks: "still_waiting q u \<Longrightarrow> pn_status u = PL_WAITING \<and> \<not> fully_approved q"
  by (auto simp: still_waiting_def fully_approved_def)

lemma wp_outcome:
  assumes "wp m Q E s" and "\<And>r t. Q r t \<Longrightarrow> A r t" and "\<And>e t. E e t \<Longrightarrow> B e t"
  shows "case m s of (Inr r, t) \<Rightarrow> A r t | (Inl e, t) \<Rightarrow> B e t"
  using assms by (auto simp: wp_def split: prod.splits sum.splits)

definition status_ok :: "'d deployment_adapter \<Rightarrow> pipeline_request \<Rightarrow> 'd pipeline_env \<Rightarrow> pipeline_report \<Rightarrow> 'd pipeline_env \<Rightarrow> bool" where
  "status_ok ad q s r t = (case pt_status r of
        PL_COMPLETED \<Rightarrow> pt_stage r = PS_COMPLETED \<and> pt_completed r = stage_order \<and>
          (completed_before q s \<and> t = s \<or> fully_approved q \<and> deployed ad (gq_requested_at q) t)
      | PL_WAITING \<Rightarrow> pt_stage r \<in> {PS_PROMOTION_APPROVAL, PS_DEPLOYMENT_APPROVAL} \<and> \<not> fully_approved q
      | PL_BLOCKED \<Rightarrow> pt_stage r \<in> set blocking_stages
      | PL_FAILED \<Rightarrow> True
      | _ \<Rightarrow> False)"

lemma report_fields [simp]:
  "pt_status (report_of_run u) = pn_status u" "pt_stage (report_of_run u) = pn_stage u" "pt_completed (report_of_run u) = pn_completed u"
  by (simp_all add: report_of_run_def)

lemma reported_status_ok: "reported ad q s r t \<Longrightarrow> status_ok ad q s r t"
proof -
  assume "reported ad q s r t"
  then obtain u where u: "r = report_of_run u" "pl_run_ok u" "verdict ad q (pn_status u) t" by (auto simp: reported_def)
  then show ?thesis by (cases "pn_status u") (simp_all add: status_ok_def pl_run_ok_def verdict_def)
qed

lemma call_status_ok:
  assumes "call_report ad q s r t" and "pipeline_ok s"
  shows "status_ok ad q s r t"
proof (cases "\<exists>c u. t_get (gq_run_id q) (pl_runs s) = Some (c, u) \<and> only_reported q u")
  case True
  then obtain c u where u: "t_get (gq_run_id q) (pl_runs s) = Some (c, u)" "only_reported q u" by blast
  then have r: "r = report_of_run (sorted_refs u)" "t = s" using assms(1) by (simp_all add: call_report_def)
  have "pl_run_ok u" using assms(2) u(1) by (auto simp: pipeline_ok_def)
  then show ?thesis using u still_waiting_lacks [of q u]
    by (cases "pn_status u") (simp_all add: r status_ok_def pl_run_ok_def completed_before_def only_reported_def)
next
  case False
  then have "reported ad q s r t" using assms(1) by (auto simp: call_report_def split: option.splits if_splits)
  then show ?thesis by (rule reported_status_ok)
qed

text \<open>
  C11: what each status in a report means. Completed: the run was completed before, or the request
  carries both approvals, all stages are completed, the package of a stored succeeded deployment run is
  approved and the target is what applying and verifying that package left. Waiting: an approval is
  missing. Blocked: the stage is one of the six that can block. A report is never of a created or running
  run, and the only exception that leaves a call is an event too large to record.
\<close>

theorem pipeline_status_exact:
  "let s = fold (pipeline_step ad) cs (pipeline_env_init es ms d) in
   case pipeline_run_demo ad q s of
     (Inr r, t) \<Rightarrow> (case pt_status r of
        PL_COMPLETED \<Rightarrow> pt_stage r = PS_COMPLETED \<and> pt_completed r = stage_order \<and>
          (completed_before q s \<and> t = s \<or> fully_approved q \<and> deployed ad (gq_requested_at q) t)
      | PL_WAITING \<Rightarrow> pt_stage r \<in> {PS_PROMOTION_APPROVAL, PS_DEPLOYMENT_APPROVAL} \<and> \<not> fully_approved q
      | PL_BLOCKED \<Rightarrow> pt_stage r \<in> set blocking_stages
      | PL_FAILED \<Rightarrow> True
      | _ \<Rightarrow> False)
   | (Inl e, t) \<Rightarrow> e = ValueError ''event payload is too large''"
  using call_status_ok reachable_sound [of ad cs es ms d] unfolding Let_def status_ok_def [symmetric]
  by (intro wp_outcome [OF reachable_demo]) (auto simp: pipeline_sound_def)

text \<open>
  C12: a request without both approvals leaves the deployment target and the deployment records as they
  are, whatever its scenario, whether it is the first call for its run or resumes it, and also when it
  fails.
\<close>

theorem pipeline_needs_both_approvals:
  "let s = fold (pipeline_step ad) cs (pipeline_env_init es ms d); t = snd (pipeline_run_demo ad q s) in
     if gq_approve_promotion q \<and> gq_approve_deployment q then True
     else dx_target t = dx_target s \<and> dx_repo t = dx_repo s"
proof -
  let ?s = "fold (pipeline_step ad) cs (pipeline_env_init es ms d)"
  have "wp (pipeline_run_demo ad q) (\<lambda>_. undeployed q ?s) (\<lambda>_. undeployed q ?s) ?s"
    by (rule wp_mono [OF reachable_demo])
      (auto simp: call_report_def reported_def resting_def undeployed_def split: option.splits if_splits)
  from wp_snd [OF this] show ?thesis by (auto simp: Let_def undeployed_def fully_approved_def)
qed

definition report_sorted :: "pipeline_report \<Rightarrow> pipeline_report" where
  "report_sorted r = r\<lparr>pt_refs := sort_key fst (pt_refs r)\<rparr>"

lemma report_sorted_run: "report_sorted (report_of_run u) = report_of_run (sorted_refs u)"
  by (simp add: report_sorted_def report_of_run_def sorted_refs_def)

lemma sorted_refs_idem [simp]: "sorted_refs (sorted_refs u) = sorted_refs u"
  by (simp add: sorted_refs_def sort_key_id_if_sorted)

text \<open>
  C37: the report of a call, on every branch, blocked, waiting and failed ones included, is the run as
  the repository reads it back after the call, up to the order of its references.
\<close>

theorem pipeline_report_is_stored:
  "let s = fold (pipeline_step ad) cs (pipeline_env_init es ms d) in
   case pipeline_run_demo ad q s of
     (Inr r, t) \<Rightarrow> (case get_pipeline_run (gq_run_id q) (pl_runs t) of Inr u \<Rightarrow> report_sorted r = report_of_run u | Inl _ \<Rightarrow> False)
   | (Inl e, t) \<Rightarrow> True"
  unfolding Let_def
  by (rule wp_outcome [OF reachable_demo])
    (auto simp: call_report_def reported_def stored_def get_pipeline_run_def report_sorted_run split: option.splits if_splits)

section \<open>A run that waits for the deployment approval\<close>

text \<open>
  Waiting for the deployment approval, a run has made its own challenger the active champion. A later call
  for it builds the challenger again, with the same fingerprint, and compares it with that champion: the
  evaluation fails, so the call ends blocked or failed, never completed, even with both approvals.
\<close>

lemma wp_any:
  assumes "\<And>x t. wp (f x) Q (\<lambda>_ _. True) t"
  shows "wp (bindO m f) Q (\<lambda>_ _. True) s"
  unfolding wp_bind by (auto simp: wp_def [of m] intro: assms split: prod.split sum.split)

lemma wp_any_then: "(\<And>t. wp n Q (\<lambda>_ _. True) t) \<Longrightarrow> wp (thenO m n) Q (\<lambda>_ _. True) s"
  unfolding thenO_def by (rule wp_any)

lemma same_fingerprint_no_candidate:
  assumes "champion_evaluate_results p r c h v ts = Inr rep" and "br_fingerprint c = br_fingerprint h"
  shows "ch_decision rep \<noteq> PROMOTION_CANDIDATE"
  using assms(1)
proof (cases rule: champion_evaluate_resultsE)
  case (1 sample rest)
  then show ?thesis using cc_decide_candidate [of v rest "ch_decision rep"] assms(2) by (auto simp: gate_pass)
qed

lemma evaluation_reports:
  "wp (champion_evaluate p r c h v ts) (\<lambda>rep t. champion_evaluate_results p r c h v ts = Inr rep) (\<lambda>_ _. True) s"
  unfolding champion_evaluate_def
  by (intro wp_any_then, unfold wp_bind wp_lift, cases "champion_evaluate_results p r c h v ts") (auto intro!: wp_any_then simp: wp_basic)

definition blocked_or :: "('a \<Rightarrow> 'd pipeline_env \<Rightarrow> bool) \<Rightarrow> pipeline_report + 'a \<Rightarrow> 'd pipeline_env \<Rightarrow> bool" where
  "blocked_or P x t \<longleftrightarrow> (case x of Inl r \<Rightarrow> pt_status r = PL_BLOCKED | Inr y \<Rightarrow> P y t)"

lemma blocked_or_simps [simp]: "blocked_or P (Inl r) t \<longleftrightarrow> pt_status r = PL_BLOCKED" "blocked_or P (Inr y) t = P y t"
  by (simp_all add: blocked_or_def)

lemma blocked_early: "wp (early (pl_block run st q msg refs)) (blocked_or P) (\<lambda>_ _. True) s"
  unfolding pl_block_def by (auto simp: wp_simps intro!: wp_pl_record)

lemma blocked_next:
  "wp m (blocked_or P) (\<lambda>_ _. True) s \<Longrightarrow> (\<And>y t. P y t \<Longrightarrow> wp (f y) (blocked_or P') (\<lambda>_ _. True) t) \<Longrightarrow>
   wp (next_phase m f) (blocked_or P') (\<lambda>_ _. True) s"
  unfolding next_phase_def wp_bind by (erule wp_mono) (auto simp: blocked_or_def wp_basic split: sum.splits)

lemma completing_any: "(\<And>u t. P (u, x) t) \<Longrightarrow> wp (completing run st q refs x) (blocked_or P) (\<lambda>_ _. True) s"
  unfolding completing_def by (rule wp_any) (simp add: wp_basic)

lemma evaluation_stuck:
  assumes "br_fingerprint c = br_fingerprint h"
  shows "wp (evaluation_phase q run c h v) (blocked_or (\<lambda>_ _. False)) (\<lambda>_ _. True) s"
proof -
  have ev: "wp (pl_champion (champion_evaluate p r c h v ts)) (\<lambda>e t. ch_decision e \<noteq> PROMOTION_CANDIDATE) (\<lambda>_ _. True) u" for p r ts u
    using evaluation_reports [of p r c h v ts "\<lparr>env_events = env_events u, env_metrics = env_metrics u, ce_repo = Some (pl_evals u)\<rparr>"]
      same_fingerprint_no_candidate [OF _ assms] by (auto simp: wp_def pl_champion_def split: prod.splits sum.splits)
  have rest: "wp (bindO (pl_champion (champion_evaluate p r c h v ts)) (\<lambda>e. if ch_decision e \<noteq> PROMOTION_CANDIDATE
      then early (pl_block run st q msg (refs e)) else m e)) (blocked_or P) (\<lambda>_ _. True) u" for p r ts u st msg refs m P
    unfolding wp_bind by (rule wp_mono [OF ev]) (simp_all add: blocked_early)
  show ?thesis
    unfolding evaluation_phase_def wp_with_run by (intro wp_any wp_any_then rest)
qed

lemma challenger_built:
  "fixture_backtests sc ts rid (Some b) = Inr (c, h) \<Longrightarrow> c = b \<and> br_fingerprint h = challenger_fingerprint rid"
  by (auto simp: fixture_backtests_def fixture_backtest_def mk_backtest_result_def bindR_Inr_iff)

text \<open>The active champion is the challenger of the run \<open>rid\<close>.\<close>

definition activated_challenger :: "string \<Rightarrow> 'd pipeline_env \<Rightarrow> bool" where
  "activated_challenger rid s \<longleftrightarrow> (\<exists>a b. rg_get_active DEFAULT_CHAMPION_SLOT (ho_registry s) = Inr (Some a) \<and>
     backtest_get_result (re_backtest_id a) (ho_backtests s) = Inr b \<and> br_fingerprint b = challenger_fingerprint rid)"

lemma activated_simps [simp]:
  "activated_challenger rid (s\<lparr>env_events := es\<rparr>) = activated_challenger rid s" "activated_challenger rid (s\<lparr>env_metrics := ms\<rparr>) = activated_challenger rid s"
  "activated_challenger rid (s\<lparr>pl_runs := rs\<rparr>) = activated_challenger rid s" "activated_challenger rid (s\<lparr>pl_checkpoints := cs\<rparr>) = activated_challenger rid s"
  by (simp_all add: activated_challenger_def)

lemma backtest_stuck:
  assumes "activated_challenger (gq_run_id q) s"
  shows "wp (backtest_phase q run) (blocked_or (\<lambda>(run, c, h) t. br_fingerprint c = br_fingerprint h)) (\<lambda>_ _. True) s"
proof -
  obtain a b where ab: "rg_get_active DEFAULT_CHAMPION_SLOT (ho_registry s) = Inr (Some a)"
      "backtest_get_result (re_backtest_id a) (ho_backtests s) = Inr b" "br_fingerprint b = challenger_fingerprint (gq_run_id q)"
    using assms by (auto simp: activated_challenger_def)
  show ?thesis
  proof (cases "fixture_backtests (gq_scenario q) (gq_requested_at q) (gq_run_id q) (Some b)")
    case (Inl e)
    then show ?thesis by (simp add: backtest_phase_def wp_simps ab known_backtest_def)
  next
    case (Inr r)
    obtain c h where r: "r = (c, h)" by (cases r)
    have "c = b" "br_fingerprint h = challenger_fingerprint (gq_run_id q)" using challenger_built Inr r by blast+
    then have "wp (thenO (pl_add_backtest c) (thenO (pl_add_backtest h) (completing run PS_BACKTEST q refs (c, h))))
        (blocked_or (\<lambda>(run, c, h) t. br_fingerprint c = br_fingerprint h)) (\<lambda>_ _. True) s" for refs
      by (intro wp_any_then completing_any) (simp add: ab(3))
    then show ?thesis by (simp add: backtest_phase_def wp_with_run wp_bind wp_pl_read ab known_backtest_def wp_lift Inr r)
  qed
qed

lemma research_stuck:
  "activated_challenger rid s \<Longrightarrow> wp (research_phase q run) (blocked_or (\<lambda>_. activated_challenger rid)) (\<lambda>_ _. True) s"
  unfolding research_phase_def completing_def pl_complete_def by (auto simp: wp_simps intro!: wp_pl_record)

lemma validation_stuck: "wp (validation_phase q run h) (blocked_or (\<lambda>_ _. True)) (\<lambda>_ _. True) s"
  unfolding validation_phase_def wp_with_run by (intro wp_any wp_branch blocked_early completing_any) simp

lemma body_stuck:
  assumes "activated_challenger (gq_run_id q) s"
  shows "wp (pipeline_body ad q run) (blocked_or (\<lambda>_ _. False)) (\<lambda>_ _. True) s"
  unfolding pipeline_body_def
  apply (rule blocked_next [OF research_stuck [OF assms]], clarsimp split: prod.splits)
  apply (rule blocked_next, erule backtest_stuck, clarsimp split: prod.splits)
  apply (rule blocked_next, rule validation_stuck, clarsimp split: prod.splits)
  apply (rule blocked_next, erule evaluation_stuck, simp)
  done

lemma failure_stuck: "wp (pl_failure q er) (\<lambda>x t. \<exists>r. x = Inr r \<and> pt_status r = PL_FAILED) (\<lambda>_ _. True) s"
  unfolding pl_failure_def by (cases er) (auto simp: wp_simps failed_run_def intro!: wp_pl_record)

lemma resumed_run_cannot_complete:
  assumes "t_get (gq_run_id q) (pl_runs s) = Some (created, u)" and "\<not> only_reported q u" and "activated_challenger (gq_run_id q) s"
  shows "wp (pipeline_run_demo ad q) (\<lambda>r t. pt_status r \<in> {PL_BLOCKED, PL_FAILED}) (\<lambda>_ _. True) s"
proof -
  have load: "pl_load_or_create q s = (Inr (sorted_refs u), s)"
    by (simp add: pl_load_or_create_def catchO_apply pl_read_def get_pipeline_run_def assms(1))
  have go: "wp (bindO (catchO (pipeline_body ad q run) (pl_failure q)) (\<lambda>x. case x of Inl r \<Rightarrow> retO r | Inr r \<Rightarrow> retO r))
      (\<lambda>r t. pt_status r \<in> {PL_BLOCKED, PL_FAILED}) (\<lambda>_ _. True) (s\<lparr>env_events := es\<rparr>)" for run es
    unfolding wp_bind wp_catch
    apply (rule wp_mono [OF body_stuck], simp add: assms(3))
     apply (auto simp: blocked_or_def wp_basic split: sum.splits)[1]
    apply (rule wp_mono [OF failure_stuck])
     apply (auto simp: wp_basic)
    done
  show ?thesis
    unfolding demo_rerun wp_bind [of "pl_load_or_create q"] using assms(2)
    by (simp add: wp_def [of "pl_load_or_create q"] load rerun_def wp_then wp_pl_record go del: insert_iff)
qed

end
