(* ===== verification/TaskQueue.thy ===== *)
theory TaskQueue
  imports Tables PyFloat "HOL-Library.Product_Lexorder"
begin

text \<open>
  \<open>gaon/runtime/worker.py\<close>: the durable task queue with leases, retries and recovery, the retry delay and
  the guard against duplicate messages. A row of \<open>runtime_queue\<close> is a queue item under its item id; every
  method is one transaction.
\<close>

section \<open>Retry delay\<close>

record retry_policy =
  ry_max_attempts :: int
  ry_base_delay :: pyfloat
  ry_max_delay :: pyfloat

definition retry_policy_default :: retry_policy where
  "retry_policy_default = \<lparr>ry_max_attempts = 3, ry_base_delay = Fin 1, ry_max_delay = Fin 30\<rparr>"

text \<open>\<open>2 ** (attempt - 1)\<close> is an integer, converted to a double for the product; from \<open>2 ** 1024\<close> on this raises.\<close>

definition delay_for_attempt :: "retry_policy \<Rightarrow> int \<Rightarrow> pyfloat res" where
  "delay_for_attempt p attempt =
     bindR (guardR (\<not> attempt < 1) (ValueError ''attempt must be positive'')) (\<lambda>_.
     bindR (guardR (attempt \<le> 1024) (OverflowError ''int too large to convert to float'')) (\<lambda>_.
     Inr (fmin (fmul (ry_base_delay p) (Fin (2 ^ nat (attempt - 1)))) (ry_max_delay p))))"

section \<open>Items\<close>

datatype queue_status = QS_PENDING | QS_LEASED | QS_RUNNING | QS_SUCCEEDED | QS_FAILED | QS_CANCELLED

fun queue_status_value :: "queue_status \<Rightarrow> string" where
  "queue_status_value QS_PENDING = ''pending''"
| "queue_status_value QS_LEASED = ''leased''"
| "queue_status_value QS_RUNNING = ''running''"
| "queue_status_value QS_SUCCEEDED = ''succeeded''"
| "queue_status_value QS_FAILED = ''failed''"
| "queue_status_value QS_CANCELLED = ''cancelled''"

definition final_status :: "queue_status \<Rightarrow> bool" where
  "final_status st \<longleftrightarrow> st \<in> {QS_SUCCEEDED, QS_FAILED, QS_CANCELLED}"

record queue_item =
  qi_item_id :: string
  qi_dedupe_key :: string
  qi_payload :: obj
  qi_status :: queue_status
  qi_priority :: int
  qi_attempts :: int
  qi_max_attempts :: int
  qi_available_at :: string
  qi_leased_until :: "string option"
  qi_created_at :: string
  qi_updated_at :: string
  qi_last_error :: "string option"

type_synonym task_queue = "queue_item table"

section \<open>Operations\<close>

definition tq_get :: "string \<Rightarrow> task_queue \<Rightarrow> queue_item res" where
  "tq_get k t = ofOption (KeyError k) (t_get k t)"

definition tq_read :: "string \<Rightarrow> (task_queue, queue_item) opr" where
  "tq_read k = (\<lambda>t. (tq_get k t, t))"

definition new_item :: "string \<Rightarrow> string \<Rightarrow> obj \<Rightarrow> int \<Rightarrow> string \<Rightarrow> int \<Rightarrow> queue_item" where
  "new_item k dedupe payload priority available max_attempts =
    \<lparr>qi_item_id = k, qi_dedupe_key = dedupe, qi_payload = ocanon payload, qi_status = QS_PENDING, qi_priority = priority,
     qi_attempts = 0, qi_max_attempts = max_attempts, qi_available_at = available, qi_leased_until = None,
     qi_created_at = available, qi_updated_at = available, qi_last_error = None\<rparr>"

text \<open>
  An integer is bound to a column as 64 bits, a larger one raises. Both the item id and the dedupe key are
  unique columns.
\<close>

definition fits_column :: "int \<Rightarrow> bool" where
  "fits_column i \<longleftrightarrow> - (2 ^ 63) \<le> i \<and> i < 2 ^ 63"

definition task_enqueue :: "string \<Rightarrow> string \<Rightarrow> obj \<Rightarrow> int \<Rightarrow> string \<Rightarrow> int \<Rightarrow> (task_queue, bool) opr" where
  "task_enqueue k dedupe payload priority available max_attempts = (\<lambda>t.
     if \<not> fits_column priority \<or> \<not> fits_column max_attempts
     then (Inl (OverflowError ''Python int too large to convert to SQLite INTEGER''), t)
     else if k \<in> set (t_keys t) \<or> dedupe \<in> qi_dedupe_key ` set (t_rows t) then (Inr False, t)
     else (Inr True, t @ [(k, new_item k dedupe payload priority available max_attempts)]))"

text \<open>\<open>ORDER BY priority DESC, available_at ASC, item_id ASC\<close>.\<close>

definition queue_rank :: "string \<times> queue_item \<Rightarrow> int \<times> string \<times> string" where
  "queue_rank = (\<lambda>(k, r). (- qi_priority r, qi_available_at r, k))"

definition leasable :: "string \<Rightarrow> task_queue \<Rightarrow> (string \<times> queue_item) list" where
  "leasable now t = filter (\<lambda>(k, r). qi_status r = QS_PENDING \<and> qi_available_at r \<le> now) t"

definition task_lease :: "string \<Rightarrow> string \<Rightarrow> (task_queue, queue_item option) opr" where
  "task_lease now until = bindO (getO (leasable now)) (\<lambda>rows. case sort_key queue_rank rows of
      [] \<Rightarrow> retO None
    | (k, _) # _ \<Rightarrow>
        thenO (modO (t_update k (\<lambda>r. if qi_status r = QS_PENDING
          then r\<lparr>qi_status := QS_LEASED, qi_leased_until := Some until, qi_updated_at := now\<rparr> else r)))
        (bindO (tq_read k) (\<lambda>r. retO (Some r))))"

definition task_transition :: "string \<Rightarrow> queue_status \<Rightarrow> queue_status \<Rightarrow> string \<Rightarrow> (task_queue, queue_item) opr" where
  "task_transition k expected target now =
    bindO (getO (t_get k)) (\<lambda>row.
    thenO (liftO (guardR (map_option qi_status row = Some expected) (RuntimeError (''queue item '' @ k @ '' is not '' @ queue_status_value expected))))
    (thenO (modO (t_update k (\<lambda>r. r\<lparr>qi_status := target, qi_updated_at := now\<rparr>))) (tq_read k)))"

definition task_running :: "string \<Rightarrow> string \<Rightarrow> (task_queue, queue_item) opr" where
  "task_running k now = task_transition k QS_LEASED QS_RUNNING now"

definition task_succeeded :: "string \<Rightarrow> string \<Rightarrow> (task_queue, queue_item) opr" where
  "task_succeeded k now = task_transition k QS_RUNNING QS_SUCCEEDED now"

definition task_cancelled :: "string \<Rightarrow> string \<Rightarrow> (task_queue, queue_item) opr" where
  "task_cancelled k now =
    thenO (modO (t_update k (\<lambda>r. if final_status (qi_status r) then r else r\<lparr>qi_status := QS_CANCELLED, qi_updated_at := now\<rparr>))) (tq_read k)"

definition task_failed :: "string \<Rightarrow> string \<Rightarrow> string \<Rightarrow> string \<Rightarrow> (task_queue, queue_item) opr" where
  "task_failed k now retry_at err =
    bindO (tq_read k) (\<lambda>i.
    thenO (modO (t_update k (\<lambda>r. r\<lparr>qi_status := (if qi_attempts i + 1 \<ge> qi_max_attempts i then QS_FAILED else QS_PENDING),
        qi_attempts := qi_attempts i + 1, qi_available_at := retry_at, qi_leased_until := None, qi_last_error := Some err, qi_updated_at := now\<rparr>)))
    (tq_read k))"

definition lease_over :: "string \<Rightarrow> queue_item \<Rightarrow> bool" where
  "lease_over now r \<longleftrightarrow> qi_status r = QS_LEASED \<and> (case qi_leased_until r of None \<Rightarrow> False | Some u \<Rightarrow> u \<le> now)"

text \<open>Two updates: expired leases first, then everything that runs.\<close>

definition task_recover :: "string \<Rightarrow> (task_queue, int) opr" where
  "task_recover now =
    bindO (getO (\<lambda>t. length (filter (lease_over now) (t_rows t)))) (\<lambda>leased.
    thenO (modO (map (\<lambda>(k, r). (k, if lease_over now r then r\<lparr>qi_status := QS_PENDING, qi_leased_until := None, qi_updated_at := now\<rparr> else r))))
    (bindO (getO (\<lambda>t. length (filter (\<lambda>r. qi_status r = QS_RUNNING) (t_rows t)))) (\<lambda>running.
     thenO (modO (map (\<lambda>(k, r). (k, if qi_status r = QS_RUNNING then r\<lparr>qi_status := QS_PENDING, qi_updated_at := now\<rparr> else r))))
     (retO (int (leased + running))))))"

definition task_list :: "queue_status \<Rightarrow> task_queue \<Rightarrow> queue_item list res" where
  "task_list st t = mapR (\<lambda>(k, _). tq_get k t)
     (sort_key (\<lambda>(k, r). (- qi_priority r, k)) (filter (\<lambda>(k, r). qi_status r = st) t))"

section \<open>Duplicate messages\<close>

text \<open>The guard remembers message ids itself, or in the table of processed messages when it has a store.\<close>

record message_guard =
  mg_seen :: "string set"
  mg_store :: "string table option"
  mg_processed_at :: string

definition mark_processed :: "string \<Rightarrow> string \<Rightarrow> string table \<Rightarrow> bool \<times> string table" where
  "mark_processed mid ts t = (case t_insert mid ts t of Inl _ \<Rightarrow> (False, t) | Inr t' \<Rightarrow> (True, t'))"

definition guard_mark :: "string \<Rightarrow> message_guard \<Rightarrow> bool \<times> message_guard" where
  "guard_mark mid g = (case mg_store g of
      Some t \<Rightarrow> (case mark_processed mid (mg_processed_at g) t of (b, t') \<Rightarrow> (b, g\<lparr>mg_store := Some t'\<rparr>))
    | None \<Rightarrow> if mid \<in> mg_seen g then (False, g) else (True, g\<lparr>mg_seen := insert mid (mg_seen g)\<rparr>))"

section \<open>Every sequence of calls\<close>

datatype queue_call =
    QC_Enqueue string string obj int string int
  | QC_Lease string string
  | QC_Running string string
  | QC_Succeeded string string
  | QC_Cancelled string string
  | QC_Failed string string string string
  | QC_Recover string

fun queue_step :: "queue_call \<Rightarrow> task_queue \<Rightarrow> task_queue" where
  "queue_step (QC_Enqueue k dedupe payload priority available m) t = snd (task_enqueue k dedupe payload priority available m t)"
| "queue_step (QC_Lease now until) t = snd (task_lease now until t)"
| "queue_step (QC_Running k now) t = snd (task_running k now t)"
| "queue_step (QC_Succeeded k now) t = snd (task_succeeded k now t)"
| "queue_step (QC_Cancelled k now) t = snd (task_cancelled k now t)"
| "queue_step (QC_Failed k now retry_at err) t = snd (task_failed k now retry_at err t)"
| "queue_step (QC_Recover now) t = snd (task_recover now t)"

text \<open>
  An item is failed exactly when its failures have reached the maximum (the first failure always counts),
  and a leased item has a lease.
\<close>

definition item_ok :: "queue_item \<Rightarrow> bool" where
  "item_ok r \<longleftrightarrow> 0 \<le> qi_attempts r \<and> (qi_status r = QS_FAILED \<longleftrightarrow> 1 \<le> qi_attempts r \<and> qi_max_attempts r \<le> qi_attempts r) \<and>
     (qi_status r = QS_LEASED \<longrightarrow> qi_leased_until r \<noteq> None)"

definition tq_ok :: "task_queue \<Rightarrow> bool" where
  "tq_ok t \<longleftrightarrow> t_ok t \<and> distinct (map qi_dedupe_key (t_rows t)) \<and> (\<forall>(k, r) \<in> set t. qi_item_id r = k \<and> item_ok r)"

text \<open>What a call may do to an item: not its identity, its work or its bounds, and no failure is forgotten.\<close>

definition item_later :: "queue_item \<Rightarrow> queue_item \<Rightarrow> bool" where
  "item_later r u \<longleftrightarrow> qi_item_id u = qi_item_id r \<and> qi_dedupe_key u = qi_dedupe_key r \<and> qi_payload u = qi_payload r \<and>
     qi_priority u = qi_priority r \<and> qi_max_attempts u = qi_max_attempts r \<and> qi_created_at u = qi_created_at r \<and> qi_attempts r \<le> qi_attempts u"

lemma item_later_refl [simp]: "item_later r r"
  by (simp add: item_later_def)

lemma item_later_trans: "item_later a b \<Longrightarrow> item_later b c \<Longrightarrow> item_later a c"
  by (simp add: item_later_def)

definition on_rows :: "(string \<Rightarrow> queue_item \<Rightarrow> queue_item) \<Rightarrow> task_queue \<Rightarrow> task_queue" where
  "on_rows g t = map (\<lambda>(k, r). (k, g k r)) t"

lemma update_on_rows: "t_update k f t = on_rows (\<lambda>k' r. if k' = k then f r else r) t"
  by (auto simp: t_update_def on_rows_def)

lemma on_rows_simps [simp]:
  "t_keys (on_rows g t) = t_keys t" "t_get k (on_rows g t) = map_option (g k) (t_get k t)" "on_rows (\<lambda>k r. r) t = t"
  "on_rows h (on_rows g t) = on_rows (\<lambda>k r. h k (g k r)) t"
  subgoal by (auto simp: on_rows_def t_keys_def)
  subgoal by (induction t) (auto simp: on_rows_def t_get_def)
  subgoal by (simp add: on_rows_def)
  subgoal by (auto simp: on_rows_def)
  done

text \<open>Every call but an enqueue changes rows in place, each in a way that keeps what an item promises.\<close>

definition in_place :: "task_queue \<Rightarrow> task_queue \<Rightarrow> bool" where
  "in_place t u \<longleftrightarrow> (\<exists>g. u = on_rows g t \<and> (\<forall>(k, r) \<in> set t. item_later r (g k r) \<and> (item_ok r \<longrightarrow> item_ok (g k r))))"

lemma in_placeI: "(\<And>k r. (k, r) \<in> set t \<Longrightarrow> item_later r (g k r) \<and> (item_ok r \<longrightarrow> item_ok (g k r))) \<Longrightarrow> in_place t (on_rows g t)"
  unfolding in_place_def by blast

lemma in_place_refl [simp]: "in_place t t"
  using in_placeI [of t "\<lambda>k r. r"] by simp

lemma in_place_update:
  assumes "\<And>r. t_get k t = Some r \<Longrightarrow> item_later r (f r) \<and> (item_ok r \<longrightarrow> item_ok (f r))" and "t_ok t"
  shows "in_place t (t_update k f t)"
  unfolding update_on_rows
proof (rule in_placeI)
  fix k' r assume r: "(k', r) \<in> set t"
  have "t_get k' t = Some r" using r assms(2) by (simp add: t_get_def t_ok_def t_keys_def)
  then show "item_later r (if k' = k then f r else r) \<and> (item_ok r \<longrightarrow> item_ok (if k' = k then f r else r))"
    using assms(1) by auto
qed

lemma lease_in_place: "t_ok t \<Longrightarrow> in_place t (snd (task_lease now until t))"
  by (auto simp: task_lease_def bindO_apply thenO_apply tq_read_def item_later_def item_ok_def intro!: in_place_update split: list.split prod.split sum.split)

lemma transition_apply:
  "task_transition k expected target now t = (if map_option qi_status (t_get k t) = Some expected
     then (tq_get k (t_update k (\<lambda>r. r\<lparr>qi_status := target, qi_updated_at := now\<rparr>) t), t_update k (\<lambda>r. r\<lparr>qi_status := target, qi_updated_at := now\<rparr>) t)
     else (Inl (RuntimeError (''queue item '' @ k @ '' is not '' @ queue_status_value expected)), t))"
  by (cases "map_option qi_status (t_get k t) = Some expected") (simp_all only: task_transition_def thenO_apply bindO_step tq_read_def guardR_def opr_apply prod.case sum.case if_True if_False simp_thms)

lemma transition_in_place:
  assumes "t_ok t" and "expected \<in> {QS_LEASED, QS_RUNNING}" and "target \<in> {QS_RUNNING, QS_SUCCEEDED}"
  shows "in_place t (snd (task_transition k expected target now t))"
  using assms by (auto simp: transition_apply item_later_def item_ok_def intro!: in_place_update)

lemma cancelled_in_place: "t_ok t \<Longrightarrow> in_place t (snd (task_cancelled k now t))"
  by (auto simp: task_cancelled_def tq_read_def item_later_def item_ok_def final_status_def intro!: in_place_update)

lemma failed_in_place: "t_ok t \<Longrightarrow> in_place t (snd (task_failed k now retry_at err t))"
  by (cases "t_get k t")
    (auto simp: task_failed_def bindO_apply thenO_apply tq_read_def tq_get_def item_later_def item_ok_def intro!: in_place_update)

definition recovered :: "string \<Rightarrow> queue_item \<Rightarrow> queue_item" where
  "recovered now r = (if lease_over now r then r\<lparr>qi_status := QS_PENDING, qi_leased_until := None, qi_updated_at := now\<rparr>
     else if qi_status r = QS_RUNNING then r\<lparr>qi_status := QS_PENDING, qi_updated_at := now\<rparr> else r)"

lemma recover_rows: "snd (task_recover now t) = on_rows (\<lambda>k. recovered now) t"
  by (auto simp: recovered_def task_recover_def bindO_apply thenO_apply on_rows_def split: prod.splits)

lemma recover_in_place: "in_place t (snd (task_recover now t))"
  unfolding recover_rows by (rule in_placeI) (auto simp: recovered_def item_later_def item_ok_def lease_over_def)

lemma in_place_ok:
  assumes "in_place t u" and "tq_ok t"
  shows "tq_ok u \<and> (\<forall>k r. t_get k t = Some r \<longrightarrow> (\<exists>v. t_get k u = Some v \<and> item_later r v))"
proof -
  obtain g where g: "u = on_rows g t" "\<And>k r. (k, r) \<in> set t \<Longrightarrow> item_later r (g k r) \<and> (item_ok r \<longrightarrow> item_ok (g k r))"
    using assms(1) unfolding in_place_def by auto
  have "map qi_dedupe_key (t_rows u) = map qi_dedupe_key (t_rows t)"
    using g(2) by (auto simp: g(1) on_rows_def t_rows_def item_later_def split: prod.splits)
  moreover have "\<forall>(k, r) \<in> set u. qi_item_id r = k \<and> item_ok r"
    using g(2) assms(2) by (fastforce simp: g(1) on_rows_def tq_ok_def item_later_def)
  ultimately have "tq_ok u" using assms(2) by (simp add: tq_ok_def g(1) t_ok_def)
  moreover have "\<exists>v. t_get k u = Some v \<and> item_later r v" if "t_get k t = Some r" for k r
    using that g(2) [of k r] map_of_SomeD [of t k r] by (auto simp: g(1) t_get_def [symmetric])
  ultimately show ?thesis by blast
qed

text \<open>No item is ever lost.\<close>

definition items_later :: "task_queue \<Rightarrow> task_queue \<Rightarrow> bool" where
  "items_later t u \<longleftrightarrow> (\<forall>k r. t_get k t = Some r \<longrightarrow> (\<exists>v. t_get k u = Some v \<and> item_later r v))"

lemma items_later_trans: "items_later t u \<Longrightarrow> items_later u v \<Longrightarrow> items_later t v"
  unfolding items_later_def by (fast intro: item_later_trans)

lemma enqueue_ok:
  assumes "tq_ok t"
  shows "tq_ok (snd (task_enqueue k dedupe payload priority available m t)) \<and>
    items_later t (snd (task_enqueue k dedupe payload priority available m t))"
  using assms
  by (auto simp: task_enqueue_def tq_ok_def t_ok_def items_later_def t_rows_def new_item_def item_ok_def t_get_snoc)

lemma queue_step_ok:
  assumes "tq_ok t"
  shows "tq_ok (queue_step c t) \<and> items_later t (queue_step c t)"
proof -
  have t: "t_ok t" using assms by (simp add: tq_ok_def)
  have "in_place t (queue_step c t)" if "\<forall>k d p pr a m. c \<noteq> QC_Enqueue k d p pr a m"
    using that t
    by (cases c) (auto simp: task_running_def task_succeeded_def lease_in_place transition_in_place cancelled_in_place failed_in_place recover_in_place)
  then show ?thesis
    using in_place_ok [OF _ assms] enqueue_ok [OF assms] by (cases c) (simp_all add: items_later_def)
qed

lemma queue_steps_ok: "tq_ok t \<Longrightarrow> tq_ok (fold queue_step cs t) \<and> items_later t (fold queue_step cs t)"
proof (induction cs arbitrary: t)
  case Nil
  then show ?case by (simp add: items_later_def)
next
  case (Cons c cs)
  note step = queue_step_ok [OF Cons.prems, of c]
  with Cons.IH [of "queue_step c t"] show ?case by (auto intro: items_later_trans)
qed

lemma tq_ok_init: "tq_ok []"
  by (simp add: tq_ok_def t_ok_def t_rows_def)

text \<open>
  C35: after every sequence of calls on an empty queue the item ids and the dedupe keys are unique, and an
  item has failed exactly when its failures have reached its maximum; no later call, in any sequence,
  loses an item, changes its identity, its payload, its priority or its maximum, or forgets a failure.
\<close>

theorem queue_items_kept:
  "let t = fold queue_step cs [] in tq_ok t \<and> items_later t (fold queue_step cs' t)"
  using queue_steps_ok [OF tq_ok_init, of cs] queue_steps_ok [of "fold queue_step cs []" cs'] by (simp add: Let_def)

section \<open>Leasing\<close>

text \<open>
  What a worker relies on: a lease takes the least of the available items in the order of the queue, and
  only that one. Then leasing again and again takes every available item once, in that order, and stops.
\<close>

locale lease_queue =
  fixes lease :: "'q \<Rightarrow> ('i::linorder) option \<times> 'q"
    and available :: "'q \<Rightarrow> 'i set"
    and good :: "'q \<Rightarrow> bool"
  assumes finite_available: "good q \<Longrightarrow> finite (available q)"
    and lease_nothing: "good q \<Longrightarrow> available q = {} \<Longrightarrow> lease q = (None, q)"
    and lease_least: "good q \<Longrightarrow> available q \<noteq> {} \<Longrightarrow>
      \<exists>q'. lease q = (Some (Min (available q)), q') \<and> available q' = available q - {Min (available q)} \<and> good q'"
begin

primrec leases :: "nat \<Rightarrow> 'q \<Rightarrow> 'i list" where
  "leases 0 q = []"
| "leases (Suc n) q = (case lease q of (None, _) \<Rightarrow> [] | (Some i, q') \<Rightarrow> i # leases n q')"

lemma leases_in_order: "good q \<Longrightarrow> leases n q = take n (sorted_list_of_set (available q))"
proof (induction n arbitrary: q)
  case (Suc n)
  show ?case
  proof (cases "available q = {}")
    case True
    then show ?thesis using lease_nothing [OF Suc.prems] by simp
  next
    case False
    obtain q' where q': "lease q = (Some (Min (available q)), q')" "available q' = available q - {Min (available q)}" "good q'"
      using lease_least [OF Suc.prems False] by blast
    have "sorted_list_of_set (available q) = Min (available q) # sorted_list_of_set (available q')"
      using sorted_list_of_set_nonempty [OF finite_available [OF Suc.prems] False] q'(2) by simp
    then show ?thesis using q' Suc.IH [OF q'(3)] by simp
  qed
qed simp

lemma leases_exhaust:
  assumes "good q" and "card (available q) \<le> n"
  shows "set (leases n q) = available q" "distinct (leases n q)"
  using assms finite_available [OF assms(1)] by (simp_all add: leases_in_order)

end

definition item_rank :: "queue_item \<Rightarrow> int \<times> string \<times> string" where
  "item_rank r = (- qi_priority r, qi_available_at r, qi_item_id r)"

definition ranked_lease :: "string \<Rightarrow> string \<Rightarrow> task_queue \<Rightarrow> (int \<times> string \<times> string) option \<times> task_queue" where
  "ranked_lease now until t = (case task_lease now until t of
      (Inr x, u) \<Rightarrow> (map_option item_rank x, u)
    | (Inl _, u) \<Rightarrow> (None, u))"

definition available_ranks :: "string \<Rightarrow> task_queue \<Rightarrow> (int \<times> string \<times> string) set" where
  "available_ranks now t = queue_rank ` set (leasable now t)"

definition leased_item :: "string \<Rightarrow> string \<Rightarrow> queue_item \<Rightarrow> queue_item" where
  "leased_item now until r = r\<lparr>qi_status := QS_LEASED, qi_leased_until := Some until, qi_updated_at := now\<rparr>"

lemma lease_picks:
  assumes "tq_ok t" and "sort_key queue_rank (leasable now t) = (k, r) # rest"
  shows "\<exists>u. task_lease now until t = (Inr (Some (leased_item now until r)), u) \<and>
    leasable now u = filter (\<lambda>p. fst p \<noteq> k) (leasable now t) \<and> tq_ok u \<and>
    qi_item_id r = k \<and> qi_status r = QS_PENDING \<and> t_get k t = Some r \<and> t_get k u = Some (leased_item now until r)"
proof -
  let ?f = "\<lambda>r. if qi_status r = QS_PENDING then r\<lparr>qi_status := QS_LEASED, qi_leased_until := Some until, qi_updated_at := now\<rparr> else r"
  have "(k, r) \<in> set (leasable now t)" using assms(2) by (metis list.set_intros(1) set_sort)
  then have r: "(k, r) \<in> set t" "qi_status r = QS_PENDING" by (auto simp: leasable_def)
  then have get: "t_get k t = Some r" using assms(1) by (simp add: tq_ok_def t_ok_def t_get_def t_keys_def)
  have run: "task_lease now until t = (Inr (Some (?f r)), t_update k ?f t)"
    by (simp add: task_lease_def assms(2) bindO_apply thenO_apply tq_read_def tq_get_def get)
  have "leasable now (t_update k ?f t) = filter (\<lambda>p. fst p \<noteq> k) (leasable now t)"
    unfolding leasable_def t_update_def by (induction t) (auto split: if_splits)
  moreover have "tq_ok (t_update k ?f t)" using queue_step_ok [OF assms(1), of "QC_Lease now until"] run by simp
  moreover have "qi_item_id r = k" using r(1) assms(1) by (auto simp: tq_ok_def)
  ultimately show ?thesis using run r(2) by (simp add: leased_item_def get)
qed

interpretation worker_queue: lease_queue "ranked_lease now until" "available_ranks now" tq_ok
proof
  fix t :: task_queue
  show "finite (available_ranks now t)" by (simp add: available_ranks_def)
  show "ranked_lease now until t = (None, t)" if "available_ranks now t = {}"
    using that by (simp add: available_ranks_def ranked_lease_def task_lease_def)
  assume ok: "tq_ok t" and some: "available_ranks now t \<noteq> {}"
  let ?a = "available_ranks now t"
  obtain k r rest where s: "sort_key queue_rank (leasable now t) = (k, r) # rest"
    using some set_sort [of queue_rank "leasable now t"] by (cases "sort_key queue_rank (leasable now t)") (auto simp: available_ranks_def)
  obtain u where u: "task_lease now until t = (Inr (Some (leased_item now until r)), u)"
      "leasable now u = filter (\<lambda>p. fst p \<noteq> k) (leasable now t)" "tq_ok u"
    using lease_picks [OF ok s] by blast
  have mem: "set (leasable now t) = set ((k, r) # rest)" using s by (metis set_sort)
  have id: "qi_item_id r = k" using ok mem by (auto simp: leasable_def tq_ok_def)
  have "sorted (map queue_rank ((k, r) # rest))" using s sorted_sort_key [of queue_rank "leasable now t"] by simp
  then have "Min ?a = queue_rank (k, r)"
    unfolding available_ranks_def mem by (intro Min_eqI) auto
  moreover have "available_ranks now u = ?a - {queue_rank (k, r)}"
  proof -
    have key: "inj_on fst (set (leasable now t))"
      using ok by (auto simp: tq_ok_def t_ok_def t_keys_def distinct_map leasable_def intro: inj_on_subset)
    have inj: "inj_on queue_rank (set (leasable now t))"
    proof (rule inj_onI)
      fix x y assume xy: "x \<in> set (leasable now t)" "y \<in> set (leasable now t)" "queue_rank x = queue_rank y"
      then have "fst x = fst y" by (simp add: queue_rank_def split_beta)
      then show "x = y" using xy(1,2) by (rule inj_onD [OF key])
    qed
    have kr: "(k, r) \<in> set (leasable now t)" using mem by simp
    have only: "x = (k, r)" if "x \<in> set (leasable now t)" "fst x = k" for x
      using inj_onD [OF key, of x "(k, r)"] that kr by simp
    have "x \<in> set (leasable now u) \<longleftrightarrow> x \<in> set (leasable now t) - {(k, r)}" for x
      unfolding u(2) using only [of x] by (cases "fst x = k") (simp, force)
    then have "set (leasable now u) = set (leasable now t) - {(k, r)}" by (rule set_eqI)
    then show ?thesis
      unfolding available_ranks_def using inj_on_image_set_diff [OF inj, of "set (leasable now t)" "{(k, r)}"] kr by auto
  qed
  moreover have "ranked_lease now until t = (Some (queue_rank (k, r)), u)"
    by (simp add: ranked_lease_def u(1) leased_item_def item_rank_def queue_rank_def id)
  ultimately show "\<exists>q'. ranked_lease now until t = (Some (Min ?a), q') \<and> available_ranks now q' = ?a - {Min ?a} \<and> tq_ok q'"
    using u(3) by simp
qed

text \<open>
  C33: a worker that leases until the queue has nothing for it gets every item that is pending and available,
  each once, highest priority first, then by availability, then by id, and nothing else, whatever calls
  filled the queue.
\<close>

theorem leases_follow_priority:
  "let t = fold queue_step cs [] in
     worker_queue.leases now until n t = take n (sorted_list_of_set (available_ranks now t))"
  unfolding Let_def by (rule worker_queue.leases_in_order) (rule queue_steps_ok [OF tq_ok_init, THEN conjunct1])

text \<open>An item that is leased is not leased again before it is given back.\<close>

lemma lease_some:
  assumes "tq_ok t" and "task_lease now until t = (Inr (Some i), u)"
  obtains r where "i = leased_item now until r" "qi_status r = QS_PENDING" "t_get (qi_item_id i) t = Some r" "t_get (qi_item_id i) u = Some i" "tq_ok u"
proof -
  obtain k r rest where s: "sort_key queue_rank (leasable now t) = (k, r) # rest"
    using assms(2) by (cases "sort_key queue_rank (leasable now t)") (auto simp: task_lease_def)
  from lease_picks [OF assms(1) s, of until] assms(2) that show thesis by (auto simp: leased_item_def)
qed

lemma leased_once:
  assumes "tq_ok t" and "task_lease now until t = (Inr (Some i), u)" and "task_lease now' until' u = (Inr (Some j), v)"
  shows "qi_item_id i \<noteq> qi_item_id j"
proof
  assume same: "qi_item_id i = qi_item_id j"
  obtain r where i: "i = leased_item now until r" "t_get (qi_item_id i) u = Some i" "tq_ok u"
    using lease_some [OF assms(1,2)] by metis
  obtain r' where "qi_status r' = QS_PENDING" "t_get (qi_item_id j) u = Some r'"
    using lease_some [OF i(3) assms(3)] by metis
  then show False using same i by (simp add: leased_item_def)
qed

section \<open>Recovery and retries\<close>

lemma recovered_frees:
  "item_ok r \<Longrightarrow> case qi_status (recovered now r) of QS_RUNNING \<Rightarrow> False
     | QS_LEASED \<Rightarrow> (case qi_leased_until (recovered now r) of Some e \<Rightarrow> now < e | None \<Rightarrow> False) | _ \<Rightarrow> True"
  by (cases "qi_status r"; cases "qi_leased_until r") (auto simp: recovered_def item_ok_def lease_over_def not_le)

text \<open>
  C36: after a recovery no item runs, every lease that is left has not expired yet, and every item that is
  not final is pending or so leased: nothing is stuck with a worker that is gone. The count is the number
  of items put back.
\<close>

theorem recovery_frees_items:
  "let t = fold queue_step cs [] in
   case task_recover now t of
     (Inr n, u) \<Rightarrow> list_all (\<lambda>r. case qi_status r of QS_RUNNING \<Rightarrow> False
         | QS_LEASED \<Rightarrow> (case qi_leased_until r of Some e \<Rightarrow> now < e | None \<Rightarrow> False) | _ \<Rightarrow> True) (t_rows u) \<and>
       n = int (length (filter (\<lambda>r. qi_status r = QS_RUNNING \<or> lease_over now r) (t_rows t))) \<and> t_keys u = t_keys t
   | (Inl e, u) \<Rightarrow> False"
proof -
  let ?t = "fold queue_step cs []"
  have ok: "item_ok r" if "(k, r) \<in> set ?t" for k r using that queue_steps_ok [OF tq_ok_init, of cs] by (auto simp: tq_ok_def)
  obtain n where run: "task_recover now ?t = (Inr n, snd (task_recover now ?t))" by (simp add: task_recover_def bindO_apply thenO_apply)
  have rows: "list_all (\<lambda>r. case qi_status r of QS_RUNNING \<Rightarrow> False
         | QS_LEASED \<Rightarrow> (case qi_leased_until r of Some e \<Rightarrow> now < e | None \<Rightarrow> False) | _ \<Rightarrow> True) (t_rows (snd (task_recover now ?t)))"
    unfolding recover_rows list_all_iff
  proof
    fix r assume "r \<in> set (t_rows (on_rows (\<lambda>k. recovered now) ?t))"
    then obtain k v where v: "(k, v) \<in> set ?t" "r = recovered now v" by (auto simp: t_rows_def on_rows_def)
    show "case qi_status r of QS_RUNNING \<Rightarrow> False
         | QS_LEASED \<Rightarrow> (case qi_leased_until r of Some e \<Rightarrow> now < e | None \<Rightarrow> False) | _ \<Rightarrow> True"
      unfolding v(2) by (rule recovered_frees [OF ok [OF v(1)]])
  qed
  have count: "length (filter (\<lambda>r. qi_status r = QS_RUNNING \<or> lease_over now r) xs) = length (filter (lease_over now) xs) +
      length (filter (\<lambda>r. qi_status r = QS_RUNNING) (map (\<lambda>r. if lease_over now r then r\<lparr>qi_status := QS_PENDING, qi_leased_until := None, qi_updated_at := now\<rparr> else r) xs))" for xs
    by (induction xs) (auto simp: lease_over_def)
  have "n = int (length (filter (\<lambda>r. qi_status r = QS_RUNNING \<or> lease_over now r) (t_rows ?t)))"
    using run unfolding count by (auto simp: task_recover_def bindO_apply thenO_apply t_rows_def comp_def case_prod_beta)
  then show ?thesis using run rows by (simp add: Let_def recover_rows)
qed

text \<open>A failure from the last attempt on fails the item; before that it is pending again from the retry time.\<close>

lemma task_failed_effect:
  assumes "t_get k t = Some r"
  shows "\<exists>u. task_failed k now retry_at err t = (Inr (r\<lparr>qi_status := (if qi_max_attempts r \<le> qi_attempts r + 1 then QS_FAILED else QS_PENDING),
      qi_attempts := qi_attempts r + 1, qi_available_at := retry_at, qi_leased_until := None, qi_last_error := Some err, qi_updated_at := now\<rparr>), u) \<and>
    t_get k u = Some (r\<lparr>qi_status := (if qi_max_attempts r \<le> qi_attempts r + 1 then QS_FAILED else QS_PENDING),
      qi_attempts := qi_attempts r + 1, qi_available_at := retry_at, qi_leased_until := None, qi_last_error := Some err, qi_updated_at := now\<rparr>)"
  using assms by (simp add: task_failed_def bindO_apply thenO_apply tq_read_def tq_get_def)

text \<open>Only the failures of an item count as attempts, each of them once.\<close>

fun counts_failure :: "string \<Rightarrow> queue_call \<Rightarrow> bool" where
  "counts_failure k (QC_Failed k' now retry_at err) \<longleftrightarrow> k' = k"
| "counts_failure k c \<longleftrightarrow> False"

definition failures_of :: "string \<Rightarrow> queue_call list \<Rightarrow> int" where
  "failures_of k cs = int (length (filter (counts_failure k) cs))"

lemma attempts_step:
  assumes "t_get k t = Some r"
  shows "map_option qi_attempts (t_get k (queue_step c t)) = Some (qi_attempts r + (if counts_failure k c then 1 else 0))"
proof (cases c)
  case (QC_Enqueue k' d p pr a m)
  then show ?thesis using assms by (auto simp: task_enqueue_def t_get_snoc)
next
  case (QC_Lease now until)
  then show ?thesis using assms
    by (auto simp: task_lease_def bindO_apply thenO_apply tq_read_def split: list.split prod.split sum.split)
next
  case (QC_Cancelled k' now)
  then show ?thesis using assms
    by (cases "k' = k"; cases "final_status (qi_status r)") (simp_all add: task_cancelled_def tq_read_def thenO_apply)
next
  case (QC_Failed k' now retry_at err)
  then show ?thesis using assms
    by (cases "k' = k"; cases "t_get k' t") (auto simp: task_failed_def bindO_apply thenO_apply tq_read_def tq_get_def)
qed (use assms in \<open>auto simp: task_running_def task_succeeded_def transition_apply recover_rows recovered_def\<close>)

lemma leases_have_attempts:
  assumes "tq_ok t"
  shows "case fst (task_lease now until t) of Inl e \<Rightarrow> False | Inr None \<Rightarrow> True | Inr (Some i) \<Rightarrow> qi_attempts i < max 1 (qi_max_attempts i)"
proof (cases "sort_key queue_rank (leasable now t)")
  case Nil
  then show ?thesis by (simp add: task_lease_def bindO_apply)
next
  case (Cons p rest)
  obtain k r where p: "p = (k, r)" by (cases p)
  obtain u where u: "task_lease now until t = (Inr (Some (leased_item now until r)), u)" "qi_status r = QS_PENDING" "t_get k t = Some r"
    using lease_picks [OF assms Cons [unfolded p], of until] by blast
  have "item_ok r" using assms u(3) by (auto simp: tq_ok_def t_get_def dest!: map_of_SomeD)
  then show ?thesis using u(1,2) by (auto simp: item_ok_def leased_item_def)
qed

text \<open>
  C34: reported failures end the retries. An item that is in the queue stays in it, its attempts grow by
  one with each failure reported for it and with no other call, and it is failed exactly when they have
  reached its maximum, the first failure counting in any case; a lease never raises and only gives out
  items with attempts left. An execution whose failure is never reported is not an attempt: a recovery
  puts it back uncounted, as often as it happens (\<open>lost_execution_not_counted\<close>).
\<close>

theorem reported_failures_bounded:
  "let t = fold queue_step cs []; u = fold queue_step cs' t in
     (case t_get k t of None \<Rightarrow> True
      | Some r \<Rightarrow> (case t_get k u of None \<Rightarrow> False
          | Some v \<Rightarrow> qi_attempts v = qi_attempts r + failures_of k cs' \<and> qi_max_attempts v = qi_max_attempts r \<and>
              (qi_status v = QS_FAILED \<longleftrightarrow> 1 \<le> qi_attempts v \<and> qi_max_attempts v \<le> qi_attempts v))) \<and>
     (case fst (task_lease now until u) of Inl e \<Rightarrow> False | Inr None \<Rightarrow> True | Inr (Some i) \<Rightarrow> qi_attempts i < max 1 (qi_max_attempts i))"
proof -
  have count: "t_get k t = Some r \<Longrightarrow> map_option qi_attempts (t_get k (fold queue_step cs t)) = Some (qi_attempts r + failures_of k cs)" for t r cs
  proof (induction cs arbitrary: t r)
    case (Cons c cs)
    obtain v where v: "t_get k (queue_step c t) = Some v" "qi_attempts v = qi_attempts r + (if counts_failure k c then 1 else 0)"
      using attempts_step [OF Cons.prems, of c] by auto
    show ?case using Cons.IH [OF v(1)] v(2) by (cases "counts_failure k c") (auto simp: failures_of_def)
  qed (simp add: failures_of_def)
  let ?t = "fold queue_step cs []" and ?u = "fold queue_step cs' (fold queue_step cs [])"
  have ok: "tq_ok ?u" "items_later ?t ?u" using queue_steps_ok [OF queue_steps_ok [OF tq_ok_init, of cs, THEN conjunct1], of cs'] by blast+
  show ?thesis
  proof (cases "t_get k ?t")
    case (Some r)
    obtain v where v: "t_get k ?u = Some v" "item_later r v" using ok(2) Some by (auto simp: items_later_def)
    have "item_ok v" using ok(1) v(1) by (auto simp: tq_ok_def t_get_def dest!: map_of_SomeD)
    then show ?thesis using Some v count [OF Some, of cs'] leases_have_attempts [OF ok(1)] by (simp add: Let_def item_later_def item_ok_def)
  qed (use leases_have_attempts [OF ok(1)] in \<open>simp add: Let_def\<close>)
qed

section \<open>Observed behaviour\<close>

text \<open>A failure can be reported for an item that has succeeded: it is pending again and will be run again.\<close>

lemma succeeded_item_retried:
  "t_get k t = Some r \<Longrightarrow> qi_status r = QS_SUCCEEDED \<Longrightarrow> qi_attempts r + 1 < qi_max_attempts r \<Longrightarrow>
   \<exists>i u. task_failed k now retry_at err t = (Inr i, u) \<and> qi_status i = QS_PENDING"
  using task_failed_effect [of k t r now retry_at err] by auto

text \<open>An execution that never reports back is put back by a recovery without being counted, so it can be retried without end.\<close>

lemma lost_execution_not_counted:
  "t_get k t = Some r \<Longrightarrow> qi_status r = QS_RUNNING \<Longrightarrow> map_option (\<lambda>v. (qi_status v, qi_attempts v)) (t_get k (snd (task_recover now t))) = Some (QS_PENDING, qi_attempts r)"
  by (simp add: recover_rows recovered_def lease_over_def)

section \<open>The delay\<close>

text \<open>
  The delay before a retry is never above the policy's maximum, and is undefined only for attempts
  before the first and for those whose power of two exceeds every double.
\<close>

theorem retry_delay_bounded:
  "case delay_for_attempt p n of
     Inr d \<Rightarrow> 1 \<le> n \<and> n \<le> 1024 \<and> \<not> fgt d (ry_max_delay p) \<and>
       (d = ry_max_delay p \<or> d = fmul (ry_base_delay p) (Fin (2 ^ nat (n - 1))))
   | Inl e \<Rightarrow> n < 1 \<or> 1024 < n"
proof -
  have "\<not> flt x x" for x by (cases x) simp_all
  then show ?thesis by (auto simp: delay_for_attempt_def fmin_def guardR_def bindR_def not_le split: sum.split)
qed

text \<open>With the default policy the delays double from one second up to the maximum of thirty.\<close>

lemma default_delays:
  "map (delay_for_attempt retry_policy_default) [1, 2, 3, 4, 5, 6, 7] = map (\<lambda>x. Inr (Fin x)) [1, 2, 4, 8, 16, 30, 30]"
  by (simp add: delay_for_attempt_def retry_policy_default_def fmin_def)

section \<open>Duplicate messages\<close>

text \<open>Only the first call with a message id returns true, with and without a store.\<close>

lemma guard_marks_once:
  "fst (guard_mark mid (snd (guard_mark mid g))) = False"
  by (cases "mg_store g") (auto simp: guard_mark_def mark_processed_def t_insert_def)

end
