(* ===== verification/StrategyVersion.thy ===== *)
theory StrategyVersion
  imports Json
begin

text \<open>
  \<open>gaon/control/strategy_version.py\<close>: the append-only registry of immutable strategy versions. The
  registry is the list of its versions in insertion order. The lemmas show that operations only
  append or change status fields, that at most one version per direction is ACTIVE, that display
  ids are unique, and that a retired version stays retired.
\<close>

section \<open>Versions\<close>

datatype version_status = APPLY_READY | ACTIVE | PREVIOUS | RETIRED

fun version_status_value :: "version_status \<Rightarrow> string" where
  "version_status_value APPLY_READY = ''apply_ready''"
| "version_status_value ACTIVE = ''active''"
| "version_status_value PREVIOUS = ''previous''"
| "version_status_value RETIRED = ''retired''"

definition version_status_of :: "string \<Rightarrow> version_status res" where
  "version_status_of s = ofOption (ValueError ''not a valid StrategyVersionStatus'')
     (find (\<lambda>m. version_status_value m = s) [APPLY_READY, ACTIVE, PREVIOUS, RETIRED])"

record strategy_version =
  sv_id :: string
  sv_family :: string
  sv_candidate :: string
  sv_fingerprint :: string
  sv_rules :: obj
  sv_summary :: obj
  sv_status :: version_status
  sv_created_at :: string
  sv_display :: "string option"
  sv_direction :: "string option"
  sv_approved_at :: "string option"
  sv_activated_at :: "string option"
  sv_deactivated_at :: "string option"
  sv_retired_at :: "string option"
  sv_retired_reason :: "string option"

definition sv_to_json :: "strategy_version \<Rightarrow> obj" where
  "sv_to_json v = [(''strategy_version_id'', JStr (sv_id v)), (''family_id'', JStr (sv_family v)),
     (''candidate_id'', JStr (sv_candidate v)), (''spec_fingerprint'', JStr (sv_fingerprint v)),
     (''spec_rules'', JObj (sv_rules v)), (''validation_summary'', JObj (sv_summary v)),
     (''status'', JStr (version_status_value (sv_status v))), (''created_at'', JStr (sv_created_at v)),
     (''display_id'', of_opt (sv_display v)), (''direction'', of_opt (sv_direction v)),
     (''approved_at'', of_opt (sv_approved_at v)), (''activated_at'', of_opt (sv_activated_at v)),
     (''deactivated_at'', of_opt (sv_deactivated_at v)), (''retired_at'', of_opt (sv_retired_at v)),
     (''retired_reason'', of_opt (sv_retired_reason v))]"

definition sv_from_json :: "obj \<Rightarrow> strategy_version res" where
  "sv_from_json raw =
    bindR (jreq raw ''strategy_version_id'') (\<lambda>vid.
    bindR (jreq raw ''family_id'') (\<lambda>family.
    bindR (jreq raw ''candidate_id'') (\<lambda>candidate.
    bindR (jreq raw ''spec_fingerprint'') (\<lambda>fp.
    bindR (as_dict (jget raw ''spec_rules'')) (\<lambda>rules.
    bindR (as_dict (jget raw ''validation_summary'')) (\<lambda>summary.
    bindR (bindR (jreq raw ''status'') (\<lambda>s. version_status_of (py_str s))) (\<lambda>status.
    bindR (jreq raw ''created_at'') (\<lambda>created.
    Inr \<lparr>sv_id = py_str vid, sv_family = py_str family, sv_candidate = py_str candidate,
         sv_fingerprint = py_str fp, sv_rules = rules, sv_summary = summary, sv_status = status,
         sv_created_at = py_str created, sv_display = jopt_str (jget raw ''display_id''),
         sv_direction = jopt_str (jget raw ''direction''), sv_approved_at = jopt_str (jget raw ''approved_at''),
         sv_activated_at = jopt_str (jget raw ''activated_at''),
         sv_deactivated_at = jopt_str (jget raw ''deactivated_at''),
         sv_retired_at = jopt_str (jget raw ''retired_at''),
         sv_retired_reason = jopt_str (jget raw ''retired_reason'')\<rparr>))))))))"

lemma version_status_of_value [simp]: "version_status_of (version_status_value s) = Inr s"
  by (cases s) (simp_all add: version_status_of_def)

lemma sv_roundtrip: "sv_from_json (sv_to_json v) = Inr v"
  by (simp add: sv_from_json_def sv_to_json_def)

definition normalize_direction :: "string option \<Rightarrow> string option res" where
  "normalize_direction value = (case value of None \<Rightarrow> Inr None
     | Some v \<Rightarrow> let n = upper (strip v) in
         if n \<noteq> ''LONG'' \<and> n \<noteq> ''SHORT'' then Inl (ValueError ''direction must be LONG or SHORT'')
         else Inr (Some n))"

section \<open>Display ids\<close>

definition display_label :: "string \<Rightarrow> nat \<Rightarrow> string" where
  "display_label prefix n = prefix @ pad0 3 (dec_nat n)"

lemma inj_display_label: "inj (display_label prefix)"
  by (rule injI) (auto simp: display_label_def dest: inj_pad0_dec)

text \<open>The loop \<open>while label in used: sequence += 1\<close>; it ends because labels are pairwise distinct.\<close>

function free_sequence :: "string list \<Rightarrow> string \<Rightarrow> nat \<Rightarrow> nat" where
  "free_sequence used prefix n =
     (if display_label prefix n \<in> set used then free_sequence used prefix (Suc n) else n)"
  by pat_completeness auto
termination
proof (relation "measure (\<lambda>(used, prefix, n). card {m. n \<le> m \<and> display_label prefix m \<in> set used})")
  fix used prefix and n :: nat
  assume used: "display_label prefix n \<in> set used"
  let ?A = "\<lambda>n. {m. n \<le> m \<and> display_label prefix m \<in> set used}"
  have "finite (display_label prefix -` set used)"
    by (intro finite_vimageI inj_display_label) simp
  then have fin: "finite (?A n)"
    by (rule finite_subset [rotated]) auto
  have "n \<in> ?A n" "n \<notin> ?A (Suc n)" "?A (Suc n) \<subseteq> ?A n"
    using used by auto
  then have "?A (Suc n) \<subset> ?A n"
    by blast
  then have "card (?A (Suc n)) < card (?A n)"
    using fin by (rule psubset_card_mono [rotated])
  then show "((used, prefix, Suc n), (used, prefix, n))
      \<in> measure (\<lambda>(used, prefix, n). card {m. n \<le> m \<and> display_label prefix m \<in> set used})"
    by simp
qed simp

declare free_sequence.simps [simp del]

lemma free_sequence_free: "display_label prefix (free_sequence used prefix n) \<notin> set used"
  by (induction used prefix n rule: free_sequence.induct) (subst free_sequence.simps, auto)

type_synonym version_registry = "strategy_version list"

definition next_display_id :: "version_registry \<Rightarrow> string \<Rightarrow> string option \<Rightarrow> string option" where
  "next_display_id vs ts direction =
    (if direction \<noteq> Some ''LONG'' \<and> direction \<noteq> Some ''SHORT'' then None
     else let date = replace_all ''-'' '''' (take 10 ts) in
       if length date \<noteq> 8 \<or> \<not> isdigit date then None
       else let prefix = drop 2 date @ ''-'' @ (if direction = Some ''LONG'' then ''L'' else ''S'');
                used = filter (\<lambda>d. d \<noteq> []) (List.map_filter sv_display vs)
            in Some (display_label prefix (free_sequence used prefix 1)))"

section \<open>Operations\<close>

definition register_apply_ready ::
  "string \<Rightarrow> string \<Rightarrow> string \<Rightarrow> string \<Rightarrow> obj \<Rightarrow> obj \<Rightarrow> string \<Rightarrow> string option \<Rightarrow> (version_registry, strategy_version) opr" where
  "register_apply_ready uuid family candidate fp rules summary ts direction =
    bindO (liftO (normalize_direction direction)) (\<lambda>dir.
    bindO (getO (\<lambda>vs. next_display_id vs ts dir)) (\<lambda>display.
    let v = \<lparr>sv_id = ''strategy-version:'' @ take 12 uuid, sv_family = family, sv_candidate = candidate,
             sv_fingerprint = fp, sv_rules = rules, sv_summary = summary, sv_status = APPLY_READY,
             sv_created_at = ts, sv_display = display, sv_direction = dir, sv_approved_at = Some ts,
             sv_activated_at = None, sv_deactivated_at = None, sv_retired_at = None, sv_retired_reason = None\<rparr>
    in thenO (modO (\<lambda>vs. vs @ [v])) (retO v)))"

definition version_get :: "string \<Rightarrow> version_registry \<Rightarrow> strategy_version res" where
  "version_get vid vs = ofOption (KeyError vid) (find (\<lambda>v. sv_id v = vid) vs)"

definition last_opt :: "'a list \<Rightarrow> 'a option" where
  "last_opt xs = (if xs = [] then None else Some (last xs))"

definition active_version :: "string option \<Rightarrow> version_registry \<Rightarrow> strategy_version option res" where
  "active_version direction vs = bindR (normalize_direction direction) (\<lambda>n.
     let matches = filter (\<lambda>v. sv_status v = ACTIVE) vs;
         matches = (if n \<noteq> None then filter (\<lambda>v. sv_direction v = n) matches else matches)
     in Inr (last_opt matches))"

definition active_by_direction :: "version_registry \<Rightarrow> (string \<times> strategy_version option) list res" where
  "active_by_direction vs = bindR (active_version (Some ''LONG'') vs) (\<lambda>l.
     bindR (active_version (Some ''SHORT'') vs) (\<lambda>s. Inr [(''LONG'', l), (''SHORT'', s)]))"

definition selectable_versions :: "version_registry \<Rightarrow> strategy_version list" where
  "selectable_versions vs = filter (\<lambda>v. sv_status v = APPLY_READY \<or> sv_status v = PREVIOUS) vs"

fun index_of :: "('a \<Rightarrow> bool) \<Rightarrow> 'a list \<Rightarrow> nat option" where
  "index_of P [] = None"
| "index_of P (x # xs) = (if P x then Some 0 else map_option Suc (index_of P xs))"

definition activate :: "string \<Rightarrow> strategy_version \<Rightarrow> strategy_version" where
  "activate ts v = v\<lparr>sv_status := ACTIVE, sv_activated_at := Some ts, sv_deactivated_at := None\<rparr>"

definition deactivate :: "string \<Rightarrow> strategy_version \<Rightarrow> strategy_version" where
  "deactivate ts v = v\<lparr>sv_status := PREVIOUS, sv_deactivated_at := Some ts\<rparr>"

definition retire :: "string \<Rightarrow> string \<Rightarrow> strategy_version \<Rightarrow> strategy_version" where
  "retire ts reason v = v\<lparr>sv_status := RETIRED, sv_retired_at := Some ts, sv_retired_reason := Some reason\<rparr>"

text \<open>The loop over the other entries and the update of the target, at target index \<open>k\<close>.\<close>

definition switch_active :: "nat \<Rightarrow> string \<Rightarrow> version_registry \<Rightarrow> version_registry" where
  "switch_active k ts vs = map (\<lambda>(i, v).
     if i = k then activate ts v
     else if sv_status v = ACTIVE \<and> sv_direction v = sv_direction (vs ! k) then deactivate ts v
     else v) (enumerate 0 vs)"

definition mark_active :: "string \<Rightarrow> string \<Rightarrow> (version_registry, strategy_version) opr" where
  "mark_active vid ts = (\<lambda>vs. case index_of (\<lambda>v. sv_id v = vid) vs of
      None \<Rightarrow> (Inl (KeyError vid), vs)
    | Some k \<Rightarrow>
        if sv_status (vs ! k) = RETIRED then (Inl (ValueError (vid @ '' is RETIRED and cannot be activated'')), vs)
        else let vs' = switch_active k ts vs in (Inr (vs' ! k), vs'))"

definition mark_retired :: "string \<Rightarrow> string \<Rightarrow> string \<Rightarrow> (version_registry, strategy_version) opr" where
  "mark_retired vid ts reason = (\<lambda>vs. case index_of (\<lambda>v. sv_id v = vid) vs of
      None \<Rightarrow> (Inl (KeyError vid), vs)
    | Some k \<Rightarrow> let vs' = vs[k := retire ts reason (vs ! k)] in (Inr (vs' ! k), vs'))"

definition registry_to_json :: "version_registry \<Rightarrow> obj" where
  "registry_to_json vs = [(''versions'', JArr (map (JObj \<circ> sv_to_json) vs))]"

definition registry_from_json :: "obj \<Rightarrow> version_registry res" where
  "registry_from_json raw = bindR (as_items (jget raw ''versions''))
     (mapR (\<lambda>j. bindR (need_obj j) sv_from_json))"

section \<open>Lemmas on the operations\<close>

lemma index_of_Some:
  "index_of P xs = Some k \<Longrightarrow> k < length xs \<and> P (xs ! k) \<and> (\<forall>j < k. \<not> P (xs ! j))"
  by (induction xs arbitrary: k) (auto split: if_splits simp: less_Suc_eq_0_disj)

lemma index_of_None: "index_of P xs = None \<longleftrightarrow> (\<forall>x \<in> set xs. \<not> P x)"
  by (induction xs) (auto split: if_splits)

lemma length_switch_active [simp]: "length (switch_active k ts vs) = length vs"
  by (simp add: switch_active_def)

lemma nth_switch_active:
  "i < length vs \<Longrightarrow> switch_active k ts vs ! i =
     (if i = k then activate ts (vs ! i)
      else if sv_status (vs ! i) = ACTIVE \<and> sv_direction (vs ! i) = sv_direction (vs ! k)
        then deactivate ts (vs ! i) else vs ! i)"
  by (simp add: switch_active_def nth_enumerate_eq)

text \<open>The fields of a version that no operation changes.\<close>

definition sv_core :: "strategy_version \<Rightarrow> strategy_version" where
  "sv_core v = v\<lparr>sv_status := APPLY_READY, sv_activated_at := None, sv_deactivated_at := None,
     sv_retired_at := None, sv_retired_reason := None\<rparr>"

lemma sv_core_updates [simp]:
  "sv_core (activate ts v) = sv_core v"
  "sv_core (deactivate ts v) = sv_core v"
  "sv_core (retire ts reason v) = sv_core v"
  by (simp_all add: sv_core_def activate_def deactivate_def retire_def)

lemma sv_core_eqD:
  "sv_core v = sv_core w \<Longrightarrow> sv_id v = sv_id w \<and> sv_direction v = sv_direction w \<and> sv_display v = sv_display w"
  unfolding sv_core_def by (metis (no_types, lifting) strategy_version.simps strategy_version.surjective)

lemma update_status [simp]:
  "sv_status (activate ts v) = ACTIVE" "sv_status (deactivate ts v) = PREVIOUS"
  "sv_status (retire ts reason v) = RETIRED"
  "sv_direction (activate ts v) = sv_direction v" "sv_direction (deactivate ts v) = sv_direction v"
  "sv_direction (retire ts reason v) = sv_direction v"
  "sv_id (activate ts v) = sv_id v" "sv_id (deactivate ts v) = sv_id v"
  by (simp_all add: activate_def deactivate_def retire_def)

datatype version_op =
    VRegister string string string string obj obj string "string option"
  | VActivate string string
  | VRetire string string string

fun version_step :: "version_op \<Rightarrow> version_registry \<Rightarrow> version_registry" where
  "version_step (VRegister u f c fp rules summary ts d) vs = snd (register_apply_ready u f c fp rules summary ts d vs)"
| "version_step (VActivate vid ts) vs = snd (mark_active vid ts vs)"
| "version_step (VRetire vid ts reason) vs = snd (mark_retired vid ts reason vs)"

text \<open>Every operation leaves the registry alone, appends one fresh version, or changes status fields.\<close>

lemma version_step_cases:
  obtains (same) "version_step op vs = vs"
  | (append) v ts where "version_step op vs = vs @ [v]" "sv_status v = APPLY_READY"
      "sv_display v = next_display_id vs ts (sv_direction v)"
  | (switch) k ts where "version_step op vs = switch_active k ts vs" "k < length vs" "sv_status (vs ! k) \<noteq> RETIRED"
  | (retire) k ts reason where "version_step op vs = vs[k := retire ts reason (vs ! k)]" "k < length vs"
proof (cases op)
  case (VRegister u f c fp rules summary ts d)
  then show thesis
    using same append
    by (cases "normalize_direction d") (auto simp: register_apply_ready_def bindO_apply thenO_apply Let_def)
next
  case (VActivate vid ts)
  show thesis
  proof (cases "index_of (\<lambda>v. sv_id v = vid) vs")
    case None
    then show thesis using same VActivate by (simp add: mark_active_def)
  next
    case (Some k)
    then have "k < length vs" using index_of_Some by metis
    then show thesis
      using same switch [where k = k and ts = ts] VActivate Some
      by (cases "sv_status (vs ! k) = RETIRED") (simp_all add: mark_active_def Let_def)
  qed
next
  case (VRetire vid ts reason)
  show thesis
  proof (cases "index_of (\<lambda>v. sv_id v = vid) vs")
    case None
    then show thesis using same VRetire by (simp add: mark_retired_def)
  next
    case (Some k)
    then have "k < length vs" using index_of_Some by metis
    then show thesis
      using retire [where k = k and ts = ts and reason = reason] VRetire Some
      by (simp add: mark_retired_def Let_def)
  qed
qed

lemma version_step_core: "\<exists>new. map sv_core (version_step op vs) = map sv_core vs @ new"
proof (cases rule: version_step_cases [of op vs])
  case (switch k ts)
  then show ?thesis
    by (auto intro!: exI [of _ "[]"] nth_equalityI simp: nth_switch_active)
next
  case (retire k ts reason)
  then show ?thesis
    by (auto intro!: exI [of _ "[]"] nth_equalityI simp: nth_list_update)
qed auto

section \<open>One active version per direction\<close>

definition single_active :: "version_registry \<Rightarrow> bool" where
  "single_active vs \<longleftrightarrow> (\<forall>i < length vs. \<forall>j < length vs.
     sv_status (vs ! i) = ACTIVE \<and> sv_status (vs ! j) = ACTIVE \<and>
     sv_direction (vs ! i) = sv_direction (vs ! j) \<longrightarrow> i = j)"

lemma single_active_step: "single_active vs \<Longrightarrow> single_active (version_step op vs)"
proof (cases rule: version_step_cases [of op vs])
  case (append v ts)
  assume "single_active vs"
  then show ?thesis
    using append(1,2) by (auto simp: single_active_def nth_append less_Suc_eq)
next
  case (switch k ts)
  assume "single_active vs"
  then show ?thesis
    using switch by (auto simp: single_active_def nth_switch_active split: if_splits)
next
  case (retire k ts reason)
  assume "single_active vs"
  then show ?thesis
    using retire by (auto simp: single_active_def nth_list_update split: if_splits)
qed simp

text \<open>
  Whatever sequence of registrations, activations and retirements runs, at most one version
  per direction (the undirected one included) is ACTIVE.
\<close>

theorem registry_single_active: "single_active (fold version_step ops [])"
  by (induction ops rule: rev_induct) (simp_all add: single_active_step, simp add: single_active_def)

text \<open>
  The registry is append-only. Every sequence of operations keeps each version at its place
  with its identity, fingerprint, rules, validation summary, display id and direction unchanged;
  only new versions are appended after them.
\<close>

theorem registry_append_only:
  "\<exists>new. map sv_core (fold version_step ops vs) = map sv_core vs @ new"
proof (induction ops rule: rev_induct)
  case (snoc op ops)
  then show ?case
    using version_step_core [of op "fold version_step ops vs"] by auto
qed simp

section \<open>Display ids\<close>

definition display_ids :: "version_registry \<Rightarrow> string list" where
  "display_ids vs = List.map_filter sv_display vs"

lemma display_ids_append: "display_ids (vs @ ws) = display_ids vs @ display_ids ws"
  by (simp add: display_ids_def map_filter_def)

lemma display_ids_single: "display_ids [v] = (case sv_display v of None \<Rightarrow> [] | Some d \<Rightarrow> [d])"
  by (simp add: display_ids_def map_filter_def split: option.splits)

lemma display_ids_core: "map sv_core vs = map sv_core ws \<Longrightarrow> display_ids vs = display_ids ws"
proof (induction vs arbitrary: ws)
  case (Cons v vs)
  then show ?case
    by (cases ws) (auto simp: display_ids_def map_filter_def dest: sv_core_eqD)
qed (simp add: display_ids_def)

lemma next_display_id_fresh:
  assumes "next_display_id vs ts d = Some x"
  shows "x \<noteq> [] \<and> x \<notin> set (display_ids vs)"
proof -
  obtain prefix where x: "x = display_label prefix
      (free_sequence (filter (\<lambda>d. d \<noteq> []) (List.map_filter sv_display vs)) prefix 1)"
    using assms by (auto simp: next_display_id_def Let_def split: if_splits)
  have "x \<notin> set (filter (\<lambda>d. d \<noteq> []) (display_ids vs))"
    unfolding x display_ids_def by (rule free_sequence_free)
  moreover have "x \<noteq> []"
    using x by (simp add: display_label_def pad0_def)
  ultimately show ?thesis by simp
qed

lemma display_ids_step: "distinct (display_ids vs) \<Longrightarrow> distinct (display_ids (version_step op vs))"
proof (cases rule: version_step_cases [of op vs])
  case (append v ts)
  assume "distinct (display_ids vs)"
  then show ?thesis
    using append(1,3) next_display_id_fresh [of vs ts "sv_direction v"]
    by (auto simp: display_ids_append display_ids_single split: option.splits)
next
  case (switch k ts)
  have "map sv_core (version_step op vs) = map sv_core vs"
    using switch by (auto intro!: nth_equalityI simp: nth_switch_active)
  then show "distinct (display_ids vs) \<Longrightarrow> ?thesis" using display_ids_core by metis
next
  case (retire k ts reason)
  have "map sv_core (version_step op vs) = map sv_core vs"
    using retire by (auto intro!: nth_equalityI simp: nth_list_update)
  then show "distinct (display_ids vs) \<Longrightarrow> ?thesis" using display_ids_core by metis
qed simp

text \<open>
  The display ids that the registry hands out are pairwise distinct.
\<close>

theorem registry_display_ids_distinct: "distinct (display_ids (fold version_step ops []))"
  by (induction ops rule: rev_induct) (simp_all add: display_ids_step, simp add: display_ids_def map_filter_def)

section \<open>Activation and retirement\<close>

text \<open>
  A successful activation makes the first version with that id ACTIVE, demotes every other
  ACTIVE version of the same direction to PREVIOUS with its deactivation time, and leaves every
  other version exactly as it was.
\<close>

theorem mark_active_effect:
  assumes "mark_active vid ts vs = (Inr v, vs')"
  shows "\<exists>k < length vs. sv_id (vs ! k) = vid \<and> sv_status (vs ! k) \<noteq> RETIRED \<and> v = activate ts (vs ! k) \<and>
     length vs' = length vs \<and> vs' ! k = v \<and>
     (\<forall>i < length vs. i \<noteq> k \<longrightarrow> vs' ! i =
        (if sv_status (vs ! i) = ACTIVE \<and> sv_direction (vs ! i) = sv_direction (vs ! k)
         then deactivate ts (vs ! i) else vs ! i))"
proof -
  obtain k where k: "index_of (\<lambda>v. sv_id v = vid) vs = Some k" and "sv_status (vs ! k) \<noteq> RETIRED"
    and "vs' = switch_active k ts vs" "v = switch_active k ts vs ! k"
    using assms by (auto simp: mark_active_def Let_def split: option.splits if_splits)
  moreover have "k < length vs" "sv_id (vs ! k) = vid"
    using index_of_Some [OF k] by auto
  ultimately show ?thesis
    by (intro exI [of _ k]) (auto simp: nth_switch_active)
qed

text \<open>
  A retired version stays retired, at its place, whatever operations follow.
\<close>

theorem retired_stays_retired:
  assumes "i < length vs" and "sv_status (vs ! i) = RETIRED"
  shows "sv_status (fold version_step ops vs ! i) = RETIRED"
proof -
  have "i < length (fold version_step ops vs) \<and> sv_status (fold version_step ops vs ! i) = RETIRED"
  proof (induction ops rule: rev_induct)
    case (snoc op ops)
    let ?ws = "fold version_step ops vs"
    show ?case
    proof (cases rule: version_step_cases [of op ?ws])
      case (append v ts)
      then show ?thesis using snoc by (simp add: nth_append)
    next
      case (switch k ts)
      then show ?thesis using snoc by (auto simp: nth_switch_active)
    next
      case (retire k ts reason)
      then show ?thesis using snoc by (auto simp: nth_list_update)
    qed (use snoc in simp)
  qed (use assms in simp)
  then show ?thesis by simp
qed

text \<open>
  A stored registry is read back unchanged.
\<close>

theorem registry_roundtrip: "registry_from_json (registry_to_json vs) = Inr vs"
  by (simp add: registry_from_json_def registry_to_json_def mapR_map_id sv_roundtrip)

lemma find_index_of: "find P xs = map_option (nth xs) (index_of P xs)"
  by (induction xs) (auto simp: option.map_comp comp_def)

lemma version_get_Inr_iff: "version_get vid vs = Inr v \<longleftrightarrow> (\<exists>k. index_of (\<lambda>v. sv_id v = vid) vs = Some k \<and> v = vs ! k)"
  by (auto simp: version_get_def find_index_of)

lemma version_get_id: "version_get vid vs = Inr v \<Longrightarrow> sv_id v = vid \<and> v \<in> set vs"
  by (auto simp: version_get_def find_Some_iff)

section \<open>Witnesses\<close>

definition sample_version :: "string \<Rightarrow> version_status \<Rightarrow> strategy_version" where
  "sample_version vid st = \<lparr>sv_id = vid, sv_family = ''f'', sv_candidate = ''c'', sv_fingerprint = vid @ ''-fp'',
     sv_rules = [], sv_summary = [], sv_status = st, sv_created_at = ''2026-01-01'', sv_display = None,
     sv_direction = Some ''LONG'', sv_approved_at = None, sv_activated_at = None, sv_deactivated_at = None,
     sv_retired_at = None, sv_retired_reason = None\<rparr>"

theorem mark_active_effect_witness:
  "let vs = [sample_version ''a'' ACTIVE, sample_version ''b'' APPLY_READY] in
     mark_active ''b'' ''t'' vs = (Inr (activate ''t'' (vs ! 1)), [deactivate ''t'' (vs ! 0), activate ''t'' (vs ! 1)]) \<and>
     (\<exists>k < length vs. sv_id (vs ! k) = ''b'')"
proof -
  let ?vs = "[sample_version ''a'' ACTIVE, sample_version ''b'' APPLY_READY]"
  have m: "mark_active ''b'' ''t'' ?vs = (Inr (activate ''t'' (?vs ! 1)), [deactivate ''t'' (?vs ! 0), activate ''t'' (?vs ! 1)])"
    by (simp add: mark_active_def sample_version_def switch_active_def)
  from mark_active_effect [OF this] show ?thesis
    using m by (auto simp: Let_def)
qed

theorem retired_stays_retired_witness:
  "sv_status (fold version_step [VActivate ''a'' ''t'', VRegister ''u'' ''f'' ''c'' ''p'' [] [] ''2026-01-01'' None]
     [sample_version ''a'' RETIRED] ! 0) = RETIRED"
  by (rule retired_stays_retired) (simp_all add: sample_version_def)

end
