(* ===== verification/OneShot.thy ===== *)
theory OneShot
  imports Prelude
begin

text \<open>
  The contract of everything that may be used once: an approval, a challenge, a grant. A call may spend a
  token; a spent token is on record, and no call takes one off the record. Then no token is spent twice,
  whatever the calls. The services provide it with their tables.
\<close>

locale one_shot =
  fixes step :: "'c \<Rightarrow> 's \<Rightarrow> 's"
    and spends :: "'c \<Rightarrow> 's \<Rightarrow> 't option"
    and used :: "'s \<Rightarrow> 't set"
  assumes spends_fresh: "spends c s = Some k \<Longrightarrow> k \<notin> used s"
    and spends_used: "spends c s = Some k \<Longrightarrow> k \<in> used (step c s)"
    and used_grows: "used s \<subseteq> used (step c s)"
begin

fun spent :: "'c list \<Rightarrow> 's \<Rightarrow> 't list" where
  "spent [] s = []"
| "spent (c # cs) s = (case spends c s of None \<Rightarrow> [] | Some k \<Rightarrow> [k]) @ spent cs (step c s)"

lemma used_grows_all: "used s \<subseteq> used (fold step cs s)"
  by (induction cs arbitrary: s) (use used_grows in fastforce)+

lemma spent_fresh: "k \<in> set (spent cs s) \<Longrightarrow> k \<notin> used s"
  by (induction cs arbitrary: s) (use used_grows spends_fresh in \<open>fastforce split: option.splits\<close>)+

lemma spent_once: "distinct (spent cs s)"
  by (induction cs arbitrary: s) (auto split: option.splits dest: spent_fresh spends_used)

lemma spent_used: "set (spent cs s) \<subseteq> used (fold step cs s)"
proof (induction cs arbitrary: s)
  case (Cons c cs)
  then show ?case using used_grows_all [of "step c s" cs] spends_used [of c s] by (auto split: option.splits)
qed simp

lemma used_not_spent: "k \<in> used s \<Longrightarrow> spends c (fold step cs s) \<noteq> Some k"
  using used_grows_all [of s cs] spends_fresh [of c "fold step cs s" k] by blast

end

text \<open>\<open>with connection:\<close> and \<open>BEGIN ... ROLLBACK\<close>: an exception leaves the tables as they were.\<close>

definition atomicO :: "('s, 'a) opr \<Rightarrow> ('s, 'a) opr" where
  "atomicO m = (\<lambda>s. case m s of (Inl e, _) \<Rightarrow> (Inl e, s) | (Inr x, t) \<Rightarrow> (Inr x, t))"

lemma atomicO_simps:
  "atomicO m s = (Inl e, t) \<longleftrightarrow> t = s \<and> fst (m s) = Inl e"
  "atomicO m s = (Inr x, t) \<longleftrightarrow> m s = (Inr x, t)"
  by (auto simp: atomicO_def split: prod.splits sum.splits)

lemma wp_atomic [wp_simps]: "wp (atomicO m) Q E s = wp m Q (\<lambda>e t. E e s) s"
  by (auto simp: wp_def atomicO_def split: prod.splits sum.splits)

lemma keeps_atomic [keeps_intros]: "keeps I m \<Longrightarrow> keeps I (atomicO m)"
  by (auto simp: keeps_def atomicO_def split: prod.splits sum.splits)

end
