(* ===== verification/Activation.thy ===== *)
theory Activation
  imports StrategyVersion Tables PyTime OneShot
begin

text \<open>
  \<open>runtime/strategy_version_repository.py\<close> and \<open>control/trusted_strategy_activation.py\<close>: the stored version
  registries, one per family, and the transaction that makes a version active. It takes an approval for
  exactly this actor, family and version, uses it up and records it, all or nothing.
\<close>

section \<open>Stored registries\<close>

record version_row =
  vr_registry :: obj
  vr_updated_at :: string

type_synonym version_store = "version_row table"

definition versions_get :: "string \<Rightarrow> version_store \<Rightarrow> version_registry res" where
  "versions_get family t = (case t_get family t of None \<Rightarrow> Inr [] | Some r \<Rightarrow> registry_from_json (vr_registry r))"

definition versions_save :: "string \<Rightarrow> version_registry \<Rightarrow> string \<Rightarrow> version_store \<Rightarrow> version_store" where
  "versions_save family vs now = t_upsert family \<lparr>vr_registry = ocanon (registry_to_json vs), vr_updated_at = now\<rparr>"

text \<open>A version as it is read back: its objects with their keys in order.\<close>

definition sv_canon :: "strategy_version \<Rightarrow> strategy_version" where
  "sv_canon v = v\<lparr>sv_rules := ocanon (sv_rules v), sv_summary := ocanon (sv_summary v)\<rparr>"

lemma sv_canon_fields [simp]:
  "sv_id (sv_canon v) = sv_id v" "sv_family (sv_canon v) = sv_family v" "sv_candidate (sv_canon v) = sv_candidate v"
  "sv_status (sv_canon v) = sv_status v" "sv_direction (sv_canon v) = sv_direction v" "sv_display (sv_canon v) = sv_display v"
  "sv_fingerprint (sv_canon v) = sv_fingerprint v" "sv_canon (sv_canon v) = sv_canon v"
  by (simp_all add: sv_canon_def)

lemma sv_canon_read: "sv_from_json (ocanon (sv_to_json v)) = Inr (sv_canon v)"
proof -
  have str: "jcanon (JStr s) = JStr s" for s by simp
  show ?thesis
    unfolding sv_from_json_def jreq_ocanon jget_ocanon
    by (simp add: sv_to_json_def sv_canon_def jcanon_JObj del: jcanon.simps(2))
qed

lemma registry_read: "registry_from_json (ocanon (registry_to_json vs)) = Inr (map sv_canon vs)"
proof -
  have "mapR (\<lambda>j. bindR (need_obj j) sv_from_json) (map (\<lambda>v. JObj (ocanon (sv_to_json v))) vs) = Inr (map sv_canon vs)"
    by (rule mapR_map) (simp add: sv_canon_read)
  then show ?thesis
    by (simp add: registry_from_json_def registry_to_json_def jcanon_JObj comp_def del: jcanon.simps(2))
qed

lemma versions_get_save: "versions_get f (versions_save family vs now t) = (if f = family then Inr (map sv_canon vs) else versions_get f t)"
  by (simp add: versions_get_def versions_save_def registry_read)

lemma versions_keys_save [simp]: "set (t_keys (versions_save family vs now t)) = insert family (set (t_keys t))"
  by (auto simp: versions_save_def t_upsert_def t_keys_def) force+

section \<open>The transaction\<close>

record activation_audit =
  aa_actor :: string
  aa_family :: string
  aa_version :: string
  aa_approved_at :: string
  aa_activated_at :: string

record activation_db =
  ac_versions :: version_store
  ac_audit :: "activation_audit table"

record activation_call =
  av_family :: string
  av_version :: string
  av_actor :: string
  av_approval :: string
  av_approved_family :: string
  av_approved_version :: string
  av_approval_actor :: string
  av_approved_at :: string
  av_expires_at :: string
  av_now :: string

text \<open>\<open>d.astimezone(timezone.utc)\<close>, which raises when the instant leaves the calendar.\<close>

definition utc_instant :: "dtime \<Rightarrow> int res" where
  "utc_instant d = (let u = instant d; day = u div 86400000000 in
     if day < 1 \<or> 3652059 < day then Inl (OverflowError ''date value out of range'') else Inr u)"

definition approval_instant :: "string \<Rightarrow> int res" where
  "approval_instant s = bindR (dt_fromisoformat (replace_all ''Z'' ''+00:00'' s)) (\<lambda>d.
     if dt_off d = None then Inl (PermissionError ''timezone required'') else utc_instant d)"

text \<open>The chained comparison: the expiry is read only when the approval is not in the future.\<close>

definition approval_in_time :: "activation_call \<Rightarrow> unit res" where
  "approval_in_time c = (let late = PermissionError ''approval expired or future dated'' in
     bindR (approval_instant (av_approved_at c)) (\<lambda>a.
     bindR (approval_instant (av_now c)) (\<lambda>n.
     bindR (guardR (a \<le> n) late) (\<lambda>_.
     bindR (approval_instant (av_expires_at c)) (\<lambda>e. guardR (n \<le> e) late)))))"

definition activation_scope :: "activation_call \<Rightarrow> unit res" where
  "activation_scope c =
     bindR (guardR (list_all (\<lambda>x. strip x \<noteq> []) [av_family c, av_version c, av_actor c, av_approval c,
         av_approved_family c, av_approved_version c, av_approval_actor c])
       (PermissionError ''trusted identity and exact-version approval required'')) (\<lambda>_.
     guardR (av_family c = av_approved_family c \<and> av_version c = av_approved_version c \<and> av_actor c = av_approval_actor c)
       (PermissionError ''approval scope mismatch''))"

definition audit_row :: "activation_call \<Rightarrow> activation_audit" where
  "audit_row c = \<lparr>aa_actor = av_actor c, aa_family = av_family c, aa_version = av_version c,
     aa_approved_at = av_approved_at c, aa_activated_at = av_now c\<rparr>"

definition activation_result :: "activation_call \<Rightarrow> obj" where
  "activation_result c = [(''activated'', JStr (av_version c)), (''actor'', JStr (av_actor c)),
     (''approval_consumed'', JBool True), (''orders_executed'', JBool False)]"

definition activation_body :: "activation_call \<Rightarrow> ('a activation_db_scheme, obj) opr" where
  "activation_body c =
    bindO (getO ac_audit) (\<lambda>audit.
    thenO (liftO (guardR (t_get (av_approval c) audit = None) (PermissionError ''approval already consumed'')))
    (bindO (getO ac_versions) (\<lambda>store.
     bindO (liftO (versions_get (av_family c) store)) (\<lambda>vs.
     bindO (liftO (version_get (av_version c) vs)) (\<lambda>v.
     thenO (liftO (guardR (sv_family v = av_family c \<and> (sv_status v = APPLY_READY \<or> sv_status v = PREVIOUS))
       (PermissionError ''version not eligible'')))
     (case mark_active (av_version c) (av_now c) vs of
        (Inl e, _) \<Rightarrow> raiseO e
      | (Inr _, vs') \<Rightarrow>
          thenO (modO (ac_versions_update (versions_save (av_family c) vs' (av_now c))))
          (bindO (liftO (t_insert (av_approval c) (audit_row c) audit)) (\<lambda>audit'.
           thenO (modO (ac_audit_update (\<lambda>_. audit'))) (retO (activation_result c))))))))))"

definition activate_approved_version :: "activation_call \<Rightarrow> ('a activation_db_scheme, obj) opr" where
  "activate_approved_version c =
    thenO (liftO (activation_scope c))
    (thenO (liftO (approval_in_time c)) (atomicO (activation_body c)))"

section \<open>What an activation does\<close>

lemma version_get_index:
  "version_get vid vs = Inr v \<longleftrightarrow> (\<exists>k. index_of (\<lambda>w. sv_id w = vid) vs = Some k \<and> v = vs ! k)"
proof -
  have "find (\<lambda>w. sv_id w = vid) vs = map_option ((!) vs) (index_of (\<lambda>w. sv_id w = vid) vs)"
    by (induction vs) (auto simp: option.map_comp comp_def)
  then show ?thesis by (auto simp: version_get_def)
qed

lemma selectable_iff: "v \<in> set (selectable_versions vs) \<longleftrightarrow> v \<in> set vs \<and> (sv_status v = APPLY_READY \<or> sv_status v = PREVIOUS)"
  by (auto simp: selectable_versions_def)

definition activation_effect :: "activation_call \<Rightarrow> version_registry \<Rightarrow> nat \<Rightarrow> 'a activation_db_scheme \<Rightarrow> 'a activation_db_scheme" where
  "activation_effect c vs k s = s\<lparr>
     ac_versions := versions_save (av_family c) (switch_active k (av_now c) vs) (av_now c) (ac_versions s),
     ac_audit := ac_audit s @ [(av_approval c, audit_row c)]\<rparr>"

lemma activation_body_cases:
  assumes "versions_get (av_family c) (ac_versions s) = Inr vs" and "index_of (\<lambda>w. sv_id w = av_version c) vs = Some k"
    and "sv_family (vs ! k) = av_family c" and "vs ! k \<in> set (selectable_versions vs)" and "t_get (av_approval c) (ac_audit s) = None"
  shows "activation_body c s = (Inr (activation_result c), activation_effect c vs k s)"
proof -
  have "version_get (av_version c) vs = Inr (vs ! k)" using assms(2) by (simp add: version_get_index)
  then show ?thesis
    using assms
    by (auto simp: activation_body_def activation_effect_def thenO_apply bindO_apply selectable_iff mark_active_def Let_def t_insert_def t_get_None)
qed

lemma activation_body_Inr:
  assumes "activation_body c s = (Inr r, t)"
  obtains vs k where "versions_get (av_family c) (ac_versions s) = Inr vs" "index_of (\<lambda>w. sv_id w = av_version c) vs = Some k"
    "sv_family (vs ! k) = av_family c" "vs ! k \<in> set (selectable_versions vs)" "t_get (av_approval c) (ac_audit s) = None"
    "t = activation_effect c vs k s" "r = activation_result c"
proof -
  obtain vs v where *: "t_get (av_approval c) (ac_audit s) = None" "versions_get (av_family c) (ac_versions s) = Inr vs"
      "version_get (av_version c) vs = Inr v" "sv_family v = av_family c" "sv_status v = APPLY_READY \<or> sv_status v = PREVIOUS"
    using assms by (auto simp: activation_body_def thenO_Inr_iff bindO_Inr_iff)
  obtain k where k: "index_of (\<lambda>w. sv_id w = av_version c) vs = Some k" "v = vs ! k" using *(3) by (auto simp: version_get_index)
  have sel: "vs ! k \<in> set (selectable_versions vs)" using *(5) k index_of_Some [OF k(1)] by (simp add: selectable_iff)
  show thesis
    using that [of vs k] * k sel activation_body_cases [OF *(2) k(1) _ sel *(1)] assms by simp
qed

text \<open>The version an approval is for, when it may be activated.\<close>

definition activatable :: "activation_call \<Rightarrow> 'a activation_db_scheme \<Rightarrow> bool" where
  "activatable c s \<longleftrightarrow> (case versions_get (av_family c) (ac_versions s) of Inl _ \<Rightarrow> False
     | Inr vs \<Rightarrow> (case version_get (av_version c) vs of Inl _ \<Rightarrow> False
         | Inr v \<Rightarrow> sv_family v = av_family c \<and> v \<in> set (selectable_versions vs)))"

lemma activatable_iff:
  "activatable c s \<longleftrightarrow> (\<exists>vs k. versions_get (av_family c) (ac_versions s) = Inr vs \<and> index_of (\<lambda>w. sv_id w = av_version c) vs = Some k \<and>
     sv_family (vs ! k) = av_family c \<and> vs ! k \<in> set (selectable_versions vs))"
proof -
  have "activatable c s \<longleftrightarrow> (\<exists>vs v. versions_get (av_family c) (ac_versions s) = Inr vs \<and> version_get (av_version c) vs = Inr v \<and>
      sv_family v = av_family c \<and> v \<in> set (selectable_versions vs))"
    by (auto simp: activatable_def split: sum.splits)
  then show ?thesis by (auto simp: version_get_index)
qed

lemma activation_Inr:
  assumes "activate_approved_version c s = (Inr r, t)"
  obtains vs k where "versions_get (av_family c) (ac_versions s) = Inr vs" "index_of (\<lambda>w. sv_id w = av_version c) vs = Some k"
    "sv_family (vs ! k) = av_family c" "vs ! k \<in> set (selectable_versions vs)" "t_get (av_approval c) (ac_audit s) = None"
    "t = activation_effect c vs k s" "r = activation_result c" "activation_scope c = Inr ()" "approval_in_time c = Inr ()"
  using assms by (auto simp: activate_approved_version_def thenO_Inr_iff atomicO_simps elim!: activation_body_Inr)

lemma activation_Inl: "activate_approved_version c s = (Inl e, t) \<Longrightarrow> t = s"
  by (auto simp: activate_approved_version_def thenO_apply atomicO_def split: sum.splits prod.splits)

lemma activation_succeeds_iff:
  "(\<exists>r t. activate_approved_version c s = (Inr r, t)) \<longleftrightarrow>
     activation_scope c = Inr () \<and> approval_in_time c = Inr () \<and> t_get (av_approval c) (ac_audit s) = None \<and> activatable c s"
    (is "?L \<longleftrightarrow> ?R")
proof
  show "?L \<Longrightarrow> ?R"
    by (auto simp: activatable_iff elim!: activation_Inr)
next
  assume R: ?R
  then obtain vs k where "versions_get (av_family c) (ac_versions s) = Inr vs" "index_of (\<lambda>w. sv_id w = av_version c) vs = Some k"
      "sv_family (vs ! k) = av_family c" "vs ! k \<in> set (selectable_versions vs)"
    by (auto simp: activatable_iff)
  then have "activation_body c s = (Inr (activation_result c), activation_effect c vs k s)"
    using R by (intro activation_body_cases) auto
  then show ?L
    using R by (auto simp: activate_approved_version_def thenO_apply atomicO_def)
qed

section \<open>The property\<close>

lemma index_of_id: "index_of (\<lambda>w. sv_id w = vid) vs = index_of (\<lambda>i. i = vid) (map sv_id vs)"
  by (induction vs) auto

lemma switched_active:
  assumes "index_of (\<lambda>w. sv_id w = vid) vs = Some k"
  shows "version_get vid (map sv_canon (switch_active k ts vs)) = Inr (sv_canon (activate ts (vs ! k)))"
proof -
  note k = index_of_Some [OF assms]
  have id: "sv_id (switch_active k ts vs ! i) = sv_id (vs ! i)" if "i < length vs" for i
    using that by (simp add: nth_switch_active)
  have "map sv_id (map sv_canon (switch_active k ts vs)) = map sv_id vs" by (rule nth_equalityI) (simp_all add: id)
  then have "index_of (\<lambda>w. sv_id w = vid) (map sv_canon (switch_active k ts vs)) = index_of (\<lambda>w. sv_id w = vid) vs"
    using index_of_id by metis
  then show ?thesis using assms k by (auto simp: version_get_index nth_switch_active)
qed

text \<open>
  C14: an activation is all or nothing. It succeeds exactly when the approval is for this actor, family and
  version, is in time, has not been consumed, and the version is one that may be selected; then the version
  is active, no other family changes, and the approval is on record. Otherwise nothing changes.
\<close>

theorem activation_exact:
  "let (r, t) = activate_approved_version c s in
     (r = Inr (activation_result c) \<longleftrightarrow> activation_scope c = Inr () \<and> approval_in_time c = Inr () \<and>
        t_get (av_approval c) (ac_audit s) = None \<and> activatable c s) \<and>
     (case r of Inl e \<Rightarrow> t = s
      | Inr x \<Rightarrow> ac_audit t = ac_audit s @ [(av_approval c, audit_row c)] \<and>
          (f = av_family c \<or> versions_get f (ac_versions t) = versions_get f (ac_versions s)) \<and>
          (\<exists>vs v. versions_get (av_family c) (ac_versions t) = Inr vs \<and> version_get (av_version c) vs = Inr v \<and>
             sv_status v = ACTIVE \<and> sv_activated_at v = Some (av_now c)))"
proof -
  obtain r t where run: "activate_approved_version c s = (r, t)" by fastforce
  have iff: "r = Inr (activation_result c) \<longleftrightarrow> (\<exists>r t. activate_approved_version c s = (Inr r, t))"
    using run by (auto elim: activation_Inr)
  show ?thesis
  proof (cases r)
    case (Inl e)
    then show ?thesis using run iff activation_succeeds_iff [of c s] activation_Inl [of c s e t] by simp
  next
    case (Inr x)
    then obtain vs k where e: "index_of (\<lambda>w. sv_id w = av_version c) vs = Some k" "t = activation_effect c vs k s"
      using run by (auto elim: activation_Inr)
    have "versions_get (av_family c) (ac_versions t) = Inr (map sv_canon (switch_active k (av_now c) vs))"
      "f \<noteq> av_family c \<Longrightarrow> versions_get f (ac_versions t) = versions_get f (ac_versions s)"
      by (simp_all add: e(2) activation_effect_def versions_get_save)
    then show ?thesis
      using run Inr iff activation_succeeds_iff [of c s] switched_active [OF e(1), of "av_now c"] e(2)
      by (auto simp: activation_effect_def sv_canon_def activate_def)
  qed
qed

end
