(* ===== verification/Promotion.thy ===== *)
theory Promotion
  imports Activation "HOL-Library.Product_Lexorder"
begin

text \<open>
  \<open>control/strategy_candidate_promotion.py\<close> with the part of \<open>research/multi_symbol.py\<close> it reads: the
  absolute bar a research run has to meet, and the registration of every run that meets it as an
  APPLY_READY version. It activates nothing, and a run is registered once.
\<close>

section \<open>Stored research runs\<close>

record research_run =
  mr_universe :: string
  mr_status :: string
  mr_recommendation :: string
  mr_payload :: obj
  mr_generated_at :: string
  mr_source :: string

record run_listing =
  rl_run_id :: string
  rl_status :: string
  rl_recommendation :: string
  rl_generated_at :: string
  rl_source :: string
  rl_symbols :: "json list"
  rl_eligible_symbols :: int
  rl_trade_count :: int
  rl_confidence :: string
  rl_concentration :: string

definition artifact_markers :: "string list" where
  "artifact_markers = [''multi-symbol-research-release-check:'', ''telegram-multi-symbol-research-release-check:'',
     ''multi-symbol-research-demo:'', ''unit:'', ''integration:'', ''test:'']"

definition is_artifact :: "string \<Rightarrow> bool" where
  "is_artifact run_id \<longleftrightarrow> list_ex (startswith run_id) artifact_markers"

text \<open>\<open>raw.get(k, default)\<close>, \<open>dict(x)\<close> and \<open>list(x)\<close>, without the \<open>or\<close> of \<open>as_dict\<close> and \<open>as_items\<close>.\<close>

definition jget_or :: "obj \<Rightarrow> string \<Rightarrow> json \<Rightarrow> json" where
  "jget_or raw k d = (case map_of raw k of None \<Rightarrow> d | Some v \<Rightarrow> v)"

definition iterable :: "json \<Rightarrow> bool" where
  "iterable j \<longleftrightarrow> (case j of JStr _ \<Rightarrow> True | JArr _ \<Rightarrow> True | JObj _ \<Rightarrow> True | _ \<Rightarrow> False)"

definition dict_call :: "json \<Rightarrow> obj res" where
  "dict_call j = (if iterable j then as_dict j else Inl (TypeError ''object is not iterable''))"

definition list_of :: "json \<Rightarrow> json list res" where
  "list_of j = (if iterable j then as_items j else Inl (TypeError ''object is not iterable''))"

definition get_attr :: "json \<Rightarrow> string \<Rightarrow> json \<Rightarrow> json res" where
  "get_attr j k d = (case j of JObj raw \<Rightarrow> Inr (jget_or raw k d) | _ \<Rightarrow> Inl (OtherError ''AttributeError'' ''get''))"

definition int_or_zero :: "json \<Rightarrow> int res" where
  "int_or_zero j = jint (if jtruthy j then j else JInt 0)"

definition listing_of :: "string \<Rightarrow> research_run \<Rightarrow> run_listing res" where
  "listing_of run_id r =
    bindR (dict_call (jget_or (mr_payload r) ''summary'' (JObj []))) (\<lambda>summary.
    bindR (dict_call (jget_or (mr_payload r) ''request'' (JObj []))) (\<lambda>request.
    bindR (get_attr (jget_or request ''universe'' (JObj [])) ''symbols'' (JArr [])) (\<lambda>symbols.
    bindR (list_of symbols) (\<lambda>symbols.
    bindR (int_or_zero (jget_or summary ''eligible_symbols'' (JInt 0))) (\<lambda>eligible.
    bindR (int_or_zero (jget_or summary ''aggregate_trade_count'' (JInt 0))) (\<lambda>trades.
    Inr \<lparr>rl_run_id = run_id, rl_status = mr_status r, rl_recommendation = mr_recommendation r,
      rl_generated_at = mr_generated_at r, rl_source = mr_source r, rl_symbols = symbols,
      rl_eligible_symbols = eligible, rl_trade_count = trades,
      rl_confidence = py_str (jget_or summary ''sample_confidence'' (JStr ''unknown'')),
      rl_concentration = py_str (jget_or summary ''concentration_decision'' (JStr ''unknown''))\<rparr>))))))"

text \<open>The limit is tested after a row has been added.\<close>

fun list_rows :: "bool \<Rightarrow> int \<Rightarrow> (string \<times> research_run) list \<Rightarrow> run_listing list \<Rightarrow> run_listing list res" where
  "list_rows artifacts limit [] acc = Inr acc"
| "list_rows artifacts limit ((run_id, r) # rows) acc =
    (if \<not> artifacts \<and> is_artifact run_id then list_rows artifacts limit rows acc
     else bindR (listing_of run_id r) (\<lambda>l.
       if limit \<le> int (length (acc @ [l])) then Inr (acc @ [l]) else list_rows artifacts limit rows (acc @ [l])))"

definition research_list_runs :: "bool \<Rightarrow> int \<Rightarrow> research_run table \<Rightarrow> run_listing list res" where
  "research_list_runs artifacts limit t =
     list_rows artifacts limit (rev (sort_key (\<lambda>(run_id, r). (mr_generated_at r, run_id)) t)) []"

definition get_payload :: "bool \<Rightarrow> string \<Rightarrow> research_run table \<Rightarrow> obj option" where
  "get_payload artifacts run_id t =
     (if \<not> artifacts \<and> is_artifact run_id then None else map_option mr_payload (t_get run_id t))"

section \<open>The bar\<close>

record candidate_decision =
  cd_run_id :: string
  cd_eligible :: bool
  cd_reason :: string
  cd_family :: "string option"
  cd_fingerprint :: "string option"

definition declined :: "string \<Rightarrow> string \<Rightarrow> candidate_decision" where
  "declined run_id reason = \<lparr>cd_run_id = run_id, cd_eligible = False, cd_reason = reason, cd_family = None, cd_fingerprint = None\<rparr>"

text \<open>The numbers among the JSON values with their value; \<open>math.isfinite\<close> of an integer beyond every double raises.\<close>

definition finite_number :: "json \<Rightarrow> rat option" where
  "finite_number j = (case j of JInt i \<Rightarrow> (case float_of_int i of Inr _ \<Rightarrow> Some (of_int i) | Inl _ \<Rightarrow> None)
     | JFloat (Fin q) \<Rightarrow> Some q | _ \<Rightarrow> None)"

definition keys_or_empty :: "json \<Rightarrow> string list" where
  "keys_or_empty j = (case j of JObj kvs \<Rightarrow> sort (map fst kvs) | _ \<Rightarrow> [])"

definition family_of_strategy :: "obj \<Rightarrow> string \<Rightarrow> string" where
  "family_of_strategy strategy market = lower market @ ''-equity-research:'' @
     join ''-'' (keys_or_empty (jget strategy ''entry'')) @ ''__'' @ join ''-'' (keys_or_empty (jget strategy ''exit''))"

definition is_mapping :: "json \<Rightarrow> bool" where
  "is_mapping j \<longleftrightarrow> (case j of JObj _ \<Rightarrow> True | _ \<Rightarrow> False)"

definition mapping_items :: "json \<Rightarrow> obj" where
  "mapping_items j = (case j of JObj kvs \<Rightarrow> kvs | _ \<Rightarrow> [])"

definition run_market :: "obj \<Rightarrow> json option" where
  "run_market payload = (case jget_or payload ''request'' (JObj []) of
      JObj request \<Rightarrow> (case jget_or request ''universe'' (JObj []) of
          JObj universe \<Rightarrow> Some (jget_or universe ''market'' (JStr ''KR'')) | _ \<Rightarrow> None)
    | _ \<Rightarrow> None)"

definition evaluate_run :: "obj \<Rightarrow> candidate_decision" where
  "evaluate_run payload =
    (let run_id = py_str (let j = jget payload ''run_id'' in if jtruthy j then j else JStr []);
         summary = mapping_items (jget payload ''summary'');
         concentration = jget summary ''concentration_decision'';
         strategy = mapping_items (jget payload ''strategy'') in
     if strip run_id = [] then declined run_id ''research run has no identity''
     else if jget payload ''final_recommendation'' \<noteq> JStr ''candidate_preferred'' then declined run_id ''recommendation is not candidate_preferred''
     else if \<not> is_mapping (jget payload ''summary'') then declined run_id ''invalid research summary''
     else if jget summary ''sample_confidence'' \<noteq> JStr ''high'' then declined run_id ''sample_confidence is not high''
     else if concentration \<noteq> JStr ''broad'' \<and> concentration \<noteq> JStr ''moderately_concentrated'' then declined run_id ''symbol/return concentration too narrow''
     else if (case finite_number (jget summary ''aggregate_trade_count'') of None \<Rightarrow> True | Some q \<Rightarrow> q < 30 \<or> of_int \<lfloor>q\<rfloor> \<noteq> q) then declined run_id ''insufficient trade sample''
     else if (case finite_number (jget summary ''profitable_symbol_ratio'') of None \<Rightarrow> True | Some q \<Rightarrow> \<not> (1 / 2 \<le> q \<and> q \<le> 1)) then declined run_id ''majority of symbols are not profitable''
     else if (case finite_number (jget summary ''median_return'') of None \<Rightarrow> True | Some q \<Rightarrow> q \<le> 0) then declined run_id ''median return is not positive''
     else if \<not> is_mapping (jget payload ''strategy'') then declined run_id ''invalid strategy''
     else if list_ex (\<lambda>k. \<not> is_mapping (jget_or strategy k (JObj []))) [''entry'', ''exit'', ''filters''] then declined run_id ''invalid strategy rules''
     else case jget strategy ''fingerprint'' of
       JStr fp \<Rightarrow>
         (if fp = [] then declined run_id ''strategy has no fingerprint''
          else case run_market payload of
            None \<Rightarrow> declined run_id ''invalid research market scope''
          | Some market \<Rightarrow>
              if market \<noteq> JStr ''KR'' \<and> market \<noteq> JStr ''US'' then declined run_id ''unsupported research market scope''
              else \<lparr>cd_run_id = run_id, cd_eligible = True,
                    cd_reason = ''meets absolute promotion bar: profitable, broad-sample, high-confidence'',
                    cd_family = Some (family_of_strategy strategy (py_str market)), cd_fingerprint = Some fp\<rparr>)
     | _ \<Rightarrow> declined run_id ''strategy has no fingerprint'')"

section \<open>Registration\<close>

record promotion_db = activation_db +
  pm_runs :: "research_run table"

definition list_promotable :: "int \<Rightarrow> 'a promotion_db_scheme \<Rightarrow> candidate_decision list res" where
  "list_promotable limit s = bindR (research_list_runs False limit (pm_runs s)) (\<lambda>rows.
     Inr (List.map_filter (\<lambda>row. map_option evaluate_run (get_payload False (rl_run_id row) (pm_runs s))) rows))"

definition or_empty :: "json \<Rightarrow> json" where
  "or_empty j = (if jtruthy j then j else JObj [])"

definition candidate_rules :: "obj \<Rightarrow> obj" where
  "candidate_rules strategy = map (\<lambda>k. (k, or_empty (jget strategy k))) [''entry'', ''exit'', ''filters'']"

text \<open>The body of the loop for one listed run: \<open>None\<close> where the code continues.\<close>

definition register_candidate ::
  "string \<Rightarrow> string \<Rightarrow> string \<Rightarrow> obj \<Rightarrow> string \<Rightarrow> candidate_decision \<Rightarrow> ('a activation_db_scheme, strategy_version option) opr" where
  "register_candidate uuid now run_id payload family d =
    bindO (getO ac_versions) (\<lambda>store.
    bindO (liftO (versions_get family store)) (\<lambda>vs.
    if list_ex (\<lambda>v. sv_candidate v = run_id) vs then retO None
    else
     bindO (liftO (as_dict (jget payload ''strategy''))) (\<lambda>strategy.
     bindO (liftO (as_dict (jget payload ''summary''))) (\<lambda>summary.
     case register_apply_ready uuid family run_id (case cd_fingerprint d of None \<Rightarrow> [] | Some fp \<Rightarrow> fp)
         (candidate_rules strategy) summary now None vs of
       (Inl e, _) \<Rightarrow> raiseO e
     | (Inr v, vs') \<Rightarrow> thenO (modO (ac_versions_update (versions_save family vs' now))) (retO (Some v))))))"

definition promote_run :: "string \<Rightarrow> string \<Rightarrow> string \<Rightarrow> ('a promotion_db_scheme, strategy_version option) opr" where
  "promote_run uuid now run_id =
    bindO (getO (\<lambda>s. get_payload False run_id (pm_runs s))) (\<lambda>payload. case payload of
      None \<Rightarrow> retO None
    | Some p \<Rightarrow> (case cd_family (evaluate_run p) of
        None \<Rightarrow> retO None
      | Some family \<Rightarrow> if \<not> cd_eligible (evaluate_run p) then retO None
          else register_candidate uuid now run_id p family (evaluate_run p)))"

text \<open>\<open>draw\<close> gives the identifiers that \<open>uuid4\<close> draws, one after the other.\<close>

fun promote_rows :: "(nat \<Rightarrow> string) \<Rightarrow> string \<Rightarrow> string list \<Rightarrow> strategy_version list \<Rightarrow> ('a promotion_db_scheme, strategy_version list) opr" where
  "promote_rows draw now [] acc = retO acc"
| "promote_rows draw now (run_id # ids) acc =
    bindO (promote_run (draw (length acc)) now run_id) (\<lambda>v. promote_rows draw now ids (acc @ (case v of None \<Rightarrow> [] | Some v \<Rightarrow> [v])))"

definition promote_eligible_candidates :: "(nat \<Rightarrow> string) \<Rightarrow> string \<Rightarrow> int \<Rightarrow> ('a promotion_db_scheme, strategy_version list) opr" where
  "promote_eligible_candidates draw now limit =
    bindO (getO pm_runs) (\<lambda>runs.
    bindO (liftO (research_list_runs False limit runs)) (\<lambda>rows. promote_rows draw now (map rl_run_id rows) []))"

section \<open>What meets the bar\<close>

text \<open>The bar as a set of requirements on a run, without the order in which the code tests them.\<close>

definition number_in :: "json \<Rightarrow> (rat \<Rightarrow> bool) \<Rightarrow> bool" where
  "number_in j P \<longleftrightarrow> (\<exists>q. finite_number j = Some q \<and> P q)"

definition meets_bar :: "obj \<Rightarrow> bool" where
  "meets_bar payload \<longleftrightarrow>
     jget payload ''final_recommendation'' = JStr ''candidate_preferred'' \<and>
     (\<exists>summary. jget payload ''summary'' = JObj summary \<and>
       jget summary ''sample_confidence'' = JStr ''high'' \<and>
       jget summary ''concentration_decision'' \<in> {JStr ''broad'', JStr ''moderately_concentrated''} \<and>
       number_in (jget summary ''aggregate_trade_count'') (\<lambda>q. 30 \<le> q \<and> (\<exists>n. q = of_int n)) \<and>
       number_in (jget summary ''profitable_symbol_ratio'') (\<lambda>q. 1 / 2 \<le> q \<and> q \<le> 1) \<and>
       number_in (jget summary ''median_return'') (\<lambda>q. 0 < q)) \<and>
     (\<exists>strategy. jget payload ''strategy'' = JObj strategy \<and>
       list_all (\<lambda>k. is_mapping (jget_or strategy k (JObj []))) [''entry'', ''exit'', ''filters''] \<and>
       (\<exists>fp. fp \<noteq> [] \<and> jget strategy ''fingerprint'' = JStr fp)) \<and>
     (run_market payload = Some (JStr ''KR'') \<or> run_market payload = Some (JStr ''US''))"

lemma declined_simps [simp]:
  "cd_eligible (declined run_id why) = False" "cd_family (declined run_id why) = None" "cd_run_id (declined run_id why) = run_id"
  by (simp_all add: declined_def)

lemma number_in_case: "number_in j P \<longleftrightarrow> (case finite_number j of None \<Rightarrow> False | Some q \<Rightarrow> P q)"
  by (auto simp: number_in_def split: option.splits)

lemma whole_iff: "(\<exists>n. q = of_int n) \<longleftrightarrow> of_int \<lfloor>q\<rfloor> = q" for q :: rat
  by (metis floor_of_int)

lemma is_mapping_iff: "is_mapping j \<longleftrightarrow> (\<exists>kvs. j = JObj kvs)"
  by (cases j) (auto simp: is_mapping_def)

lemma eligible_cases:
  "cd_eligible (if c then declined r w else d) \<longleftrightarrow> \<not> c \<and> cd_eligible d"
  "cd_eligible (case j of JStr fp \<Rightarrow> f fp | _ \<Rightarrow> declined r w) \<longleftrightarrow> (\<exists>fp. j = JStr fp \<and> cd_eligible (f fp))"
  "cd_eligible (case x of None \<Rightarrow> declined r w | Some y \<Rightarrow> g y) \<longleftrightarrow> (\<exists>y. x = Some y \<and> cd_eligible (g y))"
  by (simp_all split: json.split option.split)

definition run_identity :: "obj \<Rightarrow> string" where
  "run_identity payload = py_str (let j = jget payload ''run_id'' in if jtruthy j then j else JStr [])"

lemma evaluate_run_bar: "cd_eligible (evaluate_run payload) \<longleftrightarrow> strip (run_identity payload) \<noteq> [] \<and> meets_bar payload"
proof -
  let ?sm = "mapping_items (jget payload ''summary'')" and ?st = "mapping_items (jget payload ''strategy'')"
  have items: "jget payload k = JObj (mapping_items (jget payload k)) \<longleftrightarrow> is_mapping (jget payload k)" for k
    by (auto simp: is_mapping_iff mapping_items_def)
  have num: "\<not> (case finite_number j of None \<Rightarrow> True | Some q \<Rightarrow> Q q) \<longleftrightarrow> number_in j (\<lambda>q. \<not> Q q)" for j Q
    by (simp add: number_in_case split: option.split)
  have ex: "(\<exists>kvs. jget payload k = JObj kvs \<and> P kvs) \<longleftrightarrow> is_mapping (jget payload k) \<and> P (mapping_items (jget payload k))" for k P
    by (auto simp: is_mapping_iff mapping_items_def)
  have rules: "\<not> list_ex (\<lambda>k. \<not> P k) ks \<longleftrightarrow> list_all P ks" for P :: "string \<Rightarrow> bool" and ks
    by (simp add: list_all_iff list_ex_iff)
  have bar: "meets_bar payload \<longleftrightarrow>
      jget payload ''final_recommendation'' = JStr ''candidate_preferred'' \<and> is_mapping (jget payload ''summary'') \<and>
      jget ?sm ''sample_confidence'' = JStr ''high'' \<and>
      (jget ?sm ''concentration_decision'' = JStr ''broad'' \<or> jget ?sm ''concentration_decision'' = JStr ''moderately_concentrated'') \<and>
      number_in (jget ?sm ''aggregate_trade_count'') (\<lambda>q. \<not> (q < 30 \<or> of_int \<lfloor>q\<rfloor> \<noteq> q)) \<and>
      number_in (jget ?sm ''profitable_symbol_ratio'') (\<lambda>q. \<not> \<not> (1 / 2 \<le> q \<and> q \<le> 1)) \<and>
      number_in (jget ?sm ''median_return'') (\<lambda>q. \<not> q \<le> 0) \<and> is_mapping (jget payload ''strategy'') \<and>
      \<not> list_ex (\<lambda>k. \<not> is_mapping (jget_or ?st k (JObj []))) [''entry'', ''exit'', ''filters''] \<and>
      (\<exists>fp. jget ?st ''fingerprint'' = JStr fp \<and> fp \<noteq> []) \<and>
      (run_market payload = Some (JStr ''KR'') \<or> run_market payload = Some (JStr ''US''))"
    unfolding meets_bar_def ex rules by (simp only: whole_iff not_less not_le de_Morgan_disj not_not insert_iff empty_iff simp_thms conj_assoc) blast
  show ?thesis
    unfolding bar evaluate_run_def Let_def eligible_cases num
    by (auto simp: run_identity_def Let_def)
qed

lemma family_if_eligible: "cd_eligible (evaluate_run payload) \<longleftrightarrow> cd_family (evaluate_run payload) \<noteq> None"
proof -
  have step: "(cd_eligible d \<longleftrightarrow> cd_family d \<noteq> None) \<Longrightarrow>
      cd_eligible (if c then declined r w else d) \<longleftrightarrow> cd_family (if c then declined r w else d) \<noteq> None" for c r w d by simp
  show ?thesis unfolding evaluate_run_def Let_def by (intro step) (auto split: json.split option.split)
qed

lemma evaluate_run_id: "cd_run_id (evaluate_run payload) = run_identity payload"
proof -
  have step: "cd_run_id d = i \<Longrightarrow> cd_run_id (if c then declined i w else d) = i" for c i w d by simp
  show ?thesis unfolding evaluate_run_def run_identity_def Let_def
    by (intro step) (simp split: json.split option.split)
qed

section \<open>What a promotion changes\<close>

definition candidate_family :: "research_run table \<Rightarrow> string \<Rightarrow> string option" where
  "candidate_family runs run_id = (case get_payload False run_id runs of None \<Rightarrow> None | Some p \<Rightarrow> cd_family (evaluate_run p))"

definition with_versions :: "version_store \<Rightarrow> 'a activation_db_scheme \<Rightarrow> 'a activation_db_scheme" where
  "with_versions store s = s\<lparr>ac_versions := store\<rparr>"

lemma with_versions_fields [simp]:
  "ac_versions (with_versions store s) = store" "ac_audit (with_versions store s) = ac_audit s"
  "pm_runs (with_versions store u) = pm_runs u"
  by (simp_all add: with_versions_def)

lemma promote_run_cases:
  assumes "promote_run uuid now run_id s = (r, t)"
  obtains (same) "t = s" "r = Inr None" "case candidate_family (pm_runs s) run_id of None \<Rightarrow> True
      | Some f \<Rightarrow> (\<exists>vs. versions_get f (ac_versions s) = Inr vs \<and> run_id \<in> sv_candidate ` set vs)"
    | (raised) e where "t = s" "r = Inl e"
    | (added) f vs v where "candidate_family (pm_runs s) run_id = Some f" "versions_get f (ac_versions s) = Inr vs"
        "run_id \<notin> sv_candidate ` set vs" "r = Inr (Some v)" "t = with_versions (versions_save f (vs @ [v]) now (ac_versions s)) s"
        "sv_status v = APPLY_READY" "sv_family v = f" "sv_candidate v = run_id" "sv_direction v = None"
proof (cases "candidate_family (pm_runs s) run_id")
  case None
  then show ?thesis
    using assms same by (auto simp: promote_run_def candidate_family_def split: option.splits)
next
  case (Some f)
  then obtain p where p: "get_payload False run_id (pm_runs s) = Some p" "cd_family (evaluate_run p) = Some f"
    by (auto simp: candidate_family_def split: option.splits)
  have run: "register_candidate uuid now run_id p f (evaluate_run p) s = (r, t)"
    using assms p family_if_eligible [of p] by (simp add: promote_run_def)
  show ?thesis
  proof (cases "versions_get f (ac_versions s)")
    case (Inl e)
    then show ?thesis using run raised by (auto simp: register_candidate_def)
  next
    case (Inr vs)
    show ?thesis
    proof (cases "run_id \<in> sv_candidate ` set vs")
      case True
      then have "list_ex (\<lambda>v. sv_candidate v = run_id) vs" by (auto simp: list_ex_iff)
      then have "r = Inr None" "t = s" using run Inr by (simp_all add: register_candidate_def)
      then show ?thesis using same Some Inr True by simp
    next
      case False
      then have "\<not> list_ex (\<lambda>v. sv_candidate v = run_id) vs" by (auto simp: list_ex_iff)
      then show ?thesis
        using run Inr False raised added [OF Some Inr False]
        by (cases "as_dict (jget p ''strategy'')"; cases "as_dict (jget p ''summary'')")
          (auto simp: register_candidate_def register_apply_ready_def normalize_direction_def Let_def thenO_apply with_versions_def)
    qed
  qed
qed

definition adds_candidates :: "research_run table \<Rightarrow> string \<Rightarrow> version_registry \<Rightarrow> version_registry \<Rightarrow> bool" where
  "adds_candidates runs f vs ws \<longleftrightarrow> (\<exists>new. map sv_canon ws = map sv_canon vs @ new \<and> distinct (map sv_candidate new) \<and>
     (\<forall>v \<in> set new. sv_status v = APPLY_READY \<and> sv_family v = f \<and> sv_direction v = None \<and>
       sv_candidate v \<notin> sv_candidate ` set vs \<and> candidate_family runs (sv_candidate v) = Some f))"

definition store_adds :: "research_run table \<Rightarrow> version_store \<Rightarrow> version_store \<Rightarrow> bool" where
  "store_adds runs t u \<longleftrightarrow> (\<forall>f. case versions_get f t of Inl e \<Rightarrow> versions_get f u = Inl e
     | Inr vs \<Rightarrow> (\<exists>ws. versions_get f u = Inr ws \<and> adds_candidates runs f vs ws))"

lemma canon_candidates: "map sv_canon ws = map sv_canon vs @ new \<Longrightarrow> sv_candidate ` set ws = sv_candidate ` set vs \<union> sv_candidate ` set new"
proof -
  assume "map sv_canon ws = map sv_canon vs @ new"
  then have "sv_candidate ` set (map sv_canon ws) = sv_candidate ` set (map sv_canon vs @ new)" by simp
  then show ?thesis by (simp add: image_image image_Un)
qed

lemma adds_refl: "adds_candidates runs f vs vs"
  by (auto simp: adds_candidates_def)

lemma adds_trans:
  assumes "adds_candidates runs f us vs" and "adds_candidates runs f vs ws"
  shows "adds_candidates runs f us ws"
proof -
  obtain a b where a: "map sv_canon vs = map sv_canon us @ a" "distinct (map sv_candidate a)"
      "\<forall>v \<in> set a. sv_status v = APPLY_READY \<and> sv_family v = f \<and> sv_direction v = None \<and>
       sv_candidate v \<notin> sv_candidate ` set us \<and> candidate_family runs (sv_candidate v) = Some f"
    and b: "map sv_canon ws = map sv_canon vs @ b" "distinct (map sv_candidate b)"
      "\<forall>v \<in> set b. sv_status v = APPLY_READY \<and> sv_family v = f \<and> sv_direction v = None \<and>
       sv_candidate v \<notin> sv_candidate ` set vs \<and> candidate_family runs (sv_candidate v) = Some f"
    using assms by (auto simp: adds_candidates_def)
  show ?thesis
    unfolding adds_candidates_def
    using a b canon_candidates [OF a(1)] by (intro exI [of _ "a @ b"]) (auto, metis imageI)
qed

lemma store_adds_refl: "store_adds runs t t"
  by (auto simp: store_adds_def adds_refl split: sum.split)

lemma store_adds_trans: "store_adds runs t u \<Longrightarrow> store_adds runs u v \<Longrightarrow> store_adds runs t v"
  by (fastforce simp: store_adds_def split: sum.splits intro: adds_trans)

lemma promote_run_adds:
  assumes "promote_run uuid now run_id s = (r, t)"
  shows "ac_audit t = ac_audit s \<and> pm_runs t = pm_runs s \<and> store_adds (pm_runs s) (ac_versions s) (ac_versions t)"
  using assms
proof (cases rule: promote_run_cases)
  case (added f vs v)
  have "adds_candidates (pm_runs s) f vs (map sv_canon (vs @ [v]))"
    using added by (auto simp: adds_candidates_def intro!: exI [of _ "[sv_canon v]"])
  then show ?thesis
    using added by (auto simp: store_adds_def versions_get_save adds_refl split: sum.split)
qed (simp_all add: store_adds_refl)

lemma promote_rows_adds:
  "promote_rows draw now ids acc s = (r, t) \<Longrightarrow>
     ac_audit t = ac_audit s \<and> pm_runs t = pm_runs s \<and> store_adds (pm_runs s) (ac_versions s) (ac_versions t)"
proof (induction ids arbitrary: acc s)
  case (Cons i ids)
  obtain r' u where u: "promote_run (draw (length acc)) now i s = (r', u)" by fastforce
  note one = promote_run_adds [OF u]
  show ?case
  proof (cases r')
    case (Inl e)
    then show ?thesis using Cons.prems u one by (simp add: bindO_apply)
  next
    case (Inr v)
    then have "promote_rows draw now ids (acc @ (case v of None \<Rightarrow> [] | Some v \<Rightarrow> [v])) u = (r, t)"
      using Cons.prems u by (simp add: bindO_apply)
    then show ?thesis using Cons.IH one store_adds_trans by fastforce
  qed
qed (simp add: store_adds_refl)

lemma promotion_adds:
  assumes "promote_eligible_candidates draw now limit s = (r, t)"
  shows "ac_audit t = ac_audit s \<and> pm_runs t = pm_runs s \<and> store_adds (pm_runs s) (ac_versions s) (ac_versions t)"
  using assms promote_rows_adds [of draw now _ "[]" s r t]
  by (auto simp: promote_eligible_candidates_def bindO_apply store_adds_refl split: sum.splits)

text \<open>Nothing but the stored registries changes.\<close>

lemma with_versions_same [simp]: "with_versions (ac_versions s) s = s" "with_versions b (with_versions a s) = with_versions b s"
  by (simp_all add: with_versions_def)

lemma promote_rows_frame: "promote_rows draw now ids acc s = (r, t) \<Longrightarrow> t = with_versions (ac_versions t) s"
proof (induction ids arbitrary: acc s)
  case (Cons i ids)
  obtain r' u where u: "promote_run (draw (length acc)) now i s = (r', u)" by fastforce
  have one: "u = with_versions (ac_versions u) s"
    using u by (cases rule: promote_run_cases) simp_all
  show ?case
  proof (cases r')
    case (Inl e)
    then show ?thesis using Cons.prems u one by (simp add: bindO_apply)
  next
    case (Inr v)
    then have "promote_rows draw now ids (acc @ (case v of None \<Rightarrow> [] | Some v \<Rightarrow> [v])) u = (r, t)"
      using Cons.prems u by (simp add: bindO_apply)
    then show ?thesis using Cons.IH one with_versions_same(2) by metis
  qed
qed simp

lemma promotion_frame: "promote_eligible_candidates draw now limit s = (r, t) \<Longrightarrow> t = with_versions (ac_versions t) s"
  using promote_rows_frame [of draw now _ "[]" s r t]
  by (auto simp: promote_eligible_candidates_def bindO_apply split: sum.splits)

section \<open>A run is registered once\<close>

text \<open>The run is in the registry of its family, or is none that may be registered.\<close>

definition candidate_settled :: "research_run table \<Rightarrow> version_store \<Rightarrow> string \<Rightarrow> bool" where
  "candidate_settled runs store run_id \<longleftrightarrow> (case candidate_family runs run_id of None \<Rightarrow> True
     | Some f \<Rightarrow> (\<exists>vs. versions_get f store = Inr vs \<and> run_id \<in> sv_candidate ` set vs))"

lemma settled_mono:
  assumes "store_adds runs t u" and "candidate_settled runs t i"
  shows "candidate_settled runs u i"
proof -
  have "adds_candidates runs f vs ws \<Longrightarrow> i \<in> sv_candidate ` set vs \<Longrightarrow> i \<in> sv_candidate ` set ws" for f vs ws
    by (auto simp: adds_candidates_def dest!: canon_candidates)
  then show ?thesis
    using assms by (fastforce simp: candidate_settled_def store_adds_def split: option.splits sum.splits)
qed

lemma promote_run_settles:
  assumes "promote_run uuid now i s = (Inr v, t)"
  shows "candidate_settled (pm_runs s) (ac_versions t) i"
  using assms
proof (cases rule: promote_run_cases)
  case (added f vs v)
  then show ?thesis by (auto simp: candidate_settled_def versions_get_save)
qed (auto simp: candidate_settled_def)

lemma register_known:
  assumes "versions_get f (ac_versions s) = Inr vs" and "i \<in> sv_candidate ` set vs"
  shows "register_candidate uuid now i p f d s = (Inr None, s)"
proof -
  have "list_ex (\<lambda>v. sv_candidate v = i) vs" using assms(2) by (auto simp: list_ex_iff)
  then show ?thesis using assms(1) by (simp add: register_candidate_def)
qed

lemma promote_settled: "candidate_settled (pm_runs s) (ac_versions s) i \<Longrightarrow> promote_run uuid now i s = (Inr None, s)"
  using register_known [where i = i and s = s and uuid = uuid and now = now]
  by (auto simp: candidate_settled_def candidate_family_def promote_run_def split: option.splits)

lemma promote_rows_settles:
  "promote_rows draw now ids acc s = (Inr vs, t) \<Longrightarrow> (\<forall>i \<in> set ids. candidate_settled (pm_runs s) (ac_versions t) i)"
proof (induction ids arbitrary: acc s)
  case (Cons i ids)
  then obtain v u where u: "promote_run (draw (length acc)) now i s = (Inr v, u)"
      and rest: "promote_rows draw now ids (acc @ (case v of None \<Rightarrow> [] | Some v \<Rightarrow> [v])) u = (Inr vs, t)"
    by (auto simp: bindO_Inr_iff)
  have "pm_runs u = pm_runs s" using promote_run_adds [OF u] by simp
  then show ?case
    using Cons.IH [OF rest] promote_run_settles [OF u] promote_rows_adds [OF rest] settled_mono by auto
qed simp

lemma promote_rows_settled:
  "\<forall>i \<in> set ids. candidate_settled (pm_runs s) (ac_versions s) i \<Longrightarrow> promote_rows draw now ids acc s = (Inr acc, s)"
  by (induction ids arbitrary: acc) (simp_all add: promote_settled bindO_apply)

lemma promotion_settled:
  assumes "promote_eligible_candidates draw now limit s = (Inr vs, t)"
  shows "promote_eligible_candidates draw' now' limit t = (Inr [], t)"
proof -
  obtain rows where rows: "research_list_runs False limit (pm_runs s) = Inr rows" "promote_rows draw now (map rl_run_id rows) [] s = (Inr vs, t)"
    using assms by (auto simp: promote_eligible_candidates_def bindO_Inr_iff)
  have "pm_runs t = pm_runs s" using promotion_adds [OF assms] by simp
  then show ?thesis
    using rows promote_rows_settles [OF rows(2)] promote_rows_settled [of "map rl_run_id rows" t draw' now' "[]"]
    by (simp add: promote_eligible_candidates_def)
qed

section \<open>Properties\<close>

text \<open>
  C18: a research run is eligible exactly when it has an identity and meets the absolute bar: preferred, of
  high confidence, not too concentrated, at least thirty whole trades, at least half of the symbols
  profitable, a positive median return, well-formed rules with a fingerprint, a supported market. Only
  then has it a family to be registered in.
\<close>

theorem candidate_bar_exact:
  "(cd_eligible (evaluate_run payload) \<longleftrightarrow> strip (run_identity payload) \<noteq> [] \<and> meets_bar payload) \<and>
   (cd_family (evaluate_run payload) = None \<longleftrightarrow> \<not> cd_eligible (evaluate_run payload)) \<and>
   cd_run_id (evaluate_run payload) = run_identity payload"
  using evaluate_run_bar [of payload] family_if_eligible [of payload] evaluate_run_id [of payload] by blast

text \<open>
  C17: a promotion activates nothing and changes no version that is registered. Whether it returns or
  raises, it only appends APPLY_READY versions, each for a stored research run that meets the bar, in the
  family of that run, and for no run that its family has already.
\<close>

theorem promotion_only_registers:
  "let (r, t) = promote_eligible_candidates draw now limit s in
     ac_audit t = ac_audit s \<and> pm_runs t = pm_runs s \<and>
     (case versions_get f (ac_versions s) of Inl e \<Rightarrow> versions_get f (ac_versions t) = Inl e
      | Inr vs \<Rightarrow> (\<exists>ws new. versions_get f (ac_versions t) = Inr ws \<and> map sv_canon ws = map sv_canon vs @ new \<and>
          distinct (map sv_candidate new) \<and>
          list_all (\<lambda>v. sv_status v = APPLY_READY \<and> sv_family v = f \<and> sv_candidate v \<notin> sv_candidate ` set vs \<and>
            (case get_payload False (sv_candidate v) (pm_runs s) of None \<Rightarrow> False
             | Some p \<Rightarrow> meets_bar p \<and> cd_family (evaluate_run p) = Some f)) new))"
proof -
  obtain r t where run: "promote_eligible_candidates draw now limit s = (r, t)" by fastforce
  have bar: "candidate_family runs i = Some f \<Longrightarrow> \<exists>p. get_payload False i runs = Some p \<and> meets_bar p \<and> cd_family (evaluate_run p) = Some f" for runs i
    using evaluate_run_bar family_if_eligible by (fastforce simp: candidate_family_def split: option.splits)
  have "adds_candidates (pm_runs s) f vs ws \<Longrightarrow> \<exists>new. map sv_canon ws = map sv_canon vs @ new \<and> distinct (map sv_candidate new) \<and>
      list_all (\<lambda>v. sv_status v = APPLY_READY \<and> sv_family v = f \<and> sv_candidate v \<notin> sv_candidate ` set vs \<and>
        (case get_payload False (sv_candidate v) (pm_runs s) of None \<Rightarrow> False
         | Some p \<Rightarrow> meets_bar p \<and> cd_family (evaluate_run p) = Some f)) new" for vs ws
    unfolding adds_candidates_def list_all_iff using bar by fastforce
  then show ?thesis
    using promotion_adds [OF run] run by (fastforce simp: store_adds_def split: sum.splits)
qed

text \<open>
  C19: promotion is idempotent. After a call that returned, a further call at any time and with any
  identifiers registers nothing and changes nothing.
\<close>

theorem promotion_idempotent:
  "case promote_eligible_candidates draw now limit s of (Inl e, t) \<Rightarrow> True
   | (Inr vs, t) \<Rightarrow> promote_eligible_candidates draw' now' limit t = (Inr [], t)"
  using promotion_settled by (auto split: prod.split sum.split)

section \<open>Observed behaviour\<close>

text \<open>
  The listing converts every stored run before any is evaluated, so one run with a malformed payload stops
  the promotion of all, although \<open>evaluate_run\<close> declines such payloads.
\<close>

lemma null_summary_raises: "map_of (mr_payload r) ''summary'' = Some JNull \<Longrightarrow> listing_of run_id r = Inl (TypeError ''object is not iterable'')"
  by (simp add: listing_of_def jget_or_def dict_call_def iterable_def)

lemma malformed_run_stops_listing:
  "(run_id, r) \<in> set rows \<Longrightarrow> \<not> is_artifact run_id \<Longrightarrow> listing_of run_id r = Inl e \<Longrightarrow> int (length acc + length rows) \<le> limit \<Longrightarrow>
   \<exists>e. list_rows False limit rows acc = Inl e"
proof (induction rows arbitrary: acc)
  case (Cons row rows)
  obtain i q where row: "row = (i, q)" by fastforce
  show ?case
  proof (cases "is_artifact i")
    case True
    then show ?thesis using Cons row by auto
  next
    case False
    show ?thesis
    proof (cases "listing_of i q")
      case (Inr l)
      then have "(run_id, r) \<in> set rows" using Cons.prems row by auto
      then have "\<exists>e. list_rows False limit rows (acc @ [l]) = Inl e" and "rows \<noteq> []" using Cons by auto
      then show ?thesis using False Inr row Cons.prems by (cases rows) auto
    qed (simp add: row False)
  qed
qed simp

end
