(* ===== verification/Passkeys.thy ===== *)
theory Passkeys
  imports Promotion Sha256
begin

text \<open>
  \<open>control/passkey_*.py\<close>: the administrator's passkey. A grant made on the machine itself allows one
  enrollment, an enrolled credential allows logins and signed strategy approvals, each over a challenge that
  is stored, short-lived, bound to its purpose and used up before anything is verified. The library
  \<open>webauthn\<close> is a parameter; random draws and readings of the clock are arguments
  (\<open>current\<close> is the value of \<open>now or datetime.now(timezone.utc)\<close>). Bytes are strings of 8-bit characters.
\<close>

section \<open>The library\<close>

record verified_auth =
  va_credential_id :: string
  va_new_sign_count :: int
  va_user_verified :: bool

record verified_registration =
  vg_credential_id :: string
  vg_public_key :: string
  vg_sign_count :: int
  vg_user_verified :: bool

text \<open>A \<open>WebAuthnException\<close>, or any other exception.\<close>

datatype webauthn_fault = WebAuthnException | OtherFault pyerr

text \<open>
  The functions of \<open>webauthn\<close> with their arguments: relying party, challenge and credential id or user for the
  options; credential, challenge, relying party, origin, public key and counter for the verification.
  \<open>wa_loads\<close> is \<open>json.loads\<close> on bytes that the library or the browser wrote.
\<close>

record webauthn =
  wa_auth_options :: "string \<Rightarrow> string \<Rightarrow> string \<Rightarrow> string res"
  wa_registration_options :: "string \<Rightarrow> string \<Rightarrow> string \<Rightarrow> string res"
  wa_verify_auth :: "obj \<Rightarrow> string \<Rightarrow> string \<Rightarrow> string \<Rightarrow> string \<Rightarrow> int \<Rightarrow> webauthn_fault + verified_auth"
  wa_verify_registration :: "obj \<Rightarrow> string \<Rightarrow> string \<Rightarrow> string \<Rightarrow> webauthn_fault + verified_registration"
  wa_loads :: "string \<Rightarrow> json res"

text \<open>Comparing an aware with a naive time raises.\<close>

definition time_after :: "dtime \<Rightarrow> dtime \<Rightarrow> bool res" where
  "time_after a b = (if (dt_off a = None) \<noteq> (dt_off b = None) then Inl (TypeError ''can't compare offset-naive and offset-aware datetimes'')
     else Inr (instant b < instant a))"

section \<open>Digests\<close>

text \<open>\<open>s.encode()\<close> and \<open>hashlib.sha256(...).digest()\<close>.\<close>

definition encode_utf8 :: "string \<Rightarrow> string" where
  "encode_utf8 s = concat (map (\<lambda>c. if ordc c < 128 then [c] else [chr (192 + ordc c div 64), chr (128 + ordc c mod 64)]) s)"

definition word_bytes :: "w32 \<Rightarrow> string" where
  "word_bytes w = map (\<lambda>i. chr (nat (uint w) div 256 ^ (3 - i) mod 256)) [0..<4]"

definition token_digest :: "string \<Rightarrow> string" where
  "token_digest token = concat (map word_bytes (foldl sha_block sha_h0 (chunks 64 (sha_pad (map ordc (encode_utf8 token))))))"

section \<open>Origin\<close>

definition rp_id :: string where
  "rp_id = ''mymoneyguard.tail56fef5.ts.net''"

definition allowed_origins :: "string list" where
  "allowed_origins = [''https://mymoneyguard.tail56fef5.ts.net'', ''https://mymoneyguard.tail56fef5.ts.net:8443'']"

record url =
  url_scheme :: string
  url_netloc :: string
  url_path :: string
  url_query :: string
  url_fragment :: string

text \<open>\<open>urlsplit\<close> for text without control characters and brackets.\<close>

definition scheme_char :: "char \<Rightarrow> bool" where
  "scheme_char c \<longleftrightarrow> is_upper c \<or> is_lower c \<or> is_digit c \<or> c = CHR ''+'' \<or> c = CHR ''-'' \<or> c = CHR ''.''"

definition split_first :: "char \<Rightarrow> string \<Rightarrow> string \<times> string" where
  "split_first c s = (takeWhile (\<lambda>d. d \<noteq> c) s, drop 1 (dropWhile (\<lambda>d. d \<noteq> c) s))"

definition url_split :: "string \<Rightarrow> url" where
  "url_split s =
    (let p = takeWhile (\<lambda>c. c \<noteq> CHR '':'') s;
         has_scheme = (CHR '':'' \<in> set s \<and> p \<noteq> [] \<and> (is_upper (hd p) \<or> is_lower (hd p)) \<and> list_all scheme_char p);
         rest = (if has_scheme then drop (Suc (length p)) s else s);
         has_netloc = startswith rest ''//'';
         stop = (\<lambda>c. c \<noteq> CHR ''/'' \<and> c \<noteq> CHR ''?'' \<and> c \<noteq> CHR ''#'');
         netloc = (if has_netloc then takeWhile stop (drop 2 rest) else []);
         rest = (if has_netloc then drop (2 + length netloc) rest else rest);
         (rest, fragment) = split_first (CHR ''#'') rest;
         (path, query) = split_first (CHR ''?'') rest
     in \<lparr>url_scheme = (if has_scheme then lower p else []), url_netloc = netloc, url_path = path, url_query = query, url_fragment = fragment\<rparr>)"

text \<open>The part of the network location after the last \<open>@\<close>, and the user before it.\<close>

definition url_hostinfo :: "url \<Rightarrow> string" where
  "url_hostinfo u = rev (takeWhile (\<lambda>c. c \<noteq> CHR ''@'') (rev (url_netloc u)))"

definition url_hostname :: "url \<Rightarrow> string" where
  "url_hostname u = lower (fst (split_first (CHR '':'') (url_hostinfo u)))"

definition url_username :: "url \<Rightarrow> string" where
  "url_username u = (if CHR ''@'' \<in> set (url_netloc u)
     then fst (split_first (CHR '':'') (take (length (url_netloc u) - Suc (length (url_hostinfo u))) (url_netloc u))) else [])"

definition validate_origin :: "string \<Rightarrow> string \<Rightarrow> string option \<Rightarrow> string res" where
  "validate_origin origin request_host expected =
    bindR (guardR (origin \<in> set allowed_origins) (PermissionError ''untrusted WebAuthn origin'')) (\<lambda>_.
    let u = url_split origin in
    bindR (guardR (url_scheme u = ''https'' \<and> url_hostname u = rp_id) (PermissionError ''invalid WebAuthn origin'')) (\<lambda>_.
    bindR (guardR (url_path u = [] \<and> url_query u = [] \<and> url_fragment u = [] \<and> url_username u = []) (PermissionError ''invalid WebAuthn origin'')) (\<lambda>_.
    bindR (guardR (request_host = rp_id \<or> request_host = rp_id @ '':8443'') (PermissionError ''untrusted request host'')) (\<lambda>_.
    bindR (guardR (url_netloc u = request_host) (PermissionError ''cross-origin admin request'')) (\<lambda>_.
    bindR (guardR (case expected of None \<Rightarrow> True | Some e \<Rightarrow> origin = e) (PermissionError ''origin mismatch'')) (\<lambda>_.
    Inr origin))))))"

lemma url_split_allowed:
  "map url_split allowed_origins = [
     \<lparr>url_scheme = ''https'', url_netloc = rp_id, url_path = [], url_query = [], url_fragment = []\<rparr>,
     \<lparr>url_scheme = ''https'', url_netloc = rp_id @ '':8443'', url_path = [], url_query = [], url_fragment = []\<rparr>]"
  by code_simp

lemma allowed_parts:
  "map (\<lambda>o'. (url_hostname (url_split o'), url_username (url_split o'))) allowed_origins = [(rp_id, []), (rp_id, [])]"
  by code_simp

lemma validate_origin_iff:
  "validate_origin origin host None = Inr r \<longleftrightarrow> r = origin \<and>
     (origin = ''https://'' @ rp_id \<and> host = rp_id \<or> origin = ''https://'' @ rp_id @ '':8443'' \<and> host = rp_id @ '':8443'')"
proof -
  define a where "a = ''https://'' @ rp_id"
  define b where "b = ''https://'' @ rp_id @ '':8443''"
  define p where "p = rp_id @ '':8443''"
  have o: "allowed_origins = [a, b]" by (simp add: a_def b_def allowed_origins_def rp_id_def)
  have ne: "a \<noteq> b" "rp_id \<noteq> p" "p \<noteq> rp_id" by (simp_all add: a_def b_def p_def)
  have s: "url_split a = \<lparr>url_scheme = ''https'', url_netloc = rp_id, url_path = [], url_query = [], url_fragment = []\<rparr>"
    "url_split b = \<lparr>url_scheme = ''https'', url_netloc = p, url_path = [], url_query = [], url_fragment = []\<rparr>"
    using url_split_allowed unfolding o list.map list.inject p_def by blast+
  have h: "url_hostname (url_split a) = rp_id" "url_username (url_split a) = []"
    "url_hostname (url_split b) = rp_id" "url_username (url_split b) = []"
    using allowed_parts unfolding o list.map list.inject prod.inject by blast+
  have "validate_origin a host None = Inr r \<longleftrightarrow> host = rp_id \<and> r = a"
    unfolding validate_origin_def o Let_def h p_def [symmetric] by (auto simp: s bindR_Inr_iff)
  moreover have "validate_origin b host None = Inr r \<longleftrightarrow> host = p \<and> r = b"
    unfolding validate_origin_def o Let_def h p_def [symmetric] by (auto simp: s bindR_Inr_iff)
  moreover have "origin \<noteq> a \<Longrightarrow> origin \<noteq> b \<Longrightarrow> validate_origin origin host None \<noteq> Inr r"
    by (auto simp: validate_origin_def o bindR_Inr_iff)
  ultimately have "validate_origin origin host None = Inr r \<longleftrightarrow> r = origin \<and> (origin = a \<and> host = rp_id \<or> origin = b \<and> host = p)"
    using ne(1) by (cases "origin = a"; cases "origin = b") auto
  then show ?thesis by (simp only: a_def b_def p_def)
qed

section \<open>Rows that can be used once\<close>

text \<open>
  The grants, the enrollments and the challenges are tables of one shape: what the row is bound to, until
  when it is valid, and whether it is used up. \<open>redeem\<close> is the transaction the three modules share: select
  the unused row with this key and binding, test the expiry, mark it as used, count the updated rows. They
  differ in their messages.
\<close>

record 'x one_time =
  ot_bound :: 'x
  ot_expires_at :: string
  ot_consumed :: bool

definition redeem :: "string \<Rightarrow> 'x \<Rightarrow> dtime \<Rightarrow> string \<times> string \<times> string \<Rightarrow> ('x one_time table, dtime) opr" where
  "redeem key bound current = (\<lambda>(missing, late, replay). atomicO (
    bindO (getO (t_get key)) (\<lambda>row. case row of
      None \<Rightarrow> raiseO (PermissionError missing)
    | Some r \<Rightarrow>
        if ot_bound r \<noteq> bound \<or> ot_consumed r then raiseO (PermissionError missing)
        else
         bindO (liftO (dt_fromisoformat (ot_expires_at r))) (\<lambda>expiry.
         bindO (liftO (time_after current expiry)) (\<lambda>over.
         thenO (liftO (guardR (\<not> over) (PermissionError late)))
         (bindO (getO (\<lambda>t. length (filter (\<lambda>(k, r). k = key \<and> \<not> ot_consumed r) t))) (\<lambda>updated.
          thenO (modO (t_update key (\<lambda>r. r\<lparr>ot_consumed := True\<rparr>)))
          (thenO (liftO (guardR (updated = 1) (PermissionError replay))) (retO expiry)))))))))"

definition issue :: "string \<Rightarrow> 'x \<Rightarrow> dtime \<Rightarrow> ('x one_time table, unit) opr" where
  "issue key bound expires = bindO (getO id) (\<lambda>t.
     bindO (liftO (t_insert key \<lparr>ot_bound = bound, ot_expires_at = isoformat expires, ot_consumed = False\<rparr> t)) (\<lambda>t'. modO (\<lambda>_. t')))"

definition spent_keys :: "'x one_time table \<Rightarrow> (string \<times> 'x) list" where
  "spent_keys t = map (\<lambda>(k, r). (k, ot_bound r)) (filter (\<lambda>(k, r). ot_consumed r) t)"

section \<open>State\<close>

record challenge_scope =
  cs_actor :: string
  cs_action :: string
  cs_family :: string
  cs_version :: string

record admin_passkey =
  ad_actor :: string
  ad_public_key :: string
  ad_sign_count :: int
  ad_created_at :: string
  ad_last_used_at :: "string option"

record admin_session =
  se_actor :: string
  se_csrf_hash :: string
  se_expires_at :: string
  se_revoked :: bool

record passkey_db = promotion_db +
  pk_grants :: "string one_time table"
  pk_enrollments :: "string one_time table"
  pk_challenges :: "challenge_scope one_time table"
  pk_admins :: "admin_passkey table"
  pk_sessions :: "admin_session table"

definition on_grants :: "(string one_time table, 'a) opr \<Rightarrow> (passkey_db, 'a) opr" where
  "on_grants m = (\<lambda>s. case m (pk_grants s) of (r, t) \<Rightarrow> (r, s\<lparr>pk_grants := t\<rparr>))"

definition on_enrollments :: "(string one_time table, 'a) opr \<Rightarrow> (passkey_db, 'a) opr" where
  "on_enrollments m = (\<lambda>s. case m (pk_enrollments s) of (r, t) \<Rightarrow> (r, s\<lparr>pk_enrollments := t\<rparr>))"

definition on_challenges :: "(challenge_scope one_time table, 'a) opr \<Rightarrow> (passkey_db, 'a) opr" where
  "on_challenges m = (\<lambda>s. case m (pk_challenges s) of (r, t) \<Rightarrow> (r, s\<lparr>pk_challenges := t\<rparr>))"

definition on_admins :: "(admin_passkey table, 'a) opr \<Rightarrow> (passkey_db, 'a) opr" where
  "on_admins m = (\<lambda>s. case m (pk_admins s) of (r, t) \<Rightarrow> (r, s\<lparr>pk_admins := t\<rparr>))"

definition aware :: "dtime \<Rightarrow> pyerr \<Rightarrow> unit res" where
  "aware t e = guardR (dt_off t \<noteq> None) e"

section \<open>Grants\<close>

definition create_local_grant :: "string \<Rightarrow> string \<Rightarrow> dtime \<Rightarrow> (passkey_db, string) opr" where
  "create_local_grant token actor current =
    thenO (liftO (guardR (actor \<noteq> [] \<and> length actor \<le> 128) (ValueError ''invalid actor'')))
    (thenO (liftO (aware current (ValueError ''timezone required'')))
    (bindO (liftO (add_seconds current 600)) (\<lambda>expires.
     thenO (on_grants (issue (token_digest token) actor expires)) (retO token))))"

definition consume_local_grant :: "string \<Rightarrow> string \<Rightarrow> dtime \<Rightarrow> (passkey_db, unit) opr" where
  "consume_local_grant actor token current =
    thenO (liftO (guardR (length token \<le> 256) (PermissionError ''invalid grant'')))
    (thenO (liftO (aware current (PermissionError ''timezone required'')))
    (thenO (on_grants (redeem (token_digest token) actor current
        (''grant invalid or expired'', ''grant invalid or expired'', ''grant already used''))) (retO ())))"

section \<open>Assertions\<close>

record pending_challenge =
  pc_challenge :: string
  pc_scope :: challenge_scope
  pc_expires_at :: dtime
  pc_consumed :: bool

definition begin_assertion :: "webauthn \<Rightarrow> string \<Rightarrow> string \<Rightarrow> string \<Rightarrow> challenge_scope \<Rightarrow> dtime \<Rightarrow> (string \<times> pending_challenge) res" where
  "begin_assertion wa challenge rp credential_id scope current =
    bindR (guardR (cs_action scope \<in> {''activate'', ''rollback'', ''login''} \<and>
        list_all (\<lambda>x. strip x \<noteq> []) [rp, cs_actor scope, cs_family scope, cs_version scope])
      (ValueError ''invalid passkey scope'')) (\<lambda>_.
    bindR (wa_auth_options wa rp challenge credential_id) (\<lambda>options.
    bindR (add_seconds current 120) (\<lambda>expires.
    Inr (options, \<lparr>pc_challenge = challenge, pc_scope = scope, pc_expires_at = expires, pc_consumed = False\<rparr>))))"

text \<open>The pending challenge is the state: it is used up before the signature is looked at.\<close>

definition finish_assertion ::
  "webauthn \<Rightarrow> obj \<Rightarrow> string \<Rightarrow> int \<Rightarrow> string \<Rightarrow> string \<Rightarrow> challenge_scope \<Rightarrow> dtime \<Rightarrow> (pending_challenge, verified_auth) opr" where
  "finish_assertion wa credential public_key sign_count rp origin scope current =
    bindO (getO id) (\<lambda>p.
    bindO (liftO (if pc_consumed p then Inr True else time_after current (pc_expires_at p))) (\<lambda>over.
    thenO (liftO (guardR (\<not> over \<and> dt_off current \<noteq> None) (PermissionError ''challenge expired or consumed'')))
    (thenO (liftO (guardR (pc_scope p = scope) (PermissionError ''passkey scope mismatch'')))
    (thenO (modO (\<lambda>p. p\<lparr>pc_consumed := True\<rparr>))
    (case wa_verify_auth wa credential (pc_challenge p) rp origin public_key sign_count of
       Inr v \<Rightarrow> retO v
     | Inl WebAuthnException \<Rightarrow> raiseO (PermissionError ''passkey assertion verification failed'')
     | Inl (OtherFault e) \<Rightarrow> raiseO e)))))"

section \<open>Client data\<close>

text \<open>
  \<open>base64.b64decode(s, altchars=b''-_'', validate=True)\<close> as the C scan does it: place in the group of four,
  padding seen, whether padding has begun, the bits left over.
\<close>

definition base64_digit :: "char \<Rightarrow> nat option" where
  "base64_digit c =
    (if is_upper c then Some (ordc c - 65) else if is_lower c then Some (ordc c - 71) else if is_digit c then Some (ordc c + 4)
     else if c = CHR ''+'' \<or> c = CHR ''-'' then Some 62 else if c = CHR ''/'' \<or> c = CHR ''_'' then Some 63 else None)"

fun base64_scan :: "nat \<Rightarrow> nat \<Rightarrow> bool \<Rightarrow> nat \<Rightarrow> string \<Rightarrow> string option" where
  "base64_scan place pads padding bits [] = (if place = 0 then Some [] else None)"
| "base64_scan place pads padding bits (c # cs) =
    (if c = CHR ''='' then
       (if 2 \<le> place \<and> 4 \<le> place + Suc pads then (if cs = [] then Some [] else None)
        else base64_scan place (if 2 \<le> place then Suc pads else pads) True bits cs)
     else case base64_digit c of None \<Rightarrow> None | Some d \<Rightarrow>
       if padding then None
       else if place = 0 then base64_scan 1 0 False d cs
       else if place = 1 then map_option ((#) (chr (bits * 4 + d div 16))) (base64_scan 2 0 False (d mod 16) cs)
       else if place = 2 then map_option ((#) (chr (bits * 16 + d div 4))) (base64_scan 3 0 False (d mod 4) cs)
       else map_option ((#) (chr (bits * 64 + d))) (base64_scan 0 0 False 0 cs))"

definition base64_decode :: "string \<Rightarrow> string res" where
  "base64_decode s = (if startswith s ''='' then Inl (ValueError ''Leading padding not allowed'')
     else ofOption (ValueError ''Incorrect padding'') (base64_scan 0 0 False 0 s))"

definition base64_padded :: "string \<Rightarrow> string" where
  "base64_padded s = s @ replicate ((4 - length s mod 4) mod 4) (CHR ''='')"

text \<open>\<open>parsed[''challenge'']\<close> on any JSON value.\<close>

definition subscript :: "json \<Rightarrow> string \<Rightarrow> json res" where
  "subscript j k = (case j of JObj raw \<Rightarrow> jreq raw k | _ \<Rightarrow> Inl (TypeError ''indices must be integers''))"

definition bad_client_data :: "pyerr \<Rightarrow> pyerr" where
  "bad_client_data e = (case e of ValueError _ \<Rightarrow> PermissionError ''invalid passkey client data''
     | KeyError _ \<Rightarrow> PermissionError ''invalid passkey client data''
     | TypeError _ \<Rightarrow> PermissionError ''invalid passkey client data'' | _ \<Rightarrow> e)"

definition client_challenge :: "webauthn \<Rightarrow> obj \<Rightarrow> string res" where
  "client_challenge wa credential =
    (case jget credential ''response'' of
       JObj response \<Rightarrow>
         (case jget response ''clientDataJSON'' of
            JStr text \<Rightarrow> map_sum bad_client_data id (
              bindR (base64_decode (base64_padded text)) (\<lambda>raw.
              bindR (wa_loads wa raw) (\<lambda>parsed.
              bindR (subscript parsed ''challenge'') (\<lambda>encoded.
              case encoded of
                JStr e \<Rightarrow>
                  bindR (guardR (e \<noteq> []) (ValueError ''missing challenge'')) (\<lambda>_.
                  bindR (base64_decode (base64_padded e)) (\<lambda>challenge.
                  bindR (guardR (length challenge = 32) (ValueError ''invalid challenge size'')) (\<lambda>_. Inr challenge)))
              | _ \<Rightarrow> Inl (ValueError ''missing challenge'')))))
          | _ \<Rightarrow> Inl (PermissionError ''missing client data''))
     | _ \<Rightarrow> Inl (PermissionError ''missing client data''))"

section \<open>Challenges\<close>

definition store_challenge :: "pending_challenge \<Rightarrow> (passkey_db, unit) opr" where
  "store_challenge p = on_challenges (issue (pc_challenge p) (pc_scope p) (pc_expires_at p))"

definition consume_challenge :: "string \<Rightarrow> challenge_scope \<Rightarrow> dtime \<Rightarrow> (passkey_db, pending_challenge) opr" where
  "consume_challenge challenge scope current =
    thenO (liftO (aware current (PermissionError ''timezone required'')))
    (bindO (on_challenges (redeem challenge scope current
        (''challenge not found or already consumed'', ''challenge expired'', ''challenge replay''))) (\<lambda>expiry.
     retO \<lparr>pc_challenge = challenge, pc_scope = scope, pc_expires_at = expiry, pc_consumed = False\<rparr>))"

section \<open>Credentials\<close>

definition check_counter :: "int \<Rightarrow> unit res" where
  "check_counter n = guardR (0 \<le> n) (IntegrityError ''CHECK constraint failed'')"

definition enroll_verified :: "string \<Rightarrow> verified_registration \<Rightarrow> bool \<Rightarrow> string \<Rightarrow> (passkey_db, unit) opr" where
  "enroll_verified actor v trusted_bootstrap created_at =
    thenO (liftO (guardR (trusted_bootstrap \<and> actor \<noteq> [] \<and> vg_user_verified v)
      (PermissionError ''trusted bootstrap and user verification required'')))
    (on_admins (thenO (liftO (check_counter (vg_sign_count v)))
      (bindO (getO id) (\<lambda>t.
       bindO (liftO (t_insert (vg_credential_id v) \<lparr>ad_actor = actor, ad_public_key = vg_public_key v,
           ad_sign_count = vg_sign_count v, ad_created_at = created_at, ad_last_used_at = None\<rparr> t)) (\<lambda>t'. modO (\<lambda>_. t'))))))"

text \<open>The newest credential of the actor; the first of several made at the same time.\<close>

definition newest_passkey :: "(string \<times> admin_passkey) list \<Rightarrow> (string \<times> admin_passkey) option" where
  "newest_passkey rows = (case rows of [] \<Rightarrow> None
     | r # rs \<Rightarrow> Some (foldl (\<lambda>b q. if ad_created_at (snd b) < ad_created_at (snd q) then q else b) r rs))"

definition credential_for_actor :: "string \<Rightarrow> admin_passkey table \<Rightarrow> (string \<times> string \<times> int) option" where
  "credential_for_actor actor t = map_option (\<lambda>(k, r). (k, ad_public_key r, ad_sign_count r))
     (newest_passkey (filter (\<lambda>(k, r). ad_actor r = actor) t))"

definition accept_verified_assertion :: "string \<Rightarrow> verified_auth \<Rightarrow> string \<Rightarrow> string \<Rightarrow> (passkey_db, unit) opr" where
  "accept_verified_assertion actor v expected_id used_at =
    thenO (liftO (guardR (va_user_verified v \<and> va_credential_id v = expected_id) (PermissionError ''passkey credential mismatch'')))
    (on_admins (bindO (getO (t_get expected_id)) (\<lambda>row. case row of
       None \<Rightarrow> raiseO (PermissionError ''passkey not registered'')
     | Some r \<Rightarrow>
         if ad_actor r \<noteq> actor then raiseO (PermissionError ''passkey not registered'')
         else
          thenO (liftO (guardR (\<not> (ad_sign_count r \<noteq> 0 \<and> va_new_sign_count v \<noteq> 0 \<and> va_new_sign_count v \<le> ad_sign_count r))
            (PermissionError ''sign counter replay'')))
          (thenO (liftO (check_counter (va_new_sign_count v)))
          (modO (t_update expected_id (\<lambda>r. r\<lparr>ad_sign_count := va_new_sign_count v, ad_last_used_at := Some used_at\<rparr>)))))))"

definition passkey_readiness :: "passkey_db \<Rightarrow> obj" where
  "passkey_readiness s = [(''passkey_rp_id'', JStr rp_id), (''registration_complete'', JBool (pk_admins s \<noteq> [])),
     (''admin_login_enabled'', JBool False), (''strategy_approval_enabled'', JBool False),
     (''strategy_mutated'', JBool False), (''order_executed'', JBool False)]"

section \<open>Enrollment\<close>

record pending_enrollment =
  pe_challenge :: string
  pe_actor :: string
  pe_expires_at :: dtime
  pe_consumed :: bool

definition begin_enrollment :: "webauthn \<Rightarrow> string \<Rightarrow> string \<Rightarrow> string \<Rightarrow> bool \<Rightarrow> dtime \<Rightarrow> (string \<times> pending_enrollment) res" where
  "begin_enrollment wa challenge rp actor bootstrap_authorized current =
    bindR (guardR bootstrap_authorized (PermissionError ''trusted bootstrap required'')) (\<lambda>_.
    bindR (guardR (rp \<noteq> [] \<and> actor \<noteq> []) (ValueError ''rp_id and actor required'')) (\<lambda>_.
    bindR (wa_registration_options wa rp challenge actor) (\<lambda>options.
    bindR (add_seconds current 120) (\<lambda>expires.
    Inr (options, \<lparr>pe_challenge = challenge, pe_actor = actor, pe_expires_at = expires, pe_consumed = False\<rparr>)))))"

definition finish_enrollment :: "webauthn \<Rightarrow> obj \<Rightarrow> string \<Rightarrow> string \<Rightarrow> string \<Rightarrow> dtime \<Rightarrow> (pending_enrollment, verified_registration) opr" where
  "finish_enrollment wa credential rp origin actor current =
    bindO (getO id) (\<lambda>p.
    bindO (liftO (if pe_consumed p then Inr True else time_after current (pe_expires_at p))) (\<lambda>over.
    thenO (liftO (guardR (\<not> over \<and> dt_off current \<noteq> None) (PermissionError ''enrollment expired or consumed'')))
    (thenO (liftO (guardR (actor = pe_actor p) (PermissionError ''enrollment actor mismatch'')))
    (thenO (modO (\<lambda>p. p\<lparr>pe_consumed := True\<rparr>))
    (case wa_verify_registration wa credential (pe_challenge p) rp origin of
       Inr v \<Rightarrow> retO v
     | Inl WebAuthnException \<Rightarrow> raiseO (PermissionError ''passkey enrollment verification failed'')
     | Inl (OtherFault e) \<Rightarrow> raiseO e)))))"

definition begin_trusted_enrollment ::
  "webauthn \<Rightarrow> string \<Rightarrow> string \<Rightarrow> string \<Rightarrow> string \<Rightarrow> string \<Rightarrow> dtime \<Rightarrow> dtime \<Rightarrow> (passkey_db, string) opr" where
  "begin_trusted_enrollment wa challenge actor token origin request_host current begun =
    thenO (liftO (validate_origin origin request_host None))
    (thenO (consume_local_grant actor token current)
    (bindO (liftO (begin_enrollment wa challenge rp_id actor True begun)) (\<lambda>(options, p).
     thenO (on_enrollments (issue (pe_challenge p) (pe_actor p) (pe_expires_at p))) (retO options))))"

definition consume_enrollment :: "string \<Rightarrow> string \<Rightarrow> dtime \<Rightarrow> (passkey_db, pending_enrollment) opr" where
  "consume_enrollment challenge actor current =
    bindO (on_enrollments (redeem challenge actor current
        (''enrollment invalid or expired'', ''enrollment invalid or expired'', ''enrollment replay''))) (\<lambda>expiry.
    retO \<lparr>pe_challenge = challenge, pe_actor = actor, pe_expires_at = expiry, pe_consumed = False\<rparr>)"

definition finish_trusted_enrollment ::
  "webauthn \<Rightarrow> string \<Rightarrow> obj \<Rightarrow> string \<Rightarrow> string \<Rightarrow> dtime \<Rightarrow> dtime \<Rightarrow> string \<Rightarrow> (passkey_db, obj) opr" where
  "finish_trusted_enrollment wa actor credential origin request_host current finished created_at =
    bindO (liftO (validate_origin origin request_host None)) (\<lambda>validated.
    thenO (liftO (guardR (actor \<noteq> []) (PermissionError ''invalid enrollment request'')))
    (bindO (liftO (client_challenge wa credential)) (\<lambda>challenge.
     bindO (consume_enrollment challenge actor current) (\<lambda>p.
     bindO (liftO (fst (finish_enrollment wa credential rp_id validated actor finished p))) (\<lambda>v.
     thenO (enroll_verified actor v True created_at) (retO [(''registered'', JBool True)]))))))"

section \<open>Login\<close>

definition login_scope :: "string \<Rightarrow> challenge_scope" where
  "login_scope actor = \<lparr>cs_actor = actor, cs_action = ''login'', cs_family = ''admin'', cs_version = ''session''\<rparr>"

definition need_passkey :: "string \<Rightarrow> string \<Rightarrow> (passkey_db, string \<times> string \<times> int) opr" where
  "need_passkey actor message = bindO (getO (credential_for_actor actor \<circ> pk_admins)) (\<lambda>row. liftO (ofOption (PermissionError message) row))"

definition begin_login :: "webauthn \<Rightarrow> string \<Rightarrow> string \<Rightarrow> string \<Rightarrow> string \<Rightarrow> dtime \<Rightarrow> (passkey_db, json) opr" where
  "begin_login wa challenge actor origin request_host current =
    thenO (liftO (validate_origin origin request_host None))
    (thenO (liftO (guardR (actor \<noteq> []) (PermissionError ''invalid administrator'')))
    (bindO (need_passkey actor ''unknown administrator'') (\<lambda>(credential_id, _, _).
     bindO (liftO (begin_assertion wa challenge rp_id credential_id (login_scope actor) current)) (\<lambda>(options, p).
     thenO (store_challenge p) (liftO (wa_loads wa options))))))"

definition finish_login ::
  "webauthn \<Rightarrow> string \<Rightarrow> obj \<Rightarrow> string \<Rightarrow> string \<Rightarrow> dtime \<Rightarrow> dtime \<Rightarrow> string \<Rightarrow> (passkey_db, obj) opr" where
  "finish_login wa actor credential origin request_host current finished used_at =
    thenO (liftO (validate_origin origin request_host None))
    (bindO (liftO (client_challenge wa credential)) (\<lambda>challenge.
     bindO (consume_challenge challenge (login_scope actor) current) (\<lambda>p.
     bindO (need_passkey actor ''unknown administrator'') (\<lambda>(credential_id, public_key, sign_count).
     bindO (liftO (fst (finish_assertion wa credential public_key sign_count rp_id origin (login_scope actor) finished p))) (\<lambda>v.
     thenO (accept_verified_assertion actor v credential_id used_at) (retO [(''authenticated'', JBool True)]))))))"

section \<open>Sessions\<close>

definition create_session :: "string \<Rightarrow> string \<Rightarrow> string \<Rightarrow> bool \<Rightarrow> dtime \<Rightarrow> (passkey_db, string \<times> string) opr" where
  "create_session token csrf actor authenticated current =
    thenO (liftO (guardR (authenticated \<and> actor \<noteq> []) (PermissionError ''verified passkey login required'')))
    (bindO (liftO (add_seconds current 1200)) (\<lambda>expires.
     bindO (getO pk_sessions) (\<lambda>t.
     bindO (liftO (t_insert (token_digest token) \<lparr>se_actor = actor, se_csrf_hash = token_digest csrf,
         se_expires_at = isoformat expires, se_revoked = False\<rparr> t)) (\<lambda>t'.
     thenO (modO (\<lambda>s. s\<lparr>pk_sessions := t'\<rparr>)) (retO (token, csrf))))))"

text \<open>\<open>require_csrf\<close> is whether a token for cross-site requests has to be given and right.\<close>

definition validate_session :: "string \<Rightarrow> string option \<Rightarrow> bool \<Rightarrow> dtime \<Rightarrow> passkey_db \<Rightarrow> string res" where
  "validate_session token csrf require_csrf current s =
    bindR (guardR (token \<noteq> []) (PermissionError ''missing session'')) (\<lambda>_.
    bindR (guardR (\<not> (require_csrf \<and> (csrf = None \<or> csrf = Some []))) (PermissionError ''missing csrf'')) (\<lambda>_.
    case t_get (token_digest token) (pk_sessions s) of
      None \<Rightarrow> Inl (PermissionError ''session invalid or expired'')
    | Some r \<Rightarrow>
        if se_revoked r then Inl (PermissionError ''session invalid or expired'')
        else
         bindR (dt_fromisoformat (se_expires_at r)) (\<lambda>expiry.
         bindR (time_after current expiry) (\<lambda>over.
         bindR (guardR (\<not> over) (PermissionError ''session invalid or expired'')) (\<lambda>_.
         bindR (guardR (\<not> (require_csrf \<and> se_csrf_hash r \<noteq> token_digest (case csrf of None \<Rightarrow> [] | Some c \<Rightarrow> c)))
           (PermissionError ''invalid csrf'')) (\<lambda>_. Inr (se_actor r)))))))"

definition revoke_session :: "string \<Rightarrow> (passkey_db, unit) opr" where
  "revoke_session token = modO (\<lambda>s. s\<lparr>pk_sessions := t_update (token_digest token) (\<lambda>r. r\<lparr>se_revoked := True\<rparr>) (pk_sessions s)\<rparr>)"

section \<open>Strategy approvals\<close>

definition strategy_action :: "string \<Rightarrow> bool" where
  "strategy_action action \<longleftrightarrow> action = ''activate'' \<or> action = ''rollback''"

definition begin_strategy_approval :: "webauthn \<Rightarrow> string \<Rightarrow> challenge_scope \<Rightarrow> string \<Rightarrow> string \<Rightarrow> dtime \<Rightarrow> (passkey_db, string) opr" where
  "begin_strategy_approval wa challenge scope origin request_host current =
    thenO (liftO (validate_origin origin request_host None))
    (thenO (liftO (guardR (strategy_action (cs_action scope)) (PermissionError ''strategy action required'')))
    (bindO (need_passkey (cs_actor scope) ''administrator passkey not registered'') (\<lambda>(credential_id, _, _).
     bindO (liftO (begin_assertion wa challenge rp_id credential_id scope current)) (\<lambda>(options, p).
     thenO (store_challenge p) (retO options)))))"

definition passkey_activation :: "challenge_scope \<Rightarrow> string \<Rightarrow> string \<Rightarrow> string \<Rightarrow> activation_call" where
  "passkey_activation scope approval_id stamp expires =
    \<lparr>av_family = cs_family scope, av_version = cs_version scope, av_actor = cs_actor scope, av_approval = approval_id,
     av_approved_family = cs_family scope, av_approved_version = cs_version scope, av_approval_actor = cs_actor scope,
     av_approved_at = stamp, av_expires_at = expires, av_now = stamp\<rparr>"

text \<open>
  Up to the activation: the signature is verified and the credential's counter moved on. The result is
  the expiry that the activation is called with.
\<close>

definition accept_signature ::
  "webauthn \<Rightarrow> pending_challenge \<Rightarrow> obj \<Rightarrow> challenge_scope \<Rightarrow> string \<Rightarrow> string \<Rightarrow> dtime \<Rightarrow> string \<Rightarrow> (passkey_db, dtime) opr" where
  "accept_signature wa p credential scope rp origin current used_at =
    thenO (liftO (guardR (strategy_action (cs_action scope)) (PermissionError ''strategy action required'')))
    (bindO (need_passkey (cs_actor scope) ''registered administrator passkey required'') (\<lambda>(credential_id, public_key, sign_count).
     bindO (liftO (fst (finish_assertion wa credential public_key sign_count rp origin scope current p))) (\<lambda>v.
     thenO (liftO (guardR (va_credential_id v = credential_id) (PermissionError ''passkey credential mismatch'')))
     (thenO (accept_verified_assertion (cs_actor scope) v credential_id used_at)
     (liftO (add_seconds current 30))))))"

definition approve_with_passkey ::
  "webauthn \<Rightarrow> pending_challenge \<Rightarrow> obj \<Rightarrow> challenge_scope \<Rightarrow> string \<Rightarrow> string \<Rightarrow> dtime \<Rightarrow> string \<Rightarrow> string \<Rightarrow> (passkey_db, obj) opr" where
  "approve_with_passkey wa p credential scope rp origin current used_at uuid =
    bindO (accept_signature wa p credential scope rp origin current used_at) (\<lambda>expires.
    activate_approved_version (passkey_activation scope uuid (isoformat current) (isoformat expires)))"

definition finish_strategy_approval ::
  "webauthn \<Rightarrow> string \<Rightarrow> obj \<Rightarrow> challenge_scope \<Rightarrow> string \<Rightarrow> string \<Rightarrow> dtime \<Rightarrow> dtime \<Rightarrow> string \<Rightarrow> string \<Rightarrow> (passkey_db, obj) opr" where
  "finish_strategy_approval wa challenge credential scope origin request_host current approved used_at uuid =
    bindO (liftO (validate_origin origin request_host None)) (\<lambda>validated.
    thenO (liftO (guardR (strategy_action (cs_action scope)) (PermissionError ''invalid strategy action'')))
    (bindO (consume_challenge challenge scope current) (\<lambda>p.
     approve_with_passkey wa p credential scope rp_id validated approved used_at uuid)))"

text \<open>
  The same call with a family or a version that is no string, whose texts in \<open>scope\<close> are those SQLite
  compares with the stored ones: it can use up a challenge, and ends at the type test of the activation.
\<close>

definition finish_approval_untyped ::
  "webauthn \<Rightarrow> string \<Rightarrow> obj \<Rightarrow> challenge_scope \<Rightarrow> string \<Rightarrow> string \<Rightarrow> dtime \<Rightarrow> dtime \<Rightarrow> string \<Rightarrow> (passkey_db, obj) opr" where
  "finish_approval_untyped wa challenge credential scope origin request_host current approved used_at =
    bindO (liftO (validate_origin origin request_host None)) (\<lambda>validated.
    thenO (liftO (guardR (strategy_action (cs_action scope)) (PermissionError ''invalid strategy action'')))
    (bindO (consume_challenge challenge scope current) (\<lambda>p.
     bindO (accept_signature wa p credential scope rp_id validated approved used_at) (\<lambda>expires.
     raiseO (PermissionError ''trusted identity and exact-version approval required'')))))"

end
