(* ===== verification/PasskeyRuns.thy ===== *)
theory PasskeyRuns
  imports Passkeys "HOL-Library.Multiset"
begin

text \<open>
  The passkey services over every sequence of calls: what each call does to the tables, that nothing is
  accepted twice, and the chain from an active version back to a grant made on the machine itself.
\<close>

section \<open>Using a row up\<close>

definition burn :: "string \<Rightarrow> 'x one_time table \<Rightarrow> 'x one_time table" where
  "burn k = t_update k (\<lambda>r. r\<lparr>ot_consumed := True\<rparr>)"

definition redeemable :: "string \<Rightarrow> 'x \<Rightarrow> dtime \<Rightarrow> 'x one_time table \<Rightarrow> dtime \<Rightarrow> bool" where
  "redeemable k bound current t expiry \<longleftrightarrow> (\<exists>r. t_get k t = Some r \<and> ot_bound r = bound \<and> \<not> ot_consumed r \<and>
     dt_fromisoformat (ot_expires_at r) = Inr expiry \<and> time_after current expiry = Inr False)"

lemma redeem_Inr: "redeem k bound current m t = (Inr expiry, u) \<Longrightarrow> redeemable k bound current t expiry \<and> u = burn k t"
  by (cases m) (auto simp: redeem_def atomicO_simps bindO_Inr_iff thenO_Inr_iff redeemable_def burn_def split: option.splits if_splits)

lemma redeem_Inl: "redeem k bound current m t = (Inl e, u) \<Longrightarrow> u = t"
  by (cases m) (simp add: redeem_def atomicO_simps)

lemma one_unused_row:
  assumes "t_ok t" and "t_get k t = Some r" and "\<not> ot_consumed r"
  shows "length (filter (\<lambda>(k', r). k' = k \<and> \<not> ot_consumed r) t) = 1"
proof -
  obtain a b where t: "t = a @ (k, r) # b" using assms(2) by (auto simp: t_get_def dest!: map_of_SomeD split_list)
  have "k \<notin> fst ` set a" "k \<notin> fst ` set b" using assms(1) unfolding t by (auto simp: t_ok_def t_keys_def)
  then have "filter (\<lambda>(k', r). k' = k \<and> \<not> ot_consumed r) a = []" "filter (\<lambda>(k', r). k' = k \<and> \<not> ot_consumed r) b = []"
    by (force simp: filter_empty_conv)+
  then show ?thesis using assms(3) unfolding t by simp
qed

lemma redeem_succeeds_iff:
  assumes "t_ok t"
  shows "(\<exists>u. redeem k bound current m t = (Inr expiry, u)) \<longleftrightarrow> redeemable k bound current t expiry"
proof
  assume "redeemable k bound current t expiry"
  then obtain r where r: "t_get k t = Some r" "ot_bound r = bound" "\<not> ot_consumed r"
      "dt_fromisoformat (ot_expires_at r) = Inr expiry" "time_after current expiry = Inr False"
    by (auto simp: redeemable_def)
  obtain a b c where m: "m = (a, b, c)" by (cases m)
  have "redeem k bound current m t = (Inr expiry, burn k t)"
    unfolding redeem_def m prod.case atomicO_simps
    using r one_unused_row [OF assms r(1,3)] by (simp add: thenO_apply burn_def)
  then show "\<exists>u. redeem k bound current m t = (Inr expiry, u)" by blast
qed (auto dest: redeem_Inr)

lemma issue_Inr: "issue k bound expires t = (Inr x, u) \<Longrightarrow>
    k \<notin> set (t_keys t) \<and> u = t @ [(k, \<lparr>ot_bound = bound, ot_expires_at = isoformat expires, ot_consumed = False\<rparr>)]"
  by (auto simp: issue_def bindO_Inr_iff t_insert_def split: if_splits)

lemma issue_Inl: "issue k bound expires t = (Inl e, u) \<Longrightarrow> u = t"
  by (auto simp: issue_def bindO_apply split: sum.splits)

lemma burn_keys [simp]: "t_keys (burn k t) = t_keys t" "length (burn k t) = length t"
  "ot_bound ` set (t_rows (burn k t)) = ot_bound ` set (t_rows t)" "t_ok (burn k t) = t_ok t"
proof -
  show "t_keys (burn k t) = t_keys t" by (simp add: burn_def)
  then show "t_ok (burn k t) = t_ok t" by (simp add: t_ok_def)
  show "length (burn k t) = length t" by (simp add: burn_def t_update_def)
  show "ot_bound ` set (t_rows (burn k t)) = ot_bound ` set (t_rows t)"
    by (force simp: burn_def t_update_def t_rows_def image_image split: prod.splits)
qed

lemma spent_keys_append [simp]: "spent_keys (a @ b) = spent_keys a @ spent_keys b"
  by (simp add: spent_keys_def)

lemma spent_keys_Cons [simp]: "spent_keys ((k, r) # t) = (if ot_consumed r then [(k, ot_bound r)] else []) @ spent_keys t"
  by (simp add: spent_keys_def)

lemma spent_keys_Nil [simp]: "spent_keys [] = []"
  by (simp add: spent_keys_def)

lemma burn_other: "k \<notin> set (t_keys t) \<Longrightarrow> burn k t = t"
  by (force simp: burn_def t_update_def t_keys_def intro!: map_idI)

lemma burn_append: "burn k (a @ b) = burn k a @ burn k b"
  by (simp add: burn_def t_update_def)

lemma spent_burn:
  assumes "t_ok t" and "t_get k t = Some r" and "\<not> ot_consumed r"
  shows "mset (spent_keys (burn k t)) = add_mset (k, ot_bound r) (mset (spent_keys t))"
proof -
  obtain a b where t: "t = a @ (k, r) # b" using assms(2) by (auto simp: t_get_def dest!: map_of_SomeD split_list)
  have "k \<notin> set (t_keys a)" "k \<notin> set (t_keys b)" using assms(1) unfolding t by (auto simp: t_ok_def)
  then have "burn k t = a @ (k, r\<lparr>ot_consumed := True\<rparr>) # b"
    unfolding t by (simp add: burn_append burn_other) (simp add: burn_def t_update_def burn_other [unfolded burn_def t_update_def])
  then show ?thesis using assms(3) unfolding t by simp
qed

lemma spent_unused: "t_get k t = Some r \<Longrightarrow> t_ok t \<Longrightarrow> \<not> ot_consumed r \<Longrightarrow> k \<notin> fst ` set (spent_keys t)"
  by (auto simp: spent_keys_def t_get_def t_ok_def t_keys_def dest!: map_of_SomeD) (metis eq_key_imp_eq_value)

lemma spent_filter_burn:
  assumes "t_ok t" and "redeemable k bound current t expiry"
  shows "length (filter P (spent_keys (burn k t))) = length (filter P (spent_keys t)) + (if P (k, bound) then 1 else 0)"
    and "set (spent_keys (burn k t)) = insert (k, bound) (set (spent_keys t))"
    and "k \<notin> fst ` set (spent_keys t)"
proof -
  obtain r where r: "t_get k t = Some r" "ot_bound r = bound" "\<not> ot_consumed r" using assms(2) by (auto simp: redeemable_def)
  note m = spent_burn [OF assms(1) r(1,3), unfolded r(2)]
  have "size (filter_mset P (mset (spent_keys (burn k t)))) = size (filter_mset P (mset (spent_keys t))) + (if P (k, bound) then 1 else 0)"
    unfolding m by simp
  then show "length (filter P (spent_keys (burn k t))) = length (filter P (spent_keys t)) + (if P (k, bound) then 1 else 0)"
    by (metis mset_filter size_mset)
  show "set (spent_keys (burn k t)) = insert (k, bound) (set (spent_keys t))"
    using arg_cong [OF m, of set_mset] by simp
  show "k \<notin> fst ` set (spent_keys t)" using spent_unused [OF r(1) assms(1) r(3)] .
qed

section \<open>What the operations do\<close>

text \<open>The changes of the tables, each of them one statement of the code.\<close>

definition spend_grant :: "string \<Rightarrow> passkey_db \<Rightarrow> passkey_db" where
  "spend_grant k s = s\<lparr>pk_grants := burn k (pk_grants s)\<rparr>"

definition spend_enrollment :: "string \<Rightarrow> passkey_db \<Rightarrow> passkey_db" where
  "spend_enrollment k s = s\<lparr>pk_enrollments := burn k (pk_enrollments s)\<rparr>"

definition spend_challenge :: "string \<Rightarrow> passkey_db \<Rightarrow> passkey_db" where
  "spend_challenge k s = s\<lparr>pk_challenges := burn k (pk_challenges s)\<rparr>"

definition count_use :: "string \<Rightarrow> int \<Rightarrow> string \<Rightarrow> passkey_db \<Rightarrow> passkey_db" where
  "count_use k n used s = s\<lparr>pk_admins := t_update k (\<lambda>r. r\<lparr>ad_sign_count := n, ad_last_used_at := Some used\<rparr>) (pk_admins s)\<rparr>"

definition unused :: "'x \<Rightarrow> dtime \<Rightarrow> 'x one_time" where
  "unused bound expires = \<lparr>ot_bound = bound, ot_expires_at = isoformat expires, ot_consumed = False\<rparr>"

lemma wp_guard: "wp (liftO (guardR b e)) Q E s \<longleftrightarrow> (if b then Q () s else E e s)"
  by (simp add: wp_def guardR_def)

lemma wp_part:
  "wp (on_grants m) Q E s = wp m (\<lambda>x t. Q x (s\<lparr>pk_grants := t\<rparr>)) (\<lambda>e t. E e (s\<lparr>pk_grants := t\<rparr>)) (pk_grants s)"
  "wp (on_enrollments m) Q E s = wp m (\<lambda>x t. Q x (s\<lparr>pk_enrollments := t\<rparr>)) (\<lambda>e t. E e (s\<lparr>pk_enrollments := t\<rparr>)) (pk_enrollments s)"
  "wp (on_challenges m') Q E s = wp m' (\<lambda>x t. Q x (s\<lparr>pk_challenges := t\<rparr>)) (\<lambda>e t. E e (s\<lparr>pk_challenges := t\<rparr>)) (pk_challenges s)"
  "wp (on_admins n) Q E s = wp n (\<lambda>x t. Q x (s\<lparr>pk_admins := t\<rparr>)) (\<lambda>e t. E e (s\<lparr>pk_admins := t\<rparr>)) (pk_admins s)"
  by (simp_all add: wp_def on_grants_def on_enrollments_def on_challenges_def on_admins_def split: prod.split)

lemma wp_redeem:
  "(\<And>e. E e t) \<Longrightarrow> (\<And>expiry. redeemable k bound current t expiry \<Longrightarrow> Q expiry (burn k t)) \<Longrightarrow> wp (redeem k bound current m) Q E t"
  by (auto simp: wp_def dest: redeem_Inr redeem_Inl split: prod.split sum.split)

lemma wp_issue:
  "(\<And>e. E e t) \<Longrightarrow> (k \<notin> set (t_keys t) \<Longrightarrow> Q () (t @ [(k, unused bound expires)])) \<Longrightarrow> wp (issue k bound expires) Q E t"
  by (auto simp: wp_def unused_def dest: issue_Inr issue_Inl split: prod.split sum.split)

lemma wp_lift_any: "(\<And>e. r = Inl e \<Longrightarrow> E e s) \<Longrightarrow> (\<And>x. r = Inr x \<Longrightarrow> Q x s) \<Longrightarrow> wp (liftO r) Q E s"
  by (simp add: wp_lift split: sum.split)

lemma wp_consume_local_grant:
  assumes "\<And>e. E e s"
    and "\<And>expiry. redeemable (token_digest token) actor current (pk_grants s) expiry \<Longrightarrow> Q () (spend_grant (token_digest token) s)"
  shows "wp (consume_local_grant actor token current) Q E s"
  unfolding consume_local_grant_def aware_def
  by (simp add: wp_simps wp_guard wp_part) (auto intro!: wp_redeem assms(2) [unfolded spend_grant_def] simp: assms(1))

lemma wp_consume_enrollment:
  assumes "\<And>e. E e s"
    and "\<And>expiry. redeemable challenge actor current (pk_enrollments s) expiry \<Longrightarrow>
      Q \<lparr>pe_challenge = challenge, pe_actor = actor, pe_expires_at = expiry, pe_consumed = False\<rparr> (spend_enrollment challenge s)"
  shows "wp (consume_enrollment challenge actor current) Q E s"
  unfolding consume_enrollment_def
  by (simp add: wp_simps wp_part) (auto intro!: wp_redeem assms(2) [unfolded spend_enrollment_def] simp: assms(1))

lemma wp_consume_challenge:
  assumes "\<And>e. E e s"
    and "\<And>expiry. redeemable challenge scope current (pk_challenges s) expiry \<Longrightarrow>
      Q \<lparr>pc_challenge = challenge, pc_scope = scope, pc_expires_at = expiry, pc_consumed = False\<rparr> (spend_challenge challenge s)"
  shows "wp (consume_challenge challenge scope current) Q E s"
  unfolding consume_challenge_def aware_def
  by (simp add: wp_simps wp_guard wp_part) (auto intro!: wp_redeem assms(2) [unfolded spend_challenge_def] simp: assms(1))

text \<open>What \<open>accept_verified_assertion\<close> has checked when it returns.\<close>

definition acceptable :: "string \<Rightarrow> verified_auth \<Rightarrow> string \<Rightarrow> passkey_db \<Rightarrow> bool" where
  "acceptable actor v k s \<longleftrightarrow> va_user_verified v \<and> va_credential_id v = k \<and> 0 \<le> va_new_sign_count v \<and>
     (\<exists>a. t_get k (pk_admins s) = Some a \<and> ad_actor a = actor \<and>
       (ad_sign_count a = 0 \<or> va_new_sign_count v = 0 \<or> ad_sign_count a < va_new_sign_count v))"

lemma wp_accept:
  assumes "\<And>e. E e s" and "acceptable actor v k s \<Longrightarrow> Q () (count_use k (va_new_sign_count v) used s)"
  shows "wp (accept_verified_assertion actor v k used) Q E s"
proof (cases "t_get k (pk_admins s)")
  case None
  then show ?thesis unfolding accept_verified_assertion_def by (simp add: wp_simps wp_guard wp_part assms(1))
next
  case (Some a)
  note defs = accept_verified_assertion_def wp_simps wp_guard wp_part check_counter_def acceptable_def not_le
  show ?thesis
  proof (cases "acceptable actor v k s")
    case True
    then show ?thesis using assms(2) [OF True] Some by (auto simp: defs count_use_def)
  next
    case False
    then show ?thesis using Some assms(1) by (auto simp: defs)
  qed
qed

lemma finish_assertion_Inr:
  assumes "fst (finish_assertion wa credential pk n rp origin scope current p) = Inr v" and "\<not> pc_consumed p"
  shows "wa_verify_auth wa credential (pc_challenge p) rp origin pk n = Inr v \<and> pc_scope p = scope \<and>
    time_after current (pc_expires_at p) = Inr False \<and> dt_off current \<noteq> None"
proof (cases "wa_verify_auth wa credential (pc_challenge p) rp origin pk n")
  case (Inl e)
  then show ?thesis using assms
    by (cases "time_after current (pc_expires_at p)"; cases e) (auto simp: finish_assertion_def thenO_apply guardR_def split: if_splits)
next
  case (Inr v')
  then show ?thesis using assms
    by (cases "time_after current (pc_expires_at p)") (auto simp: finish_assertion_def thenO_apply guardR_def split: if_splits)
qed

lemma newest_in: "newest_passkey rows = Some x \<Longrightarrow> x \<in> set rows"
proof -
  let ?f = "\<lambda>b q :: string \<times> admin_passkey. if ad_created_at (snd b) < ad_created_at (snd q) then q else b"
  have "foldl ?f r rs \<in> insert r (set rs)" for r rs
  proof (induction rs arbitrary: r)
    case (Cons q rs)
    have "foldl ?f (?f r q) rs \<in> insert (?f r q) (set rs)" by (rule Cons.IH)
    moreover have "?f r q = r \<or> ?f r q = q" by simp
    ultimately show ?case unfolding foldl_Cons list.set insert_iff by metis
  qed simp
  then show "newest_passkey rows = Some x \<Longrightarrow> x \<in> set rows" by (cases rows) (force simp: newest_passkey_def)+
qed

text \<open>The credential a call works with is stored for its actor.\<close>

definition has_passkey :: "string \<Rightarrow> string \<times> string \<times> int \<Rightarrow> passkey_db \<Rightarrow> bool" where
  "has_passkey actor c s \<longleftrightarrow> (\<exists>a. (fst c, a) \<in> set (pk_admins s) \<and> ad_actor a = actor \<and> ad_public_key a = fst (snd c) \<and> ad_sign_count a = snd (snd c))"

lemma credential_has_passkey: "credential_for_actor actor (pk_admins s) = Some c \<Longrightarrow> has_passkey actor c s"
  by (force simp: credential_for_actor_def has_passkey_def dest!: newest_in)

lemma wp_need_passkey: "(\<And>e. E e s) \<Longrightarrow> (\<And>c. has_passkey actor c s \<Longrightarrow> Q c s) \<Longrightarrow> wp (need_passkey actor m) Q E s"
  unfolding need_passkey_def
  by (simp add: wp_simps) (rule wp_lift_any, simp, simp add: credential_has_passkey)

section \<open>Calls\<close>

datatype passkey_call =
    PK_Grant string string dtime
  | PK_BeginEnrollment string string string string string dtime dtime
  | PK_FinishEnrollment string obj string string dtime dtime string
  | PK_BeginLogin string string string string dtime
  | PK_FinishLogin string obj string string dtime dtime string
  | PK_CreateSession string string string bool dtime
  | PK_RevokeSession string
  | PK_BeginApproval string challenge_scope string string dtime
  | PK_FinishApproval string obj challenge_scope string string dtime dtime string string
  | PK_FinishUntyped string obj challenge_scope string string dtime dtime string
  | PK_Promote "nat \<Rightarrow> string" string int
  | PK_StoreRun string research_run

definition returned :: "('e + 'a) \<times> 's \<Rightarrow> bool \<times> 's" where
  "returned = (\<lambda>(r, t). (case r of Inl _ \<Rightarrow> False | Inr _ \<Rightarrow> True, t))"

text \<open>Whether the call returns, and the tables after it. A stored research run replaces the one under its id.\<close>

fun passkey_run :: "webauthn \<Rightarrow> passkey_call \<Rightarrow> passkey_db \<Rightarrow> bool \<times> passkey_db" where
  "passkey_run wa (PK_Grant token actor t1) s = returned (create_local_grant token actor t1 s)"
| "passkey_run wa (PK_BeginEnrollment challenge actor token origin host t1 t2) s =
     returned (begin_trusted_enrollment wa challenge actor token origin host t1 t2 s)"
| "passkey_run wa (PK_FinishEnrollment actor credential origin host t1 t2 created) s =
     returned (finish_trusted_enrollment wa actor credential origin host t1 t2 created s)"
| "passkey_run wa (PK_BeginLogin challenge actor origin host t1) s = returned (begin_login wa challenge actor origin host t1 s)"
| "passkey_run wa (PK_FinishLogin actor credential origin host t1 t2 used) s =
     returned (finish_login wa actor credential origin host t1 t2 used s)"
| "passkey_run wa (PK_CreateSession token csrf actor ok t1) s = returned (create_session token csrf actor ok t1 s)"
| "passkey_run wa (PK_RevokeSession token) s = returned (revoke_session token s)"
| "passkey_run wa (PK_BeginApproval challenge scope origin host t1) s =
     returned (begin_strategy_approval wa challenge scope origin host t1 s)"
| "passkey_run wa (PK_FinishApproval challenge credential scope origin host t1 t2 used uuid) s =
     returned (finish_strategy_approval wa challenge credential scope origin host t1 t2 used uuid s)"
| "passkey_run wa (PK_FinishUntyped challenge credential scope origin host t1 t2 used) s =
     returned (finish_approval_untyped wa challenge credential scope origin host t1 t2 used s)"
| "passkey_run wa (PK_Promote draw now limit) s = returned (promote_eligible_candidates draw now limit s)"
| "passkey_run wa (PK_StoreRun run_id r) s = (True, s\<lparr>pm_runs := t_replace run_id r (pm_runs s)\<rparr>)"

definition passkey_step :: "webauthn \<Rightarrow> passkey_call \<Rightarrow> passkey_db \<Rightarrow> passkey_db" where
  "passkey_step wa c s = snd (passkey_run wa c s)"

definition passkey_db_empty :: passkey_db where
  "passkey_db_empty = \<lparr>ac_versions = [], ac_audit = [], pm_runs = [], pk_grants = [], pk_enrollments = [],
     pk_challenges = [], pk_admins = [], pk_sessions = []\<rparr>"

lemma wp_returned: "wp m (\<lambda>_ t. P True t) (\<lambda>_ t. P False t) s \<Longrightarrow> case returned (m s) of (b, t) \<Rightarrow> P b t"
  by (auto simp: wp_def returned_def split: prod.splits sum.splits)

section \<open>What every call leaves true\<close>

definition tables_distinct :: "passkey_db \<Rightarrow> bool" where
  "tables_distinct s \<longleftrightarrow> t_ok (pk_grants s) \<and> t_ok (pk_enrollments s) \<and> t_ok (pk_challenges s) \<and> t_ok (pk_admins s)"

text \<open>An enrollment was begun with a grant for its actor that is used up, and no grant allowed two.\<close>

definition enrollments_granted :: "passkey_db \<Rightarrow> bool" where
  "enrollments_granted s \<longleftrightarrow> ot_bound ` set (t_rows (pk_enrollments s)) \<subseteq> snd ` set (spent_keys (pk_grants s)) \<and>
     length (pk_enrollments s) \<le> length (spent_keys (pk_grants s))"

definition admins_enrolled :: "passkey_db \<Rightarrow> bool" where
  "admins_enrolled s \<longleftrightarrow> ad_actor ` set (t_rows (pk_admins s)) \<subseteq> snd ` set (spent_keys (pk_enrollments s)) \<and>
     length (pk_admins s) \<le> length (spent_keys (pk_enrollments s))"

definition approvals_spent :: "passkey_db \<Rightarrow> challenge_scope list" where
  "approvals_spent s = filter (strategy_action \<circ> cs_action) (map snd (spent_keys (pk_challenges s)))"

definition audit_signed :: "passkey_db \<Rightarrow> string \<times> activation_audit \<Rightarrow> bool" where
  "audit_signed s a \<longleftrightarrow> aa_actor (snd a) \<in> ad_actor ` set (t_rows (pk_admins s)) \<and>
     (\<exists>scope \<in> set (approvals_spent s). cs_actor scope = aa_actor (snd a) \<and> cs_family scope = aa_family (snd a) \<and> cs_version scope = aa_version (snd a))"

definition activations_signed :: "passkey_db \<Rightarrow> bool" where
  "activations_signed s \<longleftrightarrow> (\<forall>a \<in> set (ac_audit s). audit_signed s a) \<and> length (ac_audit s) \<le> length (approvals_spent s)"

definition registry_audited :: "'a activation_db_scheme \<Rightarrow> string \<Rightarrow> version_registry \<Rightarrow> bool" where
  "registry_audited s f vs \<longleftrightarrow> single_active vs \<and>
     (\<forall>v \<in> set vs. sv_status v = ACTIVE \<longrightarrow> (\<exists>a \<in> set (t_rows (ac_audit s)). aa_family a = f \<and> aa_version a = sv_id v))"

definition registries_audited :: "'a activation_db_scheme \<Rightarrow> bool" where
  "registries_audited s \<longleftrightarrow> (\<forall>f. \<exists>vs. versions_get f (ac_versions s) = Inr vs \<and> registry_audited s f vs)"

definition trust_chain :: "passkey_db \<Rightarrow> bool" where
  "trust_chain s \<longleftrightarrow> tables_distinct s \<and> enrollments_granted s \<and> admins_enrolled s \<and> activations_signed s \<and> registries_audited s"

lemma approvals_spent_burn:
  assumes "t_ok (pk_challenges s)" and "redeemable k scope current (pk_challenges s) e"
  shows "length (approvals_spent (spend_challenge k s)) = length (approvals_spent s) + (if strategy_action (cs_action scope) then 1 else 0)"
    and "set (approvals_spent (spend_challenge k s)) = (if strategy_action (cs_action scope) then {scope} else {}) \<union> set (approvals_spent s)"
proof -
  note b = spent_filter_burn [OF assms]
  have len: "length (approvals_spent u) = length (filter (\<lambda>x. strategy_action (cs_action (snd x))) (spent_keys (pk_challenges u)))" for u
    by (simp add: approvals_spent_def filter_map comp_def)
  show "length (approvals_spent (spend_challenge k s)) = length (approvals_spent s) + (if strategy_action (cs_action scope) then 1 else 0)"
    unfolding len using b(1) [of "\<lambda>x. strategy_action (cs_action (snd x))"] by (simp add: spend_challenge_def)
  show "set (approvals_spent (spend_challenge k s)) = (if strategy_action (cs_action scope) then {scope} else {}) \<union> set (approvals_spent s)"
    using b(2) by (auto simp: approvals_spent_def spend_challenge_def)
qed

lemma other_parts [simp]:
  "approvals_spent (spend_grant k s) = approvals_spent s" "approvals_spent (spend_enrollment k s) = approvals_spent s"
  "approvals_spent (count_use k n used s) = approvals_spent s"
  "approvals_spent (s\<lparr>pk_enrollments := en\<rparr>) = approvals_spent s" "approvals_spent (s\<lparr>pk_grants := gr\<rparr>) = approvals_spent s"
  "approvals_spent (s\<lparr>pk_admins := ad\<rparr>) = approvals_spent s"
  by (simp_all add: approvals_spent_def spend_grant_def spend_enrollment_def count_use_def)

lemma admin_rows_update: "ad_actor ` set (t_rows (t_update k (\<lambda>r. r\<lparr>ad_sign_count := n, ad_last_used_at := u\<rparr>) t)) = ad_actor ` set (t_rows t)"
  by (force simp: t_update_def t_rows_def image_image split: prod.splits)

lemma length_update [simp]: "length (t_update k f t) = length t"
  by (simp add: t_update_def)

lemma chain_count_use: "trust_chain s \<Longrightarrow> trust_chain (count_use k n used s)"
  by (auto simp: trust_chain_def tables_distinct_def enrollments_granted_def admins_enrolled_def activations_signed_def audit_signed_def
      registries_audited_def registry_audited_def count_use_def admin_rows_update t_ok_def approvals_spent_def)

lemma chain_spend_challenge:
  assumes "trust_chain s" and "redeemable k scope current (pk_challenges s) e"
  shows "trust_chain (spend_challenge k s)"
proof -
  have ok: "t_ok (pk_challenges s)" using assms(1) by (simp add: trust_chain_def tables_distinct_def)
  note b = approvals_spent_burn [OF ok assms(2)]
  have "activations_signed (spend_challenge k s)"
    using assms(1) b unfolding trust_chain_def activations_signed_def audit_signed_def
    by (fastforce simp: spend_challenge_def)
  then show ?thesis
    using assms(1) by (simp add: trust_chain_def tables_distinct_def enrollments_granted_def admins_enrolled_def registries_audited_def
        registry_audited_def spend_challenge_def)
qed

lemma chain_spend_grant:
  assumes "trust_chain s" and "redeemable k actor current (pk_grants s) e"
  shows "trust_chain (spend_grant k s)" and "actor \<in> snd ` set (spent_keys (pk_grants (spend_grant k s)))"
    and "length (pk_enrollments (spend_grant k s)) < length (spent_keys (pk_grants (spend_grant k s)))"
proof -
  have ok: "t_ok (pk_grants s)" using assms(1) by (simp add: trust_chain_def tables_distinct_def)
  have g: "length (spent_keys (burn k (pk_grants s))) = Suc (length (spent_keys (pk_grants s)))"
      "set (spent_keys (burn k (pk_grants s))) = insert (k, actor) (set (spent_keys (pk_grants s)))"
    using spent_filter_burn(1) [OF ok assms(2), of "\<lambda>_. True"] spent_filter_burn(2) [OF ok assms(2)] by simp_all
  show "trust_chain (spend_grant k s)"
    using assms(1) g unfolding trust_chain_def enrollments_granted_def activations_signed_def audit_signed_def
    by (auto simp: spend_grant_def tables_distinct_def admins_enrolled_def registries_audited_def registry_audited_def approvals_spent_def)
  show "actor \<in> snd ` set (spent_keys (pk_grants (spend_grant k s)))" using g(2) by (simp add: spend_grant_def)
  show "length (pk_enrollments (spend_grant k s)) < length (spent_keys (pk_grants (spend_grant k s)))"
    using assms(1) g(1) by (simp add: spend_grant_def trust_chain_def enrollments_granted_def)
qed

lemma chain_spend_enrollment:
  assumes "trust_chain s" and "redeemable k actor current (pk_enrollments s) e"
  shows "trust_chain (spend_enrollment k s)" and "actor \<in> snd ` set (spent_keys (pk_enrollments (spend_enrollment k s)))"
    and "length (pk_admins (spend_enrollment k s)) < length (spent_keys (pk_enrollments (spend_enrollment k s)))"
proof -
  have ok: "t_ok (pk_enrollments s)" using assms(1) by (simp add: trust_chain_def tables_distinct_def)
  have g: "length (spent_keys (burn k (pk_enrollments s))) = Suc (length (spent_keys (pk_enrollments s)))"
      "set (spent_keys (burn k (pk_enrollments s))) = insert (k, actor) (set (spent_keys (pk_enrollments s)))"
    using spent_filter_burn(1) [OF ok assms(2), of "\<lambda>_. True"] spent_filter_burn(2) [OF ok assms(2)] by simp_all
  show "trust_chain (spend_enrollment k s)"
    using assms(1) g unfolding trust_chain_def admins_enrolled_def activations_signed_def audit_signed_def enrollments_granted_def
    by (auto simp: spend_enrollment_def tables_distinct_def registries_audited_def registry_audited_def approvals_spent_def)
  show "actor \<in> snd ` set (spent_keys (pk_enrollments (spend_enrollment k s)))" using g(2) by (simp add: spend_enrollment_def)
  show "length (pk_admins (spend_enrollment k s)) < length (spent_keys (pk_enrollments (spend_enrollment k s)))"
    using assms(1) g(1) by (simp add: spend_enrollment_def trust_chain_def admins_enrolled_def)
qed

lemmas chain_defs = trust_chain_def tables_distinct_def enrollments_granted_def admins_enrolled_def activations_signed_def
  audit_signed_def registries_audited_def registry_audited_def approvals_spent_def

lemma unused_fields [simp]: "ot_bound (unused b e) = b" "ot_consumed (unused b e) = False"
  by (simp_all add: unused_def)

lemma t_rows_snoc [simp]: "t_rows (t @ [(k, r)]) = t_rows t @ [r]"
  by (simp add: t_rows_def)

lemma t_ok_snoc: "t_ok (t @ [(k, r)]) \<longleftrightarrow> t_ok t \<and> k \<notin> set (t_keys t)"
  by (auto simp: t_ok_def)

lemma chain_issue:
  "trust_chain s \<Longrightarrow> k \<notin> set (t_keys (pk_grants s)) \<Longrightarrow> trust_chain (s\<lparr>pk_grants := pk_grants s @ [(k, unused actor e)]\<rparr>)"
  "trust_chain s \<Longrightarrow> k \<notin> set (t_keys (pk_challenges s)) \<Longrightarrow> trust_chain (s\<lparr>pk_challenges := pk_challenges s @ [(k, unused scope e)]\<rparr>)"
  "trust_chain s \<Longrightarrow> k \<notin> set (t_keys (pk_enrollments s)) \<Longrightarrow> actor \<in> snd ` set (spent_keys (pk_grants s)) \<Longrightarrow>
     length (pk_enrollments s) < length (spent_keys (pk_grants s)) \<Longrightarrow> trust_chain (s\<lparr>pk_enrollments := pk_enrollments s @ [(k, unused actor e)]\<rparr>)"
  by (simp_all add: chain_defs t_ok_snoc)

lemma chain_enroll:
  "trust_chain s \<Longrightarrow> k \<notin> set (t_keys (pk_admins s)) \<Longrightarrow> ad_actor a \<in> snd ` set (spent_keys (pk_enrollments s)) \<Longrightarrow>
     length (pk_admins s) < length (spent_keys (pk_enrollments s)) \<Longrightarrow> trust_chain (s\<lparr>pk_admins := pk_admins s @ [(k, a)]\<rparr>)"
  by (auto simp: chain_defs t_ok_snoc)

lemma chain_sessions: "trust_chain s \<Longrightarrow> trust_chain (s\<lparr>pk_sessions := t\<rparr>)"
  by (simp add: chain_defs)

lemma chain_runs: "trust_chain s \<Longrightarrow> trust_chain (s\<lparr>pm_runs := t\<rparr>)"
  by (simp add: chain_defs)

text \<open>The active versions of a registry, as it is read back.\<close>

lemma single_active_canon: "single_active (map sv_canon vs) \<longleftrightarrow> single_active vs"
  by (auto simp: single_active_def)

lemma single_active_append:
  assumes "single_active vs" and "\<forall>v \<in> set new. sv_status v \<noteq> ACTIVE"
  shows "single_active (vs @ new)"
proof -
  have "i < length vs" if "i < length (vs @ new)" "sv_status ((vs @ new) ! i) = ACTIVE" for i
    using that assms(2) by (auto simp: nth_append split: if_splits)
  then show ?thesis using assms(1) unfolding single_active_def by (metis nth_append)
qed

lemma registry_audited_canon: "registry_audited s f (map sv_canon vs) \<longleftrightarrow> registry_audited s f vs"
  by (auto simp: registry_audited_def single_active_canon)

lemma registry_audited_adds:
  assumes "registry_audited s f vs" and "adds_candidates runs f vs ws" and "ac_audit t = ac_audit s"
  shows "registry_audited t f ws"
proof -
  obtain new where new: "map sv_canon ws = map sv_canon vs @ new" "\<forall>v \<in> set new. sv_status v = APPLY_READY"
    using assms(2) by (auto simp: adds_candidates_def)
  have "registry_audited s f (map sv_canon vs @ new)"
    using assms(1) new(2) unfolding registry_audited_canon [of s f vs, symmetric]
    by (auto simp: registry_audited_def intro: single_active_append)
  then have "registry_audited s f ws" unfolding new(1) [symmetric] registry_audited_canon .
  then show ?thesis using assms(3) by (simp add: registry_audited_def)
qed

lemma chain_promotion:
  assumes "trust_chain s" and "promote_eligible_candidates draw now limit s = (r, t)"
  shows "trust_chain t"
proof -
  note p = promotion_adds [OF assms(2)]
  have "registries_audited t"
    unfolding registries_audited_def
  proof
    fix f
    obtain vs where vs: "versions_get f (ac_versions s) = Inr vs" "registry_audited s f vs"
      using assms(1) unfolding trust_chain_def registries_audited_def by blast
    obtain ws where ws: "versions_get f (ac_versions t) = Inr ws" "adds_candidates (pm_runs s) f vs ws"
      using p vs(1) by (auto simp: store_adds_def dest!: spec [of _ f])
    show "\<exists>ws. versions_get f (ac_versions t) = Inr ws \<and> registry_audited t f ws"
      using ws registry_audited_adds [OF vs(2) ws(2), of t] p by blast
  qed
  moreover have "trust_chain s \<longleftrightarrow> tables_distinct t \<and> enrollments_granted t \<and> admins_enrolled t \<and> activations_signed t \<and> registries_audited s"
    by (subst (1 2 3 4) promotion_frame [OF assms(2)]) (simp add: trust_chain_def tables_distinct_def enrollments_granted_def
      admins_enrolled_def activations_signed_def audit_signed_def approvals_spent_def with_versions_def)
  ultimately show ?thesis using assms(1) by (simp add: trust_chain_def)
qed

lemma single_active_switch:
  "single_active vs \<Longrightarrow> k < length vs \<Longrightarrow> single_active (switch_active k ts vs)"
  by (auto simp: single_active_def nth_switch_active split: if_splits)

lemma switch_active_active:
  assumes "v \<in> set (switch_active k ts vs)" and "sv_status v = ACTIVE" and "k < length vs"
  shows "v = activate ts (vs ! k) \<or> v \<in> set vs"
proof -
  obtain i where "i < length vs" "v = switch_active k ts vs ! i" using assms(1) by (metis in_set_conv_nth length_switch_active)
  then show ?thesis using assms(2) by (auto simp: nth_switch_active split: if_splits)
qed

lemma chain_activation:
  assumes "trust_chain s" and "activate_approved_version c s = (r, t)"
    and "audit_signed s (av_approval c, audit_row c)" and "length (ac_audit s) < length (approvals_spent s)"
  shows "trust_chain t"
proof (cases r)
  case (Inl e)
  then show ?thesis using assms(1,2) activation_Inl by blast
next
  case (Inr x)
  then obtain vs k where c: "versions_get (av_family c) (ac_versions s) = Inr vs" "index_of (\<lambda>w. sv_id w = av_version c) vs = Some k"
      "t = activation_effect c vs k s"
    using assms(2) by (auto elim!: activation_Inr)
  have k: "k < length vs" "sv_id (vs ! k) = av_version c" using index_of_Some [OF c(2)] by auto
  have aud: "set (t_rows (ac_audit t)) = insert (audit_row c) (set (t_rows (ac_audit s)))" by (simp add: c(3) activation_effect_def)
  have "registries_audited t"
    unfolding registries_audited_def
  proof
    fix f
    obtain us where us: "versions_get f (ac_versions s) = Inr us" "registry_audited s f us"
      using assms(1) unfolding trust_chain_def registries_audited_def by blast
    show "\<exists>ws. versions_get f (ac_versions t) = Inr ws \<and> registry_audited t f ws"
    proof (cases "f = av_family c")
      case True
      then have [simp]: "us = vs" using us c(1) by simp
      have "registry_audited t f (switch_active k (av_now c) vs)"
        unfolding registry_audited_def
      proof (intro conjI ballI impI)
        show "single_active (switch_active k (av_now c) vs)"
          using us(2) k(1) by (simp add: registry_audited_def single_active_switch)
        fix v assume v: "v \<in> set (switch_active k (av_now c) vs)" "sv_status v = ACTIVE"
        show "\<exists>a \<in> set (t_rows (ac_audit t)). aa_family a = f \<and> aa_version a = sv_id v"
          using switch_active_active [OF v k(1)] us(2) v(2) k(2) True aud by (auto simp: registry_audited_def audit_row_def)
      qed
      then show ?thesis
        using True c(3) registry_audited_canon [of t f] by (auto simp: activation_effect_def versions_get_save)
    next
      case False
      then show ?thesis using us aud c(3) by (auto simp: activation_effect_def versions_get_save registry_audited_def)
    qed
  qed
  then show ?thesis
    using assms unfolding c(3)
    by (auto simp: trust_chain_def tables_distinct_def enrollments_granted_def admins_enrolled_def activations_signed_def
        audit_signed_def approvals_spent_def activation_effect_def)
qed

section \<open>The signed approval\<close>

text \<open>
  The evidence behind an activation: a stored credential of the actor, and the library's verification of a
  signature with it over this challenge, for this party and origin, by a verified user.
\<close>

definition signed_with :: "webauthn \<Rightarrow> obj \<Rightarrow> string \<Rightarrow> string \<Rightarrow> string \<times> string \<times> int \<Rightarrow> verified_auth \<Rightarrow> bool" where
  "signed_with wa credential challenge origin c v \<longleftrightarrow>
     wa_verify_auth wa credential challenge rp_id origin (fst (snd c)) (snd (snd c)) = Inr v \<and>
     va_credential_id v = fst c \<and> va_user_verified v"

lemma same_admins [simp]: "has_passkey actor c (spend_challenge k s) = has_passkey actor c s" "acceptable actor v c' (spend_challenge k s) = acceptable actor v c' s"
  by (simp_all add: has_passkey_def acceptable_def spend_challenge_def)

lemma wp_accept_signature:
  assumes "\<And>e. E e u" and "\<And>e k v. acceptable (cs_actor scope) v k u \<Longrightarrow> E e (count_use k (va_new_sign_count v) used u)"
    and "\<And>c v x. time_after approved expiry = Inr False \<Longrightarrow> has_passkey (cs_actor scope) c u \<Longrightarrow> signed_with wa credential challenge origin c v \<Longrightarrow>
      acceptable (cs_actor scope) v (fst c) u \<Longrightarrow> Q x (count_use (fst c) (va_new_sign_count v) used u)"
  shows "wp (accept_signature wa \<lparr>pc_challenge = challenge, pc_scope = scope, pc_expires_at = expiry, pc_consumed = False\<rparr>
      credential scope rp_id origin approved used) Q E u" (is "wp (accept_signature wa ?p _ _ _ _ _ _) Q E u")
  unfolding accept_signature_def wp_then wp_bind wp_guard
proof (split if_split, intro conjI impI, rule wp_need_passkey)
  fix c assume c: "has_passkey (cs_actor scope) c u"
  obtain k pk n where [simp]: "c = (k, pk, n)" by (cases c)
  show "wp (case c of (credential_id, public_key, sign_count) \<Rightarrow>
      bindO (liftO (fst (finish_assertion wa credential public_key sign_count rp_id origin scope approved ?p))) (\<lambda>v.
        thenO (liftO (guardR (va_credential_id v = credential_id) (PermissionError ''passkey credential mismatch'')))
        (thenO (accept_verified_assertion (cs_actor scope) v credential_id used) (liftO (add_seconds approved 30))))) Q E u"
    unfolding \<open>c = (k, pk, n)\<close> prod.case wp_bind wp_then wp_guard
  proof (rule wp_lift_any, rule assms(1), split if_split, intro conjI impI, rule wp_accept)
    fix v assume fin: "fst (finish_assertion wa credential pk n rp_id origin scope approved ?p) = Inr v"
      and k: "va_credential_id v = k" and a: "acceptable (cs_actor scope) v k u"
    have v: "wa_verify_auth wa credential challenge rp_id origin pk n = Inr v" "time_after approved expiry = Inr False"
      using fin by (auto dest: finish_assertion_Inr)
    have "signed_with wa credential challenge origin c v" using v(1) a by (simp add: signed_with_def acceptable_def)
    then show "wp (liftO (add_seconds approved 30)) Q E (count_use k (va_new_sign_count v) used u)"
      using assms(3) [OF v(2) c] assms(2) a by (intro wp_lift_any) auto
  qed (simp_all add: assms(1))
qed (simp_all add: assms(1))

lemma wp_after_challenge:
  assumes "\<And>e. E e s"
    and "\<And>e expiry. redeemable challenge scope current (pk_challenges s) expiry \<Longrightarrow> E e (spend_challenge challenge s)"
    and "\<And>e expiry k v. redeemable challenge scope current (pk_challenges s) expiry \<Longrightarrow> acceptable (cs_actor scope) v k s \<Longrightarrow>
      E e (count_use k (va_new_sign_count v) used (spend_challenge challenge s))"
    and "\<And>expiry c v x. strategy_action (cs_action scope) \<Longrightarrow> redeemable challenge scope current (pk_challenges s) expiry \<Longrightarrow>
      time_after approved expiry = Inr False \<Longrightarrow> validate_origin origin host None = Inr origin \<Longrightarrow>
      has_passkey (cs_actor scope) c s \<Longrightarrow> signed_with wa credential challenge origin c v \<Longrightarrow> acceptable (cs_actor scope) v (fst c) s \<Longrightarrow>
      wp (f x) Q E (count_use (fst c) (va_new_sign_count v) used (spend_challenge challenge s))"
  shows "wp (bindO (liftO (validate_origin origin host None)) (\<lambda>validated.
      thenO (liftO (guardR (strategy_action (cs_action scope)) (PermissionError ''invalid strategy action'')))
      (bindO (consume_challenge challenge scope current) (\<lambda>p.
       bindO (accept_signature wa p credential scope rp_id validated approved used) f)))) Q E s"
  unfolding wp_then wp_bind wp_guard
proof (rule wp_lift_any, rule assms(1), split if_split, intro conjI impI, rule wp_consume_challenge)
  fix x expiry
  assume x: "validate_origin origin host None = Inr x" and a: "strategy_action (cs_action scope)"
    and r: "redeemable challenge scope current (pk_challenges s) expiry"
  have [simp]: "x = origin" using x validate_origin_iff by blast
  show "wp (accept_signature wa \<lparr>pc_challenge = challenge, pc_scope = scope, pc_expires_at = expiry, pc_consumed = False\<rparr>
      credential scope rp_id x approved used) (\<lambda>x. wp (f x) Q E) E (spend_challenge challenge s)"
    using assms(2,3) [OF r] assms(4) [OF a r] x by (auto intro!: wp_accept_signature)
qed (simp_all add: assms(1))

lemma wp_finish_approval:
  assumes "\<And>e. E e s"
    and "\<And>e expiry. redeemable challenge scope current (pk_challenges s) expiry \<Longrightarrow> E e (spend_challenge challenge s)"
    and "\<And>e expiry k v. redeemable challenge scope current (pk_challenges s) expiry \<Longrightarrow> acceptable (cs_actor scope) v k s \<Longrightarrow>
      E e (count_use k (va_new_sign_count v) used (spend_challenge challenge s))"
    and "\<And>expiry c v x. strategy_action (cs_action scope) \<Longrightarrow> redeemable challenge scope current (pk_challenges s) expiry \<Longrightarrow>
      time_after approved expiry = Inr False \<Longrightarrow> validate_origin origin host None = Inr origin \<Longrightarrow>
      has_passkey (cs_actor scope) c s \<Longrightarrow> signed_with wa credential challenge origin c v \<Longrightarrow> acceptable (cs_actor scope) v (fst c) s \<Longrightarrow>
      wp (activate_approved_version (passkey_activation scope uuid (isoformat approved) (isoformat x))) Q E
        (count_use (fst c) (va_new_sign_count v) used (spend_challenge challenge s))"
  shows "wp (finish_strategy_approval wa challenge credential scope origin host current approved used uuid) Q E s"
  unfolding finish_strategy_approval_def approve_with_passkey_def by (rule wp_after_challenge) (use assms in simp_all)

lemma wp_finish_untyped:
  assumes "\<And>e. E e s"
    and "\<And>e expiry. redeemable challenge scope current (pk_challenges s) expiry \<Longrightarrow> E e (spend_challenge challenge s)"
    and "\<And>e expiry k v. redeemable challenge scope current (pk_challenges s) expiry \<Longrightarrow> acceptable (cs_actor scope) v k s \<Longrightarrow>
      E e (count_use k (va_new_sign_count v) used (spend_challenge challenge s))"
  shows "wp (finish_approval_untyped wa challenge credential scope origin host current approved used) Q E s"
  unfolding finish_approval_untyped_def by (rule wp_after_challenge) (use assms in \<open>simp_all add: wp_simps\<close>)

section \<open>Every call keeps the chain\<close>

lemma keeps_wp: "(\<And>s. I s \<Longrightarrow> wp m (\<lambda>_. I) (\<lambda>_. I) s) \<Longrightarrow> keeps I m"
  by (force simp: keeps_def wp_def split: prod.splits sum.splits)

lemma wp_of_keeps: "keeps I m \<Longrightarrow> I s \<Longrightarrow> wp m (\<lambda>_. I) (\<lambda>_. I) s"
  by (auto simp: keeps_def wp_def split: prod.splits sum.splits)

lemma keeps_chain_consume_challenge: "keeps trust_chain (consume_challenge challenge scope current)"
  by (rule keeps_wp, rule wp_consume_challenge) (auto intro: chain_spend_challenge)

lemma keeps_chain_store: "keeps trust_chain (store_challenge p)"
  unfolding store_challenge_def by (rule keeps_wp) (auto simp: wp_part intro!: wp_issue chain_issue(2))

lemma keeps_chain_need: "keeps trust_chain (need_passkey actor m)"
  by (rule keeps_wp, rule wp_need_passkey)

lemma keeps_chain_accept: "keeps trust_chain (accept_verified_assertion actor v k used)"
  by (rule keeps_wp, rule wp_accept) (auto intro: chain_count_use)

lemmas keeps_chain_ops = keeps_intros keeps_chain_consume_challenge keeps_chain_store
  keeps_chain_need keeps_chain_accept

lemma keeps_chain_login:
  "keeps trust_chain (begin_login wa challenge actor origin host t1)"
  "keeps trust_chain (finish_login wa actor credential origin host t1 t2 used)"
  "keeps trust_chain (begin_strategy_approval wa challenge scope origin host t1)"
  subgoal unfolding begin_login_def by (intro keeps_chain_ops)
  subgoal unfolding finish_login_def by (intro keeps_chain_ops)
  subgoal unfolding begin_strategy_approval_def by (intro keeps_chain_ops)
  done

lemma keeps_chain_mod_sessions: "keeps trust_chain (modO (\<lambda>s. s\<lparr>pk_sessions := h s\<rparr>))"
  by (rule keeps_wp) (simp add: wp_simps chain_sessions)

lemma keeps_chain_sessions:
  "keeps trust_chain (create_session token csrf actor ok t1)" "keeps trust_chain (revoke_session token)"
  subgoal unfolding create_session_def by (intro keeps_chain_ops keeps_chain_mod_sessions)
  subgoal unfolding revoke_session_def by (rule keeps_chain_mod_sessions)
  done

lemma keeps_chain_grant: "keeps trust_chain (create_local_grant token actor t1)"
  unfolding create_local_grant_def aware_def
  by (intro keeps_chain_ops keeps_wp) (auto simp: wp_part intro!: wp_issue chain_issue(1))

lemma wp_enroll_verified:
  assumes "\<And>e. E e s" and "\<And>a k. k \<notin> set (t_keys (pk_admins s)) \<Longrightarrow> ad_actor a = actor \<Longrightarrow> Q () (s\<lparr>pk_admins := pk_admins s @ [(k, a)]\<rparr>)"
  shows "wp (enroll_verified actor v trusted created) Q E s"
  unfolding enroll_verified_def check_counter_def
  by (simp add: wp_simps wp_guard wp_part assms(1)) (auto simp: t_insert_def assms(1) intro!: wp_lift_any assms(2) split: if_splits)

lemma keeps_chain_begin_enrollment: "keeps trust_chain (begin_trusted_enrollment wa challenge actor token origin host t1 t2)"
  unfolding begin_trusted_enrollment_def
proof (rule keeps_then, rule keeps_lift, rule keeps_wp)
  fix s assume ok: "trust_chain s"
  show "wp (thenO (consume_local_grant actor token t1) (bindO (liftO (begin_enrollment wa challenge rp_id actor True t2)) (\<lambda>(options, p).
      thenO (on_enrollments (issue (pe_challenge p) (pe_actor p) (pe_expires_at p))) (retO options)))) (\<lambda>_. trust_chain) (\<lambda>_. trust_chain) s"
    unfolding wp_then wp_bind
  proof (rule wp_consume_local_grant, rule ok, rule wp_lift_any)
    fix expiry x
    assume r: "redeemable (token_digest token) actor t1 (pk_grants s) expiry" and b: "begin_enrollment wa challenge rp_id actor True t2 = Inr x"
    note g = chain_spend_grant [OF ok r]
    obtain options p where x: "x = (options, p)" by (cases x)
    have p: "pe_actor p = actor" using b unfolding x by (auto simp: begin_enrollment_def bindR_Inr_iff)
    show "wp (case x of (options, p) \<Rightarrow> thenO (on_enrollments (issue (pe_challenge p) (pe_actor p) (pe_expires_at p))) (retO options))
        (\<lambda>_. trust_chain) (\<lambda>_. trust_chain) (spend_grant (token_digest token) s)"
      unfolding x prod.case wp_simps wp_part using g p by (auto intro!: wp_issue chain_issue(3))
  qed (use chain_spend_grant(1) [OF ok] in blast)
qed

lemma keeps_chain_finish_enrollment: "keeps trust_chain (finish_trusted_enrollment wa actor credential origin host t1 t2 created)"
  unfolding finish_trusted_enrollment_def
proof (rule keeps_bind, rule keeps_lift, rule keeps_then, rule keeps_lift,
    rule keeps_bind, rule keeps_lift, rule keeps_wp)
  fix s challenge validated assume ok: "trust_chain s"
  show "wp (bindO (consume_enrollment challenge actor t1) (\<lambda>p.
      bindO (liftO (fst (finish_enrollment wa credential rp_id validated actor t2 p))) (\<lambda>v.
      thenO (enroll_verified actor v True created) (retO [(''registered'', JBool True)])))) (\<lambda>_. trust_chain) (\<lambda>_. trust_chain) s"
    unfolding wp_then wp_bind
  proof (rule wp_consume_enrollment, rule ok, rule wp_lift_any)
    fix expiry v
    assume r: "redeemable challenge actor t1 (pk_enrollments s) expiry"
    note g = chain_spend_enrollment [OF ok r]
    show "wp (enroll_verified actor v True created) (\<lambda>x. wp (retO [(''registered'', JBool True)]) (\<lambda>_. trust_chain) (\<lambda>_. trust_chain))
        (\<lambda>_. trust_chain) (spend_enrollment challenge s)"
      unfolding wp_simps by (intro wp_enroll_verified chain_enroll) (use g in simp_all)
  qed (use chain_spend_enrollment(1) [OF ok] in blast)
qed

lemma activation_audited:
  assumes "trust_chain s" and "strategy_action (cs_action scope)" and "redeemable challenge scope current (pk_challenges s) expiry"
    and "has_passkey (cs_actor scope) c s" and "u = count_use k n used (spend_challenge challenge s)"
  shows "trust_chain u" and "aa_actor a = cs_actor scope \<Longrightarrow> aa_family a = cs_family scope \<Longrightarrow> aa_version a = cs_version scope \<Longrightarrow> audit_signed u (i, a)"
    and "length (ac_audit u) < length (approvals_spent u)"
proof -
  have ok: "t_ok (pk_challenges s)" using assms(1) by (simp add: trust_chain_def tables_distinct_def)
  note b = approvals_spent_burn [OF ok assms(3)]
  show "trust_chain u" using chain_spend_challenge [OF assms(1,3)] assms(5) by (simp add: chain_count_use)
  have "cs_actor scope \<in> ad_actor ` set (t_rows (pk_admins s))"
    using assms(4) by (force simp: has_passkey_def t_rows_def)
  then have "cs_actor scope \<in> ad_actor ` set (t_rows (pk_admins u))"
    unfolding assms(5) count_use_def by (simp add: admin_rows_update) (simp add: spend_challenge_def)
  moreover have "scope \<in> set (approvals_spent u)" unfolding assms(5) using b(2) assms(2) by simp
  ultimately show "aa_actor a = cs_actor scope \<Longrightarrow> aa_family a = cs_family scope \<Longrightarrow> aa_version a = cs_version scope \<Longrightarrow> audit_signed u (i, a)"
    by (auto simp: audit_signed_def)
  have "length (ac_audit s) \<le> length (approvals_spent s)" using assms(1) by (simp add: trust_chain_def activations_signed_def)
  then show "length (ac_audit u) < length (approvals_spent u)"
    unfolding assms(5) using b(1) assms(2) by simp (simp add: count_use_def spend_challenge_def)
qed

lemma keeps_chain_finish_approval: "keeps trust_chain (finish_strategy_approval wa challenge credential scope origin host current approved used uuid)"
proof (rule keeps_wp, rule wp_finish_approval)
  fix s expiry c v x
  assume h: "trust_chain s" "strategy_action (cs_action scope)" "redeemable challenge scope current (pk_challenges s) expiry" "has_passkey (cs_actor scope) c s"
  let ?u = "count_use (fst c) (va_new_sign_count v) used (spend_challenge challenge s)"
  let ?call = "passkey_activation scope uuid (isoformat approved) (isoformat x)"
  note a = activation_audited [OF h refl, where n = "va_new_sign_count v" and used = used]
  have "audit_signed ?u (av_approval ?call, audit_row ?call)" by (rule a(2)) (simp_all add: audit_row_def passkey_activation_def)
  then show "wp (activate_approved_version ?call) (\<lambda>_. trust_chain) (\<lambda>_. trust_chain) ?u"
    unfolding wp_def using chain_activation [OF a(1) _ _ a(3)] by (auto split: prod.split sum.split)
qed (auto intro: chain_spend_challenge chain_count_use)

lemma keeps_chain_untyped: "keeps trust_chain (finish_approval_untyped wa challenge credential scope origin host current approved used)"
  by (rule keeps_wp, rule wp_finish_untyped) (auto intro: chain_spend_challenge chain_count_use)

lemma keeps_chain_promotion: "keeps trust_chain (promote_eligible_candidates draw now limit)"
  by (rule keeps_wp) (auto simp: wp_def intro: chain_promotion split: prod.split sum.split)

lemma keeps_returned: "keeps I m \<Longrightarrow> I s \<Longrightarrow> I (snd (returned (m s)))"
  by (simp add: keeps_def returned_def split: prod.splits) (metis snd_conv)

lemma passkey_step_chain: "trust_chain s \<Longrightarrow> trust_chain (passkey_step wa c s)"
  unfolding passkey_step_def
  by (cases c) (simp_all add: keeps_returned keeps_chain_grant keeps_chain_begin_enrollment keeps_chain_finish_enrollment keeps_chain_login
    keeps_chain_sessions keeps_chain_finish_approval keeps_chain_untyped keeps_chain_promotion chain_runs)

lemma trust_chain_empty: "trust_chain passkey_db_empty"
  by (simp add: chain_defs passkey_db_empty_def t_ok_def t_rows_def versions_get_def t_get_def single_active_def)

lemma passkey_steps_chain: "trust_chain s \<Longrightarrow> trust_chain (fold (passkey_step wa) cs s)"
  by (induction cs arbitrary: s) (simp_all add: passkey_step_chain)

end
