(* ===== verification/PasskeyTrust.thy ===== *)
theory PasskeyTrust
  imports PasskeyRuns
begin

text \<open>
  The properties of the passkey services: what an approval presupposes, that no grant, enrollment or
  challenge is accepted twice (an interpretation of \<open>one_shot\<close>), the chain from an active version back to a
  grant, and that a revoked session stays invalid.
\<close>

section \<open>Invariants of the single statements\<close>

text \<open>
  A fact about the tables that every single statement of the services keeps is kept by every call. The
  statements are those of \<open>PasskeyRuns\<close>; an activation and a write of the stored registries come with the
  next locale, a new session with the last.
\<close>

locale credential_invariant =
  fixes I :: "passkey_db \<Rightarrow> bool"
  assumes spends: "I s \<Longrightarrow> I (spend_grant k s)" "I s \<Longrightarrow> I (spend_enrollment k s)" "I s \<Longrightarrow> I (spend_challenge k s)"
    and issues: "I s \<Longrightarrow> I (s\<lparr>pk_grants := pk_grants s @ [(k, unused actor e)]\<rparr>)"
      "I s \<Longrightarrow> I (s\<lparr>pk_enrollments := pk_enrollments s @ [(k, unused actor e)]\<rparr>)"
      "I s \<Longrightarrow> I (s\<lparr>pk_challenges := pk_challenges s @ [(k, unused scope e)]\<rparr>)"
    and admins: "I s \<Longrightarrow> I (s\<lparr>pk_admins := pk_admins s @ [(k, a)]\<rparr>)" "I s \<Longrightarrow> I (count_use k n used s)"
    and revoked: "I s \<Longrightarrow> I (s\<lparr>pk_sessions := t_update k (\<lambda>r. r\<lparr>se_revoked := True\<rparr>) (pk_sessions s)\<rparr>)"
begin

lemma keeps_parts:
  "keeps I (consume_local_grant actor token current)" "keeps I (consume_enrollment challenge actor current)"
  "keeps I (consume_challenge challenge scope current)" "keeps I (accept_verified_assertion actor v k used)"
  "keeps I (need_passkey actor m)" "keeps I (enroll_verified actor g trusted created)" "keeps I (store_challenge p)"
  "keeps I (on_grants (issue k actor e))" "keeps I (on_enrollments (issue k actor e))"
  subgoal by (rule keeps_wp, rule wp_consume_local_grant) (simp_all add: spends)
  subgoal by (rule keeps_wp, rule wp_consume_enrollment) (simp_all add: spends)
  subgoal by (rule keeps_wp, rule wp_consume_challenge) (simp_all add: spends)
  subgoal by (rule keeps_wp, rule wp_accept) (simp_all add: admins)
  subgoal by (rule keeps_wp, rule wp_need_passkey)
  subgoal by (rule keeps_wp, rule wp_enroll_verified) (simp_all add: admins)
  subgoal unfolding store_challenge_def by (rule keeps_wp) (simp add: wp_part, rule wp_issue, simp, simp add: issues)
  subgoal by (rule keeps_wp) (simp add: wp_part, rule wp_issue, simp, simp add: issues)
  subgoal by (rule keeps_wp) (simp add: wp_part, rule wp_issue, simp, simp add: issues)
  done

lemmas keeps_ops = keeps_intros keeps_parts

lemma keeps_calls:
  "keeps I (create_local_grant token actor t1)" "keeps I (begin_trusted_enrollment wa challenge actor token origin host t1 t2)"
  "keeps I (finish_trusted_enrollment wa actor credential origin host t1 t2 created)"
  "keeps I (begin_login wa challenge actor origin host t1)" "keeps I (finish_login wa actor credential origin host t1 t2 used)"
  "keeps I (begin_strategy_approval wa challenge scope origin host t1)"
  "keeps I (finish_approval_untyped wa challenge credential scope origin host t1 t2 used)" "keeps I (revoke_session token)"
  subgoal unfolding create_local_grant_def by (intro keeps_ops)
  subgoal unfolding begin_trusted_enrollment_def by (intro keeps_ops)
  subgoal unfolding finish_trusted_enrollment_def by (intro keeps_ops)
  subgoal unfolding begin_login_def by (intro keeps_ops)
  subgoal unfolding finish_login_def by (intro keeps_ops)
  subgoal unfolding begin_strategy_approval_def by (intro keeps_ops)
  subgoal unfolding finish_approval_untyped_def accept_signature_def by (intro keeps_ops)
  subgoal unfolding revoke_session_def by (rule keeps_mod) (rule revoked)
  done

end

locale row_invariant = credential_invariant +
  assumes runs: "I s \<Longrightarrow> I (s\<lparr>pm_runs := t\<rparr>)"
    and versions: "I s \<Longrightarrow> I (with_versions st s)" "I s \<Longrightarrow> I (activation_effect call vs i s)"
begin

lemma keeps_activation: "keeps I (activate_approved_version call)"
proof (rule keepsI)
  fix s assume s: "I s"
  obtain r t where run: "activate_approved_version call s = (r, t)" by fastforce
  then have "I t" using s versions(2) by (cases r) (auto dest!: activation_Inl elim!: activation_Inr)
  then show "I (snd (activate_approved_version call s))" using run by simp
qed

lemma keeps_promotion: "keeps I (promote_eligible_candidates draw now limit)"
proof (rule keepsI)
  fix s assume s: "I s"
  obtain r t where t: "promote_eligible_candidates draw now limit s = (r, t)" by fastforce
  show "I (snd (promote_eligible_candidates draw now limit s))"
    using versions(1) [OF s, of "ac_versions t"] promotion_frame [OF t] t by simp
qed

lemma keeps_finish_approval: "keeps I (finish_strategy_approval wa challenge credential scope origin host t1 t2 used uuid)"
  unfolding finish_strategy_approval_def approve_with_passkey_def accept_signature_def by (intro keeps_ops keeps_activation)

lemma other_step:
  assumes "I s" and "case c of PK_CreateSession token csrf actor ok t1 \<Rightarrow> False | _ \<Rightarrow> True"
  shows "I (passkey_step wa c s)"
proof (cases c)
  case (PK_StoreRun run_id r)
  then show ?thesis using assms(1) by (simp add: passkey_step_def runs)
qed (use assms in \<open>simp_all add: passkey_step_def keeps_returned keeps_calls keeps_finish_approval keeps_promotion\<close>)

end

text \<open>A fact that a new session keeps too holds over every sequence of calls.\<close>

locale table_invariant = row_invariant +
  assumes session_added: "I s \<Longrightarrow> k \<notin> set (t_keys (pk_sessions s)) \<Longrightarrow> I (s\<lparr>pk_sessions := pk_sessions s @ [(k, r)]\<rparr>)"
begin

lemma keeps_create_session: "keeps I (create_session token csrf actor ok t1)"
  by (rule keepsI) (auto simp: create_session_def thenO_apply bindO_apply t_insert_def guardR_def session_added split: sum.splits if_splits)

lemma step: "I s \<Longrightarrow> I (passkey_step wa c s)"
proof (cases c)
  case (PK_CreateSession token csrf actor ok t1)
  then show "I s \<Longrightarrow> ?thesis" by (simp only: passkey_step_def passkey_run.simps keeps_returned keeps_create_session)
qed (use other_step in auto)

lemma steps: "I s \<Longrightarrow> I (fold (passkey_step wa) cs s)"
  by (induction cs arbitrary: s) (simp_all add: step)

end

section \<open>Tokens\<close>

datatype token = GrantToken string | EnrollmentToken string | ChallengeToken string

definition burned :: "'x one_time table \<Rightarrow> string set" where
  "burned t = {k. \<exists>r. t_get k t = Some r \<and> ot_consumed r}"

definition used_tokens :: "passkey_db \<Rightarrow> token set" where
  "used_tokens s = GrantToken ` burned (pk_grants s) \<union> EnrollmentToken ` burned (pk_enrollments s) \<union> ChallengeToken ` burned (pk_challenges s)"

definition challenge_token :: "(string \<Rightarrow> token) \<Rightarrow> string res \<Rightarrow> token option" where
  "challenge_token f r = (case r of Inl _ \<Rightarrow> None | Inr k \<Rightarrow> Some (f k))"

fun token_of :: "webauthn \<Rightarrow> passkey_call \<Rightarrow> token option" where
  "token_of wa (PK_BeginEnrollment challenge actor token origin host t1 t2) = Some (GrantToken (token_digest token))"
| "token_of wa (PK_FinishEnrollment actor credential origin host t1 t2 created) = challenge_token EnrollmentToken (client_challenge wa credential)"
| "token_of wa (PK_FinishLogin actor credential origin host t1 t2 used) = challenge_token ChallengeToken (client_challenge wa credential)"
| "token_of wa (PK_FinishApproval challenge credential scope origin host t1 t2 used uuid) = Some (ChallengeToken challenge)"
| "token_of wa c = None"

text \<open>The token that a call is accepted with: the call returned.\<close>

definition accepted :: "webauthn \<Rightarrow> passkey_call \<Rightarrow> passkey_db \<Rightarrow> token option" where
  "accepted wa c s = (if fst (passkey_run wa c s) then token_of wa c else None)"

lemma redeemable_burned:
  "redeemable k b current t e \<Longrightarrow> k \<notin> burned t" "redeemable k b current t e \<Longrightarrow> k \<in> burned (burn k t)"
  by (auto simp: redeemable_def burned_def burn_def)

lemma burned_grows: "burned t \<subseteq> burned (burn k t)" "burned t \<subseteq> burned (t @ [(k, r)])"
  by (auto simp: burned_def burn_def t_get_snoc)

lemma used_after:
  "used_tokens s \<subseteq> used_tokens (spend_grant k s)" "used_tokens s \<subseteq> used_tokens (spend_enrollment k s)"
  "used_tokens s \<subseteq> used_tokens (spend_challenge k s)" "used_tokens (count_use k n u s) = used_tokens s"
  "used_tokens (s\<lparr>pk_admins := ad\<rparr>) = used_tokens s" "used_tokens (s\<lparr>pk_sessions := se\<rparr>) = used_tokens s"
  "used_tokens (s\<lparr>pm_runs := ru\<rparr>) = used_tokens s" "used_tokens (with_versions st s) = used_tokens s"
  "used_tokens s \<subseteq> used_tokens (s\<lparr>pk_grants := pk_grants s @ [(k, g)]\<rparr>)"
  "used_tokens s \<subseteq> used_tokens (s\<lparr>pk_enrollments := pk_enrollments s @ [(k, g)]\<rparr>)"
  "used_tokens s \<subseteq> used_tokens (s\<lparr>pk_challenges := pk_challenges s @ [(k, h)]\<rparr>)"
  using burned_grows
  by (fastforce simp: used_tokens_def spend_grant_def spend_enrollment_def spend_challenge_def count_use_def with_versions_def)+

interpretation used_kept: table_invariant "\<lambda>s. U \<subseteq> used_tokens s" for U
proof unfold_locales
  fix s call vs i
  have "used_tokens (activation_effect call vs i s) = used_tokens s" by (simp add: used_tokens_def activation_effect_def)
  then show "U \<subseteq> used_tokens s \<Longrightarrow> U \<subseteq> used_tokens (activation_effect call vs i s)" by simp
qed (simp_all add: used_after subset_trans [OF _ used_after(1)] subset_trans [OF _ used_after(2)] subset_trans [OF _ used_after(3)]
    subset_trans [OF _ used_after(9)] subset_trans [OF _ used_after(10)] subset_trans [OF _ used_after(11)])

abbreviation keeps_used :: "token set \<Rightarrow> (passkey_db, 'a) opr \<Rightarrow> bool" where
  "keeps_used U \<equiv> keeps (\<lambda>s. U \<subseteq> used_tokens s)"

section \<open>Accepted once\<close>

text \<open>A call that returns has found its token unused and has used it up.\<close>

definition spends_token :: "token \<Rightarrow> (passkey_db, 'a) opr \<Rightarrow> bool" where
  "spends_token k m \<longleftrightarrow> (\<forall>s. wp m (\<lambda>_ t. k \<notin> used_tokens s \<and> k \<in> used_tokens t) (\<lambda>_ _. True) s)"

lemma spends_skip:
  assumes "\<And>s. wp m (\<lambda>_ t. t = s) (\<lambda>_ _. True) s" and "\<And>x. spends_token k (f x)"
  shows "spends_token k (bindO m f)"
  unfolding spends_token_def wp_bind
proof
  fix s
  show "wp m (\<lambda>x t. wp (f x) (\<lambda>_ t. k \<notin> used_tokens s \<and> k \<in> used_tokens t) (\<lambda>_ _. True) t) (\<lambda>_ _. True) s"
    using assms(1) [of s] by (rule wp_mono) (use assms(2) in \<open>auto simp: spends_token_def\<close>)
qed

lemma spends_lift: "(\<And>x. r = Inr x \<Longrightarrow> spends_token k (f x)) \<Longrightarrow> spends_token k (bindO (liftO r) f)"
  by (cases r) (auto simp: spends_token_def wp_bind wp_lift)

lemma spends_lift_then: "(\<And>x. r = Inr x \<Longrightarrow> spends_token k m) \<Longrightarrow> spends_token k (thenO (liftO r) m)"
  unfolding thenO_def by (rule spends_lift)

lemma spends_here:
  assumes "spends_token k m" and "\<And>x. keeps_used {k} (f x)"
  shows "spends_token k (bindO m f)"
  unfolding spends_token_def wp_bind
proof
  fix s
  show "wp m (\<lambda>x t. wp (f x) (\<lambda>_ t. k \<notin> used_tokens s \<and> k \<in> used_tokens t) (\<lambda>_ _. True) t) (\<lambda>_ _. True) s"
  proof (rule wp_mono)
    show "wp m (\<lambda>_ t. k \<notin> used_tokens s \<and> k \<in> used_tokens t) (\<lambda>_ _. True) s" using assms(1) by (simp add: spends_token_def)
    fix x t assume t: "k \<notin> used_tokens s \<and> k \<in> used_tokens t"
    have "wp (f x) (\<lambda>_ u. {k} \<subseteq> used_tokens u) (\<lambda>_ u. {k} \<subseteq> used_tokens u) t" using wp_of_keeps [OF assms(2)] t by blast
    then show "wp (f x) (\<lambda>_ t. k \<notin> used_tokens s \<and> k \<in> used_tokens t) (\<lambda>_ _. True) t" by (rule wp_mono) (use t in auto)
  qed simp
qed

lemma spends_here_then: "spends_token k m \<Longrightarrow> keeps_used {k} n \<Longrightarrow> spends_token k (thenO m n)"
  unfolding thenO_def by (rule spends_here)

lemma spends_redeem:
  "spends_token (GrantToken (token_digest token)) (consume_local_grant actor token current)"
  "spends_token (EnrollmentToken challenge) (consume_enrollment challenge actor current)"
  "spends_token (ChallengeToken challenge) (consume_challenge challenge scope current)"
  unfolding spends_token_def
  subgoal by (intro allI wp_consume_local_grant) (auto simp: used_tokens_def spend_grant_def dest: redeemable_burned)
  subgoal by (intro allI wp_consume_enrollment) (auto simp: used_tokens_def spend_enrollment_def dest: redeemable_burned)
  subgoal by (intro allI wp_consume_challenge) (auto simp: used_tokens_def spend_challenge_def dest: redeemable_burned)
  done

lemma spends_calls:
  "spends_token (GrantToken (token_digest token)) (begin_trusted_enrollment wa challenge actor token origin host t1 t2)"
  "client_challenge wa credential = Inr k \<Longrightarrow> spends_token (EnrollmentToken k) (finish_trusted_enrollment wa actor credential origin host t1 t2 created)"
  "client_challenge wa credential = Inr k \<Longrightarrow> spends_token (ChallengeToken k) (finish_login wa actor credential origin host t1 t2 used)"
  "spends_token (ChallengeToken challenge) (finish_strategy_approval wa challenge credential scope origin host t1 t2 used uuid)"
  subgoal unfolding begin_trusted_enrollment_def
    by (intro spends_lift_then spends_here_then spends_redeem used_kept.keeps_ops)
  subgoal unfolding finish_trusted_enrollment_def
    by (intro spends_lift spends_lift_then) (simp, intro spends_here spends_redeem used_kept.keeps_ops)
  subgoal unfolding finish_login_def
    by (intro spends_lift spends_lift_then) (simp, intro spends_here spends_redeem used_kept.keeps_ops)
  subgoal unfolding finish_strategy_approval_def approve_with_passkey_def accept_signature_def
    by (intro spends_lift spends_lift_then) (intro spends_here spends_redeem used_kept.keeps_ops used_kept.keeps_activation)
  done

lemma no_token_raises: "client_challenge wa credential = Inl e \<Longrightarrow>
    \<not> fst (returned (finish_trusted_enrollment wa actor credential origin host t1 t2 created s)) \<and>
    \<not> fst (returned (finish_login wa actor credential origin host t1 t2 used s))"
  by (auto simp: finish_trusted_enrollment_def finish_login_def returned_def bindO_apply thenO_apply split: prod.splits sum.splits)

lemma spends_returned: "spends_token k m \<Longrightarrow> fst (returned (m s)) \<Longrightarrow> k \<notin> used_tokens s \<and> k \<in> used_tokens (snd (returned (m s)))"
  by (auto simp: spends_token_def wp_def returned_def split: prod.splits sum.splits)

lemma accepted_spends:
  assumes "accepted wa c s = Some k"
  shows "k \<notin> used_tokens s \<and> k \<in> used_tokens (passkey_step wa c s)"
proof -
  note spends_calls [THEN spends_returned]
  then show ?thesis using assms unfolding accepted_def passkey_step_def
    by (cases c) (auto simp: challenge_token_def split: if_splits sum.splits)
qed

interpretation passkey_use: one_shot "passkey_step wa" "accepted wa" used_tokens for wa
  by unfold_locales (use accepted_spends used_kept.step in auto)

section \<open>Revoked sessions\<close>

definition session_revoked :: "string \<Rightarrow> passkey_db \<Rightarrow> bool" where
  "session_revoked k s \<longleftrightarrow> (\<exists>r. t_get k (pk_sessions s) = Some r \<and> se_revoked r)"

interpretation revoked_kept: table_invariant "session_revoked k" for k
  by unfold_locales (auto simp: session_revoked_def spend_grant_def spend_enrollment_def spend_challenge_def count_use_def
    with_versions_def activation_effect_def t_get_snoc)

section \<open>Properties\<close>

text \<open>
  C7: nothing is accepted twice. A grant, an enrollment challenge, a login challenge or an approval
  challenge with which a call returned is not accepted by any later call, whatever happens in between.
\<close>

theorem tokens_accepted_once:
  "case accepted wa c s of None \<Rightarrow> True
   | Some k \<Rightarrow> accepted wa c' (fold (passkey_step wa) cs (passkey_step wa c s)) \<noteq> Some k"
proof (cases "accepted wa c s")
  case (Some k)
  then have "k \<in> used_tokens (passkey_step wa c s)" by (rule passkey_use.spends_used)
  then have "accepted wa c' (fold (passkey_step wa) cs (passkey_step wa c s)) \<noteq> Some k"
    using passkey_use.used_not_spent [of k "passkey_step wa c s" wa c' cs] by blast
  then show ?thesis unfolding Some option.case .
qed simp

text \<open>An administrator's credential goes back to an enrollment and a grant for the same actor, both used up.\<close>

definition trusted_administrator :: "passkey_db \<Rightarrow> string \<Rightarrow> bool" where
  "trusted_administrator s actor \<longleftrightarrow> actor \<in> ad_actor ` set (t_rows (pk_admins s)) \<and>
     actor \<in> snd ` set (spent_keys (pk_enrollments s)) \<and> actor \<in> snd ` set (spent_keys (pk_grants s))"

lemma spent_bound: "snd ` set (spent_keys t) \<subseteq> ot_bound ` set (t_rows t)"
  by (force simp: spent_keys_def t_rows_def)

lemma chain_trusted:
  "trust_chain s \<Longrightarrow> actor \<in> ad_actor ` set (t_rows (pk_admins s)) \<Longrightarrow> trusted_administrator s actor"
  (is "_ \<Longrightarrow> _ \<Longrightarrow> ?thesis")
proof -
  assume ok: "trust_chain s" and a: "actor \<in> ad_actor ` set (t_rows (pk_admins s))"
  have e: "actor \<in> snd ` set (spent_keys (pk_enrollments s))"
    using ok a unfolding trust_chain_def admins_enrolled_def by (elim conjE) (rule subsetD)
  then have "actor \<in> ot_bound ` set (t_rows (pk_enrollments s))" by (rule subsetD [OF spent_bound])
  then have "actor \<in> snd ` set (spent_keys (pk_grants s))"
    using ok unfolding trust_chain_def enrollments_granted_def by (elim conjE) (rule subsetD)
  then show ?thesis using a e unfolding trusted_administrator_def by (intro conjI)
qed

lemma chain_approved:
  assumes "trust_chain s" and "registry_audited s f vs" and "v \<in> set vs" and "sv_status v = ACTIVE"
  shows "\<exists>a \<in> set (t_rows (ac_audit s)). aa_family a = f \<and> aa_version a = sv_id v \<and> trusted_administrator s (aa_actor a) \<and>
    (\<exists>scope \<in> set (approvals_spent s). cs_actor scope = aa_actor a \<and> cs_family scope = f \<and> cs_version scope = sv_id v)"
proof -
  obtain a where a: "a \<in> set (t_rows (ac_audit s))" "aa_family a = f" "aa_version a = sv_id v"
    using assms(2-4) by (auto simp: registry_audited_def)
  then obtain i where "(i, a) \<in> set (ac_audit s)" by (auto simp: t_rows_def)
  then have "audit_signed s (i, a)" using assms(1) by (auto simp: trust_chain_def activations_signed_def)
  then show ?thesis using a chain_trusted [OF assms(1)] by (auto simp: audit_signed_def)
qed

text \<open>
  The chain of trust. After every sequence of calls, starting with empty tables, every stored registry
  can be read and has one active version per direction at most; each active version has an activation on
  record for it, by an actor with a credential, an enrollment and a grant, and with an approval challenge
  for exactly this actor, family and version that is used up. There are no more activations than used up
  approval challenges, and no more credentials than used up grants.
\<close>

theorem active_versions_signed:
  "let s = fold (passkey_step wa) cs passkey_db_empty in
     (case versions_get f (ac_versions s) of Inl e \<Rightarrow> False
      | Inr vs \<Rightarrow> single_active vs \<and>
          list_all (\<lambda>v. list_ex (\<lambda>a. aa_family a = f \<and> aa_version a = sv_id v \<and> trusted_administrator s (aa_actor a) \<and>
              list_ex (\<lambda>scope. cs_actor scope = aa_actor a \<and> cs_family scope = f \<and> cs_version scope = sv_id v) (approvals_spent s))
            (t_rows (ac_audit s))) (filter (\<lambda>v. sv_status v = ACTIVE) vs)) \<and>
     length (ac_audit s) \<le> length (approvals_spent s) \<and> length (pk_admins s) \<le> length (spent_keys (pk_grants s))"
proof -
  define s where "s = fold (passkey_step wa) cs passkey_db_empty"
  have ok: "trust_chain s" unfolding s_def by (rule passkey_steps_chain [OF trust_chain_empty])
  obtain vs where vs: "versions_get f (ac_versions s) = Inr vs" "registry_audited s f vs"
    using ok by (auto simp: trust_chain_def registries_audited_def)
  have "length (spent_keys (pk_enrollments s)) \<le> length (pk_enrollments s)" by (simp add: spent_keys_def)
  then have "length (pk_admins s) \<le> length (spent_keys (pk_grants s))" "length (ac_audit s) \<le> length (approvals_spent s)"
    using ok unfolding trust_chain_def admins_enrolled_def enrollments_granted_def activations_signed_def by linarith+
  then show ?thesis
    using vs chain_approved [OF ok vs(2)] unfolding s_def [symmetric] Let_def
    by (auto simp: registry_audited_def list_all_iff list_ex_iff)
qed

text \<open>
  What stands behind an approval: its challenge was stored for this actor, action, family and version and
  is unused and unexpired, and the library verified a signature over it with a credential stored for the
  actor, whose counter has moved on.
\<close>

definition approval_signed :: "webauthn \<Rightarrow> string \<Rightarrow> obj \<Rightarrow> challenge_scope \<Rightarrow> string \<Rightarrow> dtime \<Rightarrow> dtime \<Rightarrow> passkey_db \<Rightarrow> bool" where
  "approval_signed wa challenge credential scope origin current approved s \<longleftrightarrow>
     (\<exists>expiry c v. redeemable challenge scope current (pk_challenges s) expiry \<and> time_after approved expiry = Inr False \<and>
        has_passkey (cs_actor scope) c s \<and> signed_with wa credential challenge origin c v \<and> acceptable (cs_actor scope) v (fst c) s)"

definition version_approved :: "challenge_scope \<Rightarrow> string \<Rightarrow> string \<Rightarrow> passkey_db \<Rightarrow> passkey_db \<Rightarrow> bool" where
  "version_approved scope uuid stamp s t \<longleftrightarrow>
     (\<exists>vs k. versions_get (cs_family scope) (ac_versions s) = Inr vs \<and> index_of (\<lambda>w. sv_id w = cs_version scope) vs = Some k \<and>
        ac_versions t = versions_save (cs_family scope) (switch_active k stamp vs) stamp (ac_versions s)) \<and>
     ac_audit t = ac_audit s @ [(uuid, \<lparr>aa_actor = cs_actor scope, aa_family = cs_family scope, aa_version = cs_version scope,
       aa_approved_at = stamp, aa_activated_at = stamp\<rparr>)]"

lemma wp_approval:
  "wp (finish_strategy_approval wa challenge credential scope origin host current approved used uuid)
     (\<lambda>_ t. strategy_action (cs_action scope) \<and> validate_origin origin host None = Inr origin \<and>
        approval_signed wa challenge credential scope origin current approved s \<and> version_approved scope uuid (isoformat approved) s t)
     (\<lambda>_ t. ac_versions t = ac_versions s \<and> ac_audit t = ac_audit s) s" (is "wp _ (\<lambda>_. ?Q) (\<lambda>_. ?E) s")
proof -
  have same: "ac_versions (spend_challenge k u) = ac_versions u" "ac_audit (spend_challenge k u) = ac_audit u"
    "ac_versions (count_use k n used u) = ac_versions u" "ac_audit (count_use k n used u) = ac_audit u" for k u n
    by (simp_all add: spend_challenge_def count_use_def)
  show ?thesis
  proof (rule wp_finish_approval)
    fix expiry c v x
    assume h: "strategy_action (cs_action scope)" "redeemable challenge scope current (pk_challenges s) expiry"
      "time_after approved expiry = Inr False" "validate_origin origin host None = Inr origin" "has_passkey (cs_actor scope) c s"
      "signed_with wa credential challenge origin c v" "acceptable (cs_actor scope) v (fst c) s"
    let ?u = "count_use (fst c) (va_new_sign_count v) used (spend_challenge challenge s)"
    let ?call = "passkey_activation scope uuid (isoformat approved) (isoformat x)"
    have signed: "approval_signed wa challenge credential scope origin current approved s"
      unfolding approval_signed_def using h by blast
    have call: "av_family ?call = cs_family scope" "av_version ?call = cs_version scope" "av_now ?call = isoformat approved" "av_approval ?call = uuid"
      "audit_row ?call = \<lparr>aa_actor = cs_actor scope, aa_family = cs_family scope, aa_version = cs_version scope,
        aa_approved_at = isoformat approved, aa_activated_at = isoformat approved\<rparr>"
      by (simp_all add: passkey_activation_def audit_row_def)
    obtain r t where run: "activate_approved_version ?call ?u = (r, t)" by fastforce
    show "wp (activate_approved_version ?call) (\<lambda>_. ?Q) (\<lambda>_. ?E) ?u"
    proof (cases r)
      case (Inl e)
      then show ?thesis using run activation_Inl [of ?call ?u e t] by (simp add: wp_def same)
    next
      case (Inr y)
      then obtain vs k where "versions_get (av_family ?call) (ac_versions ?u) = Inr vs" "index_of (\<lambda>w. sv_id w = av_version ?call) vs = Some k"
          "t = activation_effect ?call vs k ?u"
        using run by (auto elim!: activation_Inr)
      then have "version_approved scope uuid (isoformat approved) s t"
        unfolding call same by (simp add: version_approved_def activation_effect_def call same)
      then show ?thesis using run Inr h(1,4) signed by (simp add: wp_def)
    qed
  qed (simp_all add: same)
qed

text \<open>
  C6: an approval activates only what was signed. When it returns, the request came from an allowed origin,
  the challenge was stored for exactly this actor, action, family and version, unused and unexpired, and the
  library verified a signature over it with a credential stored for the actor, by a verified user; then
  exactly this version is activated and one activation recorded. Otherwise no registry and no record changes.
\<close>

theorem approval_needs_signature:
  "case finish_strategy_approval wa challenge credential scope origin host current approved used uuid s of
     (Inl e, t) \<Rightarrow> ac_versions t = ac_versions s \<and> ac_audit t = ac_audit s
   | (Inr r, t) \<Rightarrow> strategy_action (cs_action scope) \<and> validate_origin origin host None = Inr origin \<and>
       approval_signed wa challenge credential scope origin current approved s \<and> version_approved scope uuid (isoformat approved) s t"
  using wp_approval [of wa challenge credential scope origin host current approved used uuid s]
  by (auto simp: wp_def split: prod.splits sum.splits)

text \<open>
  A logout is final. Once the session of a token has been revoked, no later sequence of calls makes that
  token valid again, at no time and with no second token.
\<close>

theorem logout_is_final:
  "case t_get (token_digest token) (pk_sessions s) of None \<Rightarrow> True
   | Some r \<Rightarrow> validate_session token csrf require_csrf now (fold (passkey_step wa) cs (snd (revoke_session token s))) \<noteq> Inr actor"
proof (cases "t_get (token_digest token) (pk_sessions s)")
  case (Some r)
  then have "session_revoked (token_digest token) (snd (revoke_session token s))" by (simp add: session_revoked_def revoke_session_def)
  then have "session_revoked (token_digest token) (fold (passkey_step wa) cs (snd (revoke_session token s)))" by (rule revoked_kept.steps)
  then have "validate_session token csrf require_csrf now (fold (passkey_step wa) cs (snd (revoke_session token s))) \<noteq> Inr actor"
    by (auto simp: session_revoked_def validate_session_def bindR_Inr_iff)
  then show ?thesis unfolding Some option.case .
qed simp

end
