(* ===== verification/AdminApi.thy ===== *)
theory AdminApi
  imports PasskeyTrust
begin

text \<open>
  The administrator's routes of \<open>runtime/web_api.py\<close>: what the handler of an HTTP request does before and
  after it calls the passkey services. It reads the origin, the host, the session cookie and the second
  token from the headers, tests the types in the body, catches the exceptions each route names, and answers.
\<close>

section \<open>Requests and replies\<close>

record http_request =
  rq_method :: string
  rq_path :: string
  rq_headers :: "(string \<times> string) list"
  rq_body :: json

record http_reply =
  rp_status :: int
  rp_payload :: json
  rp_cookie :: "string option"

text \<open>What the handler draws and reads while it serves the request: random values and the clock.\<close>

record http_draws =
  dr_challenge :: string
  dr_token :: string
  dr_csrf :: string
  dr_uuid :: string
  dr_session :: dtime
  dr_first :: dtime
  dr_second :: dtime
  dr_third :: dtime
  dr_stamp :: string

text \<open>\<open>self.headers.get(name, '''')\<close>: names are compared without case, the first one counts.\<close>

definition header :: "http_request \<Rightarrow> string \<Rightarrow> string" where
  "header q name = (case find (\<lambda>(k, _). lower k = lower name) (rq_headers q) of None \<Rightarrow> [] | Some (_, v) \<Rightarrow> v)"

definition split_on :: "char \<Rightarrow> string \<Rightarrow> string list" where
  "split_on c s = foldr (\<lambda>d parts. if d = c then [] # parts else (d # hd parts) # tl parts) s [[]]"

definition cookies :: "http_request \<Rightarrow> (string \<times> string) list" where
  "cookies q = map (split_first (CHR ''='') \<circ> strip) (filter (\<lambda>part. CHR ''='' \<in> set part) (split_on (CHR '';'') (header q ''Cookie'')))"

text \<open>A later cookie of the name replaces an earlier one in the dict.\<close>

definition session_cookie :: "http_request \<Rightarrow> string" where
  "session_cookie q = (case map_of (rev (cookies q)) ''__Host-gaon_admin'' of None \<Rightarrow> [] | Some v \<Rightarrow> v)"

definition origin_of :: "http_request \<Rightarrow> string" where
  "origin_of q = header q ''Origin''"

definition host_of :: "http_request \<Rightarrow> string" where
  "host_of q = header q ''Host''"

definition answer :: "json \<Rightarrow> http_reply" where
  "answer j = \<lparr>rp_status = 200, rp_payload = j, rp_cookie = None\<rparr>"

definition refusal :: "int \<Rightarrow> string \<Rightarrow> http_reply" where
  "refusal status message = \<lparr>rp_status = status, rp_payload = JObj [(''error'', JStr message)], rp_cookie = None\<rparr>"

text \<open>\<open>except (...)\<close>: the named classes give a 403, any other exception leaves the handler without a reply.\<close>

definition caught :: "string list \<Rightarrow> string \<Rightarrow> (passkey_db, http_reply) opr \<Rightarrow> (passkey_db, http_reply) opr" where
  "caught classes message m = catchO m (\<lambda>e. if err_class e \<in> set classes then retO (refusal 403 message) else raiseO e)"

section \<open>Sessions and scopes\<close>

definition need_session :: "string option \<Rightarrow> bool \<Rightarrow> http_request \<Rightarrow> dtime \<Rightarrow> (passkey_db, string) opr" where
  "need_session csrf require_csrf q t = bindO (getO (validate_session (session_cookie q) csrf require_csrf t)) liftO"

definition authorised_actor :: "http_request \<Rightarrow> dtime \<Rightarrow> (passkey_db, string) opr" where
  "authorised_actor q t = need_session (Some (header q ''X-Gaon-CSRF'')) True q t"

text \<open>
  What SQLite compares with a stored text when it is given a value of the body: a NULL equals nothing, a
  number is turned into its text (\<open>sq\<close> gives that of a float), a value it has no type for is refused.
\<close>

definition bound_text :: "(pyfloat \<Rightarrow> string option) \<Rightarrow> json \<Rightarrow> string option res" where
  "bound_text sq j = (case j of JStr s \<Rightarrow> Inr (Some s) | JNull \<Rightarrow> Inr None | JBool b \<Rightarrow> Inr (Some (if b then ''1'' else ''0''))
     | JInt i \<Rightarrow> if - (2 ^ 63) \<le> i \<and> i < 2 ^ 63 then Inr (Some (dec_int i)) else Inl (OverflowError ''Python int too large to convert to SQLite INTEGER'')
     | JFloat x \<Rightarrow> Inr (sq x)
     | _ \<Rightarrow> Inl (OtherError ''ProgrammingError'' ''type is not supported''))"

definition action_of :: "obj \<Rightarrow> string \<Rightarrow> string res" where
  "action_of body message = (case jget body ''action'' of
     JStr a \<Rightarrow> if strategy_action a then Inr a else Inl (PermissionError message) | _ \<Rightarrow> Inl (PermissionError message))"

definition scope_of :: "string \<Rightarrow> string \<Rightarrow> string \<Rightarrow> string \<Rightarrow> challenge_scope" where
  "scope_of actor action family version = \<lparr>cs_actor = actor, cs_action = action, cs_family = family, cs_version = version\<rparr>"

text \<open>A begin with a family or a version that is no string looks the credential up, then refuses the scope.\<close>

definition begin_approval_json ::
  "webauthn \<Rightarrow> string \<Rightarrow> string \<Rightarrow> obj \<Rightarrow> string \<Rightarrow> string \<Rightarrow> dtime \<Rightarrow> (passkey_db, string) opr" where
  "begin_approval_json wa challenge actor body origin host t =
    thenO (liftO (validate_origin origin host None))
    (bindO (liftO (action_of body ''strategy action required'')) (\<lambda>action.
     case (jget body ''family_id'', jget body ''version_id'') of
       (JStr family, JStr version) \<Rightarrow> begin_strategy_approval wa challenge (scope_of actor action family version) origin host t
     | _ \<Rightarrow> thenO (need_passkey actor ''administrator passkey not registered'') (raiseO (ValueError ''invalid passkey scope''))))"

definition finish_approval_json ::
  "webauthn \<Rightarrow> (pyfloat \<Rightarrow> string option) \<Rightarrow> string \<Rightarrow> obj \<Rightarrow> string \<Rightarrow> obj \<Rightarrow> string \<Rightarrow> string \<Rightarrow> http_draws \<Rightarrow> (passkey_db, obj) opr" where
  "finish_approval_json wa sq challenge credential actor body origin host d =
    thenO (liftO (validate_origin origin host None))
    (bindO (liftO (action_of body ''invalid strategy action'')) (\<lambda>action.
     case (jget body ''family_id'', jget body ''version_id'') of
       (JStr family, JStr version) \<Rightarrow>
         finish_strategy_approval wa challenge credential (scope_of actor action family version) origin host (dr_first d) (dr_second d) (dr_stamp d) (dr_uuid d)
     | (family, version) \<Rightarrow>
         thenO (liftO (aware (dr_first d) (PermissionError ''timezone required'')))
         (bindO (liftO (bound_text sq family)) (\<lambda>f.
          bindO (liftO (bound_text sq version)) (\<lambda>v.
          case (f, v) of
            (Some f, Some v) \<Rightarrow> finish_approval_untyped wa challenge credential (scope_of actor action f v) origin host (dr_first d) (dr_second d) (dr_stamp d)
          | _ \<Rightarrow> raiseO (PermissionError ''challenge not found or already consumed''))))))"

section \<open>Routes\<close>

definition approval_finish :: "webauthn \<Rightarrow> (pyfloat \<Rightarrow> string option) \<Rightarrow> http_request \<Rightarrow> http_draws \<Rightarrow> (passkey_db, http_reply) opr" where
  "approval_finish wa sq q d = (case rq_body q of
     JObj body \<Rightarrow> caught [''PermissionError'', ''ValueError'', ''TypeError'', ''KeyError'', ''AttributeError''] ''strategy approval verification failed''
       (bindO (liftO (validate_origin (origin_of q) (host_of q) None)) (\<lambda>origin.
        bindO (case jget body ''credential'' of JObj c \<Rightarrow> retO c | _ \<Rightarrow> raiseO (PermissionError ''invalid credential'')) (\<lambda>credential.
        bindO (liftO (client_challenge wa credential)) (\<lambda>challenge.
        bindO (authorised_actor q (dr_session d)) (\<lambda>actor.
        bindO (finish_approval_json wa sq challenge credential actor body origin (host_of q) d) (\<lambda>result.
        retO (answer (JObj result))))))))
   | _ \<Rightarrow> retO (refusal 400 ''invalid request''))"

definition approval_begin :: "webauthn \<Rightarrow> http_request \<Rightarrow> http_draws \<Rightarrow> (passkey_db, http_reply) opr" where
  "approval_begin wa q d = (case rq_body q of
     JObj body \<Rightarrow> caught [''PermissionError'', ''ValueError'', ''TypeError'', ''KeyError''] ''strategy approval not authorized''
       (bindO (liftO (validate_origin (origin_of q) (host_of q) None)) (\<lambda>origin.
        bindO (authorised_actor q (dr_session d)) (\<lambda>actor.
        bindO (begin_approval_json wa (dr_challenge d) actor body origin (host_of q) (dr_first d)) (\<lambda>options.
        bindO (liftO (wa_loads wa options)) (\<lambda>payload. retO (answer payload))))))
   | _ \<Rightarrow> retO (refusal 400 ''invalid request''))"

definition logout :: "http_request \<Rightarrow> http_draws \<Rightarrow> (passkey_db, http_reply) opr" where
  "logout q d = caught [''PermissionError'', ''ValueError''] ''logout not authorized''
     (thenO (liftO (validate_origin (origin_of q) (host_of q) None))
     (thenO (authorised_actor q (dr_session d))
     (thenO (revoke_session (session_cookie q))
     (retO ((answer (JObj [(''logged_out'', JBool True)]))\<lparr>rp_cookie := Some ''__Host-gaon_admin=; Path=/; Max-Age=0; Secure; HttpOnly; SameSite=Strict''\<rparr>)))))"

definition login_begin :: "webauthn \<Rightarrow> http_request \<Rightarrow> http_draws \<Rightarrow> (passkey_db, http_reply) opr" where
  "login_begin wa q d = (case rq_body q of
     JObj body \<Rightarrow> (case jget body ''actor'' of
       JStr actor \<Rightarrow> caught [''PermissionError'', ''ValueError'', ''TypeError'', ''KeyError''] ''login verification failed''
         (bindO (begin_login wa (dr_challenge d) actor (origin_of q) (host_of q) (dr_first d)) (\<lambda>result. retO (answer result)))
     | _ \<Rightarrow> retO (refusal 400 ''invalid request''))
   | _ \<Rightarrow> retO (refusal 400 ''invalid request''))"

definition login_finish :: "webauthn \<Rightarrow> http_request \<Rightarrow> http_draws \<Rightarrow> (passkey_db, http_reply) opr" where
  "login_finish wa q d = (case rq_body q of
     JObj body \<Rightarrow> (case jget body ''actor'' of
       JStr actor \<Rightarrow> caught [''PermissionError'', ''ValueError'', ''TypeError'', ''KeyError''] ''login verification failed''
         (bindO (case jget body ''credential'' of JObj c \<Rightarrow> retO c | _ \<Rightarrow> raiseO (PermissionError ''invalid credential'')) (\<lambda>credential.
          thenO (finish_login wa actor credential (origin_of q) (host_of q) (dr_first d) (dr_second d) (dr_stamp d))
          (bindO (create_session (dr_token d) (dr_csrf d) actor True (dr_third d)) (\<lambda>(token, csrf).
           retO ((answer (JObj [(''authenticated'', JBool True), (''csrf_token'', JStr csrf)]))
             \<lparr>rp_cookie := Some (''__Host-gaon_admin='' @ token @ ''; Path=/; Max-Age=1200; Secure; HttpOnly; SameSite=Strict'')\<rparr>)))))
     | _ \<Rightarrow> retO (refusal 400 ''invalid request''))
   | _ \<Rightarrow> retO (refusal 400 ''invalid request''))"

definition enroll_finish :: "webauthn \<Rightarrow> http_request \<Rightarrow> http_draws \<Rightarrow> (passkey_db, http_reply) opr" where
  "enroll_finish wa q d = (case rq_body q of
     JObj body \<Rightarrow> (case (jget body ''actor'', jget body ''credential'') of
       (JStr actor, JObj credential) \<Rightarrow> caught [''PermissionError'', ''ValueError'', ''TypeError'', ''KeyError''] ''enrollment verification failed''
         (bindO (finish_trusted_enrollment wa actor credential (origin_of q) (host_of q) (dr_first d) (dr_second d) (dr_stamp d)) (\<lambda>result.
          retO (answer (JObj result))))
     | _ \<Rightarrow> retO (refusal 400 ''invalid request''))
   | _ \<Rightarrow> retO (refusal 400 ''invalid request''))"

definition enroll_begin :: "webauthn \<Rightarrow> http_request \<Rightarrow> http_draws \<Rightarrow> (passkey_db, http_reply) opr" where
  "enroll_begin wa q d = (case rq_body q of
     JObj body \<Rightarrow> (case (jget body ''actor'', jget body ''bootstrap_token'') of
       (JStr actor, JStr token) \<Rightarrow> caught [''PermissionError'', ''ValueError''] ''enrollment not authorized''
         (bindO (begin_trusted_enrollment wa (dr_challenge d) actor token (origin_of q) (host_of q) (dr_first d) (dr_second d)) (\<lambda>options.
          bindO (liftO (wa_loads wa options)) (\<lambda>payload. retO (answer payload))))
     | _ \<Rightarrow> retO (refusal 400 ''invalid request''))
   | _ \<Rightarrow> retO (refusal 400 ''invalid request''))"

text \<open>
  What the options page shows of the stored registries. \<open>research\<close> is what the page reads from the
  tables of the research services, \<open>crypto\<close> the summary of the forward verification, which never raises.
\<close>

definition shown_versions :: "obj \<Rightarrow> json list res" where
  "shown_versions registry = bindR (list_of (jget_or registry ''versions'' (JArr []))) (mapR (\<lambda>item. case item of
     JObj v \<Rightarrow> Inr (JObj [(''id'', jget v ''strategy_version_id''), (''status'', jget v ''status'')])
   | _ \<Rightarrow> Inl (OtherError ''AttributeError'' ''get'')))"

definition shown_families :: "version_store \<Rightarrow> json list res" where
  "shown_families t = mapR (\<lambda>(family, r). bindR (shown_versions (vr_registry r)) (\<lambda>versions.
     Inr (JObj [(''family_id'', JStr family), (''versions'', JArr versions)]))) (sort_key fst t)"

definition strategy_options :: "json list res \<Rightarrow> json \<Rightarrow> http_request \<Rightarrow> http_draws \<Rightarrow> (passkey_db, http_reply) opr" where
  "strategy_options research crypto q d = caught [''PermissionError'', ''ValueError'', ''TypeError''] ''authentication required''
     (thenO (need_session None False q (dr_session d))
     (bindO (getO ac_versions) (\<lambda>store.
      bindO (liftO (shown_families store)) (\<lambda>families.
      bindO (liftO research) (\<lambda>found.
      retO (answer (JObj [(''families'', JArr families), (''research_candidates'', JArr found), (''crypto_forward_verification'', crypto)])))))))"

definition request_path :: "http_request \<Rightarrow> string" where
  "request_path q = url_path (url_split (rq_path q))"

text \<open>The routes in the order of the handler; \<open>None\<close> leaves the request to \<open>dispatch_request\<close>.\<close>

definition post_routes ::
  "webauthn \<Rightarrow> (pyfloat \<Rightarrow> string option) \<Rightarrow> http_request \<Rightarrow> http_draws \<Rightarrow> (string \<times> (passkey_db, http_reply) opr) list" where
  "post_routes wa sq q d =
    [(''/gaon/admin/strategy/approval/finish'', approval_finish wa sq q d),
     (''/gaon/admin/strategy/approval/begin'', approval_begin wa q d),
     (''/gaon/admin/passkey/logout'', logout q d),
     (''/gaon/admin/passkey/login/begin'', login_begin wa q d),
     (''/gaon/admin/passkey/login/finish'', login_finish wa q d),
     (''/gaon/admin/passkey/enroll/finish'', enroll_finish wa q d),
     (''/gaon/admin/passkey/enroll/begin'', enroll_begin wa q d)]"

definition admin_dispatch ::
  "webauthn \<Rightarrow> (pyfloat \<Rightarrow> string option) \<Rightarrow> json list res \<Rightarrow> json \<Rightarrow> http_request \<Rightarrow> http_draws \<Rightarrow> (passkey_db, http_reply) opr option" where
  "admin_dispatch wa sq research crypto q d =
    (if rq_method q = ''GET'' \<and> request_path q = ''/gaon/admin/strategy/options'' then Some (strategy_options research crypto q d)
     else if rq_method q = ''POST'' then map_of (post_routes wa sq q d) (request_path q)
     else None)"

end
