(* ===== verification/AdminRuns.thy ===== *)
theory AdminRuns
  imports AdminApi
begin

text \<open>
  What a request to an administrator's route can do: it is a sequence of calls of the passkey services, so
  every invariant of these holds; a session needs a login that used up its challenge; and an activation
  needs a session, its second token and a signature.
\<close>

section \<open>Requests as calls\<close>

text \<open>Each run of the operation does to the tables what some calls with \<open>P\<close> do.\<close>

definition made_of :: "webauthn \<Rightarrow> (passkey_call \<Rightarrow> bool) \<Rightarrow> (passkey_db, 'a) opr \<Rightarrow> bool" where
  "made_of wa P m \<longleftrightarrow> (\<forall>s. \<exists>cs. list_all P cs \<and> snd (m s) = fold (passkey_step wa) cs s)"

named_theorems made_of_intros

lemma made_of_same: "(\<And>s. snd (m s) = s) \<Longrightarrow> made_of wa P m"
  unfolding made_of_def by (intro allI exI [of _ "[]"]) simp

lemma made_of_simple [made_of_intros]:
  "made_of wa P (retO x)" "made_of wa P (raiseO e)" "made_of wa P (liftO r)" "made_of wa P (getO f)"
  by (rule made_of_same, simp add: retO_def raiseO_def liftO_def getO_def)+

lemma made_of_bind [made_of_intros]:
  assumes "made_of wa P m" and "\<And>x. made_of wa P (f x)"
  shows "made_of wa P (bindO m f)"
  unfolding made_of_def
proof
  fix s
  obtain r t where m: "m s = (r, t)" by fastforce
  obtain cs where cs: "list_all P cs" "t = fold (passkey_step wa) cs s" using assms(1) m unfolding made_of_def by (metis snd_conv)
  show "\<exists>cs. list_all P cs \<and> snd (bindO m f s) = fold (passkey_step wa) cs s"
  proof (cases r)
    case (Inl e)
    then show ?thesis using m cs by (auto simp: bindO_apply)
  next
    case (Inr x)
    obtain ds where "list_all P ds" "snd (f x t) = fold (passkey_step wa) ds t" using assms(2) unfolding made_of_def by metis
    then have "list_all P (cs @ ds) \<and> snd (bindO m f s) = fold (passkey_step wa) (cs @ ds) s" using m cs Inr by (simp add: bindO_apply)
    then show ?thesis by blast
  qed
qed

lemma made_of_then [made_of_intros]: "made_of wa P m \<Longrightarrow> made_of wa P n \<Longrightarrow> made_of wa P (thenO m n)"
  unfolding thenO_def by (rule made_of_bind)

lemma made_of_caught [made_of_intros]: "made_of wa P m \<Longrightarrow> made_of wa P (caught classes message m)"
proof -
  have "snd (caught classes message m s) = snd (m s)" for s
    by (auto simp: caught_def catchO_def retO_def raiseO_def split: prod.splits sum.splits)
  then show "made_of wa P m \<Longrightarrow> ?thesis" by (simp add: made_of_def)
qed

lemma made_of_call:
  assumes "P c" and "\<And>s. passkey_run wa c s = returned (m s)"
  shows "made_of wa P m"
  unfolding made_of_def
proof
  fix s
  have "snd (m s) = fold (passkey_step wa) [c] s" using assms(2) by (simp add: passkey_step_def returned_def split: prod.split)
  then show "\<exists>cs. list_all P cs \<and> snd (m s) = fold (passkey_step wa) cs s" using assms(1) by (intro exI [of _ "[c]"]) simp
qed

lemma made_of_mono: "made_of wa P m \<Longrightarrow> (\<And>c. P c \<Longrightarrow> Q c) \<Longrightarrow> made_of wa Q m"
  unfolding made_of_def by (metis list_all_iff)

text \<open>Calls that open no session, and calls that do not write the registries.\<close>

definition no_session :: "passkey_call \<Rightarrow> bool" where
  "no_session c \<longleftrightarrow> (case c of PK_CreateSession token csrf actor ok t1 \<Rightarrow> False | _ \<Rightarrow> True)"

definition quiet :: "passkey_call \<Rightarrow> bool" where
  "quiet c \<longleftrightarrow> (case c of PK_FinishApproval challenge credential scope origin host t1 t2 used uuid \<Rightarrow> False
     | PK_Promote draw now limit \<Rightarrow> False | _ \<Rightarrow> True)"

abbreviation plain :: "passkey_call \<Rightarrow> bool" where
  "plain c \<equiv> no_session c \<and> quiet c"

lemma made_of_services [made_of_intros]:
  "made_of wa plain (begin_trusted_enrollment wa challenge actor token origin host t1 t2)"
  "made_of wa plain (finish_trusted_enrollment wa actor credential origin host t1 t2 created)"
  "made_of wa plain (begin_login wa challenge actor origin host t1)"
  "made_of wa plain (finish_login wa actor credential origin host t1 t2 used)"
  "made_of wa plain (revoke_session token)"
  "made_of wa plain (begin_strategy_approval wa challenge scope origin host t1)"
  "made_of wa plain (finish_approval_untyped wa challenge credential scope origin host t1 t2 used)"
  by (rule made_of_call [OF _ passkey_run.simps(2)] made_of_call [OF _ passkey_run.simps(3)]
      made_of_call [OF _ passkey_run.simps(4)] made_of_call [OF _ passkey_run.simps(5)] made_of_call [OF _ passkey_run.simps(7)]
      made_of_call [OF _ passkey_run.simps(8)] made_of_call [OF _ passkey_run.simps(10)],
      simp add: no_session_def quiet_def)+

lemma made_of_session: "made_of wa quiet (create_session token csrf actor ok t1)"
  by (rule made_of_call [OF _ passkey_run.simps(6)]) (simp add: quiet_def)

lemma made_of_approval: "made_of wa no_session (finish_strategy_approval wa challenge credential scope origin host t1 t2 used uuid)"
  by (rule made_of_call [OF _ passkey_run.simps(9)]) (simp add: no_session_def)

lemma made_of_need [made_of_intros]: "made_of wa P (need_passkey actor m)" "made_of wa P (need_session csrf b q t)" "made_of wa P (authorised_actor q t)"
  unfolding need_passkey_def need_session_def authorised_actor_def by (intro made_of_intros)+

lemma made_of_json: "(\<And>k. made_of wa P (f k)) \<Longrightarrow> made_of wa P g \<Longrightarrow> made_of wa P (case j of JObj k \<Rightarrow> f k | _ \<Rightarrow> g)"
  "(\<And>k. made_of wa P (h k)) \<Longrightarrow> made_of wa P g \<Longrightarrow> made_of wa P (case j of JStr k \<Rightarrow> h k | _ \<Rightarrow> g)"
  by (cases j; simp)+

lemma made_of_routes:
  "made_of wa plain (approval_begin wa q d)"
  "made_of wa plain (logout q d)" "made_of wa plain (login_begin wa q d)"
  "made_of wa plain (enroll_finish wa q d)" "made_of wa plain (enroll_begin wa q d)"
  "made_of wa plain (strategy_options research crypto q d)"
  subgoal unfolding approval_begin_def begin_approval_json_def
    by (intro made_of_json made_of_intros) (auto split: json.split option.split prod.split intro!: made_of_intros)
  subgoal unfolding logout_def by (intro made_of_intros)
  subgoal unfolding login_begin_def by (intro made_of_json made_of_intros)
  subgoal unfolding enroll_finish_def by (auto split: json.split intro!: made_of_intros)
  subgoal unfolding enroll_begin_def by (auto split: json.split intro!: made_of_intros)
  subgoal unfolding strategy_options_def by (intro made_of_intros)
  done

lemma made_of_approval_finish: "made_of wa no_session (approval_finish wa sq q d)"
  unfolding approval_finish_def finish_approval_json_def
  by (intro made_of_json made_of_intros)
    (auto split: json.split option.split prod.split intro!: made_of_intros made_of_approval made_of_mono [OF made_of_services(7)])

lemma made_of_login_finish: "made_of wa quiet (login_finish wa q d)"
  unfolding login_finish_def
  by (intro made_of_json made_of_intros) (auto split: prod.split intro!: made_of_json made_of_intros made_of_session made_of_mono [OF made_of_services(4)])

text \<open>The finish of an approval is the only route that may write a registry, the finish of a login the only one that opens a session.\<close>

lemma admin_cases:
  assumes "admin_dispatch wa sq research crypto q d = Some m"
  obtains (finish) "m = approval_finish wa sq q d" "rq_method q = ''POST''" "request_path q = ''/gaon/admin/strategy/approval/finish''"
    | (login) "m = login_finish wa q d" | (other) "made_of wa plain m"
proof -
  have "m = strategy_options research crypto q d \<or> rq_method q = ''POST'' \<and> (request_path q, m) \<in> set (post_routes wa sq q d)"
    using assms by (auto simp: admin_dispatch_def dest: map_of_SomeD split: if_splits)
  then show thesis using that made_of_routes unfolding post_routes_def by auto
qed

text \<open>A fact about the tables that every call of the services keeps is kept by every request.\<close>

lemma made_of_keeps: "made_of wa P m \<Longrightarrow> (\<And>c s. P c \<Longrightarrow> I s \<Longrightarrow> I (passkey_step wa c s)) \<Longrightarrow> keeps I m"
proof (rule keepsI)
  fix s assume m: "made_of wa P m" and step: "\<And>c s. P c \<Longrightarrow> I s \<Longrightarrow> I (passkey_step wa c s)" and I: "I s"
  have "list_all P cs \<Longrightarrow> I u \<Longrightarrow> I (fold (passkey_step wa) cs u)" for cs u by (induction cs arbitrary: u) (auto intro: step)
  then show "I (snd (m s))" using m I unfolding made_of_def by metis
qed

lemma admin_made_of:
  assumes "admin_dispatch wa sq research crypto q d = Some m"
  shows "made_of wa (\<lambda>_. True) m"
  using assms
proof (cases rule: admin_cases)
  case finish
  then show ?thesis using made_of_mono [OF made_of_approval_finish] by simp
next
  case login
  then show ?thesis using made_of_mono [OF made_of_login_finish] by simp
next
  case other
  then show ?thesis by (rule made_of_mono) simp
qed

section \<open>Sessions\<close>

text \<open>The logins whose challenge is used up.\<close>

definition logins_spent :: "passkey_db \<Rightarrow> challenge_scope list" where
  "logins_spent s = filter (\<lambda>b. cs_action b = ''login'') (map snd (spent_keys (pk_challenges s)))"

definition sessions_logged_in :: "passkey_db \<Rightarrow> bool" where
  "sessions_logged_in s \<longleftrightarrow> login_scope ` se_actor ` set (t_rows (pk_sessions s)) \<subseteq> set (logins_spent s) \<and>
     length (pk_sessions s) \<le> length (logins_spent s)"

lemma spent_keys_burn:
  "set (spent_keys t) \<subseteq> set (spent_keys (burn k t))"
  "length (filter P (spent_keys t)) \<le> length (filter P (spent_keys (burn k t)))"
  by (induction t) (auto simp: burn_def t_update_def)

lemma spent_keys_burn_one:
  assumes "redeemable k b current t expiry"
  shows "(k, b) \<in> set (spent_keys (burn k t))"
    and "P (k, b) \<Longrightarrow> length (filter P (spent_keys t)) < length (filter P (spent_keys (burn k t)))"
proof -
  obtain r where r: "map_of t k = Some r" "ot_bound r = b" "\<not> ot_consumed r" using assms by (auto simp: redeemable_def t_get_def)
  have "(k, b) \<in> set (spent_keys (burn k t)) \<and> (P (k, b) \<longrightarrow> length (filter P (spent_keys t)) < length (filter P (spent_keys (burn k t))))"
    using r(1)
  proof (induction t)
    case (Cons a t)
    obtain k' r' where a: "a = (k', r')" by (cases a)
    note le = spent_keys_burn(2) [of P t k]
    show ?case
    proof (cases "k' = k")
      case True
      then have "r' = r" using Cons.prems a by simp
      then show ?thesis using a True r le by (simp add: burn_def t_update_def le_imp_less_Suc)
    next
      case False
      then have "map_of t k = Some r" using Cons.prems a by simp
      then show ?thesis using a False Cons.IH by (auto simp: burn_def t_update_def)
    qed
  qed simp
  then show "(k, b) \<in> set (spent_keys (burn k t))"
    and "P (k, b) \<Longrightarrow> length (filter P (spent_keys t)) < length (filter P (spent_keys (burn k t)))" by blast+
qed

lemma logins_filter: "length (logins_spent s) = length (filter (\<lambda>x. cs_action (snd x) = ''login'') (spent_keys (pk_challenges s)))"
  by (simp add: logins_spent_def filter_map comp_def)

lemma logins_after_challenge:
  "set (logins_spent s) \<subseteq> set (logins_spent (spend_challenge k s))" "length (logins_spent s) \<le> length (logins_spent (spend_challenge k s))"
proof -
  have c: "pk_challenges (spend_challenge k s) = burn k (pk_challenges s)" by (simp add: spend_challenge_def)
  have "snd ` set (spent_keys (pk_challenges s)) \<subseteq> snd ` set (spent_keys (burn k (pk_challenges s)))" by (rule image_mono [OF spent_keys_burn(1)])
  then show "set (logins_spent s) \<subseteq> set (logins_spent (spend_challenge k s))" unfolding logins_spent_def c by auto
  show "length (logins_spent s) \<le> length (logins_spent (spend_challenge k s))" unfolding logins_filter c by (rule spent_keys_burn(2))
qed

lemma login_spent:
  assumes "redeemable k (login_scope actor) current (pk_challenges s) expiry"
  shows "login_scope actor \<in> set (logins_spent (spend_challenge k s))" "length (logins_spent s) < length (logins_spent (spend_challenge k s))"
proof -
  have c: "pk_challenges (spend_challenge k s) = burn k (pk_challenges s)" by (simp add: spend_challenge_def)
  have "login_scope actor \<in> snd ` set (spent_keys (burn k (pk_challenges s)))" using spent_keys_burn_one(1) [OF assms] by force
  then show "login_scope actor \<in> set (logins_spent (spend_challenge k s))" unfolding logins_spent_def c by (auto simp: login_scope_def)
  show "length (logins_spent s) < length (logins_spent (spend_challenge k s))" unfolding logins_filter c
    by (rule spent_keys_burn_one(2) [OF assms]) (simp add: login_scope_def)
qed

lemma logins_same [simp]:
  "logins_spent (spend_grant k s) = logins_spent s" "logins_spent (spend_enrollment k s) = logins_spent s"
  "logins_spent (count_use k n u s) = logins_spent s" "logins_spent (with_versions st s) = logins_spent s"
  "logins_spent (activation_effect call vs i s) = logins_spent s"
  "logins_spent (s\<lparr>pk_grants := gr\<rparr>) = logins_spent s" "logins_spent (s\<lparr>pk_enrollments := en\<rparr>) = logins_spent s"
  "logins_spent (s\<lparr>pk_admins := ad\<rparr>) = logins_spent s" "logins_spent (s\<lparr>pk_sessions := se\<rparr>) = logins_spent s"
  "logins_spent (s\<lparr>pm_runs := ru\<rparr>) = logins_spent s"
  "logins_spent (s\<lparr>pk_challenges := pk_challenges s @ [(k, unused scope e)]\<rparr>) = logins_spent s"
  by (simp_all add: logins_spent_def spend_grant_def spend_enrollment_def count_use_def with_versions_def activation_effect_def unused_def)

lemma sessions_same [simp]:
  "pk_sessions (spend_grant k s) = pk_sessions s" "pk_sessions (spend_enrollment k s) = pk_sessions s"
  "pk_sessions (spend_challenge k s) = pk_sessions s" "pk_sessions (count_use k n u s) = pk_sessions s"
  "pk_sessions (with_versions st s) = pk_sessions s" "pk_sessions (activation_effect call vs i s) = pk_sessions s"
  by (simp_all add: spend_grant_def spend_enrollment_def spend_challenge_def count_use_def with_versions_def activation_effect_def)

lemma session_rows_revoked: "se_actor ` set (t_rows (t_update k (\<lambda>r. r\<lparr>se_revoked := True\<rparr>) t)) = se_actor ` set (t_rows t)"
  by (force simp: t_update_def t_rows_def image_image split: prod.splits)

interpretation logged_in: row_invariant sessions_logged_in
proof unfold_locales
  fix s k
  show "sessions_logged_in s \<Longrightarrow> sessions_logged_in (spend_challenge k s)"
    using logins_after_challenge [of s k] by (auto simp: sessions_logged_in_def)
qed (simp_all add: sessions_logged_in_def session_rows_revoked)

lemma wp_finish_login:
  assumes "\<And>e. E e s"
    and "\<And>e k expiry. redeemable k (login_scope actor) t1 (pk_challenges s) expiry \<Longrightarrow> E e (spend_challenge k s)"
    and "\<And>k expiry v i. redeemable k (login_scope actor) t1 (pk_challenges s) expiry \<Longrightarrow> acceptable actor v i s \<Longrightarrow>
      Q [(''authenticated'', JBool True)] (count_use i (va_new_sign_count v) used (spend_challenge k s))"
  shows "wp (finish_login wa actor credential origin host t1 t2 used) Q E s"
  unfolding finish_login_def wp_then wp_bind
proof (rule wp_lift_any, rule assms(1), rule wp_lift_any, rule assms(1), rule wp_consume_challenge, rule assms(1), rule wp_need_passkey)
  fix k expiry and c :: "string \<times> string \<times> int"
  assume r: "redeemable k (login_scope actor) t1 (pk_challenges s) expiry"
  show "\<And>e. E e (spend_challenge k s)" using assms(2) [OF r] .
  obtain i pk n where c: "c = (i, pk, n)" by (cases c)
  show "wp (case c of (credential_id, public_key, sign_count) \<Rightarrow>
        bindO (liftO (fst (finish_assertion wa credential public_key sign_count rp_id origin (login_scope actor) t2
          \<lparr>pc_challenge = k, pc_scope = login_scope actor, pc_expires_at = expiry, pc_consumed = False\<rparr>))) (\<lambda>v.
        thenO (accept_verified_assertion actor v credential_id used) (retO [(''authenticated'', JBool True)]))) Q E (spend_challenge k s)"
    unfolding c prod.case wp_bind wp_then
    by (intro wp_lift_any wp_accept) (use assms(2) [OF r] assms(3) [OF r] in \<open>simp_all add: wp_simps\<close>)
qed

lemma wp_create_session:
  assumes "\<And>e. E e s" and "\<And>k r x. k \<notin> set (t_keys (pk_sessions s)) \<Longrightarrow> se_actor r = actor \<Longrightarrow> Q x (s\<lparr>pk_sessions := pk_sessions s @ [(k, r)]\<rparr>)"
  shows "wp (create_session token csrf actor ok t1) Q E s"
  unfolding create_session_def wp_then wp_bind wp_guard
  by (auto simp: wp_simps t_insert_def assms(1) intro!: wp_lift_any assms(2) split: if_splits)

lemma wp_caught: "wp m Q (\<lambda>e t. Q (refusal 403 message) t \<and> E e t) s \<Longrightarrow> wp (caught classes message m) Q E s"
  by (auto simp: wp_def caught_def catchO_def retO_def raiseO_def split: prod.splits sum.splits)

lemma login_keeps_sessions: "keeps sessions_logged_in (login_finish wa q d)"
proof (rule keeps_wp)
  fix s assume s: "sessions_logged_in s"
  have spent: "sessions_logged_in (spend_challenge k u)" if "sessions_logged_in u" for k u using that by (rule logged_in.spends(3))
  have one: "sessions_logged_in ((count_use i n used (spend_challenge k s))\<lparr>pk_sessions := pk_sessions s @ [(j, r)]\<rparr>)"
    if "redeemable k (login_scope actor) t1 (pk_challenges s) expiry" "se_actor r = actor" for i n used k j r actor t1 expiry
    using s login_spent [OF that(1)] logins_after_challenge [of s k] that(2) by (auto simp: sessions_logged_in_def)
  show "wp (login_finish wa q d) (\<lambda>_. sessions_logged_in) (\<lambda>_. sessions_logged_in) s"
    unfolding login_finish_def
    by (auto split: json.split simp: wp_simps s intro!: wp_caught wp_finish_login wp_create_session spent one logged_in.admins(2))
qed

lemma admin_keeps_sessions:
  assumes "admin_dispatch wa sq research crypto q d = Some m"
  shows "keeps sessions_logged_in m"
proof -
  have step: "no_session c \<Longrightarrow> sessions_logged_in s \<Longrightarrow> sessions_logged_in (passkey_step wa c s)" for c s
    by (rule logged_in.other_step) (auto simp: no_session_def)
  have kept: "made_of wa no_session n \<Longrightarrow> keeps sessions_logged_in n" for n :: "(passkey_db, http_reply) opr"
    by (rule made_of_keeps [of wa no_session]) (simp_all add: step)
  from assms show ?thesis
  proof (cases rule: admin_cases)
    case other
    then show ?thesis by (intro kept made_of_mono [OF other]) simp
  qed (simp_all add: kept made_of_approval_finish login_keeps_sessions)
qed

section \<open>What an activation through the web needs\<close>

definition same_registries :: "passkey_db \<Rightarrow> passkey_db \<Rightarrow> bool" where
  "same_registries s t \<longleftrightarrow> ac_versions t = ac_versions s \<and> ac_audit t = ac_audit s"

interpretation registries_kept: credential_invariant "same_registries s" for s
  by unfold_locales (simp_all add: same_registries_def spend_grant_def spend_enrollment_def spend_challenge_def count_use_def)

lemma create_session_registries: "keeps (same_registries s) (create_session token csrf actor ok t1)"
  by (rule keeps_wp, rule wp_create_session) (simp_all add: same_registries_def)

lemma quiet_step: "quiet c \<Longrightarrow> same_registries s t \<Longrightarrow> same_registries s (passkey_step wa c t)"
proof (cases c)
  case (PK_StoreRun run_id r)
  then show "same_registries s t \<Longrightarrow> ?thesis" by (simp add: passkey_step_def same_registries_def)
qed (simp_all add: passkey_step_def quiet_def keeps_returned registries_kept.keeps_calls create_session_registries)

lemma quiet_registries: "made_of wa quiet m \<Longrightarrow> same_registries s (snd (m s))"
  using made_of_keeps [of wa quiet m "same_registries s"] quiet_step [of _ s] by (force simp: keeps_def same_registries_def)

text \<open>The session a request comes with: its cookie, its second token, unrevoked and unexpired.\<close>

definition request_session :: "http_request \<Rightarrow> dtime \<Rightarrow> passkey_db \<Rightarrow> admin_session \<Rightarrow> bool" where
  "request_session q now s row \<longleftrightarrow> t_get (token_digest (session_cookie q)) (pk_sessions s) = Some row \<and> \<not> se_revoked row \<and>
     session_cookie q \<noteq> [] \<and> header q ''X-Gaon-CSRF'' \<noteq> [] \<and> se_csrf_hash row = token_digest (header q ''X-Gaon-CSRF'') \<and>
     (\<exists>expiry. dt_fromisoformat (se_expires_at row) = Inr expiry \<and> time_after now expiry = Inr False)"

lemma validate_session_csrf:
  "validate_session (session_cookie q) (Some (header q ''X-Gaon-CSRF'')) True now s = Inr actor \<longleftrightarrow>
     (\<exists>row. request_session q now s row \<and> se_actor row = actor)"
  by (auto simp: validate_session_def request_session_def bindR_Inr_iff split: option.splits)

lemma wp_authorised:
  "(\<And>e. E e s) \<Longrightarrow> (\<And>row. request_session q now s row \<Longrightarrow> Q (se_actor row) s) \<Longrightarrow> wp (authorised_actor q now) Q E s"
  unfolding authorised_actor_def need_session_def
  by (simp add: wp_simps) (rule wp_lift_any, simp, auto simp: validate_session_csrf)

text \<open>What the finish of an approval has found when it changes a registry.\<close>

definition web_approved :: "webauthn \<Rightarrow> http_request \<Rightarrow> http_draws \<Rightarrow> passkey_db \<Rightarrow> passkey_db \<Rightarrow> bool" where
  "web_approved wa q d s t \<longleftrightarrow>
     (\<exists>row body credential challenge scope. request_session q (dr_session d) s row \<and>
        rq_body q = JObj body \<and> jget body ''credential'' = JObj credential \<and> client_challenge wa credential = Inr challenge \<and>
        scope = scope_of (se_actor row) (py_str (jget body ''action'')) (py_str (jget body ''family_id'')) (py_str (jget body ''version_id'')) \<and>
        strategy_action (cs_action scope) \<and> validate_origin (origin_of q) (host_of q) None = Inr (origin_of q) \<and>
        approval_signed wa challenge credential scope (origin_of q) (dr_first d) (dr_second d) s \<and>
        version_approved scope (dr_uuid d) (isoformat (dr_second d)) s t)"

lemma wp_quiet: "made_of wa quiet m \<Longrightarrow> same_registries s u \<Longrightarrow> wp m (\<lambda>_. same_registries s) (\<lambda>_. same_registries s) u"
  by (rule wp_of_keeps) (rule made_of_keeps, assumption, rule quiet_step)

lemma untyped_quiet: "made_of wa quiet (finish_approval_untyped wa challenge credential scope origin host t1 t2 used)"
  by (rule made_of_mono [OF made_of_services(7)]) simp

lemma validated_origin: "validate_origin origin host None = Inr r \<Longrightarrow> r = origin"
  using validate_origin_iff by blast

lemma wp_approval_finish:
  "wp (approval_finish wa sq q d) (\<lambda>_ t. same_registries s t \<or> web_approved wa q d s t) (\<lambda>_ t. same_registries s t) s"
proof (cases "rq_body q")
  case (JObj body)
  let ?Q = "\<lambda>t. same_registries s t \<or> web_approved wa q d s t"
  let ?E = "\<lambda>t. ?Q t \<and> same_registries s t"
  have same: "same_registries s s" by (simp add: same_registries_def)
  have "wp (finish_approval_json wa sq challenge credential (se_actor row) body (origin_of q) (host_of q) d)
      (\<lambda>_. ?Q) (\<lambda>_. ?E) s"
    if row: "request_session q (dr_session d) s row" and c: "jget body ''credential'' = JObj credential" "client_challenge wa credential = Inr challenge"
    for row credential challenge
  proof -
    have approved: "wp (finish_strategy_approval wa challenge credential (scope_of (se_actor row) action family version)
          (origin_of q) (host_of q) (dr_first d) (dr_second d) (dr_stamp d) (dr_uuid d)) (\<lambda>_. ?Q) (\<lambda>_. ?E) s"
      if "jget body ''action'' = JStr action" "jget body ''family_id'' = JStr family" "jget body ''version_id'' = JStr version"
      for action family version
      using wp_approval by (rule wp_mono) (use row c JObj that in \<open>auto simp: web_approved_def same_registries_def\<close>)
    have untyped: "wp (finish_approval_untyped wa challenge credential scope (origin_of q) (host_of q) (dr_first d) (dr_second d) (dr_stamp d))
        (\<lambda>_. ?Q) (\<lambda>_. ?E) s" for scope
      using wp_quiet [OF untyped_quiet same] by (rule wp_mono) simp_all
    show ?thesis
      unfolding finish_approval_json_def action_of_def
      by (auto simp: wp_simps same split: json.split option.split if_splits intro!: wp_lift_any approved untyped)
  qed
  then show ?thesis
    unfolding approval_finish_def JObj
    by (auto simp: wp_simps same split: json.split intro!: wp_caught wp_lift_any wp_authorised dest!: validated_origin)
qed (simp_all add: approval_finish_def wp_simps same_registries_def)

lemma admin_registries:
  assumes "admin_dispatch wa sq research crypto q d = Some m"
  shows "same_registries s (snd (m s)) \<or>
    rq_method q = ''POST'' \<and> request_path q = ''/gaon/admin/strategy/approval/finish'' \<and> web_approved wa q d s (snd (m s))"
  using assms
proof (cases rule: admin_cases)
  case finish
  then show ?thesis using wp_approval_finish [of wa sq q d s] by (auto simp: wp_def split: prod.splits sum.splits)
next
  case login
  then show ?thesis using quiet_registries [OF made_of_login_finish] by simp
next
  case other
  then show ?thesis using quiet_registries [OF made_of_mono [OF other]] by simp
qed

end
