(* ===== verification/PaperLedger.thy ===== *)
theory PaperLedger
  imports Promotion
begin

text \<open>
  The three ledgers of the paper research loop: trade observations (\<open>runtime/paper_observation_repository.py\<close>),
  failure hypotheses (\<open>runtime/paper_failure_hypothesis_repository.py\<close>) and backtest results
  (\<open>runtime/paper_hypothesis_backtest_repository.py\<close>). Rows are only ever added; a row that the unique index
  of its table has already is answered with the id of the stored one. A text column written by \<open>json.dumps\<close>
  is its JSON tree.
\<close>

section \<open>Ledgers\<close>

text \<open>A table with an \<open>AUTOINCREMENT\<close> key: the rows in the order of their ids, and the last id given.\<close>

record 'r report_table =
  lg_rows :: "(int \<times> 'r) list"
  lg_last :: int

definition ledger_empty :: "'r report_table" where
  "ledger_empty = \<lparr>lg_rows = [], lg_last = 0\<rparr>"

text \<open>
  \<open>INSERT\<close>, and on \<open>IntegrityError\<close> the id of the row with the same key. A key with a NULL in it (\<open>None\<close>) is
  distinct from every other.
\<close>

definition ledger_put :: "('r \<Rightarrow> 'k option) \<Rightarrow> 'r \<Rightarrow> 'r report_table \<Rightarrow> int \<times> 'r report_table" where
  "ledger_put key r l = (case find (\<lambda>(_, r'). key r \<noteq> None \<and> key r' = key r) (lg_rows l) of
     Some (i, _) \<Rightarrow> (i, l)
   | None \<Rightarrow> (lg_last l + 1, \<lparr>lg_rows = lg_rows l @ [(lg_last l + 1, r)], lg_last = lg_last l + 1\<rparr>))"

text \<open>\<open>ORDER BY created_at DESC, id DESC LIMIT n\<close>.\<close>

definition newest_rows :: "nat \<Rightarrow> ('r \<Rightarrow> string) \<Rightarrow> (int \<times> 'r) list \<Rightarrow> (int \<times> 'r) list" where
  "newest_rows n created rows = take n (rev (sort_key (\<lambda>(i, r). (created r, i)) rows))"

text \<open>A \<open>REAL\<close> column stores NaN as NULL; an \<open>INTEGER\<close> column takes 64 bits.\<close>

definition real_column :: "pyfloat option \<Rightarrow> pyfloat option" where
  "real_column x = (if x = Some NaN then None else x)"

definition int_column :: "int \<Rightarrow> int res" where
  "int_column i = (if - (2 ^ 63) \<le> i \<and> i < 2 ^ 63 then Inr i else Inl (OverflowError ''Python int too large to convert to SQLite INTEGER''))"

text \<open>\<open>[f for f in required if body.get(f) in (None, '''')]\<close>.\<close>

definition absent :: "string list \<Rightarrow> obj \<Rightarrow> string list" where
  "absent required body = filter (\<lambda>f. jget body f = JNull \<or> jget body f = JStr []) required"

definition require_fields :: "string \<Rightarrow> string list \<Rightarrow> obj \<Rightarrow> unit res" where
  "require_fields what required body = (let missing = absent required body in
     guardR (missing = []) (KeyError (''missing required '' @ what @ '' field(s): '' @ py_repr (jstrs missing))))"

definition str_field :: "obj \<Rightarrow> string \<Rightarrow> string" where
  "str_field body f = py_str (jget body f)"

section \<open>Observations\<close>

record trade_report =
  ob_family :: string
  ob_version :: string
  ob_fingerprint :: string
  ob_direction :: string
  ob_symbol :: string
  ob_signal_at :: string
  ob_entry_at :: "string option"
  ob_exit_at :: "string option"
  ob_entry_price :: "pyfloat option"
  ob_exit_price :: "pyfloat option"
  ob_qty :: "pyfloat option"
  ob_pnl :: "pyfloat option"
  ob_pnl_pct :: "pyfloat option"
  ob_fees :: "pyfloat option"
  ob_status :: string
  ob_reason :: "string option"
  ob_reported_at :: string
  ob_created_at :: string

definition observation_fields :: "string list" where
  "observation_fields = [''family_id'', ''strategy_version_id'', ''spec_fingerprint'', ''direction'', ''symbol'', ''signal_at'', ''status'']"

text \<open>Floats are converted without a handler: what is no number raises.\<close>

definition observation_of :: "string \<Rightarrow> obj \<Rightarrow> trade_report res" where
  "observation_of created body =
    bindR (require_fields ''observation'' observation_fields body) (\<lambda>_.
    bindR (optional_float (jget body ''entry_price'')) (\<lambda>entry.
    bindR (optional_float (jget body ''exit_price'')) (\<lambda>exit.
    bindR (optional_float (jget body ''qty'')) (\<lambda>qty.
    bindR (optional_float (jget body ''pnl'')) (\<lambda>pnl.
    bindR (optional_float (jget body ''pnl_pct'')) (\<lambda>pct.
    bindR (optional_float (jget body ''fees'')) (\<lambda>fees.
    Inr \<lparr>ob_family = str_field body ''family_id'', ob_version = str_field body ''strategy_version_id'',
      ob_fingerprint = str_field body ''spec_fingerprint'', ob_direction = str_field body ''direction'',
      ob_symbol = str_field body ''symbol'', ob_signal_at = str_field body ''signal_at'',
      ob_entry_at = jopt_str (jget body ''entry_at''), ob_exit_at = jopt_str (jget body ''exit_at''),
      ob_entry_price = real_column entry, ob_exit_price = real_column exit, ob_qty = real_column qty,
      ob_pnl = real_column pnl, ob_pnl_pct = real_column pct, ob_fees = real_column fees,
      ob_status = str_field body ''status'', ob_reason = jopt_str (jget body ''reason''),
      ob_reported_at = (case jopt_str (jget body ''reported_at'') of Some t \<Rightarrow> if t = [] then created else t | None \<Rightarrow> created),
      ob_created_at = created\<rparr>)))))))"

definition observation_key :: "trade_report \<Rightarrow> (string \<times> string \<times> string \<times> string \<times> string) option" where
  "observation_key r = (case (ob_entry_at r, ob_exit_at r) of
     (Some entry, Some exit) \<Rightarrow> Some (ob_family r, ob_symbol r, ob_status r, entry, exit) | _ \<Rightarrow> None)"

definition observation_insert :: "obj \<Rightarrow> string \<Rightarrow> (trade_report report_table, int) opr" where
  "observation_insert body created = bindO (liftO (observation_of created body)) (\<lambda>r l.
     case ledger_put observation_key r l of (i, l') \<Rightarrow> (Inr i, l'))"

definition observation_json :: "int \<times> trade_report \<Rightarrow> obj" where
  "observation_json = (\<lambda>(i, r). [(''id'', JInt i), (''family_id'', JStr (ob_family r)), (''strategy_version_id'', JStr (ob_version r)),
     (''spec_fingerprint'', JStr (ob_fingerprint r)), (''direction'', JStr (ob_direction r)), (''symbol'', JStr (ob_symbol r)),
     (''signal_at'', JStr (ob_signal_at r)), (''entry_at'', of_opt (ob_entry_at r)), (''exit_at'', of_opt (ob_exit_at r)),
     (''entry_price'', opt_float (ob_entry_price r)), (''exit_price'', opt_float (ob_exit_price r)), (''qty'', opt_float (ob_qty r)),
     (''pnl'', opt_float (ob_pnl r)), (''pnl_pct'', opt_float (ob_pnl_pct r)), (''fees'', opt_float (ob_fees r)),
     (''status'', JStr (ob_status r)), (''reason'', of_opt (ob_reason r)), (''reported_at'', JStr (ob_reported_at r)),
     (''created_at'', JStr (ob_created_at r))])"

definition observations_listed :: "string \<Rightarrow> nat \<Rightarrow> trade_report report_table \<Rightarrow> obj list" where
  "observations_listed family limit l = map observation_json (newest_rows limit ob_created_at (filter (\<lambda>(_, r). ob_family r = family) (lg_rows l)))"

section \<open>Hypotheses\<close>

record failure_hypothesis =
  fh_family :: string
  fh_hypothesis :: string
  fh_fingerprint :: string
  fh_pattern :: string
  fh_status :: string
  fh_statement :: string
  fh_trades :: int
  fh_confidence :: "pyfloat option"
  fh_evidence :: json
  fh_expected :: "string option"
  fh_verification :: "json list"
  fh_generated_at :: string
  fh_created_at :: string

definition hypothesis_fields :: "string list" where
  "hypothesis_fields = [''family_id'', ''hypothesis_id'', ''fingerprint'', ''pattern_type'', ''status'', ''statement'', ''trade_count'',
     ''evidence'', ''verification_required'', ''generated_at'']"

text \<open>\<open>_opt_str\<close> drops blank text, \<open>_opt_float\<close> and \<open>_opt_int\<close> what is no number; a number too large still raises.\<close>

definition nonblank :: "json \<Rightarrow> string option" where
  "nonblank j = (case jopt_str j of Some t \<Rightarrow> if strip t = [] then None else Some t | None \<Rightarrow> None)"

definition lenient :: "'a option res \<Rightarrow> 'a option res" where
  "lenient r = (case r of Inl (TypeError _) \<Rightarrow> Inr None | Inl (ValueError _) \<Rightarrow> Inr None | _ \<Rightarrow> r)"

definition hypothesis_of :: "string \<Rightarrow> obj \<Rightarrow> failure_hypothesis res" where
  "hypothesis_of created body =
    bindR (require_fields ''hypothesis'' hypothesis_fields body) (\<lambda>_.
    bindR (jint (jget body ''trade_count'')) (\<lambda>trades.
    bindR (lenient (optional_float (jget body ''confidence''))) (\<lambda>confidence.
    bindR (list_of (jget body ''verification_required'')) (\<lambda>verification.
    bindR (int_column trades) (\<lambda>trades.
    Inr \<lparr>fh_family = str_field body ''family_id'', fh_hypothesis = str_field body ''hypothesis_id'',
      fh_fingerprint = str_field body ''fingerprint'', fh_pattern = str_field body ''pattern_type'', fh_status = str_field body ''status'',
      fh_statement = str_field body ''statement'', fh_trades = trades, fh_confidence = real_column confidence,
      fh_evidence = jcanon (jget body ''evidence''), fh_expected = nonblank (jget body ''expected_improvement''),
      fh_verification = verification, fh_generated_at = str_field body ''generated_at'', fh_created_at = created\<rparr>)))))"

definition hypothesis_key :: "failure_hypothesis \<Rightarrow> (string \<times> string) option" where
  "hypothesis_key r = Some (fh_family r, fh_fingerprint r)"

definition hypothesis_insert :: "obj \<Rightarrow> string \<Rightarrow> (failure_hypothesis report_table, int) opr" where
  "hypothesis_insert body created = bindO (liftO (hypothesis_of created body)) (\<lambda>r l.
     case ledger_put hypothesis_key r l of (i, l') \<Rightarrow> (Inr i, l'))"

definition hypothesis_json :: "int \<times> failure_hypothesis \<Rightarrow> obj" where
  "hypothesis_json = (\<lambda>(i, r). [(''id'', JInt i), (''family_id'', JStr (fh_family r)), (''hypothesis_id'', JStr (fh_hypothesis r)),
     (''fingerprint'', JStr (fh_fingerprint r)), (''pattern_type'', JStr (fh_pattern r)), (''status'', JStr (fh_status r)),
     (''statement'', JStr (fh_statement r)), (''trade_count'', JInt (fh_trades r)), (''confidence'', opt_float (fh_confidence r)),
     (''expected_improvement'', of_opt (fh_expected r)), (''generated_at'', JStr (fh_generated_at r)), (''created_at'', JStr (fh_created_at r)),
     (''evidence'', fh_evidence r), (''verification_required'', JArr (fh_verification r))])"

definition hypotheses_listed :: "string \<Rightarrow> nat \<Rightarrow> failure_hypothesis report_table \<Rightarrow> obj list" where
  "hypotheses_listed family limit l = map hypothesis_json (newest_rows limit fh_created_at (filter (\<lambda>(_, r). fh_family r = family) (lg_rows l)))"

definition hypotheses_to_test :: "string \<Rightarrow> nat \<Rightarrow> failure_hypothesis report_table \<Rightarrow> obj list" where
  "hypotheses_to_test family limit l = map hypothesis_json
     (newest_rows limit fh_created_at (filter (\<lambda>(_, r). fh_family r = family \<and> fh_status r = ''candidate'') (lg_rows l)))"

section \<open>Backtest results\<close>

record backtest_row =
  bk_family :: string
  bk_hypothesis :: string
  bk_hypothesis_fingerprint :: string
  bk_fingerprint :: string
  bk_verdict :: string
  bk_metrics :: json
  bk_source :: string
  bk_period_start :: "string option"
  bk_period_end :: "string option"
  bk_symbols :: "int option"
  bk_fee :: "pyfloat option"
  bk_slippage :: "string option"
  bk_oos :: bool
  bk_tested_at :: string
  bk_created_at :: string

definition backtest_fields :: "string list" where
  "backtest_fields = [''family_id'', ''hypothesis_id'', ''hypothesis_fingerprint'', ''backtest_fingerprint'', ''verdict'', ''metrics'',
     ''data_source'', ''tested_at'']"

definition valid_verdicts :: "string list" where
  "valid_verdicts = [''pass'', ''fail'', ''insufficient_data'', ''needs_revalidation'']"

definition backtest_of :: "string \<Rightarrow> obj \<Rightarrow> backtest_row res" where
  "backtest_of created body =
    bindR (require_fields ''backtest result'' backtest_fields body) (\<lambda>_.
    bindR (guardR (str_field body ''verdict'' \<in> set valid_verdicts)
      (ValueError (''verdict must be one of ('' @ join '', '' (map py_repr_str valid_verdicts) @ ''), got '' @ py_repr_str (str_field body ''verdict'')))) (\<lambda>_.
    bindR (lenient (optional_int (jget body ''symbols_processed''))) (\<lambda>symbols.
    bindR (lenient (optional_float (jget body ''fee_assumption_pct''))) (\<lambda>fee.
    bindR (case symbols of None \<Rightarrow> Inr None | Some n \<Rightarrow> bindR (int_column n) (\<lambda>n. Inr (Some n))) (\<lambda>symbols.
    Inr \<lparr>bk_family = str_field body ''family_id'', bk_hypothesis = str_field body ''hypothesis_id'',
      bk_hypothesis_fingerprint = str_field body ''hypothesis_fingerprint'', bk_fingerprint = str_field body ''backtest_fingerprint'',
      bk_verdict = str_field body ''verdict'', bk_metrics = jcanon (jget body ''metrics''), bk_source = str_field body ''data_source'',
      bk_period_start = nonblank (jget body ''data_period_start''), bk_period_end = nonblank (jget body ''data_period_end''),
      bk_symbols = symbols, bk_fee = real_column fee, bk_slippage = nonblank (jget body ''slippage_note''),
      bk_oos = jtruthy (jget body ''oos_validated''), bk_tested_at = str_field body ''tested_at'', bk_created_at = created\<rparr>)))))"

definition backtest_key :: "backtest_row \<Rightarrow> (string \<times> string) option" where
  "backtest_key r = Some (bk_family r, bk_fingerprint r)"

definition backtest_insert :: "obj \<Rightarrow> string \<Rightarrow> (backtest_row report_table, int) opr" where
  "backtest_insert body created = bindO (liftO (backtest_of created body)) (\<lambda>r l.
     case ledger_put backtest_key r l of (i, l') \<Rightarrow> (Inr i, l'))"

definition backtest_json :: "int \<times> backtest_row \<Rightarrow> obj" where
  "backtest_json = (\<lambda>(i, r). [(''id'', JInt i), (''family_id'', JStr (bk_family r)), (''hypothesis_id'', JStr (bk_hypothesis r)),
     (''hypothesis_fingerprint'', JStr (bk_hypothesis_fingerprint r)), (''backtest_fingerprint'', JStr (bk_fingerprint r)),
     (''verdict'', JStr (bk_verdict r)), (''data_source'', JStr (bk_source r)), (''data_period_start'', of_opt (bk_period_start r)),
     (''data_period_end'', of_opt (bk_period_end r)), (''symbols_processed'', opt_int (bk_symbols r)), (''fee_assumption_pct'', opt_float (bk_fee r)),
     (''slippage_note'', of_opt (bk_slippage r)), (''oos_validated'', JBool (bk_oos r)), (''tested_at'', JStr (bk_tested_at r)),
     (''created_at'', JStr (bk_created_at r)), (''metrics'', bk_metrics r)])"

definition backtests_listed :: "string \<Rightarrow> nat \<Rightarrow> backtest_row report_table \<Rightarrow> obj list" where
  "backtests_listed family limit l = map backtest_json (newest_rows limit bk_created_at (filter (\<lambda>(_, r). bk_family r = family) (lg_rows l)))"

definition backtests_of_hypothesis :: "string \<Rightarrow> string \<Rightarrow> nat \<Rightarrow> backtest_row report_table \<Rightarrow> obj list" where
  "backtests_of_hypothesis family fingerprint limit l = map backtest_json
     (newest_rows limit bk_created_at (filter (\<lambda>(_, r). bk_family r = family \<and> bk_hypothesis_fingerprint r = fingerprint) (lg_rows l)))"

definition backtests_passed :: "string \<Rightarrow> nat \<Rightarrow> backtest_row report_table \<Rightarrow> obj list" where
  "backtests_passed family limit l = map backtest_json
     (newest_rows limit bk_created_at (filter (\<lambda>(_, r). bk_family r = family \<and> bk_verdict r = ''pass'') (lg_rows l)))"

definition backtest_find :: "string \<Rightarrow> string \<Rightarrow> backtest_row report_table \<Rightarrow> (int \<times> backtest_row) option" where
  "backtest_find family fingerprint l = find (\<lambda>(_, r). bk_family r = family \<and> bk_fingerprint r = fingerprint) (lg_rows l)"

section \<open>The contract of a ledger\<close>

text \<open>
  What a reporting client may rely on: rows and ids stay as they are, the id it is given is that of a row with
  what it reported, and reporting the same again changes nothing and is answered the same, whatever was
  reported in between.
\<close>

locale report_ledger =
  fixes put :: "'r \<Rightarrow> 's \<Rightarrow> int \<times> 's"
    and rows :: "'s \<Rightarrow> (int \<times> 'r) list"
    and same_report :: "'r \<Rightarrow> 'r \<Rightarrow> bool"
    and ok :: "'s \<Rightarrow> bool"
  assumes put_ok: "ok s \<Longrightarrow> ok (snd (put r s))"
    and put_adds: "ok s \<Longrightarrow> snd (put r s) = s \<or> (\<exists>i. rows (snd (put r s)) = rows s @ [(i, r)])"
    and put_answers: "ok s \<Longrightarrow> \<exists>r'. (fst (put r s), r') \<in> set (rows (snd (put r s))) \<and> (r' = r \<or> same_report r' r)"
    and known: "ok s \<Longrightarrow> (i, r') \<in> set (rows s) \<Longrightarrow> same_report r' r \<Longrightarrow> put r s = (i, s)"
    and same_trans: "same_report r'' r' \<Longrightarrow> same_report r' r \<Longrightarrow> same_report r'' r"
begin

definition stored_reports :: "'r list \<Rightarrow> 's \<Rightarrow> 's" where
  "stored_reports rs s = fold (\<lambda>r s. snd (put r s)) rs s"

lemma stored_reports_ok: "ok s \<Longrightarrow> ok (stored_reports rs s)"
  unfolding stored_reports_def by (induction rs arbitrary: s) (simp_all add: put_ok)

lemma rows_stay: "ok s \<Longrightarrow> \<exists>new. rows (stored_reports rs s) = rows s @ new"
  unfolding stored_reports_def
proof (induction rs arbitrary: s)
  case (Cons r rs)
  obtain new where "rows (fold (\<lambda>r s. snd (put r s)) rs (snd (put r s))) = rows (snd (put r s)) @ new"
    using Cons.IH [OF put_ok [OF Cons.prems]] by blast
  then show ?case using put_adds [OF Cons.prems, of r] by auto
qed simp

lemma repeated:
  assumes "ok s" and "same_report r r'"
  shows "put r' (stored_reports rs (snd (put r s))) = (fst (put r s), stored_reports rs (snd (put r s)))"
proof -
  have ok: "ok (snd (put r s))" using assms(1) by (rule put_ok)
  obtain q where q: "(fst (put r s), q) \<in> set (rows (snd (put r s)))" "q = r \<or> same_report q r" using put_answers [OF assms(1)] by blast
  have "(fst (put r s), q) \<in> set (rows (stored_reports rs (snd (put r s))))" using q(1) rows_stay [OF ok, of rs] by auto
  then show ?thesis using known [OF stored_reports_ok [OF ok]] q(2) assms(2) same_trans by blast
qed

end

definition ledger_ok :: "('r \<Rightarrow> 'k option) \<Rightarrow> 'r report_table \<Rightarrow> bool" where
  "ledger_ok key l \<longleftrightarrow> (\<forall>i r. (i, r) \<in> set (lg_rows l) \<longrightarrow> i \<le> lg_last l) \<and> sorted_wrt (<) (map fst (lg_rows l)) \<and>
     (\<forall>i r j q. (i, r) \<in> set (lg_rows l) \<longrightarrow> (j, q) \<in> set (lg_rows l) \<longrightarrow> key r \<noteq> None \<longrightarrow> key r = key q \<longrightarrow> i = j \<and> r = q)"

definition same_key :: "('r \<Rightarrow> 'k option) \<Rightarrow> 'r \<Rightarrow> 'r \<Rightarrow> bool" where
  "same_key key r q \<longleftrightarrow> key r \<noteq> None \<and> key r = key q"

lemma find_cases:
  obtains (found) x where "find P xs = Some x" "x \<in> set xs" "P x" | (nothing) "find P xs = None" "\<And>x. x \<in> set xs \<Longrightarrow> \<not> P x"
  by (cases "find P xs") (auto simp: find_None_iff find_Some_iff)

lemma find_SomeD: "find P xs = Some x \<Longrightarrow> x \<in> set xs \<and> P x"
  by (cases rule: find_cases [of P xs]) auto

lemma ledger_put_cases:
  obtains (known) i q where "(i, q) \<in> set (lg_rows l)" "same_key key q r" "ledger_put key r l = (i, l)"
  | (new) "\<And>i q. (i, q) \<in> set (lg_rows l) \<Longrightarrow> \<not> same_key key q r"
      "ledger_put key r l = (lg_last l + 1, \<lparr>lg_rows = lg_rows l @ [(lg_last l + 1, r)], lg_last = lg_last l + 1\<rparr>)"
proof -
  define P where "P = (\<lambda>(_ :: int, r'). key r \<noteq> None \<and> key r' = key r)"
  have P: "P (i, q) \<longleftrightarrow> same_key key q r" for i q unfolding P_def same_key_def prod.case by metis
  have put: "ledger_put key r l = (case find P (lg_rows l) of Some (i, _) \<Rightarrow> (i, l)
     | None \<Rightarrow> (lg_last l + 1, \<lparr>lg_rows = lg_rows l @ [(lg_last l + 1, r)], lg_last = lg_last l + 1\<rparr>))"
    by (simp only: ledger_put_def P_def)
  show thesis
  proof (cases rule: find_cases [of P "lg_rows l"])
    case (found x)
    then show thesis using P put by (cases x) (auto intro: known)
  next
    case nothing
    then show thesis using P put by (auto intro: new)
  qed
qed

lemma ledger_unique:
  "ledger_ok key l \<Longrightarrow> (i, r) \<in> set (lg_rows l) \<Longrightarrow> (j, q) \<in> set (lg_rows l) \<Longrightarrow> same_key key r q \<Longrightarrow> i = j \<and> r = q"
  unfolding ledger_ok_def same_key_def by blast

lemma ledger_put_ok:
  assumes "ledger_ok key l"
  shows "ledger_ok key (snd (ledger_put key r l))"
proof (cases rule: ledger_put_cases [of l key r])
  case new
  have le: "(i, q) \<in> set (lg_rows l) \<Longrightarrow> i \<le> lg_last l" for i q using assms unfolding ledger_ok_def by blast
  have other: "key r \<noteq> None \<Longrightarrow> (i, q) \<in> set (lg_rows l) \<Longrightarrow> key q \<noteq> key r" for i q using new(1) [of i q] by (auto simp: same_key_def)
  have "\<forall>p \<in> set (lg_rows l). fst p < lg_last l + 1" using le by force
  moreover have "sorted_wrt (<) (map fst (lg_rows l))" using assms by (simp add: ledger_ok_def)
  ultimately have "sorted_wrt (<) (map fst (lg_rows l @ [(lg_last l + 1, r)]))" by (simp add: sorted_wrt_append)
  moreover have "i = j \<and> q = p" if "(i, q) \<in> set (lg_rows l @ [(lg_last l + 1, r)])" "(j, p) \<in> set (lg_rows l @ [(lg_last l + 1, r)])"
      "key q \<noteq> None" "key q = key p" for i q j p
  proof (cases "(i, q) = (lg_last l + 1, r) \<or> (j, p) = (lg_last l + 1, r)")
    case True
    then show ?thesis using that other [of i q] other [of j p] by (elim disjE) (simp_all, metis+)
  next
    case False
    then show ?thesis using that ledger_unique [OF assms, of i q j p] by (auto simp: same_key_def)
  qed
  moreover have "i \<le> lg_last l + 1" if "(i, q) \<in> set (lg_rows l @ [(lg_last l + 1, r)])" for i q using that le [of i q] by auto
  ultimately show ?thesis unfolding new(2) ledger_ok_def snd_conv report_table.simps by blast
qed (simp add: assms)

lemma ledger_is_report: "report_ledger (ledger_put key) lg_rows (same_key key) (ledger_ok key)"
proof
  fix r l assume ok: "ledger_ok key l"
  show "ledger_ok key (snd (ledger_put key r l))" using ok by (rule ledger_put_ok)
  show "snd (ledger_put key r l) = l \<or> (\<exists>i. lg_rows (snd (ledger_put key r l)) = lg_rows l @ [(i, r)])"
    by (cases rule: ledger_put_cases [of l key r]) simp_all
  show "\<exists>r'. (fst (ledger_put key r l), r') \<in> set (lg_rows (snd (ledger_put key r l))) \<and> (r' = r \<or> same_key key r' r)"
    by (cases rule: ledger_put_cases [of l key r]) auto
next
  fix l i r' r assume ok: "ledger_ok key l" and r': "(i, r') \<in> set (lg_rows l)" "same_key key r' r"
  show "ledger_put key r l = (i, l)"
  proof (cases rule: ledger_put_cases [of l key r])
    case (known j q)
    then have "same_key key q r'" using r'(2) unfolding same_key_def by metis
    then have "j = i" using ledger_unique [OF ok known(1) r'(1)] by simp
    then show ?thesis using known by simp
  next
    case new
    then show ?thesis using r' by simp
  qed
qed (unfold same_key_def, metis)

interpretation observations: report_ledger "ledger_put observation_key" lg_rows "same_key observation_key" "ledger_ok observation_key"
  by (rule ledger_is_report)

interpretation hypotheses: report_ledger "ledger_put hypothesis_key" lg_rows "same_key hypothesis_key" "ledger_ok hypothesis_key"
  by (rule ledger_is_report)

interpretation backtests: report_ledger "ledger_put backtest_key" lg_rows "same_key backtest_key" "ledger_ok backtest_key"
  by (rule ledger_is_report)

lemma ledger_put_keyless: "key r = None \<Longrightarrow> length (lg_rows (snd (ledger_put key r l))) = Suc (length (lg_rows l))"
  by (cases rule: ledger_put_cases [of l key r]) (auto simp: same_key_def)

section \<open>What a report does\<close>

lemma insert_run:
  "observation_insert body created l = (case observation_of created body of Inl e \<Rightarrow> (Inl e, l)
     | Inr r \<Rightarrow> (Inr (fst (ledger_put observation_key r l)), snd (ledger_put observation_key r l)))"
  "hypothesis_insert body created l' = (case hypothesis_of created body of Inl e \<Rightarrow> (Inl e, l')
     | Inr r \<Rightarrow> (Inr (fst (ledger_put hypothesis_key r l')), snd (ledger_put hypothesis_key r l')))"
  "backtest_insert body created l'' = (case backtest_of created body of Inl e \<Rightarrow> (Inl e, l'')
     | Inr r \<Rightarrow> (Inr (fst (ledger_put backtest_key r l'')), snd (ledger_put backtest_key r l'')))"
  by (auto simp: observation_insert_def hypothesis_insert_def backtest_insert_def bindO_apply split: sum.splits prod.splits)

text \<open>A ledger after a sequence of reports, each with the time it is received at.\<close>

definition observations_after :: "(obj \<times> string) list \<Rightarrow> trade_report report_table \<Rightarrow> trade_report report_table" where
  "observations_after reports l = fold (\<lambda>(body, t) l. snd (observation_insert body t l)) reports l"

definition backtests_after :: "(obj \<times> string) list \<Rightarrow> backtest_row report_table \<Rightarrow> backtest_row report_table" where
  "backtests_after reports l = fold (\<lambda>(body, t) l. snd (backtest_insert body t l)) reports l"

definition accepted_rows :: "(string \<Rightarrow> obj \<Rightarrow> 'r res) \<Rightarrow> (obj \<times> string) list \<Rightarrow> 'r list" where
  "accepted_rows of_body reports = List.map_filter (\<lambda>(body, t). case of_body t body of Inl e \<Rightarrow> None | Inr r \<Rightarrow> Some r) reports"

lemma observations_after_eq: "observations_after reports l = observations.stored_reports (accepted_rows observation_of reports) l"
  unfolding observations_after_def observations.stored_reports_def accepted_rows_def
  by (induction reports arbitrary: l) (auto simp: insert_run List.map_filter_simps split: sum.splits)

lemma backtests_after_eq: "backtests_after reports l = backtests.stored_reports (accepted_rows backtest_of reports) l"
  unfolding backtests_after_def backtests.stored_reports_def accepted_rows_def
  by (induction reports arbitrary: l) (auto simp: insert_run List.map_filter_simps split: sum.splits)

lemma ledger_empty_ok: "ledger_ok key ledger_empty"
  by (simp add: ledger_ok_def ledger_empty_def)

text \<open>The time of receipt decides only about the time a report carries.\<close>

lemma observation_of_later:
  "observation_of t body = Inr r \<Longrightarrow> observation_of t' body = Inr (r\<lparr>ob_created_at := t', ob_reported_at :=
     (case jopt_str (jget body ''reported_at'') of Some t \<Rightarrow> if t = [] then t' else t | None \<Rightarrow> t')\<rparr>)"
  by (auto simp: observation_of_def bindR_Inr_iff)

lemma backtest_of_later: "backtest_of t body = Inr r \<Longrightarrow> backtest_of t' body = Inr (r\<lparr>bk_created_at := t'\<rparr>)"
  by (auto simp: backtest_of_def bindR_Inr_iff)

lemma later_keys [simp]:
  "observation_key (r\<lparr>ob_created_at := t, ob_reported_at := u\<rparr>) = observation_key r"
  "backtest_key (b\<lparr>bk_created_at := t\<rparr>) = backtest_key b"
  by (simp_all add: observation_key_def backtest_key_def split: option.split)

section \<open>Reporting again\<close>

text \<open>
  C31: a report that is sent again is counted once. After any reports, and any others in between, the same body
  is answered with the same id and changes nothing, at any time: a backtest result always, a trade
  observation when it has an entry and an exit time; without one it is stored again.
\<close>

theorem repeated_reports:
  "(case backtest_insert body t (backtests_after before ledger_empty) of (Inl e, _) \<Rightarrow> True
    | (Inr i, l) \<Rightarrow> backtest_insert body t' (backtests_after between l) = (Inr i, backtests_after between l)) \<and>
   (case observation_insert body t (observations_after before ledger_empty) of (Inl e, _) \<Rightarrow> True
    | (Inr i, l) \<Rightarrow> if jget body ''entry_at'' = JNull \<or> jget body ''exit_at'' = JNull
        then length (lg_rows (snd (observation_insert body t' (observations_after between l)))) = Suc (length (lg_rows (observations_after between l)))
        else observation_insert body t' (observations_after between l) = (Inr i, observations_after between l))"
proof
  note ok = ledger_empty_ok [of backtest_key, THEN backtests.stored_reports_ok, of "accepted_rows backtest_of before", folded backtests_after_eq]
  show "case backtest_insert body t (backtests_after before ledger_empty) of (Inl e, _) \<Rightarrow> True
    | (Inr i, l) \<Rightarrow> backtest_insert body t' (backtests_after between l) = (Inr i, backtests_after between l)"
  proof (cases "backtest_of t body")
    case (Inr r)
    have "same_key backtest_key r (r\<lparr>bk_created_at := t'\<rparr>)" by (simp add: same_key_def) (simp add: backtest_key_def)
    from backtests.repeated [OF ok this] show ?thesis
      by (simp add: insert_run Inr backtest_of_later [OF Inr, of t'] backtests_after_eq)
  qed (simp add: insert_run)
next
  note ok = ledger_empty_ok [of observation_key, THEN observations.stored_reports_ok, of "accepted_rows observation_of before", folded observations_after_eq]
  show "case observation_insert body t (observations_after before ledger_empty) of (Inl e, _) \<Rightarrow> True
    | (Inr i, l) \<Rightarrow> if jget body ''entry_at'' = JNull \<or> jget body ''exit_at'' = JNull
        then length (lg_rows (snd (observation_insert body t' (observations_after between l)))) = Suc (length (lg_rows (observations_after between l)))
        else observation_insert body t' (observations_after between l) = (Inr i, observations_after between l)"
  proof (cases "observation_of t body")
    case (Inr r)
    let ?r = "r\<lparr>ob_created_at := t', ob_reported_at := (case jopt_str (jget body ''reported_at'') of Some t \<Rightarrow> if t = [] then t' else t | None \<Rightarrow> t')\<rparr>"
    have times: "ob_entry_at r = jopt_str (jget body ''entry_at'')" "ob_exit_at r = jopt_str (jget body ''exit_at'')"
      using Inr by (auto simp: observation_of_def bindR_Inr_iff)
    have none: "jopt_str j = None \<longleftrightarrow> j = JNull" for j by (cases j) (simp_all add: jopt_str_def)
    show ?thesis
    proof (cases "jget body ''entry_at'' = JNull \<or> jget body ''exit_at'' = JNull")
      case True
      then have "observation_key ?r = None" by (auto simp: observation_key_def times jopt_str_def split: option.splits)
      then show ?thesis using True by (simp add: insert_run Inr observation_of_later [OF Inr, of t'] ledger_put_keyless)
    next
      case False
      then have "observation_key r \<noteq> None" using none by (auto simp: observation_key_def times split: option.splits)
      then have "same_key observation_key r ?r" by (simp add: same_key_def)
      from observations.repeated [OF ok this] show ?thesis using False
        by (simp add: insert_run Inr observation_of_later [OF Inr, of t'] observations_after_eq)
    qed
  qed (simp add: insert_run)
qed

end
