(* ===== verification/PaperResearch.thy ===== *)
theory PaperResearch
  imports PaperLedger
begin

text \<open>
  The paper research loop of \<open>runtime/web_api.py\<close>: an execution engine reports trades, an external job reports
  hypotheses and backtest results, each result leaves a research memory (\<open>research/self_improving.py\<close>), and a
  passed result can be registered as a version that may be activated. None of these routes asks who calls.
\<close>

section \<open>The aggregate of a family\<close>

definition finite_float :: "pyfloat \<Rightarrow> bool" where
  "finite_float x \<longleftrightarrow> (case x of Fin q \<Rightarrow> True | _ \<Rightarrow> False)"

datatype trade_check = MISMATCH | UNVERIFIED_FILL | VERIFIED_FILL

text \<open>
  One closed row with its result: does the price difference explain it? The direction is tested in upper
  case first and compared as it is afterwards.
\<close>

definition check_trade :: "trade_report \<Rightarrow> pyfloat \<Rightarrow> trade_check" where
  "check_trade r pnl =
    (if \<not> finite_float pnl then MISMATCH
     else case (ob_entry_price r, ob_exit_price r, ob_qty r) of
       (Some entry, Some exit, Some qty) \<Rightarrow>
         if upper (ob_direction r) \<noteq> ''LONG'' \<and> upper (ob_direction r) \<noteq> ''SHORT'' then UNVERIFIED_FILL
         else let qty = fabs qty in
           if \<not> list_all finite_float [entry, exit, qty] \<or> fle entry (Fin 0) \<or> fle exit (Fin 0) \<or> fle qty (Fin 0) then MISMATCH
           else let implied = fmul (fmul (fsub exit entry) qty) (Fin (if ob_direction r = ''LONG'' then 1 else - 1));
                    tolerance = fmax (Fin 1) (fmul (fmul (fl (2 / 100)) entry) qty) in
             if fgt (fabs (fsub pnl implied)) tolerance then MISMATCH else VERIFIED_FILL
     | _ \<Rightarrow> UNVERIFIED_FILL)"

text \<open>The query names no order; rows come in the order of their ids. Another order could only round the sums differently.\<close>

definition closed_trades :: "string \<Rightarrow> trade_report report_table \<Rightarrow> (trade_report \<times> pyfloat) list" where
  "closed_trades family l = List.map_filter (\<lambda>(_, r). if ob_family r = family \<and> ob_status r = ''closed'' then map_option (Pair r) (ob_pnl r) else None)
     (lg_rows l)"

definition eligible_trades :: "string \<Rightarrow> trade_report report_table \<Rightarrow> (trade_report \<times> pyfloat) list" where
  "eligible_trades family l = filter (\<lambda>(r, pnl). check_trade r pnl \<noteq> MISMATCH) (closed_trades family l)"

definition mean_of :: "pyfloat list \<Rightarrow> json" where
  "mean_of xs = (if xs = [] then JNull else
     case bindR (float_of_int (int (length xs))) (fdiv (fsum xs)) of Inl e \<Rightarrow> JNull | Inr m \<Rightarrow> JFloat m)"

definition profit_factor :: "pyfloat list \<Rightarrow> json" where
  "profit_factor pnls = (let loss = fneg (fsum (filter (\<lambda>p. flt p (Fin 0)) pnls)) in
     if fgt loss (Fin 0) then (case fdiv (fsum (filter (\<lambda>p. fgt p (Fin 0)) pnls)) loss of Inl e \<Rightarrow> JNull | Inr q \<Rightarrow> JFloat q) else JNull)"

definition status_counts :: "string \<Rightarrow> trade_report report_table \<Rightarrow> obj" where
  "status_counts family l = (let rows = filter (\<lambda>r. ob_family r = family) (map snd (lg_rows l)) in
     map (\<lambda>s. (s, JInt (int (length (filter (\<lambda>r. ob_status r = s) rows))))) (sort (remdups (map ob_status rows))))"

definition aggregate_for_family :: "string \<Rightarrow> trade_report report_table \<Rightarrow> obj" where
  "aggregate_for_family family l =
    (let closed = closed_trades family l; pnls = map snd (eligible_trades family l);
         pcts = filter finite_float (List.map_filter (ob_pnl_pct \<circ> fst) (eligible_trades family l));
         wins = filter (\<lambda>p. fgt p (Fin 0)) pnls; losses = filter (\<lambda>p. flt p (Fin 0)) pnls;
         count = (\<lambda>c. JInt (int (length (filter (\<lambda>(r, pnl). check_trade r pnl = c) closed)))) in
     [(''family_id'', JStr family), (''closed_trade_count'', JInt (int (length pnls))), (''win_count'', JInt (int (length wins))),
      (''loss_count'', JInt (int (length losses))),
      (''win_rate'', if pnls = [] then JNull else JFloat (fl (of_nat (length wins) / of_nat (length pnls)))),
      (''profit_factor'', profit_factor pnls), (''mean_pnl'', mean_of pnls), (''mean_pnl_pct'', mean_of pcts),
      (''total_pnl'', JFloat (fsum pnls)), (''status_counts'', JObj (status_counts family l)),
      (''excluded_price_pnl_mismatch_count'', count MISMATCH), (''unverified_fill_price_count'', count UNVERIFIED_FILL),
      (''promotion_evidence_ready'', JBool False)])"

section \<open>Research memories\<close>

record research_memory =
  me_id :: string
  me_family :: string
  me_market :: string
  me_timeframe :: string
  me_hypothesis :: string
  me_result :: string
  me_critic :: string
  me_improvement :: string
  me_status :: string
  me_tags :: "string list"
  me_created_at :: string
  me_source_run :: string
  me_fingerprint :: string
  me_source_refs :: "string list"

text \<open>The id is the key of the table, the fingerprint unique in it.\<close>

definition memory_add :: "research_memory \<Rightarrow> (research_memory list, unit) opr" where
  "memory_add e = bindO (getO (\<lambda>ms. list_ex (\<lambda>m. me_id m = me_id e \<or> me_fingerprint m = me_fingerprint e) ms)) (\<lambda>taken.
     if taken then raiseO (IntegrityError ''UNIQUE constraint failed'') else modO (\<lambda>ms. ms @ [e]))"

definition memory_find :: "string \<Rightarrow> research_memory list \<Rightarrow> research_memory option" where
  "memory_find fingerprint ms = find (\<lambda>m. me_fingerprint m = fingerprint) ms"

definition memory_instant :: "research_memory \<Rightarrow> int res" where
  "memory_instant m = bindR (dt_fromisoformat (replace_all ''Z'' ''+00:00'' (me_created_at m))) (\<lambda>t.
     if dt_off t = None then Inr (instant t) else utc_instant t)"

text \<open>Newest first by instant; equal instants in reverse order of insertion.\<close>

definition memories_newest_first :: "research_memory list \<Rightarrow> research_memory list res" where
  "memories_newest_first ms = bindR (mapR (\<lambda>m. bindR (memory_instant m) (\<lambda>i. Inr (i, m))) (rev ms)) (\<lambda>pairs.
     Inr (map snd (sort_key (\<lambda>(i, _). - i) pairs)))"

definition memories_of_family :: "string \<Rightarrow> research_memory list \<Rightarrow> research_memory list res" where
  "memories_of_family family ms = bindR (memories_newest_first ms) (\<lambda>sorted. Inr (if family = [] then sorted else filter (\<lambda>m. me_family m = family) sorted))"

section \<open>Services\<close>

record paper_db =
  pp_observations :: "trade_report report_table"
  pp_hypotheses :: "failure_hypothesis report_table"
  pp_backtests :: "backtest_row report_table"
  pp_memories :: "research_memory list"

definition on_observations :: "(trade_report report_table, 'a) opr \<Rightarrow> (paper_db, 'a) opr" where
  "on_observations m = (\<lambda>s. case m (pp_observations s) of (r, t) \<Rightarrow> (r, s\<lparr>pp_observations := t\<rparr>))"

definition on_hypotheses :: "(failure_hypothesis report_table, 'a) opr \<Rightarrow> (paper_db, 'a) opr" where
  "on_hypotheses m = (\<lambda>s. case m (pp_hypotheses s) of (r, t) \<Rightarrow> (r, s\<lparr>pp_hypotheses := t\<rparr>))"

definition on_backtests :: "(backtest_row report_table, 'a) opr \<Rightarrow> (paper_db, 'a) opr" where
  "on_backtests m = (\<lambda>s. case m (pp_backtests s) of (r, t) \<Rightarrow> (r, s\<lparr>pp_backtests := t\<rparr>))"

definition on_memories :: "(research_memory list, 'a) opr \<Rightarrow> (paper_db, 'a) opr" where
  "on_memories m = (\<lambda>s. case m (pp_memories s) of (r, t) \<Rightarrow> (r, s\<lparr>pp_memories := t\<rparr>))"

text \<open>\<open>str(exc)\<close>: that of a \<open>KeyError\<close> is the repr of its key.\<close>

definition exc_text :: "pyerr \<Rightarrow> string" where
  "exc_text e = (case e of ValueError m \<Rightarrow> m | KeyError m \<Rightarrow> py_repr_str m | TypeError m \<Rightarrow> m | PermissionError m \<Rightarrow> m
     | RuntimeError m \<Rightarrow> m | OverflowError m \<Rightarrow> m | ZeroDivisionError \<Rightarrow> ''division by zero'' | IntegrityError m \<Rightarrow> m | OtherError c m \<Rightarrow> m)"

definition as_value_error :: "string list \<Rightarrow> ('s, 'a) opr \<Rightarrow> ('s, 'a) opr" where
  "as_value_error classes m = catchO m (\<lambda>e. raiseO (if err_class e \<in> set classes then ValueError (exc_text e) else e))"

definition report_observation :: "obj \<Rightarrow> string \<Rightarrow> (paper_db, int) opr" where
  "report_observation body now = as_value_error [''KeyError''] (on_observations (observation_insert body now))"

definition propose_hypothesis :: "obj \<Rightarrow> string \<Rightarrow> (paper_db, int) opr" where
  "propose_hypothesis body now = as_value_error [''KeyError''] (on_hypotheses (hypothesis_insert body now))"

fun json_spaced :: "json \<Rightarrow> string" where
  "json_spaced (JArr xs) = ''['' @ join '', '' (map json_spaced xs) @ '']''"
| "json_spaced (JObj kvs) = ''{'' @ join '', '' (map (\<lambda>(k, v). json_str_text k @ '': '' @ json_spaced v) kvs) @ ''}''"
| "json_spaced j = json_text j"

definition backtest_memory :: "string \<Rightarrow> obj \<Rightarrow> string \<Rightarrow> research_memory" where
  "backtest_memory uuid body now =
    (let family = str_field body ''family_id''; fp = str_field body ''backtest_fingerprint''; verdict = str_field body ''verdict'';
         metrics = mapping_items (jget body ''metrics'') in
     \<lparr>me_id = ''memory:'' @ family @ '':backtest:'' @ uuid, me_family = family @ ''_hypothesis_backtest'', me_market = ''BINANCE'', me_timeframe = ''5m'',
      me_hypothesis = ''Backtest of '' @ str_field body ''hypothesis_id'' @ '' against real historical market data ('' @ str_field body ''data_source'' @
        '', '' @ str_field body ''data_period_start'' @ '' to '' @ str_field body ''data_period_end'' @ '', '' @ str_field body ''symbols_processed'' @ '' symbols).'',
      me_result = ''verdict='' @ verdict @ ''; metrics='' @ json_spaced (jcanon (JObj metrics)),
      me_critic = ''Backtest-only evidence from real historical data (out-of-sample where oos_validated=True) - not a Live/Paper promotion decision by itself. See paper_hypothesis_backtests for the full structured record. Fee assumption: ''
        @ str_field body ''fee_assumption_pct'' @ ''%% round-trip. '' @ str_field body ''slippage_note'' @ ''.'',
      me_improvement = (if verdict = ''pass''
        then ''verdict='' @ py_repr_str ''pass'' @ '' makes this eligible for a human to review for the existing, reviewed, one-off Paper forward-revalidation wiring (register_csm_48h_long.py'' @ [chr 39] @ ''s own pattern) - never auto-activated, never auto-promoted to Live.''
        else ''Does not currently clear the backtest gate (verdict='' @ verdict @ '') - see the structured metrics for the specific shortfall before considering this hypothesis further.''),
      me_status = (if verdict = ''pass'' then ''PENDING_HUMAN_REVIEW'' else upper verdict),
      me_tags = [family, ''hypothesis-backtest'', verdict, ''hypothesis_fingerprint:'' @ str_field body ''hypothesis_fingerprint''],
      me_created_at = now, me_source_run = ''hypothesis_backtest_report:'' @ now, me_fingerprint = ''backtest:'' @ fp,
      me_source_refs = [''gaon-web:/gaon/paper/hypothesis_backtests?family_id='' @ family]\<rparr>)"

definition record_backtest_memory :: "string \<Rightarrow> obj \<Rightarrow> string \<Rightarrow> (paper_db, unit) opr" where
  "record_backtest_memory uuid body now = on_memories (
     bindO (getO (memory_find (''backtest:'' @ str_field body ''backtest_fingerprint''))) (\<lambda>known.
     if known \<noteq> None then retO () else memory_add (backtest_memory uuid body now)))"

definition report_backtest :: "string \<Rightarrow> obj \<Rightarrow> string \<Rightarrow> (paper_db, int) opr" where
  "report_backtest uuid body now =
    bindO (as_value_error [''KeyError'', ''ValueError''] (on_backtests (backtest_insert body now))) (\<lambda>i.
    thenO (record_backtest_memory uuid body now) (retO i))"

section \<open>Registering a candidate\<close>

definition stripped_field :: "obj \<Rightarrow> string \<Rightarrow> string" where
  "stripped_field body f = strip (py_str (let j = jget body f in if jtruthy j then j else JStr []))"

definition unchanged_flags :: "bool \<Rightarrow> obj" where
  "unchanged_flags mutated = [(''strategy_mutated'', JBool mutated), (''order_executed'', JBool False), (''champion_promoted'', JBool False),
     (''approval_bypassed'', JBool False)]"

definition backtest_rules :: "backtest_row \<Rightarrow> obj" where
  "backtest_rules r = [(''hypothesis_id'', JStr (bk_hypothesis r)), (''data_source'', JStr (bk_source r)), (''data_period_start'', of_opt (bk_period_start r)),
     (''data_period_end'', of_opt (bk_period_end r)), (''symbols_processed'', opt_int (bk_symbols r)), (''fee_assumption_pct'', opt_float (bk_fee r)),
     (''slippage_note'', of_opt (bk_slippage r))]"

definition backtest_summary :: "string \<Rightarrow> backtest_row \<Rightarrow> obj" where
  "backtest_summary fp r = [(''status_note'', JStr ''backtest-only evidence (verdict=pass) - requires independent Paper forward verification, same as every other candidate in this registry''),
     (''backtest_fingerprint'', JStr fp), (''hypothesis_fingerprint'', JStr (bk_hypothesis_fingerprint r)), (''metrics'', bk_metrics r),
     (''oos_validated'', JBool (bk_oos r)), (''tested_at'', JStr (bk_tested_at r)),
     (''source'', JStr ''gaon_hypothesis_backtest.py (deterministic, real-market-data backtest - not an LLM judgment)'')]"

definition candidate_name :: "string \<Rightarrow> string \<Rightarrow> string" where
  "candidate_name family fp = ''candidate:'' @ family @ '':'' @ (if startswith fp ''sha256:'' then take 12 (drop 7 fp) else take 12 fp)"

definition registered_reply :: "string \<Rightarrow> strategy_version \<Rightarrow> bool \<Rightarrow> obj" where
  "registered_reply family v known = [(''schema_version'', JInt 1), (''family_id'', JStr family), (''strategy_version_id'', JStr (sv_id v)),
     (''status'', JStr (version_status_value (sv_status v))), (''already_registered'', JBool known)] @ unchanged_flags (\<not> known)"

text \<open>From the row on: nothing of it comes from the caller but the direction.\<close>

definition register_row :: "string \<Rightarrow> string \<Rightarrow> string \<Rightarrow> json \<Rightarrow> string \<Rightarrow> backtest_row \<Rightarrow> (version_store, obj) opr" where
  "register_row uuid family fp direction now row =
    bindO (getO (versions_get family)) (\<lambda>got.
    bindO (liftO got) (\<lambda>vs.
    case find (\<lambda>v. sv_fingerprint v = bk_hypothesis_fingerprint row) vs of
      Some v \<Rightarrow> retO (registered_reply family v True)
    | None \<Rightarrow>
        (case register_apply_ready uuid family (candidate_name family (bk_hypothesis_fingerprint row)) (bk_hypothesis_fingerprint row)
            (backtest_rules row) (backtest_summary fp row) now (if jtruthy direction then Some (py_str direction) else None) vs of
           (Inl e, _) \<Rightarrow> raiseO e
         | (Inr v, vs') \<Rightarrow> thenO (modO (versions_save family vs' now)) (retO (registered_reply family v False)))))"

text \<open>The ledger is only read; the state is the stored registries.\<close>

definition register_hypothesis_candidate :: "string \<Rightarrow> obj \<Rightarrow> string \<Rightarrow> backtest_row report_table \<Rightarrow> (version_store, obj) opr" where
  "register_hypothesis_candidate uuid body now backtests =
    (let family = stripped_field body ''family_id''; fp = stripped_field body ''backtest_fingerprint'' in
     thenO (liftO (guardR (family \<noteq> [] \<and> fp \<noteq> []) (ValueError ''family_id and backtest_fingerprint are required'')))
     (bindO (liftO (ofOption (ValueError ''no matching backtest row found for family_id/backtest_fingerprint'') (backtest_find family fp backtests))) (\<lambda>(_, row).
      thenO (liftO (guardR (bk_verdict row = ''pass'')
        (ValueError (''backtest row verdict is '' @ py_repr_str (bk_verdict row) @ '', not '' @ py_repr_str ''pass'' @ '' - nothing to register''))))
      (register_row uuid family fp (jget body ''direction'') now row))))"

section \<open>Routes\<close>

type_synonym web_reply = "int \<times> json"

definition web_error :: "string \<Rightarrow> web_reply" where
  "web_error message = (400, JObj [(''schema_version'', JInt 1), (''error'', JStr message)])"

definition missing_text :: "string list \<Rightarrow> string" where
  "missing_text missing = ''missing required field(s): '' @ py_repr (jstrs missing)"

text \<open>\<open>try: ... except (...) as exc: return 400, ... str(exc)\<close>.\<close>

definition or_400 :: "string list \<Rightarrow> ('s, web_reply) opr \<Rightarrow> ('s, web_reply) opr" where
  "or_400 classes m = catchO m (\<lambda>e. if err_class e \<in> set classes then retO (web_error (exc_text e)) else raiseO e)"

definition with_body :: "json \<Rightarrow> (obj \<Rightarrow> ('s, web_reply) opr) \<Rightarrow> ('s, web_reply) opr" where
  "with_body j f = (case j of JObj body \<Rightarrow> f body | _ \<Rightarrow> retO (web_error ''JSON object body is required''))"

definition paper_report_route :: "json \<Rightarrow> string \<Rightarrow> (paper_db, web_reply) opr" where
  "paper_report_route j now = with_body j (\<lambda>body.
     let missing = filter (\<lambda>f. strip (py_str (jget_or body f (JStr []))) = []) observation_fields in
     if missing \<noteq> [] then retO (web_error (missing_text missing))
     else or_400 [''TypeError'', ''ValueError''] (bindO (report_observation body now) (\<lambda>i.
       retO (200, JObj ([(''schema_version'', JInt 1), (''observation_id'', JInt i), (''family_id'', JStr (str_field body ''family_id'')),
         (''status'', JStr (str_field body ''status''))] @ unchanged_flags False)))))"

definition propose_route :: "json \<Rightarrow> string \<Rightarrow> (paper_db, web_reply) opr" where
  "propose_route j now = with_body j (\<lambda>body.
     let missing = absent hypothesis_fields body in
     if missing \<noteq> [] then retO (web_error (missing_text missing))
     else or_400 [''TypeError'', ''ValueError''] (bindO (propose_hypothesis body now) (\<lambda>i.
       retO (200, JObj ([(''schema_version'', JInt 1), (''hypothesis_db_id'', JInt i), (''family_id'', JStr (str_field body ''family_id'')),
         (''pattern_type'', JStr (str_field body ''pattern_type'')), (''status'', JStr (str_field body ''status''))] @ unchanged_flags False)))))"

definition backtest_result_route :: "string \<Rightarrow> json \<Rightarrow> string \<Rightarrow> (paper_db, web_reply) opr" where
  "backtest_result_route uuid j now = with_body j (\<lambda>body.
     let missing = absent backtest_fields body in
     if missing \<noteq> [] then retO (web_error (missing_text missing))
     else or_400 [''TypeError'', ''ValueError''] (bindO (report_backtest uuid body now) (\<lambda>i.
       retO (200, JObj ([(''schema_version'', JInt 1), (''backtest_id'', JInt i), (''family_id'', JStr (str_field body ''family_id'')),
         (''verdict'', JStr (str_field body ''verdict''))] @ unchanged_flags False)))))"

definition register_route :: "string \<Rightarrow> json \<Rightarrow> string \<Rightarrow> backtest_row report_table \<Rightarrow> (version_store, web_reply) opr" where
  "register_route uuid j now backtests = with_body j (\<lambda>body.
     or_400 [''ValueError'', ''KeyError''] (bindO (register_hypothesis_candidate uuid body now backtests) (\<lambda>reply. retO (200, JObj reply))))"

text \<open>The reading routes take the parsed query: \<open>parse_qs\<close> gives each name its values.\<close>

type_synonym url_query = "(string \<times> string list) list"

definition family_query :: "url_query \<Rightarrow> string option" where
  "family_query q = (case map_of q ''family_id'' of Some (v # vs) \<Rightarrow> (if strip v = [] then None else Some (strip v)) | _ \<Rightarrow> None)"

definition for_family :: "url_query \<Rightarrow> (string \<Rightarrow> web_reply res) \<Rightarrow> web_reply res" where
  "for_family q f = (case family_query q of None \<Rightarrow> Inr (web_error ''family_id query parameter is required'') | Some family \<Rightarrow> f family)"

definition family_page :: "string \<Rightarrow> obj \<Rightarrow> web_reply" where
  "family_page family content = (200, JObj ([(''schema_version'', JInt 1), (''family_id'', JStr family)] @ content @ unchanged_flags False))"

definition paper_summary_route :: "url_query \<Rightarrow> paper_db \<Rightarrow> web_reply res" where
  "paper_summary_route q s = for_family q (\<lambda>family. Inr (family_page family
     [(''aggregate'', JObj (aggregate_for_family family (pp_observations s))),
      (''recent_observations'', JArr (map JObj (observations_listed family 50 (pp_observations s))))]))"

definition hypotheses_route :: "url_query \<Rightarrow> paper_db \<Rightarrow> web_reply res" where
  "hypotheses_route q s = for_family q (\<lambda>family. Inr (family_page family
     [(''hypotheses'', JArr (map JObj (hypotheses_listed family 50 (pp_hypotheses s))))]))"

definition backtests_route :: "url_query \<Rightarrow> paper_db \<Rightarrow> web_reply res" where
  "backtests_route q s = for_family q (\<lambda>family. Inr (family_page family
     [(''backtests'', JArr (map JObj (backtests_listed family 50 (pp_backtests s)))),
      (''passed_pending_revalidation'', JArr (map JObj (backtests_passed family 50 (pp_backtests s))))]))"

definition memory_json :: "research_memory \<Rightarrow> obj" where
  "memory_json m = [(''memory_id'', JStr (me_id m)), (''fingerprint'', JStr (me_fingerprint m)), (''tags'', jstrs (me_tags m)),
     (''final_status'', JStr (me_status m)), (''created_at'', JStr (me_created_at m)), (''result_summary'', JStr (me_result m)),
     (''improvement_summary'', JStr (me_improvement m))]"

definition limit_query :: "url_query \<Rightarrow> int res" where
  "limit_query q = (case map_of q ''limit'' of Some (v # vs) \<Rightarrow> (if strip v = [] then Inr 20 else int_of_text v) | _ \<Rightarrow> Inr 20)"

definition memories_route :: "url_query \<Rightarrow> paper_db \<Rightarrow> web_reply res" where
  "memories_route q s = for_family q (\<lambda>family. case limit_query q of
     Inl e \<Rightarrow> Inr (web_error ''limit must be an integer'')
   | Inr limit \<Rightarrow> bindR (memories_of_family (family @ ''_hypothesis_backtest'') (pp_memories s)) (\<lambda>ms.
       Inr (family_page family [(''memories'', JArr (map (JObj \<circ> memory_json) (take (nat (max 1 limit)) ms)))])))"

section \<open>What the aggregate promises\<close>

text \<open>A number of a summary; the rows a new one adds to the trades of a family.\<close>

definition summary_number :: "string \<Rightarrow> string \<Rightarrow> trade_report report_table \<Rightarrow> int" where
  "summary_number k family l = (case jget (aggregate_for_family family l) k of JInt i \<Rightarrow> i | _ \<Rightarrow> -1)"

definition added_row :: "trade_report \<Rightarrow> trade_report report_table \<Rightarrow> trade_report report_table" where
  "added_row r l = \<lparr>lg_rows = lg_rows l @ [(lg_last l + 1, r)], lg_last = lg_last l + 1\<rparr>"

definition known_report :: "trade_report \<Rightarrow> trade_report report_table \<Rightarrow> bool" where
  "known_report r l \<longleftrightarrow> observation_key r \<noteq> None \<and> (\<exists>x \<in> set (lg_rows l). observation_key (snd x) = observation_key r)"

lemma report_stored:
  "observation_insert body t l = (case observation_of t body of Inl e \<Rightarrow> (Inl e, l)
     | Inr r \<Rightarrow> (Inr (fst (ledger_put observation_key r l)), if known_report r l then l else added_row r l))"
proof (cases "observation_of t body")
  case (Inr r)
  let ?found = "find (\<lambda>(_, r'). observation_key r \<noteq> None \<and> observation_key r' = observation_key r) (lg_rows l)"
  have known: "?found = None \<longleftrightarrow> \<not> known_report r l"
    by (auto simp: known_report_def find_None_iff case_prod_unfold)
  have "snd (ledger_put observation_key r l) = (if known_report r l then l else added_row r l)"
  proof (cases ?found)
    case None
    then have "\<not> known_report r l" using known by blast
    then show ?thesis unfolding ledger_put_def None by (simp add: added_row_def)
  next
    case (Some x)
    then have "known_report r l" using known by (metis option.distinct(1))
    then show ?thesis unfolding ledger_put_def Some by (cases x) simp
  qed
  then show ?thesis using Inr by (cases "ledger_put observation_key r l") (simp add: observation_insert_def bindO_apply)
qed (simp add: observation_insert_def bindO_apply)

lemma closed_added:
  "closed_trades f (added_row r l) = closed_trades f l @
     (if ob_family r = f \<and> ob_status r = ''closed'' then (case ob_pnl r of None \<Rightarrow> [] | Some p \<Rightarrow> [(r, p)]) else [])"
  by (auto simp: closed_trades_def added_row_def List.map_filter_def split: option.split)

lemma eligible_added:
  "eligible_trades f (added_row r l) = eligible_trades f l @
     (if ob_family r = f \<and> ob_status r = ''closed'' then
        (case ob_pnl r of None \<Rightarrow> [] | Some p \<Rightarrow> if check_trade r p = MISMATCH then [] else [(r, p)]) else [])"
proof (cases "ob_family r = f \<and> ob_status r = ''closed''")
  case True
  then show ?thesis
  proof (cases "ob_pnl r")
    case (Some p)
    then show ?thesis using True by (cases "check_trade r p = MISMATCH") (simp_all add: eligible_trades_def closed_added)
  qed (simp add: eligible_trades_def closed_added)
next
  case False
  then show ?thesis by (simp only: eligible_trades_def closed_added if_not_P append_Nil2 not_False_eq_True)
qed

lemma counts_added: "ob_family r \<noteq> f \<Longrightarrow> status_counts f (added_row r l) = status_counts f l"
  by (simp add: status_counts_def added_row_def)

text \<open>Everything but the status counts is a function of the trades, everything but two entries of the counted ones.\<close>

lemma summary_of_trades:
  assumes "eligible_trades f l' = eligible_trades f l"
  shows "closed_trades f l' = closed_trades f l \<Longrightarrow> k = ''status_counts'' \<or> jget (aggregate_for_family f l') k = jget (aggregate_for_family f l) k"
    and "k \<in> {''status_counts'', ''excluded_price_pnl_mismatch_count'', ''unverified_fill_price_count''} \<or>
      jget (aggregate_for_family f l') k = jget (aggregate_for_family f l) k"
  using assms by (auto simp: aggregate_for_family_def Let_def)

lemma summary_numbers:
  "summary_number ''closed_trade_count'' f l = int (length (eligible_trades f l))"
  "summary_number ''win_count'' f l = int (length (filter (\<lambda>p. fgt p (Fin 0)) (map snd (eligible_trades f l))))"
  "summary_number ''loss_count'' f l = int (length (filter (\<lambda>p. flt p (Fin 0)) (map snd (eligible_trades f l))))"
  "summary_number ''excluded_price_pnl_mismatch_count'' f l = int (length (filter (\<lambda>(r, p). check_trade r p = MISMATCH) (closed_trades f l)))"
  "summary_number ''unverified_fill_price_count'' f l = int (length (filter (\<lambda>(r, p). check_trade r p = UNVERIFIED_FILL) (closed_trades f l)))"
  by (simp_all add: summary_number_def aggregate_for_family_def Let_def)

text \<open>
  C32: what a report does to the summaries. A refused report and one that is known already change no summary, and
  no report changes the summary of another family. Of a new one's own family, a trade that is not closed or has
  no result changes nothing but the status counts; a closed one whose prices contradict its result is only
  counted as excluded, and no sum, rate or mean moves; any other closed one is counted once, as a win or a loss
  by the sign of its result, and as unverified when the prices could not be checked.
\<close>

theorem report_enters_summary:
  "case observation_insert body t l of
     (Inl e, l') \<Rightarrow> l' = l
   | (Inr i, l') \<Rightarrow> (case observation_of t body of Inl e \<Rightarrow> False | Inr r \<Rightarrow>
       (\<forall>f. f = ob_family r \<or> aggregate_for_family f l' = aggregate_for_family f l) \<and>
       (if known_report r l then l' = l
        else let f = ob_family r; grows = (\<lambda>k n. summary_number k f l' = summary_number k f l + n) in
          (case (if ob_status r = ''closed'' then ob_pnl r else None) of
             None \<Rightarrow> \<forall>k. k = ''status_counts'' \<or> jget (aggregate_for_family f l') k = jget (aggregate_for_family f l) k
           | Some pnl \<Rightarrow>
               (case check_trade r pnl of
                  MISMATCH \<Rightarrow> grows ''excluded_price_pnl_mismatch_count'' 1 \<and>
                    (\<forall>k. k \<in> {''status_counts'', ''excluded_price_pnl_mismatch_count''} \<or>
                       jget (aggregate_for_family f l') k = jget (aggregate_for_family f l) k)
                | c \<Rightarrow> grows ''closed_trade_count'' 1 \<and> grows ''win_count'' (if fgt pnl (Fin 0) then 1 else 0) \<and>
                    grows ''loss_count'' (if flt pnl (Fin 0) then 1 else 0) \<and> grows ''excluded_price_pnl_mismatch_count'' 0 \<and>
                    grows ''unverified_fill_price_count'' (if c = UNVERIFIED_FILL then 1 else 0)))))"
proof (cases "observation_of t body")
  case (Inl e)
  then show ?thesis by (simp add: report_stored)
next
  case (Inr r)
  let ?l = "added_row r l" and ?f = "ob_family r"
  have other: "aggregate_for_family f ?l = aggregate_for_family f l" if "f \<noteq> ?f" for f
    using that by (simp add: aggregate_for_family_def closed_added eligible_added counts_added)
  then have others: "\<forall>f. f = ?f \<or> aggregate_for_family f ?l = aggregate_for_family f l" by blast
  show ?thesis
  proof (cases "known_report r l")
    case True
    then show ?thesis using Inr by (simp add: report_stored)
  next
    case new: False
    show ?thesis
    proof (cases "if ob_status r = ''closed'' then ob_pnl r else None")
      case None
      then have "closed_trades ?f ?l = closed_trades ?f l" "eligible_trades ?f ?l = eligible_trades ?f l"
        by (auto simp: closed_added eligible_added split: if_splits)
      then show ?thesis
        using Inr new None others summary_of_trades(1) [of ?f ?l l] by (simp add: report_stored Let_def)
    next
      case (Some pnl)
      then have st: "ob_status r = ''closed''" "ob_pnl r = Some pnl" by (auto split: if_splits)
      show ?thesis
      proof (cases "check_trade r pnl = MISMATCH")
        case MISMATCH: True
        then have e: "eligible_trades ?f ?l = eligible_trades ?f l" using st by (simp add: eligible_added)
        have u: "jget (aggregate_for_family ?f ?l) ''unverified_fill_price_count'' = jget (aggregate_for_family ?f l) ''unverified_fill_price_count''"
          using MISMATCH st by (simp add: aggregate_for_family_def Let_def closed_added)
        have "k \<in> {''status_counts'', ''excluded_price_pnl_mismatch_count''} \<or>
            jget (aggregate_for_family ?f ?l) k = jget (aggregate_for_family ?f l) k" for k
          using summary_of_trades(2) [OF e, of k] u by auto
        moreover have "closed_trades ?f ?l = closed_trades ?f l @ [(r, pnl)]" using st by (simp add: closed_added)
        ultimately show ?thesis
          using Inr new Some MISMATCH others by (simp add: report_stored summary_numbers Let_def)
      next
        case False
        have c: "closed_trades ?f ?l = closed_trades ?f l @ [(r, pnl)]" and e: "eligible_trades ?f ?l = eligible_trades ?f l @ [(r, pnl)]"
          using st False by (simp_all add: closed_added eligible_added)
        have "check_trade r pnl = UNVERIFIED_FILL \<or> check_trade r pnl = VERIFIED_FILL" using False by (cases "check_trade r pnl") auto
        then show ?thesis
          using Inr new Some others by (elim disjE) (simp_all add: report_stored summary_numbers c e Let_def)
      qed
    qed
  qed
qed

section \<open>What a registration does\<close>

lemma register_row_cases:
  assumes "register_row uuid family fp direction now row store = (r, t)"
  obtains (raised) e where "r = Inl e" "t = store"
    | (known) vs v where "versions_get family store = Inr vs" "find (\<lambda>v. sv_fingerprint v = bk_hypothesis_fingerprint row) vs = Some v"
        "t = store" "r = Inr (registered_reply family v True)"
    | (added) vs v where "versions_get family store = Inr vs" "find (\<lambda>v. sv_fingerprint v = bk_hypothesis_fingerprint row) vs = None"
        "sv_status v = APPLY_READY" "sv_family v = family" "sv_fingerprint v = bk_hypothesis_fingerprint row" "sv_rules v = backtest_rules row"
        "sv_summary v = backtest_summary fp row" "t = versions_save family (vs @ [v]) now store" "r = Inr (registered_reply family v False)"
proof (cases "versions_get family store")
  case (Inl e)
  then have "(r, t) = (Inl e, store)" using assms by (simp add: register_row_def bindO_apply)
  then show thesis using raised by simp
next
  case (Inr vs)
  let ?d = "if jtruthy direction then Some (py_str direction) else None"
  show thesis
  proof (cases "find (\<lambda>v. sv_fingerprint v = bk_hypothesis_fingerprint row) vs")
    case (Some v)
    then have "(r, t) = (Inr (registered_reply family v True), store)" using assms Inr by (simp add: register_row_def bindO_apply)
    then show thesis using known [OF Inr Some] by simp
  next
    case None
    let ?new = "register_apply_ready uuid family (candidate_name family (bk_hypothesis_fingerprint row)) (bk_hypothesis_fingerprint row)
      (backtest_rules row) (backtest_summary fp row) now ?d vs"
    have run: "(r, t) = (case ?new of (Inl e, _) \<Rightarrow> (Inl e, store)
        | (Inr v, vs') \<Rightarrow> (Inr (registered_reply family v False), versions_save family vs' now store))"
      using assms Inr None by (auto simp: register_row_def bindO_apply thenO_apply split: prod.split sum.split)
    show thesis
    proof (cases "normalize_direction ?d")
      case (Inl e)
      then have "?new = (Inl e, vs)" by (simp add: register_apply_ready_def bindO_apply)
      then show thesis using run raised by simp
    next
      case dir: (Inr d)
      obtain v where v: "?new = (Inr v, vs @ [v])" "sv_status v = APPLY_READY" "sv_family v = family"
          "sv_fingerprint v = bk_hypothesis_fingerprint row" "sv_rules v = backtest_rules row" "sv_summary v = backtest_summary fp row"
        by (simp add: register_apply_ready_def bindO_apply thenO_apply dir Let_def)
      then show thesis using run by (intro added [OF Inr None v(2-6)]) simp_all
    qed
  qed
qed

definition passed_row :: "obj \<Rightarrow> backtest_row report_table \<Rightarrow> backtest_row option" where
  "passed_row body backtests = (if stripped_field body ''family_id'' = [] \<or> stripped_field body ''backtest_fingerprint'' = [] then None
     else case backtest_find (stripped_field body ''family_id'') (stripped_field body ''backtest_fingerprint'') backtests of
       None \<Rightarrow> None | Some (i, row) \<Rightarrow> if bk_verdict row = ''pass'' then Some row else None)"

lemma register_run:
  "passed_row body backtests = None \<Longrightarrow> \<exists>e. register_hypothesis_candidate uuid body now backtests store = (Inl (ValueError e), store)"
  "passed_row body backtests = Some row \<Longrightarrow> register_hypothesis_candidate uuid body now backtests store =
     register_row uuid (stripped_field body ''family_id'') (stripped_field body ''backtest_fingerprint'') (jget body ''direction'') now row store"
  unfolding register_hypothesis_candidate_def passed_row_def Let_def
  by (auto simp: thenO_apply bindO_apply guardR_def ofOption_def split: if_splits option.splits)

lemma passed_row_stored:
  assumes "passed_row body backtests = Some row"
  shows "row \<in> snd ` set (lg_rows backtests)" "bk_verdict row = ''pass''" "bk_family row = stripped_field body ''family_id''"
    "bk_fingerprint row = stripped_field body ''backtest_fingerprint''"
proof -
  obtain i where i: "backtest_find (stripped_field body ''family_id'') (stripped_field body ''backtest_fingerprint'') backtests = Some (i, row)"
      "bk_verdict row = ''pass''"
    using assms by (auto simp: passed_row_def split: if_splits option.splits)
  show "bk_verdict row = ''pass''" by (rule i(2))
  have "(i, row) \<in> set (lg_rows backtests) \<and> bk_family row = stripped_field body ''family_id'' \<and> bk_fingerprint row = stripped_field body ''backtest_fingerprint''"
    using find_SomeD [OF i(1) [unfolded backtest_find_def]] by simp
  then show "row \<in> snd ` set (lg_rows backtests)" "bk_family row = stripped_field body ''family_id''"
    "bk_fingerprint row = stripped_field body ''backtest_fingerprint''" by force+
qed

lemma reply_canon [simp]: "registered_reply family (sv_canon v) known = registered_reply family v known"
  by (simp add: registered_reply_def)

lemma find_canon: "find (\<lambda>v. sv_fingerprint v = fp) vs = None \<Longrightarrow> find (\<lambda>v. sv_fingerprint v = fp) (map sv_canon vs) = None"
  by (induction vs) auto

lemma find_snoc: "find P vs = None \<Longrightarrow> P v \<Longrightarrow> find P (vs @ [v]) = Some v"
  by (induction vs) auto

text \<open>
  C16: a registration takes its evidence from a stored result and is made once. It succeeds only for a stored
  row of this family and fingerprint with the verdict \<open>pass\<close>; the version it adds is only ready to be applied,
  and its rules and summary are those of the row; every other family is as before, and a call that raises
  changes nothing. Calling again at any time returns the same version and changes nothing.
\<close>

theorem registration_from_passed_row:
  "let family = stripped_field body ''family_id''; fp = stripped_field body ''backtest_fingerprint'' in
   case register_hypothesis_candidate uuid body now backtests store of
     (Inl e, t) \<Rightarrow> t = store
   | (Inr reply, t) \<Rightarrow> (\<exists>row vs v known. row \<in> snd ` set (lg_rows backtests) \<and>
       bk_family row = family \<and> bk_fingerprint row = fp \<and> bk_verdict row = ''pass'' \<and>
       versions_get family store = Inr vs \<and> sv_fingerprint v = bk_hypothesis_fingerprint row \<and> reply = registered_reply family v known \<and>
       (if known then v \<in> set vs \<and> t = store
        else sv_status v = APPLY_READY \<and> sv_rules v = backtest_rules row \<and> sv_summary v = backtest_summary fp row \<and>
          versions_get family t = Inr (map sv_canon (vs @ [v])) \<and>
          (f = family \<or> versions_get f t = versions_get f store)) \<and>
       register_hypothesis_candidate uuid' body now' backtests t = (Inr (registered_reply family v True), t))"
proof (cases "passed_row body backtests")
  case None
  then show ?thesis using register_run(1) [OF None, of uuid now store] by (auto simp: Let_def)
next
  case (Some row)
  note row = passed_row_stored [OF Some]
  define family where "family = stripped_field body ''family_id''"
  define fp where "fp = stripped_field body ''backtest_fingerprint''"
  obtain r t where run: "register_row uuid family fp (jget body ''direction'') now row store = (r, t)" by fastforce
  have call: "register_hypothesis_candidate uuid body now backtests store = (r, t)"
    "register_hypothesis_candidate uuid' body now' backtests t = register_row uuid' family fp (jget body ''direction'') now' row t"
    using run by (simp_all add: register_run(2) [OF Some] family_def fp_def)
  from run show ?thesis
  proof (cases rule: register_row_cases)
    case raised
    then show ?thesis by (simp add: call)
  next
    case (known vs v)
    have "v \<in> set vs \<and> sv_fingerprint v = bk_hypothesis_fingerprint row" using find_SomeD [OF known(2)] .
    moreover have "register_row uuid' family fp (jget body ''direction'') now' row t = (Inr (registered_reply family v True), t)"
      using known by (simp add: register_row_def bindO_apply)
    ultimately show ?thesis
      unfolding Let_def call(1) family_def [symmetric] fp_def [symmetric] known(4) prod.case sum.case
      by (intro exI [of _ row] exI [of _ vs] exI [of _ v] exI [of _ True])
        (use known(1,3) row in \<open>simp add: call(2) [unfolded known(3)] family_def [symmetric] fp_def [symmetric]\<close>)
  next
    case (added vs v)
    have again: "find (\<lambda>v. sv_fingerprint v = bk_hypothesis_fingerprint row) (map sv_canon (vs @ [v])) = Some (sv_canon v)"
      using find_snoc [OF find_canon [OF added(2)]] added(5) by simp
    have got: "versions_get family t = Inr (map sv_canon (vs @ [v]))" using added(8) by (simp add: versions_get_save)
    have "register_row uuid' family fp (jget body ''direction'') now' row t = (Inr (registered_reply family v True), t)"
      using again by (simp add: register_row_def bindO_apply got del: map_append)
    moreover have "f = family \<or> versions_get f t = versions_get f store" using added(8) by (simp add: versions_get_save)
    ultimately show ?thesis
      unfolding Let_def call(1) family_def [symmetric] fp_def [symmetric] added(9) prod.case sum.case
      by (intro exI [of _ row] exI [of _ vs] exI [of _ v] exI [of _ False])
        (use added(1-7) row got in \<open>simp add: call(2) family_def [symmetric] fp_def [symmetric] del: map_append\<close>)
  qed
qed

section \<open>Observed behaviour\<close>

text \<open>The direction is tested in upper case but compared as it is: a long trade reported as \<open>long\<close> counts as a mismatch.\<close>

definition long_trade :: "string \<Rightarrow> trade_report" where
  "long_trade direction = \<lparr>ob_family = ''f'', ob_version = ''v'', ob_fingerprint = ''p'', ob_direction = direction, ob_symbol = ''S'',
     ob_signal_at = ''t'', ob_entry_at = Some ''t'', ob_exit_at = Some ''u'', ob_entry_price = Some (Fin 1), ob_exit_price = Some (Fin 2),
     ob_qty = Some (Fin 100), ob_pnl = Some (Fin 100), ob_pnl_pct = None, ob_fees = None, ob_status = ''closed'', ob_reason = None,
     ob_reported_at = ''t'', ob_created_at = ''t''\<rparr>"

lemma check_trade_prices:
  assumes "ob_entry_price r = Some (Fin a)" "ob_exit_price r = Some (Fin b)" "ob_qty r = Some (Fin q)" and "0 < a" "0 < b" "0 < q"
    and "upper (ob_direction r) = ''LONG''"
  shows "check_trade r (Fin p) = (if fgt (fabs (fsub (Fin p) (fmul (fmul (fsub (Fin b) (Fin a)) (Fin q)) (Fin (if ob_direction r = ''LONG'' then 1 else - 1)))))
      (fmax (Fin 1) (fmul (fmul (fl (2 / 100)) (Fin a)) (Fin q))) then MISMATCH else VERIFIED_FILL)"
  unfolding check_trade_def assms(1-3,7) option.case prod.case Let_def fabs.simps
  using assms(4-6) by (simp add: finite_float_def)

lemma tolerance_bounds: "fle y (Fin 100) \<Longrightarrow> \<not> flt (fmax (Fin 1) y) (Fin 0) \<and> flt (fmax (Fin 1) y) (Fin 200)"
  by (cases y) (auto simp: fmax_def fle_def)

lemma percent_scaled: "\<exists>r. fl (2 / 100) = Fin r \<and> fle (fl (r * 100)) (Fin 100) \<and> fl r = Fin r"
proof -
  obtain r where r: "fl (2 / 100) = Fin r" "r \<le> 1" by (rule fl_unit [of "2 / 100"]) simp_all
  have i: "fl r = Fin r" using fl_idem [OF r(1)] r(1) by blast
  have "fle (fl (r * 100)) (Fin 100)" using fl_mono [of "r * 100" 100] r(2) by simp
  then show ?thesis using r(1) i by blast
qed

lemma tolerance_of_trade: "\<exists>y. fmul (fmul (fl (2 / 100)) (Fin 1)) (Fin 100) = y \<and> fle y (Fin 100)"
proof -
  obtain r where r: "fl (2 / 100) = Fin r" "fle (fl (r * 100)) (Fin 100)" "fl r = Fin r" using percent_scaled by blast
  have "fmul (fmul (fl (2 / 100)) (Fin 1)) (Fin 100) = fl (r * 100)" unfolding r(1) fmul.simps mult_1_right r(3) ..
  then show ?thesis using r(2) by blast
qed

lemma long_trade_prices:
  "ob_entry_price (long_trade x) = Some (Fin 1)" "ob_exit_price (long_trade x) = Some (Fin 2)" "ob_qty (long_trade x) = Some (Fin 100)"
  "ob_direction (long_trade x) = x"
  by (simp_all only: long_trade_def trade_report.simps)

lemma signed_gain:
  "fmul (fmul (fsub (Fin 2) (Fin 1)) (Fin 100)) (Fin 1) = Fin 100" "fmul (fmul (fsub (Fin 2) (Fin 1)) (Fin 100)) (Fin (- 1)) = Fin (- 100)"
  using fl_int [of 100] fl_int [of 1] fl_int [of "- 100"] by (simp_all add: fsub_def)

lemma excess_bounds: "fabs (fsub (Fin 100) (Fin 100)) = Fin 0" "fabs (fsub (Fin 100) (Fin (- 100))) = Fin 200"
  using fl_int [of 0] fl_int [of 200] by (simp_all add: fsub_def)

lemma lower_case_long_excluded:
  "check_trade (long_trade ''LONG'') (Fin 100) = VERIFIED_FILL" "check_trade (long_trade ''long'') (Fin 100) = MISMATCH"
proof -
  obtain y where y: "fmul (fmul (fl (2 / 100)) (Fin 1)) (Fin 100) = y" "fle y (Fin 100)" using tolerance_of_trade by blast
  note tol = tolerance_bounds [OF y(2)]
  have up: "upper ''LONG'' = ''LONG''" "upper ''long'' = ''LONG''" by code_simp+
  have n: "''long'' \<noteq> ''LONG''" by simp
  have pos: "(0 :: rat) < 1" "(0 :: rat) < 2" "(0 :: rat) < 100" by simp_all
  note c = check_trade_prices [OF long_trade_prices(1-3) pos, unfolded long_trade_prices(4), unfolded y(1)]
  show "check_trade (long_trade ''LONG'') (Fin 100) = VERIFIED_FILL"
    unfolding c [OF up(1)] if_P [OF refl] signed_gain excess_bounds using tol by (simp only: if_False)
  show "check_trade (long_trade ''long'') (Fin 100) = MISMATCH"
    unfolding c [OF up(2)] if_not_P [OF n] signed_gain excess_bounds using tol by (simp only: if_True)
qed

text \<open>The profit factor is documented as never infinite, but the quotient of two finite sums can overflow.\<close>

lemma profit_factor_pair:
  assumes "0 < w" and "fl w = Fin w" and "fl (w * 2) = PInf"
  shows "profit_factor [Fin w, Fin (- (1 / 2))] = JFloat PInf"
proof -
  have l: "fl (- (1 / 2)) = Fin (- (1 / 2))" using fl_exact [of "- 1" "- 1"] by (simp add: pow2_def)
  have s: "fsum [Fin w] = Fin w" "fsum [Fin (- (1 / 2))] = Fin (- (1 / 2))"
    using assms(2) l by (simp_all add: fsum_single is_double_def)
  have "filter (\<lambda>p. flt p (Fin 0)) [Fin w, Fin (- (1 / 2))] = [Fin (- (1 / 2))]" "filter (\<lambda>p. fgt p (Fin 0)) [Fin w, Fin (- (1 / 2))] = [Fin w]"
    using assms(1) by simp_all
  then show ?thesis using assms(3) by (simp add: profit_factor_def s)
qed

lemma profit_factor_overflows: "\<exists>w. is_double (Fin w) \<and> profit_factor [Fin w, Fin (- (1 / 2))] = JFloat PInf"
proof -
  let ?w = "2 ^ 1023 :: rat"
  have d: "fl ?w = Fin ?w" using fl_exact [of 1 1023] by (simp add: pow2_def)
  have r: "round53 (2 ^ 1024) = (2 ^ 1024 :: rat)" using round53_exact [of 1 1024] by (simp add: pow2_def)
  have e: "?w * 2 = 2 ^ 1024" by simp
  have "fl (?w * 2) = PInf" unfolding e fl_def r by simp
  then show ?thesis using d profit_factor_pair [of ?w] by (intro exI [of _ ?w]) (simp add: is_double_def)
qed

text \<open>
  Reporting a result asks for no identity, so whoever can report \<open>pass\<close> can have a version registered with the
  numbers of the report; the registration only keeps its own caller from supplying them.
\<close>

lemma reported_result_registers:
  assumes "backtest_of now body = Inr row" and "bk_verdict row = ''pass''"
    and "strip (bk_family row) = bk_family row" "bk_family row \<noteq> []" "strip (bk_fingerprint row) = bk_fingerprint row" "bk_fingerprint row \<noteq> []"
    and "backtest_find (bk_family row) (bk_fingerprint row) l = None"
  shows "passed_row [(''family_id'', JStr (bk_family row)), (''backtest_fingerprint'', JStr (bk_fingerprint row))]
    (snd (backtest_insert body now l)) = Some row"
proof -
  have none: "\<not> same_key backtest_key q row" if "(i, q) \<in> set (lg_rows l)" for i q
    using assms(7) that by (auto simp: backtest_find_def find_None_iff same_key_def backtest_key_def)
  have rows: "lg_rows (snd (backtest_insert body now l)) = lg_rows l @ [(lg_last l + 1, row)]"
    by (cases rule: ledger_put_cases [of l backtest_key row]) (use none in \<open>auto simp: insert_run assms(1)\<close>)
  have "backtest_find (bk_family row) (bk_fingerprint row) (snd (backtest_insert body now l)) = Some (lg_last l + 1, row)"
    unfolding backtest_find_def rows by (rule find_snoc) (use assms(7) in \<open>simp_all add: backtest_find_def\<close>)
  then show ?thesis using assms(2-6) by (simp add: passed_row_def stripped_field_def jget_def)
qed

end
