(* ===== verification/Conversations.thy ===== *)
theory Conversations
  imports PaperResearch "HOL-Library.Multiset"
begin

text \<open>
  The life of a conversation: \<open>runtime/conversation_lifecycle.py\<close> over the tables of
  \<open>SQLiteConversationRepository\<close> (\<open>runtime/llm_conversation.py\<close>), and the routes of \<open>runtime/web_api.py\<close> that
  list, page, archive and delete. What is said in a conversation is not modelled: a message is a row.
\<close>

section \<open>The tables\<close>

record conversation =
  cv_user :: string
  cv_source :: string
  cv_status :: string
  cv_created_at :: string
  cv_updated_at :: string
  cv_metadata :: obj

record chat_message =
  cm_session :: string
  cm_role :: string
  cm_content :: string
  cm_intent :: string
  cm_route :: string
  cm_references :: "string list"
  cm_warnings :: "string list"
  cm_tool_calls :: "string list"
  cm_created_at :: string

record chat_summary =
  cs_session :: string
  cs_refs :: "string list"
  cs_text :: string
  cs_summary_at :: string

record tool_result =
  tr_session :: string
  tr_tool :: string
  tr_status :: string
  tr_output :: obj
  tr_created_at :: string
  tr_expires_at :: string

record conversation_db =
  cd_sessions :: "conversation table"
  cd_messages :: "chat_message table"
  cd_summaries :: "chat_summary table"
  cd_results :: "tool_result table"

definition conversation_db_empty :: conversation_db where
  "conversation_db_empty = \<lparr>cd_sessions = [], cd_messages = [], cd_summaries = [], cd_results = []\<rparr>"

text \<open>On a conflict the row keeps its place and its creation time.\<close>

definition upsert_session :: "string \<Rightarrow> conversation \<Rightarrow> conversation_db \<Rightarrow> conversation_db" where
  "upsert_session sid c s = s\<lparr>cd_sessions := (case t_get sid (cd_sessions s) of
     None \<Rightarrow> cd_sessions s @ [(sid, c)]
   | Some old \<Rightarrow> t_update sid (\<lambda>_. c\<lparr>cv_created_at := cv_created_at old\<rparr>) (cd_sessions s))\<rparr>"

text \<open>The message id is the key of its table, the session a foreign key.\<close>

definition add_message :: "string \<Rightarrow> chat_message \<Rightarrow> (conversation_db, unit) opr" where
  "add_message mid m = bindO (getO (\<lambda>s. if cm_session m \<in> set (t_keys (cd_sessions s)) then t_insert mid m (cd_messages s)
       else Inl (IntegrityError ''FOREIGN KEY constraint failed''))) (\<lambda>r.
     bindO (liftO r) (\<lambda>rows. modO (\<lambda>s. s\<lparr>cd_messages := rows\<rparr>)))"

definition get_session :: "string \<Rightarrow> conversation_db \<Rightarrow> conversation res" where
  "get_session sid s = ofOption (KeyError sid) (t_get sid (cd_sessions s))"

section \<open>Lifecycle\<close>

record conversation_summary =
  su_session :: string
  su_user :: string
  su_source :: string
  su_status :: string
  su_created_at :: string
  su_updated_at :: string
  su_messages :: int

definition session_messages :: "string \<Rightarrow> conversation_db \<Rightarrow> (string \<times> chat_message) list" where
  "session_messages sid s = filter (\<lambda>(_, m). cm_session m = sid) (cd_messages s)"

definition summary_of :: "conversation_db \<Rightarrow> string \<times> conversation \<Rightarrow> conversation_summary" where
  "summary_of s = (\<lambda>(sid, c). \<lparr>su_session = sid, su_user = cv_user c, su_source = cv_source c, su_status = cv_status c,
     su_created_at = cv_created_at c, su_updated_at = cv_updated_at c, su_messages = int (length (session_messages sid s))\<rparr>)"

definition limit_ok :: "int \<Rightarrow> unit res" where
  "limit_ok limit = guardR (1 \<le> limit \<and> limit \<le> 200) (ValueError ''limit must be between 1 and 200'')"

definition list_conversations :: "string \<Rightarrow> int \<Rightarrow> bool \<Rightarrow> conversation_db \<Rightarrow> conversation_summary list res" where
  "list_conversations user limit include_archived s = bindR (limit_ok limit) (\<lambda>_.
     let statuses = [''active''] @ (if include_archived then [''archived''] else []) in
     Inr (map (summary_of s) (take (nat limit) (rev (sort_key (\<lambda>(sid, c). (cv_updated_at c, sid))
       (filter (\<lambda>(_, c). cv_user c = user \<and> cv_status c \<in> set statuses) (cd_sessions s)))))))"

definition set_status :: "string \<Rightarrow> string \<Rightarrow> string \<Rightarrow> (conversation_db, bool) opr" where
  "set_status sid status now = bindO (getO (\<lambda>s. sid \<in> set (t_keys (cd_sessions s)))) (\<lambda>found.
     thenO (modO (\<lambda>s. s\<lparr>cd_sessions := t_update sid (\<lambda>c. c\<lparr>cv_status := status, cv_updated_at := now\<rparr>) (cd_sessions s)\<rparr>)) (retO found))"

definition archive_conversation :: "string \<Rightarrow> string \<Rightarrow> (conversation_db, bool) opr" where
  "archive_conversation sid now = set_status sid ''archived'' now"

definition unarchive_conversation :: "string \<Rightarrow> string \<Rightarrow> (conversation_db, bool) opr" where
  "unarchive_conversation sid now = set_status sid ''active'' now"

definition delete_conversation_messages :: "string \<Rightarrow> string \<Rightarrow> bool \<Rightarrow> (conversation_db, int) opr" where
  "delete_conversation_messages sid now confirm =
    thenO (liftO (guardR confirm (ValueError ''delete_conversation_messages requires confirm=True'')))
    (bindO (getO (\<lambda>s. int (length (session_messages sid s)))) (\<lambda>deleted.
     thenO (modO (\<lambda>s. s\<lparr>cd_messages := filter (\<lambda>(_, m). cm_session m \<noteq> sid) (cd_messages s),
        cd_summaries := filter (\<lambda>(_, m). cs_session m \<noteq> sid) (cd_summaries s),
        cd_results := filter (\<lambda>(_, m). tr_session m \<noteq> sid) (cd_results s)\<rparr>))
     (thenO (set_status sid ''deleted'' now) (retO deleted))))"

text \<open>Newest first by time and id, cut to the limit, and turned round.\<close>

definition message_key :: "string \<times> chat_message \<Rightarrow> string \<times> string" where
  "message_key = (\<lambda>(mid, m). (cm_created_at m, mid))"

definition newest_messages :: "int \<Rightarrow> (string \<times> chat_message) list \<Rightarrow> (string \<times> chat_message) list" where
  "newest_messages limit rows = rev (take (nat limit) (rev (sort_key message_key rows)))"

definition list_messages_page :: "string \<Rightarrow> int \<Rightarrow> string option \<Rightarrow> conversation_db \<Rightarrow> (string \<times> chat_message) list res" where
  "list_messages_page sid limit before s = bindR (limit_ok limit) (\<lambda>_.
     let rows = session_messages sid s in
     Inr (case before of
        None \<Rightarrow> newest_messages limit rows
      | Some mid \<Rightarrow> (case map_of rows mid of
           None \<Rightarrow> []
         | Some anchor \<Rightarrow> newest_messages limit (filter (\<lambda>r. cm_created_at (snd r) < cm_created_at anchor \<or>
             cm_created_at (snd r) = cm_created_at anchor \<and> fst r < mid) rows))))"

section \<open>Routes\<close>

definition web_session :: "string \<Rightarrow> string" where
  "web_session session_ref = ''web:'' @ session_ref"

definition web_user :: "string \<Rightarrow> string" where
  "web_user user_ref = ''web-user:'' @ user_ref"

definition owns_session :: "string \<Rightarrow> string \<Rightarrow> conversation_db \<Rightarrow> bool" where
  "owns_session session_ref user_ref s = (case get_session (web_session session_ref) s of Inl e \<Rightarrow> False | Inr c \<Rightarrow> cv_user c = web_user user_ref)"

definition str_query :: "string \<Rightarrow> url_query \<Rightarrow> string option" where
  "str_query k q = (case map_of q k of Some (v # vs) \<Rightarrow> (if strip v = [] then None else Some (strip v)) | _ \<Rightarrow> None)"

definition require_str_field :: "json \<Rightarrow> string \<Rightarrow> string option" where
  "require_str_field j f = (case j of JObj body \<Rightarrow> (let v = strip (py_str (jget_or body f (JStr []))) in if v = [] then None else Some v) | _ \<Rightarrow> None)"

definition not_found :: web_reply where
  "not_found = (404, JObj [(''schema_version'', JInt 1), (''error'', JStr ''conversation not found'')])"

definition page_reply :: "obj \<Rightarrow> web_reply" where
  "page_reply content = (200, JObj ([(''schema_version'', JInt 1)] @ content @ unchanged_flags False))"

definition listed_conversation :: "conversation_summary \<Rightarrow> json" where
  "listed_conversation c = JObj [(''session_ref'', JStr (let i = su_session c in if CHR '':'' \<in> set i then tl (dropWhile (\<lambda>x. x \<noteq> CHR '':'') i) else i)),
     (''status'', JStr (su_status c)), (''created_at'', JStr (su_created_at c)), (''updated_at'', JStr (su_updated_at c)), (''message_count'', JInt (su_messages c))]"

definition conversations_route :: "url_query \<Rightarrow> conversation_db \<Rightarrow> web_reply res" where
  "conversations_route q s = (case str_query ''user_ref'' q of
     None \<Rightarrow> Inr (web_error ''user_ref query parameter is required'')
   | Some user_ref \<Rightarrow>
       (let include = lower (strip (case map_of q ''include_archived'' of Some (v # vs) \<Rightarrow> v | _ \<Rightarrow> ''true'')) \<noteq> ''false'' in
        bindR (list_conversations (web_user user_ref) 50 include s) (\<lambda>found.
        Inr (page_reply [(''conversations'', JArr (map listed_conversation found))]))))"

definition listed_message :: "string \<times> chat_message \<Rightarrow> json" where
  "listed_message = (\<lambda>(mid, m). JObj [(''message_id'', JStr mid), (''role'', JStr (cm_role m)), (''content'', JStr (cm_content m)),
     (''route'', JStr (cm_route m)), (''created_at'', JStr (cm_created_at m))])"

text \<open>The cursor a page hands out: its oldest message, when the page is full.\<close>

definition next_before :: "int \<Rightarrow> (string \<times> chat_message) list \<Rightarrow> string option" where
  "next_before limit page = (if page \<noteq> [] \<and> int (length page) = limit then Some (fst (hd page)) else None)"

definition message_limit :: "url_query \<Rightarrow> int res" where
  "message_limit q = (case map_of q ''limit'' of Some (v # vs) \<Rightarrow> (if strip v = [] then Inr 30 else int_of_text v) | _ \<Rightarrow> Inr 30)"

definition messages_route :: "url_query \<Rightarrow> conversation_db \<Rightarrow> web_reply res" where
  "messages_route q s = (case str_query ''session_ref'' q of
     None \<Rightarrow> Inr (web_error ''session_ref query parameter is required'')
   | Some session_ref \<Rightarrow>
       (let user_ref = (case str_query ''user_ref'' q of None \<Rightarrow> session_ref | Some u \<Rightarrow> u) in
        case message_limit q of Inl e \<Rightarrow> Inr (web_error ''limit must be an integer'')
        | Inr limit \<Rightarrow>
            if \<not> owns_session session_ref user_ref s then Inr not_found
            else (case list_messages_page (web_session session_ref) limit (str_query ''before'' q) s of
                Inl (ValueError m) \<Rightarrow> Inr (web_error m)
              | Inl e \<Rightarrow> Inl e
              | Inr page \<Rightarrow> Inr (page_reply [(''session_ref'', JStr session_ref), (''messages'', JArr (map listed_message page)),
                  (''has_more'', JBool (int (length page) = limit)), (''next_before'', of_opt (next_before limit page))]))))"

definition owned_call :: "json \<Rightarrow> (string \<Rightarrow> (conversation_db, web_reply) opr) \<Rightarrow> (conversation_db, web_reply) opr" where
  "owned_call j f = (case (require_str_field j ''session_ref'', require_str_field j ''user_ref'') of
     (Some session_ref, Some user_ref) \<Rightarrow>
       bindO (getO (owns_session session_ref user_ref)) (\<lambda>owned. if owned then f session_ref else retO not_found)
   | _ \<Rightarrow> retO (web_error ''session_ref and user_ref are required''))"

definition archive_route :: "bool \<Rightarrow> json \<Rightarrow> string \<Rightarrow> (conversation_db, web_reply) opr" where
  "archive_route archived j now = owned_call j (\<lambda>session_ref.
     bindO (if archived then archive_conversation (web_session session_ref) now else unarchive_conversation (web_session session_ref) now) (\<lambda>ok.
     retO (if \<not> ok then not_found
       else page_reply [(''session_ref'', JStr session_ref), (''status'', JStr (if archived then ''archived'' else ''active''))])))"

text \<open>The confirmation is asked for before the session is looked up.\<close>

definition confirmed :: "json \<Rightarrow> bool" where
  "confirmed j = (case j of JObj body \<Rightarrow> jget body ''confirm'' = JBool True | _ \<Rightarrow> False)"

definition delete_route :: "json \<Rightarrow> string \<Rightarrow> (conversation_db, web_reply) opr" where
  "delete_route j now =
    (if require_str_field j ''session_ref'' \<noteq> None \<and> require_str_field j ''user_ref'' \<noteq> None \<and> \<not> confirmed j
     then retO (web_error (''explicit confirmation required: pass confirm=true to permanently delete this conversation'' @ [CHR 0x27] @ ''s messages''))
     else owned_call j (\<lambda>session_ref.
       bindO (delete_conversation_messages (web_session session_ref) now True) (\<lambda>deleted.
       retO (page_reply [(''session_ref'', JStr session_ref), (''deleted_message_count'', JInt deleted),
         (''research_mission_preserved'', JBool True), (''cognitive_state_preserved'', JBool True)]))))"

section \<open>Every sequence of calls\<close>

datatype conversation_call =
    CC_Upsert string conversation
  | CC_Add string chat_message
  | CC_Archive bool json string
  | CC_Delete json string

fun conversation_run :: "conversation_call \<Rightarrow> conversation_db \<Rightarrow> conversation_db" where
  "conversation_run (CC_Upsert sid c) s = upsert_session sid c s"
| "conversation_run (CC_Add mid m) s = snd (add_message mid m s)"
| "conversation_run (CC_Archive archived j now) s = snd (archive_route archived j now s)"
| "conversation_run (CC_Delete j now) s = snd (delete_route j now s)"

lemma set_status_apply:
  "set_status sid status now s = (Inr (sid \<in> set (t_keys (cd_sessions s))),
     s\<lparr>cd_sessions := t_update sid (\<lambda>c. c\<lparr>cv_status := status, cv_updated_at := now\<rparr>) (cd_sessions s)\<rparr>)"
  by (simp add: set_status_def bindO_apply thenO_apply)

definition purged :: "string \<Rightarrow> string \<Rightarrow> conversation_db \<Rightarrow> conversation_db" where
  "purged sid now s = s\<lparr>cd_sessions := t_update sid (\<lambda>c. c\<lparr>cv_status := ''deleted'', cv_updated_at := now\<rparr>) (cd_sessions s),
     cd_messages := filter (\<lambda>(_, m). cm_session m \<noteq> sid) (cd_messages s),
     cd_summaries := filter (\<lambda>(_, m). cs_session m \<noteq> sid) (cd_summaries s),
     cd_results := filter (\<lambda>(_, m). tr_session m \<noteq> sid) (cd_results s)\<rparr>"

lemma delete_apply:
  "delete_conversation_messages sid now True s = (Inr (int (length (session_messages sid s))), purged sid now s)"
  by (simp add: delete_conversation_messages_def bindO_apply thenO_apply guardR_def set_status_apply purged_def)

definition restamped :: "string \<Rightarrow> string \<Rightarrow> string \<Rightarrow> conversation_db \<Rightarrow> conversation_db" where
  "restamped sid status now s = s\<lparr>cd_sessions := t_update sid (\<lambda>c. c\<lparr>cv_status := status, cv_updated_at := now\<rparr>) (cd_sessions s)\<rparr>"

lemma owned_call_cases:
  obtains (refused) "owned_call j f s = (Inr not_found, s)" | (bad) e where "owned_call j f s = (Inr (web_error e), s)"
    | (owned) session_ref user_ref where "require_str_field j ''session_ref'' = Some session_ref" "require_str_field j ''user_ref'' = Some user_ref"
        "owns_session session_ref user_ref s" "owned_call j f s = f session_ref s"
proof (cases "require_str_field j ''session_ref''")
  case None
  then show thesis using bad by (simp add: owned_call_def retO_def)
next
  case (Some session_ref)
  note sref = this
  show thesis
  proof (cases "require_str_field j ''user_ref''")
    case None
    then show thesis using bad sref by (simp add: owned_call_def retO_def)
  next
    case (Some user_ref)
    have run: "owned_call j f s = (if owns_session session_ref user_ref s then f session_ref s else (Inr not_found, s))"
      by (simp add: owned_call_def sref Some bindO_apply retO_def)
    then show thesis using refused owned [OF sref Some] by (cases "owns_session session_ref user_ref s") simp_all
  qed
qed

lemma archive_cases:
  obtains (same) reply where "archive_route b j now s = (Inr reply, s)" "fst reply \<noteq> 200"
    | (done') session_ref user_ref reply where "require_str_field j ''session_ref'' = Some session_ref" "require_str_field j ''user_ref'' = Some user_ref"
        "owns_session session_ref user_ref s" "archive_route b j now s = (Inr reply, restamped (web_session session_ref) (if b then ''archived'' else ''active'') now s)"
proof (cases rule: owned_call_cases [of j "\<lambda>session_ref.
     bindO (if b then archive_conversation (web_session session_ref) now else unarchive_conversation (web_session session_ref) now) (\<lambda>ok.
     retO (if \<not> ok then not_found
       else page_reply [(''session_ref'', JStr session_ref), (''status'', JStr (if b then ''archived'' else ''active''))]))" s])
  case refused
  then show thesis using same by (simp add: archive_route_def not_found_def)
next
  case (bad e)
  then show thesis using same by (simp add: archive_route_def web_error_def)
next
  case (owned session_ref user_ref)
  then show thesis
    using done' [OF owned(1-3)] by (simp add: archive_route_def bindO_apply archive_conversation_def unarchive_conversation_def set_status_apply restamped_def split: if_splits)
qed

lemma delete_cases:
  obtains (same) reply where "delete_route j now s = (Inr reply, s)" "fst reply \<noteq> 200"
    | (done') session_ref user_ref reply where "require_str_field j ''session_ref'' = Some session_ref" "require_str_field j ''user_ref'' = Some user_ref"
        "owns_session session_ref user_ref s" "confirmed j" "delete_route j now s = (Inr reply, purged (web_session session_ref) now s)" "fst reply = 200"
proof (cases "require_str_field j ''session_ref'' \<noteq> None \<and> require_str_field j ''user_ref'' \<noteq> None \<and> \<not> confirmed j")
  case True
  then show thesis using same by (simp add: delete_route_def web_error_def retO_def)
next
  case False
  have run: "delete_route j now s = owned_call j (\<lambda>session_ref.
       bindO (delete_conversation_messages (web_session session_ref) now True) (\<lambda>deleted.
       retO (page_reply [(''session_ref'', JStr session_ref), (''deleted_message_count'', JInt deleted),
         (''research_mission_preserved'', JBool True), (''cognitive_state_preserved'', JBool True)]))) s"
    using False unfolding delete_route_def by (simp only: if_False)
  show thesis
  proof (cases rule: owned_call_cases [of j "\<lambda>session_ref.
       bindO (delete_conversation_messages (web_session session_ref) now True) (\<lambda>deleted.
       retO (page_reply [(''session_ref'', JStr session_ref), (''deleted_message_count'', JInt deleted),
         (''research_mission_preserved'', JBool True), (''cognitive_state_preserved'', JBool True)]))" s])
    case refused
    then show thesis using same by (simp add: run not_found_def)
  next
    case (bad e)
    then show thesis using same by (simp add: run web_error_def)
  next
    case (owned session_ref user_ref)
    then have "confirmed j" using False by blast
    then show thesis using done' [OF owned(1-3)] owned(4) by (simp add: run bindO_apply delete_apply page_reply_def)
  qed
qed

section \<open>Reading back\<close>

definition conversation_ok :: "conversation_db \<Rightarrow> bool" where
  "conversation_ok s \<longleftrightarrow> t_ok (cd_sessions s) \<and> t_ok (cd_messages s)"

lemma t_ok_filter: "t_ok t \<Longrightarrow> t_ok (filter P t)"
  by (simp add: t_ok_def t_keys_def distinct_map_filter)

lemma purged_ok: "conversation_ok s \<Longrightarrow> conversation_ok (purged sid now s)"
  by (simp add: conversation_ok_def purged_def t_ok_filter t_ok_intros)

lemma restamped_ok: "conversation_ok s \<Longrightarrow> conversation_ok (restamped sid status now s)"
  by (simp add: conversation_ok_def restamped_def t_ok_intros)

lemma conversation_run_ok: "conversation_ok s \<Longrightarrow> conversation_ok (conversation_run c s)"
proof (cases c)
  case (CC_Upsert sid x)
  then show "conversation_ok s \<Longrightarrow> ?thesis"
    by (auto simp: conversation_ok_def upsert_session_def t_ok_intros t_get_None split: option.split) (simp add: t_ok_def t_get_None)
next
  case (CC_Add mid m)
  then show "conversation_ok s \<Longrightarrow> ?thesis"
    by (auto simp: add_message_def bindO_apply conversation_ok_def t_ok_intros split: prod.splits sum.splits)
next
  case (CC_Archive b j now)
  assume "conversation_ok s"
  then show ?thesis unfolding CC_Archive by (cases rule: archive_cases [of b j now s]) (simp_all add: restamped_ok)
next
  case (CC_Delete j now)
  assume "conversation_ok s"
  then show ?thesis unfolding CC_Delete by (cases rule: delete_cases [of j now s]) (simp_all add: purged_ok)
qed

lemma conversation_runs_ok: "conversation_ok (fold conversation_run cs conversation_db_empty)"
proof -
  have "conversation_ok s \<Longrightarrow> conversation_ok (fold conversation_run cs s)" for s
    by (induction cs arbitrary: s) (simp_all add: conversation_run_ok)
  then show ?thesis by (simp add: conversation_ok_def conversation_db_empty_def t_ok_intros)
qed

text \<open>The messages of a session, oldest first, and a client that reads page after page until there is no cursor.\<close>

definition history :: "string \<Rightarrow> conversation_db \<Rightarrow> (string \<times> chat_message) list" where
  "history sid s = sort_key message_key (session_messages sid s)"

fun read_back :: "nat \<Rightarrow> string \<Rightarrow> int \<Rightarrow> string option \<Rightarrow> conversation_db \<Rightarrow> (string \<times> chat_message) list res" where
  "read_back 0 sid limit before s = Inr []"
| "read_back (Suc n) sid limit before s = bindR (list_messages_page sid limit before s) (\<lambda>page.
     case next_before limit page of None \<Rightarrow> Inr page
     | Some c \<Rightarrow> bindR (read_back n sid limit (Some c) s) (\<lambda>older. Inr (older @ page)))"

lemma newest_is_end: "newest_messages limit rows = drop (length rows - nat limit) (sort_key message_key rows)"
  by (simp add: newest_messages_def rev_take)

lemma history_strict:
  assumes "conversation_ok s"
  shows "sorted_wrt (\<lambda>a b. message_key a < message_key b) (history sid s)" "distinct (map fst (history sid s))"
proof -
  have d: "distinct (map fst (session_messages sid s))"
    using assms by (simp add: conversation_ok_def t_ok_def t_keys_def session_messages_def distinct_map_filter)
  then show ids: "distinct (map fst (history sid s))" by (simp add: history_def distinct_map)
  have "snd (message_key x) = fst x" for x by (simp add: message_key_def split: prod.split)
  then have "map fst (history sid s) = map snd (map message_key (history sid s))" by simp
  then have "distinct (map message_key (history sid s))" using ids by (metis distinct_map)
  then have "sorted_wrt (<) (map message_key (history sid s))"
    by (simp add: history_def strict_sorted_iff sorted_sort_key)
  then show "sorted_wrt (\<lambda>a b. message_key a < message_key b) (history sid s)" by (simp add: sorted_wrt_map)
qed

lemma filter_below:
  assumes "sorted_wrt (\<lambda>a b. f a < (f b :: 'k :: linorder)) xs" and "i < length xs"
  shows "filter (\<lambda>x. f x < f (xs ! i)) xs = take i xs"
  using assms
proof (induction xs arbitrary: i)
  case (Cons x xs)
  show ?case
  proof (cases i)
    case 0
    have "filter (\<lambda>y. f y < f x) xs = []" using Cons.prems(1) by (auto simp: filter_empty_conv dest: less_asym)
    then show ?thesis by (simp add: 0)
  next
    case (Suc j)
    then have "xs ! j \<in> set xs" using Cons.prems(2) by simp
    then have "f x < f (xs ! j)" using Cons.prems(1) by simp
    then show ?thesis using Cons Suc by simp
  qed
qed simp

lemma page_at:
  assumes "conversation_ok s" and "1 \<le> limit" "limit \<le> 200"
  shows "list_messages_page sid limit None s = Inr (drop (length (history sid s) - nat limit) (history sid s))"
    and "i < length (history sid s) \<Longrightarrow>
      list_messages_page sid limit (Some (fst (history sid s ! i))) s = Inr (drop (i - nat limit) (take i (history sid s)))"
proof -
  let ?H = "history sid s" and ?R = "session_messages sid s"
  have lim: "limit_ok limit = Inr ()" using assms(2,3) by (simp add: limit_ok_def guardR_def)
  have len: "length ?H = length ?R" "set ?H = set ?R" by (simp_all add: history_def)
  show "list_messages_page sid limit None s = Inr (drop (length ?H - nat limit) ?H)"
    by (simp add: list_messages_page_def lim newest_is_end Let_def history_def)
  assume i: "i < length ?H"
  obtain mid m where h: "?H ! i = (mid, m)" by fastforce
  have "(mid, m) \<in> set ?R" using i h len(2) nth_mem by metis
  moreover have "distinct (map fst ?R)"
    using assms(1) by (simp add: conversation_ok_def t_ok_def t_keys_def session_messages_def distinct_map_filter)
  ultimately have anchor: "map_of ?R mid = Some m" by simp
  have below: "cm_created_at (snd r) < cm_created_at m \<or> cm_created_at (snd r) = cm_created_at m \<and> fst r < mid \<longleftrightarrow> message_key r < message_key (?H ! i)" for r
    by (cases r) (auto simp: message_key_def h less_prod_def)
  have "sort_key message_key (filter (\<lambda>r. message_key r < message_key (?H ! i)) ?R) = take i ?H"
    using filter_below [OF history_strict(1) [OF assms(1)] i] by (simp add: history_def filter_sort)
  moreover have "length (filter (\<lambda>r. message_key r < message_key (?H ! i)) ?R) = i"
    using arg_cong [OF calculation, of length] i by simp
  ultimately show "list_messages_page sid limit (Some (fst (?H ! i))) s = Inr (drop (i - nat limit) (take i ?H))"
    by (simp add: list_messages_page_def lim Let_def h anchor newest_is_end below [unfolded h])
qed

lemma read_back_from:
  assumes "conversation_ok s" and "1 \<le> limit" "limit \<le> 200"
  shows "i \<le> length (history sid s) \<Longrightarrow> i < n \<Longrightarrow>
    (if i = length (history sid s) then read_back n sid limit None s
     else read_back n sid limit (Some (fst (history sid s ! i))) s) = Inr (take i (history sid s))"
proof (induction n arbitrary: i)
  case (Suc n)
  let ?H = "history sid s" and ?l = "nat limit"
  have l: "0 < ?l" "int ?l = limit" using assms(2) by simp_all
  let ?page = "drop (i - ?l) (take i ?H)"
  let ?before = "if i = length ?H then None else Some (fst (?H ! i))"
  have page: "list_messages_page sid limit ?before s = Inr ?page"
    using page_at(1) [OF assms] page_at(2) [OF assms, of i] Suc.prems(1) by simp
  have "read_back (Suc n) sid limit ?before s = Inr (take i ?H)"
  proof (cases "?l \<le> i")
    case True
    have len: "length ?page = ?l" using True Suc.prems(1) by simp
    have first: "?page \<noteq> []" "hd ?page = ?H ! (i - ?l)"
      using len l(1) Suc.prems(1) by (auto simp: hd_drop_conv_nth)
    have cursor: "next_before limit ?page = Some (fst (?H ! (i - ?l)))" unfolding next_before_def len l(2) first(2) by (rule if_P) (intro conjI first(1) refl)
    have "i - ?l < length ?H" "i - ?l < n" using True l(1) Suc.prems by simp_all
    then have "read_back n sid limit (Some (fst (?H ! (i - ?l)))) s = Inr (take (i - ?l) ?H)"
      using Suc.IH [of "i - ?l"] by simp
    moreover have "take (i - ?l) ?H @ ?page = take i ?H" by (metis append_take_drop_id diff_le_self min.absorb1 take_take)
    ultimately show ?thesis by (simp add: page cursor del: drop_take)
  next
    case False
    then have "length ?page < ?l" and p: "?page = take i ?H" by simp_all
    then have "next_before limit ?page = None" using l(2) by (auto simp: next_before_def)
    then show ?thesis using p by (simp add: page del: drop_take)
  qed
  then show ?case by (simp split: if_splits)
qed simp

text \<open>
  Paging loses and repeats nothing. After every sequence of calls, a client that follows the cursors from
  the newest page back gets exactly the messages of the conversation, each once, oldest first, whatever page
  size from 1 to 200 it asks for, and is done after at most one page more than there are messages; any other
  size is refused.
\<close>

theorem paging_reads_history:
  "let s = fold conversation_run cs conversation_db_empty in
   if 1 \<le> limit \<and> limit \<le> 200 then
     read_back (Suc (length (session_messages sid s))) sid limit None s = Inr (history sid s) \<and>
     mset (history sid s) = mset (session_messages sid s) \<and> distinct (map fst (history sid s))
   else list_messages_page sid limit before s = Inl (ValueError ''limit must be between 1 and 200'')"
proof -
  define s where "s = fold conversation_run cs conversation_db_empty"
  have ok: "conversation_ok s" unfolding s_def by (rule conversation_runs_ok)
  have "length (history sid s) = length (session_messages sid s)" by (simp add: history_def)
  then show ?thesis
    using read_back_from [OF ok, of limit "length (history sid s)" sid "Suc (length (history sid s))"] history_strict(2) [OF ok]
    unfolding s_def [symmetric] Let_def by (auto simp: list_messages_page_def limit_ok_def guardR_def history_def)
qed

section \<open>Isolation and deletion\<close>

text \<open>What no request changes of a session: everything but its status and the time of its last update.\<close>

definition session_core :: "conversation \<Rightarrow> conversation" where
  "session_core c = c\<lparr>cv_status := [], cv_updated_at := []\<rparr>"

definition session_cores :: "conversation_db \<Rightarrow> (string \<times> conversation) list" where
  "session_cores s = map (\<lambda>(sid, c). (sid, session_core c)) (cd_sessions s)"

definition session_parts :: "string \<Rightarrow> conversation_db \<Rightarrow>
    conversation option \<times> (string \<times> chat_message) list \<times> (string \<times> chat_summary) list \<times> (string \<times> tool_result) list" where
  "session_parts sid s = (t_get sid (cd_sessions s), session_messages sid s,
     filter (\<lambda>(_, m). cs_session m = sid) (cd_summaries s), filter (\<lambda>(_, m). tr_session m = sid) (cd_results s))"

definition belongs_to :: "string option \<Rightarrow> string \<Rightarrow> conversation_db \<Rightarrow> bool" where
  "belongs_to user_ref sid s = (case (user_ref, t_get sid (cd_sessions s)) of
     (Some u, Some c) \<Rightarrow> cv_user c = web_user u | _ \<Rightarrow> False)"

text \<open>\<open>Some b\<close> archives or unarchives, \<open>None\<close> deletes.\<close>

definition lifecycle_request :: "bool option \<Rightarrow> json \<Rightarrow> string \<Rightarrow> (conversation_db, web_reply) opr" where
  "lifecycle_request kind j now = (case kind of Some b \<Rightarrow> archive_route b j now | None \<Rightarrow> delete_route j now)"

lemma owns_belongs: "owns_session session_ref user_ref s \<Longrightarrow> belongs_to (Some user_ref) (web_session session_ref) s"
  by (auto simp: owns_session_def belongs_to_def get_session_def split: option.splits sum.splits)

lemma cores_update: "(\<And>c. session_core (f c) = session_core c) \<Longrightarrow> map (\<lambda>(i, c). (i, session_core c)) (t_update sid f t) = map (\<lambda>(i, c). (i, session_core c)) t"
  by (auto simp: t_update_def)

lemma restamped_parts:
  "session_cores (restamped sid status now s) = session_cores s"
  "sid' \<noteq> sid \<Longrightarrow> session_parts sid' (restamped sid status now s) = session_parts sid' s"
  subgoal unfolding session_cores_def restamped_def by (simp, rule cores_update) (simp add: session_core_def)
  subgoal by (simp add: restamped_def session_parts_def session_messages_def)
  done

lemma purged_parts:
  "session_cores (purged sid now s) = session_cores s"
  "sid' \<noteq> sid \<Longrightarrow> session_parts sid' (purged sid now s) = session_parts sid' s"
  subgoal unfolding session_cores_def purged_def by (simp, rule cores_update) (simp add: session_core_def)
  subgoal by (auto simp: purged_def session_parts_def session_messages_def intro!: filter_cong)
  done

text \<open>
  Requests about conversations are isolated. Whatever the body says, a request to archive, unarchive or
  delete changes of the sessions only the status and the time of the update, so the research state kept with a
  session survives; of a session that is not the caller's it changes nothing, neither its row nor its messages,
  summaries and results; and the reply for a session of somebody else is the reply for one that does not exist.
\<close>

theorem conversation_requests_isolated:
  "let t = snd (lifecycle_request kind j now s); user_ref = require_str_field j ''user_ref'' in
     session_cores t = session_cores s \<and>
     (belongs_to user_ref sid s \<or> session_parts sid t = session_parts sid s) \<and>
     (case (require_str_field j ''session_ref'', user_ref) of
        (Some r, Some u) \<Rightarrow> if owns_session r u s \<or> owns_session r u s' then True
           else t = s \<and> fst (lifecycle_request kind j now s) = fst (lifecycle_request kind j now s')
      | _ \<Rightarrow> t = s)"
proof -
  let ?t = "snd (lifecycle_request kind j now s)" and ?u = "require_str_field j ''user_ref''"
  have parts: "session_cores ?t = session_cores s \<and> (belongs_to ?u sid s \<or> session_parts sid ?t = session_parts sid s)"
  proof (cases kind)
    case (Some b)
    show ?thesis
    proof (cases rule: archive_cases [of b j now s])
      case (done' session_ref user_ref reply)
      then show ?thesis using owns_belongs [OF done'(3)] restamped_parts by (cases "sid = web_session session_ref") (auto simp: lifecycle_request_def Some)
    qed (simp add: lifecycle_request_def Some)
  next
    case None
    show ?thesis
    proof (cases rule: delete_cases [of j now s])
      case (done' session_ref user_ref reply)
      then show ?thesis using owns_belongs [OF done'(3)] purged_parts by (cases "sid = web_session session_ref") (auto simp: lifecycle_request_def None)
    qed (simp add: lifecycle_request_def None)
  qed
  have unowned: "lifecycle_request kind j now s = (fst (lifecycle_request kind j now s'), s)"
    if "require_str_field j ''session_ref'' = Some r" "?u = Some u" "\<not> owns_session r u s" "\<not> owns_session r u s'" for r u
    using that by (cases kind) (simp_all add: lifecycle_request_def archive_route_def delete_route_def owned_call_def bindO_apply)
  have missing: "?t = s" if "require_str_field j ''session_ref'' = None \<or> ?u = None"
    using that by (cases kind) (auto simp: lifecycle_request_def archive_route_def delete_route_def owned_call_def retO_def split: option.split)
  show ?thesis
    unfolding Let_def using parts missing unowned by (auto split: option.split)
qed

lemma listed_subset: "su_session ` set (map (summary_of u) (take n (rev (sort_key k rows)))) \<subseteq> fst ` set rows"
proof -
  have "su_session (summary_of u p) = fst p" for p by (cases p) (simp add: summary_of_def)
  then have "su_session ` set (map (summary_of u) xs) = fst ` set xs" for xs by (simp add: image_image)
  moreover have "set (take n (rev (sort_key k rows))) \<subseteq> set rows" by (auto dest: in_set_takeD)
  ultimately show ?thesis by (metis image_mono)
qed

text \<open>
  A deletion is confirmed and complete. When it is answered with 200 the body confirmed it, and of the
  session no message, summary or result is left and no user's list shows it; otherwise nothing has changed.
  An archived conversation keeps all it has.
\<close>

theorem deletion_is_complete:
  "(case delete_route j now s of (Inl e, t) \<Rightarrow> False
    | (Inr reply, t) \<Rightarrow>
        if fst reply = 200 then confirmed j \<and> (case require_str_field j ''session_ref'' of None \<Rightarrow> False
          | Some r \<Rightarrow> snd (session_parts (web_session r) t) = ([], [], []) \<and>
              (case list_conversations user limit include_archived t of Inl e \<Rightarrow> True
               | Inr found \<Rightarrow> web_session r \<notin> su_session ` set found))
        else t = s) \<and>
   (case archive_route b j now s of (Inl e, t) \<Rightarrow> False
    | (Inr reply, t) \<Rightarrow> cd_messages t = cd_messages s \<and> cd_summaries t = cd_summaries s \<and> cd_results t = cd_results s)"
proof
  have gone: "snd (session_parts sid (purged sid now s)) = ([], [], [])" for sid
    by (auto simp: session_parts_def purged_def session_messages_def filter_empty_conv)
  have unlisted: "case list_conversations user limit include_archived (purged sid now s) of Inl e \<Rightarrow> True | Inr found \<Rightarrow> sid \<notin> su_session ` set found" for sid
  proof -
    have deleted: "cv_status c = ''deleted''" if "(sid, c) \<in> set (cd_sessions (purged sid now s))" for c
      using that by (auto simp: purged_def t_update_def split: if_splits)
    let ?st = "set ([''active''] @ (if include_archived then [''archived''] else []))"
    let ?F = "filter (\<lambda>(_, c). cv_user c = user \<and> cv_status c \<in> ?st) (cd_sessions (purged sid now s))"
    have "''deleted'' \<notin> ?st" by simp
    then have "sid \<notin> fst ` set ?F" using deleted by fastforce
    moreover note listed_subset [of _ _ _ ?F]
    ultimately have "sid \<notin> su_session ` set (map (summary_of u) (take n (rev (sort_key k ?F))))" for u n and k :: "string \<times> conversation \<Rightarrow> string \<times> string"
      by blast
    then show ?thesis unfolding list_conversations_def by (cases "limit_ok limit") (simp_all only: bindR_simps sum.case Let_def not_False_eq_True)
  qed
  show "case delete_route j now s of (Inl e, t) \<Rightarrow> False
    | (Inr reply, t) \<Rightarrow>
        if fst reply = 200 then confirmed j \<and> (case require_str_field j ''session_ref'' of None \<Rightarrow> False
          | Some r \<Rightarrow> snd (session_parts (web_session r) t) = ([], [], []) \<and>
              (case list_conversations user limit include_archived t of Inl e \<Rightarrow> True
               | Inr found \<Rightarrow> web_session r \<notin> su_session ` set found))
        else t = s"
  proof (cases rule: delete_cases [of j now s])
    case (same reply)
    then show ?thesis by simp
  next
    case (done' session_ref user_ref reply)
    then show ?thesis using gone unlisted by simp
  qed
  show "case archive_route b j now s of (Inl e, t) \<Rightarrow> False
    | (Inr reply, t) \<Rightarrow> cd_messages t = cd_messages s \<and> cd_summaries t = cd_summaries s \<and> cd_results t = cd_results s"
    by (cases rule: archive_cases [of b j now s]) (simp_all add: restamped_def)
qed

section \<open>Observed behaviour\<close>

text \<open>A deleted conversation is documented as never listed again, but unarchiving it makes it active and empty.\<close>

lemma deleted_conversation_relisted:
  assumes "sid \<in> set (t_keys (cd_sessions s))"
  shows "\<exists>c. t_get sid (cd_sessions (snd (unarchive_conversation sid later (purged sid now s)))) = Some c \<and> cv_status c = ''active''"
proof -
  obtain c where "t_get sid (cd_sessions s) = Some c" using assms t_get_None [of sid "cd_sessions s"] by auto
  then show ?thesis by (simp add: unarchive_conversation_def set_status_apply purged_def)
qed

end
