(* ===== verification/WebRuns.thy ===== *)
theory WebRuns
  imports AdminRuns Conversations
begin

text \<open>
  The web interface as one server: the administrator's routes, the writing routes of the paper research loop, the
  life of conversations and the routes that are closed, over one database, interleaved with the calls made on the machine itself
  (a grant, a promotion, a stored research run, a message of the chat). What holds over every sequence of requests.
\<close>

section \<open>The database and the routes\<close>

record web_db =
  wd_admin :: passkey_db
  wd_paper :: paper_db
  wd_chat :: conversation_db

definition web_db_empty :: web_db where
  "web_db_empty = \<lparr>wd_admin = passkey_db_empty,
     wd_paper = \<lparr>pp_observations = ledger_empty, pp_hypotheses = ledger_empty, pp_backtests = ledger_empty, pp_memories = []\<rparr>,
     wd_chat = conversation_db_empty\<rparr>"

definition on_admin :: "(passkey_db, 'a) opr \<Rightarrow> (web_db, 'a) opr" where
  "on_admin m = (\<lambda>s. case m (wd_admin s) of (r, t) \<Rightarrow> (r, s\<lparr>wd_admin := t\<rparr>))"

definition on_paper :: "(paper_db, 'a) opr \<Rightarrow> (web_db, 'a) opr" where
  "on_paper m = (\<lambda>s. case m (wd_paper s) of (r, t) \<Rightarrow> (r, s\<lparr>wd_paper := t\<rparr>))"

definition on_chat :: "(conversation_db, 'a) opr \<Rightarrow> (web_db, 'a) opr" where
  "on_chat m = (\<lambda>s. case m (wd_chat s) of (r, t) \<Rightarrow> (r, s\<lparr>wd_chat := t\<rparr>))"

definition on_registries :: "(version_store, 'a) opr \<Rightarrow> (web_db, 'a) opr" where
  "on_registries m = on_admin (\<lambda>s. case m (ac_versions s) of (r, t) \<Rightarrow> (r, with_versions t s))"

definition plain_reply :: "web_reply \<Rightarrow> http_reply" where
  "plain_reply = (\<lambda>(status, payload). \<lparr>rp_status = status, rp_payload = payload, rp_cookie = None\<rparr>)"

definition candidate_route :: "string \<Rightarrow> json \<Rightarrow> string \<Rightarrow> (web_db, web_reply) opr" where
  "candidate_route uuid j now = bindO (getO (pp_backtests \<circ> wd_paper)) (\<lambda>backtests. on_registries (register_route uuid j now backtests))"

text \<open>Activating a version and the developer's actions are refused, whatever the body confirms.\<close>

definition closed_activation :: web_reply where
  "closed_activation = (403, JObj [(''schema_version'', JInt 1), (''error'', JStr ''authenticated strategy approval workflow required''),
     (''strategy_mutated'', JBool False), (''order_executed'', JBool False), (''live_activated'', JBool False), (''approval_bypassed'', JBool False)])"

definition closed_developer :: web_reply where
  "closed_developer = (403, JObj [(''schema_version'', JInt 1), (''error'', JStr ''authenticated developer approval workflow required'')])"

text \<open>The writing routes of \<open>dispatch_request\<close>, in its order; the chat itself is left out.\<close>

definition dispatch_posts :: "http_request \<Rightarrow> http_draws \<Rightarrow> (string \<times> (web_db, web_reply) opr) list" where
  "dispatch_posts q d =
    [(''/gaon/paper/report'', on_paper (paper_report_route (rq_body q) (dr_stamp d))),
     (''/gaon/paper/failure_hypothesis'', on_paper (propose_route (rq_body q) (dr_stamp d))),
     (''/gaon/paper/hypothesis_backtest_result'', on_paper (backtest_result_route (dr_uuid d) (rq_body q) (dr_stamp d))),
     (''/gaon/paper/hypothesis_register_candidate'', candidate_route (dr_uuid d) (rq_body q) (dr_stamp d)),
     (''/gaon/strategy/version/activate'', retO closed_activation),
     (''/gaon/developer/approve'', retO closed_developer),
     (''/gaon/developer/execute'', retO closed_developer),
     (''/gaon/chat/conversations/archive'', on_chat (archive_route True (rq_body q) (dr_stamp d))),
     (''/gaon/chat/conversations/unarchive'', on_chat (archive_route False (rq_body q) (dr_stamp d))),
     (''/gaon/chat/conversations/delete'', on_chat (delete_route (rq_body q) (dr_stamp d)))]"

definition web_dispatch ::
  "webauthn \<Rightarrow> (pyfloat \<Rightarrow> string option) \<Rightarrow> json list res \<Rightarrow> json \<Rightarrow> http_request \<Rightarrow> http_draws \<Rightarrow> (web_db, http_reply) opr option" where
  "web_dispatch wa sq research crypto q d =
    (case admin_dispatch wa sq research crypto q d of
       Some m \<Rightarrow> Some (on_admin m)
     | None \<Rightarrow> if rq_method q = ''POST'' then map_option (\<lambda>m. bindO m (\<lambda>r. retO (plain_reply r))) (map_of (dispatch_posts q d) (request_path q)) else None)"

text \<open>The status of the reply; \<open>None\<close> for a request outside these routes and for an exception that leaves the handler.\<close>

definition web_status ::
  "webauthn \<Rightarrow> (pyfloat \<Rightarrow> string option) \<Rightarrow> json list res \<Rightarrow> json \<Rightarrow> http_request \<Rightarrow> http_draws \<Rightarrow> web_db \<Rightarrow> int option" where
  "web_status wa sq research crypto q d s = (case web_dispatch wa sq research crypto q d of None \<Rightarrow> None
     | Some m \<Rightarrow> (case fst (m s) of Inl e \<Rightarrow> None | Inr reply \<Rightarrow> Some (rp_status reply)))"

datatype web_call =
    WB_Grant string string dtime
  | WB_Promote "nat \<Rightarrow> string" string int
  | WB_StoreRun string research_run
  | WB_Message string conversation string chat_message
  | WB_Request "json list res" json http_request http_draws

fun web_step :: "webauthn \<Rightarrow> (pyfloat \<Rightarrow> string option) \<Rightarrow> web_call \<Rightarrow> web_db \<Rightarrow> web_db" where
  "web_step wa sq (WB_Grant token actor t1) s = s\<lparr>wd_admin := passkey_step wa (PK_Grant token actor t1) (wd_admin s)\<rparr>"
| "web_step wa sq (WB_Promote draw now limit) s = s\<lparr>wd_admin := passkey_step wa (PK_Promote draw now limit) (wd_admin s)\<rparr>"
| "web_step wa sq (WB_StoreRun run_id r) s = s\<lparr>wd_admin := passkey_step wa (PK_StoreRun run_id r) (wd_admin s)\<rparr>"
| "web_step wa sq (WB_Message sid c mid m) s = s\<lparr>wd_chat := snd (add_message mid m (upsert_session sid c (wd_chat s)))\<rparr>"
| "web_step wa sq (WB_Request research crypto q d) s =
     (case web_dispatch wa sq research crypto q d of None \<Rightarrow> s | Some m \<Rightarrow> snd (m s))"

section \<open>What a request does to the administrator's tables\<close>

text \<open>A registration adds one version, only ready to be applied, to one family.\<close>

definition registers_ready :: "version_store \<Rightarrow> version_store \<Rightarrow> bool" where
  "registers_ready store t \<longleftrightarrow> (\<exists>family vs v now. versions_get family store = Inr vs \<and> sv_status v = APPLY_READY \<and> t = versions_save family (vs @ [v]) now store)"

lemma or_400_state: "snd (or_400 classes m s) = snd (m s)"
  by (auto simp: or_400_def catchO_def retO_def raiseO_def split: prod.splits sum.splits)

lemma register_effect: "snd (register_route uuid j now backtests store) = store \<or> registers_ready store (snd (register_route uuid j now backtests store))"
proof (cases j)
  case (JObj body)
  have route: "snd (register_route uuid j now backtests store) = snd (register_hypothesis_candidate uuid body now backtests store)"
    by (auto simp: JObj register_route_def with_body_def or_400_state bindO_apply retO_def split: prod.splits sum.splits)
  show ?thesis
  proof (cases "passed_row body backtests")
    case None
    then show ?thesis using register_run(1) [OF None, of uuid now store] by (auto simp: route)
  next
    case (Some row)
    obtain r t where run: "register_row uuid (stripped_field body ''family_id'') (stripped_field body ''backtest_fingerprint'')
        (jget body ''direction'') now row store = (r, t)" by fastforce
    have t: "snd (register_route uuid j now backtests store) = t" unfolding route register_run(2) [OF Some] run by simp
    from run show ?thesis unfolding t by (cases rule: register_row_cases) (auto simp: registers_ready_def)
  qed
qed (simp_all add: register_route_def with_body_def retO_def)

lemma on_paper_admin: "wd_admin (snd (on_paper m s)) = wd_admin s"
  by (simp add: on_paper_def split: prod.split)

lemma on_chat_admin: "wd_admin (snd (on_chat m s)) = wd_admin s"
  by (simp add: on_chat_def split: prod.split)

lemma replied_state: "snd (bindO m (\<lambda>r. retO (f r)) s) = snd (m s)"
  by (auto simp: bindO_apply retO_def split: prod.splits sum.splits)

lemma candidate_effect:
  "\<exists>t. wd_admin (snd (candidate_route uuid j now s)) = with_versions t (wd_admin s) \<and> (t = ac_versions (wd_admin s) \<or> registers_ready (ac_versions (wd_admin s)) t)"
  using register_effect [of uuid j now "pp_backtests (wd_paper s)" "ac_versions (wd_admin s)"]
  by (auto simp: candidate_route_def bindO_apply getO_def on_registries_def on_admin_def split: prod.split)

lemma with_same_versions: "with_versions (ac_versions s) s = s"
  by (simp add: with_versions_def)

text \<open>The three things a served request can be.\<close>

lemma web_cases:
  assumes "web_dispatch wa sq research crypto q d = Some m"
  obtains (admin) n where "admin_dispatch wa sq research crypto q d = Some n" "wd_admin (snd (m s)) = snd (n (wd_admin s))"
    | (same) "wd_admin (snd (m s)) = wd_admin s"
    | (registered) t where "request_path q = ''/gaon/paper/hypothesis_register_candidate''"
        "wd_admin (snd (m s)) = with_versions t (wd_admin s)" "registers_ready (ac_versions (wd_admin s)) t"
proof (cases "admin_dispatch wa sq research crypto q d")
  case (Some n)
  then have "m = on_admin n" using assms by (simp add: web_dispatch_def)
  then have "wd_admin (snd (m s)) = snd (n (wd_admin s))" by (simp add: on_admin_def split: prod.split)
  then show thesis using admin Some by blast
next
  case None
  then obtain n where n: "map_of (dispatch_posts q d) (request_path q) = Some n" "m = bindO n (\<lambda>r. retO (plain_reply r))"
    using assms by (auto simp: web_dispatch_def split: if_splits)
  have state: "snd (m s) = snd (n s)" unfolding n(2) by (rule replied_state)
  have cases: "(request_path q, n) \<in> set (dispatch_posts q d)" using n(1) by (rule map_of_SomeD)
  obtain t where t: "wd_admin (snd (candidate_route (dr_uuid d) (rq_body q) (dr_stamp d) s)) = with_versions t (wd_admin s)"
      "t = ac_versions (wd_admin s) \<or> registers_ready (ac_versions (wd_admin s)) t"
    using candidate_effect by blast
  from cases consider "request_path q = ''/gaon/paper/hypothesis_register_candidate''" "n = candidate_route (dr_uuid d) (rq_body q) (dr_stamp d)"
    | "wd_admin (snd (n s)) = wd_admin s"
    unfolding dispatch_posts_def by (auto simp: on_paper_admin on_chat_admin retO_def)
  then show thesis
  proof cases
    case 1
    from t(2) show thesis
    proof
      assume "t = ac_versions (wd_admin s)"
      then show thesis using same t(1) 1(2) state by (simp add: with_same_versions)
    next
      assume "registers_ready (ac_versions (wd_admin s)) t"
      then show thesis using registered 1 t(1) state by simp
    qed
  next
    case 2
    then show thesis using same state by simp
  qed
qed

text \<open>So a fact about these tables that a call, a request and a registration keep holds over every sequence.\<close>

lemma web_steps:
  assumes "I (wd_admin s)"
    and "\<And>c u. case c of PK_CreateSession token csrf actor ok t1 \<Rightarrow> False | _ \<Rightarrow> True \<Longrightarrow> I u \<Longrightarrow> I (passkey_step wa c u)"
    and "\<And>research crypto q d m u. admin_dispatch wa sq research crypto q d = Some m \<Longrightarrow> I u \<Longrightarrow> I (snd (m u))"
    and "\<And>t u. registers_ready (ac_versions u) t \<Longrightarrow> I u \<Longrightarrow> I (with_versions t u)"
  shows "I (wd_admin (fold (web_step wa sq) cs s))"
  using assms(1)
proof (induction cs arbitrary: s)
  case (Cons c cs)
  have "I (wd_admin (web_step wa sq c s))"
  proof (cases c)
    case (WB_Request research crypto q d)
    show ?thesis
    proof (cases "web_dispatch wa sq research crypto q d")
      case (Some m)
      then show ?thesis using Cons.prems by (cases rule: web_cases [of _ _ _ _ _ _ _ s]) (auto simp: WB_Request Some assms(3,4))
    qed (simp add: WB_Request Cons.prems)
  qed (simp_all add: Cons.prems assms(2))
  then show ?case by (simp add: Cons.IH)
qed simp

section \<open>Properties\<close>

text \<open>
  C4: only a signed approval activates through the web. A request leaves the registries and the record of
  activations alone unless it is the finish of an approval that came with a session, its second token and a
  signature over a challenge for exactly that activation, or the registration of a candidate, which adds one
  version ready to be applied to one family and records nothing.
\<close>

theorem web_activation_authorised:
  "case web_dispatch wa sq research crypto q d of None \<Rightarrow> True
   | Some m \<Rightarrow> (let before = wd_admin s; after = wd_admin (snd (m s)) in
       same_registries before after \<or>
       rq_method q = ''POST'' \<and> request_path q = ''/gaon/admin/strategy/approval/finish'' \<and> web_approved wa q d before after \<or>
       request_path q = ''/gaon/paper/hypothesis_register_candidate'' \<and> ac_audit after = ac_audit before \<and>
         registers_ready (ac_versions before) (ac_versions after))"
proof (cases "web_dispatch wa sq research crypto q d")
  case (Some m)
  show ?thesis
    using Some
  proof (cases rule: web_cases [where s = s])
    case (admin n)
    then show ?thesis using admin_registries [OF admin(1), of "wd_admin s"] by (auto simp: Some)
  next
    case same
    then show ?thesis by (simp add: Some same_registries_def)
  next
    case (registered t)
    then show ?thesis by (simp add: Some)
  qed
qed simp

text \<open>The chain of trust of \<open>PasskeyRuns\<close> survives a registration.\<close>

lemma chain_registers:
  assumes "trust_chain s" and "registers_ready (ac_versions s) t"
  shows "trust_chain (with_versions t s)"
proof -
  obtain family vs v now where reg: "versions_get family (ac_versions s) = Inr vs" "sv_status v = APPLY_READY"
      "t = versions_save family (vs @ [v]) now (ac_versions s)"
    using assms(2) by (auto simp: registers_ready_def)
  have "registry_audited s family (vs @ [v])" if "registry_audited s family vs"
    using that reg(2) by (auto simp: registry_audited_def intro: single_active_append)
  then have "\<exists>ws. versions_get f t = Inr ws \<and> registry_audited s f ws" for f
    using assms(1) reg(1) registry_audited_canon [of s family "vs @ [v]"]
    by (cases "f = family") (auto simp: trust_chain_def registries_audited_def reg(3) versions_get_save simp del: map_append dest: spec [of _ f])
  then have "registries_audited (with_versions t s)" by (auto simp: registries_audited_def registry_audited_def)
  then show ?thesis
    using assms(1) by (simp add: trust_chain_def tables_distinct_def enrollments_granted_def admins_enrolled_def
      activations_signed_def audit_signed_def approvals_spent_def with_versions_def)
qed

lemma admin_keeps_chain: "admin_dispatch wa sq research crypto q d = Some m \<Longrightarrow> trust_chain u \<Longrightarrow> trust_chain (snd (m u))"
  using made_of_keeps [OF admin_made_of, of wa sq research crypto q d m trust_chain] passkey_steps_chain [of _ wa "[c]" for c]
  by (force simp: keeps_def)

lemma web_chain: "trust_chain (wd_admin (fold (web_step wa sq) cs web_db_empty))"
  by (rule web_steps [of trust_chain])
    (use passkey_steps_chain [of _ wa "[c]" for c] in \<open>auto simp: web_db_empty_def trust_chain_empty admin_keeps_chain chain_registers\<close>)

lemma web_sessions: "sessions_logged_in (wd_admin (fold (web_step wa sq) cs web_db_empty))"
proof (rule web_steps [of sessions_logged_in])
  show "sessions_logged_in (wd_admin web_db_empty)" by (simp add: web_db_empty_def sessions_logged_in_def passkey_db_empty_def t_rows_def)
qed (auto intro: logged_in.other_step logged_in.versions(1) dest: admin_keeps_sessions simp: keeps_def)

text \<open>
  C5: sessions and activations over every sequence of requests, starting with empty tables. Every stored
  session belongs to an actor whose login challenge is used up, and there are no more sessions than such
  challenges; every registry can be read and has one active version per direction at most, each active
  version with an activation on record by an actor who was granted, enrolled and signed for it.
\<close>

theorem web_sessions_and_activations:
  "let s = wd_admin (fold (web_step wa sq) cs web_db_empty) in
     list_all (\<lambda>r. login_scope (se_actor r) \<in> set (logins_spent s)) (t_rows (pk_sessions s)) \<and>
     length (pk_sessions s) \<le> length (logins_spent s) \<and>
     (case versions_get f (ac_versions s) of Inl e \<Rightarrow> False
      | Inr vs \<Rightarrow> single_active vs \<and>
          list_all (\<lambda>v. list_ex (\<lambda>a. aa_family a = f \<and> aa_version a = sv_id v \<and> trusted_administrator s (aa_actor a) \<and>
              list_ex (\<lambda>scope. cs_actor scope = aa_actor a \<and> cs_family scope = f \<and> cs_version scope = sv_id v) (approvals_spent s))
            (t_rows (ac_audit s))) (filter (\<lambda>v. sv_status v = ACTIVE) vs))"
proof -
  define s where "s = wd_admin (fold (web_step wa sq) cs web_db_empty)"
  have ok: "trust_chain s" unfolding s_def by (rule web_chain)
  have sessions: "sessions_logged_in s" unfolding s_def by (rule web_sessions)
  obtain vs where vs: "versions_get f (ac_versions s) = Inr vs" "registry_audited s f vs"
    using ok by (auto simp: trust_chain_def registries_audited_def)
  show ?thesis
    using sessions vs chain_approved [OF ok vs(2)] unfolding s_def [symmetric] Let_def
    by (auto simp: sessions_logged_in_def registry_audited_def list_all_iff list_ex_iff)
qed

text \<open>The routes that ask for a session; a request to them with the cookie of a revoked one is not served.\<close>

definition guarded_paths :: "string list" where
  "guarded_paths = [''/gaon/admin/strategy/approval/finish'', ''/gaon/admin/strategy/approval/begin'', ''/gaon/admin/passkey/logout'']"

definition asks_session :: "http_request \<Rightarrow> bool" where
  "asks_session q \<longleftrightarrow> (if rq_method q = ''POST'' then request_path q \<in> set guarded_paths
     else rq_method q = ''GET'' \<and> request_path q = ''/gaon/admin/strategy/options'')"

abbreviation unserved :: "(passkey_db, http_reply) opr \<Rightarrow> passkey_db \<Rightarrow> bool" where
  "unserved m s \<equiv> wp m (\<lambda>r _. rp_status r \<noteq> 200) (\<lambda>_ _. True) s"

lemma refusal_status [simp]: "rp_status (refusal status message) = status" "rp_status (answer j) = 200"
  by (simp_all add: refusal_def answer_def)

lemma wp_revoked:
  assumes "session_revoked (token_digest (session_cookie q)) s"
  shows "wp (need_session csrf b q now) Q (\<lambda>_ _. True) s" "wp (authorised_actor q now) Q (\<lambda>_ _. True) s"
proof -
  have "validate_session (session_cookie q) csrf b now s \<noteq> Inr actor" for csrf b actor
    using assms by (auto simp: session_revoked_def validate_session_def bindR_Inr_iff)
  then have "wp (need_session csrf b q now) Q (\<lambda>_ _. True) s" for csrf b Q
    unfolding need_session_def by (simp add: wp_simps) (rule wp_lift_any, simp, blast)
  then show "wp (need_session csrf b q now) Q (\<lambda>_ _. True) s" "wp (authorised_actor q now) Q (\<lambda>_ _. True) s"
    unfolding authorised_actor_def by blast+
qed

lemma revoked_unserved:
  assumes "session_revoked (token_digest (session_cookie q)) s"
  shows "unserved (approval_finish wa sq q d) s" "unserved (approval_begin wa q d) s" "unserved (logout q d) s"
    "unserved (strategy_options research crypto q d) s"
  subgoal unfolding approval_finish_def
    by (auto simp: wp_simps split: json.split intro!: wp_caught wp_lift_any wp_revoked [OF assms])
  subgoal unfolding approval_begin_def
    by (auto simp: wp_simps split: json.split intro!: wp_caught wp_lift_any wp_revoked [OF assms])
  subgoal unfolding logout_def by (auto simp: wp_simps intro!: wp_caught wp_lift_any wp_revoked [OF assms])
  subgoal unfolding strategy_options_def by (auto simp: wp_simps intro!: wp_caught wp_lift_any wp_revoked [OF assms])
  done

lemma guarded_member:
  "p \<in> set guarded_paths \<Longrightarrow> p = ''/gaon/admin/strategy/approval/finish'' \<or> p = ''/gaon/admin/strategy/approval/begin'' \<or> p = ''/gaon/admin/passkey/logout''"
  unfolding guarded_paths_def list.set(2) list.set(1) insert_iff empty_iff by blast

lemma asking_dispatch:
  assumes "asks_session q" and "session_revoked (token_digest (session_cookie q)) s"
  shows "\<exists>m. admin_dispatch wa sq research crypto q d = Some m \<and> unserved m s"
proof (cases "rq_method q = ''POST''")
  case True
  have m: "\<exists>m. admin_dispatch wa sq research crypto q d = Some m \<and> unserved m s"
    if "request_path q = p" "map_of (post_routes wa sq q d) p = Some m" "unserved m s" for p m
    using that True by (simp add: admin_dispatch_def)
  have "request_path q \<in> set guarded_paths" using assms(1) True by (simp add: asks_session_def)
  from guarded_member [OF this] show ?thesis
    by (elim disjE) (rule m, assumption, simp add: post_routes_def, simp only: revoked_unserved [OF assms(2)])+
next
  case False
  then have "admin_dispatch wa sq research crypto q d = Some (strategy_options research crypto q d)"
    using assms(1) by (simp add: asks_session_def admin_dispatch_def)
  then show ?thesis using revoked_unserved(4) [OF assms(2)] by blast
qed

lemma web_unserved:
  assumes "asks_session q" and "session_revoked (token_digest (session_cookie q)) (wd_admin s)"
  shows "web_status wa sq research crypto q d s \<noteq> Some 200"
proof -
  obtain m where "admin_dispatch wa sq research crypto q d = Some m" "unserved m (wd_admin s)"
    using asking_dispatch [OF assms] by blast
  then show ?thesis by (auto simp: web_status_def web_dispatch_def on_admin_def wp_def split: prod.splits sum.splits)
qed

lemma wp_logout:
  "wp (logout q d) (\<lambda>r t. rp_status r = 200 \<longrightarrow> session_revoked (token_digest (session_cookie q)) t) (\<lambda>_ _. True) s"
proof -
  have "session_revoked (token_digest (session_cookie q)) (s\<lparr>pk_sessions := t_update (token_digest (session_cookie q)) (\<lambda>r. r\<lparr>se_revoked := True\<rparr>) (pk_sessions s)\<rparr>)"
    if "request_session q now s row" for now row
    using that by (simp add: session_revoked_def request_session_def)
  then show ?thesis unfolding logout_def revoke_session_def
    by (auto simp: wp_simps intro!: wp_caught wp_lift_any wp_authorised)
qed

lemma logout_revokes:
  assumes "rq_method q = ''POST''" and "request_path q = ''/gaon/admin/passkey/logout''"
    and "web_status wa sq research crypto q d s = Some 200"
  shows "session_revoked (token_digest (session_cookie q)) (wd_admin (web_step wa sq (WB_Request research crypto q d) s))"
proof -
  have m: "admin_dispatch wa sq research crypto q d = Some (logout q d)" using assms(1,2) by (simp add: admin_dispatch_def post_routes_def)
  then show ?thesis using assms(3) wp_logout [of q d "wd_admin s"]
    by (auto simp: web_status_def web_dispatch_def on_admin_def wp_def split: prod.splits sum.splits)
qed

lemma web_keeps_revoked:
  assumes "session_revoked k (wd_admin s)"
  shows "session_revoked k (wd_admin (fold (web_step wa sq) cs s))"
proof (rule web_steps [of "session_revoked k", OF assms])
  fix research crypto q d m u
  assume "admin_dispatch wa sq research crypto q d = Some m" and "session_revoked k u"
  then show "session_revoked k (snd (m u))"
    using made_of_keeps [OF admin_made_of, of wa sq research crypto q d m "session_revoked k"] revoked_kept.step [of k] by (force simp: keeps_def)
qed (auto intro: revoked_kept.step revoked_kept.versions(1))

text \<open>
  C15: a logout through the web is final. Once a logout has been answered with 200, no request that asks for a
  session and comes with the same cookie is answered with 200, whatever requests and calls lie in between,
  and whatever second token and time it comes with.
\<close>

theorem web_logout_final:
  "if rq_method q = ''POST'' \<and> request_path q = ''/gaon/admin/passkey/logout'' \<and> web_status wa sq research crypto q d s = Some 200 \<and>
      asks_session q' \<and> session_cookie q' = session_cookie q
   then web_status wa sq research' crypto' q' d' (fold (web_step wa sq) cs (web_step wa sq (WB_Request research crypto q d) s)) \<noteq> Some 200
   else True"
  using web_unserved [OF _ web_keeps_revoked, of q' _ wa sq] logout_revokes [of q wa sq research crypto d s] by auto

end
