(* ===== verification/Console.thy ===== *)
theory Console
  imports StrategyVersion
begin

text \<open>
  \<open>control/strategy_console.py\<close>: the state of the proposal panels and the view of the registry that the web
  console shows. The lemmas show that a panel is folded but never lost, that the stored panels are read back,
  and that the actions the view offers are exactly those that the registry carries out.
\<close>

section \<open>Panels\<close>

record panel_state =
  ps_proposal :: string
  ps_collapsed :: bool
  ps_updated_at :: "string option"

definition panel_to_json :: "panel_state \<Rightarrow> obj" where
  "panel_to_json p = [(''proposal_id'', JStr (ps_proposal p)), (''collapsed'', JBool (ps_collapsed p)), (''updated_at'', of_opt (ps_updated_at p))]"

definition panel_from_json :: "obj \<Rightarrow> panel_state res" where
  "panel_from_json raw = bindR (jreq raw ''proposal_id'') (\<lambda>pid.
     Inr \<lparr>ps_proposal = py_str pid, ps_collapsed = jtruthy (jget raw ''collapsed''), ps_updated_at = jopt_str (jget raw ''updated_at'')\<rparr>)"

text \<open>The dict of the store, in the order of its keys; writing a key that is there keeps its place.\<close>

type_synonym panel_store = "(string \<times> panel_state) list"

definition panel_get :: "string \<Rightarrow> panel_store \<Rightarrow> panel_state" where
  "panel_get pid s = (case map_of s pid of None \<Rightarrow> \<lparr>ps_proposal = pid, ps_collapsed = False, ps_updated_at = None\<rparr> | Some p \<Rightarrow> p)"

definition panel_set :: "string \<Rightarrow> bool \<Rightarrow> string \<Rightarrow> (panel_store, panel_state) opr" where
  "panel_set pid collapsed ts = bindO (getO (panel_get pid)) (\<lambda>current.
     let updated = current\<lparr>ps_collapsed := collapsed, ps_updated_at := Some ts\<rparr> in
     thenO (modO (AList.update pid updated)) (retO updated))"

definition panel_collapse :: "string \<Rightarrow> string \<Rightarrow> (panel_store, panel_state) opr" where
  "panel_collapse pid ts = panel_set pid True ts"

definition panel_expand :: "string \<Rightarrow> string \<Rightarrow> (panel_store, panel_state) opr" where
  "panel_expand pid ts = panel_set pid False ts"

definition panels_to_json :: "panel_store \<Rightarrow> obj" where
  "panels_to_json s = [(''panels'', JArr (map (JObj \<circ> panel_to_json \<circ> snd) s))]"

definition panels_from_json :: "obj \<Rightarrow> panel_store res" where
  "panels_from_json raw = bindR (as_items (jget raw ''panels'')) (\<lambda>items.
     bindR (mapR (\<lambda>j. bindR (need_obj j) panel_from_json) items) (\<lambda>panels.
     Inr (fold (\<lambda>p s. AList.update (ps_proposal p) p s) panels [])))"

section \<open>The view\<close>

definition action_for :: "strategy_version \<Rightarrow> obj option" where
  "action_for v =
    (if sv_status v = APPLY_READY then Some [(''strategy_version_id'', JStr (sv_id v)), (''action'', JStr ''apply''), (''label'', JStr (''Apply '' @ sv_fingerprint v))]
     else if sv_status v = PREVIOUS then Some [(''strategy_version_id'', JStr (sv_id v)), (''action'', JStr ''rollback''), (''label'', JStr (''Roll back to '' @ sv_fingerprint v))]
     else None)"

definition shown_version :: "strategy_version option \<Rightarrow> json" where
  "shown_version v = (case v of None \<Rightarrow> JNull | Some v \<Rightarrow> JObj (sv_to_json v))"

definition shown_with :: "version_status \<Rightarrow> version_registry \<Rightarrow> json" where
  "shown_with status vs = JArr (map (JObj \<circ> sv_to_json) (filter (\<lambda>v. sv_status v = status) vs))"

definition render :: "string option \<Rightarrow> panel_store \<Rightarrow> version_registry \<Rightarrow> obj res" where
  "render proposal panels vs =
    bindR (active_version None vs) (\<lambda>active.
    bindR (active_by_direction vs) (\<lambda>directional.
    Inr ([(''active'', shown_version active),
       (''active_by_direction'', JObj (map (\<lambda>(k, v). (k, shown_version v)) directional)),
       (''apply_ready'', shown_with APPLY_READY vs), (''previous'', shown_with PREVIOUS vs), (''retired'', shown_with RETIRED vs),
       (''actions'', JArr (map JObj (List.map_filter action_for vs)))]
     @ (case proposal of None \<Rightarrow> [] | Some pid \<Rightarrow> [(''proposal_panel'', JObj (panel_to_json (panel_get pid panels)))]))))"

section \<open>Panels are kept\<close>

text \<open>A store keeps each panel under its own id.\<close>

definition panels_ok :: "panel_store \<Rightarrow> bool" where
  "panels_ok s \<longleftrightarrow> distinct (map fst s) \<and> (\<forall>(pid, p) \<in> set s. ps_proposal p = pid)"

datatype panel_call = Collapse string string | Expand string string

fun panel_step :: "panel_call \<Rightarrow> panel_store \<Rightarrow> panel_store" where
  "panel_step (Collapse pid ts) s = snd (panel_collapse pid ts s)"
| "panel_step (Expand pid ts) s = snd (panel_expand pid ts s)"

fun panel_called :: "panel_call \<Rightarrow> string \<times> bool \<times> string" where
  "panel_called (Collapse pid ts) = (pid, True, ts)"
| "panel_called (Expand pid ts) = (pid, False, ts)"

lemma panel_step_update:
  "panel_step c s = (case panel_called c of (pid, b, ts) \<Rightarrow> AList.update pid ((panel_get pid s)\<lparr>ps_collapsed := b, ps_updated_at := Some ts\<rparr>) s)"
  by (cases c) (simp_all add: panel_collapse_def panel_expand_def panel_set_def bindO_apply thenO_apply Let_def)

lemma panel_get_id: "panels_ok s \<Longrightarrow> ps_proposal (panel_get pid s) = pid"
  by (auto simp: panel_get_def panels_ok_def split: option.splits dest!: map_of_SomeD)

lemma update_rows: "(k', p) \<in> set (AList.update k q s) \<Longrightarrow> (k', p) = (k, q) \<or> (k', p) \<in> set s"
  by (induction s) (auto split: if_splits)

lemma panel_step_ok: "panels_ok s \<Longrightarrow> panels_ok (panel_step c s)"
  by (cases "panel_called c")
    (auto simp: panel_step_update panels_ok_def distinct_update panel_get_id [unfolded panels_ok_def] dest!: update_rows)

lemma panels_ok_steps: "panels_ok s \<Longrightarrow> panels_ok (fold panel_step cs s)"
  by (induction cs arbitrary: s) (simp_all add: panel_step_ok)

lemma panel_get_step:
  "panel_get pid (panel_step c s) = (case panel_called c of (k, b, ts) \<Rightarrow> if pid = k then (panel_get pid s)\<lparr>ps_collapsed := b, ps_updated_at := Some ts\<rparr> else panel_get pid s)"
  by (cases "panel_called c") (simp add: panel_step_update panel_get_def update_conv' split: option.split)

lemma panel_roundtrip: "panel_from_json (panel_to_json p) = Inr p"
  by (simp add: panel_from_json_def panel_to_json_def)

lemma fold_update_fresh:
  "distinct (map f ps) \<Longrightarrow> (\<And>p. p \<in> set ps \<Longrightarrow> f p \<notin> fst ` set s) \<Longrightarrow> fold (\<lambda>p s. AList.update (f p) p s) ps s = s @ map (\<lambda>p. (f p, p)) ps"
proof (induction ps arbitrary: s)
  case (Cons p ps)
  have "AList.update (f p) p s = s @ [(f p, p)]" using Cons.prems(2) [of p] by (induction s) auto
  moreover have "fold (\<lambda>p s. AList.update (f p) p s) ps (s @ [(f p, p)]) = (s @ [(f p, p)]) @ map (\<lambda>p. (f p, p)) ps"
    using Cons.prems by (intro Cons.IH) (auto simp: image_iff)
  ultimately show ?case by simp
qed simp

lemma panels_roundtrip: "panels_ok s \<Longrightarrow> panels_from_json (panels_to_json s) = Inr s"
proof -
  assume ok: "panels_ok s"
  have ids: "map (ps_proposal \<circ> snd) s = map fst s" "map (\<lambda>p. (ps_proposal p, p)) (map snd s) = s"
    using ok by (auto simp: panels_ok_def comp_def intro!: map_idI)
  then have "fold (\<lambda>p s. AList.update (ps_proposal p) p s) (map snd s) [] = s"
    using fold_update_fresh [of ps_proposal "map snd s" "[]"] ok ids by (simp add: panels_ok_def)
  moreover have "mapR (\<lambda>j. bindR (need_obj j) panel_from_json) (map (JObj \<circ> panel_to_json \<circ> snd) s) = Inr (map snd s)"
    by (rule mapR_map) (simp add: need_obj_def panel_roundtrip)
  ultimately show ?thesis by (simp add: panels_from_json_def panels_to_json_def)
qed

text \<open>
  A panel is folded, never lost. After every sequence of calls, starting with no panel, a panel shows what
  the last call for it asked for, and is open when there was none; what is stored is read back as it is, and
  every panel that was ever folded or unfolded is in it.
\<close>

theorem panels_show_last_call:
  "let s = fold panel_step cs [] in
     panel_get pid s = (case find (\<lambda>c. fst (panel_called c) = pid) (rev cs) of
         None \<Rightarrow> \<lparr>ps_proposal = pid, ps_collapsed = False, ps_updated_at = None\<rparr>
       | Some c \<Rightarrow> \<lparr>ps_proposal = pid, ps_collapsed = fst (snd (panel_called c)), ps_updated_at = Some (snd (snd (panel_called c)))\<rparr>) \<and>
     panels_from_json (panels_to_json s) = Inr s \<and> set (map fst s) = set (map (fst \<circ> panel_called) cs)"
proof -
  have ok: "panels_ok (fold panel_step cs [])" for cs by (rule panels_ok_steps) (simp add: panels_ok_def)
  have shown: "panel_get pid (fold panel_step cs []) = (case find (\<lambda>c. fst (panel_called c) = pid) (rev cs) of
         None \<Rightarrow> \<lparr>ps_proposal = pid, ps_collapsed = False, ps_updated_at = None\<rparr>
       | Some c \<Rightarrow> \<lparr>ps_proposal = pid, ps_collapsed = fst (snd (panel_called c)), ps_updated_at = Some (snd (snd (panel_called c)))\<rparr>)"
  proof (induction cs rule: rev_induct)
    case (snoc c cs)
    obtain k b ts where c: "panel_called c = (k, b, ts)" by (cases "panel_called c")
    show ?case
    proof (cases "pid = k")
      case True
      then show ?thesis using panel_get_id [OF ok, of pid cs] by (simp add: panel_get_step c)
    next
      case False
      then show ?thesis using snoc by (simp add: panel_get_step c)
    qed
  qed (simp add: panel_get_def)
  have "fst ` set (fold panel_step cs []) = fst ` set ([] :: panel_store) \<union> (fst \<circ> panel_called) ` set cs"
  proof (induction cs rule: rev_induct)
    case (snoc c cs)
    then show ?case by (cases "panel_called c") (auto simp: panel_step_update dom_update)
  qed simp
  then show ?thesis using shown panels_roundtrip [OF ok] by (simp add: Let_def image_comp)
qed

section \<open>Actions work\<close>

lemma actions_selectable: "List.map_filter action_for vs = List.map_filter action_for (selectable_versions vs)"
  unfolding selectable_versions_def by (induction vs) (auto simp: List.map_filter_simps action_for_def)

lemma index_of_nth: "distinct (map f xs) \<Longrightarrow> i < length xs \<Longrightarrow> index_of (\<lambda>x. f x = f (xs ! i)) xs = Some i"
proof (induction xs arbitrary: i)
  case (Cons x xs)
  then show ?case by (cases i) (force simp: in_set_conv_nth)+
qed simp

lemma active_after_switch:
  assumes "k < length vs" and "sv_direction (vs ! k) = Some d" and "d = ''LONG'' \<or> d = ''SHORT''"
  shows "active_version (Some d) (switch_active k ts vs) = Inr (Some (activate ts (vs ! k)))"
proof -
  let ?ws = "switch_active k ts vs"
  have n: "normalize_direction (Some d) = Inr (Some d)" using assms(3) by (auto simp: normalize_direction_def) code_simp+
  have mem: "w \<in> set ?ws \<and> sv_status w = ACTIVE \<and> sv_direction w = Some d \<longleftrightarrow> w = activate ts (vs ! k)" for w
    using assms(1,2) by (auto simp: in_set_conv_nth nth_switch_active split: if_splits intro!: exI [of _ k])
  let ?fs = "filter (\<lambda>w. sv_direction w = Some d) (filter (\<lambda>w. sv_status w = ACTIVE) ?ws)"
  have "set ?fs = {activate ts (vs ! k)}" using mem by auto
  then have "?fs \<noteq> [] \<and> last ?fs = activate ts (vs ! k)"
    by (metis empty_not_insert last_in_set list.set(1) singletonD)
  then show ?thesis by (simp add: active_version_def n last_opt_def)
qed

text \<open>
  What the console offers works. The view lists one action for each version of the registry that can be
  selected, in its order; and while the ids are distinct, activating the version an action names succeeds, and
  that version is the active one of its direction in the view after it.
\<close>

theorem console_actions_work:
  "(case render None panels vs of Inl e \<Rightarrow> False
    | Inr view \<Rightarrow> jget view ''actions'' = JArr (map JObj (List.map_filter action_for (selectable_versions vs)))) \<and>
   length (List.map_filter action_for (selectable_versions vs)) = length (selectable_versions vs) \<and>
   (if distinct (map sv_id vs) then list_all (\<lambda>v. case mark_active (sv_id v) ts vs of (Inl e, _) \<Rightarrow> False
      | (Inr w, vs') \<Rightarrow> w = activate ts v \<and>
          (if sv_direction v = Some ''LONG'' \<or> sv_direction v = Some ''SHORT''
           then active_version (sv_direction v) vs' = Inr (Some w) else True)) (selectable_versions vs) else True)"
proof (intro conjI)
  have d: "normalize_direction (Some ''LONG'') = Inr (Some ''LONG'')" "normalize_direction (Some ''SHORT'') = Inr (Some ''SHORT'')" "normalize_direction None = Inr None"
    by code_simp+
  show "case render None panels vs of Inl e \<Rightarrow> False
    | Inr view \<Rightarrow> jget view ''actions'' = JArr (map JObj (List.map_filter action_for (selectable_versions vs)))"
    by (simp add: render_def active_by_direction_def active_version_def d Let_def actions_selectable [of vs])
  show "length (List.map_filter action_for (selectable_versions vs)) = length (selectable_versions vs)"
    unfolding selectable_versions_def by (induction vs) (auto simp: List.map_filter_simps action_for_def)
  show "if distinct (map sv_id vs) then list_all (\<lambda>v. case mark_active (sv_id v) ts vs of (Inl e, _) \<Rightarrow> False
      | (Inr w, vs') \<Rightarrow> w = activate ts v \<and>
          (if sv_direction v = Some ''LONG'' \<or> sv_direction v = Some ''SHORT''
           then active_version (sv_direction v) vs' = Inr (Some w) else True)) (selectable_versions vs) else True"
  proof (cases "distinct (map sv_id vs)")
    case True
    have "case mark_active (sv_id v) ts vs of (Inl e, _) \<Rightarrow> False
      | (Inr w, vs') \<Rightarrow> w = activate ts v \<and>
          (if sv_direction v = Some ''LONG'' \<or> sv_direction v = Some ''SHORT''
           then active_version (sv_direction v) vs' = Inr (Some w) else True)" if v: "v \<in> set (selectable_versions vs)" for v
    proof -
      obtain k where k: "k < length vs" "v = vs ! k" and st: "sv_status v \<noteq> RETIRED"
        using v by (auto simp: selectable_versions_def in_set_conv_nth)
      have i: "index_of (\<lambda>w. sv_id w = sv_id v) vs = Some k" unfolding k(2) by (rule index_of_nth [OF True k(1)])
      then have m: "mark_active (sv_id v) ts vs = (Inr (activate ts v), switch_active k ts vs)"
        using st k by (simp add: mark_active_def Let_def nth_switch_active)
      show ?thesis unfolding m using active_after_switch [OF k(1)] k(2) by auto
    qed
    then show ?thesis by (simp add: list_all_iff)
  qed simp
qed

end
