(* ===== verification/Safeguards.thy ===== *)
theory Safeguards
  imports StrategyVersion PyTime "HOL-Library.Sublist"
begin

text \<open>
  Three guards of \<open>control/\<close> that decide without a state: the assessment of live positions before a switch to
  demo (\<open>live_positions.py\<close>), the authority of the autonomy per market (\<open>multi_market_authority.py\<close>), and the
  redaction of secrets (\<open>credentials.py\<close>).
\<close>

section \<open>Live positions\<close>

datatype position_ownership = BOT_MANAGED | MANUAL_EXTERNAL | OWNERSHIP_UNKNOWN

record live_position =
  lp_symbol :: string
  lp_side :: string
  lp_qty :: pyfloat
  lp_ownership :: position_ownership
  lp_has_stop :: bool
  lp_has_take_profit :: bool

record live_order =
  lo_id :: string
  lo_symbol :: string
  lo_kind :: string
  lo_owner :: position_ownership
  lo_open :: bool

record live_snapshot =
  ls_positions :: "live_position list"
  ls_regular :: "live_order list"
  ls_algo :: "live_order list"
  ls_retrieved_at :: string

record demo_assessment =
  da_safe :: bool
  da_blocking :: "string list"
  da_notes :: "string list"

text \<open>\<open>tuple(dict.fromkeys(xs))\<close>: the first of equal members stays.\<close>

definition first_of_equal :: "string list \<Rightarrow> string list" where
  "first_of_equal xs = rev (remdups (rev xs))"

definition positions_of :: "position_ownership \<Rightarrow> live_snapshot \<Rightarrow> live_position list" where
  "positions_of o' s = filter (\<lambda>p. lp_ownership p = o') (ls_positions s)"

definition open_bot_orders :: "live_snapshot \<Rightarrow> live_order list" where
  "open_bot_orders s = filter (\<lambda>r. lo_open r \<and> lo_owner r = BOT_MANAGED) (ls_regular s @ ls_algo s)"

definition assess_live_to_demo_safety :: "live_snapshot \<Rightarrow> demo_assessment" where
  "assess_live_to_demo_safety s =
    (let bots = positions_of BOT_MANAGED s;
         reasons = (if bots \<noteq> [] then ''bot_managed_live_position_would_be_orphaned'' #
             (if list_ex (\<lambda>p. \<not> lp_has_stop p) bots then [''bot_managed_position_without_stop''] else []) else [])
           @ (if positions_of OWNERSHIP_UNKNOWN s \<noteq> [] then [''unknown_ownership_position''] else [])
           @ (if open_bot_orders s \<noteq> [] then [''open_bot_orders_present''] else []);
         notes = (if positions_of MANUAL_EXTERNAL s \<noteq> [] then [''manual_external_positions_present''] else []);
         blocking = first_of_equal reasons in
     \<lparr>da_safe = (blocking = []), da_blocking = blocking, da_notes = first_of_equal notes\<rparr>)"

text \<open>The snapshot without what people hold and order by hand.\<close>

definition without_manual :: "live_snapshot \<Rightarrow> live_snapshot" where
  "without_manual s = s\<lparr>ls_positions := filter (\<lambda>p. lp_ownership p \<noteq> MANUAL_EXTERNAL) (ls_positions s),
     ls_regular := filter (\<lambda>r. lo_owner r \<noteq> MANUAL_EXTERNAL) (ls_regular s),
     ls_algo := filter (\<lambda>r. lo_owner r \<noteq> MANUAL_EXTERNAL) (ls_algo s)\<rparr>"

lemma first_of_equal_empty [simp]: "first_of_equal xs = [] \<longleftrightarrow> xs = []"
  by (simp add: first_of_equal_def)

lemma filter_manual: "c \<noteq> MANUAL_EXTERNAL \<Longrightarrow> filter (\<lambda>p. lp_ownership p \<noteq> MANUAL_EXTERNAL \<and> lp_ownership p = c) ps = filter (\<lambda>p. lp_ownership p = c) ps"
  by (rule filter_cong) auto

lemma without_manual_parts:
  "c \<noteq> MANUAL_EXTERNAL \<Longrightarrow> positions_of c (without_manual s) = positions_of c s" "open_bot_orders (without_manual s) = open_bot_orders s"
  unfolding positions_of_def open_bot_orders_def without_manual_def
  by (auto simp: filter_manual intro!: filter_cong arg_cong2 [of _ _ _ _ "(@)"])

text \<open>
  When a switch to demo is safe. It is safe exactly when no position is the bot's or of unknown ownership
  and no open order is the bot's; what is held or ordered by hand changes neither the verdict nor the reasons;
  and a safe assessment names no reason.
\<close>

theorem demo_switch_safe_iff:
  "let a = assess_live_to_demo_safety s in
     (da_safe a \<longleftrightarrow> list_all (\<lambda>p. lp_ownership p = MANUAL_EXTERNAL) (ls_positions s) \<and>
        list_all (\<lambda>r. \<not> (lo_open r \<and> lo_owner r = BOT_MANAGED)) (ls_regular s @ ls_algo s)) \<and>
     (da_safe a \<longleftrightarrow> da_blocking a = []) \<and>
     da_blocking (assess_live_to_demo_safety (without_manual s)) = da_blocking a"
proof -
  have manual: "positions_of BOT_MANAGED s = [] \<and> positions_of OWNERSHIP_UNKNOWN s = [] \<longleftrightarrow> list_all (\<lambda>p. lp_ownership p = MANUAL_EXTERNAL) (ls_positions s)"
    unfolding positions_of_def filter_empty_conv list_all_iff by (metis position_ownership.distinct position_ownership.exhaust)
  have orders: "open_bot_orders s = [] \<longleftrightarrow> list_all (\<lambda>r. \<not> (lo_open r \<and> lo_owner r = BOT_MANAGED)) (ls_regular s @ ls_algo s)"
    unfolding open_bot_orders_def filter_empty_conv list_all_iff ..
  show ?thesis
    unfolding Let_def manual [symmetric] orders [symmetric]
    by (simp add: assess_live_to_demo_safety_def Let_def without_manual_parts)
qed

section \<open>Authority per market\<close>

record policy_verdict =
  pv_allowed :: bool
  pv_reason :: string

definition markets :: "string list" where
  "markets = [''KR_STOCK'', ''US_STOCK'', ''BINANCE'']"

definition ai_modes :: "string list" where
  "ai_modes = [''paper'', ''live'']"

definition named_field :: "obj \<Rightarrow> string \<Rightarrow> bool" where
  "named_field a k = (case jget a k of JStr s \<Rightarrow> strip s \<noteq> [] | _ \<Rightarrow> False)"

definition issued_by :: "obj \<Rightarrow> dtime \<Rightarrow> bool" where
  "issued_by a now = (case jreq a ''approved_at'' of Inr (JStr t) \<Rightarrow>
     (case dt_fromisoformat t of Inl e \<Rightarrow> False
      | Inr issued \<Rightarrow> dt_off issued \<noteq> None \<and> dt_off now \<noteq> None \<and> instant issued \<le> instant now)
   | _ \<Rightarrow> False)"

definition valid_approval :: "json \<Rightarrow> string \<Rightarrow> string \<Rightarrow> string \<Rightarrow> dtime \<Rightarrow> bool" where
  "valid_approval approval market account version now = (case approval of
     JObj a \<Rightarrow> \<not> (jget a ''status'' \<noteq> JStr ''approved'' \<or> jget a ''market'' \<noteq> JStr market) \<and>
       \<not> (jget a ''account'' \<noteq> JStr account \<or> jget a ''strategy_version_id'' \<noteq> JStr version) \<and>
       named_field a ''approved_by'' \<and> named_field a ''approval_id'' \<and> issued_by a now
   | _ \<Rightarrow> False)"

definition may_activate_strategy :: "string \<Rightarrow> string \<Rightarrow> string \<Rightarrow> json \<Rightarrow> dtime \<Rightarrow> policy_verdict" where
  "may_activate_strategy market account version approval now =
    (if market \<notin> set markets \<or> account = [] \<or> version = [] then \<lparr>pv_allowed = False, pv_reason = ''invalid_scope''\<rparr>
     else if \<not> valid_approval approval market account version now then \<lparr>pv_allowed = False, pv_reason = ''explicit_strategy_approval_required''\<rparr>
     else \<lparr>pv_allowed = True, pv_reason = ''approval_fields_match_requires_provenance_verification''\<rparr>)"

text \<open>Each of the two approvals reads the clock of its own.\<close>

definition may_execute_ai :: "string \<Rightarrow> string \<Rightarrow> string \<Rightarrow> string \<Rightarrow> json \<Rightarrow> json \<Rightarrow> dtime \<Rightarrow> dtime \<Rightarrow> policy_verdict" where
  "may_execute_ai market ai_mode account version strategy_approval live_approval t1 t2 =
    (let refuse = (\<lambda>r. \<lparr>pv_allowed = False, pv_reason = r\<rparr>) in
     if market \<notin> set markets \<or> ai_mode \<notin> set ai_modes \<or> account = [] \<or> version = [] then refuse ''invalid_scope''
     else if market = ''KR_STOCK'' \<or> market = ''US_STOCK'' then refuse ''equities_use_approved_strategy_engine_not_direct_ai_orders''
     else if ai_mode = ''paper'' then refuse ''paper_execution_adapter_not_integrated''
     else if \<not> valid_approval strategy_approval market account version t1 then refuse ''strategy_approval_required''
     else if \<not> valid_approval live_approval market account version t2 then refuse ''separate_live_ai_approval_required''
     else refuse ''live_ai_execution_not_validated'')"

lemma valid_approval_scope:
  "valid_approval approval market account version now \<Longrightarrow> valid_approval approval market' account' version' now' \<Longrightarrow>
   market' = market \<and> account' = account \<and> version' = version"
  by (cases approval) (auto simp: valid_approval_def)

text \<open>
  The authority is closed. An approval lets at most one market, account and version be activated, whatever
  the times; no order of the autonomy is ever allowed, in no market and mode and with no approvals; and the
  last refusal is reached exactly with both approvals for a live order on \<open>BINANCE\<close>.
\<close>

theorem authority_fails_closed:
  "\<not> pv_allowed (may_execute_ai market ai_mode account version ap lap t1 t2) \<and>
   (pv_reason (may_execute_ai market ai_mode account version ap lap t1 t2) = ''live_ai_execution_not_validated'' \<longleftrightarrow>
      market = ''BINANCE'' \<and> ai_mode = ''live'' \<and> pv_allowed (may_activate_strategy market account version ap t1) \<and>
      pv_allowed (may_activate_strategy market account version lap t2)) \<and>
   (if pv_allowed (may_activate_strategy market account version ap t1) \<and> pv_allowed (may_activate_strategy market' account' version' ap t2)
    then market' = market \<and> account' = account \<and> version' = version else True)"
proof (intro conjI)
  show "\<not> pv_allowed (may_execute_ai market ai_mode account version ap lap t1 t2)"
    by (simp add: may_execute_ai_def Let_def)
  show "pv_reason (may_execute_ai market ai_mode account version ap lap t1 t2) = ''live_ai_execution_not_validated'' \<longleftrightarrow>
      market = ''BINANCE'' \<and> ai_mode = ''live'' \<and> pv_allowed (may_activate_strategy market account version ap t1) \<and>
      pv_allowed (may_activate_strategy market account version lap t2)"
    by (simp add: may_execute_ai_def may_activate_strategy_def Let_def markets_def ai_modes_def)
  show "if pv_allowed (may_activate_strategy market account version ap t1) \<and> pv_allowed (may_activate_strategy market' account' version' ap t2)
    then market' = market \<and> account' = account \<and> version' = version else True"
    using valid_approval_scope [of ap market account version t1 market' account' version' t2]
    by (auto simp: may_activate_strategy_def split: if_splits)
qed

section \<open>Secrets\<close>

datatype credential_profile = PROFILE_DEMO | PROFILE_LIVE

fun credential_profile_value :: "credential_profile \<Rightarrow> string" where
  "credential_profile_value PROFILE_DEMO = ''demo''"
| "credential_profile_value PROFILE_LIVE = ''live''"

record broker_credentials =
  bc_profile :: credential_profile
  bc_api_key :: string
  bc_api_secret :: string

definition redacted :: string where
  "redacted = ''***REDACTED***''"

text \<open>\<open>repr\<close> and \<open>str\<close> of credentials.\<close>

definition credentials_repr :: "broker_credentials \<Rightarrow> string" where
  "credentials_repr c = ''BrokerCredentials(profile='' @ py_repr_str (credential_profile_value (bc_profile c)) @ '', api_key='' @ redacted @
     '', api_secret='' @ redacted @ '')''"

datatype secret_source = Credentials broker_credentials | Secrets "string list"

fun secrets_of :: "secret_source \<Rightarrow> string list" where
  "secrets_of (Credentials c) = filter (\<lambda>v. v \<noteq> []) [bc_api_key c, bc_api_secret c]"
| "secrets_of (Secrets ss) = filter (\<lambda>v. v \<noteq> []) ss"

text \<open>
  The secrets are replaced longest first. Equally long ones come in the order of a Python set, which is not
  fixed: \<open>order\<close> is any arrangement of the set that the sort can return.
\<close>

definition redaction_order :: "secret_source list \<Rightarrow> string list \<Rightarrow> bool" where
  "redaction_order sources order \<longleftrightarrow> distinct order \<and> set order = set (concat (map secrets_of sources)) \<and>
     sorted_wrt (\<lambda>a b. length b \<le> length a) order"

definition redact_secrets :: "string list \<Rightarrow> string \<Rightarrow> string" where
  "redact_secrets order text' = fold (\<lambda>secret cleaned. replace_all secret redacted cleaned) order text'"

text \<open>The log filter: the message is formatted by \<open>getMessage\<close>, whose result is \<open>formatted\<close>.\<close>

record log_record =
  lr_msg :: string
  lr_args :: "json list option"

definition redacting_filter :: "string list \<Rightarrow> string res \<Rightarrow> log_record \<Rightarrow> bool \<times> log_record" where
  "redacting_filter order formatted r = (case formatted of
     Inl e \<Rightarrow> (True, r)
   | Inr message \<Rightarrow> (True, r\<lparr>lr_msg := redact_secrets order message, lr_args := None\<rparr>))"

text \<open>A provider backed by a mapping; its error names the profile only.\<close>

definition load_credentials :: "(credential_profile \<times> string \<times> string) list \<Rightarrow> credential_profile \<Rightarrow> broker_credentials res" where
  "load_credentials configured profile = (case map_of configured profile of
     None \<Rightarrow> Inl (OtherError ''UnknownCredentialProfileError'' (''no credentials configured for profile '' @ [CHR 0x27] @ credential_profile_value profile @ [CHR 0x27]))
   | Some (key, secret) \<Rightarrow> Inr \<lparr>bc_profile = profile, bc_api_key = key, bc_api_secret = secret\<rparr>)"

text \<open>A secret without a star that is no part of the marker itself.\<close>

definition plain_secret :: "string \<Rightarrow> bool" where
  "plain_secret u \<longleftrightarrow> u \<noteq> [] \<and> CHR ''*'' \<notin> set u \<and> \<not> sublist u ''REDACTED''"

lemma replace_all_step:
  assumes "a \<noteq> []"
  shows "replace_all a b [] = []"
    "replace_all a b (c # s) = (if startswith (c # s) a then b @ replace_all a b (drop (length a) (c # s)) else c # replace_all a b s)"
  using assms by (simp_all add: replace_all.simps [of a b])

lemma startswith_prefix: "startswith s p \<longleftrightarrow> prefix p s"
  by (auto simp: startswith_iff prefix_def)

lemma redacted_star: "redacted = CHR ''*'' # ''**REDACTED***''"
  by (simp add: redacted_def)

text \<open>What stands at the front of the new text without a star stood at the front of the old one.\<close>

lemma prefix_replaced:
  assumes "a \<noteq> []" and "CHR ''*'' \<notin> set u" and "u \<noteq> []" and "prefix u (replace_all a redacted s)"
  shows "prefix u s \<and> \<not> prefix a s"
  using assms(2-4)
proof (induction s arbitrary: u)
  case (Cons c s)
  show ?case
  proof (cases "startswith (c # s) a")
    case True
    then have "prefix u (redacted @ replace_all a redacted (drop (length a) (c # s)))" using Cons.prems(3) by (simp add: replace_all_step [OF assms(1)])
    then have "CHR ''*'' \<in> set u" using Cons.prems(2) by (cases u) (auto simp: redacted_star)
    then show ?thesis using Cons.prems(1) by simp
  next
    case False
    then have "prefix u (c # replace_all a redacted s)" using Cons.prems(3) by (simp add: replace_all_step [OF assms(1)])
    then obtain v where v: "u = c # v" "prefix v (replace_all a redacted s)" using Cons.prems(2) by (cases u) auto
    have "prefix v s" using Cons.IH [OF _ _ v(2)] Cons.prems(1) v(1) by (cases "v = []") auto
    then show ?thesis using v(1) False by (simp add: startswith_prefix)
  qed
qed (use assms(1) in \<open>simp add: replace_all_step\<close>)

lemma sublist_append_cut:
  assumes "sublist u (p @ CHR ''*'' # q)" and "CHR ''*'' \<notin> set u"
  shows "sublist u p \<or> sublist u q"
proof -
  obtain x y where xy: "p @ CHR ''*'' # q = x @ u @ y" using assms(1) by (auto simp: sublist_def)
  consider (left) r where "p = x @ u @ r" | (right) r where "q = r @ u @ y" | (mid) "CHR ''*'' \<in> set u"
    using xy by (auto simp: append_eq_append_conv2 append_eq_Cons_conv Cons_eq_append_conv)
  then show ?thesis
  proof cases
    case left
    then show ?thesis by (auto simp: sublist_def)
  next
    case right
    then show ?thesis by (auto simp: sublist_def)
  qed (use assms(2) in simp)
qed

lemma sublist_redacted:
  assumes "plain_secret u" and "sublist u (redacted @ s)"
  shows "sublist u s"
proof -
  have star: "CHR ''*'' \<notin> set u" and u: "u \<noteq> []" "\<not> sublist u ''REDACTED''" using assms(1) by (auto simp: plain_secret_def)
  have front: "sublist u x" if "sublist u (CHR ''*'' # x)" for x
    using sublist_append_cut [of u "[]" x] that star u(1) by simp
  have split: "redacted @ s = CHR ''*'' # CHR ''*'' # CHR ''*'' # (''REDACTED'' @ CHR ''*'' # CHR ''*'' # CHR ''*'' # s)"
    by (simp add: redacted_def)
  have "sublist u (''REDACTED'' @ CHR ''*'' # CHR ''*'' # CHR ''*'' # s)"
    using assms(2) unfolding split by (rule front [THEN front, THEN front])
  from sublist_append_cut [OF this star] have "sublist u (CHR ''*'' # CHR ''*'' # s)" using u(2) by blast
  then show ?thesis by (rule front [THEN front])
qed

lemma sublist_replaced:
  assumes "plain_secret u" and "a \<noteq> []"
  shows "sublist u (replace_all a redacted s) \<Longrightarrow> sublist u s \<and> u \<noteq> a"
proof (induction "length s" arbitrary: s rule: less_induct)
  case less
  have u: "CHR ''*'' \<notin> set u" "u \<noteq> []" using assms(1) by (auto simp: plain_secret_def)
  show ?case
  proof (cases s)
    case Nil
    then show ?thesis using less.prems u(2) by (simp add: replace_all_step [OF assms(2)])
  next
    case (Cons c r)
    show ?thesis
    proof (cases "startswith s a")
      case True
      let ?d = "drop (length a) s"
      have "sublist u (redacted @ replace_all a redacted ?d)" using less.prems True Cons by (simp add: replace_all_step [OF assms(2)])
      then have "sublist u (replace_all a redacted ?d)" by (rule sublist_redacted [OF assms(1)])
      moreover have "length ?d < length s" using Cons assms(2) by simp
      ultimately have "sublist u ?d \<and> u \<noteq> a" using less.hyps by blast
      moreover have "sublist ?d s" by (rule sublist_drop)
      ultimately show ?thesis using sublist_order.order_trans by blast
    next
      case False
      then have "sublist u (c # replace_all a redacted r)" using less.prems Cons by (simp add: replace_all_step [OF assms(2)])
      then consider "prefix u (c # replace_all a redacted r)" | "sublist u (replace_all a redacted r)"
        by (auto simp: sublist_Cons_right)
      then show ?thesis
      proof cases
        case 1
        then have "prefix u s \<and> \<not> prefix a s"
          using prefix_replaced [OF assms(2) u(1,2), of s] False Cons by (simp add: replace_all_step [OF assms(2)])
        then show ?thesis by auto
      next
        case 2
        then have "sublist u r \<and> u \<noteq> a" using less.hyps [of r] Cons by simp
        then show ?thesis using Cons by (auto simp: sublist_Cons_right)
      qed
    qed
  qed
qed

lemma sublist_redact:
  assumes "plain_secret u" and "[] \<notin> set order"
  shows "sublist u (redact_secrets order s) \<Longrightarrow> sublist u s \<and> u \<notin> set order"
  using assms(2)
proof (induction order arbitrary: s)
  case (Cons a order)
  then have "sublist u (replace_all a redacted s) \<and> u \<notin> set order" by (simp add: redact_secrets_def)
  then show ?case using sublist_replaced [OF assms(1), of a s] Cons.prems(2) by auto
qed (simp add: redact_secrets_def)

text \<open>
  No secret is left. In whatever order the equally long ones come, the text that results contains no
  configured secret, except one that has a star in it or is a part of the marker; and nothing without a star
  comes in but parts of the marker: every other piece of the result was in the text before.
\<close>

theorem redaction_leaves_no_secret:
  "if redaction_order sources order
   then list_all (\<lambda>u. \<not> sublist u (redact_secrets order t)) (filter plain_secret (concat (map secrets_of sources))) \<and>
     (if plain_secret u \<and> sublist u (redact_secrets order t) then sublist u t else True)
   else True"
proof (cases "redaction_order sources order")
  case True
  have set: "set order = set (concat (map secrets_of sources))" using True by (simp add: redaction_order_def)
  have "[] \<notin> set (secrets_of x)" for x by (cases x) auto
  then have "[] \<notin> set order" unfolding set by auto
  note gone = sublist_redact [OF _ this]
  show ?thesis using gone True set by (auto simp: list_all_iff)
qed simp

end
