(* ===== verification/StrategyExecution.thy ===== *)
theory StrategyExecution
  imports PaperRevalidation
begin

text \<open>
  \<open>gaon/adapters/strategy_execution.py\<close>: the runtime that turns a request to execute the champion into
  a plan and a plan into a run. Requests, decisions, plans and runs with their stored forms, the
  repository, and the two operations. The lemmas show which plans are ever ready, that a live plan is
  always blocked, that only a ready paper plan of the current champion reaches the trading service,
  and that the guard against a second active run never fires.
\<close>

definition execution_policy_version :: string where
  "execution_policy_version = ''strategy_execution_policy_v1''"

datatype execution_mode = EM_DISABLED | EM_PAPER | EM_LIVE
datatype execution_status = ES_CREATED | ES_READY | ES_RUNNING | ES_COMPLETED | ES_BLOCKED | ES_FAILED | ES_CANCELLED

fun execution_mode_value :: "execution_mode \<Rightarrow> string" where
  "execution_mode_value EM_DISABLED = ''disabled''"
| "execution_mode_value EM_PAPER = ''paper''"
| "execution_mode_value EM_LIVE = ''live''"

fun execution_status_value :: "execution_status \<Rightarrow> string" where
  "execution_status_value ES_CREATED = ''created''"
| "execution_status_value ES_READY = ''ready''"
| "execution_status_value ES_RUNNING = ''running''"
| "execution_status_value ES_COMPLETED = ''completed''"
| "execution_status_value ES_BLOCKED = ''blocked''"
| "execution_status_value ES_FAILED = ''failed''"
| "execution_status_value ES_CANCELLED = ''cancelled''"

definition execution_mode_of :: "string \<Rightarrow> execution_mode res" where
  "execution_mode_of s = ofOption (ValueError ''not a valid StrategyExecutionMode'')
     (find (\<lambda>m. execution_mode_value m = s) [EM_DISABLED, EM_PAPER, EM_LIVE])"

definition execution_status_of :: "string \<Rightarrow> execution_status res" where
  "execution_status_of s = ofOption (ValueError ''not a valid StrategyExecutionStatus'')
     (find (\<lambda>m. execution_status_value m = s) [ES_CREATED, ES_READY, ES_RUNNING, ES_COMPLETED, ES_BLOCKED, ES_FAILED, ES_CANCELLED])"

lemma execution_enums_roundtrip [simp]:
  "execution_mode_of (execution_mode_value m) = Inr m" "execution_status_of (execution_status_value st) = Inr st"
  subgoal by (cases m) (simp_all add: execution_mode_of_def)
  subgoal by (cases st) (simp_all add: execution_status_of_def)
  done

section \<open>Data\<close>

record execution_policy =
  ep_policy_version :: string
  ep_default_mode :: execution_mode
  ep_live_enabled :: bool
  ep_broker_available :: bool

definition execution_policy_default :: execution_policy where
  "execution_policy_default = \<lparr>ep_policy_version = execution_policy_version, ep_default_mode = EM_DISABLED,
     ep_live_enabled = False, ep_broker_available = False\<rparr>"

record execution_request =
  eq_request_id :: string
  eq_mode :: execution_mode
  eq_slot :: string
  eq_version_id :: "string option"
  eq_fingerprint :: "string option"
  eq_revalidation_id :: "string option"
  eq_actor_ref :: string
  eq_requested_at :: string

definition build_execution_request :: "string \<Rightarrow> execution_mode \<Rightarrow> string \<Rightarrow> string \<Rightarrow> string \<Rightarrow> string option \<Rightarrow> string option \<Rightarrow> string option \<Rightarrow> execution_request" where
  "build_execution_request rid mode actor ts slot version fp rv = \<lparr>eq_request_id = rid, eq_mode = mode,
     eq_slot = slot, eq_version_id = version, eq_fingerprint = fp,
     eq_revalidation_id = rv, eq_actor_ref = actor, eq_requested_at = ts\<rparr>"

record execution_decision =
  ed_status :: execution_status
  ed_reason :: string
  ed_approval_required :: bool

definition decide_as :: "execution_status \<Rightarrow> string \<Rightarrow> execution_decision" where
  "decide_as st r = \<lparr>ed_status = st, ed_reason = r, ed_approval_required = False\<rparr>"

record execution_plan =
  xp_plan_id :: string
  xp_request_id :: string
  xp_mode :: execution_mode
  xp_version_id :: string
  xp_strategy_ref :: string
  xp_fingerprint :: string
  xp_revalidation_id :: "string option"
  xp_status :: execution_status
  xp_decision :: execution_decision
  xp_policy_version :: string
  xp_created_at :: string

definition plan_to_json :: "execution_plan \<Rightarrow> obj" where
  "plan_to_json p = [(''plan_id'', JStr (xp_plan_id p)), (''request_id'', JStr (xp_request_id p)),
     (''mode'', JStr (execution_mode_value (xp_mode p))), (''champion_version_id'', JStr (xp_version_id p)),
     (''strategy_ref'', JStr (xp_strategy_ref p)), (''fingerprint'', JStr (xp_fingerprint p)),
     (''revalidation_id'', of_opt (xp_revalidation_id p)), (''status'', JStr (execution_status_value (xp_status p))),
     (''decision'', JObj [(''status'', JStr (execution_status_value (ed_status (xp_decision p)))),
       (''reason'', JStr (ed_reason (xp_decision p))), (''approval_required'', JBool (ed_approval_required (xp_decision p)))]),
     (''policy_version'', JStr (xp_policy_version p)), (''created_at'', JStr (xp_created_at p))]"

definition decision_from_json :: "json \<Rightarrow> execution_decision res" where
  "decision_from_json j = bindR (need_obj j) (\<lambda>o'.
     bindR (bindR (jreq o' ''status'') (\<lambda>v. execution_status_of (py_str v))) (\<lambda>st. bindR (jreq o' ''reason'') (\<lambda>r.
     bindR (jreq o' ''approval_required'') (\<lambda>b.
     Inr \<lparr>ed_status = st, ed_reason = py_str r, ed_approval_required = jtruthy b\<rparr>))))"

definition plan_from_json :: "obj \<Rightarrow> execution_plan res" where
  "plan_from_json o' = bindR (jreq o' ''plan_id'') (\<lambda>pid. bindR (jreq o' ''request_id'') (\<lambda>rid.
     bindR (bindR (jreq o' ''mode'') (\<lambda>v. execution_mode_of (py_str v))) (\<lambda>m. bindR (jreq o' ''champion_version_id'') (\<lambda>vid.
     bindR (jreq o' ''strategy_ref'') (\<lambda>sr. bindR (jreq o' ''fingerprint'') (\<lambda>fp. bindR (need_opt_str (jget o' ''revalidation_id'')) (\<lambda>rv.
     bindR (bindR (jreq o' ''status'') (\<lambda>v. execution_status_of (py_str v))) (\<lambda>st.
     bindR (bindR (jreq o' ''decision'') decision_from_json) (\<lambda>d. bindR (jreq o' ''policy_version'') (\<lambda>pv.
     bindR (jreq o' ''created_at'') (\<lambda>ca.
     Inr \<lparr>xp_plan_id = py_str pid, xp_request_id = py_str rid, xp_mode = m, xp_version_id = py_str vid, xp_strategy_ref = py_str sr,
       xp_fingerprint = py_str fp, xp_revalidation_id = rv, xp_status = st, xp_decision = d, xp_policy_version = py_str pv,
       xp_created_at = py_str ca\<rparr>)))))))))))"

record execution_run =
  xr_run_id :: string
  xr_plan_id :: string
  xr_mode :: execution_mode
  xr_version_id :: string
  xr_fingerprint :: string
  xr_status :: execution_status
  xr_result_ref :: "string option"
  xr_block_reason :: "string option"
  xr_started_at :: string
  xr_completed_at :: "string option"

definition run_to_json :: "execution_run \<Rightarrow> obj" where
  "run_to_json r = [(''run_id'', JStr (xr_run_id r)), (''plan_id'', JStr (xr_plan_id r)), (''mode'', JStr (execution_mode_value (xr_mode r))),
     (''champion_version_id'', JStr (xr_version_id r)), (''fingerprint'', JStr (xr_fingerprint r)),
     (''status'', JStr (execution_status_value (xr_status r))), (''result_ref'', of_opt (xr_result_ref r)),
     (''block_reason'', of_opt (xr_block_reason r)), (''started_at'', JStr (xr_started_at r)), (''completed_at'', of_opt (xr_completed_at r))]"

definition run_from_json :: "obj \<Rightarrow> execution_run res" where
  "run_from_json o' = bindR (jreq o' ''run_id'') (\<lambda>rid. bindR (jreq o' ''plan_id'') (\<lambda>pid.
     bindR (bindR (jreq o' ''mode'') (\<lambda>v. execution_mode_of (py_str v))) (\<lambda>m. bindR (jreq o' ''champion_version_id'') (\<lambda>vid.
     bindR (jreq o' ''fingerprint'') (\<lambda>fp. bindR (bindR (jreq o' ''status'') (\<lambda>v. execution_status_of (py_str v))) (\<lambda>st.
     bindR (need_opt_str (jget o' ''result_ref'')) (\<lambda>rr. bindR (need_opt_str (jget o' ''block_reason'')) (\<lambda>br.
     bindR (jreq o' ''started_at'') (\<lambda>sa. bindR (need_opt_str (jget o' ''completed_at'')) (\<lambda>ca.
     Inr \<lparr>xr_run_id = py_str rid, xr_plan_id = py_str pid, xr_mode = m, xr_version_id = py_str vid, xr_fingerprint = py_str fp,
       xr_status = st, xr_result_ref = rr, xr_block_reason = br, xr_started_at = py_str sa, xr_completed_at = ca\<rparr>))))))))))"

lemma execution_roundtrips [simp]:
  "plan_from_json (ocanon (plan_to_json p)) = Inr p" "run_from_json (ocanon (run_to_json r)) = Inr r"
  subgoal by (cases p) (simp add: plan_from_json_def plan_to_json_def decision_from_json_def)
  subgoal by (cases r) (simp add: run_from_json_def run_to_json_def)
  done

section \<open>Repository\<close>

record execution_repo =
  xq_plans :: "execution_plan table"
  xq_runs :: "execution_run table"

definition execution_repo_init :: execution_repo where
  "execution_repo_init = \<lparr>xq_plans = [], xq_runs = []\<rparr>"

definition add_plan :: "execution_plan \<Rightarrow> execution_repo \<Rightarrow> execution_repo" where
  "add_plan p repo = repo\<lparr>xq_plans := t_replace (xp_plan_id p) p (xq_plans repo)\<rparr>"

definition get_plan :: "string \<Rightarrow> execution_repo \<Rightarrow> execution_plan res" where
  "get_plan pid repo = bindR (ofOption (KeyError pid) (t_get pid (xq_plans repo))) (\<lambda>p. plan_from_json (ocanon (plan_to_json p)))"

definition list_plans :: "execution_repo \<Rightarrow> execution_plan list res" where
  "list_plans repo = mapR (\<lambda>(k, p). plan_from_json (ocanon (plan_to_json p))) (sort_key (\<lambda>(k, p). (xp_created_at p, k)) (xq_plans repo))"

definition add_run :: "execution_run \<Rightarrow> execution_repo \<Rightarrow> execution_repo" where
  "add_run r repo = repo\<lparr>xq_runs := t_replace (xr_run_id r) r (xq_runs repo)\<rparr>"

definition get_run :: "string \<Rightarrow> execution_repo \<Rightarrow> execution_run res" where
  "get_run rid repo = bindR (ofOption (KeyError rid) (t_get rid (xq_runs repo))) (\<lambda>r. run_from_json (ocanon (run_to_json r)))"

definition list_runs :: "execution_repo \<Rightarrow> execution_run list res" where
  "list_runs repo = mapR (\<lambda>(k, r). run_from_json (ocanon (run_to_json r))) (sort_key (\<lambda>(k, r). (xr_started_at r, k)) (xq_runs repo))"

definition has_active_run :: "string \<Rightarrow> execution_mode \<Rightarrow> execution_repo \<Rightarrow> bool" where
  "has_active_run vid mode repo = list_ex (\<lambda>r. xr_version_id r = vid \<and> xr_mode r = mode \<and>
     execution_status_value (xr_status r) \<in> {''created'', ''ready'', ''running''}) (t_rows (xq_runs repo))"

section \<open>The runtime\<close>

record execution_env = env +
  xe_repo :: execution_repo
  xe_registry :: registry_repo
  xe_revalidations :: "revalidation_repo option"
  xe_trading :: "trading_repo option"

definition xe_update :: "(execution_repo \<Rightarrow> execution_repo) \<Rightarrow> (execution_env, unit) opr" where
  "xe_update f = modO (\<lambda>s. s\<lparr>xe_repo := f (xe_repo s)\<rparr>)"

definition xe_reads :: "(execution_env \<Rightarrow> 'a res) \<Rightarrow> (execution_env, 'a) opr" where
  "xe_reads f = (\<lambda>s. (f s, s))"

text \<open>A run trades through a new paper adapter, which it drops afterwards.\<close>

definition xe_tradingO :: "(paper_adapter trading_env, 'a) opr \<Rightarrow> (execution_env, 'a) opr" where
  "xe_tradingO m = (\<lambda>s. case m \<lparr>env_events = env_events s, env_metrics = env_metrics s, te_repo = xe_trading s,
       te_adapter = paper_init True False\<rparr> of
     (r, t) \<Rightarrow> (r, s\<lparr>env_events := env_events t, env_metrics := env_metrics t, xe_trading := te_repo t\<rparr>))"

definition execution_event :: "string \<Rightarrow> string \<Rightarrow> string \<Rightarrow> string \<Rightarrow> obj \<Rightarrow> durable_event" where
  "execution_event event_type c actor ts payload =
    \<lparr>de_event_id = ''event:strategy-execution:'' @ event_type @ '':'' @ c, de_event_type = event_type, de_occurred_at = ts,
     de_actor_ref = actor, de_correlation_id = c, de_causation_id = None, de_scope = ''strategy_execution'',
     de_project = ''StrategyLab'', de_strategy = ''N/A'', de_market = ''N/A'', de_payload = payload, de_evidence_refs = [],
     de_audit_refs = [], de_appended_at = ts\<rparr>"

definition xe_record :: "string \<Rightarrow> string \<Rightarrow> string \<Rightarrow> string \<Rightarrow> obj \<Rightarrow> (execution_env, unit) opr" where
  "xe_record event_type c actor ts payload = record_once (execution_event event_type c actor ts payload)"

definition xe_increment :: "string \<Rightarrow> (execution_env, unit) opr" where
  "xe_increment name = increment ''strategy_execution'' name"

definition missing_entry :: "execution_request \<Rightarrow> registry_entry res" where
  "missing_entry q = mk_registry_entry \<lparr>re_slot = eq_slot q, re_version_id = ''missing'', re_strategy_ref = ''missing'',
     re_fingerprint = ''missing'', re_backtest_id = ''missing'', re_validation_id = ''missing'', re_evaluation_id = ''missing'',
     re_activated_at = eq_requested_at q, re_revision = 1, re_previous = None\<rparr>"

definition plan_for :: "execution_policy \<Rightarrow> execution_request \<Rightarrow> registry_entry \<Rightarrow> execution_decision \<Rightarrow> execution_plan" where
  "plan_for pol q a d = \<lparr>xp_plan_id = ''execution-plan:'' @ eq_request_id q, xp_request_id = eq_request_id q, xp_mode = eq_mode q,
     xp_version_id = re_version_id a, xp_strategy_ref = re_strategy_ref a, xp_fingerprint = re_fingerprint a,
     xp_revalidation_id = eq_revalidation_id q, xp_status = (if ed_status d = ES_READY then ES_READY else ES_BLOCKED),
     xp_decision = d, xp_policy_version = ep_policy_version pol, xp_created_at = eq_requested_at q\<rparr>"

definition blocked_plan :: "execution_policy \<Rightarrow> execution_request \<Rightarrow> string \<Rightarrow> registry_entry option \<Rightarrow> (execution_env, execution_plan) opr" where
  "blocked_plan pol q why active =
    bindO (liftO (case active of Some a \<Rightarrow> Inr a | None \<Rightarrow> missing_entry q)) (\<lambda>a.
    thenO (xe_update (add_plan (plan_for pol q a (decide_as ES_BLOCKED why)))) (retO (plan_for pol q a (decide_as ES_BLOCKED why))))"

definition load_revalidation :: "string option \<Rightarrow> execution_env \<Rightarrow> revalidation_report option res" where
  "load_revalidation rid s = (case rid of None \<Rightarrow> Inr None | Some k \<Rightarrow> (case xe_revalidations s of None \<Rightarrow> Inr None
     | Some repo \<Rightarrow> bindR (revalidation_get_report k repo) (\<lambda>r. Inr (Some r))))"

definition live_decision :: "execution_policy \<Rightarrow> revalidation_report option \<Rightarrow> execution_decision" where
  "live_decision pol rep = (case rep of None \<Rightarrow> decide_as ES_BLOCKED ''live execution requires revalidation''
     | Some r \<Rightarrow>
       if rv_status r = RV_KILL then decide_as ES_BLOCKED ''KILL revalidation blocks execution''
       else if rv_status r = RV_ROLLBACK then decide_as ES_BLOCKED ''rollback recommended blocks live execution''
       else if rv_status r = RV_HOLD then decide_as ES_BLOCKED ''HOLD revalidation blocks live execution''
       else if rv_status r \<noteq> RV_LIVE_ELIGIBLE then decide_as ES_BLOCKED ''revalidation is not live eligible''
       else if \<not> ep_live_enabled pol then decide_as ES_BLOCKED ''live trading disabled by policy''
       else (decide_as ES_BLOCKED ''live broker adapter unavailable'')\<lparr>ed_approval_required := True\<rparr>)"

definition execution_decision_for :: "execution_policy \<Rightarrow> execution_request \<Rightarrow> execution_env \<Rightarrow> execution_decision res" where
  "execution_decision_for pol q s = (case eq_mode q of
      EM_DISABLED \<Rightarrow> Inr (decide_as ES_BLOCKED ''execution mode disabled'')
    | EM_PAPER \<Rightarrow> Inr (decide_as ES_READY ''paper execution allowed for active Champion'')
    | EM_LIVE \<Rightarrow> bindR (load_revalidation (eq_revalidation_id q) s) (\<lambda>rep. Inr (live_decision pol rep)))"

text \<open>\<open>x and x != y\<close> for an optional text: neither \<open>None\<close> nor the empty string is compared.\<close>

definition given_other :: "string option \<Rightarrow> string \<Rightarrow> bool" where
  "given_other x y \<longleftrightarrow> (case x of None \<Rightarrow> False | Some v \<Rightarrow> v \<noteq> [] \<and> v \<noteq> y)"

definition execution_plan_op :: "execution_policy \<Rightarrow> execution_request \<Rightarrow> (execution_env, execution_plan) opr" where
  "execution_plan_op pol q =
    thenO (liftO (validate_utc (eq_requested_at q)))
    (bindO (xe_reads (\<lambda>s. rg_get_active (eq_slot q) (xe_registry s))) (\<lambda>active.
    thenO (xe_increment ''gaon_strategy_execution_requests_total'')
    (case active of
       None \<Rightarrow> blocked_plan pol q ''active champion is required'' None
     | Some a \<Rightarrow>
        if given_other (eq_version_id q) (re_version_id a) then blocked_plan pol q ''stale champion execution blocked'' (Some a)
        else if given_other (eq_fingerprint q) (re_fingerprint a) then blocked_plan pol q ''champion fingerprint mismatch'' (Some a)
        else
          bindO (xe_reads (execution_decision_for pol q)) (\<lambda>d.
          bindO (retO (plan_for pol q a d)) (\<lambda>p.
          thenO (xe_update (add_plan p))
          (thenO (xe_record (if xp_status p = ES_READY then ''StrategyExecutionPlanned'' else ''StrategyExecutionBlocked'') (xp_plan_id p)
             (eq_actor_ref q) (eq_requested_at q) [(''mode'', JStr (execution_mode_value (xp_mode p))), (''reason'', JStr (ed_reason d))])
          (thenO (whenO (xp_status p = ES_BLOCKED) (xe_increment ''gaon_strategy_execution_blocked_total'')) (retO p))))))))"

definition run_of_plan :: "execution_plan \<Rightarrow> string \<Rightarrow> execution_status \<Rightarrow> string option \<Rightarrow> string option \<Rightarrow> string \<Rightarrow> execution_run" where
  "run_of_plan p rid st result why ts = \<lparr>xr_run_id = rid, xr_plan_id = xp_plan_id p, xr_mode = xp_mode p, xr_version_id = xp_version_id p,
     xr_fingerprint = xp_fingerprint p, xr_status = st, xr_result_ref = result, xr_block_reason = why, xr_started_at = ts,
     xr_completed_at = Some ts\<rparr>"

definition run_id_of :: "execution_plan \<Rightarrow> string" where
  "run_id_of p = ''execution-run:'' @ xp_plan_id p"

definition put_run :: "execution_run \<Rightarrow> (execution_env, execution_run) opr" where
  "put_run r = thenO (xe_update (add_run r)) (retO r)"

text \<open>The champion of the default slot is another one than the plan's.\<close>

definition plan_stale :: "execution_plan \<Rightarrow> registry_entry option \<Rightarrow> bool" where
  "plan_stale p active \<longleftrightarrow> (case active of None \<Rightarrow> True
     | Some a \<Rightarrow> re_version_id a \<noteq> xp_version_id p \<or> re_fingerprint a \<noteq> xp_fingerprint p)"

definition execution_trade_request :: "execution_plan \<Rightarrow> string \<Rightarrow> string \<Rightarrow> trading_request res" where
  "execution_trade_request p actor ts = build_trading_request (''strategy-execution:'' @ xp_plan_id p) SIMULATE_BUY ''PAPER'' (Fin 1)
     (Some (Fin 1)) actor ts (Some (''strategy-execution:'' @ xp_plan_id p))"

definition paper_run_of :: "execution_plan \<Rightarrow> trading_result \<Rightarrow> string \<Rightarrow> execution_run" where
  "paper_run_of p result ts = (let st = (if tx_status result = TS_SIMULATED then ES_COMPLETED else ES_FAILED) in
     run_of_plan p (run_id_of p) st (Some (tx_result_id result)) (if st = ES_COMPLETED then None else Some (tx_message result)) ts)"

definition execution_run_paper :: "execution_plan \<Rightarrow> string \<Rightarrow> string \<Rightarrow> (execution_env, execution_run) opr" where
  "execution_run_paper p actor ts =
    bindO (liftO (execution_trade_request p actor ts)) (\<lambda>request.
    bindO (xe_tradingO (trading_execute paper_trading_adapter trading_policy_default request)) (\<lambda>result.
    bindO (put_run (paper_run_of p result ts)) (\<lambda>r.
    thenO (xe_record (if xr_status r = ES_COMPLETED then ''StrategyExecutionCompleted'' else ''StrategyExecutionFailed'') (xr_run_id r)
       actor ts [(''result_ref'', JStr (tx_result_id result))])
    (thenO (xe_increment ''gaon_paper_execution_runs_total'') (retO r)))))"

definition execution_run_live :: "execution_plan \<Rightarrow> string \<Rightarrow> string \<Rightarrow> (execution_env, execution_run) opr" where
  "execution_run_live p actor ts =
    bindO (put_run (run_of_plan p (run_id_of p) ES_BLOCKED None (Some ''live broker adapter unavailable'') ts)) (\<lambda>r.
    thenO (xe_record ''LiveExecutionBlocked'' (xr_run_id r) actor ts [(''reason'', JStr ''live broker adapter unavailable'')])
    (thenO (xe_increment ''gaon_live_execution_blocked_total'') (retO r)))"

definition execution_run_op :: "string \<Rightarrow> string \<Rightarrow> string \<Rightarrow> (execution_env, execution_run) opr" where
  "execution_run_op pid actor ts =
    bindO (xe_reads (\<lambda>s. get_plan pid (xe_repo s))) (\<lambda>p.
    bindO (xe_reads (\<lambda>s. rg_get_active DEFAULT_CHAMPION_SLOT (xe_registry s))) (\<lambda>active.
    if plan_stale p active then
      bindO (put_run (run_of_plan p (run_id_of p) ES_BLOCKED None (Some ''stale champion execution blocked'') ts)) (\<lambda>r.
      thenO (xe_record ''StaleChampionExecutionBlocked'' (xr_run_id r) actor ts [(''plan_id'', JStr (xp_plan_id p))]) (retO r))
    else if xp_status p = ES_BLOCKED then
      put_run (run_of_plan p (run_id_of p) ES_BLOCKED None (Some (ed_reason (xp_decision p))) ts)
    else
      bindO (xe_reads (\<lambda>s. Inr (has_active_run (xp_version_id p) (xp_mode p) (xe_repo s)))) (\<lambda>busy.
      if busy then
        put_run (run_of_plan p (run_id_of p @ '':duplicate'') ES_BLOCKED None (Some ''duplicate active execution'') ts)
      else
        thenO (xe_record ''StrategyExecutionStarted'' (xp_plan_id p) actor ts [(''mode'', JStr (execution_mode_value (xp_mode p)))])
        (thenO (xe_increment ''gaon_strategy_execution_runs_total'')
        (if xp_mode p = EM_LIVE then execution_run_live p actor ts else execution_run_paper p actor ts)))))"

section \<open>The invariant of the tables\<close>

text \<open>
  Only a paper plan is ever ready, a plan is ready or blocked and nothing else, and a run is over when
  it is stored: blocked, or completed or failed in paper mode.
\<close>

definition plan_ok :: "execution_plan \<Rightarrow> bool" where
  "plan_ok p \<longleftrightarrow> (xp_status p = ES_READY \<and> xp_mode p = EM_PAPER) \<or> xp_status p = ES_BLOCKED"

definition run_ok :: "execution_run \<Rightarrow> bool" where
  "run_ok r \<longleftrightarrow> xr_status r = ES_BLOCKED \<or> (xr_mode r = EM_PAPER \<and> (xr_status r = ES_COMPLETED \<or> xr_status r = ES_FAILED))"

definition execution_ok :: "execution_repo \<Rightarrow> bool" where
  "execution_ok repo \<longleftrightarrow> (\<forall>p \<in> set (t_rows (xq_plans repo)). plan_ok p) \<and> (\<forall>r \<in> set (t_rows (xq_runs repo)). run_ok r)"

lemma t_rows_replace: "set (t_rows (t_replace k r t)) \<subseteq> insert r (set (t_rows t))"
  by (auto simp: t_rows_def t_replace_def)

lemma t_get_row: "t_get k t = Some r \<Longrightarrow> r \<in> set (t_rows t)"
  by (auto simp: t_get_def t_rows_def dest: map_of_SomeD intro: rev_image_eqI)

lemma execution_ok_add:
  "execution_ok repo \<Longrightarrow> plan_ok p \<Longrightarrow> execution_ok (add_plan p repo)"
  "execution_ok repo \<Longrightarrow> run_ok r \<Longrightarrow> execution_ok (add_run r repo)"
  using t_rows_replace [of "xp_plan_id p" p "xq_plans repo"] t_rows_replace [of "xr_run_id r" r "xq_runs repo"]
  by (auto simp: execution_ok_def add_plan_def add_run_def)

lemma get_plan_Inr: "get_plan pid repo = Inr p \<longleftrightarrow> t_get pid (xq_plans repo) = Some p"
  by (cases "t_get pid (xq_plans repo)") (simp_all add: get_plan_def)

lemma stored_plan_ok: "execution_ok repo \<Longrightarrow> get_plan pid repo = Inr p \<Longrightarrow> plan_ok p"
  by (auto simp: get_plan_Inr execution_ok_def dest: t_get_row)

lemma no_active_run: "execution_ok repo \<Longrightarrow> \<not> has_active_run vid mode repo"
  by (auto simp: execution_ok_def has_active_run_def list_ex_iff run_ok_def)

lemma wp_xe [wp_simps]:
  "wp (xe_update f) Q E s = Q () (s\<lparr>xe_repo := f (xe_repo s)\<rparr>)"
  "wp (xe_reads g) Q' E s = (case g s of Inl e \<Rightarrow> E e s | Inr x \<Rightarrow> Q' x s)"
  "wp (xe_increment name) Q E s = Q () (s\<lparr>env_metrics := map_option (\<lambda>ms. ms @ [MIncrement name ''strategy_execution'']) (env_metrics s)\<rparr>)"
  by (simp_all add: xe_update_def wp_simps xe_increment_def wp_increment) (simp add: wp_def xe_reads_def split: sum.splits)

lemma wp_xe_record:
  assumes "\<And>es. Q () (s\<lparr>env_events := es\<rparr>)" and "\<And>er. E er s"
  shows "wp (xe_record ty c a ts p) Q E s"
  unfolding xe_record_def by (rule wp_record_onceI) (rule assms)+

lemma wp_xe_tradingI:
  assumes "\<And>r es ms tr. Q r (s\<lparr>env_events := es, env_metrics := ms, xe_trading := tr\<rparr>)"
    and "\<And>e es ms tr. E e (s\<lparr>env_events := es, env_metrics := ms, xe_trading := tr\<rparr>)"
  shows "wp (xe_tradingO m) Q E s"
  by (simp add: wp_def xe_tradingO_def assms split: prod.splits sum.splits)

lemmas execution_wp = wp_xe wp_then wp_bind wp_basic wp_lift wp_if wp_when

lemma plan_for_simps [simp]:
  "xp_mode (plan_for pol q a d) = eq_mode q" "xp_plan_id (plan_for pol q a d) = ''execution-plan:'' @ eq_request_id q"
  "xp_version_id (plan_for pol q a d) = re_version_id a" "xp_fingerprint (plan_for pol q a d) = re_fingerprint a"
  "xp_status (plan_for pol q a d) = (if ed_status d = ES_READY then ES_READY else ES_BLOCKED)"
  "ed_status (decide_as st why) = st"
  by (simp_all add: plan_for_def decide_as_def)

lemma live_decision_blocked [simp]: "ed_status (live_decision pol rep) = ES_BLOCKED"
  by (simp add: live_decision_def decide_as_def split: option.split)

lemma decision_ready:
  "execution_decision_for pol q s = Inr d \<Longrightarrow> ed_status d = ES_READY \<longleftrightarrow> eq_mode q = EM_PAPER"
  by (auto simp: execution_decision_for_def bindR_Inr_iff split: execution_mode.splits)

lemma plan_for_ok: "ed_status d = ES_READY \<Longrightarrow> eq_mode q = EM_PAPER \<Longrightarrow> plan_ok (plan_for pol q a d)"
  "ed_status d \<noteq> ES_READY \<Longrightarrow> plan_ok (plan_for pol q a d)"
  by (simp_all add: plan_ok_def)

text \<open>What a plan call leaves: one plan more, ready exactly for a paper request for the active champion.\<close>

definition plan_accepted :: "execution_request \<Rightarrow> execution_env \<Rightarrow> registry_entry \<Rightarrow> bool" where
  "plan_accepted q s a \<longleftrightarrow> rg_get_active (eq_slot q) (xe_registry s) = Inr (Some a) \<and>
     \<not> given_other (eq_version_id q) (re_version_id a) \<and> \<not> given_other (eq_fingerprint q) (re_fingerprint a)"

definition plan_effect :: "execution_request \<Rightarrow> execution_env \<Rightarrow> execution_plan \<Rightarrow> execution_env \<Rightarrow> bool" where
  "plan_effect q s p t \<longleftrightarrow> xe_repo t = add_plan p (xe_repo s) \<and> xe_trading t = xe_trading s \<and> xp_mode p = eq_mode q \<and> plan_ok p \<and>
     xp_plan_id p = ''execution-plan:'' @ eq_request_id q \<and>
     (xp_status p = ES_READY \<longleftrightarrow> eq_mode q = EM_PAPER \<and> (\<exists>a. plan_accepted q s a \<and> xp_version_id p = re_version_id a \<and>
        xp_fingerprint p = re_fingerprint a))"

lemma plan_op_wp:
  "wp (execution_plan_op pol q) (plan_effect q s) (\<lambda>e t. xe_repo t = xe_repo s \<and> xe_trading t = xe_trading s \<or> (\<exists>p. plan_effect q s p t)) s"
  unfolding execution_plan_op_def blocked_plan_def
  by (auto intro!: wp_xe_record simp: execution_wp plan_effect_def plan_accepted_def decision_ready plan_for_ok plan_ok_def
      split: sum.splits option.splits)

text \<open>What a run call leaves: one run more, and trades only for a ready paper plan of the current champion.\<close>

definition run_gate :: "string \<Rightarrow> execution_env \<Rightarrow> bool" where
  "run_gate pid s \<longleftrightarrow> (\<exists>p a. get_plan pid (xe_repo s) = Inr p \<and> xp_status p = ES_READY \<and> xp_mode p = EM_PAPER \<and>
     rg_get_active DEFAULT_CHAMPION_SLOT (xe_registry s) = Inr (Some a) \<and> re_version_id a = xp_version_id p \<and>
     re_fingerprint a = xp_fingerprint p)"

definition run_effect :: "string \<Rightarrow> execution_env \<Rightarrow> execution_run \<Rightarrow> execution_env \<Rightarrow> bool" where
  "run_effect pid s r t \<longleftrightarrow> xe_repo t = add_run r (xe_repo s) \<and> run_ok r \<and> (xe_trading t = xe_trading s \<or> run_gate pid s) \<and>
     (xr_status r = ES_BLOCKED \<or> run_gate pid s) \<and>
     (\<exists>p. get_plan pid (xe_repo s) = Inr p \<and> xr_run_id r = run_id_of p \<and> xr_mode r = xp_mode p)"

definition run_failed :: "string \<Rightarrow> execution_env \<Rightarrow> execution_env \<Rightarrow> bool" where
  "run_failed pid s t \<longleftrightarrow> execution_ok (xe_repo t) \<and> (xe_trading t = xe_trading s \<or> run_gate pid s)"

lemma run_of_plan_simps [simp]:
  "xr_run_id (run_of_plan p rid st res why ts) = rid" "xr_mode (run_of_plan p rid st res why ts) = xp_mode p"
  "xr_status (run_of_plan p rid st res why ts) = st" "xr_status (paper_run_of p result ts) = (if tx_status result = TS_SIMULATED then ES_COMPLETED else ES_FAILED)"
  "xr_run_id (paper_run_of p result ts) = run_id_of p" "xr_mode (paper_run_of p result ts) = xp_mode p"
  by (simp_all add: run_of_plan_def paper_run_of_def Let_def)

lemma run_ok_simps [simp]:
  "run_ok (run_of_plan p rid ES_BLOCKED res why ts)" "xp_mode p = EM_PAPER \<Longrightarrow> run_ok (paper_run_of p result ts)"
  by (simp_all add: run_ok_def)

lemma run_op_wp:
  assumes "execution_ok (xe_repo s)"
  shows "wp (execution_run_op pid actor ts) (run_effect pid s) (\<lambda>e t. run_failed pid s t) s"
proof (cases "get_plan pid (xe_repo s)")
  case (Inl e)
  then show ?thesis by (simp add: execution_run_op_def execution_wp run_failed_def assms)
next
  case (Inr p)
  have p: "plan_ok p" by (rule stored_plan_ok [OF assms Inr])
  have gate: "run_gate pid s" if "\<not> plan_stale p active" "rg_get_active DEFAULT_CHAMPION_SLOT (xe_registry s) = Inr active"
      "xp_status p \<noteq> ES_BLOCKED" for active
    using that p Inr by (auto simp: run_gate_def plan_stale_def plan_ok_def split: option.splits)
  have paper: "xp_mode p = EM_PAPER" if "xp_status p \<noteq> ES_BLOCKED" using that p by (simp add: plan_ok_def)
  show ?thesis
    unfolding execution_run_op_def put_run_def execution_run_paper_def
    using gate paper
    by (auto intro!: wp_xe_record wp_xe_tradingI simp: execution_wp Inr no_active_run [OF assms] run_effect_def run_failed_def assms execution_ok_add
      split: sum.splits)
qed

text \<open>Calls of the runtime, with the registry, the revalidations and the trading tables changing between them.\<close>

datatype execution_call =
    XC_Plan execution_policy execution_request
  | XC_Run string string string
  | XC_Registry registry_repo
  | XC_Revalidations "revalidation_repo option"
  | XC_Trading "trading_repo option"

fun execution_step :: "execution_call \<Rightarrow> execution_env \<Rightarrow> execution_env" where
  "execution_step (XC_Plan pol q) s = snd (execution_plan_op pol q s)"
| "execution_step (XC_Run pid actor ts) s = snd (execution_run_op pid actor ts s)"
| "execution_step (XC_Registry repo) s = s\<lparr>xe_registry := repo\<rparr>"
| "execution_step (XC_Revalidations repo) s = s\<lparr>xe_revalidations := repo\<rparr>"
| "execution_step (XC_Trading repo) s = s\<lparr>xe_trading := repo\<rparr>"

definition execution_env_init :: "durable_event list option \<Rightarrow> metric_call list option \<Rightarrow> execution_env" where
  "execution_env_init es ms = \<lparr>env_events = es, env_metrics = ms, xe_repo = execution_repo_init, xe_registry = registry_repo_init,
     xe_revalidations = None, xe_trading = None\<rparr>"

lemma execution_step_ok: "execution_ok (xe_repo s) \<Longrightarrow> execution_ok (xe_repo (execution_step c s))"
proof (cases c)
  case (XC_Plan pol q)
  assume ok: "execution_ok (xe_repo s)"
  have "wp (execution_plan_op pol q) (\<lambda>_ t. execution_ok (xe_repo t)) (\<lambda>_ t. execution_ok (xe_repo t)) s"
    by (rule wp_mono [OF plan_op_wp]) (auto simp: plan_effect_def ok execution_ok_add)
  from wp_snd [OF this] show ?thesis using XC_Plan by simp
next
  case (XC_Run pid actor ts)
  assume ok: "execution_ok (xe_repo s)"
  have "wp (execution_run_op pid actor ts) (\<lambda>_ t. execution_ok (xe_repo t)) (\<lambda>_ t. execution_ok (xe_repo t)) s"
    by (rule wp_mono [OF run_op_wp [OF ok]]) (auto simp: run_effect_def run_failed_def ok execution_ok_add)
  from wp_snd [OF this] show ?thesis using XC_Run by simp
qed simp_all

lemma execution_steps_ok: "execution_ok (xe_repo (fold execution_step cs (execution_env_init es ms)))"
proof -
  have "execution_ok (xe_repo s) \<Longrightarrow> execution_ok (xe_repo (fold execution_step cs s))" for s
    by (induction cs arbitrary: s) (simp_all add: execution_step_ok)
  moreover have "execution_ok (xe_repo (execution_env_init es ms))"
    by (simp add: execution_env_init_def execution_repo_init_def execution_ok_def t_rows_def)
  ultimately show ?thesis by blast
qed

section \<open>Properties\<close>

text \<open>
  C23: which plans are ready. A plan call that returns stores its plan and touches no trading table, and
  the plan is ready exactly for a paper request that matches the active champion of its slot. A live or
  disabled request is always blocked.
\<close>

theorem execution_plan_ready_iff:
  assumes "execution_plan_op pol q s = (Inr p, t)"
  shows "get_plan (''execution-plan:'' @ eq_request_id q) (xe_repo t) = Inr p \<and> xe_trading t = xe_trading s \<and>
    (xp_status p = ES_READY \<longleftrightarrow> eq_mode q = EM_PAPER \<and> (\<exists>a. plan_accepted q s a \<and> xp_version_id p = re_version_id a \<and>
        xp_fingerprint p = re_fingerprint a)) \<and>
    (eq_mode q \<noteq> EM_PAPER \<longrightarrow> xp_status p = ES_BLOCKED)"
  using wp_Inr [OF plan_op_wp assms] unfolding plan_effect_def get_plan_Inr by (auto simp: add_plan_def plan_ok_def)

text \<open>
  C22: the run gate. Whatever calls were made before, with the champion registry, the revalidations and
  the trading tables changing in between, a run call touches the trading tables only for a ready paper
  plan whose champion is still the active one of the default slot, and a run that is not blocked has
  passed the same gate.
\<close>

theorem execution_run_gate:
  "case execution_run_op pid actor ts (fold execution_step cs (execution_env_init es ms)) of
     (Inr r, t) \<Rightarrow> (xe_trading t = xe_trading (fold execution_step cs (execution_env_init es ms)) \<or>
          run_gate pid (fold execution_step cs (execution_env_init es ms))) \<and>
        (xr_status r = ES_BLOCKED \<or> run_gate pid (fold execution_step cs (execution_env_init es ms)))
   | (Inl e, t) \<Rightarrow> xe_trading t = xe_trading (fold execution_step cs (execution_env_init es ms)) \<or>
        run_gate pid (fold execution_step cs (execution_env_init es ms))"
  using run_op_wp [OF execution_steps_ok, of pid actor ts cs es ms]
  by (auto simp: wp_def run_effect_def run_failed_def split: prod.splits sum.splits)

text \<open>
  What the tables of the runtime can hold. After any sequence of calls every stored plan is ready
  in paper mode or blocked, and every stored run is over: blocked, or completed or failed in paper
  mode. No live run is ever anything but blocked.
\<close>

theorem execution_tables_invariant:
  "list_all plan_ok (t_rows (xq_plans (xe_repo (fold execution_step cs (execution_env_init es ms))))) \<and>
   list_all run_ok (t_rows (xq_runs (xe_repo (fold execution_step cs (execution_env_init es ms)))))"
  using execution_steps_ok [of cs es ms] by (simp add: execution_ok_def list_all_iff)

section \<open>Witnesses and observed behaviour\<close>

definition sample_execution_request :: "execution_mode \<Rightarrow> execution_request" where
  "sample_execution_request m = build_execution_request ''x1'' m ''actor'' ''2026-01-05T00:00:00Z'' ''main'' None None None"

definition sample_execution :: execution_env where
  "sample_execution = execution_step (XC_Registry (ry_repo sample_champions)) (execution_env_init None None)"

lemma sample_execution_plan:
  "is_Inr (fst (execution_plan_op execution_policy_default (sample_execution_request EM_PAPER) sample_execution))"
  by code_simp

theorem execution_plan_ready_iff_witness:
  "\<exists>p t. execution_plan_op execution_policy_default (sample_execution_request EM_PAPER) sample_execution = (Inr p, t) \<and>
    get_plan ''execution-plan:x1'' (xe_repo t) = Inr p \<and> xe_trading t = None"
proof -
  obtain p t where r: "execution_plan_op execution_policy_default (sample_execution_request EM_PAPER) sample_execution = (Inr p, t)"
    using sample_execution_plan by (rule is_InrE)
  have "eq_request_id (sample_execution_request EM_PAPER) = ''x1''" "xe_trading sample_execution = None"
    by (simp_all add: sample_execution_request_def build_execution_request_def sample_execution_def execution_env_init_def)
  then show ?thesis using execution_plan_ready_iff [OF r] r by auto
qed

text \<open>
  Observed behaviour: the guard against a second active run never fires, because a run is stored only
  when it is over. Running a plan again replaces its earlier run, which has the same id.
\<close>

lemma active_run_guard_never_fires:
  "\<not> has_active_run vid mode (xe_repo (fold execution_step cs (execution_env_init es ms)))"
  by (rule no_active_run [OF execution_steps_ok])

lemma rerun_replaces_run:
  assumes "execution_ok (xe_repo s)" and "execution_run_op pid actor ts s = (Inr r, t)"
    and "execution_run_op pid actor2 ts2 t = (Inr r2, u)"
  shows "get_run (xr_run_id r) (xe_repo u) = Inr r2"
proof -
  from wp_Inr [OF run_op_wp [OF assms(1)] assms(2)] have e1: "run_effect pid s r t" .
  then have "execution_ok (xe_repo t)" using assms(1) by (auto simp: run_effect_def execution_ok_add)
  from wp_Inr [OF run_op_wp [OF this] assms(3)] have e2: "run_effect pid t r2 u" .
  have "xr_run_id r2 = xr_run_id r" using e1 e2 by (auto simp: run_effect_def get_plan_Inr add_run_def)
  then show ?thesis using e2 by (auto simp: run_effect_def get_run_def add_run_def)
qed

end
