(* ===== verification/TradingMode.thy ===== *)
theory TradingMode
  imports Json
begin

text \<open>
  \<open>gaon/control/trading_mode.py\<close>: the canonical trading-mode state, its JSON form, and the
  controller that folds observations into it. The lemmas show when entries are allowed, that the
  JSON form loses nothing, and that observations alone never lift an entry block.
\<close>

section \<open>Enumerations\<close>

datatype mode = DEMO | LIVE | MODE_UNKNOWN
datatype service_state = RUNNING | STOPPED | SERVICE_UNKNOWN
datatype risk_guard_state = GUARD_OK | GUARD_TRIGGERED | GUARD_UNKNOWN

datatype transition_state = IDLE | REQUESTED | ENTRY_BLOCKED | SOURCE_VERIFIED
  | POSITIONS_VERIFIED | SERVICE_STOPPED | TARGET_VERIFIED | SERVICE_STARTED
  | EFFECTIVE_MODE_VERIFIED | COMPLETE | FAILED_CLOSED

fun mode_value :: "mode \<Rightarrow> string" where
  "mode_value DEMO = ''demo''"
| "mode_value LIVE = ''live''"
| "mode_value MODE_UNKNOWN = ''unknown''"

fun service_value :: "service_state \<Rightarrow> string" where
  "service_value RUNNING = ''running''"
| "service_value STOPPED = ''stopped''"
| "service_value SERVICE_UNKNOWN = ''unknown''"

fun guard_value :: "risk_guard_state \<Rightarrow> string" where
  "guard_value GUARD_OK = ''ok''"
| "guard_value GUARD_TRIGGERED = ''triggered''"
| "guard_value GUARD_UNKNOWN = ''unknown''"

fun transition_value :: "transition_state \<Rightarrow> string" where
  "transition_value IDLE = ''idle''"
| "transition_value REQUESTED = ''requested''"
| "transition_value ENTRY_BLOCKED = ''entry_blocked''"
| "transition_value SOURCE_VERIFIED = ''source_verified''"
| "transition_value POSITIONS_VERIFIED = ''positions_verified''"
| "transition_value SERVICE_STOPPED = ''service_stopped''"
| "transition_value TARGET_VERIFIED = ''target_verified''"
| "transition_value SERVICE_STARTED = ''service_started''"
| "transition_value EFFECTIVE_MODE_VERIFIED = ''effective_mode_verified''"
| "transition_value COMPLETE = ''complete''"
| "transition_value FAILED_CLOSED = ''failed_closed''"

text \<open>\<open>Enum(value)\<close>: the member with that value, or \<open>ValueError\<close>.\<close>

definition enum_of :: "('a \<Rightarrow> string) \<Rightarrow> 'a list \<Rightarrow> string \<Rightarrow> 'a res" where
  "enum_of val members s = ofOption (ValueError ''not a valid member'') (find (\<lambda>m. val m = s) members)"

definition modes :: "mode list" where
  "modes = [DEMO, LIVE, MODE_UNKNOWN]"

definition service_states :: "service_state list" where
  "service_states = [RUNNING, STOPPED, SERVICE_UNKNOWN]"

definition guard_states :: "risk_guard_state list" where
  "guard_states = [GUARD_OK, GUARD_TRIGGERED, GUARD_UNKNOWN]"

definition transition_states :: "transition_state list" where
  "transition_states = [IDLE, REQUESTED, ENTRY_BLOCKED, SOURCE_VERIFIED, POSITIONS_VERIFIED,
     SERVICE_STOPPED, TARGET_VERIFIED, SERVICE_STARTED, EFFECTIVE_MODE_VERIFIED, COMPLETE, FAILED_CLOSED]"

lemma enum_roundtrip [simp]:
  "enum_of mode_value modes (mode_value m) = Inr m"
  "enum_of service_value service_states (service_value s) = Inr s"
  "enum_of guard_value guard_states (guard_value g) = Inr g"
  "enum_of transition_value transition_states (transition_value t) = Inr t"
  subgoal by (cases m) (simp_all add: enum_of_def modes_def)
  subgoal by (cases s) (simp_all add: enum_of_def service_states_def)
  subgoal by (cases g) (simp_all add: enum_of_def guard_states_def)
  subgoal by (cases t) (simp_all add: enum_of_def transition_states_def)
  done

section \<open>The state\<close>

record tmc_state =
  desired_mode :: mode
  effective_mode :: mode
  service_state :: service_state
  credential_profile :: string
  strategy_version :: "string option"
  transition_state :: transition_state
  entry_blocked :: bool
  risk_guard_state :: risk_guard_state
  last_verification :: "string option"
  last_error :: "string option"

definition is_fail_closed :: "tmc_state \<Rightarrow> bool" where
  "is_fail_closed s \<longleftrightarrow> effective_mode s = MODE_UNKNOWN \<or> transition_state s = FAILED_CLOSED"

definition entry_allowed :: "tmc_state \<Rightarrow> bool" where
  "entry_allowed s \<longleftrightarrow> \<not> (entry_blocked s \<or> is_fail_closed s \<or>
     effective_mode s = MODE_UNKNOWN \<or> risk_guard_state s \<noteq> GUARD_OK)"

definition tmc_to_json :: "tmc_state \<Rightarrow> obj" where
  "tmc_to_json s =
    [(''desired_mode'', JStr (mode_value (desired_mode s))),
     (''effective_mode'', JStr (mode_value (effective_mode s))),
     (''service_state'', JStr (service_value (service_state s))),
     (''credential_profile'', JStr (credential_profile s)),
     (''strategy_version'', of_opt (strategy_version s)),
     (''transition_state'', JStr (transition_value (transition_state s))),
     (''entry_blocked'', JBool (entry_blocked s)),
     (''risk_guard_state'', JStr (guard_value (risk_guard_state s))),
     (''last_verification'', of_opt (last_verification s)),
     (''last_error'', of_opt (last_error s))]"

definition tmc_from_json :: "obj \<Rightarrow> tmc_state res" where
  "tmc_from_json raw =
    bindR (bindR (jreq raw ''desired_mode'') (\<lambda>v. enum_of mode_value modes (py_str v))) (\<lambda>desired.
    bindR (bindR (jreq raw ''effective_mode'') (\<lambda>v. enum_of mode_value modes (py_str v))) (\<lambda>effective.
    bindR (bindR (jreq raw ''service_state'') (\<lambda>v. enum_of service_value service_states (py_str v))) (\<lambda>svc.
    bindR (jreq raw ''credential_profile'') (\<lambda>profile.
    bindR (bindR (jreq raw ''transition_state'') (\<lambda>v. enum_of transition_value transition_states (py_str v))) (\<lambda>tr.
    bindR (jreq raw ''entry_blocked'') (\<lambda>blocked.
    bindR (bindR (jreq raw ''risk_guard_state'') (\<lambda>v. enum_of guard_value guard_states (py_str v))) (\<lambda>guard.
    Inr \<lparr>desired_mode = desired, effective_mode = effective, service_state = svc,
         credential_profile = py_str profile, strategy_version = jopt_str (jget raw ''strategy_version''),
         transition_state = tr, entry_blocked = jtruthy blocked, risk_guard_state = guard,
         last_verification = jopt_str (jget raw ''last_verification''),
         last_error = jopt_str (jget raw ''last_error'')\<rparr>)))))))"

definition tmc_unknown :: "mode \<Rightarrow> string \<Rightarrow> tmc_state" where
  "tmc_unknown desired profile = \<lparr>desired_mode = desired, effective_mode = MODE_UNKNOWN,
     service_state = SERVICE_UNKNOWN, credential_profile = profile, strategy_version = None,
     transition_state = IDLE, entry_blocked = True, risk_guard_state = GUARD_UNKNOWN,
     last_verification = None, last_error = None\<rparr>"

section \<open>The controller\<close>

definition controller_init :: "tmc_state option \<Rightarrow> tmc_state" where
  "controller_init st = (case st of Some s \<Rightarrow> s | None \<Rightarrow> tmc_unknown DEMO ''unknown'')"

definition read_model :: "tmc_state \<Rightarrow> tmc_state" where
  "read_model s = s"

record observation =
  obs_effective :: mode
  obs_service :: service_state
  obs_guard :: risk_guard_state
  obs_at :: string
  obs_version :: "string option"
  obs_profile :: "string option"

definition record_verification :: "observation \<Rightarrow> tmc_state \<Rightarrow> tmc_state" where
  "record_verification v s = s\<lparr>effective_mode := obs_effective v, service_state := obs_service v,
     risk_guard_state := obs_guard v, last_verification := Some (obs_at v),
     strategy_version := (if obs_version v \<noteq> None then obs_version v else strategy_version s),
     credential_profile := (case obs_profile v of Some p \<Rightarrow> p | None \<Rightarrow> credential_profile s)\<rparr>"

section \<open>Properties\<close>

text \<open>
  A stored trading-mode state survives the JSON round trip, also through sorted text.
\<close>

theorem tmc_roundtrip:
  "tmc_from_json (tmc_to_json s) = Inr s \<and> tmc_from_json (ocanon (tmc_to_json s)) = Inr s"
  by (simp add: tmc_from_json_def tmc_to_json_def of_opt_def split: option.splits)

lemma tmc_from_json_missing:
  "map_of raw ''desired_mode'' = None \<Longrightarrow> tmc_from_json raw = Inl (KeyError ''desired_mode'')"
  by (simp add: tmc_from_json_def jreq_def)

lemma record_verification_frame [simp]:
  "entry_blocked (record_verification v s) = entry_blocked s"
  "transition_state (record_verification v s) = transition_state s"
  "desired_mode (record_verification v s) = desired_mode s"
  by (simp_all add: record_verification_def)

lemma fold_verification_blocked:
  "entry_blocked (fold record_verification vs s) = entry_blocked s"
  by (induction vs arbitrary: s) simp_all

text \<open>
  A fresh controller never allows an entry, whatever sequence of observations it records: the
  entry block can only be lifted by a completed mode transition.
\<close>

theorem observations_never_open_entries:
  "\<not> entry_allowed (fold record_verification vs (controller_init None))"
  by (simp add: entry_allowed_def fold_verification_blocked controller_init_def tmc_unknown_def)

lemma unknown_observation_closes:
  "obs_effective v = MODE_UNKNOWN \<or> obs_guard v \<noteq> GUARD_OK \<Longrightarrow> \<not> entry_allowed (record_verification v s)"
  by (auto simp: entry_allowed_def record_verification_def is_fail_closed_def)

end
