(* ===== verification/Approval.thy ===== *)
theory Approval
  imports TradingMode PyTime
begin

text \<open>
  \<open>gaon/control/approval.py\<close>: one-shot tickets for the DEMO to LIVE transition. The registry keeps
  the issued tickets and the consumed ids; the random id of a ticket is an argument of \<open>issue\<close>.
  The lemmas show that a ticket is honoured at most once, only for the transition and intent it
  was issued for, and never after its expiry.
\<close>

definition LIVE_TRANSITION_INTENT :: string where
  "LIVE_TRANSITION_INTENT = ''demo_to_live''"

record transition_approval =
  ap_approval_id :: string
  ap_from_mode :: mode
  ap_to_mode :: mode
  ap_intent :: string
  ap_issued_at :: string
  ap_expires_at :: string
  ap_issued_by :: string

definition ApprovalError :: "string \<Rightarrow> pyerr" where
  "ApprovalError reason = OtherError ''ApprovalError'' reason"

text \<open>\<open>_parse\<close>: a naive time is read as UTC.\<close>

definition parse_ts :: "string \<Rightarrow> dtime res" where
  "parse_ts ts = bindR (dt_fromisoformat (replace_all ''Z'' ''+00:00'' ts))
     (\<lambda>dt. Inr (if dt_off dt = None then dt\<lparr>dt_off := Some 0\<rparr> else dt))"

record approval_registry =
  ar_issued :: "string \<rightharpoonup> transition_approval"
  ar_consumed :: "string set"

definition approval_registry_init :: approval_registry where
  "approval_registry_init = \<lparr>ar_issued = Map.empty, ar_consumed = {}\<rparr>"

definition approval_issue ::
  "string \<Rightarrow> mode \<Rightarrow> mode \<Rightarrow> string \<Rightarrow> string \<Rightarrow> int \<Rightarrow> string \<Rightarrow> (approval_registry, transition_approval) opr" where
  "approval_issue uuid from_mode to_mode intent now ttl issued_by =
    bindO (liftO (bindR (parse_ts now) (\<lambda>t. add_seconds t (max 1 ttl)))) (\<lambda>expires.
    let approval_id = ''approval:'' @ uuid;
        ticket = \<lparr>ap_approval_id = approval_id, ap_from_mode = from_mode, ap_to_mode = to_mode,
                  ap_intent = intent, ap_issued_at = now,
                  ap_expires_at = replace_all ''+00:00'' ''Z'' (isoformat expires),
                  ap_issued_by = issued_by\<rparr>
    in thenO (modO (\<lambda>r. r\<lparr>ar_issued := (ar_issued r)(approval_id \<mapsto> ticket)\<rparr>)) (retO ticket))"

definition is_consumed :: "string \<Rightarrow> approval_registry \<Rightarrow> bool" where
  "is_consumed approval_id r \<longleftrightarrow> approval_id \<in> ar_consumed r"

definition expired :: "string \<Rightarrow> transition_approval \<Rightarrow> bool res" where
  "expired now ticket = bindR (parse_ts now) (\<lambda>n.
     bindR (parse_ts (ap_expires_at ticket)) (\<lambda>e. Inr (instant n > instant e)))"

definition validate_and_consume ::
  "string \<Rightarrow> mode \<Rightarrow> mode \<Rightarrow> string \<Rightarrow> string \<Rightarrow> (approval_registry, transition_approval) opr" where
  "validate_and_consume approval_id from_mode to_mode intent now = (\<lambda>r.
    case ar_issued r approval_id of
      None \<Rightarrow> (Inl (ApprovalError ''no_approval''), r)
    | Some ticket \<Rightarrow>
        if approval_id \<in> ar_consumed r then (Inl (ApprovalError ''already_consumed''), r)
        else (case expired now ticket of
            Inl e \<Rightarrow> (Inl e, r)
          | Inr True \<Rightarrow> (Inl (ApprovalError ''stale''), r)
          | Inr False \<Rightarrow>
              if ap_from_mode ticket \<noteq> from_mode \<or> ap_to_mode ticket \<noteq> to_mode
                then (Inl (ApprovalError ''wrong_transition''), r)
              else if ap_intent ticket \<noteq> intent then (Inl (ApprovalError ''wrong_intent''), r)
              else (Inr ticket, r\<lparr>ar_consumed := insert approval_id (ar_consumed r)\<rparr>)))"

text \<open>Only an \<open>ApprovalError\<close> becomes \<open>False\<close>; a malformed time still raises.\<close>

definition require_live_approval :: "string \<Rightarrow> string \<Rightarrow> (approval_registry, bool) opr" where
  "require_live_approval approval_id now =
    catchO (thenO (validate_and_consume approval_id DEMO LIVE LIVE_TRANSITION_INTENT now) (retO True))
      (\<lambda>e. if err_class e = ''ApprovalError'' then retO False else raiseO e)"

section \<open>What a successful validation means\<close>

definition honours :: "approval_registry \<Rightarrow> string \<Rightarrow> mode \<Rightarrow> mode \<Rightarrow> string \<Rightarrow> string \<Rightarrow> transition_approval \<Rightarrow> bool" where
  "honours r aid from_mode to_mode intent now ticket \<longleftrightarrow>
     ar_issued r aid = Some ticket \<and> aid \<notin> ar_consumed r \<and> expired now ticket = Inr False \<and>
     ap_from_mode ticket = from_mode \<and> ap_to_mode ticket = to_mode \<and> ap_intent ticket = intent"

lemma validate_Inr_iff:
  "validate_and_consume aid f t i now r = (Inr ticket, r') \<longleftrightarrow>
     honours r aid f t i now ticket \<and> r' = r\<lparr>ar_consumed := insert aid (ar_consumed r)\<rparr>"
  by (auto simp: validate_and_consume_def honours_def split: option.splits sum.splits bool.splits)

lemma validate_Inl_unchanged:
  "validate_and_consume aid f t i now r = (Inl e, r') \<Longrightarrow> r' = r"
  by (auto simp: validate_and_consume_def split: option.splits sum.splits bool.splits if_splits)

lemma require_live_True_iff:
  "require_live_approval aid now r = (Inr True, r') \<longleftrightarrow>
     (\<exists>ticket. honours r aid DEMO LIVE LIVE_TRANSITION_INTENT now ticket) \<and>
     r' = r\<lparr>ar_consumed := insert aid (ar_consumed r)\<rparr>"
proof (cases "validate_and_consume aid DEMO LIVE LIVE_TRANSITION_INTENT now r")
  case (Pair res r1)
  show ?thesis
  proof (cases res)
    case (Inl e)
    have "\<not> honours r aid DEMO LIVE LIVE_TRANSITION_INTENT now ticket" for ticket
      using Pair Inl validate_Inr_iff [of aid DEMO LIVE LIVE_TRANSITION_INTENT now r ticket
        "r\<lparr>ar_consumed := insert aid (ar_consumed r)\<rparr>"] by simp
    then show ?thesis
      using Pair Inl by (auto simp: require_live_approval_def catchO_apply thenO_apply)
  next
    case (Inr ticket)
    then have "honours r aid DEMO LIVE LIVE_TRANSITION_INTENT now ticket"
      and "r1 = r\<lparr>ar_consumed := insert aid (ar_consumed r)\<rparr>"
      using Pair by (simp_all add: validate_Inr_iff)
    then show ?thesis
      by (auto simp: require_live_approval_def catchO_apply thenO_apply Pair Inr)
  qed
qed

lemma require_live_not_True:
  "require_live_approval aid now r = (res, r') \<Longrightarrow> res \<noteq> Inr True \<Longrightarrow> r' = r"
  by (cases "validate_and_consume aid DEMO LIVE LIVE_TRANSITION_INTENT now r"; cases "fst (validate_and_consume aid DEMO LIVE LIVE_TRANSITION_INTENT now r)")
     (auto simp: require_live_approval_def catchO_apply thenO_apply
           dest: validate_Inl_unchanged split: if_splits)

section \<open>Sequences of operations on one registry\<close>

datatype approval_op =
    OpIssue string mode mode string string int string
  | OpValidate string mode mode string string
  | OpRequireLive string string

fun approval_step :: "approval_op \<Rightarrow> approval_registry \<Rightarrow> approval_registry" where
  "approval_step (OpIssue uuid f t i now ttl by') r = snd (approval_issue uuid f t i now ttl by' r)"
| "approval_step (OpValidate aid f t i now) r = snd (validate_and_consume aid f t i now r)"
| "approval_step (OpRequireLive aid now) r = snd (require_live_approval aid now r)"

lemma approval_issue_state:
  "snd (approval_issue uuid f t i now ttl by' r) = r \<or>
   (\<exists>ticket. snd (approval_issue uuid f t i now ttl by' r)
        = r\<lparr>ar_issued := (ar_issued r)(''approval:'' @ uuid \<mapsto> ticket)\<rparr>
      \<and> ap_from_mode ticket = f \<and> ap_to_mode ticket = t \<and> ap_intent ticket = i)"
  by (auto simp: approval_issue_def bindO_apply Let_def split: sum.splits)

lemma validate_state:
  "snd (validate_and_consume aid f t i now r) = r \<or>
   snd (validate_and_consume aid f t i now r) = r\<lparr>ar_consumed := insert aid (ar_consumed r)\<rparr>"
  by (auto simp: validate_and_consume_def split: option.splits sum.splits bool.splits)

lemma require_live_state:
  "snd (require_live_approval aid now r) = r \<or>
   snd (require_live_approval aid now r) = r\<lparr>ar_consumed := insert aid (ar_consumed r)\<rparr>"
  using require_live_True_iff [of aid now r] require_live_not_True [of aid now r]
  by (cases "require_live_approval aid now r") force

lemma approval_step_consumed: "ar_consumed r \<subseteq> ar_consumed (approval_step op r)"
proof (cases op)
  case (OpIssue u f t i n ttl b)
  then show ?thesis using approval_issue_state [of u f t i n ttl b r] by auto
next
  case (OpValidate a f t i n)
  then show ?thesis using validate_state [of a f t i n r] by auto
next
  case (OpRequireLive a n)
  then show ?thesis using require_live_state [of a n r] by auto
qed

lemma approval_run_consumed: "ar_consumed r \<subseteq> ar_consumed (fold approval_step ops r)"
proof (induction ops arbitrary: r)
  case (Cons op ops)
  show ?case
    using Cons [of "approval_step op r"] approval_step_consumed [of r op] by auto
qed simp

text \<open>Which (id, transition, intent) the operations ever issued a ticket for.\<close>

definition issued_for :: "approval_op list \<Rightarrow> string \<Rightarrow> mode \<Rightarrow> mode \<Rightarrow> string \<Rightarrow> bool" where
  "issued_for ops aid f t i \<longleftrightarrow>
     (\<exists>uuid now ttl by'. aid = ''approval:'' @ uuid \<and> OpIssue uuid f t i now ttl by' \<in> set ops)"

lemma issued_for_last: "issued_for (ops @ [OpIssue u f t i n ttl b]) (''approval:'' @ u) f t i"
  by (auto simp: issued_for_def)

lemma approval_run_issued:
  assumes "ar_issued (fold approval_step ops approval_registry_init) aid = Some ticket"
  shows "issued_for ops aid (ap_from_mode ticket) (ap_to_mode ticket) (ap_intent ticket)"
  using assms
proof (induction ops arbitrary: ticket rule: rev_induct)
  case Nil
  then show ?case by (simp add: approval_registry_init_def)
next
  case (snoc op ops)
  let ?r = "fold approval_step ops approval_registry_init"
  have old: "issued_for (ops @ [op]) aid (ap_from_mode ticket) (ap_to_mode ticket) (ap_intent ticket)"
    if "ar_issued ?r aid = Some ticket"
    using snoc.IH [OF that] by (auto simp: issued_for_def)
  show ?case
  proof (cases op)
    case (OpIssue u f t i n ttl b)
    from approval_issue_state [of u f t i n ttl b ?r] show ?thesis
    proof (elim disjE exE conjE)
      assume "snd (approval_issue u f t i n ttl b ?r) = ?r"
      then show ?thesis using snoc.prems OpIssue old by simp
    next
      fix new
      assume new: "snd (approval_issue u f t i n ttl b ?r)
          = ?r\<lparr>ar_issued := (ar_issued ?r)(''approval:'' @ u \<mapsto> new)\<rparr>"
        and *: "ap_from_mode new = f" "ap_to_mode new = t" "ap_intent new = i"
      show ?thesis
        using new * snoc.prems OpIssue old issued_for_last [of ops u f t i n ttl b]
        by (auto split: if_splits)
    qed
  next
    case (OpValidate a f t i n)
    then show ?thesis using validate_state [of a f t i n ?r] snoc.prems old by auto
  next
    case (OpRequireLive a n)
    then show ?thesis using require_live_state [of a n ?r] snoc.prems old by auto
  qed
qed

section \<open>Properties\<close>

text \<open>
  C8: a transition approval is one-shot. Once an operation has consumed an id, no later
  validation of that id succeeds, whatever operations happen in between, reissuing the same id
  included.
\<close>

theorem approval_one_shot:
  assumes "validate_and_consume aid f t i now r = (Inr ticket, r')"
  shows "\<nexists>ticket'. fst (validate_and_consume aid f' t' i' now' (fold approval_step ops r')) = Inr ticket'"
proof -
  have "aid \<in> ar_consumed r'"
    using assms by (simp add: validate_Inr_iff)
  then have c: "aid \<in> ar_consumed (fold approval_step ops r')"
    using approval_run_consumed by blast
  show ?thesis
    using c by (auto simp: validate_and_consume_def split: option.splits)
qed

text \<open>
  C9: nothing counts as a live approval unless a ticket for exactly DEMO to LIVE with the live
  intent was issued earlier in the life of the registry, has not been consumed and has not
  expired; the call that honours it consumes it.
\<close>

theorem live_approval_sound:
  assumes "require_live_approval aid now (fold approval_step ops approval_registry_init) = (Inr True, r')"
  shows "issued_for ops aid DEMO LIVE LIVE_TRANSITION_INTENT \<and>
    (\<exists>ticket. ar_issued r' aid = Some ticket \<and> expired now ticket = Inr False) \<and>
    \<not> is_consumed aid (fold approval_step ops approval_registry_init) \<and> is_consumed aid r'"
proof -
  let ?r = "fold approval_step ops approval_registry_init"
  obtain ticket where h: "honours ?r aid DEMO LIVE LIVE_TRANSITION_INTENT now ticket"
    and r': "r' = ?r\<lparr>ar_consumed := insert aid (ar_consumed ?r)\<rparr>"
    using assms require_live_True_iff by blast
  have "issued_for ops aid DEMO LIVE LIVE_TRANSITION_INTENT"
    using approval_run_issued [of ops aid ticket] h by (simp add: honours_def)
  then show ?thesis
    using h r' by (auto simp: honours_def is_consumed_def)
qed

section \<open>Witnesses\<close>

lemma parse_ts_examples:
  "parse_ts ''2026-01-01T00:00:00Z'' = Inr \<lparr>dt_year = 2026, dt_month = 1, dt_day = 1, dt_hour = 0,
     dt_minute = 0, dt_second = 0, dt_micro = 0, dt_off = Some 0\<rparr>"
  "parse_ts ''2026-01-01T00:01:00Z'' = Inr \<lparr>dt_year = 2026, dt_month = 1, dt_day = 1, dt_hour = 0,
     dt_minute = 1, dt_second = 0, dt_micro = 0, dt_off = Some 0\<rparr>"
  by code_simp code_simp

definition sample_ticket :: transition_approval where
  "sample_ticket = \<lparr>ap_approval_id = ''approval:ab'', ap_from_mode = DEMO, ap_to_mode = LIVE,
     ap_intent = ''demo_to_live'', ap_issued_at = ''2026-01-01T00:00:00Z'',
     ap_expires_at = ''2026-01-01T00:01:00Z'', ap_issued_by = ''op''\<rparr>"

lemma sample_issue:
  "approval_issue ''ab'' DEMO LIVE ''demo_to_live'' ''2026-01-01T00:00:00Z'' 60 ''op'' approval_registry_init
    = (Inr sample_ticket, \<lparr>ar_issued = [''approval:ab'' \<mapsto> sample_ticket], ar_consumed = {}\<rparr>)"
proof -
  have "add_seconds \<lparr>dt_year = 2026, dt_month = 1, dt_day = 1, dt_hour = 0, dt_minute = 0,
      dt_second = 0, dt_micro = 0, dt_off = Some 0\<rparr> 60 = Inr \<lparr>dt_year = 2026, dt_month = 1,
      dt_day = 1, dt_hour = 0, dt_minute = 1, dt_second = 0, dt_micro = 0, dt_off = Some 0\<rparr>"
    by code_simp
  moreover have "replace_all ''+00:00'' ''Z'' (isoformat \<lparr>dt_year = 2026, dt_month = 1, dt_day = 1,
      dt_hour = 0, dt_minute = 1, dt_second = 0, dt_micro = 0, dt_off = Some 0\<rparr>) = ''2026-01-01T00:01:00Z''"
    by code_simp
  ultimately show ?thesis
    by (simp add: approval_issue_def parse_ts_examples bindO_apply thenO_apply sample_ticket_def
        approval_registry_init_def Let_def)
qed

lemma sample_not_expired: "expired ''2026-01-01T00:00:00Z'' sample_ticket = Inr False"
proof -
  have "instant \<lparr>dt_year = 2026, dt_month = 1, dt_day = 1, dt_hour = 0, dt_minute = 0,
      dt_second = 0, dt_micro = 0, dt_off = Some 0\<rparr> < instant \<lparr>dt_year = 2026, dt_month = 1, dt_day = 1,
      dt_hour = 0, dt_minute = 1, dt_second = 0, dt_micro = 0, dt_off = Some 0\<rparr>"
    by code_simp
  then show ?thesis
    by (simp add: expired_def sample_ticket_def parse_ts_examples)
qed

lemma sample_honours:
  "honours \<lparr>ar_issued = [''approval:ab'' \<mapsto> sample_ticket], ar_consumed = {}\<rparr> ''approval:ab'' DEMO LIVE
     LIVE_TRANSITION_INTENT ''2026-01-01T00:00:00Z'' sample_ticket"
  by (simp add: honours_def sample_not_expired) (simp add: sample_ticket_def LIVE_TRANSITION_INTENT_def)

theorem approval_one_shot_witness:
  "\<nexists>ticket'. fst (validate_and_consume ''approval:ab'' DEMO LIVE LIVE_TRANSITION_INTENT
     ''2026-01-01T00:01:00Z''
     (fold approval_step [OpIssue ''ab'' DEMO LIVE ''demo_to_live'' ''2026-01-01T00:00:00Z'' 60 ''op'']
       \<lparr>ar_issued = [''approval:ab'' \<mapsto> sample_ticket], ar_consumed = {''approval:ab''}\<rparr>)) = Inr ticket'"
  by (rule approval_one_shot [where r = "\<lparr>ar_issued = [''approval:ab'' \<mapsto> sample_ticket], ar_consumed = {}\<rparr>"
        and f = DEMO and t = LIVE and i = LIVE_TRANSITION_INTENT and now = "''2026-01-01T00:00:00Z''"
        and ticket = sample_ticket])
     (simp add: validate_Inr_iff sample_honours)

theorem live_approval_sound_witness:
  "is_consumed ''approval:ab'' \<lparr>ar_issued = [''approval:ab'' \<mapsto> sample_ticket], ar_consumed = {''approval:ab''}\<rparr>"
proof -
  let ?ops = "[OpIssue ''ab'' DEMO LIVE ''demo_to_live'' ''2026-01-01T00:00:00Z'' 60 ''op'']"
  have "fold approval_step ?ops approval_registry_init
      = \<lparr>ar_issued = [''approval:ab'' \<mapsto> sample_ticket], ar_consumed = {}\<rparr>"
    by (simp add: sample_issue)
  then have "require_live_approval ''approval:ab'' ''2026-01-01T00:00:00Z''
      (fold approval_step ?ops approval_registry_init)
      = (Inr True, \<lparr>ar_issued = [''approval:ab'' \<mapsto> sample_ticket], ar_consumed = {''approval:ab''}\<rparr>)"
    using sample_honours by (auto simp: require_live_True_iff)
  from live_approval_sound [OF this] show ?thesis by blast
qed

end
