(* ===== verification/Transition.thy ===== *)
theory Transition
  imports Approval
begin

text \<open>
  \<open>gaon/control/transition.py\<close>: the guarded mode-transition machine. The service manager and the
  verifiers are callbacks that may change the outside world \<open>'w\<close> and may raise; the locals of
  \<open>execute\<close> (the evolving state, whether the service was touched, the visited steps) are fields of
  the local record. The lemmas show that the machine only moves along the documented path, that
  every failure ends closed, and that LIVE is never reached without a ticket.
\<close>

section \<open>The service manager\<close>

record fake_service =
  fs_state :: service_state
  fs_fail_on :: "string option"
  fs_calls :: "string list"

definition fake_status :: "fake_service \<Rightarrow> service_state" where
  "fake_status s = fs_state s"

definition fake_stop :: "(fake_service, unit) opr" where
  "fake_stop s = (let s = s\<lparr>fs_calls := fs_calls s @ [''stop'']\<rparr> in
     if fs_fail_on s = Some ''stop'' then (Inl (RuntimeError ''fake service manager: stop failed''), s)
     else (Inr (), s\<lparr>fs_state := STOPPED\<rparr>))"

definition fake_start :: "(fake_service, unit) opr" where
  "fake_start s = (let s = s\<lparr>fs_calls := fs_calls s @ [''start'']\<rparr> in
     if fs_fail_on s = Some ''start'' then (Inl (RuntimeError ''fake service manager: start failed''), s)
     else (Inr (), s\<lparr>fs_state := RUNNING\<rparr>))"

section \<open>One transition attempt\<close>

datatype transition_outcome = OUT_COMPLETE | OUT_FAILED_CLOSED

record transition_result =
  tr_result :: transition_outcome
  tr_state :: tmc_state
  tr_visited :: "transition_state list"

definition profile_for :: "mode \<Rightarrow> string" where
  "profile_for m = (if m = LIVE then ''live'' else ''demo'')"

text \<open>\<open>_StepFailure\<close> with its reason and optional effective mode, or any other exception.\<close>

datatype step_error = StepFailure string "mode option" | Unexpected pyerr

text \<open>The constructor arguments of \<open>ModeTransition\<close>.\<close>

record 'w mode_transition =
  mt_start :: tmc_state
  mt_target :: mode
  mt_stop :: "('w, unit) opr"
  mt_svc_start :: "('w, unit) opr"
  mt_clock :: "('w, string) opr"
  mt_verify_source_mode :: "('w, mode) opr"
  mt_verify_positions_safe :: "('w, bool) opr"
  mt_verify_target_account :: "string \<Rightarrow> ('w, bool) opr"
  mt_verify_effective_mode :: "('w, mode) opr"
  mt_live_approved :: bool
  mt_approval_id :: "string option"

record 'w mt_local =
  ml_state :: tmc_state
  ml_touched :: bool
  ml_visited :: "transition_state list"
  ml_registry :: "approval_registry option"
  ml_world :: 'w

definition worldO :: "('w, 'a) opr \<Rightarrow> (step_error, 'w mt_local, 'a) eopr" where
  "worldO m = (\<lambda>s. case m (ml_world s) of
      (Inl e, w) \<Rightarrow> (Inl (Unexpected e), s\<lparr>ml_world := w\<rparr>)
    | (Inr x, w) \<Rightarrow> (Inr x, s\<lparr>ml_world := w\<rparr>))"

definition registryO :: "(approval_registry, 'a) opr \<Rightarrow> approval_registry \<Rightarrow> (step_error, 'w mt_local, 'a) eopr" where
  "registryO m r = (\<lambda>s. case m r of
      (Inl e, r') \<Rightarrow> (Inl (Unexpected e), s\<lparr>ml_registry := Some r'\<rparr>)
    | (Inr x, r') \<Rightarrow> (Inr x, s\<lparr>ml_registry := Some r'\<rparr>))"

definition live_transition_approved :: "'w mode_transition \<Rightarrow> (step_error, 'w mt_local, bool) eopr" where
  "live_transition_approved t =
    (if mt_live_approved t then retO True
     else bindO (getO ml_registry) (\<lambda>reg.
       case (reg, mt_approval_id t) of
         (Some r, Some aid) \<Rightarrow>
           if aid = [] then retO False
           else bindO (worldO (mt_clock t)) (\<lambda>now. registryO (require_live_approval aid now) r)
       | _ \<Rightarrow> retO False))"

definition advance :: "transition_state \<Rightarrow> (step_error, 'w mt_local, unit) eopr" where
  "advance to = modO (\<lambda>s. s\<lparr>ml_visited := ml_visited s @ [to],
     ml_state := (ml_state s)\<lparr>transition_state := to\<rparr>\<rparr>)"

definition checkO :: "(step_error, 'w mt_local, bool) eopr \<Rightarrow> step_error \<Rightarrow> (step_error, 'w mt_local, unit) eopr" where
  "checkO m e = bindO m (\<lambda>b. if b then retO () else raiseO e)"

text \<open>
  The \<open>try\<close> block of \<open>execute\<close>: each step advances the recorded state and then does its work.
\<close>

definition step_to :: "transition_state \<Rightarrow> (step_error, 'w mt_local, unit) eopr \<Rightarrow> (step_error, 'w mt_local, unit) eopr" where
  "step_to to m = thenO (advance to) m"

definition live_step :: "'w mode_transition \<Rightarrow> (step_error, 'w mt_local, unit) eopr" where
  "live_step t = whenO (mt_target t = LIVE) (checkO (live_transition_approved t)
     (StepFailure ''DEMO->LIVE transition requires explicit transition-scoped approval'' None))"

definition complete_step :: "'w mode_transition \<Rightarrow> (step_error, 'w mt_local, unit) eopr" where
  "complete_step t = bindO (worldO (mt_clock t)) (\<lambda>now.
     modO (\<lambda>s. s\<lparr>ml_state := (ml_state s)\<lparr>effective_mode := mt_target t, desired_mode := mt_target t,
       credential_profile := profile_for (mt_target t), entry_blocked := False,
       last_verification := Some now, last_error := None\<rparr>\<rparr>))"

definition execute_steps :: "'w mode_transition \<Rightarrow> (transition_state \<times> (step_error, 'w mt_local, unit) eopr) list" where
  "execute_steps t =
    [(REQUESTED, live_step t),
     (ENTRY_BLOCKED, modO (\<lambda>s. s\<lparr>ml_state := (ml_state s)\<lparr>entry_blocked := True\<rparr>\<rparr>)),
     (SOURCE_VERIFIED,
        checkO (bindO (worldO (mt_verify_source_mode t)) (\<lambda>m. retO (m = effective_mode (mt_start t))))
          (StepFailure ''source mode verification mismatch'' None)),
     (POSITIONS_VERIFIED,
        checkO (worldO (mt_verify_positions_safe t))
          (StepFailure ''open position ownership/protection not safe to transition'' None)),
     (SERVICE_STOPPED, thenO (modO (\<lambda>s. s\<lparr>ml_touched := True\<rparr>)) (worldO (mt_stop t))),
     (TARGET_VERIFIED,
        checkO (worldO (mt_verify_target_account t (profile_for (mt_target t))))
          (StepFailure ''target account/credential-profile verification failed'' (Some MODE_UNKNOWN))),
     (SERVICE_STARTED, worldO (mt_svc_start t)),
     (EFFECTIVE_MODE_VERIFIED,
        checkO (bindO (worldO (mt_verify_effective_mode t)) (\<lambda>m. retO (m = mt_target t)))
          (StepFailure ''effective mode after restart does not match target'' (Some MODE_UNKNOWN))),
     (COMPLETE, complete_step t)]"

definition execute_body :: "'w mode_transition \<Rightarrow> (step_error, 'w mt_local, unit) eopr" where
  "execute_body t = seqO (map (\<lambda>(to, m). step_to to m) (execute_steps t))"

text \<open>\<open>if service_touched: try: start() except: pass\<close>.\<close>

definition restart_best_effort :: "'w mode_transition \<Rightarrow> 'w mt_local \<Rightarrow> 'w mt_local" where
  "restart_best_effort t s =
     (if ml_touched s then s\<lparr>ml_world := snd (mt_svc_start t (ml_world s))\<rparr> else s)"

definition fail_closed :: "mode \<Rightarrow> string \<Rightarrow> 'w mt_local \<Rightarrow> 'w mt_local" where
  "fail_closed effective reason s = s\<lparr>ml_visited := ml_visited s @ [FAILED_CLOSED],
     ml_state := (ml_state s)\<lparr>transition_state := FAILED_CLOSED, effective_mode := effective,
       entry_blocked := True, last_error := Some reason\<rparr>\<rparr>"

text \<open>The two \<open>except\<close> branches.\<close>

fun recover :: "'w mode_transition \<Rightarrow> step_error \<Rightarrow> 'w mt_local \<Rightarrow> 'w mt_local" where
  "recover t (StepFailure reason eff) s =
     fail_closed (case eff of Some m \<Rightarrow> m
         | None \<Rightarrow> if ml_touched s then MODE_UNKNOWN else effective_mode (mt_start t))
       reason (restart_best_effort t s)"
| "recover t (Unexpected e) s =
     fail_closed MODE_UNKNOWN (''transition aborted: '' @ err_class e) (restart_best_effort t s)"

definition mt_init :: "'w mode_transition \<Rightarrow> approval_registry option \<Rightarrow> 'w \<Rightarrow> 'w mt_local" where
  "mt_init t reg w = \<lparr>ml_state = (mt_start t)\<lparr>last_error := None\<rparr>, ml_touched = False, ml_visited = [],
     ml_registry = reg, ml_world = w\<rparr>"

definition mt_finish :: "transition_outcome \<Rightarrow> 'w mt_local \<Rightarrow> transition_result \<times> approval_registry option \<times> 'w" where
  "mt_finish out s = (\<lparr>tr_result = out, tr_state = ml_state s, tr_visited = ml_visited s\<rparr>,
     ml_registry s, ml_world s)"

definition execute :: "'w mode_transition \<Rightarrow> approval_registry option \<times> 'w \<Rightarrow>
    transition_result \<times> approval_registry option \<times> 'w" where
  "execute t = (\<lambda>(reg, w). case execute_body t (mt_init t reg w) of
      (Inr _, s) \<Rightarrow> mt_finish OUT_COMPLETE s
    | (Inl e, s) \<Rightarrow> mt_finish OUT_FAILED_CLOSED (recover t e s))"

section \<open>How far a run gets\<close>

definition ordered_path :: "transition_state list" where
  "ordered_path = [REQUESTED, ENTRY_BLOCKED, SOURCE_VERIFIED, POSITIONS_VERIFIED, SERVICE_STOPPED,
     TARGET_VERIFIED, SERVICE_STARTED, EFFECTIVE_MODE_VERIFIED, COMPLETE]"

text \<open>Callbacks change only the world (or the registry), never the other locals.\<close>

lemma keeps_world [keeps_intros]:
  "(\<And>s w. I s \<Longrightarrow> I (s\<lparr>ml_world := w\<rparr>)) \<Longrightarrow> keeps I (worldO m)"
  by (auto simp: keeps_def worldO_def split: prod.splits sum.splits)

lemma keeps_registry [keeps_intros]:
  "(\<And>s r. I s \<Longrightarrow> I (s\<lparr>ml_registry := r\<rparr>)) \<Longrightarrow> keeps I (registryO m r)"
  by (auto simp: keeps_def registryO_def split: prod.splits sum.splits)

lemma keeps_checkO [keeps_intros]: "keeps I m \<Longrightarrow> keeps I (checkO m e)"
  by (auto simp: checkO_def intro!: keeps_intros)

lemma keeps_live_step [keeps_intros]:
  assumes "\<And>s w. I s \<Longrightarrow> I (s\<lparr>ml_world := w\<rparr>)" and "\<And>s r. I s \<Longrightarrow> I (s\<lparr>ml_registry := r\<rparr>)"
  shows "keeps I (live_step t)"
  unfolding live_step_def live_transition_approved_def
  by (auto intro!: keeps_intros assms split: option.splits prod.splits)

lemma step_to_apply: "step_to to m s = m (snd (advance to s))"
  by (simp add: step_to_def thenO_apply advance_def)

lemma steps_visited:
  assumes "\<And>to m v. (to, m) \<in> set steps \<Longrightarrow> keeps (\<lambda>s. ml_visited s = v) m"
    and "seqO (map (\<lambda>(to, m). step_to to m) steps) s = (r, t)"
  shows "\<exists>k \<le> length steps. ml_visited t = ml_visited s @ take k (map fst steps) \<and>
           (r = Inr () \<longrightarrow> k = length steps)"
  using assms
proof (induction steps arbitrary: s)
  case (Cons step steps)
  obtain to m where step: "step = (to, m)" by fastforce
  let ?s1 = "snd (advance to s)"
  have v1: "ml_visited ?s1 = ml_visited s @ [to]" by (simp add: advance_def)
  obtain r' s' where m: "m ?s1 = (r', s')" by fastforce
  have "keeps (\<lambda>s. ml_visited s = ml_visited ?s1) m"
    using Cons.prems(1) [where to = to and m = m and v = "ml_visited ?s1"] step by simp
  from keepsD [where I = "\<lambda>s. ml_visited s = ml_visited ?s1", OF this refl m] v1
  have v: "ml_visited s' = ml_visited s @ [to]" by simp
  show ?case
  proof (cases r')
    case (Inl e)
    then have "t = s'" "r = Inl e"
      using Cons.prems(2) m by (auto simp: step step_to_apply [of to m s] thenO_apply)
    then show ?thesis using v step by (intro exI [of _ 1]) auto
  next
    case (Inr u)
    then have "seqO (map (\<lambda>(to, m). step_to to m) steps) s' = (r, t)"
      using Cons.prems(2) m by (simp add: step step_to_apply [of to m s] thenO_apply)
    with Cons.IH [OF Cons.prems(1)] obtain k where "k \<le> length steps"
      "ml_visited t = ml_visited s' @ take k (map fst steps)" "r = Inr () \<longrightarrow> k = length steps"
      by fastforce
    then show ?thesis using v step by (intro exI [of _ "Suc k"]) auto
  qed
qed simp

lemma execute_path: "map fst (execute_steps t) = ordered_path"
  by (simp add: execute_steps_def ordered_path_def)

lemma execute_steps_visited:
  "(to, m) \<in> set (execute_steps t) \<Longrightarrow> keeps (\<lambda>s. ml_visited s = v) m"
  by (auto simp: execute_steps_def complete_step_def intro!: keeps_intros keeps_mod)

text \<open>Until the last write, a run changes no more than the step marker and the entry block.\<close>

definition pristine :: "'w mode_transition \<Rightarrow> 'w mt_local \<Rightarrow> bool" where
  "pristine t s \<longleftrightarrow> (ml_state s)\<lparr>transition_state := IDLE, entry_blocked := True\<rparr>
     = (mt_start t)\<lparr>last_error := None, transition_state := IDLE, entry_blocked := True\<rparr>"

lemma pristine_simps [simp]:
  "pristine t (s\<lparr>ml_world := w\<rparr>) = pristine t s"
  "pristine t (s\<lparr>ml_registry := r\<rparr>) = pristine t s"
  "pristine t (s\<lparr>ml_touched := b\<rparr>) = pristine t s"
  by (simp_all add: pristine_def)

lemma pristine_advance [keeps_intros]: "keeps (pristine t) (advance to)"
  by (simp add: keeps_def advance_def pristine_def)

lemma execute_fails_pristine: "fails_in (pristine t) (execute_body t)"
  unfolding execute_body_def
proof (rule fails_in_seq)
  fix m assume "m \<in> set (butlast (map (\<lambda>(to, m). step_to to m) (execute_steps t)))"
  then show "keeps (pristine t) m"
    by (auto simp: execute_steps_def step_to_def intro!: keeps_intros keeps_mod) (auto simp: pristine_def)
next
  show "fails_in (pristine t) (last (map (\<lambda>(to, m). step_to to m) (execute_steps t)))"
    by (auto simp: execute_steps_def step_to_def complete_step_def intro!: fails_intros keeps_intros)
qed

text \<open>The effects of a run that completes.\<close>

lemma worldO_Inr_iff:
  "worldO m s = (Inr x, s') \<longleftrightarrow> (\<exists>w. m (ml_world s) = (Inr x, w) \<and> s' = s\<lparr>ml_world := w\<rparr>)"
  by (auto simp: worldO_def split: prod.splits sum.splits)

lemma checkO_Inr_iff: "checkO m e s = (Inr u, s') \<longleftrightarrow> m s = (Inr True, s')"
  by (auto simp: checkO_def bindO_Inr_iff split: if_splits)

lemma live_approved_registry:
  assumes "live_transition_approved t s = (Inr True, s')" and "\<not> mt_live_approved t"
  shows "\<exists>r aid now w r'. ml_registry s = Some r \<and> mt_approval_id t = Some aid \<and>
    mt_clock t (ml_world s) = (Inr now, w) \<and> require_live_approval aid now r = (Inr True, r') \<and>
    s' = s\<lparr>ml_world := w, ml_registry := Some r'\<rparr>"
proof (cases "ml_registry s")
  case None
  then show ?thesis using assms by (simp add: live_transition_approved_def)
next
  case (Some r)
  show ?thesis
  proof (cases "mt_approval_id t")
    case None
    then show ?thesis using assms Some by (simp add: live_transition_approved_def)
  next
    case id: (Some aid)
    have "bindO (worldO (mt_clock t)) (\<lambda>now. registryO (require_live_approval aid now) r) s = (Inr True, s')"
      using assms Some id by (simp add: live_transition_approved_def split: if_splits)
    then obtain now w where w: "mt_clock t (ml_world s) = (Inr now, w)"
      and "registryO (require_live_approval aid now) r (s\<lparr>ml_world := w\<rparr>) = (Inr True, s')"
      by (auto simp: bindO_Inr_iff worldO_Inr_iff)
    then show ?thesis
      using Some id by (auto simp: registryO_def split: prod.splits sum.splits)
  qed
qed

lemma complete_step_Inr:
  assumes "complete_step t s = (Inr (), s')"
  shows "\<exists>now w. mt_clock t (ml_world s) = (Inr now, w) \<and>
    s' = s\<lparr>ml_world := w, ml_state := (ml_state s)\<lparr>effective_mode := mt_target t,
      desired_mode := mt_target t, credential_profile := profile_for (mt_target t),
      entry_blocked := False, last_verification := Some now, last_error := None\<rparr>\<rparr>"
  using assms by (auto simp: complete_step_def bindO_Inr_iff worldO_Inr_iff)

section \<open>Properties\<close>

lemma execute_cases:
  obtains (complete) s where "execute_body t (mt_init t reg w) = (Inr (), s)"
      "execute t (reg, w) = mt_finish OUT_COMPLETE s"
  | (failed) e s where "execute_body t (mt_init t reg w) = (Inl e, s)"
      "execute t (reg, w) = mt_finish OUT_FAILED_CLOSED (recover t e s)"
proof (cases "execute_body t (mt_init t reg w)")
  case (Pair r s)
  then show thesis
    using that by (cases r) (simp_all add: execute_def)
qed

lemma mt_finish_simps [simp]:
  "tr_result (fst (mt_finish out s)) = out"
  "tr_state (fst (mt_finish out s)) = ml_state s"
  "tr_visited (fst (mt_finish out s)) = ml_visited s"
  "fst (snd (mt_finish out s)) = ml_registry s"
  "snd (snd (mt_finish out s)) = ml_world s"
  by (simp_all add: mt_finish_def)

lemma restart_simps [simp]:
  "ml_state (restart_best_effort t s) = ml_state s"
  "ml_visited (restart_best_effort t s) = ml_visited s"
  "ml_registry (restart_best_effort t s) = ml_registry s"
  "ml_touched (restart_best_effort t s) = ml_touched s"
  by (simp_all add: restart_best_effort_def)

lemma recover_state:
  "\<exists>eff reason. ml_state (recover t e s) = (ml_state s)\<lparr>transition_state := FAILED_CLOSED,
       effective_mode := eff, entry_blocked := True, last_error := Some reason\<rparr> \<and>
     (eff \<noteq> MODE_UNKNOWN \<longrightarrow> (\<exists>r m. e = StepFailure r m \<and> (m = Some eff \<or> eff = effective_mode (mt_start t) \<and> \<not> ml_touched s)))"
  by (cases e) (auto simp: fail_closed_def split: option.splits)

lemma recover_visited [simp]: "ml_visited (recover t e s) = ml_visited s @ [FAILED_CLOSED]"
  by (cases e) (auto simp: fail_closed_def)

lemma execute_visited:
  assumes "execute_body t (mt_init t reg w) = (r, s)"
  shows "\<exists>k \<le> 9. ml_visited s = take k ordered_path \<and> (r = Inr () \<longrightarrow> k = 9)"
proof -
  have "\<exists>k \<le> length (execute_steps t). ml_visited s = ml_visited (mt_init t reg w) @ take k (map fst (execute_steps t)) \<and>
      (r = Inr () \<longrightarrow> k = length (execute_steps t))"
    by (rule steps_visited [OF execute_steps_visited]) (use assms in \<open>auto simp: execute_body_def\<close>)
  moreover have "length (execute_steps t) = 9"
    by (simp add: execute_steps_def)
  ultimately show ?thesis
    unfolding execute_path by (simp add: mt_init_def)
qed

text \<open>
  The machine visits the documented path in order and nothing else. A completed run has
  visited all of it; a failed run has visited a prefix and then \<open>FAILED_CLOSED\<close>, whatever the
  service manager, the verifiers and the clock return or raise.
\<close>

theorem execute_follows_path:
  "let res = fst (execute t (reg, w)) in
     tr_result res = OUT_COMPLETE \<and> tr_visited res = ordered_path \<or>
     tr_result res = OUT_FAILED_CLOSED \<and>
       (\<exists>k \<le> 9. tr_visited res = take k ordered_path @ [FAILED_CLOSED])"
proof (cases rule: execute_cases [of t reg w])
  case (complete s)
  then show ?thesis
    using execute_visited [OF complete(1)] by (auto simp: ordered_path_def)
next
  case (failed e s)
  then show ?thesis
    using execute_visited [OF failed(1)] by auto
qed

text \<open>
  C2: every failed transition ends closed: the entry block is set, entries are not allowed, the
  error is recorded, and the desired mode and the credential profile are those of the start.
\<close>

theorem execute_failure_is_closed:
  assumes "tr_result (fst (execute t (reg, w))) = OUT_FAILED_CLOSED"
  shows "let s = tr_state (fst (execute t (reg, w))) in
     transition_state s = FAILED_CLOSED \<and> entry_blocked s \<and> \<not> entry_allowed s \<and> last_error s \<noteq> None \<and>
     desired_mode s = desired_mode (mt_start t) \<and> credential_profile s = credential_profile (mt_start t)"
proof (cases rule: execute_cases [of t reg w])
  case (complete s)
  then show ?thesis using assms by simp
next
  case (failed e s)
  have "pristine t (mt_init t reg w)"
    by (simp add: pristine_def mt_init_def)
  then have "pristine t s"
    using fails_inD [OF execute_fails_pristine _ failed(1)] by simp
  then have "desired_mode (ml_state s) = desired_mode (mt_start t)"
    "credential_profile (ml_state s) = credential_profile (mt_start t)"
    unfolding pristine_def by (metis (no_types, lifting) tmc_state.simps tmc_state.surjective)+
  moreover obtain eff reason where "ml_state (recover t e s) = (ml_state s)\<lparr>transition_state := FAILED_CLOSED,
       effective_mode := eff, entry_blocked := True, last_error := Some reason\<rparr>"
    using recover_state by blast
  ultimately show ?thesis
    using failed(2) by (simp add: entry_allowed_def)
qed

lemma advance_simps [simp]:
  "ml_world (snd (advance to s)) = ml_world s"
  "ml_registry (snd (advance to s)) = ml_registry s"
  "ml_touched (snd (advance to s)) = ml_touched s"
  "ml_state (snd (advance to s)) = (ml_state s)\<lparr>transition_state := to\<rparr>"
  by (simp_all add: advance_def)

lemma step_check:
  "step_to to (checkO (worldO m) e) s = (Inr u, s') \<Longrightarrow>
     \<exists>w. m (ml_world s) = (Inr True, w) \<and> s' = (snd (advance to s))\<lparr>ml_world := w\<rparr>"
  by (auto simp: step_to_apply checkO_Inr_iff worldO_Inr_iff)

lemma step_check_eq:
  "step_to to (checkO (bindO (worldO m) (\<lambda>x. retO (x = v))) e) s = (Inr u, s') \<Longrightarrow>
     \<exists>w. m (ml_world s) = (Inr v, w) \<and> s' = (snd (advance to s))\<lparr>ml_world := w\<rparr>"
  by (auto simp: step_to_apply checkO_Inr_iff worldO_Inr_iff bindO_Inr_iff)

lemma execute_body_Inr:
  assumes "execute_body t (mt_init t reg w) = (Inr (), s)"
  obtains s1 w0 w1 w2 w3 w4 w5 w6 now where
      "live_step t (snd (advance REQUESTED (mt_init t reg w))) = (Inr (), s1)" "w0 = ml_world s1"
      "mt_verify_source_mode t w0 = (Inr (effective_mode (mt_start t)), w1)"
      "mt_verify_positions_safe t w1 = (Inr True, w2)"
      "mt_stop t w2 = (Inr (), w3)"
      "mt_verify_target_account t (profile_for (mt_target t)) w3 = (Inr True, w4)"
      "mt_svc_start t w4 = (Inr (), w5)"
      "mt_verify_effective_mode t w5 = (Inr (mt_target t), w6)"
      "mt_clock t w6 = (Inr now, ml_world s)"
      "ml_registry s = ml_registry s1"
      "ml_state s = (ml_state s1)\<lparr>transition_state := COMPLETE, effective_mode := mt_target t,
         desired_mode := mt_target t, credential_profile := profile_for (mt_target t),
         entry_blocked := False, last_verification := Some now, last_error := None\<rparr>"
proof -
  from assms obtain s1 s2 s3 s4 s5 s6 s7 s8 where
    st: "step_to REQUESTED (live_step t) (mt_init t reg w) = (Inr (), s1)"
      "step_to ENTRY_BLOCKED (modO (\<lambda>s. s\<lparr>ml_state := (ml_state s)\<lparr>entry_blocked := True\<rparr>\<rparr>)) s1 = (Inr (), s2)"
      "step_to SOURCE_VERIFIED (checkO (bindO (worldO (mt_verify_source_mode t)) (\<lambda>m. retO (m = effective_mode (mt_start t))))
          (StepFailure ''source mode verification mismatch'' None)) s2 = (Inr (), s3)"
      "step_to POSITIONS_VERIFIED (checkO (worldO (mt_verify_positions_safe t))
          (StepFailure ''open position ownership/protection not safe to transition'' None)) s3 = (Inr (), s4)"
      "step_to SERVICE_STOPPED (thenO (modO (\<lambda>s. s\<lparr>ml_touched := True\<rparr>)) (worldO (mt_stop t))) s4 = (Inr (), s5)"
      "step_to TARGET_VERIFIED (checkO (worldO (mt_verify_target_account t (profile_for (mt_target t))))
          (StepFailure ''target account/credential-profile verification failed'' (Some MODE_UNKNOWN))) s5 = (Inr (), s6)"
      "step_to SERVICE_STARTED (worldO (mt_svc_start t)) s6 = (Inr (), s7)"
      "step_to EFFECTIVE_MODE_VERIFIED (checkO (bindO (worldO (mt_verify_effective_mode t)) (\<lambda>m. retO (m = mt_target t)))
          (StepFailure ''effective mode after restart does not match target'' (Some MODE_UNKNOWN))) s7 = (Inr (), s8)"
      "step_to COMPLETE (complete_step t) s8 = (Inr (), s)"
    by (auto simp: execute_body_def execute_steps_def seqO_Inr_Cons simp del: seqO.simps(2))
  obtain w1 where 3: "mt_verify_source_mode t (ml_world s2) = (Inr (effective_mode (mt_start t)), w1)"
      "s3 = (snd (advance SOURCE_VERIFIED s2))\<lparr>ml_world := w1\<rparr>" using step_check_eq [OF st(3)] by blast
  obtain w2 where 4: "mt_verify_positions_safe t (ml_world s3) = (Inr True, w2)"
      "s4 = (snd (advance POSITIONS_VERIFIED s3))\<lparr>ml_world := w2\<rparr>" using step_check [OF st(4)] by blast
  obtain w3 where 5: "mt_stop t (ml_world s4) = (Inr (), w3)"
      "s5 = (snd (advance SERVICE_STOPPED s4))\<lparr>ml_touched := True, ml_world := w3\<rparr>"
    using st(5) by (auto simp: step_to_apply worldO_Inr_iff)
  obtain w4 where 6: "mt_verify_target_account t (profile_for (mt_target t)) (ml_world s5) = (Inr True, w4)"
      "s6 = (snd (advance TARGET_VERIFIED s5))\<lparr>ml_world := w4\<rparr>" using step_check [OF st(6)] by blast
  obtain w5 where 7: "mt_svc_start t (ml_world s6) = (Inr (), w5)"
      "s7 = (snd (advance SERVICE_STARTED s6))\<lparr>ml_world := w5\<rparr>"
    using st(7) by (auto simp: step_to_apply worldO_Inr_iff)
  obtain w6 where 8: "mt_verify_effective_mode t (ml_world s7) = (Inr (mt_target t), w6)"
      "s8 = (snd (advance EFFECTIVE_MODE_VERIFIED s7))\<lparr>ml_world := w6\<rparr>" using step_check_eq [OF st(8)] by blast
  obtain now w7 where 9: "mt_clock t (ml_world s8) = (Inr now, w7)"
      "s = (snd (advance COMPLETE s8))\<lparr>ml_world := w7, ml_state := (ml_state (snd (advance COMPLETE s8)))
        \<lparr>effective_mode := mt_target t, desired_mode := mt_target t,
         credential_profile := profile_for (mt_target t), entry_blocked := False,
         last_verification := Some now, last_error := None\<rparr>\<rparr>"
    using complete_step_Inr [OF st(9) [unfolded step_to_apply]] by auto
  have s2: "ml_world s2 = ml_world s1" "ml_registry s2 = ml_registry s1"
      "ml_state s2 = (ml_state s1)\<lparr>transition_state := ENTRY_BLOCKED, entry_blocked := True\<rparr>"
    using st(2) by (auto simp: step_to_apply)
  show thesis
  proof (rule that [of s1 "ml_world s1" w1 w2 w3 w4 w5 w6 now])
    show "live_step t (snd (advance REQUESTED (mt_init t reg w))) = (Inr (), s1)"
      using st(1) by (simp add: step_to_apply)
  qed (use 3 4 5 6 7 8 9 s2 in simp_all)
qed

lemma live_step_state:
  assumes "live_step t s = (Inr (), s1)"
  shows "ml_state s1 = ml_state s \<and> (mt_target t = LIVE \<and> \<not> mt_live_approved t \<longrightarrow>
     (\<exists>r aid now ticket. ml_registry s = Some r \<and> mt_approval_id t = Some aid \<and>
        honours r aid DEMO LIVE LIVE_TRANSITION_INTENT now ticket \<and>
        ml_registry s1 = Some (r\<lparr>ar_consumed := insert aid (ar_consumed r)\<rparr>)))"
proof -
  have "keeps (\<lambda>x. ml_state x = ml_state s) (live_step t)"
    by (rule keeps_live_step) auto
  then have 1: "ml_state s1 = ml_state s"
    unfolding keeps_def using assms by (metis snd_conv)
  have "\<exists>r aid now ticket. ml_registry s = Some r \<and> mt_approval_id t = Some aid \<and>
        honours r aid DEMO LIVE LIVE_TRANSITION_INTENT now ticket \<and>
        ml_registry s1 = Some (r\<lparr>ar_consumed := insert aid (ar_consumed r)\<rparr>)"
    if "mt_target t = LIVE" "\<not> mt_live_approved t"
  proof -
    have "live_transition_approved t s = (Inr True, s1)"
      using assms that(1) by (simp add: live_step_def checkO_Inr_iff)
    from live_approved_registry [OF this that(2)] show ?thesis
      by (fastforce simp: require_live_True_iff)
  qed
  with 1 show ?thesis by blast
qed

lemma execute_complete_gates':
  assumes "execute t (reg, w) = (res, reg', w')" and "tr_result res = OUT_COMPLETE"
  shows "\<exists>w0 w1 w2 w3 w4 w5 w6 now.
      mt_verify_source_mode t w0 = (Inr (effective_mode (mt_start t)), w1) \<and>
      mt_verify_positions_safe t w1 = (Inr True, w2) \<and>
      mt_stop t w2 = (Inr (), w3) \<and>
      mt_verify_target_account t (profile_for (mt_target t)) w3 = (Inr True, w4) \<and>
      mt_svc_start t w4 = (Inr (), w5) \<and>
      mt_verify_effective_mode t w5 = (Inr (mt_target t), w6) \<and>
      mt_clock t w6 = (Inr now, w') \<and>
      tr_state res = (mt_start t)\<lparr>transition_state := COMPLETE, effective_mode := mt_target t,
         desired_mode := mt_target t, credential_profile := profile_for (mt_target t),
         entry_blocked := False, last_verification := Some now, last_error := None\<rparr>"
proof (cases rule: execute_cases [of t reg w])
  case (failed e s)
  then show ?thesis using assms by (simp add: mt_finish_def)
next
  case (complete s)
  from execute_body_Inr [OF complete(1)] obtain s1 w1 w2 w3 w4 w5 w6 now where
    live: "live_step t (snd (advance REQUESTED (mt_init t reg w))) = (Inr (), s1)"
    and gates: "mt_verify_source_mode t (ml_world s1) = (Inr (effective_mode (mt_start t)), w1)"
      "mt_verify_positions_safe t w1 = (Inr True, w2)" "mt_stop t w2 = (Inr (), w3)"
      "mt_verify_target_account t (profile_for (mt_target t)) w3 = (Inr True, w4)"
      "mt_svc_start t w4 = (Inr (), w5)"
      "mt_verify_effective_mode t w5 = (Inr (mt_target t), w6)" "mt_clock t w6 = (Inr now, ml_world s)"
    and st: "ml_state s = (ml_state s1)\<lparr>transition_state := COMPLETE, effective_mode := mt_target t,
         desired_mode := mt_target t, credential_profile := profile_for (mt_target t),
         entry_blocked := False, last_verification := Some now, last_error := None\<rparr>"
    by metis
  have "ml_state s1 = (mt_start t)\<lparr>last_error := None, transition_state := REQUESTED\<rparr>"
    using live_step_state [OF live] by (simp add: advance_def mt_init_def)
  then have "tr_state res = (mt_start t)\<lparr>transition_state := COMPLETE, effective_mode := mt_target t,
         desired_mode := mt_target t, credential_profile := profile_for (mt_target t),
         entry_blocked := False, last_verification := Some now, last_error := None\<rparr>"
    using complete(2) assms(1) st by (simp add: mt_finish_def)
  moreover have "w' = ml_world s"
    using complete(2) assms(1) by (simp add: mt_finish_def)
  ultimately show ?thesis
    using gates by blast
qed

text \<open>
  C3: a completed transition has passed every gate, in order: the source mode was the observed one,
  positions were safe, the service stopped, the target account was verified for the profile of the
  target, the service started, and the mode observed after the restart is the target. Its state
  names the target as effective and desired mode and lifts the entry block.
\<close>

theorem execute_complete_gates:
  assumes "execute t (reg, w) = (res, reg', w')" and "tr_result res = OUT_COMPLETE"
  shows "\<exists>w0 w1 w2 w3 w4 w5 w6 now.
      mt_verify_source_mode t w0 = (Inr (effective_mode (mt_start t)), w1) \<and>
      mt_verify_positions_safe t w1 = (Inr True, w2) \<and>
      mt_stop t w2 = (Inr (), w3) \<and>
      mt_verify_target_account t (profile_for (mt_target t)) w3 = (Inr True, w4) \<and>
      mt_svc_start t w4 = (Inr (), w5) \<and>
      mt_verify_effective_mode t w5 = (Inr (mt_target t), w6) \<and>
      mt_clock t w6 = (Inr now, w') \<and>
      tr_state res = (mt_start t)\<lparr>transition_state := COMPLETE, effective_mode := mt_target t,
         desired_mode := mt_target t, credential_profile := profile_for (mt_target t),
         entry_blocked := False, last_verification := Some now, last_error := None\<rparr>"
  using execute_complete_gates' [OF assms] .

text \<open>
  C1: nothing turns the bot LIVE without a ticket. When a run with target LIVE and without the
  direct override completes, the registry held an unconsumed, unexpired DEMO to LIVE ticket with
  the live intent under the given id, and the run has consumed it.
\<close>

theorem execute_live_needs_ticket:
  assumes "execute t (reg, w) = (res, reg', w')" and "tr_result res = OUT_COMPLETE"
    and "mt_target t = LIVE" and "\<not> mt_live_approved t"
  shows "\<exists>r aid now ticket. reg = Some r \<and> mt_approval_id t = Some aid \<and>
     honours r aid DEMO LIVE LIVE_TRANSITION_INTENT now ticket \<and>
     reg' = Some (r\<lparr>ar_consumed := insert aid (ar_consumed r)\<rparr>)"
proof (cases rule: execute_cases [of t reg w])
  case (failed e s)
  then show ?thesis using assms by (simp add: mt_finish_def)
next
  case (complete s)
  from execute_body_Inr [OF complete(1)] obtain s1 where
    live: "live_step t (snd (advance REQUESTED (mt_init t reg w))) = (Inr (), s1)"
    and reg: "ml_registry s = ml_registry s1"
    by metis
  have "reg' = ml_registry s"
    using complete(2) assms(1) by (simp add: mt_finish_def)
  then show ?thesis
    using live_step_state [OF live] assms(3,4) reg by (auto simp: advance_def mt_init_def)
qed

section \<open>The service manager interface\<close>

text \<open>
  The three operations a transition needs from a service manager, with the contract that a
  successful \<open>stop\<close> leaves the service stopped and a successful \<open>start\<close> leaves it running.
\<close>

locale service_manager =
  fixes status :: "'w \<Rightarrow> service_state"
    and stop :: "('w, unit) opr"
    and svc_start :: "('w, unit) opr"
  assumes stop_stopped: "stop w = (Inr (), w') \<Longrightarrow> status w' = STOPPED"
    and start_running: "svc_start w = (Inr (), w') \<Longrightarrow> status w' = RUNNING"
begin

lemma complete_running:
  assumes "execute t (reg, w) = (res, reg', w')" and "tr_result res = OUT_COMPLETE"
    and "mt_svc_start t = svc_start"
    and "frames status (mt_verify_effective_mode t)" and "frames status (mt_clock t)"
  shows "status w' = RUNNING"
proof -
  obtain w4 w5 w6 now where "mt_svc_start t w4 = (Inr (), w5)"
    "mt_verify_effective_mode t w5 = (Inr (mt_target t), w6)" "mt_clock t w6 = (Inr now, w')"
    using execute_complete_gates' [OF assms(1,2)] by blast
  then show ?thesis
    using start_running framesD [OF assms(4)] framesD [OF assms(5)] assms(3) by metis
qed

lemma failed_restarted:
  assumes "svc_start (ml_world s) = (Inr (), w')" and "mt_svc_start t = svc_start" and "ml_touched s"
  shows "status (ml_world (restart_best_effort t s)) = RUNNING"
  using start_running [OF assms(1)] assms by (simp add: restart_best_effort_def)

end

interpretation fake: service_manager fake_status fake_stop fake_start
  by unfold_locales (auto simp: fake_status_def fake_stop_def fake_start_def Let_def split: if_splits)

text \<open>
  A transition run against the in-memory service manager, with verifiers and a clock that only
  observe, leaves the service running when it completes.
\<close>

theorem fake_transition_leaves_service_running:
  assumes "execute t (reg, w) = (res, reg', w')" and "tr_result res = OUT_COMPLETE"
    and "mt_svc_start t = fake_start"
    and "frames fake_status (mt_verify_effective_mode t)" and "frames fake_status (mt_clock t)"
  shows "fake_status w' = RUNNING"
  using fake.complete_running [OF assms] .

section \<open>Witnesses and observed behaviour\<close>

definition sample_start :: tmc_state where
  "sample_start = (tmc_unknown DEMO ''demo'')\<lparr>effective_mode := DEMO, risk_guard_state := GUARD_OK\<rparr>"

definition sample_transition :: "tmc_state \<Rightarrow> mode \<Rightarrow> fake_service mode_transition" where
  "sample_transition st target = \<lparr>mt_start = st, mt_target = target, mt_stop = fake_stop,
     mt_svc_start = fake_start, mt_clock = retO ''2026-01-01T00:00:00Z'',
     mt_verify_source_mode = retO (effective_mode st), mt_verify_positions_safe = retO True,
     mt_verify_target_account = (\<lambda>_. retO True), mt_verify_effective_mode = retO target,
     mt_live_approved = False, mt_approval_id = Some ''approval:ab''\<rparr>"

definition sample_registry :: approval_registry where
  "sample_registry = \<lparr>ar_issued = [''approval:ab'' \<mapsto> sample_ticket], ar_consumed = {}\<rparr>"

definition sample_service :: "string option \<Rightarrow> fake_service" where
  "sample_service fail = \<lparr>fs_state = RUNNING, fs_fail_on = fail, fs_calls = []\<rparr>"

lemma sample_require_live:
  "require_live_approval ''approval:ab'' ''2026-01-01T00:00:00Z'' sample_registry
     = (Inr True, sample_registry\<lparr>ar_consumed := {''approval:ab''}\<rparr>)"
  using sample_honours by (auto simp: require_live_True_iff sample_registry_def)

lemmas run_simps = execute_def execute_body_def execute_steps_def step_to_def thenO_apply bindO_apply
  worldO_def registryO_def advance_def checkO_def live_step_def live_transition_approved_def
  complete_step_def mt_init_def mt_finish_def

lemma sample_live_run:
  "execute (sample_transition st LIVE) (Some sample_registry, sample_service None) =
     (\<lparr>tr_result = OUT_COMPLETE, tr_state = st\<lparr>transition_state := COMPLETE, effective_mode := LIVE,
        desired_mode := LIVE, credential_profile := ''live'', entry_blocked := False,
        last_verification := Some ''2026-01-01T00:00:00Z'', last_error := None\<rparr>,
        tr_visited = ordered_path\<rparr>,
      Some (sample_registry\<lparr>ar_consumed := {''approval:ab''}\<rparr>),
      \<lparr>fs_state = RUNNING, fs_fail_on = None, fs_calls = [''stop'', ''start'']\<rparr>)"
  by (simp add: run_simps sample_transition_def sample_require_live sample_service_def fake_stop_def
      fake_start_def profile_for_def ordered_path_def)

lemma sample_failed_run:
  "tr_result (fst (execute (sample_transition sample_start DEMO) (None, sample_service (Some ''stop'')))) = OUT_FAILED_CLOSED"
  by (simp add: run_simps sample_transition_def sample_service_def fake_stop_def
      fake_start_def profile_for_def fail_closed_def restart_best_effort_def)

theorem execute_failure_is_closed_witness:
  "let s = tr_state (fst (execute (sample_transition sample_start DEMO) (None, sample_service (Some ''stop'')))) in
     transition_state s = FAILED_CLOSED \<and> entry_blocked s \<and> \<not> entry_allowed s"
  using execute_failure_is_closed [OF sample_failed_run] by (simp add: Let_def)

theorem execute_complete_gates_witness:
  "\<exists>w2 w3. mt_stop (sample_transition sample_start LIVE) w2 = (Inr (), w3)"
  using execute_complete_gates [OF sample_live_run [of sample_start]] by auto

theorem execute_live_needs_ticket_witness:
  "\<exists>now ticket. honours sample_registry ''approval:ab'' DEMO LIVE LIVE_TRANSITION_INTENT now ticket"
  using execute_live_needs_ticket [OF sample_live_run [of sample_start]]
  by (auto simp: sample_transition_def)

theorem fake_transition_leaves_service_running_witness:
  "fake_status \<lparr>fs_state = RUNNING, fs_fail_on = None, fs_calls = [''stop'', ''start'']\<rparr> = RUNNING"
  by (rule fake_transition_leaves_service_running [OF sample_live_run [of sample_start]])
     (simp_all add: sample_transition_def frames_def)

text \<open>
  Two observed behaviours. A run that starts from a \<open>FAILED_CLOSED\<close> state is not refused: the
  machine reads neither the transition state nor the entry block of its start. And the DEMO to LIVE
  ticket is honoured whatever the effective mode of the start is, \<open>UNKNOWN\<close> included, as long as
  the source verifier reports the same mode.
\<close>

lemma failed_closed_start_can_complete:
  "tr_result (fst (execute (sample_transition (sample_start\<lparr>transition_state := FAILED_CLOSED\<rparr>) LIVE)
     (Some sample_registry, sample_service None))) = OUT_COMPLETE"
  by (simp add: sample_live_run)

lemma unknown_start_can_go_live:
  "effective_mode (tr_state (fst (execute (sample_transition (sample_start\<lparr>effective_mode := MODE_UNKNOWN\<rparr>) LIVE)
     (Some sample_registry, sample_service None)))) = LIVE"
  by (simp add: sample_live_run)

end
