(* ===== verification/StrategyRollout.thy ===== *)
theory StrategyRollout
  imports StrategyVersion
begin

text \<open>
  \<open>gaon/control/strategy_deployment.py\<close>: the one-click apply and rollback lifecycle over the version
  registry and a strategy runtime. The runtime is an interface (its four operations are fields of a
  record, its contract a locale); \<open>FakeStrategyRuntime\<close> is the instance the code provides. The
  lemmas show that the registry is only changed by a deployment that verified the runtime, and what
  a failure leaves behind.
\<close>

section \<open>Steps and runtime\<close>

datatype deploy_step = D_REQUESTED | D_VALIDATED | D_ENTRY_BLOCKED | D_PRECONDITIONS_OK
  | D_VERSION_APPLIED | D_EFFECTIVE_VERIFIED | D_ACTIVE | D_FAILED_CLOSED

datatype deploy_outcome = DEPLOY_ACTIVE | DEPLOY_FAILED_CLOSED

record 'w strategy_runtime =
  rt_effective :: "('w, string) opr"
  rt_apply :: "obj \<Rightarrow> string \<Rightarrow> ('w, unit) opr"
  rt_block :: "('w, unit) opr"
  rt_unblock :: "('w, unit) opr"

record fake_runtime =
  fr_effective :: string
  fr_blocked :: bool
  fr_fail_on :: "string option"
  fr_history :: "string list"
  fr_pending :: bool

definition fake_runtime_init :: "string \<Rightarrow> fake_runtime" where
  "fake_runtime_init eff = \<lparr>fr_effective = eff, fr_blocked = False, fr_fail_on = None, fr_history = [],
     fr_pending = False\<rparr>"

definition fake_effective_fingerprint :: "(fake_runtime, string) opr" where
  "fake_effective_fingerprint r =
     (if fr_pending r then (Inr (fr_effective r @ ''::drift''), r\<lparr>fr_pending := False\<rparr>)
      else (Inr (fr_effective r), r))"

definition fake_apply_version :: "obj \<Rightarrow> string \<Rightarrow> (fake_runtime, unit) opr" where
  "fake_apply_version rules fp r = (let r = r\<lparr>fr_history := fr_history r @ [fp]\<rparr> in
     if fr_fail_on r = Some ''apply'' then (Inl (RuntimeError ''fake runtime: apply failed''), r)
     else (Inr (), r\<lparr>fr_effective := fp, fr_pending := (fr_fail_on r = Some ''verify'')\<rparr>))"

definition fake_block_entries :: "(fake_runtime, unit) opr" where
  "fake_block_entries r = (Inr (), r\<lparr>fr_blocked := True\<rparr>)"

definition fake_unblock_entries :: "(fake_runtime, unit) opr" where
  "fake_unblock_entries r = (Inr (), r\<lparr>fr_blocked := False\<rparr>)"

definition fake_strategy_runtime :: "fake_runtime strategy_runtime" where
  "fake_strategy_runtime = \<lparr>rt_effective = fake_effective_fingerprint, rt_apply = fake_apply_version,
     rt_block = fake_block_entries, rt_unblock = fake_unblock_entries\<rparr>"

section \<open>The lifecycle\<close>

record deployment_result =
  dr_result :: deploy_outcome
  dr_active_id :: "string option"
  dr_steps :: "deploy_step list"
  dr_error :: "string option"

record 'w deploy_local =
  dl_steps :: "deploy_step list"
  dl_applied :: bool
  dl_registry :: version_registry
  dl_world :: 'w

definition DeployFailure :: "string \<Rightarrow> pyerr" where
  "DeployFailure reason = OtherError ''_DeployFailure'' reason"

text \<open>\<open>getattr(exc, "reason", type(exc).__name__)\<close>.\<close>

definition exc_reason :: "pyerr \<Rightarrow> string" where
  "exc_reason e = (case e of
      OtherError c r \<Rightarrow> if c = ''_DeployFailure'' \<or> c = ''ApprovalError'' then r else c
    | _ \<Rightarrow> err_class e)"

definition stepO :: "deploy_step \<Rightarrow> ('w deploy_local, unit) opr" where
  "stepO d = modO (\<lambda>s. s\<lparr>dl_steps := dl_steps s @ [d]\<rparr>)"

definition runO :: "('w, 'a) opr \<Rightarrow> ('w deploy_local, 'a) opr" where
  "runO m = (\<lambda>s. case m (dl_world s) of (r, w) \<Rightarrow> (r, s\<lparr>dl_world := w\<rparr>))"

definition regO :: "(version_registry, 'a) opr \<Rightarrow> ('w deploy_local, 'a) opr" where
  "regO m = (\<lambda>s. case m (dl_registry s) of (r, vs) \<Rightarrow> (r, s\<lparr>dl_registry := vs\<rparr>))"

definition requireO :: "('s, bool) opr \<Rightarrow> pyerr \<Rightarrow> ('s, unit) opr" where
  "requireO m e = bindO m (\<lambda>b. if b then retO () else raiseO e)"

definition deploy_body :: "'w strategy_runtime \<Rightarrow> strategy_version \<Rightarrow> string \<Rightarrow> string \<Rightarrow>
    (strategy_version \<Rightarrow> ('w, bool) opr) \<Rightarrow> ('w, bool) opr \<Rightarrow> ('w deploy_local, unit) opr" where
  "deploy_body rt target vid ts validate precheck = seqO
    [stepO D_REQUESTED,
     whenO (sv_status target = RETIRED) (raiseO (DeployFailure ''target strategy version is RETIRED'')),
     stepO D_VALIDATED,
     requireO (runO (validate target)) (DeployFailure ''strategy validation did not pass''),
     stepO D_ENTRY_BLOCKED,
     runO (rt_block rt),
     stepO D_PRECONDITIONS_OK,
     requireO (runO precheck) (DeployFailure ''runtime preconditions not met''),
     stepO D_VERSION_APPLIED,
     modO (\<lambda>s. s\<lparr>dl_applied := True\<rparr>),
     runO (rt_apply rt (sv_rules target) (sv_fingerprint target)),
     stepO D_EFFECTIVE_VERIFIED,
     requireO (bindO (runO (rt_effective rt)) (\<lambda>fp. retO (fp = sv_fingerprint target)))
       (DeployFailure ''effective runtime fingerprint does not match the target version''),
     bindO (regO (mark_active vid ts)) (\<lambda>_. retO ()),
     runO (rt_unblock rt),
     stepO D_ACTIVE]"

definition previous_active :: "strategy_version \<Rightarrow> version_registry \<Rightarrow> strategy_version option res" where
  "previous_active target vs = (case sv_direction target of
      Some d \<Rightarrow> if d \<noteq> [] then active_version (Some d) vs else active_version None vs
    | None \<Rightarrow> active_version None vs)"

definition restore_previous :: "'w strategy_runtime \<Rightarrow> strategy_version option \<Rightarrow> 'w deploy_local \<Rightarrow> 'w deploy_local" where
  "restore_previous rt prev s = (case prev of
      Some p \<Rightarrow> if dl_applied s then s\<lparr>dl_world := snd (rt_apply rt (sv_rules p) (sv_fingerprint p) (dl_world s))\<rparr> else s
    | None \<Rightarrow> s)"

text \<open>The defaults of the two optional checks: they always pass.\<close>

definition or_validate :: "(strategy_version \<Rightarrow> ('w, bool) opr) option \<Rightarrow> strategy_version \<Rightarrow> ('w, bool) opr" where
  "or_validate validate = (case validate of Some f \<Rightarrow> f | None \<Rightarrow> (\<lambda>_. retO True))"

definition or_precheck :: "('w, bool) opr option \<Rightarrow> ('w, bool) opr" where
  "or_precheck precheck = (case precheck of Some f \<Rightarrow> f | None \<Rightarrow> retO True)"

definition deploy_init :: "version_registry \<Rightarrow> 'w \<Rightarrow> 'w deploy_local" where
  "deploy_init vs w = \<lparr>dl_steps = [], dl_applied = False, dl_registry = vs, dl_world = w\<rparr>"

definition strategy_deploy :: "'w strategy_runtime \<Rightarrow> string \<Rightarrow> string \<Rightarrow>
    (strategy_version \<Rightarrow> ('w, bool) opr) option \<Rightarrow> ('w, bool) opr option \<Rightarrow>
    (version_registry \<times> 'w, deployment_result) opr" where
  "strategy_deploy rt vid ts validate precheck = (\<lambda>(vs, w).
    case version_get vid vs of Inl e \<Rightarrow> (Inl e, (vs, w)) | Inr target \<Rightarrow>
    (case previous_active target vs of Inl e \<Rightarrow> (Inl e, (vs, w)) | Inr prev \<Rightarrow>
      (case deploy_body rt target vid ts (or_validate validate) (or_precheck precheck) (deploy_init vs w) of
        (Inr _, s) \<Rightarrow> (Inr \<lparr>dr_result = DEPLOY_ACTIVE, dr_active_id = Some vid, dr_steps = dl_steps s,
                          dr_error = None\<rparr>, (dl_registry s, dl_world s))
      | (Inl e, s) \<Rightarrow>
          let s = restore_previous rt prev s in
          (Inr \<lparr>dr_result = DEPLOY_FAILED_CLOSED, dr_active_id = map_option sv_id prev,
             dr_steps = dl_steps s @ [D_FAILED_CLOSED], dr_error = Some (exc_reason e)\<rparr>,
           (dl_registry s, dl_world s)))))"

definition request_apply :: "'w strategy_runtime \<Rightarrow> string \<Rightarrow> string \<Rightarrow>
    (strategy_version \<Rightarrow> ('w, bool) opr) option \<Rightarrow> ('w, bool) opr option \<Rightarrow>
    (version_registry \<times> 'w, deployment_result) opr" where
  "request_apply rt vid ts validate precheck = strategy_deploy rt vid ts validate precheck"

definition request_rollback :: "'w strategy_runtime \<Rightarrow> string \<Rightarrow> string \<Rightarrow>
    (strategy_version \<Rightarrow> ('w, bool) opr) option \<Rightarrow> ('w, bool) opr option \<Rightarrow>
    (version_registry \<times> 'w, deployment_result) opr" where
  "request_rollback rt vid ts validate precheck = strategy_deploy rt vid ts validate precheck"

section \<open>Rules for the lifecycle\<close>

lemma wp_stepO [wp_simps]: "wp (stepO d) Q E s = Q () (s\<lparr>dl_steps := dl_steps s @ [d]\<rparr>)"
  by (simp add: stepO_def wp_simps)

lemma wp_runO [wp_simps]:
  "wp (runO m) Q E s = (case m (dl_world s) of
      (Inl e, w) \<Rightarrow> E e (s\<lparr>dl_world := w\<rparr>) | (Inr x, w) \<Rightarrow> Q x (s\<lparr>dl_world := w\<rparr>))"
  by (auto simp: wp_def runO_def split: prod.splits sum.splits)

lemma wp_regO [wp_simps]:
  "wp (regO m) Q E s = (case m (dl_registry s) of
      (Inl e, vs) \<Rightarrow> E e (s\<lparr>dl_registry := vs\<rparr>) | (Inr x, vs) \<Rightarrow> Q x (s\<lparr>dl_registry := vs\<rparr>))"
  by (auto simp: wp_def regO_def split: prod.splits sum.splits)

lemma wp_requireO [wp_simps]:
  "wp (requireO m e) Q E s = wp m (\<lambda>b t. (b \<longrightarrow> Q () t) \<and> (\<not> b \<longrightarrow> E e t)) E s"
  by (simp add: requireO_def wp_simps if_bool_eq_conj cong: if_cong)

lemma mark_active_Inl: "mark_active vid ts vs = (Inl e, vs') \<Longrightarrow> vs' = vs"
  by (auto simp: mark_active_def Let_def split: option.splits if_splits)

text \<open>
  The registry moves only in the commit step, after the runtime reported the target fingerprint.
  The hypothesis on \<open>unblock_entries\<close> matters: it is the one call after the commit.
\<close>

definition happy_path :: "deploy_step list" where
  "happy_path = [D_REQUESTED, D_VALIDATED, D_ENTRY_BLOCKED, D_PRECONDITIONS_OK, D_VERSION_APPLIED,
     D_EFFECTIVE_VERIFIED, D_ACTIVE]"

lemma deploy_body_Inr:
  assumes "dl_steps s0 = []"
  shows "wp (deploy_body rt target vid ts validate precheck)
    (\<lambda>_ s. (\<exists>v. mark_active vid ts (dl_registry s0) = (Inr v, dl_registry s)) \<and> dl_steps s = happy_path \<and>
       sv_status target \<noteq> RETIRED \<and>
       (\<exists>w w' w''. rt_effective rt w = (Inr (sv_fingerprint target), w') \<and> rt_unblock rt w' = (Inr (), w'') \<and>
          dl_world s = w''))
    (\<lambda>_ _. True) s0"
  unfolding deploy_body_def wp_simps happy_path_def
  using assms by (auto split: prod.splits sum.splits)

lemma deploy_body_Inl:
  assumes "\<And>w e w'. rt_unblock rt w \<noteq> (Inl e, w')"
  shows "wp (deploy_body rt target vid ts validate precheck)
    (\<lambda>_ _. True) (\<lambda>_ s. dl_registry s = dl_registry s0) s0"
  unfolding deploy_body_def wp_simps
  using assms by (auto dest: mark_active_Inl split: prod.splits sum.splits)

lemma restore_registry [simp]:
  "dl_registry (restore_previous rt prev s) = dl_registry s"
  "dl_steps (restore_previous rt prev s) = dl_steps s"
  by (simp_all add: restore_previous_def split: option.splits)

lemma deploy_init_simps [simp]:
  "dl_steps (deploy_init vs w) = []" "dl_applied (deploy_init vs w) = False"
  "dl_registry (deploy_init vs w) = vs" "dl_world (deploy_init vs w) = w"
  by (simp_all add: deploy_init_def)

lemma strategy_deploy_cases:
  assumes "strategy_deploy rt vid ts validate precheck (vs, w) = (Inr res, (vs', w'))"
  obtains (ok) target s where "version_get vid vs = Inr target"
      "deploy_body rt target vid ts (or_validate validate) (or_precheck precheck) (deploy_init vs w) = (Inr (), s)"
      "vs' = dl_registry s" "w' = dl_world s"
      "res = \<lparr>dr_result = DEPLOY_ACTIVE, dr_active_id = Some vid, dr_steps = dl_steps s, dr_error = None\<rparr>"
  | (failed) target prev e s where "version_get vid vs = Inr target" "previous_active target vs = Inr prev"
      "deploy_body rt target vid ts (or_validate validate) (or_precheck precheck) (deploy_init vs w) = (Inl e, s)"
      "vs' = dl_registry s" "w' = dl_world (restore_previous rt prev s)"
      "res = \<lparr>dr_result = DEPLOY_FAILED_CLOSED, dr_active_id = map_option sv_id prev,
         dr_steps = dl_steps s @ [D_FAILED_CLOSED], dr_error = Some (exc_reason e)\<rparr>"
  using assms by (auto simp: strategy_deploy_def Let_def split: sum.splits prod.splits)

text \<open>
  A deployment (apply or rollback) that reports ACTIVE has gone through every step in order,
  had a target that is not retired, saw the runtime report exactly the target fingerprint, and then
  moved the ACTIVE pointer of the registry to the target and unblocked entries.
\<close>

theorem rollout_success:
  assumes "request_apply rt vid ts validate precheck (vs, w) = (Inr res, (vs', w'))"
    and "dr_result res = DEPLOY_ACTIVE"
  shows "dr_steps res = happy_path \<and> dr_active_id res = Some vid \<and>
    (\<exists>target v w1 w2. version_get vid vs = Inr target \<and> sv_status target \<noteq> RETIRED \<and>
       mark_active vid ts vs = (Inr v, vs') \<and>
       rt_effective rt w1 = (Inr (sv_fingerprint target), w2) \<and> rt_unblock rt w2 = (Inr (), w'))"
  using assms(1) unfolding request_apply_def
proof (cases rule: strategy_deploy_cases)
  case (ok target s)
  from wp_Inr [OF deploy_body_Inr ok(2)] ok show ?thesis by auto
qed (use assms(2) in simp)

text \<open>
  As long as \<open>unblock_entries\<close> does not raise, a deployment that fails closed leaves the registry
  exactly as it was, so the strategy that was ACTIVE stays ACTIVE, and reports that strategy.
\<close>

theorem rollout_failure_keeps_registry:
  assumes "request_apply rt vid ts validate precheck (vs, w) = (Inr res, (vs', w'))"
    and "dr_result res = DEPLOY_FAILED_CLOSED"
    and "\<forall>w e w'. rt_unblock rt w \<noteq> (Inl e, w')"
  shows "vs' = vs \<and> (\<exists>target prev. version_get vid vs = Inr target \<and>
     previous_active target vs = Inr prev \<and> dr_active_id res = map_option sv_id prev)"
  using assms(1) unfolding request_apply_def
proof (cases rule: strategy_deploy_cases)
  case (failed target prev e s)
  from wp_Inl [OF deploy_body_Inl failed(3)] assms(3) failed show ?thesis by auto
qed (use assms(2) in simp)

section \<open>The runtime contract\<close>

text \<open>
  What a deployment relies on: blocking entries succeeds and blocks them, and neither applying a
  version nor reading the fingerprint opens them.
\<close>

locale entry_gate =
  fixes rt :: "'w strategy_runtime" and blocked :: "'w \<Rightarrow> bool"
  assumes block_blocks: "\<exists>w'. rt_block rt w = (Inr (), w') \<and> blocked w'"
    and apply_keeps: "frames blocked (rt_apply rt rules fp)"
    and effective_keeps: "frames blocked (rt_effective rt)"
    and unblock_returns: "rt_unblock rt w \<noteq> (Inl e, w')"
begin

lemma body_failure_blocked:
  assumes "frames blocked precheck"
  shows "wp (deploy_body rt target vid ts validate precheck) (\<lambda>_ _. True)
    (\<lambda>_ s. D_ENTRY_BLOCKED \<in> set (dl_steps s) \<and> D_ENTRY_BLOCKED \<notin> set (dl_steps s0) \<longrightarrow> blocked (dl_world s)) s0"
proof -
  have 1: "blocked w'" if "rt_block rt w = (r, w')" for w r w'
    using block_blocks [of w] that by auto
  have 2: "blocked w' = blocked w" if "precheck w = (r, w')" for w r w'
    using framesD [OF assms that(1)] .
  have 3: "blocked w' = blocked w" if "rt_apply rt rules fp w = (r, w')" for w r w' rules fp
    using framesD [OF apply_keeps that(1)] .
  have 4: "blocked w' = blocked w" if "rt_effective rt w = (r, w')" for w r w'
    using framesD [OF effective_keeps that(1)] .
  show ?thesis
    unfolding deploy_body_def wp_simps
    using unblock_returns by (auto dest!: 1 2 3 4 split: prod.splits sum.splits)
qed

lemma failure_blocked:
  assumes "strategy_deploy rt vid ts validate precheck (vs, w) = (Inr res, (vs', w'))"
    and "dr_result res = DEPLOY_FAILED_CLOSED" and "D_ENTRY_BLOCKED \<in> set (dr_steps res)"
    and "frames blocked (or_precheck precheck)"
  shows "blocked w'"
  using assms(1)
proof (cases rule: strategy_deploy_cases)
  case (failed target prev e s)
  have "blocked (dl_world s)"
    using wp_Inl [OF body_failure_blocked [OF assms(4)] failed(3)] failed assms(3) by simp
  moreover have "blocked (snd (rt_apply rt rules fp v)) = blocked v" for rules fp v
    using apply_keeps by (auto simp: frames_def)
  ultimately show ?thesis
    using failed(5) by (auto simp: restore_previous_def split: option.splits)
qed (use assms(2) in simp)

end

lemma fake_simps [simp]:
  "rt_block fake_strategy_runtime w = (Inr (), w\<lparr>fr_blocked := True\<rparr>)"
  "rt_unblock fake_strategy_runtime w = (Inr (), w\<lparr>fr_blocked := False\<rparr>)"
  "rt_apply fake_strategy_runtime = fake_apply_version"
  "rt_effective fake_strategy_runtime = fake_effective_fingerprint"
  by (simp_all add: fake_strategy_runtime_def fake_block_entries_def fake_unblock_entries_def)

interpretation fake_gate: entry_gate fake_strategy_runtime fr_blocked
  by unfold_locales (auto simp: frames_def fake_apply_version_def fake_effective_fingerprint_def Let_def)

text \<open>
  On the in-memory runtime, a deployment that fails after entries were blocked leaves them
  blocked, whichever later step failed and however the restore of the previous version went.
\<close>

theorem fake_rollout_failure_blocks_entries:
  assumes "request_apply fake_strategy_runtime vid ts validate precheck (vs, w) = (Inr res, (vs', w'))"
    and "dr_result res = DEPLOY_FAILED_CLOSED" and "D_ENTRY_BLOCKED \<in> set (dr_steps res)"
    and "frames fr_blocked (or_precheck precheck)"
  shows "fr_blocked w'"
  using fake_gate.failure_blocked [OF assms(1) [unfolded request_apply_def] assms(2-4)] .

section \<open>Witnesses and observed behaviour\<close>

definition sample_versions :: version_registry where
  "sample_versions = [sample_version ''a'' ACTIVE, sample_version ''b'' APPLY_READY]"

lemmas rollout_simps = strategy_deploy_def request_apply_def deploy_body_def version_get_def previous_active_def
  active_version_def normalize_direction_def stepO_def runO_def requireO_def regO_def thenO_apply bindO_apply
  or_validate_def or_precheck_def deploy_init_def

lemma sample_direction: "upper (strip ''LONG'') = ''LONG''"
  by code_simp

lemma sample_rollout_ok:
  "request_apply fake_strategy_runtime ''b'' ''t'' None None (sample_versions, fake_runtime_init ''a-fp'')
     = (Inr \<lparr>dr_result = DEPLOY_ACTIVE, dr_active_id = Some ''b'', dr_steps = happy_path, dr_error = None\<rparr>,
        ([deactivate ''t'' (sample_version ''a'' ACTIVE), activate ''t'' (sample_version ''b'' APPLY_READY)],
         \<lparr>fr_effective = ''b-fp'', fr_blocked = False, fr_fail_on = None, fr_history = [''b-fp''], fr_pending = False\<rparr>))"
  by (simp add: rollout_simps sample_direction sample_versions_def sample_version_def fake_runtime_init_def
      fake_apply_version_def fake_effective_fingerprint_def mark_active_def switch_active_def happy_path_def
      activate_def deactivate_def last_opt_def)

lemma sample_rollout_failed:
  "request_apply fake_strategy_runtime ''b'' ''t'' None None
       (sample_versions, (fake_runtime_init ''a-fp'')\<lparr>fr_fail_on := Some ''verify''\<rparr>)
     = (Inr \<lparr>dr_result = DEPLOY_FAILED_CLOSED, dr_active_id = Some ''a'',
          dr_steps = butlast happy_path @ [D_FAILED_CLOSED],
          dr_error = Some ''effective runtime fingerprint does not match the target version''\<rparr>,
        (sample_versions,
         \<lparr>fr_effective = ''a-fp'', fr_blocked = True, fr_fail_on = Some ''verify'', fr_history = [''b-fp'', ''a-fp''],
          fr_pending = True\<rparr>))"
  by (simp add: rollout_simps sample_direction sample_versions_def sample_version_def fake_runtime_init_def
      fake_apply_version_def fake_effective_fingerprint_def mark_active_def switch_active_def happy_path_def
      last_opt_def DeployFailure_def exc_reason_def restore_previous_def Let_def)

theorem rollout_success_witness:
  "\<exists>v. mark_active ''b'' ''t'' sample_versions =
     (Inr v, [deactivate ''t'' (sample_version ''a'' ACTIVE), activate ''t'' (sample_version ''b'' APPLY_READY)])"
  using rollout_success [OF sample_rollout_ok] by auto

theorem rollout_failure_keeps_registry_witness:
  "\<exists>target prev. version_get ''b'' sample_versions = Inr target \<and>
     previous_active target sample_versions = Inr prev \<and> Some ''a'' = map_option sv_id prev"
  using rollout_failure_keeps_registry [OF sample_rollout_failed] by simp

theorem fake_rollout_failure_blocks_entries_witness:
  "fr_blocked \<lparr>fr_effective = ''a-fp'', fr_blocked = True, fr_fail_on = Some ''verify'',
     fr_history = [''b-fp'', ''a-fp''], fr_pending = True\<rparr>"
  by (rule fake_rollout_failure_blocks_entries [OF sample_rollout_failed])
     (simp_all add: happy_path_def frames_def or_precheck_def)

text \<open>
  Two observed behaviours. When \<open>unblock_entries\<close> itself raises, the result is FAILED_CLOSED and names
  the previous version, but the ACTIVE pointer has moved to the target. And a target that is retired
  fails before entries are blocked, so they stay as they were.
\<close>

definition unblock_raises :: "fake_runtime strategy_runtime" where
  "unblock_raises = fake_strategy_runtime\<lparr>rt_unblock := raiseO (RuntimeError ''unblock'')\<rparr>"

lemma unblock_failure_moves_pointer:
  "case request_apply unblock_raises ''b'' ''t'' None None (sample_versions, fake_runtime_init ''a-fp'') of
     (Inr res, (vs', w')) \<Rightarrow> dr_result res = DEPLOY_FAILED_CLOSED \<and> dr_active_id res = Some ''a'' \<and>
        map sv_status vs' = [PREVIOUS, ACTIVE] \<and> fr_effective w' = ''a-fp''
   | _ \<Rightarrow> False"
  by (simp add: rollout_simps sample_direction sample_versions_def sample_version_def fake_runtime_init_def
      fake_apply_version_def fake_effective_fingerprint_def mark_active_def switch_active_def happy_path_def
      last_opt_def exc_reason_def restore_previous_def Let_def unblock_raises_def)

lemma retired_target_does_not_block:
  "case request_apply fake_strategy_runtime ''r'' ''t'' None None ([sample_version ''r'' RETIRED], fake_runtime_init ''x'') of
     (Inr res, (_, w')) \<Rightarrow> dr_result res = DEPLOY_FAILED_CLOSED \<and> \<not> fr_blocked w'
   | _ \<Rightarrow> False"
  by (simp add: rollout_simps sample_direction sample_version_def fake_runtime_init_def
      last_opt_def exc_reason_def restore_previous_def Let_def DeployFailure_def)

end
