(* ===== verification/Spec2Isabelle.thy ===== *)
theory Spec2Isabelle
  imports PipelineRuns TaskQueue WebRuns Console Safeguards StrategyExecution Transition Approval StrategyRollout
begin

text \<open>
  A verification library for the control and adapter services of StrategyLab v2 (package \<open>gaon\<close> under
  \<open>src/src/gaon\<close>): the code that decides which trading strategy is trusted, what it may execute, and
  how it reaches a target.

  \<^bold>\<open>The program.\<close> A strategy goes through a chain of services, each a small state machine over SQLite
  tables with an optional event store and metrics collector: a backtest is run once per fingerprint
  (\<open>adapters/backtest.py\<close>), validated (\<open>validation.py\<close>), compared with the champion (\<open>champion.py\<close>),
  promoted by an approval into the champion registry (\<open>champion_registry.py\<close>), tested forward on paper
  (\<open>paper_forward.py\<close>), revalidated (\<open>paper_revalidation.py\<close>), executed on paper only
  (\<open>strategy_execution.py\<close> over \<open>trading.py\<close>), packed for a runtime and approved (\<open>strategy_handoff.py\<close>)
  and deployed to a target (\<open>strategy_deployment.py\<close>). The release pipeline (\<open>runtime/v5_pipeline.py\<close>)
  runs the whole chain in one call, with two approvals on the way. Beside this chain stands the control plane
  (\<open>control/\<close>): the trading mode and its transitions, the one-shot approvals they need, the versions of
  the strategy and the rollout of a version to the running service; and the way a person decides on one:
  research runs that meet an absolute bar become versions that may be activated
  (\<open>strategy_candidate_promotion.py\<close>), an administrator enrolls a passkey with a grant made on the machine,
  logs in and signs the approval of one version (\<open>passkey_*.py\<close>), and the approval activates it, once
  (\<open>trusted_strategy_activation.py\<close>). The web interface (\<open>runtime/web_api.py\<close>) is where the browser of the
  administrator meets these services; the same server takes the reports of the paper research loop (trades,
  failure hypotheses, backtest results; \<open>runtime/paper_*_repository.py\<close>) and turns a backtest that passed into
  a version that may be activated, and it keeps the conversations of its users
  (\<open>runtime/conversation_lifecycle.py\<close>). Small pure safeguards stand beside all this: whether live positions
  allow a return to the demo account, what a market's authority may decide, what the log may show of a secret.

  \<^bold>\<open>Theories and sources.\<close>
  \<^item> \<open>Prelude\<close>: exceptions as values (\<open>pyerr\<close>, \<open>'a res\<close>), stateful operations that may raise after a
    mutation (\<open>opr\<close>), weakest preconditions (\<open>wp\<close>), invariants (\<open>keeps\<close>, \<open>frames\<close>, \<open>settles\<close>).
  \<^item> \<open>PyFloat\<close>, \<open>PyText\<close>, \<open>PyTime\<close>, \<open>Json\<close>, \<open>Sha256\<close>, \<open>Tables\<close>: the parts of Python and its library the code
    uses: doubles, strings and number texts, instants in ISO format, JSON trees, SHA-256, SQLite tables.
  \<^item> \<open>TradingMode\<close>, \<open>Approval\<close>, \<open>Transition\<close>, \<open>StrategyVersion\<close>, \<open>StrategyRollout\<close>: \<open>control/trading_mode.py\<close>,
    \<open>approval.py\<close>, \<open>transition.py\<close>, \<open>strategy_version.py\<close>, \<open>strategy_deployment.py\<close>.
  \<^item> \<open>EventStore\<close>: \<open>runtime/event_store.py\<close>. \<open>Env\<close>: the formats, events and metrics every service shares.
  \<^item> \<open>Trading\<close>, \<open>Backtest\<close>, \<open>Validation\<close>, \<open>Champion\<close>, \<open>ChampionRegistry\<close>, \<open>PaperForward\<close>,
    \<open>PaperRevalidation\<close>, \<open>StrategyExecution\<close>, \<open>StrategyHandoff\<close>, \<open>StrategyDeploy\<close>: the modules of
    \<open>adapters/\<close> in the order of the chain (\<open>StrategyDeploy\<close> is \<open>adapters/strategy_deployment.py\<close>).
  \<^item> \<open>JsonRead\<close>: \<open>json.loads\<close>, a scanner on the characters of a text, for the files the file target reads.
  \<^item> \<open>DeploymentRuns\<close>: the handoff and deployment services together, over every sequence of their calls.
  \<^item> \<open>Pipeline\<close>, \<open>PipelineRuns\<close>: \<open>runtime/v5_pipeline.py\<close>. Its state extends that of the deployment service with
    the tables of all services; each service runs on its part of it (\<open>pl_validation\<close>, \<open>pl_registry\<close>, ...). The
    body of \<open>run_demo\<close> is ten phases; an exception carries the run as the handler finds it.
  \<^item> \<open>TaskQueue\<close>: \<open>runtime/worker.py\<close>, the queue background workers lease their tasks from.
  \<^item> \<open>OneShot\<close>, \<open>Activation\<close>: transactions that roll back and things that are used up once;
    \<open>control/trusted_strategy_activation.py\<close> over \<open>runtime/strategy_version_repository.py\<close>.
  \<^item> \<open>Promotion\<close>: \<open>control/strategy_candidate_promotion.py\<close> and the stored runs it reads
    (\<open>research/multi_symbol.py\<close>). Its state extends that of \<open>Activation\<close> with the runs.
  \<^item> \<open>Passkeys\<close>: the fourteen modules \<open>control/passkey_*.py\<close>; its state extends that of \<open>Promotion\<close> with the
    grants, enrollments, challenges, credentials and sessions. \<open>PasskeyRuns\<close>, \<open>PasskeyTrust\<close>: these services
    over every sequence of calls (\<open>passkey_step\<close>), enrollment to activation.
  \<^item> \<open>AdminApi\<close>, \<open>AdminRuns\<close>: the administrator's routes of \<open>runtime/web_api.py\<close>, from the headers and the body
    of a request to the reply; what one request can do, as a sequence of calls of the passkey services.
  \<^item> \<open>PaperLedger\<close>, \<open>PaperResearch\<close>: the three ledgers; the aggregate of a family, the memories
    (\<open>research/self_improving.py\<close>), the reporting, reading and registering routes of \<open>web_api.py\<close>.
  \<^item> \<open>Conversations\<close>: the lifecycle of conversations over the rows of \<open>runtime/llm_conversation.py\<close>, and the routes
    of \<open>web_api.py\<close> that list, page, archive and delete.
  \<^item> \<open>Console\<close>, \<open>Safeguards\<close>: \<open>control/strategy_console.py\<close>; \<open>live_positions.py\<close>,
    \<open>multi_market_authority.py\<close>, \<open>credentials.py\<close>.
  \<^item> \<open>WebRuns\<close>: the server as a whole, over every sequence of requests and local calls (\<open>web_step\<close>).

  \<^bold>\<open>How state and operations correspond.\<close> A frozen dataclass is a record, its \<open>__post_init__\<close> a function
  \<open>mk_...\<close> that returns the record or the exception, an enum a datatype with its value strings. A
  repository is a record of tables; a table is an association list in rowid order and keeps each
  \<open>INSERT\<close>, \<open>INSERT OR REPLACE\<close>, upsert and \<open>UPDATE\<close> of the source apart. What a repository reads back is
  the decoder applied to the canonical JSON tree that was written (that \<open>json.loads\<close> reads this tree out of the
  printed text is \<open>dumps_read_back\<close>), so a value that does not survive
  its own encoding is not read back unchanged by definition: that it is, is proved. A service is a set
  of operations on a record that extends \<open>env\<close> with its repositories and its adapter; each operation is
  the whole method with its calls in order, events and metrics included, and returns the new state also
  when it raises. An adapter protocol is a record of operations over an unknown state, an argument of
  the service; the adapters of the source are instances.

  \<^bold>\<open>What the lemmas show.\<close>
  \<^item> Safety of the live path: a transition to live needs a valid one-shot ticket and passed gates, and
    every failure ends closed with entries blocked (\<open>Transition\<close>, \<open>Approval\<close>); live intents and live
    execution plans are always blocked (\<open>Trading\<close>, \<open>StrategyExecution\<close>).
  \<^item> The chain of trust: a validation that passes, a promotion, an approval, a revalidation, a handoff
    package, a deployment plan and a deployment each presuppose what the text of the code promises;
    where the code allows it the condition is an equivalence, not only an implication.
  \<^item> Invariants over every sequence of calls: the single active version and the append-only history,
    the champion history, the life of paper sessions (a step relation) and of handoff packages (a step
    relation: a decided package never changes), the tables of the execution runtime, the event log.
  \<^item> Failures: an adapter that raises is contained, a failed rollout leaves the version registry as it
    was, a deployment that fails after its application has returned is rolled back, and the status of the
    run says truly which operations succeeded. The file target keeps bytes, and its writes can be refused or
    break off: a success leaves exactly the package, a rollback exactly the bytes of before, a failed run
    the bytes of before or, when a write broke off, the beginning of the package. The locale \<open>deployment_target\<close> states what a rollback relies on, with
    the file target and the target in memory as interpretations; \<open>service_manager\<close>, \<open>entry_gate\<close> and
    \<open>keyed_store\<close> do the same for the service manager, the strategy runtime and the tables.
  \<^item> The composition: a call of the pipeline reports the run it stored; completed means both approvals, an
    approved package and a verified deployment; without both the target is not touched; completed stages
    are an initial part of the stage order and are never lost, over every sequence of calls.
  \<^item> The task queue: repeated leases give the available items in order of priority, each once (the locale
    \<open>lease_queue\<close>); reported failures are counted and bounded, executions that are lost are not; a recovery leaves nothing running and frees exactly
    what was lost; items are never dropped, over every sequence of calls.
  \<^item> Passkeys: every active version goes back to an activation on record, an approval challenge for exactly
    this actor, family and version that is used up, a credential, an enrollment and a grant; an approval
    that returns was signed; what is used up is never accepted again (the locale \<open>one_shot\<close>); a logout is
    final. The locales \<open>credential_invariant\<close>, \<open>row_invariant\<close> and \<open>table_invariant\<close> list the statements that
    the services are made of: a fact which each of them keeps is kept by every sequence of calls. They are
    interpreted with the tokens used, the revoked sessions, the logins behind the sessions and the registries.
  \<^item> The web interface: a request changes a registry only as a signed approval within a session, or by adding
    a candidate from a stored result that passed; every session goes back to a login; a logout is final.
  \<^item> Conversations: paging back reads the whole history, each message once and in order; a request touches the
    conversations of its user only; a deletion leaves nothing but the session's row. Safeguards and console: when
    the switch to demo is safe, that the authority fails closed, that no secret is left in a redacted text, that a
    panel shows its last call, that every action offered is one the registry carries out.
  \<^item> Reports: the contract of a ledger (the locale \<open>report_ledger\<close>, interpreted for the three), a report sent
    again, what a report changes in a summary and what it leaves alone, and what a registration takes from where.
  \<^item> Promotion and activation: which runs meet the bar, that a promotion only registers, once, and activates
    nothing, and exactly when an activation succeeds.
  \<^item> Round trips of the stored forms, bounds of scores and positions, totality of the evaluations,
    equivalence of paging with the full log.
  \<^item> Observed behaviour, each as a lemma at the end of its theory: a refused duplicate replaces the
    stored result of what it duplicates (trading, backtest, deployment), a rollback of a rollback
    returns to the newer champion, a drawdown that is not a number passes every gate, a pipeline run that waits for the deployment approval can never be completed, and
    others.

  \<^bold>\<open>Bounds and fuel.\<close> The loops of the modelled code run over lists and are structural recursions; the
  search for a free version label ends because the labels it tries are distinct, and is proved to. Fuel
  appears in printing a double (\<open>PyText\<close>): at most 17 digits, which suffice for any double, and at
  most 400 leading zeros, more than the smallest double has; and in reading JSON (\<open>JsonRead\<close>): twice the length
  of the text, which is proved to be enough (\<open>fuel_enough\<close>). Strings are lists of 8-bit characters, so
  text outside Latin-1 is outside the model. A double is a rational number, an infinity or NaN; sums and
  products are rounded to a double as IEEE 754 does, decimal literals are the nearest double, and signed
  zeros are not told apart. Python integers are unbounded, as in the language. SHA-256 is defined in
  full, on 32-bit words.

  \<^bold>\<open>What is not modelled.\<close> SQLite itself and threads: a call runs alone, and a transaction that raises
  restores the tables. The library \<open>webauthn\<close> is a record of functions that every call takes (\<open>webauthn\<close> in
  \<open>Passkeys\<close>), nothing is assumed of it; so is \<open>json.loads\<close> on what a browser sent. The time of
  day and identifiers drawn at random are arguments. A stored text is the tree that was written. The tests
  for white space, case and digits are those of ASCII, and the sum of doubles is the plain one from left to
  right, as in Python up to 3.11. Of the web server: the socket, the reading and the limits of a body, the
  decoding of a query, the chat itself and the routes that show its state; requests run one after the other. \<open>LocalProcessBacktestAdapter\<close> (a subprocess), \<open>safe_handoff_export_path\<close> and
  path resolution in general, the read-only views of the older trading adapter. The command line, the
  conversation, the integrations, the knowledge and research packages: prompts,
  network clients, text rendering and numerical experiments over third-party libraries. The older
  package \<open>src/src/strategylab\<close>. Of the file system: a file of the file target that exists can be read, and
  whatever it was left with stays. The nesting at which Python gives up reading JSON, and its limit of digits.

  \<^bold>\<open>Plan.\<close> What could follow: the status and storage routes of the web interface, the metrics collector (\<open>runtime/metrics.py\<close>), the file stores of \<open>cognitive\<close>, \<open>learning\<close>
  and \<open>storage\<close>, then the older package.
\<close>

end
